(* ===== verification/Lasso_Errors.thy ===== *)
theory Lasso_Errors
  imports Main
begin

text \<open>
  The return codes of \<^verbatim>\<open>lasso/errors.h\<close>, under their C names.  Zero is success, a negative
  code is an error of the caller or the library, a positive code an error the peer or the message
  causes.
\<close>

abbreviation LASSO_ERROR_UNDEFINED :: int where "LASSO_ERROR_UNDEFINED \<equiv> -1"
abbreviation LASSO_ERROR_UNIMPLEMENTED :: int where "LASSO_ERROR_UNIMPLEMENTED \<equiv> -2"
abbreviation LASSO_ERROR_OUT_OF_MEMORY :: int where "LASSO_ERROR_OUT_OF_MEMORY \<equiv> -3"
abbreviation LASSO_ERROR_CAST_FAILED :: int where "LASSO_ERROR_CAST_FAILED \<equiv> -4"
abbreviation LASSO_XML_ERROR_NODE_NOT_FOUND :: int where "LASSO_XML_ERROR_NODE_NOT_FOUND \<equiv> -10"
abbreviation LASSO_XML_ERROR_INVALID_FILE :: int where "LASSO_XML_ERROR_INVALID_FILE \<equiv> -14"
abbreviation LASSO_XML_ERROR_OBJECT_CONSTRUCTION_FAILED :: int where "LASSO_XML_ERROR_OBJECT_CONSTRUCTION_FAILED \<equiv> -15"
abbreviation LASSO_DS_ERROR_SIGNATURE_NOT_FOUND :: int where "LASSO_DS_ERROR_SIGNATURE_NOT_FOUND \<equiv> 101"
abbreviation LASSO_DS_ERROR_INVALID_SIGNATURE :: int where "LASSO_DS_ERROR_INVALID_SIGNATURE \<equiv> 102"
abbreviation LASSO_DS_ERROR_SIGNATURE_TMPL_CREATION_FAILED :: int where "LASSO_DS_ERROR_SIGNATURE_TMPL_CREATION_FAILED \<equiv> -103"
abbreviation LASSO_DS_ERROR_CONTEXT_CREATION_FAILED :: int where "LASSO_DS_ERROR_CONTEXT_CREATION_FAILED \<equiv> -104"
abbreviation LASSO_DS_ERROR_PUBLIC_KEY_LOAD_FAILED :: int where "LASSO_DS_ERROR_PUBLIC_KEY_LOAD_FAILED \<equiv> -105"
abbreviation LASSO_DS_ERROR_PRIVATE_KEY_LOAD_FAILED :: int where "LASSO_DS_ERROR_PRIVATE_KEY_LOAD_FAILED \<equiv> -106"
abbreviation LASSO_DS_ERROR_CERTIFICATE_LOAD_FAILED :: int where "LASSO_DS_ERROR_CERTIFICATE_LOAD_FAILED \<equiv> -107"
abbreviation LASSO_DS_ERROR_SIGNATURE_FAILED :: int where "LASSO_DS_ERROR_SIGNATURE_FAILED \<equiv> -108"
abbreviation LASSO_DS_ERROR_KEYS_MNGR_CREATION_FAILED :: int where "LASSO_DS_ERROR_KEYS_MNGR_CREATION_FAILED \<equiv> -109"
abbreviation LASSO_DS_ERROR_KEYS_MNGR_INIT_FAILED :: int where "LASSO_DS_ERROR_KEYS_MNGR_INIT_FAILED \<equiv> -110"
abbreviation LASSO_DS_ERROR_SIGNATURE_VERIFICATION_FAILED :: int where "LASSO_DS_ERROR_SIGNATURE_VERIFICATION_FAILED \<equiv> -111"
abbreviation LASSO_DS_ERROR_CA_CERT_CHAIN_LOAD_FAILED :: int where "LASSO_DS_ERROR_CA_CERT_CHAIN_LOAD_FAILED \<equiv> -112"
abbreviation LASSO_DS_ERROR_INVALID_SIGALG :: int where "LASSO_DS_ERROR_INVALID_SIGALG \<equiv> -113"
abbreviation LASSO_DS_ERROR_DIGEST_COMPUTE_FAILED :: int where "LASSO_DS_ERROR_DIGEST_COMPUTE_FAILED \<equiv> -114"
abbreviation LASSO_DS_ERROR_SIGNATURE_TEMPLATE_NOT_FOUND :: int where "LASSO_DS_ERROR_SIGNATURE_TEMPLATE_NOT_FOUND \<equiv> -115"
abbreviation LASSO_DS_ERROR_TOO_MUCH_REFERENCES :: int where "LASSO_DS_ERROR_TOO_MUCH_REFERENCES \<equiv> -116"
abbreviation LASSO_DS_ERROR_INVALID_REFERENCE_FOR_SAML :: int where "LASSO_DS_ERROR_INVALID_REFERENCE_FOR_SAML \<equiv> -117"
abbreviation LASSO_DS_ERROR_DECRYPTION_FAILED :: int where "LASSO_DS_ERROR_DECRYPTION_FAILED \<equiv> 118"
abbreviation LASSO_DS_ERROR_ENCRYPTION_FAILED :: int where "LASSO_DS_ERROR_ENCRYPTION_FAILED \<equiv> -119"
abbreviation LASSO_DS_ERROR_DECRYPTION_FAILED_MISSING_PRIVATE_KEY :: int where "LASSO_DS_ERROR_DECRYPTION_FAILED_MISSING_PRIVATE_KEY \<equiv> 120"
abbreviation LASSO_SERVER_ERROR_PROVIDER_NOT_FOUND :: int where "LASSO_SERVER_ERROR_PROVIDER_NOT_FOUND \<equiv> -201"
abbreviation LASSO_SERVER_ERROR_ADD_PROVIDER_FAILED :: int where "LASSO_SERVER_ERROR_ADD_PROVIDER_FAILED \<equiv> -202"
abbreviation LASSO_SERVER_ERROR_ADD_PROVIDER_PROTOCOL_MISMATCH :: int where "LASSO_SERVER_ERROR_ADD_PROVIDER_PROTOCOL_MISMATCH \<equiv> -203"
abbreviation LASSO_SERVER_ERROR_SET_ENCRYPTION_PRIVATE_KEY_FAILED :: int where "LASSO_SERVER_ERROR_SET_ENCRYPTION_PRIVATE_KEY_FAILED \<equiv> 204"
abbreviation LASSO_SERVER_ERROR_INVALID_XML :: int where "LASSO_SERVER_ERROR_INVALID_XML \<equiv> -205"
abbreviation LASSO_SERVER_ERROR_NO_PROVIDER_LOADED :: int where "LASSO_SERVER_ERROR_NO_PROVIDER_LOADED \<equiv> 206"
abbreviation LASSO_LOGOUT_ERROR_UNSUPPORTED_PROFILE :: int where "LASSO_LOGOUT_ERROR_UNSUPPORTED_PROFILE \<equiv> -301"
abbreviation LASSO_LOGOUT_ERROR_REQUEST_DENIED :: int where "LASSO_LOGOUT_ERROR_REQUEST_DENIED \<equiv> 302"
abbreviation LASSO_LOGOUT_ERROR_FEDERATION_NOT_FOUND :: int where "LASSO_LOGOUT_ERROR_FEDERATION_NOT_FOUND \<equiv> 303"
abbreviation LASSO_LOGOUT_ERROR_UNKNOWN_PRINCIPAL :: int where "LASSO_LOGOUT_ERROR_UNKNOWN_PRINCIPAL \<equiv> 304"
abbreviation LASSO_LOGOUT_ERROR_PARTIAL_LOGOUT :: int where "LASSO_LOGOUT_ERROR_PARTIAL_LOGOUT \<equiv> 305"
abbreviation LASSO_PROFILE_ERROR_INVALID_QUERY :: int where "LASSO_PROFILE_ERROR_INVALID_QUERY \<equiv> -401"
abbreviation LASSO_PROFILE_ERROR_INVALID_POST_MSG :: int where "LASSO_PROFILE_ERROR_INVALID_POST_MSG \<equiv> -402"
abbreviation LASSO_PROFILE_ERROR_INVALID_SOAP_MSG :: int where "LASSO_PROFILE_ERROR_INVALID_SOAP_MSG \<equiv> -403"
abbreviation LASSO_PROFILE_ERROR_MISSING_REQUEST :: int where "LASSO_PROFILE_ERROR_MISSING_REQUEST \<equiv> -404"
abbreviation LASSO_PROFILE_ERROR_INVALID_HTTP_METHOD :: int where "LASSO_PROFILE_ERROR_INVALID_HTTP_METHOD \<equiv> -405"
abbreviation LASSO_PROFILE_ERROR_INVALID_PROTOCOLPROFILE :: int where "LASSO_PROFILE_ERROR_INVALID_PROTOCOLPROFILE \<equiv> -406"
abbreviation LASSO_PROFILE_ERROR_INVALID_MSG :: int where "LASSO_PROFILE_ERROR_INVALID_MSG \<equiv> -407"
abbreviation LASSO_PROFILE_ERROR_MISSING_REMOTE_PROVIDERID :: int where "LASSO_PROFILE_ERROR_MISSING_REMOTE_PROVIDERID \<equiv> -408"
abbreviation LASSO_PROFILE_ERROR_UNSUPPORTED_PROFILE :: int where "LASSO_PROFILE_ERROR_UNSUPPORTED_PROFILE \<equiv> -409"
abbreviation LASSO_PROFILE_ERROR_UNKNOWN_PROFILE_URL :: int where "LASSO_PROFILE_ERROR_UNKNOWN_PROFILE_URL \<equiv> -410"
abbreviation LASSO_PROFILE_ERROR_IDENTITY_NOT_FOUND :: int where "LASSO_PROFILE_ERROR_IDENTITY_NOT_FOUND \<equiv> -411"
abbreviation LASSO_PROFILE_ERROR_FEDERATION_NOT_FOUND :: int where "LASSO_PROFILE_ERROR_FEDERATION_NOT_FOUND \<equiv> -412"
abbreviation LASSO_PROFILE_ERROR_NAME_IDENTIFIER_NOT_FOUND :: int where "LASSO_PROFILE_ERROR_NAME_IDENTIFIER_NOT_FOUND \<equiv> -413"
abbreviation LASSO_PROFILE_ERROR_BUILDING_QUERY_FAILED :: int where "LASSO_PROFILE_ERROR_BUILDING_QUERY_FAILED \<equiv> -414"
abbreviation LASSO_PROFILE_ERROR_BUILDING_REQUEST_FAILED :: int where "LASSO_PROFILE_ERROR_BUILDING_REQUEST_FAILED \<equiv> -415"
abbreviation LASSO_PROFILE_ERROR_BUILDING_MESSAGE_FAILED :: int where "LASSO_PROFILE_ERROR_BUILDING_MESSAGE_FAILED \<equiv> -416"
abbreviation LASSO_PROFILE_ERROR_BUILDING_RESPONSE_FAILED :: int where "LASSO_PROFILE_ERROR_BUILDING_RESPONSE_FAILED \<equiv> -417"
abbreviation LASSO_PROFILE_ERROR_SESSION_NOT_FOUND :: int where "LASSO_PROFILE_ERROR_SESSION_NOT_FOUND \<equiv> -418"
abbreviation LASSO_PROFILE_ERROR_BAD_IDENTITY_DUMP :: int where "LASSO_PROFILE_ERROR_BAD_IDENTITY_DUMP \<equiv> -419"
abbreviation LASSO_PROFILE_ERROR_BAD_SESSION_DUMP :: int where "LASSO_PROFILE_ERROR_BAD_SESSION_DUMP \<equiv> -420"
abbreviation LASSO_PROFILE_ERROR_MISSING_RESPONSE :: int where "LASSO_PROFILE_ERROR_MISSING_RESPONSE \<equiv> -421"
abbreviation LASSO_PROFILE_ERROR_MISSING_STATUS_CODE :: int where "LASSO_PROFILE_ERROR_MISSING_STATUS_CODE \<equiv> -422"
abbreviation LASSO_PROFILE_ERROR_MISSING_ARTIFACT :: int where "LASSO_PROFILE_ERROR_MISSING_ARTIFACT \<equiv> -423"
abbreviation LASSO_PROFILE_ERROR_MISSING_RESOURCE_OFFERING :: int where "LASSO_PROFILE_ERROR_MISSING_RESOURCE_OFFERING \<equiv> 424"
abbreviation LASSO_PROFILE_ERROR_MISSING_SERVICE_DESCRIPTION :: int where "LASSO_PROFILE_ERROR_MISSING_SERVICE_DESCRIPTION \<equiv> 425"
abbreviation LASSO_PROFILE_ERROR_MISSING_SERVICE_TYPE :: int where "LASSO_PROFILE_ERROR_MISSING_SERVICE_TYPE \<equiv> 426"
abbreviation LASSO_PROFILE_ERROR_MISSING_ASSERTION :: int where "LASSO_PROFILE_ERROR_MISSING_ASSERTION \<equiv> -427"
abbreviation LASSO_PROFILE_ERROR_MISSING_SUBJECT :: int where "LASSO_PROFILE_ERROR_MISSING_SUBJECT \<equiv> -428"
abbreviation LASSO_PROFILE_ERROR_MISSING_NAME_IDENTIFIER :: int where "LASSO_PROFILE_ERROR_MISSING_NAME_IDENTIFIER \<equiv> -429"
abbreviation LASSO_PROFILE_ERROR_INVALID_ARTIFACT :: int where "LASSO_PROFILE_ERROR_INVALID_ARTIFACT \<equiv> -430"
abbreviation LASSO_PROFILE_ERROR_MISSING_ENCRYPTION_PRIVATE_KEY :: int where "LASSO_PROFILE_ERROR_MISSING_ENCRYPTION_PRIVATE_KEY \<equiv> -431"
abbreviation LASSO_PROFILE_ERROR_STATUS_NOT_SUCCESS :: int where "LASSO_PROFILE_ERROR_STATUS_NOT_SUCCESS \<equiv> -432"
abbreviation LASSO_PROFILE_ERROR_MISSING_ISSUER :: int where "LASSO_PROFILE_ERROR_MISSING_ISSUER \<equiv> -433"
abbreviation LASSO_PROFILE_ERROR_MISSING_SERVICE_INSTANCE :: int where "LASSO_PROFILE_ERROR_MISSING_SERVICE_INSTANCE \<equiv> -434"
abbreviation LASSO_PROFILE_ERROR_MISSING_ENDPOINT_REFERENCE :: int where "LASSO_PROFILE_ERROR_MISSING_ENDPOINT_REFERENCE \<equiv> -435"
abbreviation LASSO_PROFILE_ERROR_MISSING_ENDPOINT_REFERENCE_ADDRESS :: int where "LASSO_PROFILE_ERROR_MISSING_ENDPOINT_REFERENCE_ADDRESS \<equiv> -436"
abbreviation LASSO_PROFILE_ERROR_INVALID_ISSUER :: int where "LASSO_PROFILE_ERROR_INVALID_ISSUER \<equiv> -437"
abbreviation LASSO_PROFILE_ERROR_MISSING_SERVER :: int where "LASSO_PROFILE_ERROR_MISSING_SERVER \<equiv> -438"
abbreviation LASSO_PROFILE_ERROR_UNKNOWN_PROVIDER :: int where "LASSO_PROFILE_ERROR_UNKNOWN_PROVIDER \<equiv> 439"
abbreviation LASSO_PROFILE_ERROR_CANNOT_VERIFY_SIGNATURE :: int where "LASSO_PROFILE_ERROR_CANNOT_VERIFY_SIGNATURE \<equiv> 440"
abbreviation LASSO_PROFILE_ERROR_CANNOT_FIND_A_PROVIDER :: int where "LASSO_PROFILE_ERROR_CANNOT_FIND_A_PROVIDER \<equiv> -441"
abbreviation LASSO_PROFILE_ERROR_RESPONSE_DOES_NOT_MATCH_REQUEST :: int where "LASSO_PROFILE_ERROR_RESPONSE_DOES_NOT_MATCH_REQUEST \<equiv> -442"
abbreviation LASSO_PROFILE_ERROR_INVALID_REQUEST :: int where "LASSO_PROFILE_ERROR_INVALID_REQUEST \<equiv> 443"
abbreviation LASSO_PROFILE_ERROR_INVALID_RESPONSE :: int where "LASSO_PROFILE_ERROR_INVALID_RESPONSE \<equiv> 444"
abbreviation LASSO_PROFILE_ERROR_UNSUPPORTED_BINDING :: int where "LASSO_PROFILE_ERROR_UNSUPPORTED_BINDING \<equiv> 445"
abbreviation LASSO_PROFILE_ERROR_INVALID_ASSERTION_CONDITIONS :: int where "LASSO_PROFILE_ERROR_INVALID_ASSERTION_CONDITIONS \<equiv> 446"
abbreviation LASSO_PROFILE_ERROR_INVALID_ASSERTION :: int where "LASSO_PROFILE_ERROR_INVALID_ASSERTION \<equiv> 447"
abbreviation LASSO_PROFILE_ERROR_UNKNOWN_ISSUER :: int where "LASSO_PROFILE_ERROR_UNKNOWN_ISSUER \<equiv> 448"
abbreviation LASSO_PROFILE_ERROR_ISSUER_IS_NOT_AN_IDP :: int where "LASSO_PROFILE_ERROR_ISSUER_IS_NOT_AN_IDP \<equiv> 449"
abbreviation LASSO_PROFILE_ERROR_REQUEST_DENIED :: int where "LASSO_PROFILE_ERROR_REQUEST_DENIED \<equiv> 450"
abbreviation LASSO_PROFILE_ERROR_ENDPOINT_INDEX_NOT_FOUND :: int where "LASSO_PROFILE_ERROR_ENDPOINT_INDEX_NOT_FOUND \<equiv> 451"
abbreviation LASSO_PROFILE_ERROR_INVALID_IDP_LIST :: int where "LASSO_PROFILE_ERROR_INVALID_IDP_LIST \<equiv> 452"
abbreviation LASSO_PARAM_ERROR_BAD_TYPE_OR_NULL_OBJ :: int where "LASSO_PARAM_ERROR_BAD_TYPE_OR_NULL_OBJ \<equiv> -501"
abbreviation LASSO_PARAM_ERROR_INVALID_VALUE :: int where "LASSO_PARAM_ERROR_INVALID_VALUE \<equiv> -502"
abbreviation LASSO_PARAM_ERROR_CHECK_FAILED :: int where "LASSO_PARAM_ERROR_CHECK_FAILED \<equiv> -503"
abbreviation LASSO_PARAM_ERROR_NON_INITIALIZED_OBJECT :: int where "LASSO_PARAM_ERROR_NON_INITIALIZED_OBJECT \<equiv> -504"
abbreviation LASSO_LOGIN_ERROR_FEDERATION_NOT_FOUND :: int where "LASSO_LOGIN_ERROR_FEDERATION_NOT_FOUND \<equiv> 601"
abbreviation LASSO_LOGIN_ERROR_CONSENT_NOT_OBTAINED :: int where "LASSO_LOGIN_ERROR_CONSENT_NOT_OBTAINED \<equiv> 602"
abbreviation LASSO_LOGIN_ERROR_INVALID_NAMEIDPOLICY :: int where "LASSO_LOGIN_ERROR_INVALID_NAMEIDPOLICY \<equiv> -603"
abbreviation LASSO_LOGIN_ERROR_REQUEST_DENIED :: int where "LASSO_LOGIN_ERROR_REQUEST_DENIED \<equiv> 604"
abbreviation LASSO_LOGIN_ERROR_INVALID_SIGNATURE :: int where "LASSO_LOGIN_ERROR_INVALID_SIGNATURE \<equiv> 605"
abbreviation LASSO_LOGIN_ERROR_UNSIGNED_AUTHN_REQUEST :: int where "LASSO_LOGIN_ERROR_UNSIGNED_AUTHN_REQUEST \<equiv> 606"
abbreviation LASSO_LOGIN_ERROR_STATUS_NOT_SUCCESS :: int where "LASSO_LOGIN_ERROR_STATUS_NOT_SUCCESS \<equiv> 607"
abbreviation LASSO_LOGIN_ERROR_UNKNOWN_PRINCIPAL :: int where "LASSO_LOGIN_ERROR_UNKNOWN_PRINCIPAL \<equiv> 608"
abbreviation LASSO_LOGIN_ERROR_NO_DEFAULT_ENDPOINT :: int where "LASSO_LOGIN_ERROR_NO_DEFAULT_ENDPOINT \<equiv> 609"
abbreviation LASSO_LOGIN_ERROR_ASSERTION_REPLAY :: int where "LASSO_LOGIN_ERROR_ASSERTION_REPLAY \<equiv> 610"
abbreviation LASSO_LOGIN_ERROR_ASSERTION_DOES_NOT_MATCH_REQUEST_ID :: int where "LASSO_LOGIN_ERROR_ASSERTION_DOES_NOT_MATCH_REQUEST_ID \<equiv> 611"
abbreviation LASSO_LOGIN_ERROR_INVALID_ASSERTION_SIGNATURE :: int where "LASSO_LOGIN_ERROR_INVALID_ASSERTION_SIGNATURE \<equiv> 612"
abbreviation LASSO_DEFEDERATION_ERROR_MISSING_NAME_IDENTIFIER :: int where "LASSO_DEFEDERATION_ERROR_MISSING_NAME_IDENTIFIER \<equiv> -700"
abbreviation LASSO_SOAP_ERROR_REDIRECT_REQUEST_FAULT :: int where "LASSO_SOAP_ERROR_REDIRECT_REQUEST_FAULT \<equiv> 800"
abbreviation LASSO_SOAP_ERROR_MISSING_ENVELOPE :: int where "LASSO_SOAP_ERROR_MISSING_ENVELOPE \<equiv> -801"
abbreviation LASSO_SOAP_ERROR_MISSING_HEADER :: int where "LASSO_SOAP_ERROR_MISSING_HEADER \<equiv> -802"
abbreviation LASSO_SOAP_ERROR_MISSING_BODY :: int where "LASSO_SOAP_ERROR_MISSING_BODY \<equiv> -803"
abbreviation LASSO_SOAP_ERROR_MISSING_SOAP_FAULT_DETAIL :: int where "LASSO_SOAP_ERROR_MISSING_SOAP_FAULT_DETAIL \<equiv> -804"
abbreviation LASSO_NAME_IDENTIFIER_MAPPING_ERROR_MISSING_TARGET_NAMESPACE :: int where "LASSO_NAME_IDENTIFIER_MAPPING_ERROR_MISSING_TARGET_NAMESPACE \<equiv> -900"
abbreviation LASSO_NAME_IDENTIFIER_MAPPING_ERROR_FORBIDDEN_CALL_ON_THIS_SIDE :: int where "LASSO_NAME_IDENTIFIER_MAPPING_ERROR_FORBIDDEN_CALL_ON_THIS_SIDE \<equiv> -901"
abbreviation LASSO_NAME_IDENTIFIER_MAPPING_ERROR_MISSING_TARGET_IDENTIFIER :: int where "LASSO_NAME_IDENTIFIER_MAPPING_ERROR_MISSING_TARGET_IDENTIFIER \<equiv> -902"
abbreviation LASSO_REGISTRY_ERROR_KEY_EXISTS :: int where "LASSO_REGISTRY_ERROR_KEY_EXISTS \<equiv> -1400"
abbreviation LASSO_PROVIDER_ERROR_MISSING_PUBLIC_KEY :: int where "LASSO_PROVIDER_ERROR_MISSING_PUBLIC_KEY \<equiv> -1500"
abbreviation LASSO_ASSERTION_QUERY_ERROR_ATTRIBUTE_REQUEST_ALREADY_EXIST :: int where "LASSO_ASSERTION_QUERY_ERROR_ATTRIBUTE_REQUEST_ALREADY_EXIST \<equiv> 1901"
abbreviation LASSO_ASSERTION_QUERY_ERROR_NOT_AN_ATTRIBUTE_QUERY :: int where "LASSO_ASSERTION_QUERY_ERROR_NOT_AN_ATTRIBUTE_QUERY \<equiv> 1902"
abbreviation LASSO_XML_ERROR_NODE_CONTENT_NOT_FOUND :: int where "LASSO_XML_ERROR_NODE_CONTENT_NOT_FOUND \<equiv> -11"
abbreviation LASSO_XML_ERROR_ATTR_NOT_FOUND :: int where "LASSO_XML_ERROR_ATTR_NOT_FOUND \<equiv> -12"
abbreviation LASSO_XML_ERROR_ATTR_VALUE_INVALID :: int where "LASSO_XML_ERROR_ATTR_VALUE_INVALID \<equiv> -18"
abbreviation LASSO_PAOS_ERROR_MISSING_REQUEST :: int where "LASSO_PAOS_ERROR_MISSING_REQUEST \<equiv> -2101"
abbreviation LASSO_PAOS_ERROR_MISSING_RESPONSE_CONSUMER_URL :: int where "LASSO_PAOS_ERROR_MISSING_RESPONSE_CONSUMER_URL \<equiv> -2103"
abbreviation LASSO_ECP_ERROR_MISSING_REQUEST :: int where "LASSO_ECP_ERROR_MISSING_REQUEST \<equiv> -2201"
abbreviation LASSO_ECP_ERROR_MISSING_RESPONSE :: int where "LASSO_ECP_ERROR_MISSING_RESPONSE \<equiv> -2202"
abbreviation LASSO_ECP_ERROR_MISSING_AUTHN_REQUEST :: int where "LASSO_ECP_ERROR_MISSING_AUTHN_REQUEST \<equiv> -2204"
abbreviation LASSO_ECP_ERROR_MISSING_SAML_RESPONSE :: int where "LASSO_ECP_ERROR_MISSING_SAML_RESPONSE \<equiv> -2205"
abbreviation LASSO_ECP_ERROR_ASSERTION_CONSUMER_URL_MISMATCH :: int where "LASSO_ECP_ERROR_ASSERTION_CONSUMER_URL_MISMATCH \<equiv> -2206"

end
