(* ===== verification/Lasso_Prelude.thy ===== *)
theory Lasso_Prelude
  imports Main "HOL-Library.AList" Lasso_Errors
begin

text \<open>
  What the components of the library share: the GLib hash table as an association list with the
  interface its clients rely on and the string helpers of \<^verbatim>\<open>lasso/utils.h\<close>, the return-code
  idiom of the C code and the error codes of \<^verbatim>\<open>lasso/errors.h\<close>.

  A C pointer that may be \<^verbatim>\<open>NULL\<close> is an option.  An object that the C code owns is a value; a
  function that updates it returns it.  A function that returns \<^verbatim>\<open>int\<close> returns an \<^typ>\<open>int\<close>,
  zero for success.
\<close>

named_theorems ght_simps \<open>laws of the hash table\<close>
named_theorems rc_simps \<open>unfolding of the return-code idiom\<close>

type_synonym str = string
type_synonym cstr = "string option"

section \<open>Strings\<close>

text \<open>\<^verbatim>\<open>lasso_strisequal\<close>, \<^verbatim>\<open>lasso_strisnotequal\<close> and \<^verbatim>\<open>lasso_strisempty\<close> accept
  \<^verbatim>\<open>NULL\<close>: two \<^verbatim>\<open>NULL\<close> are equal (\<^verbatim>\<open>g_strcmp0\<close>).\<close>

definition lasso_strisequal :: "cstr \<Rightarrow> cstr \<Rightarrow> bool" where
  "lasso_strisequal a b = (a = b)"

definition lasso_strisnotequal :: "cstr \<Rightarrow> cstr \<Rightarrow> bool" where
  "lasso_strisnotequal a b = (\<not> lasso_strisequal a b)"

definition lasso_strisempty :: "cstr \<Rightarrow> bool" where
  "lasso_strisempty s = (s = None \<or> s = Some [])"

lemma lasso_strisequal_refl [simp]: "lasso_strisequal a a"
  by (simp add: lasso_strisequal_def)

lemma lasso_strisnotequal_iff [simp]: "lasso_strisnotequal a b \<longleftrightarrow> a \<noteq> b"
  by (simp add: lasso_strisnotequal_def lasso_strisequal_def)

lemma lasso_strisequal_iff [simp]: "lasso_strisequal a b \<longleftrightarrow> a = b"
  by (simp add: lasso_strisequal_def)

lemma lasso_strisempty_simps [simp]:
  "lasso_strisempty None" "lasso_strisempty (Some s) \<longleftrightarrow> s = []"
  by (simp_all add: lasso_strisempty_def)

section \<open>Lists\<close>

lemma in_map_filter: "y \<in> set (List.map_filter f xs) \<longleftrightarrow> (\<exists>x \<in> set xs. f x = Some y)"
  by (force simp: List.map_filter_def)

lemma map_filter_Nil_iff: "List.map_filter f xs = [] \<longleftrightarrow> (\<forall>x \<in> set xs. f x = None)"
  by (auto simp: List.map_filter_def filter_empty_conv)

section \<open>Hash tables\<close>

text \<open>A \<^verbatim>\<open>GHashTable\<close> is an association list with distinct keys.  Its order stands for the order
  in which GLib enumerates the table, which GLib leaves unspecified: a theorem that mentions the
  order holds for every enumeration.  \<^verbatim>\<open>g_hash_table_insert\<close> replaces the value of a key that is
  there, \<^verbatim>\<open>g_hash_table_remove\<close> answers whether the key was there.\<close>

type_synonym ('k, 'v) ghash = "('k \<times> 'v) list"

definition ght_lookup :: "('k, 'v) ghash \<Rightarrow> 'k \<Rightarrow> 'v option" where
  "ght_lookup t k = map_of t k"

definition ght_insert :: "'k \<Rightarrow> 'v \<Rightarrow> ('k, 'v) ghash \<Rightarrow> ('k, 'v) ghash" where
  "ght_insert k v t = AList.update k v t"

definition ght_remove :: "'k \<Rightarrow> ('k, 'v) ghash \<Rightarrow> ('k, 'v) ghash" where
  "ght_remove k t = AList.delete k t"

definition ght_keys :: "('k, 'v) ghash \<Rightarrow> 'k list" where
  "ght_keys t = map fst t"

definition ght_values :: "('k, 'v) ghash \<Rightarrow> 'v list" where
  "ght_values t = map snd t"

definition ght_inv :: "('k, 'v) ghash \<Rightarrow> bool" where
  "ght_inv t = distinct (map fst t)"

text \<open>The contract of the hash table, as the components use it.\<close>

locale hash_table =
  fixes lookup :: "'t \<Rightarrow> 'k \<Rightarrow> 'v option"
    and insert :: "'k \<Rightarrow> 'v \<Rightarrow> 't \<Rightarrow> 't"
    and remove :: "'k \<Rightarrow> 't \<Rightarrow> 't"
    and empty :: 't
    and inv :: "'t \<Rightarrow> bool"
  assumes lookup_empty: "lookup empty k = None"
    and lookup_insert: "lookup (insert k v t) l = (if k = l then Some v else lookup t l)"
    and lookup_remove: "lookup (remove k t) l = (if k = l then None else lookup t l)"
    and inv_empty: "inv empty"
    and inv_insert: "inv t \<Longrightarrow> inv (insert k v t)"
    and inv_remove: "inv t \<Longrightarrow> inv (remove k t)"
begin

lemma lookup_insert_same: "lookup (insert k v t) k = Some v"
  by (simp add: lookup_insert)

lemma lookup_remove_same: "lookup (remove k t) k = None"
  by (simp add: lookup_remove)

lemma remove_after_insert: "lookup (remove k (insert k v t)) = lookup (remove k t)"
  by (rule ext) (simp add: lookup_insert lookup_remove)

lemma insert_overwrites: "lookup (insert k v (insert k w t)) = lookup (insert k v t)"
  by (rule ext) (simp add: lookup_insert)

lemma inserts_commute:
  "k \<noteq> l \<Longrightarrow> lookup (insert k v (insert l w t)) = lookup (insert l w (insert k v t))"
  by (rule ext) (auto simp: lookup_insert)

lemma inv_fold_insert: "inv t \<Longrightarrow> inv (fold (\<lambda>x. insert (f x) (g x)) xs t)"
  by (induction xs arbitrary: t) (simp_all add: inv_insert)

lemma lookup_fold_insert_other:
  "k \<notin> f ` set xs \<Longrightarrow> lookup (fold (\<lambda>x. insert (f x) (g x)) xs t) k = lookup t k"
  by (induction xs arbitrary: t) (auto simp: lookup_insert)

lemma lookup_fold_insert:
  "distinct (map f xs) \<Longrightarrow> x \<in> set xs \<Longrightarrow>
     lookup (fold (\<lambda>x. insert (f x) (g x)) xs t) (f x) = Some (g x)"
proof (induction xs arbitrary: t)
  case (Cons y ys)
  show ?case
  proof (cases "x = y")
    case True
    with Cons.prems(1) show ?thesis
      by (simp add: lookup_fold_insert_other lookup_insert_same)
  next
    case False
    with Cons show ?thesis by simp
  qed
qed simp

end

interpretation ght: hash_table ght_lookup ght_insert ght_remove "[]" ght_inv
  by unfold_locales
    (auto simp: ght_lookup_def ght_insert_def ght_remove_def ght_inv_def update_conv' delete_conv'
       distinct_update distinct_delete)

lemmas ght_laws [ght_simps, simp] =
  ght.lookup_empty ght.lookup_insert ght.lookup_remove ght.inv_empty

lemmas ght_inv_intros [intro] = ght.inv_insert ght.inv_remove

lemma ght_keys_lookup: "k \<in> set (ght_keys t) \<longleftrightarrow> ght_lookup t k \<noteq> None"
  by (force simp: ght_keys_def ght_lookup_def map_of_eq_None_iff)

lemma ght_lookup_in: "ght_lookup t k = Some v \<Longrightarrow> (k, v) \<in> set t"
  by (simp add: ght_lookup_def map_of_SomeD)

lemma ght_in_lookup: "ght_inv t \<Longrightarrow> (k, v) \<in> set t \<Longrightarrow> ght_lookup t k = Some v"
  by (simp add: ght_lookup_def ght_inv_def)

lemma ght_lookup_Nil_iff: "(\<forall>k. ght_lookup t k = None) \<longleftrightarrow> t = []"
  by (cases t) (auto simp: ght_lookup_def split: if_splits)

lemma set_ght_insert: "ght_inv t \<Longrightarrow> set (ght_insert k v t) = Set.insert (k, v) {p \<in> set t. fst p \<noteq> k}"
  by (induction t) (auto simp: ght_insert_def ght_inv_def image_iff)

lemma set_ght_remove: "set (ght_remove k t) = {p \<in> set t. fst p \<noteq> k}"
  by (auto simp: ght_remove_def AList.delete_eq)

lemma ght_insert_fresh: "ght_lookup t k = None \<Longrightarrow> ght_insert k v t = t @ [(k, v)]"
  by (induction t) (auto simp: ght_insert_def ght_lookup_def split: if_splits)

lemma ght_remove_absent: "ght_lookup t k = None \<Longrightarrow> ght_remove k t = t"
  by (induction t) (auto simp: ght_remove_def ght_lookup_def AList.delete_eq split: if_splits)

lemma ght_rebuild: "ght_inv t \<Longrightarrow> fold (\<lambda>p. ght_insert (fst p) (snd p)) t [] = t"
proof -
  have "ght_inv (acc @ t) \<Longrightarrow> fold (\<lambda>p. ght_insert (fst p) (snd p)) t acc = acc @ t" for acc
  proof (induction t arbitrary: acc)
    case (Cons p t)
    have "ght_lookup acc (fst p) = None"
      using Cons.prems by (auto simp: ght_lookup_def ght_inv_def map_of_eq_None_iff)
    then show ?case
      using Cons by (simp add: ght_insert_fresh)
  qed simp
  from this[of "[]"] show "ght_inv t \<Longrightarrow> ?thesis" by simp
qed

section \<open>The return-code idiom\<close>

text \<open>\<^verbatim>\<open>lasso_check_good_rc\<close> and \<^verbatim>\<open>goto cleanup\<close>: leave with the first non-zero code, go on otherwise.\<close>

definition check_rc :: "int \<Rightarrow> int \<Rightarrow> int" where
  "check_rc rc k = (if rc \<noteq> 0 then rc else k)"

lemma check_rc_zero [rc_simps, simp]: "check_rc rc k = 0 \<longleftrightarrow> rc = 0 \<and> k = 0"
  by (simp add: check_rc_def)

lemma check_rc_simps [rc_simps, simp]: "check_rc 0 k = k" "rc \<noteq> 0 \<Longrightarrow> check_rc rc k = rc"
  by (simp_all add: check_rc_def)

section \<open>Integers of 32 bits\<close>

text \<open>What an \<^verbatim>\<open>int\<close> holds of a value.  An overflow is undefined in C; where the code can run into one, the model wraps around,
  as two's complement does.\<close>

definition c_int :: "int \<Rightarrow> int" where
  "c_int v = (v + 2 ^ 31) mod 2 ^ 32 - 2 ^ 31"

lemma c_int_small: "- (2 ^ 31) \<le> v \<Longrightarrow> v < 2 ^ 31 \<Longrightarrow> c_int v = v"
  by (simp add: c_int_def)

lemma c_int_add [simp]: "c_int (c_int v + k) = c_int (v + k)" "c_int (k + c_int v) = c_int (k + v)"
proof -
  have "(k + (v + 2 ^ 31) mod 2 ^ 32) mod 2 ^ 32 = (k + (v + 2 ^ 31)) mod (2 ^ 32 :: int)" by (rule mod_add_right_eq)
  then show "c_int (c_int v + k) = c_int (v + k)" "c_int (k + c_int v) = c_int (k + v)" by (simp_all add: c_int_def add_ac)
qed

lemma c_int_negative: "2 ^ 31 \<le> v \<Longrightarrow> v < 2 ^ 32 \<Longrightarrow> c_int v < 0"
  using mod_add_self2[of "v - 2 ^ 31" "2 ^ 32 :: int"] by (simp add: c_int_def add.commute)

section \<open>Components as state machines\<close>

text \<open>A component whose operations all keep an invariant keeps it over every sequence of them.  A
  query that no operation of a set of operations changes is constant over every sequence of
  operations of that set.\<close>

locale component =
  fixes step :: "'op \<Rightarrow> 's \<Rightarrow> 's"
    and inv :: "'s \<Rightarrow> bool"
    and init :: 's
  assumes init_inv: "inv init"
    and step_inv: "inv s \<Longrightarrow> inv (step op s)"
begin

definition run :: "'op list \<Rightarrow> 's \<Rightarrow> 's" where
  "run ops s = fold step ops s"

lemma run_inv: "inv s \<Longrightarrow> inv (run ops s)"
  unfolding run_def by (induction ops arbitrary: s) (simp_all add: step_inv)

lemma reachable_inv: "inv (run ops init)"
  by (rule run_inv) (rule init_inv)

lemma run_frame:
  assumes "\<And>op s. op \<in> set ops \<Longrightarrow> inv s \<Longrightarrow> query (step op s) = query s" and "inv s"
  shows "query (run ops s) = query s"
  unfolding run_def using assms
proof (induction ops arbitrary: s)
  case (Cons op ops)
  have "query (fold step ops (step op s)) = query (step op s)"
    using Cons.prems by (intro Cons.IH) (auto simp: step_inv)
  then show ?case using Cons.prems by simp
qed simp

end

text \<open>A component implements an abstract one when every operation, on states that satisfy the invariant, acts on what
  the state stands for like the abstract operation.\<close>

locale refined_component = component step inv init
  for step :: "'op \<Rightarrow> 's \<Rightarrow> 's" and inv :: "'s \<Rightarrow> bool" and init :: 's +
  fixes abs :: "'s \<Rightarrow> 'a"
    and spec_step :: "'op \<Rightarrow> 'a \<Rightarrow> 'a"
    and spec_init :: 'a
  assumes abs_init: "abs init = spec_init"
    and abs_step: "inv s \<Longrightarrow> abs (step op s) = spec_step op (abs s)"
begin

lemma run_refines: "inv s \<Longrightarrow> abs (run ops s) = fold spec_step ops (abs s)"
  unfolding run_def by (induction ops arbitrary: s) (simp_all add: step_inv abs_step)

lemma reachable_refines: "abs (run ops init) = fold spec_step ops spec_init"
  by (simp add: run_refines init_inv abs_init)

end

end
