(* ===== verification/Lasso_Registry.thy ===== *)
theory Lasso_Registry
  imports Lasso_Prelude
begin

text \<open>
  The registry of \<^verbatim>\<open>lasso/registry.c\<close>: a table of direct mappings from a qualified name into another
  namespace and a table of translation functions between two namespaces.  Both tables are keyed by
  GLib quarks, so the state holds the process-wide quark table too: quark \<open>n > 0\<close> is the \<open>n\<close>-th
  interned string and 0 is no quark.
\<close>

section \<open>Quarks\<close>

type_synonym quark = nat
type_synonym quarks = "string list"

fun quark_index :: "quarks \<Rightarrow> string \<Rightarrow> nat option" where
  "quark_index [] s = None"
| "quark_index (q # qs) s = (if q = s then Some 0 else map_option Suc (quark_index qs s))"

definition g_quark_try_string :: "quarks \<Rightarrow> cstr \<Rightarrow> quark" where
  "g_quark_try_string qs s =
     (case s of None \<Rightarrow> 0
      | Some s \<Rightarrow> (case quark_index qs s of None \<Rightarrow> 0 | Some i \<Rightarrow> Suc i))"

definition g_quark_from_string :: "string \<Rightarrow> quarks \<Rightarrow> quark \<times> quarks" where
  "g_quark_from_string s qs =
     (case quark_index qs s of None \<Rightarrow> (Suc (length qs), qs @ [s]) | Some i \<Rightarrow> (Suc i, qs))"

definition g_quark_to_string :: "quarks \<Rightarrow> quark \<Rightarrow> cstr" where
  "g_quark_to_string qs q = (if 0 < q \<and> q \<le> length qs then Some (qs ! (q - 1)) else None)"

section \<open>State\<close>

type_synonym translation_function = "cstr \<Rightarrow> cstr \<Rightarrow> cstr \<Rightarrow> cstr"

text \<open>A record of the direct table is found by its first three fields, one of the functional table by
  its two namespaces: they are the key, the rest is the value.\<close>

type_synonym direct_key = "quark \<times> quark \<times> quark"
type_synonym functional_key = "quark \<times> quark"

record lasso_registry =
  direct_mapping :: "(direct_key, quark) ghash"
  functional_mapping :: "(functional_key, translation_function option) ghash"

record registry_state =
  rs_quarks :: quarks
  rs_default :: "lasso_registry option"

definition lasso_registry_new :: lasso_registry where
  "lasso_registry_new = \<lparr>direct_mapping = [], functional_mapping = []\<rparr>"

definition lasso_registry_get_default :: "registry_state \<Rightarrow> lasso_registry \<times> registry_state" where
  "lasso_registry_get_default s =
     (case rs_default s of
        None \<Rightarrow> (lasso_registry_new, s\<lparr>rs_default := Some lasso_registry_new\<rparr>)
      | Some r \<Rightarrow> (r, s))"

definition lasso_registry_default_shutdown :: "registry_state \<Rightarrow> registry_state" where
  "lasso_registry_default_shutdown s = s\<lparr>rs_default := None\<rparr>"

section \<open>Lookups\<close>

definition lasso_registry_get_translation_function ::
  "(functional_key, translation_function option) ghash \<Rightarrow> quark \<Rightarrow> quark \<Rightarrow> translation_function option"
where
  "lasso_registry_get_translation_function fm from_ns to_ns =
     (case ght_lookup fm (from_ns, to_ns) of None \<Rightarrow> None | Some f \<Rightarrow> f)"

definition lasso_registry_get_functional_mapping ::
  "quarks \<Rightarrow> (functional_key, translation_function option) ghash \<Rightarrow> quark \<Rightarrow> cstr \<Rightarrow> quark \<Rightarrow> cstr"
where
  "lasso_registry_get_functional_mapping qs fm from_ns from_name to_ns =
     (case lasso_registry_get_translation_function fm from_ns to_ns of
        None \<Rightarrow> None
      | Some f \<Rightarrow> f (g_quark_to_string qs from_ns) from_name (g_quark_to_string qs to_ns))"

definition lasso_registry_get_direct_mapping ::
  "quarks \<Rightarrow> (direct_key, quark) ghash \<Rightarrow> quark \<Rightarrow> cstr \<Rightarrow> quark \<Rightarrow> cstr"
where
  "lasso_registry_get_direct_mapping qs dm from_ns from_name to_ns =
     (let from_name_quark = g_quark_try_string qs from_name in
      if from_name_quark = 0 then None
      else case ght_lookup dm (from_ns, from_name_quark, to_ns) of
             None \<Rightarrow> None
           | Some to_name \<Rightarrow> g_quark_to_string qs to_name)"

definition lasso_registry_get_mapping ::
  "quarks \<Rightarrow> lasso_registry \<Rightarrow> cstr \<Rightarrow> cstr \<Rightarrow> cstr \<Rightarrow> cstr"
where
  "lasso_registry_get_mapping qs reg from_namespace from_name to_namespace =
     (let from_ns = g_quark_try_string qs from_namespace;
          to_ns = g_quark_try_string qs to_namespace
      in if from_ns = 0 \<or> to_ns = 0 then None
         else case lasso_registry_get_functional_mapping qs (functional_mapping reg) from_ns from_name to_ns of
                Some r \<Rightarrow> Some r
              | None \<Rightarrow> lasso_registry_get_direct_mapping qs (direct_mapping reg) from_ns from_name to_ns)"

section \<open>Registrations\<close>

definition lasso_registry_add_direct_mapping ::
  "quarks \<Rightarrow> lasso_registry \<Rightarrow> cstr \<Rightarrow> cstr \<Rightarrow> cstr \<Rightarrow> cstr \<Rightarrow> int \<times> quarks \<times> lasso_registry"
where
  "lasso_registry_add_direct_mapping qs reg from_namespace from_name to_namespace to_name =
     (case (from_namespace, from_name, to_namespace, to_name) of
        (Some fns, Some fn, Some tns, Some tn) \<Rightarrow>
          if lasso_registry_get_mapping qs reg from_namespace from_name to_namespace \<noteq> None
          then (LASSO_REGISTRY_ERROR_KEY_EXISTS, qs, reg)
          else let (a, qs) = g_quark_from_string fns qs;
                   (b, qs) = g_quark_from_string fn qs;
                   (c, qs) = g_quark_from_string tns qs;
                   (d, qs) = g_quark_from_string tn qs
               in (0, qs, reg\<lparr>direct_mapping := ght_insert (a, b, c) d (direct_mapping reg)\<rparr>)
      | _ \<Rightarrow> (LASSO_PARAM_ERROR_INVALID_VALUE, qs, reg))"

definition lasso_registry_add_functional_mapping ::
  "quarks \<Rightarrow> lasso_registry \<Rightarrow> cstr \<Rightarrow> cstr \<Rightarrow> translation_function option \<Rightarrow>
     int \<times> quarks \<times> lasso_registry"
where
  "lasso_registry_add_functional_mapping qs reg from_namespace to_namespace f =
     (case (from_namespace, to_namespace) of
        (Some fns, Some tns) \<Rightarrow>
          (let (a, qs) = g_quark_from_string fns qs;
               (c, qs) = g_quark_from_string tns qs
           in if lasso_registry_get_translation_function (functional_mapping reg) a c \<noteq> None
              then (LASSO_REGISTRY_ERROR_KEY_EXISTS, qs, reg)
              else (0, qs, reg\<lparr>functional_mapping := ght_insert (a, c) f (functional_mapping reg)\<rparr>))
      | _ \<Rightarrow> (LASSO_PARAM_ERROR_INVALID_VALUE, qs, reg))"

section \<open>The default registry\<close>

definition lasso_registry_default_add_direct_mapping ::
  "registry_state \<Rightarrow> cstr \<Rightarrow> cstr \<Rightarrow> cstr \<Rightarrow> cstr \<Rightarrow> int \<times> registry_state"
where
  "lasso_registry_default_add_direct_mapping s fns fn tns tn =
     (let (reg, s) = lasso_registry_get_default s;
          (rc, qs, reg) = lasso_registry_add_direct_mapping (rs_quarks s) reg fns fn tns tn
      in (rc, s\<lparr>rs_quarks := qs, rs_default := Some reg\<rparr>))"

definition lasso_registry_default_add_functional_mapping ::
  "registry_state \<Rightarrow> cstr \<Rightarrow> cstr \<Rightarrow> translation_function option \<Rightarrow> int \<times> registry_state"
where
  "lasso_registry_default_add_functional_mapping s fns tns f =
     (let (reg, s) = lasso_registry_get_default s;
          (rc, qs, reg) = lasso_registry_add_functional_mapping (rs_quarks s) reg fns tns f
      in (rc, s\<lparr>rs_quarks := qs, rs_default := Some reg\<rparr>))"

definition lasso_registry_default_get_mapping ::
  "registry_state \<Rightarrow> cstr \<Rightarrow> cstr \<Rightarrow> cstr \<Rightarrow> cstr \<times> registry_state"
where
  "lasso_registry_default_get_mapping s fns fn tns =
     (let (reg, s) = lasso_registry_get_default s
      in (lasso_registry_get_mapping (rs_quarks s) reg fns fn tns, s))"

section \<open>Laws of the quark table\<close>

lemma quark_index_Some: "quark_index qs s = Some i \<Longrightarrow> i < length qs \<and> qs ! i = s"
  by (induction qs arbitrary: i) (auto split: if_splits)

lemma quark_index_None: "quark_index qs s = None \<longleftrightarrow> s \<notin> set qs"
  by (induction qs) auto

lemma quark_index_append:
  "quark_index (qs @ ext) s =
     (case quark_index qs s of Some i \<Rightarrow> Some i | None \<Rightarrow> map_option ((+) (length qs)) (quark_index ext s))"
proof (induction qs)
  case Nil
  have "((+) 0 :: nat \<Rightarrow> nat) = id" by auto
  then show ?case by (simp add: option.map_id)
next
  case (Cons q qs)
  have "(Suc \<circ> (+) (length qs)) = (+) (Suc (length qs))" by auto
  with Cons show ?case by (auto simp: option.map_comp split: option.splits)
qed

lemma try_string_bound: "g_quark_try_string qs s \<le> length qs"
  by (auto simp: g_quark_try_string_def Suc_le_eq split: option.splits dest: quark_index_Some)

lemma try_string_zero: "g_quark_try_string qs s = 0 \<longleftrightarrow> (\<forall>x. s = Some x \<longrightarrow> x \<notin> set qs)"
  by (auto simp: g_quark_try_string_def quark_index_None[symmetric] split: option.splits)

lemma try_to_string: "g_quark_try_string qs s \<noteq> 0 \<Longrightarrow> g_quark_to_string qs (g_quark_try_string qs s) = s"
  by (auto simp: g_quark_try_string_def g_quark_to_string_def Suc_le_eq
      split: option.splits if_splits dest: quark_index_Some)

lemma try_string_inj:
  "g_quark_try_string qs s = g_quark_try_string qs t \<Longrightarrow> g_quark_try_string qs s \<noteq> 0 \<Longrightarrow> s = t"
  by (metis try_to_string)

lemma try_string_ext_old:
  "g_quark_try_string qs s \<noteq> 0 \<Longrightarrow> g_quark_try_string (qs @ ext) s = g_quark_try_string qs s"
  by (auto simp: g_quark_try_string_def quark_index_append split: option.splits)

lemma try_string_ext_new:
  "g_quark_try_string qs s = 0 \<Longrightarrow>
     g_quark_try_string (qs @ ext) s = 0 \<or> length qs < g_quark_try_string (qs @ ext) s"
  by (auto simp: g_quark_try_string_def quark_index_append split: option.splits)

lemma to_string_ext: "q \<le> length qs \<Longrightarrow> g_quark_to_string (qs @ ext) q = g_quark_to_string qs q"
  by (auto simp: g_quark_to_string_def nth_append)

lemma from_string_spec:
  "g_quark_from_string s qs = (q, qs') \<Longrightarrow>
     (\<exists>ext. qs' = qs @ ext) \<and> g_quark_try_string qs' (Some s) = q \<and> q \<noteq> 0"
  by (auto simp: g_quark_from_string_def g_quark_try_string_def quark_index_append split: option.splits)

section \<open>The registry invariant\<close>

text \<open>Every quark that a table holds has been interned.\<close>

definition registry_inv :: "quarks \<Rightarrow> lasso_registry \<Rightarrow> bool" where
  "registry_inv qs reg \<longleftrightarrow>
     (\<forall>((a, b, c), d) \<in> set (direct_mapping reg).
        a \<le> length qs \<and> b \<le> length qs \<and> c \<le> length qs \<and> d \<le> length qs) \<and>
     (\<forall>((a, c), f) \<in> set (functional_mapping reg). a \<le> length qs \<and> c \<le> length qs) \<and>
     ght_inv (direct_mapping reg) \<and> ght_inv (functional_mapping reg)"

lemma registry_inv_new: "registry_inv qs lasso_registry_new"
  by (simp add: registry_inv_def lasso_registry_new_def)

lemma registry_inv_ext: "registry_inv qs reg \<Longrightarrow> registry_inv (qs @ ext) reg"
  by (fastforce simp: registry_inv_def)

lemma registry_inv_direct:
  "registry_inv qs reg \<Longrightarrow> ght_lookup (direct_mapping reg) (a, b, c) = Some d \<Longrightarrow>
     a \<le> length qs \<and> b \<le> length qs \<and> c \<le> length qs \<and> d \<le> length qs"
  by (fastforce simp: registry_inv_def dest: ght_lookup_in)

lemma registry_inv_functional:
  "registry_inv qs reg \<Longrightarrow> ght_lookup (functional_mapping reg) (a, c) = Some f \<Longrightarrow>
     a \<le> length qs \<and> c \<le> length qs"
  by (fastforce simp: registry_inv_def dest: ght_lookup_in)

lemma get_functional_ext:
  assumes "registry_inv qs reg" and "a \<le> length qs" and "c \<le> length qs"
  shows "lasso_registry_get_functional_mapping (qs @ ext) (functional_mapping reg) a n c =
         lasso_registry_get_functional_mapping qs (functional_mapping reg) a n c"
  using assms by (simp add: lasso_registry_get_functional_mapping_def to_string_ext split: option.split)

lemma get_direct_ext:
  assumes "registry_inv qs reg"
  shows "lasso_registry_get_direct_mapping (qs @ ext) (direct_mapping reg) a n c =
         lasso_registry_get_direct_mapping qs (direct_mapping reg) a n c"
proof (cases "g_quark_try_string qs n = 0")
  case True
  then show ?thesis
    using try_string_ext_new[OF True, of ext] registry_inv_direct[OF assms]
    by (fastforce simp: lasso_registry_get_direct_mapping_def split: option.splits)
next
  case False
  then show ?thesis
    using registry_inv_direct[OF assms]
    by (auto simp: lasso_registry_get_direct_mapping_def try_string_ext_old Let_def to_string_ext
        split: option.splits)
qed

text \<open>Interning further strings changes no mapping.\<close>

lemma get_mapping_ext:
  assumes inv: "registry_inv qs reg"
  shows "lasso_registry_get_mapping (qs @ ext) reg a n c = lasso_registry_get_mapping qs reg a n c"
proof (cases "g_quark_try_string qs a = 0 \<or> g_quark_try_string qs c = 0")
  case True
  let ?x = "g_quark_try_string (qs @ ext) a" and ?y = "g_quark_try_string (qs @ ext) c"
  have "?x = 0 \<or> ?y = 0 \<or> length qs < ?x \<or> length qs < ?y"
    using True try_string_ext_new by metis
  then have "?x = 0 \<or> ?y = 0 \<or>
      ght_lookup (functional_mapping reg) (?x, ?y) = None \<and>
      (\<forall>m. ght_lookup (direct_mapping reg) (?x, m, ?y) = None)"
    using registry_inv_functional[OF inv, of ?x ?y] registry_inv_direct[OF inv, of ?x _ ?y]
    by (metis not_le option.exhaust)
  then show ?thesis
    using True
    by (auto simp: lasso_registry_get_mapping_def lasso_registry_get_functional_mapping_def Let_def
        lasso_registry_get_translation_function_def lasso_registry_get_direct_mapping_def)
next
  case False
  then show ?thesis
    by (simp add: lasso_registry_get_mapping_def try_string_ext_old get_direct_ext[OF inv]
        get_functional_ext[OF inv] try_string_bound Let_def split: option.split)
qed

text \<open>After the interning, a registration of a direct mapping is one insertion at interned keys.\<close>

lemma add_direct_ok:
  assumes "lasso_registry_add_direct_mapping qs reg fns fn tns tn = (0, qs', reg')"
  obtains ext a b c d where "qs' = qs @ ext"
    and "a \<noteq> 0" "g_quark_try_string qs' fns = a" "b \<noteq> 0" "g_quark_try_string qs' fn = b"
    and "c \<noteq> 0" "g_quark_try_string qs' tns = c" "d \<noteq> 0" "g_quark_try_string qs' tn = d"
    and "lasso_registry_get_mapping qs reg fns fn tns = None"
    and "reg' = reg\<lparr>direct_mapping := ght_insert (a, b, c) d (direct_mapping reg)\<rparr>"
proof -
  obtain sfns sfn stns stn where args: "fns = Some sfns" "fn = Some sfn" "tns = Some stns" "tn = Some stn"
    using assms by (auto simp: lasso_registry_add_direct_mapping_def split: option.splits)
  obtain a q1 where 1: "g_quark_from_string sfns qs = (a, q1)" by fastforce
  obtain b q2 where 2: "g_quark_from_string sfn q1 = (b, q2)" by fastforce
  obtain c q3 where 3: "g_quark_from_string stns q2 = (c, q3)" by fastforce
  obtain d q4 where 4: "g_quark_from_string stn q3 = (d, q4)" by fastforce
  have res: "qs' = q4" "reg' = reg\<lparr>direct_mapping := ght_insert (a, b, c) d (direct_mapping reg)\<rparr>"
    "lasso_registry_get_mapping qs reg fns fn tns = None"
    using assms 1 2 3 4 by (auto simp: lasso_registry_add_direct_mapping_def args split: if_splits)
  note specs = from_string_spec[OF 1] from_string_spec[OF 2] from_string_spec[OF 3] from_string_spec[OF 4]
  from specs obtain e1 e2 e3 e4 where q: "q1 = qs @ e1" "q2 = q1 @ e2" "q3 = q2 @ e3" "q4 = q3 @ e4"
    by blast
  have keep: "g_quark_try_string q4 (Some sfns) = a" "g_quark_try_string q4 (Some sfn) = b"
    "g_quark_try_string q4 (Some stns) = c" "g_quark_try_string q4 (Some stn) = d"
    using specs try_string_ext_old[of q1 "Some sfns" "e2 @ e3 @ e4"]
      try_string_ext_old[of q2 "Some sfn" "e3 @ e4"] try_string_ext_old[of q3 "Some stns" e4]
    by (simp_all add: q)
  show thesis
    by (rule that[of "e1 @ e2 @ e3 @ e4" a b c d]) (use q res specs keep args in auto)
qed

lemma get_mapping_interned:
  assumes "g_quark_try_string qs fns = a" "a \<noteq> 0" "g_quark_try_string qs tns = c" "c \<noteq> 0"
  shows "lasso_registry_get_mapping qs reg fns fn tns =
     (case lasso_registry_get_functional_mapping qs (functional_mapping reg) a fn c of
        Some r \<Rightarrow> Some r
      | None \<Rightarrow> lasso_registry_get_direct_mapping qs (direct_mapping reg) a fn c)"
  using assms by (simp add: lasso_registry_get_mapping_def)

lemma get_mapping_insert_direct:
  assumes a: "g_quark_try_string qs fns = a" "a \<noteq> 0" and b: "g_quark_try_string qs fn = b" "b \<noteq> 0"
    and c: "g_quark_try_string qs tns = c" "c \<noteq> 0" and d: "g_quark_try_string qs tn = d" "d \<noteq> 0"
    and none: "lasso_registry_get_mapping qs reg fns fn tns = None"
  shows "lasso_registry_get_mapping qs
           (reg\<lparr>direct_mapping := ght_insert (a, b, c) d (direct_mapping reg)\<rparr>) x n y =
         (if (x, n, y) = (fns, fn, tns) then tn else lasso_registry_get_mapping qs reg x n y)"
proof (cases "(x, n, y) = (fns, fn, tns)")
  case True
  have "lasso_registry_get_functional_mapping qs (functional_mapping reg) a fn c = None"
    using none by (simp add: get_mapping_interned[OF a c] split: option.splits)
  moreover have "g_quark_to_string qs d = tn"
    using d try_to_string by blast
  ultimately show ?thesis
    using True a b c d
    by (simp add: get_mapping_interned[OF a c] lasso_registry_get_direct_mapping_def)
next
  case False
  show ?thesis
  proof (cases "g_quark_try_string qs x = 0 \<or> g_quark_try_string qs y = 0 \<or> g_quark_try_string qs n = 0")
    case True
    then show ?thesis unfolding if_not_P[OF False]
      by (elim disjE) (simp_all add: lasso_registry_get_mapping_def Let_def
          lasso_registry_get_direct_mapping_def split: option.split)
  next
    case nz: False
    then have "(g_quark_try_string qs x, g_quark_try_string qs n, g_quark_try_string qs y) \<noteq> (a, b, c)"
      using False a b c try_string_inj by (metis prod.inject)
    then show ?thesis unfolding if_not_P[OF False]
      by (auto simp: lasso_registry_get_mapping_def lasso_registry_get_direct_mapping_def Let_def
          split: option.split)
  qed
qed

section \<open>Properties\<close>

text \<open>Adding a direct mapping that is not there yet succeeds only when the name had no mapping,
  and afterwards the registry maps that name, and no other, to the new name; the registry stays
  well formed.\<close>

theorem registry_add_direct_mapping_law:
  assumes "registry_inv qs reg"
    and "lasso_registry_add_direct_mapping qs reg fns fn tns tn = (0, qs', reg')"
  shows "registry_inv qs' reg' \<and> lasso_registry_get_mapping qs reg fns fn tns = None \<and>
         (\<forall>x n y. lasso_registry_get_mapping qs' reg' x n y =
            (if (x, n, y) = (fns, fn, tns) then tn else lasso_registry_get_mapping qs reg x n y))"
proof -
  obtain ext a b c d where r: "qs' = qs @ ext"
    "a \<noteq> 0" "g_quark_try_string qs' fns = a" "b \<noteq> 0" "g_quark_try_string qs' fn = b"
    "c \<noteq> 0" "g_quark_try_string qs' tns = c" "d \<noteq> 0" "g_quark_try_string qs' tn = d"
    "lasso_registry_get_mapping qs reg fns fn tns = None"
    "reg' = reg\<lparr>direct_mapping := ght_insert (a, b, c) d (direct_mapping reg)\<rparr>"
    by (rule add_direct_ok[OF assms(2)]) blast
  have inv': "registry_inv qs' reg" using assms(1) r(1) by (simp add: registry_inv_ext)
  have "a \<le> length qs' \<and> b \<le> length qs' \<and> c \<le> length qs' \<and> d \<le> length qs'"
    using r(3,5,7,9) try_string_bound by blast
  then have "registry_inv qs' reg'"
    using inv' by (auto simp: registry_inv_def r(11) set_ght_insert)
  moreover have "lasso_registry_get_mapping qs' reg x n y = lasso_registry_get_mapping qs reg x n y" for x n y
    using get_mapping_ext[OF assms(1)] r(1) by simp
  ultimately show ?thesis
    using get_mapping_insert_direct[OF r(3,2) r(5,4) r(7,6) r(9,8)] r(10,11) by simp
qed

theorem registry_add_direct_mapping_law_witness:
  "lasso_registry_get_mapping [''a'', ''b'', ''c'', ''d'']
     \<lparr>direct_mapping = [((1, 2, 3), 4)], functional_mapping = []\<rparr>
     (Some ''a'') (Some ''b'') (Some ''c'') = Some ''d''"
proof -
  have "lasso_registry_add_direct_mapping [] lasso_registry_new
      (Some ''a'') (Some ''b'') (Some ''c'') (Some ''d'') =
    (0, [''a'', ''b'', ''c'', ''d''], \<lparr>direct_mapping = [((1, 2, 3), 4)], functional_mapping = []\<rparr>)"
    by (simp add: lasso_registry_add_direct_mapping_def lasso_registry_get_mapping_def
        lasso_registry_new_def g_quark_try_string_def g_quark_from_string_def ght_insert_def)
  from registry_add_direct_mapping_law[OF registry_inv_new this] show ?thesis by simp
qed

text \<open>A translation function between two namespaces takes precedence over the direct mappings
  between them, which serve the names that it does not translate; other pairs of namespaces are not
  affected, and a second translation function for the same pair is refused.\<close>

theorem registry_add_functional_mapping_law:
  assumes inv: "registry_inv qs reg"
    and add: "lasso_registry_add_functional_mapping qs reg (Some fns) (Some tns) (Some f) = (rc, qs', reg')"
  shows "registry_inv qs' reg' \<and>
    (rc = LASSO_REGISTRY_ERROR_KEY_EXISTS \<and> reg' = reg \<or>
     rc = 0 \<and>
     (\<forall>x n y. lasso_registry_get_mapping qs' reg' x n y =
       (if x = Some fns \<and> y = Some tns
        then case f (Some fns) n (Some tns) of
               Some r \<Rightarrow> Some r
             | None \<Rightarrow> lasso_registry_get_mapping qs reg x n y
        else lasso_registry_get_mapping qs reg x n y)) \<and>
     (\<forall>g. fst (lasso_registry_add_functional_mapping qs' reg' (Some fns) (Some tns) g) =
            LASSO_REGISTRY_ERROR_KEY_EXISTS))"
proof -
  obtain a q1 where 1: "g_quark_from_string fns qs = (a, q1)" by fastforce
  obtain c q2 where 2: "g_quark_from_string tns q1 = (c, q2)" by fastforce
  note specs = from_string_spec[OF 1] from_string_spec[OF 2]
  from specs obtain e1 e2 where q: "q1 = qs @ e1" "q2 = q1 @ e2" by blast
  have nz: "a \<noteq> 0" "c \<noteq> 0" using specs by auto
  have tr: "g_quark_try_string q2 (Some fns) = a" "g_quark_try_string q2 (Some tns) = c"
    using specs try_string_ext_old[of q1 "Some fns" e2] q by auto
  have ext: "lasso_registry_get_mapping q2 reg x n y = lasso_registry_get_mapping qs reg x n y" for x n y
    using get_mapping_ext[OF inv, of "e1 @ e2"] q by simp
  have inv2: "registry_inv q2 reg" using registry_inv_ext[OF inv, of "e1 @ e2"] q by simp
  let ?old = "lasso_registry_get_translation_function (functional_mapping reg) a c"
  show ?thesis
  proof (cases ?old)
    case (Some g)
    then show ?thesis using add 1 2 inv2
      by (auto simp: lasso_registry_add_functional_mapping_def)
  next
    case None
    have res: "rc = 0" "qs' = q2"
      "reg' = reg\<lparr>functional_mapping := ght_insert (a, c) (Some f) (functional_mapping reg)\<rparr>"
      using add 1 2 None by (auto simp: lasso_registry_add_functional_mapping_def)
    have "a \<le> length q2 \<and> c \<le> length q2" using tr try_string_bound by blast
    then have inv': "registry_inv qs' reg'"
      using inv2 by (auto simp: registry_inv_def res set_ght_insert)
    have key: "(g_quark_try_string q2 x, g_quark_try_string q2 y) = (a, c) \<longleftrightarrow> x = Some fns \<and> y = Some tns" for x y
      using tr nz try_string_inj by (metis prod.inject)
    have old: "lasso_registry_get_functional_mapping q2 (functional_mapping reg) a n c = None" for n
      using None by (simp add: lasso_registry_get_functional_mapping_def)
    have strs: "g_quark_to_string q2 a = Some fns" "g_quark_to_string q2 c = Some tns"
      using tr nz try_to_string by metis+
    have get: "lasso_registry_get_mapping qs' reg' x n y =
       (if x = Some fns \<and> y = Some tns
        then case f (Some fns) n (Some tns) of
               Some r \<Rightarrow> Some r
             | None \<Rightarrow> lasso_registry_get_mapping qs reg x n y
        else lasso_registry_get_mapping qs reg x n y)" for x n y
    proof (cases "x = Some fns \<and> y = Some tns")
      case True
      then show ?thesis using nz old
        by (simp add: ext[symmetric] res get_mapping_interned[OF tr(1) nz(1) tr(2) nz(2)] strs
            lasso_registry_get_functional_mapping_def lasso_registry_get_translation_function_def
            split: option.split)
    next
      case False
      then have "(a, c) \<noteq> (g_quark_try_string q2 x, g_quark_try_string q2 y)" using key by metis
      then show ?thesis unfolding if_not_P[OF False] ext[symmetric] res
        by (simp add: lasso_registry_get_mapping_def Let_def split: option.split)
           (auto simp: lasso_registry_get_functional_mapping_def
             lasso_registry_get_translation_function_def)
    qed
    have again: "g_quark_from_string fns q2 = (a, q2)" "g_quark_from_string tns q2 = (c, q2)"
      using tr nz by (auto simp: g_quark_try_string_def g_quark_from_string_def split: option.splits)
    have "fst (lasso_registry_add_functional_mapping qs' reg' (Some fns) (Some tns) g) =
            LASSO_REGISTRY_ERROR_KEY_EXISTS" for g
      using again
      by (simp add: res lasso_registry_add_functional_mapping_def lasso_registry_get_translation_function_def)
    with get inv' res(1) show ?thesis by blast
  qed
qed

theorem registry_add_functional_mapping_law_witness:
  "fst (lasso_registry_add_functional_mapping [''a'', ''c'']
     \<lparr>direct_mapping = [], functional_mapping = [((1, 2), Some (\<lambda>x n y. n))]\<rparr>
     (Some ''a'') (Some ''c'') None) = LASSO_REGISTRY_ERROR_KEY_EXISTS"
proof -
  have "lasso_registry_add_functional_mapping [] lasso_registry_new
      (Some ''a'') (Some ''c'') (Some (\<lambda>x n y. n)) =
    (0, [''a'', ''c''], \<lparr>direct_mapping = [], functional_mapping = [((1, 2), Some (\<lambda>x n y. n))]\<rparr>)"
    by (simp add: lasso_registry_add_functional_mapping_def lasso_registry_get_translation_function_def
        lasso_registry_new_def g_quark_from_string_def ght_insert_def)
  from registry_add_functional_mapping_law[OF registry_inv_new this] show ?thesis by simp
qed

end
