(* ===== verification/Lasso_Strings.thy ===== *)
theory Lasso_Strings
  imports Main
begin

text \<open>
  The URIs of \<^verbatim>\<open>lasso/xml/saml-2.0/saml2_strings.h\<close> and the element and attribute names of
  \<^verbatim>\<open>lasso/xml/saml-2.0/saml2_xsd.h\<close> that the protocol code compares and writes, under their C names.
\<close>

section \<open>URIs\<close>

named_theorems uri_defs \<open>definitions of the URIs, to compare two of them\<close>

definition LASSO_SAML2_METADATA_HREF :: string where [uri_defs]:
  "LASSO_SAML2_METADATA_HREF = ''urn:oasis:names:tc:SAML:2.0:metadata''"

definition LASSO_SAML2_PROTOCOL_HREF :: string where [uri_defs]:
  "LASSO_SAML2_PROTOCOL_HREF = ''urn:oasis:names:tc:SAML:2.0:protocol''"

definition LASSO_SAML2_ASSERTION_HREF :: string where [uri_defs]:
  "LASSO_SAML2_ASSERTION_HREF = ''urn:oasis:names:tc:SAML:2.0:assertion''"

definition LASSO_SAML2_METADATA_BINDING_SOAP :: string where [uri_defs]:
  "LASSO_SAML2_METADATA_BINDING_SOAP = ''urn:oasis:names:tc:SAML:2.0:bindings:SOAP''"

definition LASSO_SAML2_METADATA_BINDING_REDIRECT :: string where [uri_defs]:
  "LASSO_SAML2_METADATA_BINDING_REDIRECT = ''urn:oasis:names:tc:SAML:2.0:bindings:HTTP-Redirect''"

definition LASSO_SAML2_METADATA_BINDING_POST :: string where [uri_defs]:
  "LASSO_SAML2_METADATA_BINDING_POST = ''urn:oasis:names:tc:SAML:2.0:bindings:HTTP-POST''"

definition LASSO_SAML2_METADATA_BINDING_ARTIFACT :: string where [uri_defs]:
  "LASSO_SAML2_METADATA_BINDING_ARTIFACT = ''urn:oasis:names:tc:SAML:2.0:bindings:HTTP-Artifact''"

definition LASSO_SAML2_METADATA_BINDING_PAOS :: string where [uri_defs]:
  "LASSO_SAML2_METADATA_BINDING_PAOS = ''urn:oasis:names:tc:SAML:2.0:bindings:PAOS''"

definition LASSO_SAML2_METADATA_BINDING_URI :: string where [uri_defs]:
  "LASSO_SAML2_METADATA_BINDING_URI = ''urn:oasis:names:tc:SAML:2.0:bindings:URI''"

definition LASSO_SAML2_NAME_IDENTIFIER_FORMAT_UNSPECIFIED :: string where [uri_defs]:
  "LASSO_SAML2_NAME_IDENTIFIER_FORMAT_UNSPECIFIED = ''urn:oasis:names:tc:SAML:1.1:nameid-format:unspecified''"

definition LASSO_SAML2_NAME_IDENTIFIER_FORMAT_ENTITY :: string where [uri_defs]:
  "LASSO_SAML2_NAME_IDENTIFIER_FORMAT_ENTITY = ''urn:oasis:names:tc:SAML:2.0:nameid-format:entity''"

definition LASSO_SAML2_NAME_IDENTIFIER_FORMAT_PERSISTENT :: string where [uri_defs]:
  "LASSO_SAML2_NAME_IDENTIFIER_FORMAT_PERSISTENT = ''urn:oasis:names:tc:SAML:2.0:nameid-format:persistent''"

definition LASSO_SAML2_NAME_IDENTIFIER_FORMAT_TRANSIENT :: string where [uri_defs]:
  "LASSO_SAML2_NAME_IDENTIFIER_FORMAT_TRANSIENT = ''urn:oasis:names:tc:SAML:2.0:nameid-format:transient''"

definition LASSO_SAML2_NAME_IDENTIFIER_FORMAT_ENCRYPTED :: string where [uri_defs]:
  "LASSO_SAML2_NAME_IDENTIFIER_FORMAT_ENCRYPTED = ''urn:oasis:names:tc:SAML:2.0:nameid-format:encrypted''"

definition LASSO_SAML2_ATTRIBUTE_NAME_FORMAT_URI :: string where [uri_defs]:
  "LASSO_SAML2_ATTRIBUTE_NAME_FORMAT_URI = ''urn:oasis:names:tc:SAML:2.0:attrname-format:uri''"

definition LASSO_SAML2_CONSENT_OBTAINED :: string where [uri_defs]:
  "LASSO_SAML2_CONSENT_OBTAINED = ''urn:oasis:names:tc:SAML:2.0:consent:obtained''"

definition LASSO_SAML2_CONSENT_PRIOR :: string where [uri_defs]:
  "LASSO_SAML2_CONSENT_PRIOR = ''urn:oasis:names:tc:SAML:2.0:consent:prior''"

definition LASSO_SAML2_CONSENT_IMPLICIT :: string where [uri_defs]:
  "LASSO_SAML2_CONSENT_IMPLICIT = ''urn:oasis:names:tc:SAML:2.0:consent:current-implicit''"

definition LASSO_SAML2_CONSENT_EXPLICIT :: string where [uri_defs]:
  "LASSO_SAML2_CONSENT_EXPLICIT = ''urn:oasis:names:tc:SAML:2.0:consent:current-explicit''"

definition LASSO_SAML2_CONSENT_UNAVAILABLE :: string where [uri_defs]:
  "LASSO_SAML2_CONSENT_UNAVAILABLE = ''urn:oasis:names:tc:SAML:2.0:consent:unavailable''"

definition LASSO_SAML2_CONSENT_INAPPLICABLE :: string where [uri_defs]:
  "LASSO_SAML2_CONSENT_INAPPLICABLE = ''urn:oasis:names:tc:SAML:2.0:consent:inapplicable''"

definition LASSO_SAML2_STATUS_CODE_SUCCESS :: string where [uri_defs]:
  "LASSO_SAML2_STATUS_CODE_SUCCESS = ''urn:oasis:names:tc:SAML:2.0:status:Success''"

definition LASSO_SAML2_STATUS_CODE_REQUESTER :: string where [uri_defs]:
  "LASSO_SAML2_STATUS_CODE_REQUESTER = ''urn:oasis:names:tc:SAML:2.0:status:Requester''"

definition LASSO_SAML2_STATUS_CODE_RESPONDER :: string where [uri_defs]:
  "LASSO_SAML2_STATUS_CODE_RESPONDER = ''urn:oasis:names:tc:SAML:2.0:status:Responder''"

definition LASSO_SAML2_STATUS_CODE_VERSION_MISMATCH :: string where [uri_defs]:
  "LASSO_SAML2_STATUS_CODE_VERSION_MISMATCH = ''urn:oasis:names:tc:SAML:2.0:status:VersionMismatch''"

definition LASSO_SAML2_STATUS_CODE_AUTHN_FAILED :: string where [uri_defs]:
  "LASSO_SAML2_STATUS_CODE_AUTHN_FAILED = ''urn:oasis:names:tc:SAML:2.0:status:AuthnFailed''"

definition LASSO_SAML2_STATUS_CODE_INVALID_ATTR_NAME :: string where [uri_defs]:
  "LASSO_SAML2_STATUS_CODE_INVALID_ATTR_NAME = ''urn:oasis:names:tc:SAML:2.0:status:InvalidAttrNameOrValue''"

definition LASSO_SAML2_STATUS_CODE_INVALID_NAME_ID_POLICY :: string where [uri_defs]:
  "LASSO_SAML2_STATUS_CODE_INVALID_NAME_ID_POLICY = ''urn:oasis:names:tc:SAML:2.0:status:InvalidNameIDPolicy''"

definition LASSO_SAML2_STATUS_CODE_NO_AUTHN_CONTEXT :: string where [uri_defs]:
  "LASSO_SAML2_STATUS_CODE_NO_AUTHN_CONTEXT = ''urn:oasis:names:tc:SAML:2.0:status:NoAuthnContext''"

definition LASSO_SAML2_STATUS_CODE_NO_AVAILABLE_IDP :: string where [uri_defs]:
  "LASSO_SAML2_STATUS_CODE_NO_AVAILABLE_IDP = ''urn:oasis:names:tc:SAML:2.0:status:NoAvailableIDP''"

definition LASSO_SAML2_STATUS_CODE_NO_PASSIVE :: string where [uri_defs]:
  "LASSO_SAML2_STATUS_CODE_NO_PASSIVE = ''urn:oasis:names:tc:SAML:2.0:status:NoPassive''"

definition LASSO_SAML2_STATUS_CODE_NO_SUPPORTED_IDP :: string where [uri_defs]:
  "LASSO_SAML2_STATUS_CODE_NO_SUPPORTED_IDP = ''urn:oasis:names:tc:SAML:2.0:status:NoSupportedIDP''"

definition LASSO_SAML2_STATUS_CODE_PARTIAL_LOGOUT :: string where [uri_defs]:
  "LASSO_SAML2_STATUS_CODE_PARTIAL_LOGOUT = ''urn:oasis:names:tc:SAML:2.0:status:PartialLogout''"

definition LASSO_SAML2_STATUS_CODE_PROXY_COUNT_EXCEEDED :: string where [uri_defs]:
  "LASSO_SAML2_STATUS_CODE_PROXY_COUNT_EXCEEDED = ''urn:oasis:names:tc:SAML:2.0:status:ProxyCountExceeded''"

definition LASSO_SAML2_STATUS_CODE_REQUEST_DENIED :: string where [uri_defs]:
  "LASSO_SAML2_STATUS_CODE_REQUEST_DENIED = ''urn:oasis:names:tc:SAML:2.0:status:RequestDenied''"

definition LASSO_SAML2_STATUS_CODE_REQUEST_UNSUPPORTED :: string where [uri_defs]:
  "LASSO_SAML2_STATUS_CODE_REQUEST_UNSUPPORTED = ''urn:oasis:names:tc:SAML:2.0:status:RequestUnsupported''"

definition LASSO_SAML2_STATUS_CODE_REQUEST_VERSION_DEPRECATED :: string where [uri_defs]:
  "LASSO_SAML2_STATUS_CODE_REQUEST_VERSION_DEPRECATED = ''urn:oasis:names:tc:SAML:2.0:status:RequestVersionDeprecated''"

definition LASSO_SAML2_STATUS_CODE_REQUEST_VERSION_TOO_HIGH :: string where [uri_defs]:
  "LASSO_SAML2_STATUS_CODE_REQUEST_VERSION_TOO_HIGH = ''urn:oasis:names:tc:SAML:2.0:status:RequestVersionTooHigh''"

definition LASSO_SAML2_STATUS_CODE_REQUEST_VERSION_TOO_LOW :: string where [uri_defs]:
  "LASSO_SAML2_STATUS_CODE_REQUEST_VERSION_TOO_LOW = ''urn:oasis:names:tc:SAML:2.0:status:RequestVersionTooLow''"

definition LASSO_SAML2_STATUS_CODE_RESOURCE_NOT_RECOGNIZED :: string where [uri_defs]:
  "LASSO_SAML2_STATUS_CODE_RESOURCE_NOT_RECOGNIZED = ''urn:oasis:names:tc:SAML:2.0:status:ResourceNotRecognized''"

definition LASSO_SAML2_STATUS_CODE_TOO_MANY_RESPONSES :: string where [uri_defs]:
  "LASSO_SAML2_STATUS_CODE_TOO_MANY_RESPONSES = ''urn:oasis:names:tc:SAML:2.0:status:TooManyResponses''"

definition LASSO_SAML2_STATUS_CODE_UNKNOWN_ATTR_PROFILE :: string where [uri_defs]:
  "LASSO_SAML2_STATUS_CODE_UNKNOWN_ATTR_PROFILE = ''urn:oasis:names:tc:SAML:2.0:status:UnknownAttrProfile''"

definition LASSO_SAML2_STATUS_CODE_UNKNOWN_PRINCIPAL :: string where [uri_defs]:
  "LASSO_SAML2_STATUS_CODE_UNKNOWN_PRINCIPAL = ''urn:oasis:names:tc:SAML:2.0:status:UnknownPrincipal''"

definition LASSO_SAML2_STATUS_CODE_UNSUPPORTED_BINDING :: string where [uri_defs]:
  "LASSO_SAML2_STATUS_CODE_UNSUPPORTED_BINDING = ''urn:oasis:names:tc:SAML:2.0:status:UnsupportedBinding''"

definition LASSO_SAML2_CONFIRMATION_METHOD_BEARER :: string where [uri_defs]:
  "LASSO_SAML2_CONFIRMATION_METHOD_BEARER = ''urn:oasis:names:tc:SAML:2.0:cm:bearer''"

section \<open>Metadata names\<close>

abbreviation LASSO_SAML2_METADATA_ELEMENT_ENTITY_DESCRIPTOR :: string where
  "LASSO_SAML2_METADATA_ELEMENT_ENTITY_DESCRIPTOR \<equiv> ''EntityDescriptor''"

abbreviation LASSO_SAML2_METADATA_ELEMENT_ENTITIES_DESCRIPTOR :: string where
  "LASSO_SAML2_METADATA_ELEMENT_ENTITIES_DESCRIPTOR \<equiv> ''EntitiesDescriptor''"

abbreviation LASSO_SAML2_METADATA_ELEMENT_IDP_SSO_DESCRIPTOR :: string where
  "LASSO_SAML2_METADATA_ELEMENT_IDP_SSO_DESCRIPTOR \<equiv> ''IDPSSODescriptor''"

abbreviation LASSO_SAML2_METADATA_ELEMENT_SP_SSO_DESCRIPTOR :: string where
  "LASSO_SAML2_METADATA_ELEMENT_SP_SSO_DESCRIPTOR \<equiv> ''SPSSODescriptor''"

abbreviation LASSO_SAML2_METADATA_ELEMENT_ATTRIBUTE_AUTHORITY_DESCRIPTOR :: string where
  "LASSO_SAML2_METADATA_ELEMENT_ATTRIBUTE_AUTHORITY_DESCRIPTOR \<equiv> ''AttributeAuthorityDescriptor''"

abbreviation LASSO_SAML2_METADATA_ELEMENT_PDP_DESCRIPTOR :: string where
  "LASSO_SAML2_METADATA_ELEMENT_PDP_DESCRIPTOR \<equiv> ''PDPDescriptor''"

abbreviation LASSO_SAML2_METADATA_ELEMENT_AUTHN_DESCRIPTOR :: string where
  "LASSO_SAML2_METADATA_ELEMENT_AUTHN_DESCRIPTOR \<equiv> ''AuthnAuthorityDescriptor''"

abbreviation LASSO_SAML2_METADATA_ELEMENT_ORGANIZATION :: string where
  "LASSO_SAML2_METADATA_ELEMENT_ORGANIZATION \<equiv> ''Organization''"

abbreviation LASSO_SAML2_METADATA_ELEMENT_KEY_DESCRIPTOR :: string where
  "LASSO_SAML2_METADATA_ELEMENT_KEY_DESCRIPTOR \<equiv> ''KeyDescriptor''"

abbreviation LASSO_SAML2_METADATA_ELEMENT_ASSERTION_CONSUMER_SERVICE :: string where
  "LASSO_SAML2_METADATA_ELEMENT_ASSERTION_CONSUMER_SERVICE \<equiv> ''AssertionConsumerService''"

abbreviation LASSO_SAML2_METADATA_ELEMENT_ARTIFACT_RESOLUTION_SERVICE :: string where
  "LASSO_SAML2_METADATA_ELEMENT_ARTIFACT_RESOLUTION_SERVICE \<equiv> ''ArtifactResolutionService''"

abbreviation LASSO_SAML2_METADATA_ATTRIBUTE_BINDING :: string where
  "LASSO_SAML2_METADATA_ATTRIBUTE_BINDING \<equiv> ''Binding''"

abbreviation LASSO_SAML2_METADATA_ATTRIBUTE_VALID_UNTIL :: string where
  "LASSO_SAML2_METADATA_ATTRIBUTE_VALID_UNTIL \<equiv> ''validUntil''"

abbreviation LASSO_SAML2_METADATA_ATTRIBUTE_CACHE_DURATION :: string where
  "LASSO_SAML2_METADATA_ATTRIBUTE_CACHE_DURATION \<equiv> ''cacheDuration''"

abbreviation LASSO_SAML2_METADATA_ATTRIBUTE_LOCATION :: string where
  "LASSO_SAML2_METADATA_ATTRIBUTE_LOCATION \<equiv> ''Location''"

abbreviation LASSO_SAML2_METADATA_ATTRIBUTE_RESPONSE_LOCATION :: string where
  "LASSO_SAML2_METADATA_ATTRIBUTE_RESPONSE_LOCATION \<equiv> ''ResponseLocation''"

abbreviation LASSO_SAML2_METADATA_ATTRIBUTE_INDEX :: string where
  "LASSO_SAML2_METADATA_ATTRIBUTE_INDEX \<equiv> ''index''"

abbreviation LASSO_SAML2_METADATA_ATTRIBUTE_ISDEFAULT :: string where
  "LASSO_SAML2_METADATA_ATTRIBUTE_ISDEFAULT \<equiv> ''isDefault''"

abbreviation LASSO_SAML2_METADATA_ATTRIBUTE_AUTHN_REQUEST_SIGNED :: string where
  "LASSO_SAML2_METADATA_ATTRIBUTE_AUTHN_REQUEST_SIGNED \<equiv> ''AuthnRequestsSigned''"

abbreviation LASSO_SAML2_METADATA_ATTRIBUTE_WANT_AUTHN_REQUEST_SIGNED :: string where
  "LASSO_SAML2_METADATA_ATTRIBUTE_WANT_AUTHN_REQUEST_SIGNED \<equiv> ''WantAuthnRequestsSigned''"

abbreviation LASSO_SAML2_METADATA_ATTRIBUTE_ERROR_URL :: string where
  "LASSO_SAML2_METADATA_ATTRIBUTE_ERROR_URL \<equiv> ''errorURL''"

abbreviation LASSO_SAML2_METADATA_ATTRIBUTE_PROTOCOL_SUPPORT_ENUMERATION :: string where
  "LASSO_SAML2_METADATA_ATTRIBUTE_PROTOCOL_SUPPORT_ENUMERATION \<equiv> ''protocolSupportEnumeration''"

end
