(* ===== verification/Lasso_Nodes.thy ===== *)
theory Lasso_Nodes
  imports Lasso_Prelude Lasso_Strings
begin

text \<open>
  The schema objects of \<^verbatim>\<open>lasso/xml\<close> that the protocol code reads and writes: name identifiers,
  assertions, conditions, statuses, requests and responses.  Each C structure is a record with the
  fields of the structure; a pointer that may be \<^verbatim>\<open>NULL\<close> is an option and a \<^verbatim>\<open>GList\<close> is a list.
  The XML fragment that an object was parsed from is kept (the original xmlnode of the object), since
  that is what signatures are verified on.
\<close>

section \<open>XML trees\<close>

text \<open>The part of a libxml2 tree that the dump and restore functions use: elements with a name, a
  namespace, attributes and children, and text.\<close>

datatype xml = Element (xml_name: string) (xml_ns: cstr) (xml_props: "(string \<times> string) list") (xml_children: "xml list")
  | Text (xml_text: string)

definition is_element :: "xml \<Rightarrow> bool" where
  "is_element x = (case x of Element _ _ _ _ \<Rightarrow> True | Text _ \<Rightarrow> False)"

definition xmlGetProp :: "xml \<Rightarrow> string \<Rightarrow> cstr" where
  "xmlGetProp x a = (case x of Element _ _ ps _ \<Rightarrow> map_of ps a | Text _ \<Rightarrow> None)"

definition xmlFirstElement :: "xml \<Rightarrow> xml option" where
  "xmlFirstElement x = (case x of Element _ _ _ cs \<Rightarrow> List.find is_element cs | Text _ \<Rightarrow> None)"

fun xmlNodeGetContent :: "xml \<Rightarrow> string" where
  "xmlNodeGetContent (Text s) = s"
| "xmlNodeGetContent (Element _ _ _ cs) = concat (map xmlNodeGetContent cs)"

definition LASSO_LASSO_HREF :: string where
  "LASSO_LASSO_HREF = ''http://www.entrouvert.org/namespaces/lasso/0.0''"

definition LASSO_SAML_ASSERTION_HREF :: string where
  "LASSO_SAML_ASSERTION_HREF = ''urn:oasis:names:tc:SAML:1.0:assertion''"

section \<open>Name identifiers\<close>

record name_id =
  nid_content :: cstr
  nid_Format :: cstr
  nid_SPProvidedID :: cstr
  nid_NameQualifier :: cstr
  nid_SPNameQualifier :: cstr

record saml_name_identifier =
  sni_content :: cstr
  sni_NameQualifier :: cstr
  sni_Format :: cstr

text \<open>A \<^verbatim>\<open>LassoNode\<close> where a name identifier is expected: one of the two classes, or an object of
  another class, which no function of this library accepts as a name identifier.\<close>

datatype name_identifier =
    SamlNameIdentifier saml_name_identifier
  | Saml2NameID name_id
  | OtherNode xml

definition lasso_saml2_name_id_new :: name_id where
  "lasso_saml2_name_id_new = \<lparr>nid_content = None, nid_Format = None, nid_SPProvidedID = None,
     nid_NameQualifier = None, nid_SPNameQualifier = None\<rparr>"

definition lasso_saml2_name_id_new_with_string :: "cstr \<Rightarrow> name_id" where
  "lasso_saml2_name_id_new_with_string content = lasso_saml2_name_id_new\<lparr>nid_content := content\<rparr>"

text \<open>A \<^verbatim>\<open>NameID\<close> without content equals no other, itself included.\<close>

definition lasso_saml2_name_id_equals :: "name_id \<Rightarrow> name_id \<Rightarrow> bool" where
  "lasso_saml2_name_id_equals a b =
     (if nid_content a = None \<or> nid_content b = None \<or> nid_content a \<noteq> nid_content b then False
      else if lasso_strisnotequal (nid_Format a) (nid_Format b) then False
      else if lasso_strisnotequal (nid_SPProvidedID a) (nid_SPProvidedID b) then False
      else if lasso_strisnotequal (nid_NameQualifier a) (nid_NameQualifier b) then False
      else if lasso_strisnotequal (nid_SPNameQualifier a) (nid_SPNameQualifier b) then False
      else True)"

definition lasso_saml_name_identifier_equals :: "saml_name_identifier \<Rightarrow> saml_name_identifier \<Rightarrow> bool" where
  "lasso_saml_name_identifier_equals a b =
     (lasso_strisequal (sni_NameQualifier a) (sni_NameQualifier b) \<and>
      lasso_strisequal (sni_Format a) (sni_Format b) \<and>
      lasso_strisequal (sni_content a) (sni_content b))"

lemma name_id_equals_iff: "lasso_saml2_name_id_equals a b \<longleftrightarrow> a = b \<and> nid_content a \<noteq> None"
  by (cases a, cases b) (auto simp: lasso_saml2_name_id_equals_def)

lemma name_identifier_equals_iff: "lasso_saml_name_identifier_equals a b \<longleftrightarrow> a = b"
  by (cases a, cases b) (auto simp: lasso_saml_name_identifier_equals_def)

section \<open>Encrypted elements\<close>

text \<open>An encrypted element is its ciphertext.  Encryption and decryption themselves are xmlsec's and
  enter the operations that use them as parameters.\<close>

record encrypted_element =
  ee_EncryptedData :: cstr

section \<open>Signatures\<close>

text \<open>The signature that an object is to be given when it is serialised
  (\<^verbatim>\<open>lasso_node_set_signature\<close>): the method and the key of a signature context, or none.  The key and
  the symmetric key type that an assertion is to be encrypted with (\<^verbatim>\<open>lasso_node_set_encryption\<close>)
  are its \<open>asn_encryption\<close>.\<close>

record signature_context =
  sctx_method :: int
  sctx_key :: cstr

section \<open>SAML 1.1 assertions\<close>

text \<open>A statement with its subject: \<open>sst_Subject\<close> is absent without a subject, and the name identifier in it may be.  Of a
  \<^verbatim>\<open>lib:Subject\<close> the identifier that the identity provider gave, of a \<^verbatim>\<open>saml:SubjectConfirmation\<close> the methods and the data;
  of a \<^verbatim>\<open>lib:AuthenticationStatement\<close> the session index.\<close>

record saml_statement =
  sst_Subject :: "saml_name_identifier option option"
  sst_is_lib_authentication :: bool
  sst_SessionIndex :: cstr
  sst_IDPProvidedNameIdentifier :: "saml_name_identifier option"
  sst_EncryptedNameIdentifier :: "encrypted_element option"
  sst_ConfirmationMethod :: "string list option"
  sst_SubjectConfirmationData :: cstr
  sst_AuthenticationMethod :: cstr
  sst_AuthenticationInstant :: cstr
  sst_ReauthenticateOnOrAfter :: cstr

text \<open>\<open>sma_InResponseTo\<close> is absent when the assertion is not a \<^verbatim>\<open>lib:Assertion\<close>.  The advice may carry another assertion,
  as that assertion's original xmlnode; \<open>sma_original_xmlnode\<close> is the node that the assertion itself was read from.\<close>

record saml_assertion =
  sma_AssertionID :: cstr
  sma_SubjectStatement :: "saml_statement option"
  sma_AuthenticationStatement :: "saml_statement option"
  sma_Advice_Assertion :: "xml option"
  sma_AttributeStatement :: "saml_statement option"
  sma_MajorVersion :: int
  sma_MinorVersion :: int
  sma_Issuer :: cstr
  sma_IssueInstant :: cstr
  sma_InResponseTo :: "cstr option"
  sma_NotBefore :: cstr
  sma_NotOnOrAfter :: cstr
  sma_Audience :: "string list"
  sma_signature :: "signature_context option"
  sma_original_xmlnode :: "xml option"

definition lasso_saml_assertion_new :: saml_assertion where
  "lasso_saml_assertion_new = \<lparr>sma_AssertionID = None, sma_SubjectStatement = None, sma_AuthenticationStatement = None,
     sma_Advice_Assertion = None, sma_AttributeStatement = None, sma_MajorVersion = 0, sma_MinorVersion = 0, sma_Issuer = None,
     sma_IssueInstant = None, sma_InResponseTo = None, sma_NotBefore = None, sma_NotOnOrAfter = None, sma_Audience = [],
     sma_signature = None, sma_original_xmlnode = None\<rparr>"

section \<open>SAML 2.0 assertions\<close>

record audience_restriction =
  ar_Audience :: cstr

record proxy_restriction =
  pr_Audience :: cstr
  pr_Count :: cstr

record conditions =
  cd_AudienceRestriction :: "audience_restriction list"
  cd_OneTimeUse :: "unit list"
  cd_ProxyRestriction :: "proxy_restriction list"
  cd_NotBefore :: cstr
  cd_NotOnOrAfter :: cstr

record subject_confirmation_data =
  scd_NotBefore :: cstr
  scd_NotOnOrAfter :: cstr
  scd_Recipient :: cstr
  scd_InResponseTo :: cstr
  scd_Address :: cstr

record subject_confirmation =
  sc_NameID :: "name_id option"
  sc_EncryptedID :: "encrypted_element option"
  sc_SubjectConfirmationData :: "subject_confirmation_data option"
  sc_Method :: cstr

record subject =
  sb_NameID :: "name_id option"
  sb_EncryptedID :: "encrypted_element option"
  sb_SubjectConfirmation :: "subject_confirmation option"

record authn_statement =
  as_AuthnContextClassRef :: cstr
  as_AuthnInstant :: cstr
  as_SessionIndex :: cstr
  as_SessionNotOnOrAfter :: cstr

record attribute_value =
  av_any :: "string list"

record attribute =
  at_Name :: cstr
  at_NameFormat :: cstr
  at_FriendlyName :: cstr
  at_AttributeValue :: "attribute_value list"

record attribute_statement =
  ats_Attribute :: "attribute list"

record saml2_assertion =
  asn_Issuer :: "name_id option"
  asn_Subject :: "subject option"
  asn_Conditions :: "conditions option"
  asn_AuthnStatement :: "authn_statement list"
  asn_AttributeStatement :: "attribute_statement list"
  asn_Version :: cstr
  asn_ID :: cstr
  asn_IssueInstant :: cstr
  asn_signature :: "signature_context option"
  asn_encryption_activated :: bool
  asn_encryption :: "(string \<times> int) option"
  asn_original_xmlnode :: "xml option"

datatype assertion_node =
    SamlAssertion saml_assertion
  | Saml2Assertion saml2_assertion
  | OtherAssertion string

definition lasso_saml2_conditions_new :: conditions where
  "lasso_saml2_conditions_new = \<lparr>cd_AudienceRestriction = [], cd_OneTimeUse = [],
     cd_ProxyRestriction = [], cd_NotBefore = None, cd_NotOnOrAfter = None\<rparr>"

definition lasso_saml2_subject_new :: subject where
  "lasso_saml2_subject_new = \<lparr>sb_NameID = None, sb_EncryptedID = None, sb_SubjectConfirmation = None\<rparr>"

definition lasso_saml2_subject_confirmation_new :: subject_confirmation where
  "lasso_saml2_subject_confirmation_new = \<lparr>sc_NameID = None, sc_EncryptedID = None,
     sc_SubjectConfirmationData = None, sc_Method = None\<rparr>"

definition lasso_saml2_subject_confirmation_data_new :: subject_confirmation_data where
  "lasso_saml2_subject_confirmation_data_new = \<lparr>scd_NotBefore = None, scd_NotOnOrAfter = None,
     scd_Recipient = None, scd_InResponseTo = None, scd_Address = None\<rparr>"

definition lasso_saml2_assertion_new :: saml2_assertion where
  "lasso_saml2_assertion_new = \<lparr>asn_Issuer = None, asn_Subject = None, asn_Conditions = None,
     asn_AuthnStatement = [], asn_AttributeStatement = [], asn_Version = None, asn_ID = None,
     asn_IssueInstant = None, asn_signature = None, asn_encryption_activated = False,
     asn_encryption = None, asn_original_xmlnode = None\<rparr>"

section \<open>Sample objects\<close>

text \<open>Used where a theorem is applied to concrete objects.\<close>

definition sample_nid :: name_id where
  "sample_nid = \<lparr>nid_content = Some ''alice'', nid_Format = None, nid_SPProvidedID = None,
     nid_NameQualifier = Some ''idp'', nid_SPNameQualifier = Some ''sp''\<rparr>"

definition sample_statement :: authn_statement where
  "sample_statement = \<lparr>as_AuthnContextClassRef = None, as_AuthnInstant = None,
     as_SessionIndex = Some ''s1'', as_SessionNotOnOrAfter = None\<rparr>"

definition sample_subject :: subject where
  "sample_subject = lasso_saml2_subject_new\<lparr>sb_NameID := Some sample_nid\<rparr>"

definition sample_assertion :: "string \<Rightarrow> saml2_assertion" where
  "sample_assertion i = lasso_saml2_assertion_new\<lparr>asn_ID := Some i,
     asn_Issuer := Some (lasso_saml2_name_id_new_with_string (Some ''idp'')),
     asn_Subject := Some sample_subject, asn_AuthnStatement := [sample_statement]\<rparr>"

lemma sample_simps [simp]:
  "nid_content sample_nid = Some ''alice''"
  "as_SessionIndex sample_statement = Some ''s1''"
  "sb_NameID sample_subject = Some sample_nid"
  "asn_ID (sample_assertion i) = Some i"
  "asn_Issuer (sample_assertion i) = Some (lasso_saml2_name_id_new_with_string (Some ''idp''))"
  "asn_Subject (sample_assertion i) = Some sample_subject"
  "asn_AuthnStatement (sample_assertion i) = [sample_statement]"
  by (simp_all add: sample_nid_def sample_statement_def sample_subject_def sample_assertion_def)

end
