(* ===== verification/Lasso_Tools.thy ===== *)
theory Lasso_Tools
  imports Lasso_Prelude "HOL-Library.Word"
begin

unbundle bit_operations_syntax

text \<open>
  The utilities of \<^verbatim>\<open>lasso/xml/tools.c\<close> that the protocol code depends on: random identifiers, the
  ISO 8601 dates of assertions and the parser of \<^verbatim>\<open>xsd:integer\<close>.  The C library's \<^verbatim>\<open>gmtime\<close>,
  \<^verbatim>\<open>strftime\<close>, \<^verbatim>\<open>strptime\<close> and \<^verbatim>\<open>timegm\<close> are written out for the formats that the code uses.
\<close>

section \<open>Random identifiers\<close>

text \<open>Each 32 bit random number gives \<^verbatim>\<open>sizeof(int)\<close> characters; the loop runs until at least
  \<open>n\<close> characters are written.\<close>

definition random_char :: "32 word \<Rightarrow> nat \<Rightarrow> char" where
  "random_char rnd i =
     (let c = 48 + unat ((drop_bit (i * 4) rnd) AND 15)
      in char_of (if c > 57 then c + 7 else c))"

fun lasso_build_random_sequence :: "32 word list \<Rightarrow> nat \<Rightarrow> nat \<Rightarrow> string" where
  "lasso_build_random_sequence [] n written = []"
| "lasso_build_random_sequence (r # rs) n written =
     (if written < n
      then map (random_char r) [0..<4] @ lasso_build_random_sequence rs n (written + 4)
      else [])"

definition lasso_build_unique_id :: "32 word list \<Rightarrow> nat \<Rightarrow> string" where
  "lasso_build_unique_id rnds n = CHR ''_'' # take n (lasso_build_random_sequence rnds n 0)"

definition hex_chars :: string where "hex_chars = ''0123456789ABCDEF''"

section \<open>Dates\<close>

record tm =
  tm_year :: nat
  tm_mon :: nat
  tm_mday :: nat
  tm_hour :: nat
  tm_min :: nat
  tm_sec :: nat

definition leap :: "nat \<Rightarrow> bool" where
  "leap y \<longleftrightarrow> 4 dvd y \<and> (\<not> 100 dvd y \<or> 400 dvd y)"

definition year_length :: "nat \<Rightarrow> nat" where
  "year_length y = (if leap y then 366 else 365)"

definition month_lengths :: "nat \<Rightarrow> nat list" where
  "month_lengths y = [31, if leap y then 29 else 28, 31, 30, 31, 30, 31, 31, 30, 31, 30, 31]"

primrec days_before_year :: "nat \<Rightarrow> nat" where
  "days_before_year 0 = 0"
| "days_before_year (Suc y) = days_before_year y + year_length y"

function year_split :: "nat \<Rightarrow> nat \<Rightarrow> nat \<times> nat" where
  "year_split d y = (if d < year_length y then (y, d) else year_split (d - year_length y) (Suc y))"
  by pat_completeness auto
termination
  by (relation "measure fst") (auto simp: year_length_def)

fun month_split :: "nat list \<Rightarrow> nat \<Rightarrow> nat \<Rightarrow> nat \<times> nat" where
  "month_split [] d m = (m, d)"
| "month_split (l # ls) d m = (if d < l then (m, d) else month_split ls (d - l) (Suc m))"

text \<open>Days are counted from the first day of year 0; the epoch is day 719528.\<close>

definition gmtime :: "int \<Rightarrow> tm option" where
  "gmtime t =
     (let d = t div 86400 + 719528; s = nat (t mod 86400) in
      if d < 0 then None
      else let (y, r) = year_split (nat d) 0;
               (m, k) = month_split (month_lengths y) r 1
           in Some \<lparr>tm_year = y, tm_mon = m, tm_mday = Suc k,
                    tm_hour = s div 3600, tm_min = s mod 3600 div 60, tm_sec = s mod 60\<rparr>)"

definition timegm :: "tm \<Rightarrow> int" where
  "timegm t =
     (int (days_before_year (tm_year t) + sum_list (take (tm_mon t - 1) (month_lengths (tm_year t))) + tm_mday t)
        - 1 - 719528) * 86400
     + int (tm_hour t * 3600 + tm_min t * 60 + tm_sec t)"

definition digit :: "nat \<Rightarrow> char" where
  "digit n = char_of (48 + n mod 10)"

definition two_digits :: "nat \<Rightarrow> string" where
  "two_digits n = [digit (n div 10), digit n]"

definition four_digits :: "nat \<Rightarrow> string" where
  "four_digits n = [digit (n div 1000), digit (n div 100), digit (n div 10), digit n]"

text \<open>The buffer has room for 20 characters: a year of more than four digits makes \<^verbatim>\<open>strftime\<close> leave
  it unspecified, and a year before 1000 is printed by \<^verbatim>\<open>%Y\<close> without padding.  Both are outside
  what the model answers.\<close>

definition lasso_time_to_iso_8601_gmt :: "int \<Rightarrow> cstr" where
  "lasso_time_to_iso_8601_gmt now =
     (case gmtime now of
        None \<Rightarrow> None
      | Some t \<Rightarrow>
          if 1000 \<le> tm_year t \<and> tm_year t \<le> 9999 then
            Some (four_digits (tm_year t) @ ''-'' @ two_digits (tm_mon t) @ ''-'' @ two_digits (tm_mday t) @
                  ''T'' @ two_digits (tm_hour t) @ '':'' @ two_digits (tm_min t) @ '':'' @ two_digits (tm_sec t) @ ''Z'')
          else None)"

definition is_digit :: "char \<Rightarrow> bool" where
  "is_digit c \<longleftrightarrow> 48 \<le> (of_char c :: nat) \<and> (of_char c :: nat) \<le> 57"

fun xsdtime_match_format :: "string \<Rightarrow> string \<Rightarrow> bool" where
  "xsdtime_match_format x [] = (x = [])"
| "xsdtime_match_format [] (f # fs) = False"
| "xsdtime_match_format (c # x) (f # fs) =
     (if f = CHR ''d'' \<and> is_digit c then xsdtime_match_format x fs
      else if f = CHR ''?'' then xsdtime_match_format (dropWhile is_digit (c # x)) fs
      else if f = c then xsdtime_match_format x fs
      else False)"

definition xsdtime_format1 :: string where "xsdtime_format1 = ''dddd-dd-ddTdd:dd:ddZ''"

definition xsdtime_format2 :: string where "xsdtime_format2 = ''dddd-dd-ddTdd:dd:dd.?Z''"

definition num :: "string \<Rightarrow> nat" where
  "num s = fold (\<lambda>c n. n * 10 + (of_char c - 48)) s 0"

text \<open>\<^verbatim>\<open>strptime\<close> on a string of the two formats: the fields are at fixed places, and each has the
  range that the conversion accepts.\<close>

definition strptime_iso :: "string \<Rightarrow> tm option" where
  "strptime_iso s =
     (let t = \<lparr>tm_year = num (take 4 s), tm_mon = num (take 2 (drop 5 s)), tm_mday = num (take 2 (drop 8 s)),
               tm_hour = num (take 2 (drop 11 s)), tm_min = num (take 2 (drop 14 s)), tm_sec = num (take 2 (drop 17 s))\<rparr>
      in if 1 \<le> tm_mon t \<and> tm_mon t \<le> 12 \<and> 1 \<le> tm_mday t \<and> tm_mday t \<le> 31 \<and> tm_hour t \<le> 23 \<and>
            tm_min t \<le> 59 \<and> tm_sec t \<le> 61 then Some t else None)"

definition lasso_iso_8601_gmt_to_time_t :: "cstr \<Rightarrow> int" where
  "lasso_iso_8601_gmt_to_time_t xsdtime =
     (case xsdtime of
        None \<Rightarrow> -1
      | Some s \<Rightarrow>
          if xsdtime_match_format s xsdtime_format1 \<or> xsdtime_match_format s xsdtime_format2 then
            (case strptime_iso s of None \<Rightarrow> -1 | Some t \<Rightarrow> timegm t)
          else -1)"

section \<open>Integers\<close>

definition is_space :: "char \<Rightarrow> bool" where
  "is_space c \<longleftrightarrow> (of_char c :: nat) = 32 \<or> (9 \<le> (of_char c :: nat) \<and> (of_char c :: nat) \<le> 13)"

definition strtol10 :: "string \<Rightarrow> int" where
  "strtol10 s =
     (let s = dropWhile is_space s;
          neg = (s \<noteq> [] \<and> hd s = CHR ''-'');
          s = (if s \<noteq> [] \<and> (hd s = CHR ''-'' \<or> hd s = CHR ''+'') then tl s else s);
          v = int (num (takeWhile is_digit s))
      in if neg then - v else v)"

text \<open>The result and what is stored in \<open>integer\<close>: for a value outside of \<^verbatim>\<open>long\<close>, \<^verbatim>\<open>strtol\<close> fails with \<^verbatim>\<open>ERANGE\<close> and the nearest value
  has been stored.\<close>

definition lasso_string_to_xsd_integer :: "cstr \<Rightarrow> int \<Rightarrow> bool \<times> int" where
  "lasso_string_to_xsd_integer str integer =
     (case str of
        None \<Rightarrow> (False, integer)
      | Some save \<Rightarrow>
          (let s = dropWhile is_space save;
               s = (if s \<noteq> [] \<and> (hd s = CHR ''+'' \<or> hd s = CHR ''-'') then tl s else s);
               s = dropWhile is_digit s;
               s = dropWhile is_space s
           in if s \<noteq> [] then (False, integer)
              else let v = strtol10 save
                   in (- (2 ^ 63) \<le> v \<and> v \<le> 2 ^ 63 - 1, max (- (2 ^ 63)) (min (2 ^ 63 - 1) v))))"

section \<open>Laws of the calendar\<close>

lemmas [simp del] = year_split.simps

lemma year_split_spec:
  "year_split d y = (y', r) \<Longrightarrow> r < year_length y' \<and> days_before_year y' + r = days_before_year y + d"
proof (induction d y rule: year_split.induct)
  case (1 d y)
  then show ?case
    by (cases "d < year_length y") (auto simp: year_split.simps[of d y])
qed

lemma month_split_spec:
  "month_split ls d m = (m', k) \<Longrightarrow> d < sum_list ls \<Longrightarrow>
     m \<le> m' \<and> m' - m < length ls \<and> k < ls ! (m' - m) \<and> sum_list (take (m' - m) ls) + k = d"
proof (induction ls d m rule: month_split.induct)
  case (2 l ls d m)
  show ?case
  proof (cases "d < l")
    case True
    then show ?thesis using 2 by auto
  next
    case False
    then have "month_split ls (d - l) (Suc m) = (m', k)" "d - l < sum_list ls" using 2 by auto
    then have IH: "Suc m \<le> m' \<and> m' - Suc m < length ls \<and> k < ls ! (m' - Suc m) \<and>
        sum_list (take (m' - Suc m) ls) + k = d - l"
      using 2 False by blast
    then have "m' - m = Suc (m' - Suc m)" by (simp add: Suc_diff_Suc Suc_le_eq)
    then show ?thesis using IH False by auto
  qed
qed simp

lemma month_lengths_sum: "sum_list (month_lengths y) = year_length y"
  by (simp add: month_lengths_def year_length_def)

lemma month_lengths_bound: "i < 12 \<Longrightarrow> month_lengths y ! i \<le> 31"
proof -
  assume "i < 12"
  then have "i \<in> {0, 1, 2, 3, 4, 5, 6, 7, 8, 9, 10, 11}" by (simp, presburger)
  then show ?thesis by (auto simp: month_lengths_def)
qed

lemma round_up_Suc: "0 < n \<Longrightarrow> (Suc y + (n - 1)) div n = (y + (n - 1)) div n + (if n dvd y then 1 else 0)"
proof -
  assume n: "0 < n"
  then have "Suc (y + (n - 1)) mod n = y mod n" by simp
  then show ?thesis by (simp add: div_Suc dvd_eq_mod_eq_0)
qed

lemma year_length_round_up:
  "year_length y + (if 100 dvd y then 1 else 0) = 365 + (if 4 dvd y then 1 else 0) + (if 400 dvd y then 1 else 0)"
proof -
  have "400 dvd y \<Longrightarrow> 100 dvd y" and "100 dvd y \<Longrightarrow> 4 dvd y"
    by (auto intro: dvd_trans[of 100 400 y] dvd_trans[of 4 100 y])
  then show ?thesis by (auto simp: year_length_def leap_def)
qed

lemma sums_cross:
  fixes d :: nat
  shows "d + c = p + a + b \<Longrightarrow> l + k = 365 + i + j \<Longrightarrow> (d + l) + (c + k) = (365 + p) + (a + i) + (b + j)"
  by linarith

lemma days_before_year_sum:
  "days_before_year y + (y + 99) div 100 = 365 * y + (y + 3) div 4 + (y + 399) div 400"
proof (induction y)
  case (Suc y)
  have "(Suc y + 3) div 4 = (y + 3) div 4 + (if 4 dvd y then 1 else 0)"
    "(Suc y + 399) div 400 = (y + 399) div 400 + (if 400 dvd y then 1 else 0)"
    "(Suc y + 99) div 100 = (y + 99) div 100 + (if 100 dvd y then 1 else 0)"
    using round_up_Suc[of 4 y] round_up_Suc[of 400 y] round_up_Suc[of 100 y] by simp_all
  then show ?case
    using sums_cross[OF Suc year_length_round_up] by (simp only: days_before_year.simps mult_Suc_right)
qed simp

lemma days_before_year_values: "days_before_year 1000 = 365243" "days_before_year 10000 = 3652425"
  using days_before_year_sum[of 1000] days_before_year_sum[of 10000] by simp_all

lemma days_before_year_mono: "y \<le> z \<Longrightarrow> days_before_year y \<le> days_before_year z"
  by (induction z) (auto simp: le_Suc_eq)

definition tm_ok :: "tm \<Rightarrow> bool" where
  "tm_ok t \<longleftrightarrow> 1 \<le> tm_mon t \<and> tm_mon t \<le> 12 \<and> 1 \<le> tm_mday t \<and> tm_mday t \<le> 31 \<and>
     tm_hour t \<le> 23 \<and> tm_min t \<le> 59 \<and> tm_sec t \<le> 59"

lemma gmtime_timegm:
  assumes "gmtime t = Some tm"
  shows "timegm tm = t \<and> tm_ok tm"
proof -
  define d where "d = nat (t div 86400 + 719528)"
  define s where "s = nat (t mod 86400)"
  have pos: "0 \<le> t div 86400 + 719528" using assms by (auto simp: gmtime_def Let_def split: if_splits)
  obtain y r where yr: "year_split d 0 = (y, r)" by fastforce
  obtain m k where mk: "month_split (month_lengths y) r 1 = (m, k)" by fastforce
  have tm: "tm = \<lparr>tm_year = y, tm_mon = m, tm_mday = Suc k, tm_hour = s div 3600, tm_min = s mod 3600 div 60, tm_sec = s mod 60\<rparr>"
    using assms pos yr mk by (simp add: gmtime_def Let_def d_def s_def)
  have y: "r < year_length y" "days_before_year y + r = d" using year_split_spec[OF yr] by auto
  have m: "1 \<le> m" "m - 1 < length (month_lengths y)" "k < month_lengths y ! (m - 1)"
    "sum_list (take (m - 1) (month_lengths y)) + k = r"
    using month_split_spec[OF mk] y(1) by (auto simp: month_lengths_sum)
  have m12: "m - 1 < 12" using m(2) by (simp add: month_lengths_def)
  have day: "Suc k \<le> 31" using m(3) month_lengths_bound[OF m12, of y] by linarith
  have s: "s < 86400" "int s = t mod 86400" by (auto simp: s_def)
  have "s mod 60 = s mod 3600 mod 60" by (simp add: mod_mod_cancel)
  then have hms: "s div 3600 * 3600 + s mod 3600 div 60 * 60 + s mod 60 = s" by simp
  have "days_before_year y + sum_list (take (m - 1) (month_lengths y)) + Suc k = Suc d"
    using y(2) m(4) by simp
  then have "timegm tm = (int (Suc d) - 1 - 719528) * 86400 + int s"
    by (simp only: timegm_def tm tm.select_convs hms)
  also have "\<dots> = t" using pos s(2) by (simp add: d_def)
  finally show ?thesis using m(1) m12 day s(1) by (auto simp: tm tm_ok_def)
qed

lemma gmtime_year:
  assumes "0 \<le> t" and "t < 253402300800"
  shows "\<exists>tm. gmtime t = Some tm \<and> 1000 \<le> tm_year tm \<and> tm_year tm \<le> 9999"
proof -
  define d where "d = nat (t div 86400 + 719528)"
  obtain y r where yr: "year_split d 0 = (y, r)" by fastforce
  obtain m k where mk: "month_split (month_lengths y) r 1 = (m, k)" by fastforce
  have spec: "r < year_length y" "days_before_year y + r = d" using year_split_spec[OF yr] by auto
  have d: "719528 \<le> d" "d < 3652425" using assms by (auto simp: d_def)
  have "y \<le> 9999"
  proof (rule ccontr)
    assume "\<not> y \<le> 9999"
    then have "days_before_year 10000 \<le> days_before_year y" by (intro days_before_year_mono) simp
    then show False using spec d by (simp add: days_before_year_values)
  qed
  moreover have "1000 \<le> y"
  proof (rule ccontr)
    assume "\<not> 1000 \<le> y"
    then have "days_before_year (Suc y) \<le> days_before_year 1000" by (intro days_before_year_mono) simp
    then show False using spec d by (simp add: days_before_year_values)
  qed
  ultimately show ?thesis
    using assms yr mk by (auto simp: gmtime_def Let_def d_def)
qed

section \<open>Laws of the digits\<close>

lemma digit_value: "of_char (digit n) = 48 + n mod 10"
  by (simp add: digit_def)

lemma is_digit_digit [simp]: "is_digit (digit n)"
  by (simp add: is_digit_def digit_value)

lemma num_two_digits: "n < 100 \<Longrightarrow> num (two_digits n) = n"
  by (simp add: num_def two_digits_def digit_value)

lemma num_four_digits: "n < 10000 \<Longrightarrow> num (four_digits n) = n"
proof -
  assume n: "n < 10000"
  have "n div 10 div 10 = n div 100" "n div 100 div 10 = n div 1000"
    using div_mult2_eq[of n 10 10] div_mult2_eq[of n 100 10] by simp_all
  then have "n div 1000 * 10 + n div 100 mod 10 = n div 100" "n div 100 * 10 + n div 10 mod 10 = n div 10"
    using div_mult_mod_eq[of "n div 100" 10] div_mult_mod_eq[of "n div 10" 10] by simp_all
  moreover have "n div 1000 mod 10 = n div 1000" using n by simp
  ultimately show ?thesis by (simp add: num_def four_digits_def digit_value)
qed

lemma iso_8601_parsed_back:
  assumes "0 \<le> t" and "t < 253402300800"
  shows "\<exists>s. lasso_time_to_iso_8601_gmt t = Some s \<and> length s = 20 \<and>
    lasso_iso_8601_gmt_to_time_t (Some s) = t"
proof -
  obtain tm where tm: "gmtime t = Some tm" "1000 \<le> tm_year tm" "tm_year tm \<le> 9999"
    using gmtime_year[OF assms] by blast
  note ok = gmtime_timegm[OF tm(1)]
  let ?s = "four_digits (tm_year tm) @ ''-'' @ two_digits (tm_mon tm) @ ''-'' @ two_digits (tm_mday tm) @
    ''T'' @ two_digits (tm_hour tm) @ '':'' @ two_digits (tm_min tm) @ '':'' @ two_digits (tm_sec tm) @ ''Z''"
  have fmt: "xsdtime_match_format ?s xsdtime_format1"
    by (simp add: xsdtime_format1_def four_digits_def two_digits_def)
  have fields: "take 4 ?s = four_digits (tm_year tm)" "take 2 (drop 5 ?s) = two_digits (tm_mon tm)"
    "take 2 (drop 8 ?s) = two_digits (tm_mday tm)" "take 2 (drop 11 ?s) = two_digits (tm_hour tm)"
    "take 2 (drop 14 ?s) = two_digits (tm_min tm)" "take 2 (drop 17 ?s) = two_digits (tm_sec tm)"
    by (simp_all add: four_digits_def two_digits_def)
  have "strptime_iso ?s = Some tm"
    using ok tm(3) unfolding strptime_iso_def fields by (simp add: num_two_digits num_four_digits tm_ok_def)
  then have "lasso_iso_8601_gmt_to_time_t (Some ?s) = t"
    using ok fmt by (simp add: lasso_iso_8601_gmt_to_time_t_def)
  moreover have "lasso_time_to_iso_8601_gmt t = Some ?s"
    using tm by (simp add: lasso_time_to_iso_8601_gmt_def)
  moreover have "length ?s = 20" by (simp add: four_digits_def two_digits_def)
  ultimately show ?thesis by blast
qed

section \<open>Properties\<close>

text \<open>Every instant from the epoch to the end of the year 9999 is printed as a date that is parsed
  back to the same instant.\<close>

theorem iso_8601_roundtrip:
  assumes "0 \<le> t" and "t < 253402300800"
  shows "\<exists>s. lasso_time_to_iso_8601_gmt t = Some s \<and> length s = 20 \<and>
    lasso_iso_8601_gmt_to_time_t (Some s) = t"
  using assms by (rule iso_8601_parsed_back)

theorem iso_8601_roundtrip_witness:
  "\<exists>s. lasso_time_to_iso_8601_gmt 1700000000 = Some s \<and> lasso_iso_8601_gmt_to_time_t (Some s) = 1700000000"
  using iso_8601_roundtrip[of 1700000000] by auto

lemma hex_chars_codes: "set ([48..<58] @ [65..<71]) = (of_char ` set hex_chars :: nat set)"
  by (simp add: hex_chars_def upt_rec_numeral del: set_upt)

lemma random_char_hex: "random_char r i \<in> set hex_chars"
proof -
  define v where "v = unat ((drop_bit (i * 4) r) AND 15)"
  define n where "n = (if 48 + v > 57 then 48 + v + 7 else 48 + v)"
  have "(drop_bit (i * 4) r) AND 15 \<le> (15 :: 32 word)" by (rule word_and_le1)
  then have "v \<le> 15" by (simp add: v_def word_le_nat_alt)
  then have "n \<in> set ([48..<58] @ [65..<71])" by (auto simp: n_def)
  then obtain c where "c \<in> set hex_chars" "n = of_char c" unfolding hex_chars_codes by blast
  then have "char_of n \<in> set hex_chars" by simp
  then show ?thesis unfolding random_char_def v_def[symmetric] n_def Let_def .
qed

lemma random_sequence_hex: "set (lasso_build_random_sequence rnds n w) \<subseteq> set hex_chars"
  by (induction rnds n w rule: lasso_build_random_sequence.induct) (auto simp: random_char_hex)

lemma round_up_4: "0 < k \<Longrightarrow> (k + 3) div 4 = Suc ((k - 4 + 3) div 4)" for k :: nat
proof (cases "4 \<le> k")
  case True
  then obtain j where "k = j + 4" by (metis add.commute le_Suc_ex)
  then show ?thesis by simp
next
  case False
  moreover assume "0 < k"
  ultimately have "k = 1 \<or> k = 2 \<or> k = 3" by linarith
  then show ?thesis by auto
qed

lemma random_sequence_length:
  "n \<le> w + 4 * length rnds \<Longrightarrow>
     length (lasso_build_random_sequence rnds n w) = (n - w + 3) div 4 * 4"
proof (induction rnds n w rule: lasso_build_random_sequence.induct)
  case (2 r rs n w)
  show ?case
  proof (cases "w < n")
    case True
    then have "length (lasso_build_random_sequence rs n (w + 4)) = (n - (w + 4) + 3) div 4 * 4"
      using 2 by simp
    moreover have "(n - w + 3) div 4 = Suc ((n - (w + 4) + 3) div 4)"
      using round_up_4[of "n - w"] True by simp
    ultimately show ?thesis using True by simp
  qed simp
qed simp

text \<open>An identifier of a size that is a multiple of four, as all the identifiers of the library, is
  an underscore followed by that many hexadecimal digits, and the buffer of that size is filled
  exactly; a size that is not a multiple of four makes the loop write past it.\<close>

theorem unique_id_shape:
  assumes "n \<le> 4 * length rnds"
  shows "hd (lasso_build_unique_id rnds n) = CHR ''_'' \<and>
    set (tl (lasso_build_unique_id rnds n)) \<subseteq> set hex_chars \<and>
    length (lasso_build_unique_id rnds n) = Suc n \<and>
    (4 dvd n \<longleftrightarrow> length (lasso_build_random_sequence rnds n 0) = n) \<and>
    n \<le> length (lasso_build_random_sequence rnds n 0)"
proof -
  have len: "length (lasso_build_random_sequence rnds n 0) = (n + 3) div 4 * 4"
    using random_sequence_length[of n 0 rnds] assms by simp
  have le: "n \<le> length (lasso_build_random_sequence rnds n 0)" unfolding len by presburger
  have dvd: "4 dvd n \<longleftrightarrow> length (lasso_build_random_sequence rnds n 0) = n" unfolding len by presburger
  have hex: "set (take n (lasso_build_random_sequence rnds n 0)) \<subseteq> set hex_chars"
    using random_sequence_hex set_take_subset by fast
  show ?thesis
    using le dvd hex unfolding lasso_build_unique_id_def list.sel by (simp add: min_absorb2)
qed

theorem unique_id_shape_witness:
  "length (lasso_build_unique_id (replicate 8 7) 32) = 33"
  using unique_id_shape[of 32 "replicate 8 7"] by simp

end
