(* ===== verification/Lasso_Query.thy ===== *)
theory Lasso_Query
  imports Lasso_Tools Lasso_Strings "HOL-Library.Sublist"
begin

text \<open>
  Query strings, the functions of \<^verbatim>\<open>lasso/xml/tools.c\<close> that write, split, sign and verify them: escaping, the
  parameters of an address, the fields of a query, the relay state, the signature of a query with ID-FF
  and with SAML 2.0, and what the message in a query decodes to.

  libxml2, xmlsec, OpenSSL and zlib are the fields of \<open>query_lib\<close>.  A C string is a list of characters other than
  the null character; pointers into a string are the suffixes they point at.
\<close>

section \<open>What the libraries provide\<close>

datatype key_kind = RsaKey | DsaKey | HmacKey | OtherKey

datatype message_digest = Sha1 | Sha256 | Sha384 | Sha512

text \<open>A key is an opaque string.  \<open>qlb_base64_decode s n\<close> is the result of \<^verbatim>\<open>xmlSecBase64Decode\<close> on a buffer of \<open>n\<close> bytes,
  negative on an error, with the bytes written; \<open>qlb_heap n\<close> is what a fresh allocation of \<open>n\<close> bytes holds.  \<open>qlb_href m\<close> is
  the address of a signature method, one of the constants \<^verbatim>\<open>xmlSecHref...\<close>.  \<open>qlb_sign\<close> and \<open>qlb_verify\<close> are
  \<^verbatim>\<open>RSA_sign\<close> and \<^verbatim>\<open>DSA_sign\<close>, \<^verbatim>\<open>RSA_verify\<close> and \<^verbatim>\<open>DSA_verify\<close>, on a digest.  \<open>qlb_uri_escape\<close> is the function
  \<^verbatim>\<open>xmlURIEscapeStr\<close> of libxml2 without exceptions and \<open>qlb_printf\<close> is \<^verbatim>\<open>g_strdup_printf\<close> on strings.\<close>

record query_lib =
  qlb_unescape :: "string \<Rightarrow> string"
  qlb_base64_encode :: "8 word list \<Rightarrow> string"
  qlb_base64_decode :: "string \<Rightarrow> nat \<Rightarrow> int \<times> 8 word list"
  qlb_heap :: "nat \<Rightarrow> 8 word list"
  qlb_href :: "int \<Rightarrow> string"
  qlb_key_kind :: "string \<Rightarrow> key_kind"
  qlb_key_size :: "string \<Rightarrow> nat"
  qlb_hmac_key :: "string \<Rightarrow> 8 word list"
  qlb_digest :: "message_digest \<Rightarrow> string \<Rightarrow> 8 word list"
  qlb_sign :: "key_kind \<Rightarrow> message_digest \<Rightarrow> 8 word list \<Rightarrow> string \<Rightarrow> bool \<times> 8 word list"
  qlb_verify :: "key_kind \<Rightarrow> message_digest \<Rightarrow> 8 word list \<Rightarrow> 8 word list \<Rightarrow> string \<Rightarrow> bool"
  qlb_hmac :: "message_digest \<Rightarrow> 8 word list \<Rightarrow> string \<Rightarrow> 8 word list"
  qlb_deflate :: "8 word list \<Rightarrow> 8 word list"
  qlb_inflate :: "8 word list \<Rightarrow> 8 word list option"
  qlb_uri_escape :: "string \<Rightarrow> string"
  qlb_printf :: "string \<Rightarrow> string list \<Rightarrow> string"

section \<open>Strings of the C library\<close>

text \<open>\<^verbatim>\<open>strchr\<close> and \<^verbatim>\<open>strstr\<close> return the suffix that starts with the character or the string;
  \<open>break_at d s\<close> is what is before and after the first \<open>d\<close> in \<open>s\<close>.\<close>

primrec strchr :: "string \<Rightarrow> char \<Rightarrow> cstr" where
  "strchr [] c = None"
| "strchr (x # xs) c = (if x = c then Some (x # xs) else strchr xs c)"

fun strstr :: "string \<Rightarrow> string \<Rightarrow> cstr" where
  "strstr s t = (if prefix t s then Some s else case s of [] \<Rightarrow> None | _ # xs \<Rightarrow> strstr xs t)"

fun break_at :: "string \<Rightarrow> string \<Rightarrow> (string \<times> string) option" where
  "break_at d s =
     (if prefix d s then Some ([], drop (length d) s)
      else case s of [] \<Rightarrow> None | x # xs \<Rightarrow> map_option (apfst (Cons x)) (break_at d xs))"

declare strstr.simps [simp del] break_at.simps [simp del]

lemma break_at_Some: "break_at d s = Some (a, b) \<Longrightarrow> s = a @ d @ b"
proof (induction s arbitrary: a)
  case Nil
  then show ?case by (auto simp: break_at.simps[of d "[]"] split: if_splits)
next
  case (Cons x xs)
  then show ?case by (subst (asm) (2) break_at.simps) (auto split: if_splits simp: prefix_def)
qed

text \<open>\<^verbatim>\<open>g_strsplit\<close> with no limit and a delimiter that is not empty.\<close>

function strsplit_loop :: "string \<Rightarrow> string \<Rightarrow> string list" where
  "strsplit_loop d s =
     (if d = [] then [s] else case break_at d s of None \<Rightarrow> [s] | Some (a, b) \<Rightarrow> a # strsplit_loop d b)"
  by pat_completeness auto
termination by (relation "measure (\<lambda>(d, s). length s)") (auto dest: break_at_Some)

declare strsplit_loop.simps [simp del]

definition g_strsplit :: "string \<Rightarrow> string \<Rightarrow> string list" where
  "g_strsplit s d = (if s = [] then [] else strsplit_loop d s)"

section \<open>Escaping\<close>

definition is_alnum :: "char \<Rightarrow> bool" where
  "is_alnum c = (let n = (of_char c :: nat) in 48 \<le> n \<and> n \<le> 57 \<or> 65 \<le> n \<and> n \<le> 90 \<or> 97 \<le> n \<and> n \<le> 122)"

definition is_plain :: "string \<Rightarrow> char \<Rightarrow> bool" where
  "is_plain keep c \<longleftrightarrow> is_alnum c \<or> c \<in> set ''._~-'' \<or> c \<in> set keep"

definition hex_digit :: "nat \<Rightarrow> char" where
  "hex_digit n = char_of (if n > 9 then 65 + n - 10 else 48 + n)"

definition lasso_xmlURIEscapeStr :: "string \<Rightarrow> string \<Rightarrow> string" where
  "lasso_xmlURIEscapeStr from keep =
     concat (map (\<lambda>c. if is_plain keep c then [c]
                      else let n = of_char c in [CHR ''%'', hex_digit (n div 16), hex_digit (n mod 16)]) from)"

text \<open>The size that the first loop computes for the buffer, without the final null, and the index at which the second loop has
  arrived when it writes that null.  The size is a \<^verbatim>\<open>size_t\<close>, the index an \<^verbatim>\<open>int\<close>.\<close>

definition escaped_length :: "string \<Rightarrow> string \<Rightarrow> 64 word" where
  "escaped_length from keep = fold (\<lambda>c len. if is_plain keep c then len + 1 else len + 3) from 0"

definition escaped_index :: "string \<Rightarrow> string \<Rightarrow> int" where
  "escaped_index from keep =
     fold (\<lambda>c ri. if is_plain keep c then c_int (ri + 1) else c_int (c_int (c_int (ri + 1) + 1) + 1)) from 0"

text \<open>What libxml2 documents of \<^verbatim>\<open>xmlURIUnescapeString\<close>: a direct translation of the values \<^verbatim>\<open>%XX\<close>.  A null byte ends the
  result.\<close>

definition hex_value :: "char \<Rightarrow> nat option" where
  "hex_value c =
     (let n = of_char c in
      if 48 \<le> n \<and> n \<le> 57 then Some (n - 48)
      else if 65 \<le> n \<and> n \<le> 70 then Some (n - 55)
      else if 97 \<le> n \<and> n \<le> 102 then Some (n - 87)
      else None)"

fun percent_decode :: "string \<Rightarrow> string" where
  "percent_decode [] = []"
| "percent_decode (c # cs) =
     (case cs of
        a # b # rest \<Rightarrow>
          (case (hex_value a, hex_value b) of
             (Some h, Some l) \<Rightarrow> if c = CHR ''%'' then char_of (16 * h + l) # percent_decode rest else c # percent_decode cs
           | _ \<Rightarrow> c # percent_decode cs)
      | _ \<Rightarrow> c # percent_decode cs)"

definition unescapes :: "(string \<Rightarrow> string) \<Rightarrow> bool" where
  "unescapes u \<longleftrightarrow> (\<forall>s. u s = takeWhile (\<lambda>c. c \<noteq> CHR 0x00) (percent_decode s))"

section \<open>Addresses and their parameters\<close>

definition lasso_concat_url_query :: "string \<Rightarrow> string \<Rightarrow> string" where
  "lasso_concat_url_query url query = url @ (if strchr url CHR ''?'' \<noteq> None then ''&'' else ''?'') @ query"

text \<open>The variable arguments are a list that \<^verbatim>\<open>NULL\<close> ends.\<close>

fun add_parameters :: "cstr \<Rightarrow> cstr \<Rightarrow> cstr list \<Rightarrow> cstr" where
  "add_parameters old_url new_url (Some key # Some val # args) =
     (let field = lasso_xmlURIEscapeStr key [] @ ''='' @ lasso_xmlURIEscapeStr val [];
          new_url = (case old_url of None \<Rightarrow> field | Some u \<Rightarrow> u @ ''&'' @ field)
      in add_parameters (Some new_url) (Some new_url) args)"
| "add_parameters old_url new_url _ = new_url"

definition lasso_url_add_parameters :: "cstr \<Rightarrow> cstr list \<Rightarrow> cstr" where
  "lasso_url_add_parameters url args = add_parameters url None args"

section \<open>Fields of a query\<close>

definition is_separator :: "char \<Rightarrow> bool" where
  "is_separator c \<longleftrightarrow> c = CHR ''&'' \<or> c = CHR '';''"

text \<open>Both loops that split a query count the separators first, in an \<^verbatim>\<open>int\<close>, to allocate the array.\<close>

definition count_components :: "string \<Rightarrow> int" where
  "count_components s = fold (\<lambda>c n. if is_separator c then c_int (n + 1) else n) s 1"

fun split_fields :: "string \<Rightarrow> string \<Rightarrow> string list" where
  "split_fields acc [] = [acc]"
| "split_fields acc (c # cs) = (if is_separator c then acc # split_fields [] cs else split_fields (acc @ [c]) cs)"

text \<open>The array of the fields, for a query whose fields the counter can count.\<close>

definition lasso_urlencoded_to_strings :: "query_lib \<Rightarrow> string \<Rightarrow> string list" where
  "lasso_urlencoded_to_strings lib s = map (\<lambda>f. if f = [] then [] else qlb_unescape lib f) (split_fields [] s)"

text \<open>The relay state: the parameter that starts the query, else the first one after an ampersand, else the first
  one after a semicolon, up to the next separator.  A warning about the length is all that a long one gives.\<close>

definition lasso_get_relaystate_from_query :: "query_lib \<Rightarrow> cstr \<Rightarrow> cstr" where
  "lasso_get_relaystate_from_query lib query =
     (case query of
        None \<Rightarrow> None
      | Some q \<Rightarrow>
          (let start = (if prefix ''RelayState='' q then Some (drop 11 q)
                        else map_option (drop 12)
                               (case strstr q ''&RelayState='' of
                                  Some s \<Rightarrow> Some s
                                | None \<Rightarrow> strstr q '';RelayState=''))
           in map_option (\<lambda>s. let v = takeWhile (\<lambda>c. \<not> is_separator c) s in if v = [] then [] else qlb_unescape lib v) start))"

text \<open>\<^verbatim>\<open>lasso_get_query_string_param_value\<close> moves to the next ampersand but not past it: when the query does not start with
  the parameter and has an ampersand, it looks at the same place for ever.  \<open>None\<close> is this loop; the value and its
  length are the inner result.\<close>

partial_function (option) lasso_get_query_string_param_value :: "string \<Rightarrow> string \<Rightarrow> (string \<times> nat) option option" where
  "lasso_get_query_string_param_value param_key qs =
     (if prefix (param_key @ ''='') qs
      then (let v = drop (length param_key + 1) qs;
                e = (case strchr v CHR ''&'' of None \<Rightarrow> strchr v CHR '';'' | Some e \<Rightarrow> Some e)
            in Some (Some (v, case e of None \<Rightarrow> length v | Some e \<Rightarrow> length v - length e)))
      else case strchr qs CHR ''&'' of
             None \<Rightarrow> Some None
           | Some qs' \<Rightarrow> lasso_get_query_string_param_value param_key qs')"

section \<open>Signature methods\<close>

definition LASSO_SIGNATURE_METHOD_RSA_SHA1 :: int where "LASSO_SIGNATURE_METHOD_RSA_SHA1 = 1"
definition LASSO_SIGNATURE_METHOD_DSA_SHA1 :: int where "LASSO_SIGNATURE_METHOD_DSA_SHA1 = 2"
definition LASSO_SIGNATURE_METHOD_HMAC_SHA1 :: int where "LASSO_SIGNATURE_METHOD_HMAC_SHA1 = 3"
definition LASSO_SIGNATURE_METHOD_RSA_SHA256 :: int where "LASSO_SIGNATURE_METHOD_RSA_SHA256 = 4"
definition LASSO_SIGNATURE_METHOD_HMAC_SHA256 :: int where "LASSO_SIGNATURE_METHOD_HMAC_SHA256 = 5"
definition LASSO_SIGNATURE_METHOD_RSA_SHA384 :: int where "LASSO_SIGNATURE_METHOD_RSA_SHA384 = 6"
definition LASSO_SIGNATURE_METHOD_HMAC_SHA384 :: int where "LASSO_SIGNATURE_METHOD_HMAC_SHA384 = 7"
definition LASSO_SIGNATURE_METHOD_RSA_SHA512 :: int where "LASSO_SIGNATURE_METHOD_RSA_SHA512 = 8"
definition LASSO_SIGNATURE_METHOD_HMAC_SHA512 :: int where "LASSO_SIGNATURE_METHOD_HMAC_SHA512 = 9"
abbreviation LASSO_SIGNATURE_METHOD_LAST :: int where "LASSO_SIGNATURE_METHOD_LAST \<equiv> 10"

lemmas method_defs =
  LASSO_SIGNATURE_METHOD_RSA_SHA1_def LASSO_SIGNATURE_METHOD_DSA_SHA1_def LASSO_SIGNATURE_METHOD_HMAC_SHA1_def
  LASSO_SIGNATURE_METHOD_RSA_SHA256_def LASSO_SIGNATURE_METHOD_HMAC_SHA256_def LASSO_SIGNATURE_METHOD_RSA_SHA384_def
  LASSO_SIGNATURE_METHOD_HMAC_SHA384_def LASSO_SIGNATURE_METHOD_RSA_SHA512_def LASSO_SIGNATURE_METHOD_HMAC_SHA512_def

definition lasso_validate_signature_method :: "int \<Rightarrow> bool" where
  "lasso_validate_signature_method m \<longleftrightarrow> m > 0 \<and> m < LASSO_SIGNATURE_METHOD_LAST"

definition lasso_allowed_signature_method :: "int \<Rightarrow> int \<Rightarrow> bool" where
  "lasso_allowed_signature_method min_method m \<longleftrightarrow> m \<ge> min_method"

text \<open>The key and the digest of a method, from the cases of the \<^verbatim>\<open>switch\<close> statements.\<close>

definition method_key :: "int \<Rightarrow> key_kind" where
  "method_key m =
     (if m \<in> {LASSO_SIGNATURE_METHOD_RSA_SHA1, LASSO_SIGNATURE_METHOD_RSA_SHA256, LASSO_SIGNATURE_METHOD_RSA_SHA384,
              LASSO_SIGNATURE_METHOD_RSA_SHA512} then RsaKey
      else if m = LASSO_SIGNATURE_METHOD_DSA_SHA1 then DsaKey
      else HmacKey)"

definition method_digest :: "int \<Rightarrow> message_digest" where
  "method_digest m =
     (if m \<in> {LASSO_SIGNATURE_METHOD_RSA_SHA1, LASSO_SIGNATURE_METHOD_DSA_SHA1, LASSO_SIGNATURE_METHOD_HMAC_SHA1} then Sha1
      else if m \<in> {LASSO_SIGNATURE_METHOD_RSA_SHA256, LASSO_SIGNATURE_METHOD_HMAC_SHA256} then Sha256
      else if m \<in> {LASSO_SIGNATURE_METHOD_RSA_SHA384, LASSO_SIGNATURE_METHOD_HMAC_SHA384} then Sha384
      else Sha512)"

text \<open>\<^verbatim>\<open>EVP_MD_size\<close> of the digests.\<close>

definition digest_length :: "message_digest \<Rightarrow> nat" where
  "digest_length d = (case d of Sha1 \<Rightarrow> 20 | Sha256 \<Rightarrow> 32 | Sha384 \<Rightarrow> 48 | Sha512 \<Rightarrow> 64)"

definition lasso_get_hmac_key :: "query_lib \<Rightarrow> cstr \<Rightarrow> int \<times> 8 word list" where
  "lasso_get_hmac_key lib key =
     (case key of
        None \<Rightarrow> (LASSO_PARAM_ERROR_BAD_TYPE_OR_NULL_OBJ, [])
      | Some k \<Rightarrow>
          if qlb_key_kind lib k \<noteq> HmacKey \<or> qlb_hmac_key lib k = [] then (LASSO_PARAM_ERROR_INVALID_VALUE, [])
          else (0, qlb_hmac_key lib k))"

section \<open>Signing a query\<close>

text \<open>The bytes of the signature of a content.  The outer \<open>None\<close> is the end of the process in \<^verbatim>\<open>g_assert\<close>: a key of the wrong
  kind, or a signature whose length is not the size of the key.  The inner \<open>None\<close> is a failure.\<close>

definition make_signature :: "query_lib \<Rightarrow> int \<Rightarrow> cstr \<Rightarrow> string \<Rightarrow> 8 word list option option" where
  "make_signature lib m key content =
     (if method_key m = HmacKey
      then (let (rc, hmac_key) = lasso_get_hmac_key lib key in
            if rc \<noteq> 0 \<or> length hmac_key < 16 then Some None
            else let sig = qlb_hmac lib (method_digest m) hmac_key content in
                 if length sig \<noteq> digest_length (method_digest m) then None else Some (Some sig))
      else case key of
             None \<Rightarrow> None
           | Some k \<Rightarrow>
               if qlb_key_kind lib k \<noteq> method_key m then None
               else let (status, sig) = qlb_sign lib (method_key m) (method_digest m)
                                          (qlb_digest lib (method_digest m) content) k in
                    if length sig \<noteq> qlb_key_size lib k then None
                    else Some (if status then Some sig else None))"

definition signed_content :: "query_lib \<Rightarrow> int \<Rightarrow> string \<Rightarrow> string" where
  "signed_content lib m query = query @ ''&SigAlg='' @ lasso_xmlURIEscapeStr (qlb_href lib m) []"

definition lasso_query_sign :: "query_lib \<Rightarrow> int \<Rightarrow> string \<Rightarrow> int \<Rightarrow> cstr \<Rightarrow> cstr option" where
  "lasso_query_sign lib min_method query m key =
     (if \<not> (lasso_validate_signature_method m \<and> lasso_allowed_signature_method min_method m) then Some None
      else let new_query = signed_content lib m query in
           map_option (map_option (\<lambda>sig. new_query @ ''&Signature='' @ lasso_xmlURIEscapeStr (qlb_base64_encode lib sig) []))
             (make_signature lib m key new_query))"

section \<open>Verifying the signature of a query\<close>

primrec memequal_loop :: "nat \<Rightarrow> bool \<Rightarrow> 'a list \<Rightarrow> 'a list \<Rightarrow> bool" where
  "memequal_loop 0 result x y = result"
| "memequal_loop (Suc l) result x y = memequal_loop l (result \<and> hd x = hd y) (tl x) (tl y)"

definition lasso_crypto_memequal :: "'a list \<Rightarrow> 'a list \<Rightarrow> nat \<Rightarrow> bool" where
  "lasso_crypto_memequal a b l = memequal_loop l True a b"

text \<open>The methods in the order in which their addresses are compared.\<close>

definition known_methods :: "int list" where
  "known_methods =
     [LASSO_SIGNATURE_METHOD_RSA_SHA1, LASSO_SIGNATURE_METHOD_DSA_SHA1, LASSO_SIGNATURE_METHOD_RSA_SHA256,
      LASSO_SIGNATURE_METHOD_RSA_SHA384, LASSO_SIGNATURE_METHOD_RSA_SHA512, LASSO_SIGNATURE_METHOD_HMAC_SHA1,
      LASSO_SIGNATURE_METHOD_HMAC_SHA256, LASSO_SIGNATURE_METHOD_HMAC_SHA384, LASSO_SIGNATURE_METHOD_HMAC_SHA512]"

text \<open>The signature is decoded into a buffer one byte longer than a signature of the key, of which the bytes of the
  length of the signature are then verified, whatever the decoder has written; only a decoder that writes nothing and
  reports no error is refused.\<close>

definition check_signature_bytes :: "query_lib \<Rightarrow> int \<Rightarrow> string \<Rightarrow> string \<Rightarrow> string \<Rightarrow> nat \<Rightarrow> int" where
  "check_signature_bytes lib m content b64_signature key key_size =
     (let (rc, bytes) = qlb_base64_decode lib b64_signature (key_size + 1) in
      if rc = 0 then LASSO_DS_ERROR_INVALID_SIGNATURE
      else let signature = bytes @ drop (length bytes) (qlb_heap lib (key_size + 1));
               ok = (if method_key m = HmacKey
                     then lasso_crypto_memequal (qlb_hmac lib (method_digest m) (qlb_hmac_key lib key) content) signature key_size
                     else qlb_verify lib (method_key m) (method_digest m) (qlb_digest lib (method_digest m) content)
                            (take key_size signature) key)
           in if ok then 0 else LASSO_DS_ERROR_INVALID_SIGNATURE)"

definition lasso_query_verify_helper :: "query_lib \<Rightarrow> int \<Rightarrow> string \<Rightarrow> string \<Rightarrow> string \<Rightarrow> string \<Rightarrow> int" where
  "lasso_query_verify_helper lib min_method content b64_signature algorithm key =
     (case List.find (\<lambda>m. algorithm = qlb_href lib m) known_methods of
        None \<Rightarrow> LASSO_DS_ERROR_INVALID_SIGALG
      | Some m \<Rightarrow>
          (let rc = (if method_key m = HmacKey then fst (lasso_get_hmac_key lib (Some key))
                     else if qlb_key_kind lib key = method_key m then 0 else LASSO_DS_ERROR_INVALID_SIGALG)
           in if rc \<noteq> 0 then rc
              else if \<not> lasso_allowed_signature_method min_method m then LASSO_DS_ERROR_INVALID_SIGALG
              else check_signature_bytes lib m content b64_signature key
                     (if method_key m = HmacKey then digest_length (method_digest m) else qlb_key_size lib key)))"

text \<open>ID-FF: the signature is the value after the first \<^verbatim>\<open>&Signature=\<close>, what is before it is signed, and the method is all
  that follows the first \<^verbatim>\<open>&SigAlg=\<close>.\<close>

definition lasso_query_verify_signature :: "query_lib \<Rightarrow> bool \<Rightarrow> int \<Rightarrow> string \<Rightarrow> cstr \<Rightarrow> int" where
  "lasso_query_verify_signature lib flag min_method query sender_public_key =
     (if \<not> flag then 0
      else case sender_public_key of
             None \<Rightarrow> LASSO_PARAM_ERROR_INVALID_VALUE
           | Some key \<Rightarrow>
               (case g_strsplit query ''&Signature='' of
                  content # sig # _ \<Rightarrow>
                    (case strstr content ''&SigAlg='' of
                       None \<Rightarrow> LASSO_DS_ERROR_INVALID_SIGALG
                     | Some sig_alg \<Rightarrow>
                         lasso_query_verify_helper lib min_method content
                           (qlb_unescape lib (takeWhile (\<lambda>c. c \<noteq> CHR ''&'') sig))
                           (qlb_unescape lib (drop 8 sig_alg)) key)
                | _ \<Rightarrow> LASSO_DS_ERROR_SIGNATURE_NOT_FOUND))"

text \<open>SAML 2.0: the fields of these names, the last of each, are put together again in the order of the standard.\<close>

record signed_fields =
  sgf_message :: cstr
  sgf_relaystate :: cstr
  sgf_sig_alg :: cstr
  sgf_signature :: cstr

definition match_field :: "string \<Rightarrow> string \<Rightarrow> bool" where
  "match_field name f = prefix (name @ ''='') f"

definition field_value :: "string \<Rightarrow> string" where
  "field_value f = tl (dropWhile (\<lambda>c. c \<noteq> CHR ''='') f)"

definition take_field :: "query_lib \<Rightarrow> string \<Rightarrow> signed_fields \<Rightarrow> signed_fields" where
  "take_field lib f s =
     (if match_field ''SAMLResponse'' f \<or> match_field ''SAMLRequest'' f then s\<lparr>sgf_message := Some f\<rparr>
      else if match_field ''RelayState'' f then s\<lparr>sgf_relaystate := Some f\<rparr>
      else if match_field ''SigAlg'' f then s\<lparr>sgf_sig_alg := Some f\<rparr>
      else if match_field ''Signature'' f then s\<lparr>sgf_signature := Some (qlb_unescape lib (field_value f))\<rparr>
      else s)"

definition signed_fields_of :: "query_lib \<Rightarrow> string \<Rightarrow> signed_fields" where
  "signed_fields_of lib query =
     fold (take_field lib) (split_fields [] query)
       \<lparr>sgf_message = None, sgf_relaystate = None, sgf_sig_alg = None, sgf_signature = None\<rparr>"

definition lasso_saml2_query_verify_signature :: "query_lib \<Rightarrow> bool \<Rightarrow> int \<Rightarrow> string \<Rightarrow> cstr \<Rightarrow> int" where
  "lasso_saml2_query_verify_signature lib flag min_method query sender_public_key =
     (if \<not> flag then 0
      else case sender_public_key of
             None \<Rightarrow> LASSO_PARAM_ERROR_INVALID_VALUE
           | Some key \<Rightarrow>
               (let s = signed_fields_of lib query in
                case (sgf_message s, sgf_sig_alg s, sgf_signature s) of
                  (None, _, _) \<Rightarrow> LASSO_PROFILE_ERROR_INVALID_QUERY
                | (_, None, _) \<Rightarrow> LASSO_DS_ERROR_INVALID_SIGALG
                | (_, _, None) \<Rightarrow> LASSO_DS_ERROR_SIGNATURE_NOT_FOUND
                | (Some message, Some sig_alg, Some b64_signature) \<Rightarrow>
                    lasso_query_verify_helper lib min_method
                      (message @ ''&'' @ (case sgf_relaystate s of None \<Rightarrow> [] | Some r \<Rightarrow> r @ ''&'') @ sig_alg)
                      b64_signature (qlb_unescape lib (field_value sig_alg)) key))"

section \<open>The message in a query\<close>

definition bytes_of :: "string \<Rightarrow> 8 word list" where
  "bytes_of s = map (\<lambda>c. word_of_nat (of_char c)) s"

definition text_of :: "8 word list \<Rightarrow> string" where
  "text_of b = takeWhile (\<lambda>c. c \<noteq> CHR 0x00) (map (\<lambda>w. char_of (unat w)) b)"

definition is_base64 :: "string \<Rightarrow> bool" where
  "is_base64 s \<longleftrightarrow>
     dropWhile (\<lambda>c. c \<in> set [CHR ''='', CHR 0x0A, CHR 0x0D])
       (dropWhile (\<lambda>c. is_alnum c \<or> c \<in> set [CHR ''+'', CHR ''/'', CHR 0x0A, CHR 0x0D]) s) = []"

text \<open>The output is inflated into a buffer of 20 times the size of the input, of which zlib is told in 32 bits, and then ended with
  a null byte: the outer \<open>None\<close> is that byte written behind the buffer.\<close>

definition lasso_inflate :: "query_lib \<Rightarrow> 8 word list \<Rightarrow> cstr option" where
  "lasso_inflate lib input =
     (case qlb_inflate lib input of
        None \<Rightarrow> Some None
      | Some out \<Rightarrow>
          if length out > length input * 20 mod 2 ^ 32 then Some None
          else if length out = length input * 20 then None
          else Some (Some (text_of out)))"

text \<open>The text of an XML node, deflated into a buffer of twice its size.\<close>

definition lasso_xmlnode_build_deflated_query :: "query_lib \<Rightarrow> string \<Rightarrow> cstr" where
  "lasso_xmlnode_build_deflated_query lib text =
     (let out = qlb_deflate lib (bytes_of text) in
      if length out > length text * 2 then None
      else Some (lasso_xmlURIEscapeStr (qlb_base64_encode lib out) []))"

text \<open>Decoding of the part that holds the message, to the text of the XML document.  The size of the buffer, four times the length, is
  computed in an \<^verbatim>\<open>int\<close>; one that came out negative is an allocation that fails and is written to all the same.\<close>

definition lasso_node_init_from_deflated_query_part :: "query_lib \<Rightarrow> string \<Rightarrow> cstr option" where
  "lasso_node_init_from_deflated_query_part lib deflate_string =
     (let b64_zre = qlb_unescape lib deflate_string;
          size = c_int (int (length b64_zre) * 4)
      in if size < 0 then None
         else let (len, zre) = qlb_base64_decode lib b64_zre (nat size)
              in if len = -1 then Some None else lasso_inflate lib zre)"

text \<open>The encoding and the message among the fields, the last of each.\<close>

definition message_field :: "string \<Rightarrow> cstr \<times> cstr \<Rightarrow> cstr \<times> cstr" where
  "message_field f acc =
     (case strchr f CHR ''='' of
        None \<Rightarrow> acc
      | Some t \<Rightarrow>
          (let name = takeWhile (\<lambda>c. c \<noteq> CHR ''='') f in
           if name = ''SAMLEncoding'' then (Some (tl t), snd acc)
           else if name = ''SAMLRequest'' \<or> name = ''SAMLResponse'' then (fst acc, Some (tl t))
           else acc))"

definition message_of_fields :: "string list \<Rightarrow> cstr \<times> cstr" where
  "message_of_fields query_fields = fold message_field query_fields (None, None)"

definition LASSO_SAML2_DEFLATE_ENCODING :: string where
  "LASSO_SAML2_DEFLATE_ENCODING = ''urn:oasis:names:tc:SAML:2.0:bindings:URL-Encoding:DEFLATE''"

definition lasso_node_init_from_saml2_query_fields :: "query_lib \<Rightarrow> string list \<Rightarrow> cstr option" where
  "lasso_node_init_from_saml2_query_fields lib query_fields =
     (case message_of_fields query_fields of
        (enc, req) \<Rightarrow>
          if enc \<noteq> None \<and> enc \<noteq> Some LASSO_SAML2_DEFLATE_ENCODING then Some None
          else case req of
                 None \<Rightarrow> Some None
               | Some r \<Rightarrow> lasso_node_init_from_deflated_query_part lib r)"

definition lasso_get_saml_message :: "query_lib \<Rightarrow> string list \<Rightarrow> cstr option" where
  "lasso_get_saml_message lib query_fields =
     (case message_of_fields query_fields of
        (enc, None) \<Rightarrow> Some None
      | (enc, Some message) \<Rightarrow>
          if enc \<noteq> None \<and> enc \<noteq> Some LASSO_SAML2_DEFLATE_ENCODING then Some None
          else if \<not> is_base64 message then Some None
          else let (rc, decoded) = qlb_base64_decode lib message (length message) in
               if rc < 0 then Some None else lasso_inflate lib decoded)"

section \<open>Escaping is undone\<close>

lemma hex_value_digit: "n < 16 \<Longrightarrow> hex_value (hex_digit n) = Some n"
  by (auto simp: hex_value_def hex_digit_def Let_def)

declare percent_decode.simps [simp del]

lemma percent_decode_simps [simp]:
  "percent_decode [] = []"
  "c \<noteq> CHR ''%'' \<Longrightarrow> percent_decode (c # cs) = c # percent_decode cs"
  "hex_value a = Some h \<Longrightarrow> hex_value b = Some l \<Longrightarrow>
   percent_decode (CHR ''%'' # a # b # cs) = char_of (16 * h + l) # percent_decode cs"
  by (auto simp: percent_decode.simps split: list.split option.split)

definition escaped_char :: "char \<Rightarrow> bool" where
  "escaped_char c \<longleftrightarrow> is_plain [] c \<or> c = CHR ''%''"

lemma plain_char: "is_plain [] c \<Longrightarrow> c \<noteq> CHR ''%'' \<and> c \<noteq> CHR ''='' \<and> \<not> is_separator c"
  by (auto simp: is_plain_def is_alnum_def is_separator_def)

lemma escaped_char: "escaped_char c \<Longrightarrow> c \<noteq> CHR ''='' \<and> \<not> is_separator c"
  using plain_char by (auto simp: escaped_char_def is_separator_def)

lemma escape_simps [simp]:
  "lasso_xmlURIEscapeStr [] keep = []"
  "is_plain keep c \<Longrightarrow> lasso_xmlURIEscapeStr (c # s) keep = c # lasso_xmlURIEscapeStr s keep"
  "\<not> is_plain keep c \<Longrightarrow> lasso_xmlURIEscapeStr (c # s) keep =
     CHR ''%'' # hex_digit (of_char c div 16) # hex_digit (of_char c mod 16) # lasso_xmlURIEscapeStr s keep"
  by (simp_all add: lasso_xmlURIEscapeStr_def Let_def)

lemma hex_digit_plain: "n < 16 \<Longrightarrow> is_plain [] (hex_digit n)"
  by (auto simp: hex_digit_def is_plain_def is_alnum_def Let_def)

lemma char_nibbles: "of_char c div 16 < (16 :: nat)"
  using nat_of_char_less_256[of c] by (simp add: less_mult_imp_div_less)

lemma escape_chars: "list_all escaped_char (lasso_xmlURIEscapeStr s [])"
proof (induction s)
  case (Cons c s)
  then show ?case
    using hex_digit_plain char_nibbles[of c] by (cases "is_plain [] c") (auto simp: escaped_char_def)
qed simp

lemma percent_decode_escape: "percent_decode (lasso_xmlURIEscapeStr s [] @ t) = s @ percent_decode t"
proof (induction s)
  case (Cons c s)
  show ?case
  proof (cases "is_plain [] c")
    case True
    then show ?thesis using Cons plain_char by simp
  next
    case False
    have h: "hex_value (hex_digit (of_char c div 16)) = Some (of_char c div 16)"
      "hex_value (hex_digit (of_char c mod 16)) = Some (of_char c mod 16)"
      using hex_value_digit char_nibbles[of c] by auto
    show ?thesis using False Cons percent_decode_simps(3)[OF h] by simp
  qed
qed simp

definition c_string :: "string \<Rightarrow> bool" where
  "c_string s \<longleftrightarrow> CHR 0x00 \<notin> set s"

lemma unescape_decode: "unescapes u \<Longrightarrow> c_string (percent_decode s) \<Longrightarrow> u s = percent_decode s"
  by (auto simp: unescapes_def c_string_def takeWhile_eq_all_conv)

lemma unescape_escape: "unescapes u \<Longrightarrow> c_string s \<Longrightarrow> u (lasso_xmlURIEscapeStr s []) = s"
  using unescape_decode[of u "lasso_xmlURIEscapeStr s []"] percent_decode_escape[of s "[]"] by simp

lemma percent_decode_verbatim: "CHR ''%'' \<notin> set s \<Longrightarrow> percent_decode (s @ t) = s @ percent_decode t"
  by (induction s) auto

lemma escaped_length_fold:
  "fold (\<lambda>c len. if is_plain keep c then len + 1 else len + 3) s n = n + of_nat (length (lasso_xmlURIEscapeStr s keep))" for n :: "64 word"
proof (induction s arbitrary: n)
  case (Cons c s)
  then show ?case by (cases "is_plain keep c") (auto simp: algebra_simps)
qed simp

lemma escaped_index_eq: "escaped_index s keep = c_int (int (length (lasso_xmlURIEscapeStr s keep)))"
proof -
  have "fold (\<lambda>c ri. if is_plain keep c then c_int (ri + 1) else c_int (c_int (c_int (ri + 1) + 1) + 1)) s (c_int n) =
      c_int (n + int (length (lasso_xmlURIEscapeStr s keep)))" for n
  proof (induction s arbitrary: n)
    case (Cons c s)
    show ?case using Cons[of "n + 1"] Cons[of "n + 3"] by (cases "is_plain keep c") (simp_all add: algebra_simps)
  qed simp
  from this[of 0] show ?thesis by (simp add: escaped_index_def c_int_small)
qed

section \<open>Fields of a query\<close>

lemma split_fields_sep: "is_separator c \<Longrightarrow> split_fields acc (s @ c # t) = split_fields acc s @ split_fields [] t"
  by (induction acc s rule: split_fields.induct) auto

lemma split_fields_plain: "list_all (\<lambda>c. \<not> is_separator c) s \<Longrightarrow> split_fields acc s = [acc @ s]"
  by (induction acc s rule: split_fields.induct) auto

lemma separators [simp]: "is_separator CHR ''&''" "is_separator CHR '';''"
  by (simp_all add: is_separator_def)

lemma split_fields_amp: "split_fields [] (s @ ''&'' @ t) = split_fields [] s @ split_fields [] t"
  using split_fields_sep[of "CHR ''&''" "[]" s t] by simp

lemma count_components_fold:
  "fold (\<lambda>c n. if is_separator c then c_int (n + 1) else n) s (c_int n) = c_int (n + int (length (split_fields acc s)) - 1)"
proof (induction s arbitrary: n acc)
  case (Cons c s)
  show ?case using Cons[of "if is_separator c then n + 1 else n" "if is_separator c then [] else acc @ [c]"] by (auto simp: algebra_simps)
qed simp

lemma length_split_fields: "length (split_fields acc s) \<le> Suc (length s)"
  by (induction acc s rule: split_fields.induct) auto

lemma split_fields_first: "\<exists>fs. split_fields acc s = (acc @ takeWhile (\<lambda>c. \<not> is_separator c) s) # fs"
  by (induction acc s rule: split_fields.induct) auto

lemma field_at_separator:
  assumes "is_separator c"
  shows "takeWhile (\<lambda>c. \<not> is_separator c) t \<in> set (split_fields [] (s @ c # t))"
  using split_fields_first[of "[]" t] by (auto simp: split_fields_sep[OF assms])

lemma field_occurs:
  assumes "f \<in> set (split_fields acc s)" and "f \<noteq> acc @ takeWhile (\<lambda>c. \<not> is_separator c) s"
  shows "\<exists>a c b. s = a @ c # b \<and> is_separator c \<and> f = takeWhile (\<lambda>c. \<not> is_separator c) b"
  using assms
proof (induction acc s rule: split_fields.induct)
  case (2 acc c cs)
  show ?case
  proof (cases "is_separator c")
    case True
    then have f: "f \<in> set (split_fields [] cs)" using 2(3,4) by auto
    show ?thesis
    proof (cases "f = takeWhile (\<lambda>c. \<not> is_separator c) cs")
      case True
      then show ?thesis using \<open>is_separator c\<close> by (intro exI[of _ "[]"] exI[of _ c] exI[of _ cs]) simp
    next
      case False
      then obtain a d b where "cs = a @ d # b" "is_separator d" "f = takeWhile (\<lambda>c. \<not> is_separator c) b"
        using 2(1)[OF \<open>is_separator c\<close> f] by auto
      then show ?thesis by (intro exI[of _ "c # a"] exI[of _ d] exI[of _ b]) simp
    qed
  next
    case False
    then obtain a d b where "cs = a @ d # b" "is_separator d" "f = takeWhile (\<lambda>c. \<not> is_separator c) b"
      using 2(2) 2(3,4) by auto
    then show ?thesis by (intro exI[of _ "c # a"] exI[of _ d] exI[of _ b]) simp
  qed
qed simp

lemma strstr_Some: "strstr s t = Some r \<Longrightarrow> \<exists>a. s = a @ r \<and> prefix t r"
proof (induction s)
  case Nil
  then show ?case by (subst (asm) strstr.simps) (auto split: if_splits)
next
  case (Cons x xs)
  from Cons.prems show ?case
    by (subst (asm) strstr.simps) (auto split: if_splits dest!: Cons.IH intro: exI[of _ "[]"] exI[of _ "x # _"])
qed

lemma strstr_None: "strstr s t = None \<Longrightarrow> \<not> sublist t s"
proof (induction s)
  case Nil
  then show ?case by (subst (asm) strstr.simps) (auto split: if_splits)
next
  case (Cons x xs)
  from Cons.prems show ?case
    by (subst (asm) strstr.simps) (auto split: if_splits simp: sublist_Cons_right dest!: Cons.IH)
qed

lemma prefix_takeWhile_field:
  "list_all P name \<Longrightarrow> prefix name (takeWhile P s) \<longleftrightarrow> prefix name s"
proof (induction name arbitrary: s)
  case (Cons x xs)
  then show ?case by (cases s) auto
qed simp

section \<open>The relay state\<close>

abbreviation field_end :: "string \<Rightarrow> string" where
  "field_end \<equiv> takeWhile (\<lambda>c. \<not> is_separator c)"

definition unescape_field :: "query_lib \<Rightarrow> string \<Rightarrow> string" where
  "unescape_field lib v = (if v = [] then [] else qlb_unescape lib v)"

definition relaystate_fields :: "string \<Rightarrow> string list" where
  "relaystate_fields q = filter (match_field ''RelayState'') (split_fields [] q)"

lemma relaystate_plain: "list_all (\<lambda>c. \<not> is_separator c) ''RelayState=''"
  by (simp add: is_separator_def)

lemma match_field_end: "match_field ''RelayState'' (field_end s) \<longleftrightarrow> prefix ''RelayState='' s"
  using prefix_takeWhile_field[OF relaystate_plain, of s] by (simp add: match_field_def)

lemma drop_field_end: "prefix ''RelayState='' s \<Longrightarrow> drop 11 (field_end s) = field_end (drop 11 s)"
  by (auto simp: prefix_def is_separator_def)

lemma relaystate_fields_first: "prefix ''RelayState='' q \<Longrightarrow> field_end q \<in> set (relaystate_fields q)"
  using split_fields_first[of "[]" q] by (auto simp: relaystate_fields_def match_field_end)

lemma relaystate_fields_later:
  assumes "strstr q (c # ''RelayState='') = Some s" and "is_separator c"
  shows "field_end (tl s) \<in> set (relaystate_fields q) \<and> prefix ''RelayState='' (tl s) \<and> drop 12 s = drop 11 (tl s)"
proof -
  obtain a where a: "q = a @ s" "prefix (c # ''RelayState='') s" using strstr_Some[OF assms(1)] by blast
  then obtain b where b: "s = c # b" "prefix ''RelayState='' b" by (cases s) auto
  have "field_end b \<in> set (split_fields [] q)" unfolding a(1) b(1) by (rule field_at_separator[OF assms(2)])
  then show ?thesis using b by (simp add: relaystate_fields_def match_field_end)
qed

lemma relaystate_field_found:
  assumes "f \<in> set (relaystate_fields q)" and "\<not> prefix ''RelayState='' q"
  shows "strstr q ''&RelayState='' \<noteq> None \<or> strstr q '';RelayState='' \<noteq> None"
proof -
  have m: "f \<in> set (split_fields [] q)" "match_field ''RelayState'' f" using assms(1) by (auto simp: relaystate_fields_def)
  then have "f \<noteq> field_end q" using assms(2) match_field_end by blast
  then obtain a c b where q: "q = a @ c # b" "is_separator c" "f = field_end b" using field_occurs[OF m(1)] by auto
  have "prefix (c # ''RelayState='') (c # b)" using m(2) q(3) match_field_end by simp
  then have "sublist (c # ''RelayState='') q" unfolding q(1) by (auto simp: prefix_def sublist_def)
  then show ?thesis using strstr_None q(2) by (auto simp: is_separator_def)
qed

lemma relaystate_read:
  "lasso_get_relaystate_from_query lib (Some q) = None \<longleftrightarrow> relaystate_fields q = []"
  "lasso_get_relaystate_from_query lib (Some q) = Some v \<Longrightarrow> \<exists>f \<in> set (relaystate_fields q). v = unescape_field lib (drop 11 f)"
proof -
  note d = lasso_get_relaystate_from_query_def Let_def unescape_field_def[symmetric]
  consider (first) "prefix ''RelayState='' q"
    | (amp) s where "\<not> prefix ''RelayState='' q" "strstr q ''&RelayState='' = Some s"
    | (semi) s where "\<not> prefix ''RelayState='' q" "strstr q ''&RelayState='' = None" "strstr q '';RelayState='' = Some s"
    | (none) "\<not> prefix ''RelayState='' q" "strstr q ''&RelayState='' = None" "strstr q '';RelayState='' = None"
    by (cases "prefix ''RelayState='' q"; cases "strstr q ''&RelayState=''"; cases "strstr q '';RelayState=''") auto
  then have "(lasso_get_relaystate_from_query lib (Some q) = None \<longleftrightarrow> relaystate_fields q = []) \<and>
    (\<forall>v. lasso_get_relaystate_from_query lib (Some q) = Some v \<longrightarrow> (\<exists>f \<in> set (relaystate_fields q). v = unescape_field lib (drop 11 f)))"
  proof cases
    case first
    then show ?thesis using relaystate_fields_first[OF first] drop_field_end[OF first]
      by (auto simp: d intro!: bexI[of _ "field_end q"])
  next
    case (amp s)
    then show ?thesis
      using relaystate_fields_later[OF amp(2)] drop_field_end[of "tl s"] by (auto simp: d intro!: bexI[of _ "field_end (tl s)"])
  next
    case (semi s)
    then show ?thesis
      using relaystate_fields_later[OF semi(3)] drop_field_end[of "tl s"] by (auto simp: d intro!: bexI[of _ "field_end (tl s)"])
  next
    case none
    then show ?thesis using relaystate_field_found[of _ q] by (cases "relaystate_fields q") (auto simp: d)
  qed
  then show "lasso_get_relaystate_from_query lib (Some q) = None \<longleftrightarrow> relaystate_fields q = []"
    "lasso_get_relaystate_from_query lib (Some q) = Some v \<Longrightarrow> \<exists>f \<in> set (relaystate_fields q). v = unescape_field lib (drop 11 f)"
    by blast+
qed

end
