(* ===== verification/Lasso_QueryLaws.thy ===== *)
theory Lasso_QueryLaws
  imports Lasso_Query
begin

text \<open>
  What is proved about query strings: which part of a query a verified signature covers and which part is read, that a
  signed query verifies and a message is read back, that parameters are read back, where loops end and buffers fit.  The
  last section has libraries for examples.
\<close>

section \<open>What a verified signature covers\<close>

text \<open>The text that the verification puts together and checks.\<close>

definition verified_content :: "query_lib \<Rightarrow> string \<Rightarrow> string" where
  "verified_content lib query =
     (let s = signed_fields_of lib query in
      the (sgf_message s) @ ''&'' @ (case sgf_relaystate s of None \<Rightarrow> [] | Some r \<Rightarrow> r @ ''&'') @ the (sgf_sig_alg s))"

lemma saml2_query_verified:
  assumes "lasso_saml2_query_verify_signature lib True min_method q (Some key) = 0"
  obtains message sig_alg sig where "sgf_message (signed_fields_of lib q) = Some message"
    "sgf_sig_alg (signed_fields_of lib q) = Some sig_alg" "sgf_signature (signed_fields_of lib q) = Some sig"
    "lasso_query_verify_helper lib min_method (verified_content lib q) sig (qlb_unescape lib (field_value sig_alg)) key = 0"
  using assms by (auto simp: lasso_saml2_query_verify_signature_def verified_content_def Let_def split: option.splits)

text \<open>A field whose name is written without escapes.\<close>

definition plain_name :: "string \<Rightarrow> bool" where
  "plain_name f \<longleftrightarrow> c_string f \<and> CHR ''%'' \<notin> set (takeWhile (\<lambda>c. c \<noteq> CHR ''='') f)"

lemma field_cases:
  obtains (no_value) "CHR ''='' \<notin> set f" | (named) v where "f = takeWhile (\<lambda>c. c \<noteq> CHR ''='') f @ CHR ''='' # v"
proof (cases "CHR ''='' \<in> set f")
  case True
  then have "dropWhile (\<lambda>c. c \<noteq> CHR ''='') f = CHR ''='' # tl (dropWhile (\<lambda>c. c \<noteq> CHR ''='') f)"
    using hd_dropWhile[of "\<lambda>c. c \<noteq> CHR ''=''" f] by (cases "dropWhile (\<lambda>c. c \<noteq> CHR ''='') f") auto
  then show ?thesis using that(2) takeWhile_dropWhile_id[of "\<lambda>c. c \<noteq> CHR ''=''" f] by metis
qed (use that in blast)

lemma strchr_None: "strchr s c = None \<longleftrightarrow> c \<notin> set s"
  by (induction s) auto

lemma strchr_append: "c \<notin> set a \<Longrightarrow> strchr (a @ c # b) c = Some (c # b)"
  by (induction a) auto

lemma takeWhile_name: "CHR ''='' \<notin> set n \<Longrightarrow> takeWhile (\<lambda>c. c \<noteq> CHR ''='') (n @ CHR ''='' # v) = n"
  by (induction n) auto

lemma field_value_append: "CHR ''='' \<notin> set n \<Longrightarrow> field_value (n @ CHR ''='' # v) = v"
  by (induction n) (auto simp: field_value_def)

lemma match_field_append:
  "CHR ''='' \<notin> set n \<Longrightarrow> CHR ''='' \<notin> set name \<Longrightarrow> match_field name (n @ CHR ''='' # v) \<longleftrightarrow> n = name"
proof (induction name arbitrary: n)
  case Nil
  then show ?case by (cases n) (auto simp: match_field_def)
next
  case (Cons x xs)
  then show ?case by (cases n) (auto simp: match_field_def)
qed

lemma match_field_name: "match_field name f \<Longrightarrow> CHR ''='' \<in> set f"
  by (auto simp: match_field_def prefix_def)

lemma message_field_append:
  assumes "CHR ''='' \<notin> set n"
  shows "message_field (n @ CHR ''='' # v) acc =
    (if n = ''SAMLEncoding'' then (Some v, snd acc)
     else if n = ''SAMLRequest'' \<or> n = ''SAMLResponse'' then (fst acc, Some v) else acc)"
  by (simp add: message_field_def strchr_append[OF assms] takeWhile_name[OF assms])

lemma unescape_plain_name:
  assumes "unescapes u" and "c_string n" and "CHR ''%'' \<notin> set n"
  shows "u (n @ CHR ''='' # v) = n @ CHR ''='' # u v"
proof -
  have "percent_decode (n @ CHR ''='' # v) = n @ CHR ''='' # percent_decode v"
    using percent_decode_verbatim[OF assms(3), of "CHR ''='' # v"] by simp
  then show ?thesis using assms(1,2) by (auto simp: unescapes_def c_string_def takeWhile_append)
qed

lemma unescape_no_percent: "unescapes u \<Longrightarrow> c_string f \<Longrightarrow> CHR ''%'' \<notin> set f \<Longrightarrow> u f = f"
  using unescape_decode[of u f] percent_decode_verbatim[of f "[]"] by simp

lemma no_name_whole: "CHR ''='' \<notin> set f \<Longrightarrow> takeWhile (\<lambda>c. c \<noteq> CHR ''='') f = f"
  by (auto simp: takeWhile_eq_all_conv)

lemma message_field_plain:
  assumes u: "unescapes (qlb_unescape lib)" and p: "plain_name f"
    and i: "snd acc = map_option (\<lambda>m. qlb_unescape lib (field_value m)) (sgf_message s)"
  shows "snd (message_field (unescape_field lib f) acc) =
    map_option (\<lambda>m. qlb_unescape lib (field_value m)) (sgf_message (take_field lib f s))"
proof (cases rule: field_cases[of f])
  case no_value
  then have "unescape_field lib f = f"
    using unescape_no_percent[OF u, of f] p no_name_whole[OF no_value] by (auto simp: plain_name_def unescape_field_def)
  moreover have "\<not> match_field name f" for name using no_value match_field_name by blast
  moreover have "strchr f CHR ''='' = None" using no_value by (simp add: strchr_None)
  ultimately show ?thesis using i by (simp add: message_field_def take_field_def)
next
  case (named v)
  define n where "n = takeWhile (\<lambda>c. c \<noteq> CHR ''='') f"
  have n: "CHR ''='' \<notin> set n" "CHR ''%'' \<notin> set n" "c_string n" "f = n @ CHR ''='' # v"
    using p named by (auto simp: n_def plain_name_def c_string_def dest: set_takeWhileD)
  have e: "unescape_field lib f = n @ CHR ''='' # qlb_unescape lib v"
    unfolding unescape_field_def n(4) using unescape_plain_name[OF u n(3,2)] by simp
  have m: "match_field name f \<longleftrightarrow> n = name" if "CHR ''='' \<notin> set name" for name
    unfolding n(4) by (rule match_field_append[OF n(1) that])
  have v: "field_value f = v" unfolding n(4) by (rule field_value_append[OF n(1)])
  show ?thesis unfolding e message_field_append[OF n(1)] using i by (auto simp: take_field_def m v)
qed

lemma message_fields_plain:
  assumes "unescapes (qlb_unescape lib)" and "list_all plain_name fs"
    and "snd acc = map_option (\<lambda>m. qlb_unescape lib (field_value m)) (sgf_message s)"
  shows "snd (fold message_field (map (unescape_field lib) fs) acc) =
    map_option (\<lambda>m. qlb_unescape lib (field_value m)) (sgf_message (fold (take_field lib) fs s))"
  using assms(2,3)
proof (induction fs arbitrary: acc s)
  case (Cons f fs)
  then have "snd (message_field (unescape_field lib f) acc) =
    map_option (\<lambda>m. qlb_unescape lib (field_value m)) (sgf_message (take_field lib f s))"
    using message_field_plain[OF assms(1)] by simp
  then show ?case using Cons by simp
qed simp

lemma urlencoded_fields: "lasso_urlencoded_to_strings lib q = map (unescape_field lib) (split_fields [] q)"
  by (simp add: lasso_urlencoded_to_strings_def unescape_field_def)

lemma message_of_query:
  assumes "unescapes (qlb_unescape lib)" and "list_all plain_name (split_fields [] q)"
  shows "snd (message_of_fields (lasso_urlencoded_to_strings lib q)) =
    map_option (\<lambda>m. qlb_unescape lib (field_value m)) (sgf_message (signed_fields_of lib q))"
  using message_fields_plain[OF assms, of "(None, None)"] by (simp add: urlencoded_fields message_of_fields_def signed_fields_of_def)

lemma relaystate_kept:
  "sgf_relaystate (fold (take_field lib) fs s) =
     (case rev (filter (match_field ''RelayState'') fs) of [] \<Rightarrow> sgf_relaystate s | f # _ \<Rightarrow> Some f)"
proof (induction fs arbitrary: s)
  case (Cons f fs)
  have x: "match_field ''RelayState'' f \<Longrightarrow> \<not> match_field ''SAMLResponse'' f \<and> \<not> match_field ''SAMLRequest'' f"
    by (auto simp: match_field_def prefix_def)
  show ?case
    unfolding fold_Cons comp_def Cons
    by (auto simp: take_field_def x split: list.split)
qed simp

text \<open>C10: What a query whose signature verifies is read as: when the names of its fields are written without escapes and it has
  at most one relay state, then the message and the relay state that are read are those that the signature covers.\<close>

theorem verified_query_is_read:
  assumes "lasso_saml2_query_verify_signature lib True min_method q (Some key) = 0" and "unescapes (qlb_unescape lib)"
    and "list_all plain_name (split_fields [] q)" and "length (relaystate_fields q) \<le> 1"
  shows "\<exists>message sig_alg sig. lasso_query_verify_helper lib min_method
      (message @ ''&'' @ concat (map (\<lambda>r. r @ ''&'') (relaystate_fields q)) @ sig_alg) sig (qlb_unescape lib (field_value sig_alg)) key = 0 \<and>
    snd (message_of_fields (lasso_urlencoded_to_strings lib q)) = Some (qlb_unescape lib (field_value message)) \<and>
    lasso_get_relaystate_from_query lib (Some q) =
      (case relaystate_fields q of [] \<Rightarrow> None | r # _ \<Rightarrow> Some (unescape_field lib (drop 11 r)))"
proof -
  obtain message sig_alg sig where m: "sgf_message (signed_fields_of lib q) = Some message"
    "sgf_sig_alg (signed_fields_of lib q) = Some sig_alg"
    "lasso_query_verify_helper lib min_method (verified_content lib q) sig (qlb_unescape lib (field_value sig_alg)) key = 0"
    by (rule saml2_query_verified[OF assms(1)])
  have r: "sgf_relaystate (signed_fields_of lib q) = (case rev (relaystate_fields q) of [] \<Rightarrow> None | f # _ \<Rightarrow> Some f)"
    by (simp add: signed_fields_of_def relaystate_kept relaystate_fields_def split: list.split)
  consider (none) "relaystate_fields q = []" | (one) f where "relaystate_fields q = [f]"
    using assms(4) by (cases "relaystate_fields q"; cases "tl (relaystate_fields q)") auto
  then have "verified_content lib q = message @ ''&'' @ concat (map (\<lambda>r. r @ ''&'') (relaystate_fields q)) @ sig_alg \<and>
    lasso_get_relaystate_from_query lib (Some q) =
      (case relaystate_fields q of [] \<Rightarrow> None | r # _ \<Rightarrow> Some (unescape_field lib (drop 11 r)))"
  proof cases
    case none
    then show ?thesis using r m(1,2) relaystate_read(1) by (auto simp: verified_content_def)
  next
    case (one f)
    then obtain v where "lasso_get_relaystate_from_query lib (Some q) = Some v" using relaystate_read(1)[of lib q] by auto
    then show ?thesis using relaystate_read(2)[of lib q v] one r m(1,2) by (auto simp: verified_content_def)
  qed
  then show ?thesis using m message_of_query[OF assms(2,3)] by auto
qed

lemma same_signed_fields:
  "signed_fields_of lib q = signed_fields_of lib q' \<Longrightarrow>
   lasso_saml2_query_verify_signature lib flag min_method q key = lasso_saml2_query_verify_signature lib flag min_method q' key"
  by (simp only: lasso_saml2_query_verify_signature_def)

lemma amp_field_simps:
  assumes "list_all (\<lambda>c. \<not> is_separator c) f"
  shows "split_fields [] (q @ ''&'' @ f) = split_fields [] q @ [f]"
  using split_fields_plain[OF assms] by (simp only: split_fields_amp append_Nil)

text \<open>C11: The signature of a query says nothing about the message that is read from it: to any query that verifies, a field
  with an escape in its name, \<^verbatim>\<open>SAML%52equest\<close>, can be added that the verification passes over and that the reader takes for
  the message.\<close>

theorem signature_bypassed_by_escaped_name:
  assumes "unescapes (qlb_unescape lib)" and "list_all escaped_char x"
    and "lasso_saml2_query_verify_signature lib flag min_method q (Some key) = 0"
  shows "lasso_saml2_query_verify_signature lib flag min_method (q @ ''&SAML%52equest='' @ x) (Some key) = 0 \<and>
    snd (message_of_fields (lasso_urlencoded_to_strings lib (q @ ''&SAML%52equest='' @ x))) = Some (qlb_unescape lib x)"
proof -
  have p: "list_all (\<lambda>c. \<not> is_separator c) (''SAML%52equest='' @ x)"
    using assms(2) escaped_char by (auto simp: list_all_iff is_separator_def)
  have s: "split_fields [] (q @ ''&SAML%52equest='' @ x) = split_fields [] q @ [''SAML%52equest='' @ x]"
    using amp_field_simps[OF p, of q] by simp
  have "take_field lib (''SAML%52equest='' @ x) = id" by (auto simp: take_field_def match_field_def)
  then have f: "signed_fields_of lib (q @ ''&SAML%52equest='' @ x) = signed_fields_of lib q"
    by (simp only: signed_fields_of_def s fold_append) simp
  have "hex_value CHR ''5'' = Some 5" "hex_value CHR ''2'' = Some 2" by (simp_all add: hex_value_def)
  moreover have "char_of (82 :: nat) = CHR ''R''" by code_simp
  ultimately have "percent_decode (''SAML%52equest='' @ x) = ''SAMLRequest='' @ percent_decode x" by simp
  then have "qlb_unescape lib (''SAML%52equest='' @ x) = ''SAMLRequest='' @ qlb_unescape lib x"
    using assms(1) by (simp add: unescapes_def)
  then have "unescape_field lib (''SAML%52equest='' @ x) = ''SAMLRequest'' @ CHR ''='' # qlb_unescape lib x"
    by (simp add: unescape_field_def)
  then have "snd (message_of_fields (lasso_urlencoded_to_strings lib (q @ ''&SAML%52equest='' @ x))) = Some (qlb_unescape lib x)"
    unfolding urlencoded_fields s message_of_fields_def using message_field_append[of "''SAMLRequest''" "qlb_unescape lib x"] by simp
  then show ?thesis using same_signed_fields[OF f, of flag min_method "Some key"] assms(3) by metis
qed

text \<open>In the same way a relay state in front of the query is the one that is read, while the verification takes the last.\<close>

theorem relaystate_not_covered:
  assumes "list_all escaped_char x" and "relaystate_fields q \<noteq> []"
    and "lasso_saml2_query_verify_signature lib flag min_method q (Some key) = 0"
  shows "lasso_saml2_query_verify_signature lib flag min_method (''RelayState='' @ x @ ''&'' @ q) (Some key) = 0 \<and>
    lasso_get_relaystate_from_query lib (Some (''RelayState='' @ x @ ''&'' @ q)) = Some (unescape_field lib x)"
proof -
  have p: "list_all (\<lambda>c. \<not> is_separator c) (''RelayState='' @ x)"
    using assms(1) escaped_char by (auto simp: list_all_iff is_separator_def)
  then have s: "split_fields [] (''RelayState='' @ x @ ''&'' @ q) = (''RelayState='' @ x) # split_fields [] q"
    using split_fields_amp[of "''RelayState='' @ x" q] split_fields_plain[OF p, of "[]"] by simp
  define s0 where "s0 = \<lparr>sgf_message = None, sgf_relaystate = None, sgf_sig_alg = None, sgf_signature = None\<rparr>"
  have t: "take_field lib (''RelayState='' @ x) s0 = s0\<lparr>sgf_relaystate := Some (''RelayState='' @ x)\<rparr>"
    by (auto simp: take_field_def match_field_def)
  have c: "fold (take_field lib) fs (s\<lparr>sgf_relaystate := r\<rparr>) = (fold (take_field lib) fs s)
      \<lparr>sgf_relaystate := (case rev (filter (match_field ''RelayState'') fs) of [] \<Rightarrow> r | f # _ \<Rightarrow> Some f)\<rparr>" for fs s r
  proof (induction fs arbitrary: s r)
    case (Cons f fs)
    show ?case
    proof (cases "match_field ''RelayState'' f")
      case True
      then have "take_field lib f s = s\<lparr>sgf_relaystate := Some f\<rparr>" for s by (auto simp: take_field_def match_field_def prefix_def)
      then show ?thesis using True Cons by (auto split: list.split)
    next
      case False
      then have "take_field lib f (s\<lparr>sgf_relaystate := r\<rparr>) = (take_field lib f s)\<lparr>sgf_relaystate := r\<rparr>" by (simp add: take_field_def)
      then show ?thesis using False Cons by simp
    qed
  qed simp
  have f: "signed_fields_of lib (''RelayState='' @ x @ ''&'' @ q) = signed_fields_of lib q"
    unfolding signed_fields_of_def s0_def[symmetric] s fold_Cons comp_def t c
    using assms(2) relaystate_kept[of lib "split_fields [] q" s0] by (auto simp: relaystate_fields_def split: list.splits)
  have r: "lasso_get_relaystate_from_query lib (Some (''RelayState='' @ x @ ''&'' @ q)) = Some (unescape_field lib x)"
    using p by (simp add: lasso_get_relaystate_from_query_def unescape_field_def Let_def takeWhile_append list_all_iff)
  show ?thesis using same_signed_fields[OF f, of flag min_method "Some key"] assms(3) r by metis
qed

section \<open>A signed query verifies\<close>

lemma memequal_loop: "l \<le> length x \<Longrightarrow> l \<le> length y \<Longrightarrow> memequal_loop l r x y \<longleftrightarrow> r \<and> take l x = take l y"
proof (induction l arbitrary: r x y)
  case (Suc l)
  then show ?case by (cases x; cases y) auto
qed simp

text \<open>What the libraries document, for one method and the two keys of a pair: addresses of methods are distinct, base64 is
  undone on a buffer that is large enough, a signature made with one key is accepted with the other.\<close>

definition base64_inverse :: "query_lib \<Rightarrow> bool" where
  "base64_inverse lib \<longleftrightarrow> (\<forall>b n. b \<noteq> [] \<and> length b \<le> n \<longrightarrow> qlb_base64_decode lib (qlb_base64_encode lib b) n = (int (length b), b)) \<and>
     (\<forall>b. c_string (qlb_base64_encode lib b) \<and> is_base64 (qlb_base64_encode lib b) \<and> length b \<le> length (qlb_base64_encode lib b))"

definition distinct_hrefs :: "query_lib \<Rightarrow> bool" where
  "distinct_hrefs lib \<longleftrightarrow> distinct (map (qlb_href lib) known_methods) \<and> list_all (\<lambda>m. c_string (qlb_href lib m)) known_methods"

definition key_pair :: "query_lib \<Rightarrow> int \<Rightarrow> string \<Rightarrow> string \<Rightarrow> bool" where
  "key_pair lib m private public \<longleftrightarrow>
     (if method_key m = HmacKey then private = public
      else qlb_key_kind lib public = qlb_key_kind lib private \<and> qlb_key_size lib public = qlb_key_size lib private \<and>
        0 < qlb_key_size lib private \<and>
        (\<forall>d sig. qlb_sign lib (method_key m) (method_digest m) d private = (True, sig) \<longrightarrow>
                  qlb_verify lib (method_key m) (method_digest m) d sig public))"

lemma valid_method_known: "lasso_validate_signature_method m \<longleftrightarrow> m \<in> set known_methods"
  by (auto simp: lasso_validate_signature_method_def known_methods_def method_defs)

lemma find_href:
  assumes "distinct (map f ms)" and "m \<in> set ms"
  shows "List.find (\<lambda>x. f m = f x) ms = Some m"
  using assms by (induction ms) (auto, metis image_eqI)

lemma signature_verifies:
  assumes "make_signature lib m (Some private) content = Some (Some sig)" and "key_pair lib m private public"
    and "lasso_validate_signature_method m" and "lasso_allowed_signature_method min_method m"
    and "base64_inverse lib" and "distinct_hrefs lib"
  shows "lasso_query_verify_helper lib min_method content (qlb_base64_encode lib sig) (qlb_href lib m) public = 0"
proof -
  have f: "List.find (\<lambda>x. qlb_href lib m = qlb_href lib x) known_methods = Some m"
    using find_href[of "qlb_href lib" known_methods m] assms(3,6) by (simp add: valid_method_known distinct_hrefs_def)
  have d: "qlb_base64_decode lib (qlb_base64_encode lib sig) (n + 1) = (int n, sig)" if "length sig = n" "0 < n" for n
    using assms(5) that by (auto simp: base64_inverse_def)
  show ?thesis
  proof (cases "method_key m = HmacKey")
    case True
    have l: "0 < digest_length (method_digest m)" by (simp add: digest_length_def split: message_digest.split)
    have "private = public" using assms(2) True by (simp add: key_pair_def)
    then have s: "fst (lasso_get_hmac_key lib (Some public)) = 0" "length sig = digest_length (method_digest m)"
      "sig = qlb_hmac lib (method_digest m) (qlb_hmac_key lib public) content"
      using assms(1) True by (auto simp: make_signature_def lasso_get_hmac_key_def Let_def split: if_splits)
    have "lasso_crypto_memequal sig (sig @ drop (length sig) h) (length sig)" for h
      unfolding lasso_crypto_memequal_def by (simp add: memequal_loop)
    then show ?thesis
      using f s(1) True assms(4) d[OF s(2) l] l
      by (simp add: lasso_query_verify_helper_def check_signature_bytes_def s(3)[symmetric] s(2)[symmetric])
  next
    case False
    obtain st where s: "qlb_sign lib (method_key m) (method_digest m) (qlb_digest lib (method_digest m) content) private = (st, sig)"
      "st" "length sig = qlb_key_size lib private" "qlb_key_kind lib private = method_key m"
      using assms(1) False by (auto simp: make_signature_def Let_def split: if_splits prod.splits)
    then have p: "qlb_key_kind lib public = method_key m" "length sig = qlb_key_size lib public" "0 < qlb_key_size lib public"
      "qlb_verify lib (method_key m) (method_digest m) (qlb_digest lib (method_digest m) content) sig public"
      using assms(2) False by (auto simp: key_pair_def)
    then show ?thesis
      using f False assms(4) d[OF p(2,3)] by (simp add: lasso_query_verify_helper_def check_signature_bytes_def)
  qed
qed

lemma query_sign_made:
  assumes "lasso_query_sign lib min_method q m key = Some (Some s)"
  obtains sig where "lasso_validate_signature_method m" "lasso_allowed_signature_method min_method m"
    "make_signature lib m key (signed_content lib m q) = Some (Some sig)"
    "s = signed_content lib m q @ ''&Signature='' @ lasso_xmlURIEscapeStr (qlb_base64_encode lib sig) []"
  using assms by (auto simp: lasso_query_sign_def Let_def split: if_splits)

lemma escape_no_separator: "list_all (\<lambda>c. \<not> is_separator c) (lasso_xmlURIEscapeStr s [])"
  using escape_chars[of s] escaped_char by (auto simp: list_all_iff)

lemma signed_split:
  "split_fields [] (signed_content lib m q @ ''&Signature='' @ lasso_xmlURIEscapeStr b []) =
     split_fields [] q @ [''SigAlg='' @ lasso_xmlURIEscapeStr (qlb_href lib m) [], ''Signature='' @ lasso_xmlURIEscapeStr b []]"
proof -
  let ?a = "lasso_xmlURIEscapeStr (qlb_href lib m) []" and ?e = "lasso_xmlURIEscapeStr b []"
  have n: "list_all (\<lambda>c. \<not> is_separator c) (''SigAlg='' @ ?a)" "list_all (\<lambda>c. \<not> is_separator c) (''Signature='' @ ?e)"
    using escape_no_separator by (auto simp: is_separator_def)
  have "split_fields [] (signed_content lib m q @ ''&'' @ (''Signature='' @ ?e)) = split_fields [] (q @ ''&'' @ (''SigAlg='' @ ?a)) @ [''Signature='' @ ?e]"
    using amp_field_simps[OF n(2), of "signed_content lib m q"] by (simp add: signed_content_def)
  then show ?thesis using amp_field_simps[OF n(1), of q] by simp
qed

text \<open>The queries that the redirect binding builds: the message, and the relay state when there is one.\<close>

definition redirect_query :: "string \<Rightarrow> cstr \<Rightarrow> string \<Rightarrow> bool" where
  "redirect_query message relaystate q \<longleftrightarrow>
     (match_field ''SAMLRequest'' message \<or> match_field ''SAMLResponse'' message) \<and>
     list_all (\<lambda>c. \<not> is_separator c) message \<and>
     (case relaystate of
        None \<Rightarrow> q = message
      | Some r \<Rightarrow> list_all (\<lambda>c. \<not> is_separator c) r \<and> match_field ''RelayState'' r \<and> q = message @ ''&'' @ r)"

lemma redirect_query_split:
  "redirect_query message relaystate q \<Longrightarrow> split_fields [] q = message # (case relaystate of None \<Rightarrow> [] | Some r \<Rightarrow> [r])"
  using amp_field_simps[of _ message] by (auto simp: redirect_query_def split_fields_plain split: option.splits)

lemma signed_fields_signed:
  assumes "redirect_query message relaystate q" and "unescapes (qlb_unescape lib)" and "c_string b"
  shows "signed_fields_of lib (signed_content lib m q @ ''&Signature='' @ lasso_xmlURIEscapeStr b []) =
    \<lparr>sgf_message = Some message, sgf_relaystate = relaystate,
     sgf_sig_alg = Some (''SigAlg='' @ lasso_xmlURIEscapeStr (qlb_href lib m) []), sgf_signature = Some b\<rparr>"
proof -
  have "take_field lib message s = s\<lparr>sgf_message := Some message\<rparr>" for s :: signed_fields
    using assms(1) by (auto simp: take_field_def redirect_query_def)
  moreover have "take_field lib r s = s\<lparr>sgf_relaystate := Some r\<rparr>" if "relaystate = Some r" for s :: signed_fields and r
    using assms(1) that by (auto simp: take_field_def redirect_query_def match_field_def prefix_def)
  moreover have "take_field lib (''SigAlg='' @ x) s = s\<lparr>sgf_sig_alg := Some (''SigAlg='' @ x)\<rparr>" for s x
    by (simp add: take_field_def match_field_def)
  moreover have "take_field lib (''Signature='' @ lasso_xmlURIEscapeStr b []) s = s\<lparr>sgf_signature := Some b\<rparr>" for s
    using unescape_escape[OF assms(2,3)] by (simp add: take_field_def match_field_def field_value_def)
  ultimately show ?thesis
    unfolding signed_fields_of_def signed_split redirect_query_split[OF assms(1)] by (cases relaystate) (simp_all del: append_Cons)
qed

lemma saml2_accepts_signed:
  assumes "lasso_query_sign lib min_method q m (Some private) = Some (Some s)" and "redirect_query message relaystate q"
    and "key_pair lib m private public" and "base64_inverse lib" and "distinct_hrefs lib" and "unescapes (qlb_unescape lib)"
  shows "lasso_saml2_query_verify_signature lib flag min_method s (Some public) = 0"
proof -
  obtain sig where v: "lasso_validate_signature_method m" "lasso_allowed_signature_method min_method m"
    and s: "make_signature lib m (Some private) (signed_content lib m q) = Some (Some sig)"
      "s = signed_content lib m q @ ''&Signature='' @ lasso_xmlURIEscapeStr (qlb_base64_encode lib sig) []"
    by (rule query_sign_made[OF assms(1)])
  have b: "c_string (qlb_base64_encode lib sig)" and h: "c_string (qlb_href lib m)"
    using assms(4,5) v(1) by (auto simp: base64_inverse_def distinct_hrefs_def list_all_iff valid_method_known)
  note f = signed_fields_signed[OF assms(2,6) b, of m, folded s(2)]
  have c: "message @ ''&'' @ (case relaystate of None \<Rightarrow> [] | Some r \<Rightarrow> r @ ''&'') @ ''SigAlg='' @ lasso_xmlURIEscapeStr (qlb_href lib m) [] =
      signed_content lib m q"
    using assms(2) by (auto simp: redirect_query_def signed_content_def split: option.splits)
  have a: "qlb_unescape lib (field_value (''SigAlg='' @ lasso_xmlURIEscapeStr (qlb_href lib m) [])) = qlb_href lib m"
    using unescape_escape[OF assms(6) h] by (simp add: field_value_def)
  show ?thesis
    using signature_verifies[OF s(1) assms(3) v assms(4,5)] c a
    unfolding lasso_saml2_query_verify_signature_def f by (simp del: append_Cons)
qed

text \<open>A query of the redirect binding that \<^verbatim>\<open>lasso_query_sign\<close> signs with one key of a pair is accepted by the verification of
  SAML 2.0 with the other, with every method that the policy allows.\<close>

theorem signed_query_verifies_saml2:
  assumes "lasso_query_sign lib min_method q m (Some private) = Some (Some s)" and "redirect_query message relaystate q"
    and "key_pair lib m private public" and "base64_inverse lib" and "distinct_hrefs lib" and "unescapes (qlb_unescape lib)"
  shows "lasso_saml2_query_verify_signature lib flag min_method s (Some public) = 0"
  by (rule saml2_accepts_signed[OF assms])

lemma not_prefix_before:
  assumes "c \<notin> set d" and "\<not> sublist (c # d) (x # xs)"
  shows "\<not> prefix (c # d) ((x # xs) @ c # t)"
proof
  assume "prefix (c # d) ((x # xs) @ c # t)"
  then consider "prefix (c # d) (x # xs)" | us where "c # d = (x # xs) @ us" "prefix us (c # t)"
    by (auto simp: prefix_append)
  then show False
  proof cases
    case 1
    then show False using assms(2) by auto
  next
    case (2 us)
    then show False using assms by (cases us) auto
  qed
qed

lemma break_at_first:
  "c \<notin> set d \<Longrightarrow> \<not> sublist (c # d) a \<Longrightarrow> break_at (c # d) (a @ c # d @ b) = Some (a, b)"
proof (induction a)
  case Nil
  show ?case by (subst break_at.simps) simp
next
  case (Cons x xs)
  then have "\<not> prefix (c # d) ((x # xs) @ c # d @ b)" by (intro not_prefix_before) auto
  moreover have "\<not> sublist (c # d) xs" using Cons.prems(2) by (auto simp: sublist_Cons_right)
  ultimately show ?case using Cons by (subst break_at.simps) auto
qed

lemma strstr_first: "c \<notin> set d \<Longrightarrow> \<not> sublist (c # d) a \<Longrightarrow> strstr (a @ c # d @ b) (c # d) = Some (c # d @ b)"
proof (induction a)
  case Nil
  show ?case by (subst strstr.simps) simp
next
  case (Cons x xs)
  then have "\<not> prefix (c # d) ((x # xs) @ c # d @ b)" by (intro not_prefix_before) auto
  moreover have "\<not> sublist (c # d) xs" using Cons.prems(2) by (auto simp: sublist_Cons_right)
  ultimately show ?case using Cons by (subst strstr.simps) auto
qed

lemma escape_no_amp: "CHR ''&'' \<notin> set (lasso_xmlURIEscapeStr s [])"
  using escape_no_separator[of s] by (auto simp: list_all_iff)

lemma escape_no_angle: "CHR ''<'' \<notin> set (lasso_xmlURIEscapeStr s [])"
  using escape_chars[of s] by (auto simp: list_all_iff escaped_char_def is_plain_def is_alnum_def)

lemma sublist_amp:
  assumes "\<not> sublist (CHR ''&'' # d) q" and "CHR ''&'' \<notin> set d" and "CHR ''&'' \<notin> set z" and "\<not> prefix d z"
  shows "\<not> sublist (CHR ''&'' # d) (q @ CHR ''&'' # z)"
proof
  assume "sublist (CHR ''&'' # d) (q @ CHR ''&'' # z)"
  then consider "sublist (CHR ''&'' # d) (CHR ''&'' # z)"
    | x y where "CHR ''&'' # d = x @ y" "suffix x q" "prefix y (CHR ''&'' # z)"
    using assms(1) by (auto simp: sublist_append)
  then show False
  proof cases
    case 1
    then show False using assms(3,4) set_mono_sublist[of "CHR ''&'' # d" z] by (auto simp: sublist_Cons_right)
  next
    case (2 x y)
    then show False using assms by (cases x; cases y) auto
  qed
qed

text \<open>The same for ID-FF, for any query without a field of these names.\<close>

theorem signed_query_verifies_idff:
  assumes "lasso_query_sign lib min_method q m (Some private) = Some (Some s)"
    and "\<not> sublist ''&Signature='' q" and "\<not> sublist ''&SigAlg='' q"
    and "key_pair lib m private public" and "base64_inverse lib" and "distinct_hrefs lib" and "unescapes (qlb_unescape lib)"
  shows "lasso_query_verify_signature lib flag min_method s (Some public) = 0"
proof -
  obtain sig where v: "lasso_validate_signature_method m" "lasso_allowed_signature_method min_method m"
    and s: "make_signature lib m (Some private) (signed_content lib m q) = Some (Some sig)"
      "s = signed_content lib m q @ ''&Signature='' @ lasso_xmlURIEscapeStr (qlb_base64_encode lib sig) []"
    by (rule query_sign_made[OF assms(1)])
  define e where "e = lasso_xmlURIEscapeStr (qlb_base64_encode lib sig) []"
  define h where "h = lasso_xmlURIEscapeStr (qlb_href lib m) []"
  have n: "CHR ''&'' \<notin> set e" "CHR ''&'' \<notin> set h" by (simp_all add: e_def h_def escape_no_amp)
  have u: "qlb_unescape lib e = qlb_base64_encode lib sig" "qlb_unescape lib h = qlb_href lib m"
    unfolding e_def h_def using assms(5,6) v(1)
    by (auto simp: base64_inverse_def distinct_hrefs_def list_all_iff valid_method_known intro!: unescape_escape[OF assms(7)])
  have c: "signed_content lib m q = q @ CHR ''&'' # ''SigAlg='' @ h" by (simp add: signed_content_def h_def)
  have a: "strstr (signed_content lib m q) ''&SigAlg='' = Some (''&SigAlg='' @ h)"
    unfolding c using strstr_first[of "CHR ''&''" "''SigAlg=''" q h] assms(3) by simp
  have "\<not> sublist ''&Signature='' (signed_content lib m q)"
    unfolding c using assms(2) n(2) by (intro sublist_amp) auto
  then have "break_at ''&Signature='' s = Some (signed_content lib m q, e)"
    unfolding s(2) e_def using break_at_first[of "CHR ''&''" "''Signature=''"] by simp
  moreover have "break_at ''&Signature='' e = None"
    using break_at_Some[of "''&Signature=''" e] n(1) by (cases "break_at ''&Signature='' e") auto
  moreover have "s \<noteq> []" using s(2) by simp
  ultimately have "g_strsplit s ''&Signature='' = [signed_content lib m q, e]"
    by (simp add: g_strsplit_def strsplit_loop.simps[of _ s] strsplit_loop.simps[of _ e])
  moreover have t: "takeWhile (\<lambda>c. c \<noteq> CHR ''&'') e = e" using n(1) by (auto simp: takeWhile_eq_all_conv)
  ultimately show ?thesis
    using signature_verifies[OF s(1) assms(4) v assms(5,6)] u a by (simp add: lasso_query_verify_signature_def takeWhile_eq_all_conv[THEN iffD2])
qed

section \<open>Parameters and messages are read back\<close>

definition parameters :: "(string \<times> string) list \<Rightarrow> cstr list" where
  "parameters kvs = concat (map (\<lambda>(k, v). [Some k, Some v]) kvs)"

definition parameter_field :: "string \<times> string \<Rightarrow> string" where
  "parameter_field kv = lasso_xmlURIEscapeStr (fst kv) [] @ ''='' @ lasso_xmlURIEscapeStr (snd kv) []"

lemma parameter_field_plain: "list_all (\<lambda>c. \<not> is_separator c) (parameter_field kv)"
  using escape_no_separator by (auto simp: parameter_field_def is_separator_def)

lemma add_parameters_fields:
  "\<exists>q. add_parameters (Some u) (Some u) (parameters kvs) = Some q \<and> split_fields [] q = split_fields [] u @ map parameter_field kvs"
proof (induction kvs arbitrary: u)
  case (Cons kv kvs)
  have "split_fields [] (u @ ''&'' @ parameter_field kv) = split_fields [] u @ [parameter_field kv]"
    by (rule amp_field_simps[OF parameter_field_plain])
  then show ?case
    using Cons[of "u @ ''&'' @ parameter_field kv"] by (cases kv) (auto simp: parameters_def parameter_field_def)
qed (simp add: parameters_def)

lemma unescape_parameter_field:
  assumes "unescapes (qlb_unescape lib)" and "c_string k" and "c_string v"
  shows "unescape_field lib (parameter_field (k, v)) = k @ ''='' @ v"
proof -
  have "percent_decode (parameter_field (k, v)) = k @ ''='' @ v"
    using percent_decode_escape[of k "''='' @ lasso_xmlURIEscapeStr v []"] percent_decode_escape[of v "[]"]
    by (simp add: parameter_field_def)
  then show ?thesis
    using unescape_decode[OF assms(1), of "parameter_field (k, v)"] assms(2,3)
    by (auto simp: unescape_field_def parameter_field_def c_string_def)
qed

text \<open>The parameters that are added to a query are the fields that splitting it gives back, after the fields it had.\<close>

theorem url_parameters_roundtrip:
  assumes "unescapes (qlb_unescape lib)" and "list_all (\<lambda>(k, v). c_string k \<and> c_string v) kvs" and "kvs \<noteq> []"
  shows "\<exists>q. lasso_url_add_parameters url (parameters kvs) = Some q \<and>
    lasso_urlencoded_to_strings lib q =
      (case url of None \<Rightarrow> [] | Some u \<Rightarrow> lasso_urlencoded_to_strings lib u) @ map (\<lambda>(k, v). k @ ''='' @ v) kvs"
proof -
  obtain k v kvs' where kvs: "kvs = (k, v) # kvs'" using assms(3) by (cases kvs) auto
  define u where "u = (case url of None \<Rightarrow> parameter_field (k, v) | Some u \<Rightarrow> u @ ''&'' @ parameter_field (k, v))"
  have "lasso_url_add_parameters url (parameters kvs) = add_parameters (Some u) (Some u) (parameters kvs')"
    by (simp add: lasso_url_add_parameters_def kvs parameters_def parameter_field_def u_def Let_def split: option.split)
  then obtain q where q: "lasso_url_add_parameters url (parameters kvs) = Some q"
    "split_fields [] q = split_fields [] u @ map parameter_field kvs'"
    using add_parameters_fields[of u kvs'] by auto
  have "split_fields [] u = (case url of None \<Rightarrow> [] | Some u \<Rightarrow> split_fields [] u) @ [parameter_field (k, v)]"
    using amp_field_simps[OF parameter_field_plain] split_fields_plain[OF parameter_field_plain]
    by (simp add: u_def split: option.split)
  then have "split_fields [] q = (case url of None \<Rightarrow> [] | Some u \<Rightarrow> split_fields [] u) @ map parameter_field kvs"
    using q(2) kvs by simp
  moreover have "map (unescape_field lib) (map parameter_field kvs) = map (\<lambda>(k, v). k @ ''='' @ v) kvs"
    using unescape_parameter_field[OF assms(1)] assms(2) by (auto simp: list_all_iff)
  ultimately show ?thesis using q(1) by (cases url) (auto simp: urlencoded_fields)
qed

text \<open>Without any pair, the result is not the address that was given, as the documentation says, but \<^verbatim>\<open>NULL\<close>.\<close>

theorem url_add_no_parameters: "lasso_url_add_parameters (Some u) [] = None"
  by (simp add: lasso_url_add_parameters_def)

lemma base64_chars:
  assumes "is_base64 s" and "c \<in> set s"
  shows "is_alnum c \<or> c \<in> set [CHR ''+'', CHR ''/'', CHR ''='', CHR 0x0A, CHR 0x0D]"
proof (rule ccontr)
  let ?P = "\<lambda>c. is_alnum c \<or> c \<in> set [CHR ''+'', CHR ''/'', CHR 0x0A, CHR 0x0D]"
  assume n: "\<not> ?thesis"
  then have "c \<notin> set (takeWhile ?P s)" by (auto dest: set_takeWhileD)
  then have "c \<in> set (dropWhile ?P s)" using assms(2)
    by (subst (asm) takeWhile_dropWhile_id[of ?P s, symmetric]) (simp only: set_append Un_iff, blast)
  then have "c \<in> set [CHR ''='', CHR 0x0A, CHR 0x0D]" using assms(1) unfolding is_base64_def dropWhile_eq_Nil_conv by blast
  then show False using n by simp
qed

lemma base64_no_percent: "is_base64 s \<Longrightarrow> CHR ''%'' \<notin> set s"
  using base64_chars[of s "CHR ''%''"] by (auto simp: is_alnum_def)

lemma text_bytes: "c_string s \<Longrightarrow> text_of (bytes_of s) = s"
  by (auto simp: text_of_def bytes_of_def c_string_def unat_of_nat comp_def takeWhile_eq_all_conv)

definition deflated_text :: "query_lib \<Rightarrow> string \<Rightarrow> string" where
  "deflated_text lib text = qlb_base64_encode lib (qlb_deflate lib (bytes_of text))"

text \<open>A text that survives the compression: zlib undoes it, it is less than 20 times as long as its compressed form, and the
  sizes that the receiver computes for its buffers fit 32 bits.\<close>

definition compressible :: "query_lib \<Rightarrow> string \<Rightarrow> bool" where
  "compressible lib text \<longleftrightarrow> c_string text \<and> text \<noteq> [] \<and> length text < 20 * length (qlb_deflate lib (bytes_of text)) \<and>
     qlb_inflate lib (qlb_deflate lib (bytes_of text)) = Some (bytes_of text) \<and>
     20 * length (qlb_deflate lib (bytes_of text)) < 2 ^ 32 \<and> 4 * length (deflated_text lib text) < 2 ^ 31"

lemma deflated_part:
  "lasso_xmlnode_build_deflated_query lib text = Some part \<Longrightarrow> part = lasso_xmlURIEscapeStr (deflated_text lib text) []"
  by (simp add: lasso_xmlnode_build_deflated_query_def deflated_text_def Let_def split: if_splits)

lemma deflated_text_read:
  assumes "compressible lib text" and "base64_inverse lib" and "unescapes (qlb_unescape lib)"
    and m: "message_of_fields fs = (None, Some (deflated_text lib text))"
  shows "lasso_node_init_from_saml2_query_fields lib fs = Some (Some text) \<and> lasso_get_saml_message lib fs = Some (Some text)"
proof -
  define z where "z = qlb_deflate lib (bytes_of text)"
  define b where "b = deflated_text lib text"
  have z: "z \<noteq> []" "length text < 20 * length z" "qlb_inflate lib z = Some (bytes_of text)" "c_string text" "20 * length z < 2 ^ 32"
    and small: "4 * length b < 2 ^ 31"
    using assms(1) by (auto simp: compressible_def z_def b_def)
  have b: "b = qlb_base64_encode lib z" by (simp add: b_def z_def deflated_text_def)
  have bc: "c_string b" "is_base64 b" using assms(2) by (simp_all add: base64_inverse_def b)
  have d: "qlb_base64_decode lib b (length b) = (int (length z), z)" "qlb_base64_decode lib b (length b * 4) = (int (length z), z)"
    using assms(2) z(1) le_trans[of "length z" "length b" "length b * 4"] by (simp_all add: base64_inverse_def b)
  have u: "qlb_unescape lib b = b" using unescape_no_percent[OF assms(3) bc(1)] base64_no_percent[OF bc(2)] by simp
  have i: "lasso_inflate lib z = Some (Some text)"
    using z text_bytes by (auto simp: lasso_inflate_def bytes_of_def)
  have size: "c_int (int (length b) * 4) = int (length b * 4)" "nat (int (length b) * 4) = length b * 4"
    using small by (simp_all add: c_int_small)
  show ?thesis
    using m d u i bc(2) size
    by (simp add: lasso_node_init_from_saml2_query_fields_def lasso_node_init_from_deflated_query_part_def lasso_get_saml_message_def
        b_def[symmetric])
qed

lemma deflated_field:
  assumes "base64_inverse lib" and "unescapes (qlb_unescape lib)" and "name = ''SAMLRequest'' \<or> name = ''SAMLResponse''"
  shows "unescape_field lib (name @ ''='' @ lasso_xmlURIEscapeStr (deflated_text lib text) []) = name @ CHR ''='' # deflated_text lib text"
proof -
  have "c_string (deflated_text lib text)" using assms(1) by (simp add: base64_inverse_def deflated_text_def)
  moreover have "CHR ''%'' \<notin> set name" "c_string name" using assms(3) by (auto simp: c_string_def)
  ultimately show ?thesis
    using unescape_plain_name[OF assms(2)] unescape_escape[OF assms(2)] by (simp add: unescape_field_def)
qed

definition relaystate_field :: "cstr \<Rightarrow> cstr" where
  "relaystate_field relaystate = map_option (\<lambda>r. ''RelayState='' @ lasso_xmlURIEscapeStr r []) relaystate"

lemma redirect_query_built:
  assumes "name = ''SAMLRequest'' \<or> name = ''SAMLResponse''"
    and "q = name @ ''='' @ lasso_xmlURIEscapeStr b [] @ (case relaystate_field relaystate of None \<Rightarrow> [] | Some r \<Rightarrow> ''&'' @ r)"
  shows "redirect_query (name @ ''='' @ lasso_xmlURIEscapeStr b []) (relaystate_field relaystate) q"
  using assms escape_no_separator
  by (cases relaystate) (auto simp: redirect_query_def relaystate_field_def match_field_def is_separator_def)

lemma relaystate_of_signed:
  assumes "redirect_query message relaystate q"
  shows "relaystate_fields (signed_content lib m q @ ''&Signature='' @ lasso_xmlURIEscapeStr b []) =
    (case relaystate of None \<Rightarrow> [] | Some r \<Rightarrow> [r])"
proof -
  have "\<not> match_field ''RelayState'' message" using assms by (auto simp: redirect_query_def match_field_def prefix_def)
  then show ?thesis
    using assms unfolding relaystate_fields_def signed_split redirect_query_split[OF assms]
    by (auto simp: redirect_query_def match_field_def split: option.splits)
qed

lemma message_of_signed:
  assumes "base64_inverse lib" and "unescapes (qlb_unescape lib)" and "name = ''SAMLRequest'' \<or> name = ''SAMLResponse''"
    and "redirect_query (name @ ''='' @ lasso_xmlURIEscapeStr (deflated_text lib text) []) (relaystate_field relaystate) q"
    and "c_string (qlb_href lib m)" and "list_all c_string (case relaystate of None \<Rightarrow> [] | Some r \<Rightarrow> [r])" and "c_string b"
  shows "message_of_fields (lasso_urlencoded_to_strings lib (signed_content lib m q @ ''&Signature='' @ lasso_xmlURIEscapeStr b [])) =
    (None, Some (deflated_text lib text))"
proof -
  have f: "unescape_field lib (n @ CHR ''='' # lasso_xmlURIEscapeStr v []) = n @ CHR ''='' # v"
    if "c_string v" "c_string n" "CHR ''%'' \<notin> set n" for n v
    using unescape_plain_name[OF assms(2) that(2,3)] unescape_escape[OF assms(2) that(1)] by (simp add: unescape_field_def)
  have g: "unescape_field lib (''SigAlg='' @ lasso_xmlURIEscapeStr (qlb_href lib m) []) = ''SigAlg'' @ CHR ''='' # qlb_href lib m"
    "unescape_field lib (''Signature='' @ lasso_xmlURIEscapeStr b []) = ''Signature'' @ CHR ''='' # b"
    "relaystate = Some r \<Longrightarrow> unescape_field lib (''RelayState='' @ lasso_xmlURIEscapeStr r []) = ''RelayState'' @ CHR ''='' # r" for r
    using f[of "qlb_href lib m" "''SigAlg''"] f[of b "''Signature''"] f[of r "''RelayState''"] assms(5,6,7) by (simp_all add: c_string_def)
  have k: "message_field (''SigAlg'' @ CHR ''='' # v) acc = acc" "message_field (''Signature'' @ CHR ''='' # v) acc = acc"
    "message_field (''RelayState'' @ CHR ''='' # v) acc = acc" for v acc
    using message_field_append[of "''SigAlg''" v acc] message_field_append[of "''Signature''" v acc]
      message_field_append[of "''RelayState''" v acc] by simp_all
  have n: "message_field (name @ CHR ''='' # v) (None, None) = (None, Some v)" for v
    using message_field_append[of name v "(None, None)"] assms(3) by auto
  show ?thesis
    unfolding urlencoded_fields signed_split redirect_query_split[OF assms(4)] message_of_fields_def
    using deflated_field[OF assms(1,2,3)] g k n
    by (cases relaystate) (simp_all add: relaystate_field_def del: append_Cons)
qed

lemma redirect_message_read:
  assumes "lasso_xmlnode_build_deflated_query lib text = Some part" and "name = ''SAMLRequest'' \<or> name = ''SAMLResponse''"
    and "q = name @ ''='' @ part @ (case relaystate_field relaystate of None \<Rightarrow> [] | Some r \<Rightarrow> ''&'' @ r)"
    and "lasso_query_sign lib min_method q m (Some private) = Some (Some s)"
    and "compressible lib text" and "list_all c_string (case relaystate of None \<Rightarrow> [] | Some r \<Rightarrow> [r])"
    and "key_pair lib m private public" and "base64_inverse lib" and "distinct_hrefs lib" and "unescapes (qlb_unescape lib)"
  shows "lasso_saml2_query_verify_signature lib flag min_method s (Some public) = 0 \<and>
    lasso_node_init_from_saml2_query_fields lib (lasso_urlencoded_to_strings lib s) = Some (Some text) \<and>
    lasso_get_saml_message lib (lasso_urlencoded_to_strings lib s) = Some (Some text) \<and>
    lasso_get_relaystate_from_query lib (Some s) = relaystate"
proof -
  note p = deflated_part[OF assms(1)]
  have r: "redirect_query (name @ ''='' @ lasso_xmlURIEscapeStr (deflated_text lib text) []) (relaystate_field relaystate) q"
    by (rule redirect_query_built[OF assms(2)]) (simp add: assms(3) p)
  obtain sig where v: "lasso_validate_signature_method m"
    and s: "s = signed_content lib m q @ ''&Signature='' @ lasso_xmlURIEscapeStr (qlb_base64_encode lib sig) []"
    by (rule query_sign_made[OF assms(4)])
  have b: "c_string (qlb_base64_encode lib sig)" and h: "c_string (qlb_href lib m)"
    using assms(8,9) v by (auto simp: base64_inverse_def distinct_hrefs_def list_all_iff valid_method_known)
  have "message_of_fields (lasso_urlencoded_to_strings lib s) = (None, Some (deflated_text lib text))"
    unfolding s by (rule message_of_signed[OF assms(8,10,2) r h assms(6) b])
  moreover have "lasso_get_relaystate_from_query lib (Some s) = relaystate"
  proof (cases relaystate)
    case None
    then show ?thesis using relaystate_of_signed[OF r] relaystate_read(1)[of lib s] by (simp add: s relaystate_field_def)
  next
    case (Some x)
    then have f: "relaystate_fields s = [''RelayState='' @ lasso_xmlURIEscapeStr x []]"
      unfolding s relaystate_of_signed[OF r] by (simp add: relaystate_field_def)
    then obtain y where y: "lasso_get_relaystate_from_query lib (Some s) = Some y" using relaystate_read(1)[of lib s] by fastforce
    then have "y = unescape_field lib (lasso_xmlURIEscapeStr x [])" using relaystate_read(2)[OF y] f by simp
    moreover have "unescape_field lib (lasso_xmlURIEscapeStr x []) = x"
      using unescape_escape[OF assms(10), of x] assms(6) Some percent_decode_escape[of x "[]"] by (auto simp: unescape_field_def)
    ultimately show ?thesis using y Some by simp
  qed
  ultimately show ?thesis
    using saml2_accepts_signed[OF assms(4) r assms(7-10)] deflated_text_read[OF assms(5,8,10)] by blast
qed

text \<open>C12: A message that is written into the query of the redirect binding, with or without a relay state, and signed: the
  verification accepts it, and the constructor from a query, the reader that looks for an issuer and the reader of the
  relay state find what was written.\<close>

theorem redirect_message_roundtrip:
  assumes "lasso_xmlnode_build_deflated_query lib text = Some part" and "name = ''SAMLRequest'' \<or> name = ''SAMLResponse''"
    and "q = name @ ''='' @ part @ (case relaystate_field relaystate of None \<Rightarrow> [] | Some r \<Rightarrow> ''&'' @ r)"
    and "lasso_query_sign lib min_method q m (Some private) = Some (Some s)"
    and "compressible lib text" and "list_all c_string (case relaystate of None \<Rightarrow> [] | Some r \<Rightarrow> [r])"
    and "key_pair lib m private public" and "base64_inverse lib" and "distinct_hrefs lib" and "unescapes (qlb_unescape lib)"
  shows "lasso_saml2_query_verify_signature lib flag min_method s (Some public) = 0 \<and>
    lasso_node_init_from_saml2_query_fields lib (lasso_urlencoded_to_strings lib s) = Some (Some text) \<and>
    lasso_get_saml_message lib (lasso_urlencoded_to_strings lib s) = Some (Some text) \<and>
    lasso_get_relaystate_from_query lib (Some s) = relaystate"
  using redirect_message_read[OF assms] .

section \<open>Loops and buffers\<close>

lemma param_value_unfold:
  "lasso_get_query_string_param_value k q =
     (if prefix (k @ ''='') q
      then Some (Some (drop (length k + 1) q,
             case (case strchr (drop (length k + 1) q) CHR ''&'' of
                     None \<Rightarrow> strchr (drop (length k + 1) q) CHR '';'' | Some e \<Rightarrow> Some e) of
               None \<Rightarrow> length (drop (length k + 1) q)
             | Some e \<Rightarrow> length (drop (length k + 1) q) - length e))
      else case strchr q CHR ''&'' of None \<Rightarrow> Some None | Some q' \<Rightarrow> lasso_get_query_string_param_value k q')"
  by (subst lasso_get_query_string_param_value.simps) (simp only: Let_def)

lemma strchr_hd: "strchr s c = Some t \<Longrightarrow> \<exists>u. t = c # u"
  by (induction s) (auto split: if_splits)

lemma param_value_stuck:
  assumes "lasso_get_query_string_param_value k q = Some r" and "CHR ''&'' \<notin> set k" and "q = CHR ''&'' # u"
  shows False
proof -
  have "CHR ''&'' \<notin> set k \<longrightarrow> (\<forall>u. q \<noteq> CHR ''&'' # u)"
  proof (rule lasso_get_query_string_param_value.raw_induct[OF _ assms(1)])
    fix f k q r
    assume ih: "\<And>k q r. f k q = Some r \<Longrightarrow> CHR ''&'' \<notin> set k \<longrightarrow> (\<forall>u. q \<noteq> CHR ''&'' # u)"
      and r: "(if prefix (k @ ''='') q
        then let v = drop (length k + 1) q; e = case strchr v CHR ''&'' of None \<Rightarrow> strchr v CHR '';'' | Some e \<Rightarrow> Some e
             in Some (Some (v, case e of None \<Rightarrow> length v | Some e \<Rightarrow> length v - length e))
        else case strchr q CHR ''&'' of None \<Rightarrow> Some None | Some qs' \<Rightarrow> f k qs') = Some r"
    have "\<not> (CHR ''&'' \<notin> set k \<and> q = CHR ''&'' # u)" for u
    proof
      assume a: "CHR ''&'' \<notin> set k \<and> q = CHR ''&'' # u"
      then have "\<not> prefix (k @ ''='') q" by (cases k) auto
      then have "f k q = Some r" using r a by simp
      then show False using ih a by blast
    qed
    then show "CHR ''&'' \<notin> set k \<longrightarrow> (\<forall>u. q \<noteq> CHR ''&'' # u)" by blast
  qed
  then show False using assms(2,3) by blast
qed

text \<open>C39: \<^verbatim>\<open>lasso_get_query_string_param_value\<close> returns only when the query starts with the parameter or has one field; on every
  other query it does not end.\<close>

theorem param_value_terminates_iff:
  assumes "CHR ''&'' \<notin> set param_key"
  shows "(\<exists>r. lasso_get_query_string_param_value param_key qs = Some r) \<longleftrightarrow> match_field param_key qs \<or> CHR ''&'' \<notin> set qs"
proof (cases "match_field param_key qs \<or> CHR ''&'' \<notin> set qs")
  case True
  then show ?thesis by (subst param_value_unfold) (auto simp: match_field_def strchr_None[THEN iffD2])
next
  case False
  then obtain u where u: "strchr qs CHR ''&'' = Some (CHR ''&'' # u)"
    using strchr_None[of qs "CHR ''&''"] strchr_hd by (metis option.exhaust)
  have "lasso_get_query_string_param_value param_key qs = lasso_get_query_string_param_value param_key (CHR ''&'' # u)"
    using False u by (subst param_value_unfold) (auto simp: match_field_def)
  then show ?thesis using False param_value_stuck[OF _ assms refl] by (metis not_Some_eq)
qed

text \<open>C40: For a query of less than \<open>2 ^ 31 - 2\<close> characters the counter of its fields does not overflow, nor does the number of places
  that is allocated for them with the final null pointer, and the array has exactly the places that are written; for a string whose
  escaped form has less than \<open>2 ^ 31 - 1\<close> characters the index of the writing loop does not overflow either and ends at the last
  byte of the buffer.\<close>

theorem query_buffers_fit:
  assumes "length s < 2 ^ 31 - 2" and "length (lasso_xmlURIEscapeStr s keep) < 2 ^ 31 - 1"
  shows "count_components s = int (length (lasso_urlencoded_to_strings lib s)) \<and> c_int (count_components s + 1) = count_components s + 1 \<and>
    unat (escaped_length s keep) = length (lasso_xmlURIEscapeStr s keep) \<and>
    escaped_index s keep = int (length (lasso_xmlURIEscapeStr s keep)) \<and> c_int (escaped_index s keep + 1) = escaped_index s keep + 1"
proof -
  have n: "int (length (split_fields [] s)) < 2 ^ 31 - 1" using length_split_fields[of "[]" s] assms(1) by simp
  have "count_components s = int (length (split_fields [] s))"
    using count_components_fold[of s 1 "[]"] n by (simp add: count_components_def c_int_small)
  moreover have "escaped_index s keep = int (length (lasso_xmlURIEscapeStr s keep))"
    using assms(2) by (simp add: escaped_index_eq c_int_small)
  moreover have "unat (escaped_length s keep) = length (lasso_xmlURIEscapeStr s keep)"
    using escaped_length_fold[of keep s 0] assms(2) by (simp add: escaped_length_def unat_of_nat)
  ultimately show ?thesis using n assms(2) by (simp add: lasso_urlencoded_to_strings_def c_int_small)
qed

text \<open>An escaped form of \<open>2 ^ 31\<close> characters or more fits the buffer that is allocated for it, whose size is counted in 64 bits, but the
  index with which it is written has become negative by the end: the last byte is written in front of the buffer.\<close>

theorem escape_writes_before_buffer:
  assumes "2 ^ 31 \<le> length (lasso_xmlURIEscapeStr s keep)" and "length (lasso_xmlURIEscapeStr s keep) < 2 ^ 32"
  shows "unat (escaped_length s keep) = length (lasso_xmlURIEscapeStr s keep) \<and> escaped_index s keep < 0"
  using assms escaped_length_fold[of keep s 0]
  by (simp add: escaped_length_def unat_of_nat escaped_index_eq c_int_negative)

text \<open>The byte that ends an inflated message is written behind the buffer when the message is exactly 20 times as long
  as its compressed form.\<close>

theorem inflate_writes_behind_buffer:
  assumes "qlb_inflate lib input = Some out"
    and "20 * length input < 2 ^ 32"
  shows "lasso_inflate lib input = None \<longleftrightarrow> length out = 20 * length input"
  using assms by (auto simp: lasso_inflate_def)

text \<open>A signature that cannot be decoded is not refused: what the fresh buffer happens to hold is verified in its place.\<close>

theorem undecodable_signature_not_refused:
  assumes "qlb_base64_decode lib b64 (n + 1) = (-1, [])" and "method_key m \<noteq> HmacKey"
  shows "check_signature_bytes lib m content b64 key n = 0 \<longleftrightarrow>
    qlb_verify lib (method_key m) (method_digest m) (qlb_digest lib (method_digest m) content) (take n (qlb_heap lib (n + 1))) key"
  using assms by (simp add: check_signature_bytes_def)

text \<open>When the library cannot sign, the length is asserted before the status is looked at: the process ends, although the
  documentation promises \<^verbatim>\<open>NULL\<close>.\<close>

theorem failed_signing_aborts:
  assumes "qlb_sign lib (method_key m) (method_digest m) (qlb_digest lib (method_digest m) (signed_content lib m q)) k = (False, [])"
    and "method_key m \<noteq> HmacKey" and "0 < qlb_key_size lib k"
    and "lasso_validate_signature_method m" and "lasso_allowed_signature_method min_method m"
  shows "lasso_query_sign lib min_method q m (Some k) = None"
  using assms by (simp add: lasso_query_sign_def make_signature_def Let_def)

section \<open>Sample libraries\<close>

text \<open>Bytes are written as two hexadecimal digits, compression adds a byte, a signature is the digest.\<close>

definition hex_encode :: "8 word list \<Rightarrow> string" where
  "hex_encode b = concat (map (\<lambda>w. [hex_digit (unat w div 16), hex_digit (unat w mod 16)]) b)"

fun hex_decode :: "string \<Rightarrow> 8 word list" where
  "hex_decode (a # b # s) =
     (case (hex_value a, hex_value b) of (Some h, Some l) \<Rightarrow> word_of_nat (16 * h + l) # hex_decode s | _ \<Rightarrow> [])"
| "hex_decode _ = []"

definition sample_lib :: query_lib where
  "sample_lib =
     \<lparr>qlb_unescape = \<lambda>s. takeWhile (\<lambda>c. c \<noteq> CHR 0x00) (percent_decode s), qlb_base64_encode = hex_encode,
      qlb_base64_decode = \<lambda>s n. (int (length (hex_decode s)), hex_decode s), qlb_heap = \<lambda>n. replicate n 0,
      qlb_href = \<lambda>m. ''http://www.w3.org/'' @ [char_of (48 + nat m)], qlb_key_kind = \<lambda>k. RsaKey, qlb_key_size = \<lambda>k. 1,
      qlb_hmac_key = \<lambda>k. [], qlb_digest = \<lambda>d s. [word_of_nat (length s)], qlb_sign = \<lambda>k md d key. (True, d),
      qlb_verify = \<lambda>k md d sig key. d = sig, qlb_hmac = \<lambda>md k s. replicate (digest_length md) 0,
      qlb_deflate = Cons 0, qlb_inflate = \<lambda>b. case b of [] \<Rightarrow> None | _ # x \<Rightarrow> Some x,
      qlb_uri_escape = \<lambda>s. lasso_xmlURIEscapeStr s [], qlb_printf = \<lambda>f args. f\<rparr>"

lemma hex_decode_encode: "hex_decode (hex_encode b) = b"
proof (induction b)
  case (Cons w b)
  have "unat w < 256" using unsigned_less[of w, where 'a = nat] by simp
  then have "hex_value (hex_digit (unat w div 16)) = Some (unat w div 16)" "hex_value (hex_digit (unat w mod 16)) = Some (unat w mod 16)"
    by (auto intro!: hex_value_digit simp: less_mult_imp_div_less)
  then show ?case using Cons by (simp add: hex_encode_def)
qed (simp add: hex_encode_def)

lemma length_hex_encode [simp]: "length (hex_encode b) = 2 * length b"
  by (induction b) (simp_all add: hex_encode_def)

lemma hex_encode_chars: "c \<in> set (hex_encode b) \<Longrightarrow> is_alnum c"
proof -
  have h: "is_alnum (hex_digit n)" if "n < 16" for n using that by (auto simp: hex_digit_def is_alnum_def Let_def)
  have w: "unat w div 16 < 16" for w :: "8 word" using unsigned_less[of w, where 'a = nat] by (simp add: less_mult_imp_div_less)
  show "c \<in> set (hex_encode b) \<Longrightarrow> is_alnum c" using h w by (auto simp: hex_encode_def)
qed

lemma sample_lib_unescapes [simp]: "unescapes (qlb_unescape sample_lib)"
  by (simp add: unescapes_def sample_lib_def)

lemma sample_lib_base64 [simp]: "base64_inverse sample_lib"
proof -
  have "dropWhile (\<lambda>c. is_alnum c \<or> c \<in> set Q) (hex_encode b) = []" for b Q
    using hex_encode_chars by (auto simp: dropWhile_eq_Nil_conv)
  then have "is_base64 (hex_encode b)" for b unfolding is_base64_def by (simp only: dropWhile.simps)
  moreover have "CHR 0x00 \<notin> set (hex_encode b)" for b using hex_encode_chars[of "CHR 0x00" b] by (auto simp: is_alnum_def)
  moreover have "length b \<le> length (hex_encode b)" for b by (induction b) (auto simp: hex_encode_def)
  ultimately show ?thesis
    by (simp add: base64_inverse_def sample_lib_def hex_decode_encode c_string_def)
qed

lemma sample_lib_hrefs [simp]: "distinct_hrefs sample_lib"
proof -
  have b: "0 < m \<and> m < 10" if "m \<in> set known_methods" for m using that by (auto simp: known_methods_def method_defs)
  have "inj_on (qlb_href sample_lib) (set known_methods)"
  proof (rule inj_onI)
    fix x y assume "x \<in> set known_methods" "y \<in> set known_methods" "qlb_href sample_lib x = qlb_href sample_lib y"
    then have "(48 + nat x) mod 256 = (48 + nat y) mod 256" by (simp add: sample_lib_def char_of_eq_iff take_bit_eq_mod)
    moreover have "0 < x" "x < 10" "0 < y" "y < 10" using b \<open>x \<in> _\<close> \<open>y \<in> _\<close> by auto
    then have "nat x < 10" "nat y < 10" by linarith+
    ultimately show "x = y" using \<open>0 < x\<close> \<open>0 < y\<close> by simp
  qed
  moreover have "distinct known_methods" by (simp add: known_methods_def method_defs)
  moreover have "c_string (qlb_href sample_lib m)" if "m \<in> set known_methods" for m
  proof -
    have "nat m < 10" using b[OF that] by linarith
    then have "of_char (char_of (48 + nat m)) = 48 + nat m" by simp
    then have "char_of (48 + nat m) \<noteq> CHR 0x00" by (auto dest: arg_cong[of _ _ "of_char :: char \<Rightarrow> nat"])
    then show ?thesis by (auto simp: c_string_def sample_lib_def)
  qed
  ultimately show ?thesis by (simp add: distinct_hrefs_def distinct_map list_all_iff)
qed

lemma sample_lib_keys [simp]: "method_key m = RsaKey \<Longrightarrow> key_pair sample_lib m k k'"
  by (simp add: key_pair_def sample_lib_def)

text \<open>A signed query with a relay state.\<close>

definition sample_unsigned_query :: string where
  "sample_unsigned_query = ''SAMLRequest=r&RelayState=s''"

lemma sample_redirect_query: "redirect_query ''SAMLRequest=r'' (Some ''RelayState=s'') sample_unsigned_query"
  by (simp add: redirect_query_def match_field_def is_separator_def sample_unsigned_query_def)

lemma sample_query_signed:
  obtains s where "lasso_query_sign sample_lib 1 sample_unsigned_query LASSO_SIGNATURE_METHOD_RSA_SHA256 (Some ''key'') = Some (Some s)"
    "split_fields [] s = [''SAMLRequest=r'', ''RelayState=s'', ''SigAlg='' @ lasso_xmlURIEscapeStr (qlb_href sample_lib 4) [],
       ''Signature='' @ lasso_xmlURIEscapeStr (hex_encode [word_of_nat (length (signed_content sample_lib 4 sample_unsigned_query))]) []]"
proof -
  define s where "s = signed_content sample_lib 4 sample_unsigned_query @ ''&Signature='' @
    lasso_xmlURIEscapeStr (hex_encode [word_of_nat (length (signed_content sample_lib 4 sample_unsigned_query))]) []"
  have "lasso_query_sign sample_lib 1 sample_unsigned_query LASSO_SIGNATURE_METHOD_RSA_SHA256 (Some ''key'') = Some (Some s)"
    by (simp add: lasso_query_sign_def make_signature_def s_def lasso_validate_signature_method_def lasso_allowed_signature_method_def
        method_key_def method_digest_def method_defs Let_def)
      (simp add: sample_lib_def)
  moreover have "split_fields [] s = split_fields [] sample_unsigned_query @ [''SigAlg='' @ lasso_xmlURIEscapeStr (qlb_href sample_lib 4) [],
       ''Signature='' @ lasso_xmlURIEscapeStr (hex_encode [word_of_nat (length (signed_content sample_lib 4 sample_unsigned_query))]) []]"
    unfolding s_def by (rule signed_split)
  ultimately show ?thesis using that by (simp add: sample_unsigned_query_def is_separator_def)
qed

lemma sample_rsa [simp]: "method_key LASSO_SIGNATURE_METHOD_RSA_SHA256 = RsaKey"
  by (simp add: method_key_def method_defs)

theorem signed_query_verifies_saml2_witness:
  "\<exists>s. lasso_query_sign sample_lib 1 sample_unsigned_query LASSO_SIGNATURE_METHOD_RSA_SHA256 (Some ''key'') = Some (Some s) \<and>
    lasso_saml2_query_verify_signature sample_lib True 1 s (Some ''key'') = 0"
proof -
  obtain s where s: "lasso_query_sign sample_lib 1 sample_unsigned_query LASSO_SIGNATURE_METHOD_RSA_SHA256 (Some ''key'') = Some (Some s)"
    by (rule sample_query_signed)
  have k: "key_pair sample_lib LASSO_SIGNATURE_METHOD_RSA_SHA256 ''key'' ''key''" by simp
  show ?thesis
    using s signed_query_verifies_saml2[OF s sample_redirect_query k sample_lib_base64 sample_lib_hrefs sample_lib_unescapes, of True] by blast
qed

theorem signed_query_verifies_idff_witness:
  "\<exists>s. lasso_query_sign sample_lib 1 sample_unsigned_query LASSO_SIGNATURE_METHOD_RSA_SHA256 (Some ''key'') = Some (Some s) \<and>
    lasso_query_verify_signature sample_lib True 1 s (Some ''key'') = 0"
proof -
  obtain s where s: "lasso_query_sign sample_lib 1 sample_unsigned_query LASSO_SIGNATURE_METHOD_RSA_SHA256 (Some ''key'') = Some (Some s)"
    by (rule sample_query_signed)
  have k: "key_pair sample_lib LASSO_SIGNATURE_METHOD_RSA_SHA256 ''key'' ''key''" by simp
  have n: "\<not> sublist ''&Signature='' sample_unsigned_query" "\<not> sublist ''&SigAlg='' sample_unsigned_query"
    by (simp_all add: sample_unsigned_query_def sublist_Cons_right)
  show ?thesis
    using s signed_query_verifies_idff[OF s n k sample_lib_base64 sample_lib_hrefs sample_lib_unescapes, of True] by blast
qed

text \<open>The verified query of the other witnesses, from the two parts of the round trip that they do not depend on.\<close>

lemma sample_query_accepted:
  obtains s where "lasso_saml2_query_verify_signature sample_lib True 1 s (Some ''key'') = 0"
    "split_fields [] s = [''SAMLRequest=r'', ''RelayState=s'', ''SigAlg='' @ lasso_xmlURIEscapeStr (qlb_href sample_lib 4) [],
       ''Signature='' @ lasso_xmlURIEscapeStr (hex_encode [word_of_nat (length (signed_content sample_lib 4 sample_unsigned_query))]) []]"
proof -
  obtain s where s: "lasso_query_sign sample_lib 1 sample_unsigned_query LASSO_SIGNATURE_METHOD_RSA_SHA256 (Some ''key'') = Some (Some s)"
    "split_fields [] s = [''SAMLRequest=r'', ''RelayState=s'', ''SigAlg='' @ lasso_xmlURIEscapeStr (qlb_href sample_lib 4) [],
       ''Signature='' @ lasso_xmlURIEscapeStr (hex_encode [word_of_nat (length (signed_content sample_lib 4 sample_unsigned_query))]) []]"
    by (rule sample_query_signed)
  have k: "key_pair sample_lib LASSO_SIGNATURE_METHOD_RSA_SHA256 ''key'' ''key''" by simp
  show ?thesis
    using that s saml2_accepts_signed[OF s(1) sample_redirect_query k sample_lib_base64 sample_lib_hrefs sample_lib_unescapes, of True] by blast
qed

theorem verified_query_is_read_witness:
  "\<exists>q message. lasso_saml2_query_verify_signature sample_lib True 1 q (Some ''key'') = 0 \<and>
    snd (message_of_fields (lasso_urlencoded_to_strings sample_lib q)) = Some (qlb_unescape sample_lib (field_value message))"
proof -
  obtain s where v: "lasso_saml2_query_verify_signature sample_lib True 1 s (Some ''key'') = 0"
    and f: "split_fields [] s = [''SAMLRequest=r'', ''RelayState=s'', ''SigAlg='' @ lasso_xmlURIEscapeStr (qlb_href sample_lib 4) [],
       ''Signature='' @ lasso_xmlURIEscapeStr (hex_encode [word_of_nat (length (signed_content sample_lib 4 sample_unsigned_query))]) []]"
    by (rule sample_query_accepted)
  have c: "c_string (lasso_xmlURIEscapeStr x [])" for x
    using escape_chars[of x] by (auto simp: c_string_def list_all_iff escaped_char_def is_plain_def is_alnum_def)
  then have p: "list_all plain_name (split_fields [] s)" unfolding f by (auto simp: plain_name_def c_string_def)
  have r: "length (relaystate_fields s) \<le> 1" unfolding relaystate_fields_def f by (simp add: match_field_def)
  show ?thesis using v verified_query_is_read[OF v sample_lib_unescapes p r] by blast
qed

theorem signature_bypassed_by_escaped_name_witness:
  "\<exists>q. lasso_saml2_query_verify_signature sample_lib True 1 q (Some ''key'') = 0 \<and>
    lasso_saml2_query_verify_signature sample_lib True 1 (q @ ''&SAML%52equest='' @ ''evil'') (Some ''key'') = 0 \<and>
    snd (message_of_fields (lasso_urlencoded_to_strings sample_lib (q @ ''&SAML%52equest='' @ ''evil''))) = Some (qlb_unescape sample_lib ''evil'')"
proof -
  obtain s where v: "lasso_saml2_query_verify_signature sample_lib True 1 s (Some ''key'') = 0" by (rule sample_query_accepted)
  have e: "list_all escaped_char ''evil''" by (simp add: escaped_char_def is_plain_def is_alnum_def)
  show ?thesis using v signature_bypassed_by_escaped_name[OF sample_lib_unescapes e v] by blast
qed

theorem relaystate_not_covered_witness:
  "\<exists>q. lasso_saml2_query_verify_signature sample_lib True 1 q (Some ''key'') = 0 \<and>
    lasso_saml2_query_verify_signature sample_lib True 1 (''RelayState='' @ ''evil'' @ ''&'' @ q) (Some ''key'') = 0 \<and>
    lasso_get_relaystate_from_query sample_lib (Some (''RelayState='' @ ''evil'' @ ''&'' @ q)) = Some (unescape_field sample_lib ''evil'')"
proof -
  obtain s where v: "lasso_saml2_query_verify_signature sample_lib True 1 s (Some ''key'') = 0"
    and f: "split_fields [] s = [''SAMLRequest=r'', ''RelayState=s'', ''SigAlg='' @ lasso_xmlURIEscapeStr (qlb_href sample_lib 4) [],
       ''Signature='' @ lasso_xmlURIEscapeStr (hex_encode [word_of_nat (length (signed_content sample_lib 4 sample_unsigned_query))]) []]"
    by (rule sample_query_accepted)
  have e: "list_all escaped_char ''evil''" by (simp add: escaped_char_def is_plain_def is_alnum_def)
  have r: "relaystate_fields s \<noteq> []" unfolding relaystate_fields_def f by (simp add: match_field_def)
  show ?thesis using v relaystate_not_covered[OF e r v] by blast
qed

theorem url_parameters_roundtrip_witness:
  "\<exists>q. lasso_url_add_parameters (Some ''a=1'') (parameters [(''RelayState'', ''x&y'')]) = Some q \<and>
    lasso_urlencoded_to_strings sample_lib q = lasso_urlencoded_to_strings sample_lib ''a=1'' @ [''RelayState=x&y'']"
  using url_parameters_roundtrip[OF sample_lib_unescapes, of "[(''RelayState'', ''x&y'')]" "Some ''a=1''"] by (simp add: c_string_def)

lemma sample_signs: "\<exists>s. lasso_query_sign sample_lib 1 q LASSO_SIGNATURE_METHOD_RSA_SHA256 (Some ''key'') = Some (Some s)"
  by (simp add: lasso_query_sign_def make_signature_def lasso_validate_signature_method_def lasso_allowed_signature_method_def
      method_key_def method_digest_def method_defs Let_def)
    (simp add: sample_lib_def)

lemma sample_redirect_message:
  assumes "name = ''SAMLRequest'' \<or> name = ''SAMLResponse''" and "c_string text" and "text \<noteq> []" and "length text < 100"
  obtains part s where "lasso_xmlnode_build_deflated_query sample_lib text = Some part"
    "lasso_query_sign sample_lib 1 (name @ ''='' @ part @ (case relaystate_field (Some ''s'') of None \<Rightarrow> [] | Some r \<Rightarrow> ''&'' @ r))
       LASSO_SIGNATURE_METHOD_RSA_SHA256 (Some ''key'') = Some (Some s)"
    "compressible sample_lib text"
proof -
  have z: "lasso_xmlnode_build_deflated_query sample_lib text = Some (lasso_xmlURIEscapeStr (hex_encode (0 # bytes_of text)) [])"
    using assms(3) by (cases "text") (simp_all add: lasso_xmlnode_build_deflated_query_def sample_lib_def bytes_of_def Let_def)
  have "\<exists>s. lasso_query_sign sample_lib 1 q LASSO_SIGNATURE_METHOD_RSA_SHA256 (Some ''key'') = Some (Some s)" for q
    by (rule sample_signs)
  moreover have "compressible sample_lib text"
    using assms(2-4) by (simp add: compressible_def deflated_text_def sample_lib_def bytes_of_def)
  ultimately show ?thesis using that z by blast
qed

theorem redirect_message_roundtrip_witness:
  "\<exists>s. lasso_saml2_query_verify_signature sample_lib True 1 s (Some ''key'') = 0 \<and>
    lasso_node_init_from_saml2_query_fields sample_lib (lasso_urlencoded_to_strings sample_lib s) = Some (Some ''<r/>'') \<and>
    lasso_get_relaystate_from_query sample_lib (Some s) = Some ''s''"
proof -
  have c: "c_string ''<r/>''" "''<r/>'' \<noteq> []" "length ''<r/>'' < 100" by (simp_all add: c_string_def)
  obtain part s where s: "lasso_xmlnode_build_deflated_query sample_lib ''<r/>'' = Some part"
    "lasso_query_sign sample_lib 1 (''SAMLRequest'' @ ''='' @ part @ (case relaystate_field (Some ''s'') of None \<Rightarrow> [] | Some r \<Rightarrow> ''&'' @ r))
       LASSO_SIGNATURE_METHOD_RSA_SHA256 (Some ''key'') = Some (Some s)"
    "compressible sample_lib ''<r/>''"
    by (rule sample_redirect_message[OF disjI1[OF refl] c])
  have k: "key_pair sample_lib LASSO_SIGNATURE_METHOD_RSA_SHA256 ''key'' ''key''" by simp
  have r: "list_all c_string (case Some ''s'' of None \<Rightarrow> [] | Some r \<Rightarrow> [r])" by (simp add: c_string_def)
  show ?thesis
    using redirect_message_roundtrip[OF s(1) disjI1[OF refl] refl s(2,3) r k sample_lib_base64 sample_lib_hrefs sample_lib_unescapes, of True]
    by blast
qed

theorem param_value_terminates_iff_witness:
  "\<not> (\<exists>r. lasso_get_query_string_param_value ''b'' ''a=1&b=2'' = Some r) \<and> (\<exists>r. lasso_get_query_string_param_value ''a'' ''a=1&b=2'' = Some r)"
  using param_value_terminates_iff[of "''b''" "''a=1&b=2''"] param_value_terminates_iff[of "''a''" "''a=1&b=2''"]
  by (simp add: match_field_def)

theorem query_buffers_fit_witness:
  "count_components ''a=1&b=2'' = int (length (lasso_urlencoded_to_strings sample_lib ''a=1&b=2'')) \<and>
   escaped_index ''a=1&b=2'' [] = int (length (lasso_xmlURIEscapeStr ''a=1&b=2'' []))"
proof -
  have "length (lasso_xmlURIEscapeStr ''a=1&b=2'' []) < 2 ^ 31 - 1"
    by (simp add: lasso_xmlURIEscapeStr_def is_plain_def is_alnum_def Let_def)
  then show ?thesis using query_buffers_fit[of "''a=1&b=2''" "[]" sample_lib] by simp
qed

theorem inflate_writes_behind_buffer_witness:
  "\<exists>lib. lasso_inflate lib [0] = None"
  using inflate_writes_behind_buffer[of "sample_lib\<lparr>qlb_inflate := \<lambda>_. Some (replicate 20 0)\<rparr>" "[0]" "replicate 20 0"]
  by (intro exI[of _ "sample_lib\<lparr>qlb_inflate := \<lambda>_. Some (replicate 20 0)\<rparr>"]) simp

theorem undecodable_signature_not_refused_witness:
  "\<exists>lib. qlb_base64_decode lib ''!'' (1 + 1) = (-1, []) \<and> check_signature_bytes lib LASSO_SIGNATURE_METHOD_RSA_SHA256 ''c'' ''!'' ''key'' 1 = 0"
proof -
  define lib where "lib = sample_lib\<lparr>qlb_base64_decode := \<lambda>_ _. (-1, []), qlb_heap := \<lambda>n. replicate n 1\<rparr>"
  have d: "qlb_base64_decode lib ''!'' (1 + 1) = (-1, [])" and k: "method_key LASSO_SIGNATURE_METHOD_RSA_SHA256 \<noteq> HmacKey"
    by (simp_all add: lib_def)
  have "qlb_verify lib (method_key LASSO_SIGNATURE_METHOD_RSA_SHA256) (method_digest LASSO_SIGNATURE_METHOD_RSA_SHA256)
      (qlb_digest lib (method_digest LASSO_SIGNATURE_METHOD_RSA_SHA256) ''c'') (take 1 (qlb_heap lib (1 + 1))) ''key''"
    by (simp add: lib_def sample_lib_def)
  then show ?thesis using undecodable_signature_not_refused[OF d k, of "''c''" "''key''"] d by (intro exI[of _ lib]) simp
qed

theorem failed_signing_aborts_witness:
  "\<exists>lib. lasso_query_sign lib 1 ''q'' LASSO_SIGNATURE_METHOD_RSA_SHA256 (Some ''key'') = None"
proof -
  define lib where "lib = sample_lib\<lparr>qlb_sign := \<lambda>_ _ _ _. (False, [])\<rparr>"
  have "qlb_sign lib (method_key m) (method_digest m) (qlb_digest lib (method_digest m) (signed_content lib m q)) k = (False, [])"
    "0 < qlb_key_size lib k" for m q k by (simp_all add: lib_def sample_lib_def)
  moreover have "method_key LASSO_SIGNATURE_METHOD_RSA_SHA256 \<noteq> HmacKey" by simp
  moreover have "lasso_validate_signature_method LASSO_SIGNATURE_METHOD_RSA_SHA256"
    "lasso_allowed_signature_method 1 LASSO_SIGNATURE_METHOD_RSA_SHA256"
    by (simp_all add: lasso_validate_signature_method_def lasso_allowed_signature_method_def method_defs)
  ultimately have "lasso_query_sign lib 1 ''q'' LASSO_SIGNATURE_METHOD_RSA_SHA256 (Some ''key'') = None"
    by (intro failed_signing_aborts)
  then show ?thesis by (rule exI)
qed

end
