(* ===== verification/Lasso_Soap.thy ===== *)
theory Lasso_Soap
  imports Lasso_Nodes Lasso_QueryLaws
begin

text \<open>
  SOAP envelopes and the formats of a message: the helpers of \<^verbatim>\<open>lasso/xml/tools.c\<close> that find the header, the body and its content
  in a libxml2 tree, the part of \<^verbatim>\<open>lasso_provider_verify_signature\<close> (\<^verbatim>\<open>lasso/id-ff/provider.c\<close>) that finds the node whose
  signature is verified, and \<^verbatim>\<open>lasso_node_init_from_message_with_format\<close> (\<^verbatim>\<open>lasso/xml/xml.c\<close>), which recognises the format
  of a message.  The XML parser and the constructor of an object from a tree are arguments.
\<close>

section \<open>Envelopes\<close>

definition LASSO_SOAP_ENV_HREF :: string where [uri_defs]:
  "LASSO_SOAP_ENV_HREF = ''http://schemas.xmlsoap.org/soap/envelope/''"

text \<open>Siblings are lists; the first element is what the loop over \<^verbatim>\<open>next\<close> stops at, with what follows it.\<close>

definition lasso_xml_next_element_node :: "xml list \<Rightarrow> xml list" where
  "lasso_xml_next_element_node xs = dropWhile (\<lambda>x. \<not> is_element x) xs"

definition lasso_xml_is_element_node :: "xml \<Rightarrow> string \<Rightarrow> string \<Rightarrow> bool" where
  "lasso_xml_is_element_node node name ns \<longleftrightarrow> is_element node \<and> xml_name node = name \<and> xml_ns node = Some ns"

definition lasso_xml_is_soap :: "xml \<Rightarrow> bool" where
  "lasso_xml_is_soap root = lasso_xml_is_element_node root ''Envelope'' LASSO_SOAP_ENV_HREF"

definition children_of :: "xml \<Rightarrow> xml list" where
  "children_of x = (case x of Element _ _ _ cs \<Rightarrow> cs | Text _ \<Rightarrow> [])"

definition lasso_xml_soap11_get_header :: "xml \<Rightarrow> xml option" where
  "lasso_xml_soap11_get_header envelope_node =
     (case lasso_xml_next_element_node (children_of envelope_node) of
        [] \<Rightarrow> None
      | node # _ \<Rightarrow> if lasso_xml_is_element_node node ''Header'' LASSO_SOAP_ENV_HREF then Some node else None)"

definition lasso_xml_soap11_get_body :: "xml \<Rightarrow> xml option" where
  "lasso_xml_soap11_get_body envelope_node =
     (let nodes = lasso_xml_next_element_node (children_of envelope_node);
          nodes = (if lasso_xml_soap11_get_header envelope_node \<noteq> None then lasso_xml_next_element_node (tl nodes) else nodes)
      in case nodes of
           [] \<Rightarrow> None
         | node # _ \<Rightarrow> if lasso_xml_is_element_node node ''Body'' LASSO_SOAP_ENV_HREF then Some node else None)"

definition lasso_xml_get_soap_content :: "xml \<Rightarrow> xml option" where
  "lasso_xml_get_soap_content root =
     (if lasso_xml_is_soap root then Option.bind (lasso_xml_soap11_get_body root) xmlFirstElement else None)"

text \<open>\<^verbatim>\<open>lasso_node_new_from_soap\<close>, for a constructor from a tree.\<close>

definition lasso_node_new_from_soap :: "(string \<Rightarrow> xml option) \<Rightarrow> (xml \<Rightarrow> 'n option) \<Rightarrow> string \<Rightarrow> 'n option" where
  "lasso_node_new_from_soap xml_parse new_from_xmlNode soap =
     Option.bind (xml_parse soap) (\<lambda>root. Option.bind (lasso_xml_get_soap_content root) new_from_xmlNode)"

section \<open>The node whose signature is verified\<close>

datatype message_format =
    LASSO_MESSAGE_FORMAT_XSCHEMA_ERROR | LASSO_MESSAGE_FORMAT_ERROR | LASSO_MESSAGE_FORMAT_UNKNOWN
  | LASSO_MESSAGE_FORMAT_XML | LASSO_MESSAGE_FORMAT_BASE64 | LASSO_MESSAGE_FORMAT_QUERY | LASSO_MESSAGE_FORMAT_SOAP

text \<open>The test \<^verbatim>\<open>format <= LASSO_MESSAGE_FORMAT_UNKNOWN\<close>.\<close>

definition no_format :: "message_format \<Rightarrow> bool" where
  "no_format f \<longleftrightarrow> f \<in> {LASSO_MESSAGE_FORMAT_XSCHEMA_ERROR, LASSO_MESSAGE_FORMAT_ERROR, LASSO_MESSAGE_FORMAT_UNKNOWN}"

text \<open>The XPath expression \<^verbatim>\<open>//s:Body/*\<close> in document order: the element children of every body, wherever it is.\<close>

fun body_nodes :: "bool \<Rightarrow> xml \<Rightarrow> xml list" where
  "body_nodes below (Text t) = []"
| "body_nodes below (Element name ns props cs) =
     (if below then [Element name ns props cs] else []) @
     concat (map (body_nodes (name = ''Body'' \<and> ns = Some LASSO_SOAP_ENV_HREF)) cs)"

definition first_of :: "'a list \<Rightarrow> 'a option" where
  "first_of xs = (case xs of [] \<Rightarrow> None | x # _ \<Rightarrow> Some x)"

text \<open>The outer \<open>None\<close> is a message that cannot be decoded.\<close>

definition message_root :: "query_lib \<Rightarrow> (string \<Rightarrow> xml option) \<Rightarrow> message_format \<Rightarrow> string \<Rightarrow> xml option option" where
  "message_root lib xml_parse format msg =
     (if format = LASSO_MESSAGE_FORMAT_BASE64
      then (let (len, bytes) = qlb_base64_decode lib msg (length msg)
            in if len < 0 then None else Some (xml_parse (text_of bytes)))
      else if format = LASSO_MESSAGE_FORMAT_SOAP
      then Some (Option.bind (xml_parse msg) (\<lambda>root. first_of (body_nodes False root)))
      else Some (xml_parse msg))"

section \<open>The format of a message\<close>

text \<open>\<open>init\<close> fills the object from a tree, possibly none, and returns a code and the object; \<open>snd (init None)\<close> stands for the object
  before anything is read.  The write behind the buffer of \<^verbatim>\<open>lasso_inflate\<close> is taken for a failure here.\<close>

definition saml2_init_from_query ::
  "query_lib \<Rightarrow> (string \<Rightarrow> xml option) \<Rightarrow> (xml option \<Rightarrow> int \<times> 'n) \<Rightarrow> string list \<Rightarrow> bool \<times> 'n" where
  "saml2_init_from_query lib xml_parse init query_fields =
     (case lasso_node_init_from_saml2_query_fields lib query_fields of
        Some (Some text) \<Rightarrow> (True, snd (init (xml_parse text)))
      | _ \<Rightarrow> (False, snd (init None)))"

text \<open>\<open>init_from_query\<close> is the method of the class of the object, such as \<open>saml2_init_from_query\<close>.\<close>

definition lasso_node_init_from_query :: "query_lib \<Rightarrow> (string list \<Rightarrow> bool \<times> 'n) \<Rightarrow> string \<Rightarrow> bool \<times> 'n" where
  "lasso_node_init_from_query lib init_from_query query = init_from_query (lasso_urlencoded_to_strings lib query)"

definition lasso_node_init_from_message_with_format ::
  "query_lib \<Rightarrow> (string \<Rightarrow> xml option) \<Rightarrow> (xml option \<Rightarrow> int \<times> 'n) \<Rightarrow> (string list \<Rightarrow> bool \<times> 'n) \<Rightarrow>
     string \<Rightarrow> message_format \<Rightarrow> message_format \<times> xml option \<times> 'n" where
  "lasso_node_init_from_message_with_format lib xml_parse init init_from_query message constraint =
     (let any = (constraint = LASSO_MESSAGE_FORMAT_UNKNOWN);
          (rc, bytes) = qlb_base64_decode lib message (length message);
          b64 = ((any \<or> constraint = LASSO_MESSAGE_FORMAT_BASE64) \<and> message \<noteq> [] \<and> is_base64 message \<and> rc \<ge> 0);
          msg = (if b64 then text_of bytes else message);
          untouched = snd (init None);
          query = (if (any \<or> constraint = LASSO_MESSAGE_FORMAT_QUERY) \<and> (CHR ''&'' \<in> set msg \<or> CHR ''='' \<in> set msg)
                   then (let (ok, n) = lasso_node_init_from_query lib init_from_query msg
                         in (if ok then LASSO_MESSAGE_FORMAT_QUERY else LASSO_MESSAGE_FORMAT_ERROR, n))
                   else (LASSO_MESSAGE_FORMAT_ERROR, untouched))
      in if (any \<or> constraint \<in> {LASSO_MESSAGE_FORMAT_XML, LASSO_MESSAGE_FORMAT_BASE64, LASSO_MESSAGE_FORMAT_SOAP}) \<and> CHR ''<'' \<in> set msg
         then (case xml_parse msg of
                 None \<Rightarrow> (LASSO_MESSAGE_FORMAT_UNKNOWN, None, untouched)
               | Some root \<Rightarrow>
                   if any \<or> constraint = LASSO_MESSAGE_FORMAT_SOAP
                   then (let is_soap = lasso_xml_is_soap root;
                             content = (if is_soap then lasso_xml_get_soap_content root else Some root);
                             (rc, node) = init content
                         in (if rc \<noteq> 0 then LASSO_MESSAGE_FORMAT_XSCHEMA_ERROR
                             else if is_soap then LASSO_MESSAGE_FORMAT_SOAP
                             else if b64 then LASSO_MESSAGE_FORMAT_BASE64
                             else LASSO_MESSAGE_FORMAT_XML, content, node))
                   else (fst query, Some root, snd query))
         else (fst query, None, snd query))"

section \<open>Laws\<close>

lemma no_format_simps [simp]:
  "no_format LASSO_MESSAGE_FORMAT_XSCHEMA_ERROR" "no_format LASSO_MESSAGE_FORMAT_ERROR" "no_format LASSO_MESSAGE_FORMAT_UNKNOWN"
  "\<not> no_format LASSO_MESSAGE_FORMAT_XML" "\<not> no_format LASSO_MESSAGE_FORMAT_BASE64" "\<not> no_format LASSO_MESSAGE_FORMAT_QUERY"
  "\<not> no_format LASSO_MESSAGE_FORMAT_SOAP"
  by (simp_all add: no_format_def)

lemma soap_body_child: "xml_name body = ''Body'' \<Longrightarrow> xml_ns body = Some LASSO_SOAP_ENV_HREF \<Longrightarrow> xmlFirstElement body = Some n \<Longrightarrow>
    \<exists>rest. body_nodes b body = (if b then [body] else []) @ n # rest"
proof (cases body)
  case (Element name ns props cs)
  assume "xml_name body = ''Body''" "xml_ns body = Some LASSO_SOAP_ENV_HREF" and f: "xmlFirstElement body = Some n"
  then have c: "name = ''Body''" "ns = Some LASSO_SOAP_ENV_HREF" "List.find is_element cs = Some n"
    by (simp_all add: Element xmlFirstElement_def)
  have "\<exists>rest. concat (map (body_nodes True) cs) = n # rest"
    using c(3)
  proof (induction cs)
    case (Cons x xs)
    then show ?case by (cases x) (auto simp: is_element_def)
  qed simp
  then show ?thesis using c by (auto simp: Element)
qed (simp add: xmlFirstElement_def)

text \<open>An envelope without a header: what is verified is what is read.\<close>

theorem soap_verified_is_read:
  assumes "xml_parse msg = Some (Element name ns props (body # rest))" and "is_element body"
    and "lasso_xml_soap11_get_header (Element name ns props (body # rest)) = None"
    and "lasso_xml_get_soap_content (Element name ns props (body # rest)) = Some n"
  shows "message_root lib xml_parse LASSO_MESSAGE_FORMAT_SOAP msg = Some (Some n)"
proof -
  have b: "lasso_xml_is_soap (Element name ns props (body # rest))" "lasso_xml_is_element_node body ''Body'' LASSO_SOAP_ENV_HREF"
    "xmlFirstElement body = Some n"
    using assms(2,3,4)
    by (auto simp: lasso_xml_get_soap_content_def lasso_xml_soap11_get_body_def lasso_xml_next_element_node_def children_of_def Let_def
        split: if_splits bind_splits)
  then have "name = ''Envelope''" by (simp add: lasso_xml_is_soap_def lasso_xml_is_element_node_def)
  moreover obtain r where "body_nodes False body = n # r"
    using soap_body_child[of body n False] b(2,3) by (auto simp: lasso_xml_is_element_node_def)
  ultimately show ?thesis using assms(1) by (simp add: message_root_def first_of_def)
qed

text \<open>An envelope with a second body inside its header.\<close>

definition wrapped_envelope :: "xml \<Rightarrow> xml \<Rightarrow> xml" where
  "wrapped_envelope authentic evil =
     (let soap = (\<lambda>name cs. Element name (Some LASSO_SOAP_ENV_HREF) [] cs)
      in soap ''Envelope'' [soap ''Header'' [soap ''Body'' [authentic]], soap ''Body'' [evil]])"

text \<open>C13: With a header, a body inside the header comes first: the signature of the node there is verified, and the content of the
  body of the envelope, whatever it is, is what is read.\<close>

theorem soap_signature_wrapping:
  assumes "xml_parse msg = Some (wrapped_envelope authentic evil)" and "is_element authentic" and "is_element evil"
  shows "message_root lib xml_parse LASSO_MESSAGE_FORMAT_SOAP msg = Some (Some authentic) \<and>
    lasso_node_new_from_soap xml_parse new_from_xmlNode msg = new_from_xmlNode evil"
proof -
  have "lasso_xml_get_soap_content (wrapped_envelope authentic evil) = Some evil"
    using assms(3)
    by (simp add: wrapped_envelope_def lasso_xml_get_soap_content_def lasso_xml_is_soap_def lasso_xml_is_element_node_def
        lasso_xml_soap11_get_body_def lasso_xml_soap11_get_header_def lasso_xml_next_element_node_def children_of_def Let_def
        is_element_def xmlFirstElement_def split: xml.splits)
  moreover have "\<exists>rest. body_nodes False (wrapped_envelope authentic evil) = authentic # rest"
    using assms(2) by (cases authentic) (auto simp: wrapped_envelope_def is_element_def Let_def)
  ultimately show ?thesis using assms(1) by (auto simp: message_root_def lasso_node_new_from_soap_def first_of_def)
qed

theorem soap_signature_wrapping_witness:
  "message_root sample_lib (\<lambda>_. Some (wrapped_envelope (Element ''a'' None [] []) (Element ''b'' None [] []))) LASSO_MESSAGE_FORMAT_SOAP ''m'' =
     Some (Some (Element ''a'' None [] [])) \<and>
   lasso_node_new_from_soap (\<lambda>_. Some (wrapped_envelope (Element ''a'' None [] []) (Element ''b'' None [] []))) Some ''m'' =
     Some (Element ''b'' None [] [])"
  using soap_signature_wrapping[of "\<lambda>_. Some (wrapped_envelope (Element ''a'' None [] []) (Element ''b'' None [] []))" "''m''"
      "Element ''a'' None [] []" "Element ''b'' None [] []" sample_lib Some]
  by (simp add: is_element_def)

text \<open>A message that must be base64 or plain XML is never accepted: only SOAP is handled when a format is required.\<close>

theorem required_format_refused:
  assumes "constraint = LASSO_MESSAGE_FORMAT_XML \<or> constraint = LASSO_MESSAGE_FORMAT_BASE64"
  shows "no_format (fst (lasso_node_init_from_message_with_format lib xml_parse init init_from_query message constraint))"
proof -
  have "constraint \<noteq> LASSO_MESSAGE_FORMAT_UNKNOWN" "constraint \<noteq> LASSO_MESSAGE_FORMAT_SOAP" "constraint \<noteq> LASSO_MESSAGE_FORMAT_QUERY"
    using assms by auto
  then show ?thesis
    by (simp add: lasso_node_init_from_message_with_format_def no_format_def Let_def split: option.split prod.split)
qed

text \<open>The redirect binding from end to end, as far as the format of the message.\<close>

lemma query_not_base64: "CHR ''&'' \<in> set s \<Longrightarrow> \<not> is_base64 s"
  using base64_chars[of s "CHR ''&''"] by (auto simp: is_alnum_def)

lemma class_query_format:
  assumes "CHR ''&'' \<in> set s" and "CHR ''<'' \<notin> set s"
  shows "lasso_node_init_from_message_with_format lib xml_parse init init_from_query s LASSO_MESSAGE_FORMAT_UNKNOWN =
    (let (ok, n) = init_from_query (lasso_urlencoded_to_strings lib s)
     in (if ok then LASSO_MESSAGE_FORMAT_QUERY else LASSO_MESSAGE_FORMAT_ERROR, None, n))"
  using assms query_not_base64[OF assms(1)]
  by (simp add: lasso_node_init_from_message_with_format_def lasso_node_init_from_query_def Let_def split: prod.split)

lemma query_format:
  assumes "CHR ''&'' \<in> set s" and "CHR ''<'' \<notin> set s"
    and "lasso_node_init_from_saml2_query_fields lib (lasso_urlencoded_to_strings lib s) = Some (Some txt)"
  shows "lasso_node_init_from_message_with_format lib xml_parse init (saml2_init_from_query lib xml_parse init) s
      LASSO_MESSAGE_FORMAT_UNKNOWN = (LASSO_MESSAGE_FORMAT_QUERY, None, snd (init (xml_parse txt)))"
  using class_query_format[OF assms(1,2), where init_from_query = "saml2_init_from_query lib xml_parse init"] assms(3)
  by (simp add: saml2_init_from_query_def)

lemma base64_format:
  assumes "qlb_base64_decode lib s (length s) = (rc, bytes)" and "0 \<le> rc" and "is_base64 s" and "s \<noteq> []"
    and "CHR ''<'' \<in> set (text_of bytes)" and "xml_parse (text_of bytes) = Some root" and "\<not> lasso_xml_is_soap root"
    and "init (Some root) = (0, n)"
  shows "lasso_node_init_from_message_with_format lib xml_parse init init_from_query s LASSO_MESSAGE_FORMAT_UNKNOWN =
    (LASSO_MESSAGE_FORMAT_BASE64, Some root, n)"
  using assms by (simp add: lasso_node_init_from_message_with_format_def Let_def)

end
