(* ===== verification/Lasso_Provider.thy ===== *)
theory Lasso_Provider
  imports Lasso_Soap "HOL-Library.Multiset"
begin

text \<open>
  Providers, \<^verbatim>\<open>lasso/id-ff/provider.c\<close> and \<^verbatim>\<open>lasso/saml-2.0/provider.c\<close>: the metadata of a peer, its
  endpoints and keys, and the verification of signatures with those keys
  (\<^verbatim>\<open>lasso_verify_signature\<close> of \<^verbatim>\<open>lasso/xml/tools.c\<close>).  The cryptography itself is xmlsec's and is a
  parameter.
\<close>

section \<open>Enumerations\<close>

abbreviation (input) LASSO_HTTP_METHOD_NONE :: int where "LASSO_HTTP_METHOD_NONE \<equiv> -1"
abbreviation (input) LASSO_HTTP_METHOD_ANY :: int where "LASSO_HTTP_METHOD_ANY \<equiv> 0"
abbreviation (input) LASSO_HTTP_METHOD_IDP_INITIATED :: int where "LASSO_HTTP_METHOD_IDP_INITIATED \<equiv> 1"
abbreviation (input) LASSO_HTTP_METHOD_GET :: int where "LASSO_HTTP_METHOD_GET \<equiv> 2"
abbreviation (input) LASSO_HTTP_METHOD_POST :: int where "LASSO_HTTP_METHOD_POST \<equiv> 3"
abbreviation (input) LASSO_HTTP_METHOD_REDIRECT :: int where "LASSO_HTTP_METHOD_REDIRECT \<equiv> 4"
abbreviation (input) LASSO_HTTP_METHOD_SOAP :: int where "LASSO_HTTP_METHOD_SOAP \<equiv> 5"
abbreviation (input) LASSO_HTTP_METHOD_ARTIFACT_GET :: int where "LASSO_HTTP_METHOD_ARTIFACT_GET \<equiv> 6"
abbreviation (input) LASSO_HTTP_METHOD_ARTIFACT_POST :: int where "LASSO_HTTP_METHOD_ARTIFACT_POST \<equiv> 7"
abbreviation (input) LASSO_HTTP_METHOD_PAOS :: int where "LASSO_HTTP_METHOD_PAOS \<equiv> 8"

abbreviation (input) LASSO_PROVIDER_ROLE_ANY :: int where "LASSO_PROVIDER_ROLE_ANY \<equiv> -1"
abbreviation (input) LASSO_PROVIDER_ROLE_NONE :: int where "LASSO_PROVIDER_ROLE_NONE \<equiv> 0"
abbreviation (input) LASSO_PROVIDER_ROLE_SP :: int where "LASSO_PROVIDER_ROLE_SP \<equiv> 1"
abbreviation (input) LASSO_PROVIDER_ROLE_IDP :: int where "LASSO_PROVIDER_ROLE_IDP \<equiv> 2"
abbreviation (input) LASSO_PROVIDER_ROLE_AUTHN_AUTHORITY :: int where "LASSO_PROVIDER_ROLE_AUTHN_AUTHORITY \<equiv> 4"
abbreviation (input) LASSO_PROVIDER_ROLE_AUTHZ_AUTHORITY :: int where "LASSO_PROVIDER_ROLE_AUTHZ_AUTHORITY \<equiv> 8"
abbreviation (input) LASSO_PROVIDER_ROLE_ATTRIBUTE_AUTHORITY :: int where "LASSO_PROVIDER_ROLE_ATTRIBUTE_AUTHORITY \<equiv> 16"

abbreviation (input) LASSO_PROTOCOL_NONE :: int where "LASSO_PROTOCOL_NONE \<equiv> -1"
abbreviation (input) LASSO_PROTOCOL_LIBERTY_1_0 :: int where "LASSO_PROTOCOL_LIBERTY_1_0 \<equiv> 0"
abbreviation (input) LASSO_PROTOCOL_LIBERTY_1_1 :: int where "LASSO_PROTOCOL_LIBERTY_1_1 \<equiv> 1"
abbreviation (input) LASSO_PROTOCOL_LIBERTY_1_2 :: int where "LASSO_PROTOCOL_LIBERTY_1_2 \<equiv> 2"
abbreviation (input) LASSO_PROTOCOL_SAML_2_0 :: int where "LASSO_PROTOCOL_SAML_2_0 \<equiv> 3"

datatype md_protocol_type =
    FEDERATION_TERMINATION | NAME_IDENTIFIER_MAPPING | REGISTER_NAME_IDENTIFIER | SINGLE_LOGOUT
  | SINGLE_SIGN_ON | ARTIFACT_RESOLUTION | MANAGE_NAME_ID | ASSERTION_ID_REQUEST | AUTHN_QUERY
  | AUTHZ_SERVICE | ATTRIBUTE_SERVICE

definition profile_names :: "md_protocol_type \<Rightarrow> string" where
  "profile_names p =
     (case p of
        FEDERATION_TERMINATION \<Rightarrow> []
      | NAME_IDENTIFIER_MAPPING \<Rightarrow> ''NameIDMappingService''
      | REGISTER_NAME_IDENTIFIER \<Rightarrow> []
      | SINGLE_LOGOUT \<Rightarrow> ''SingleLogoutService''
      | SINGLE_SIGN_ON \<Rightarrow> ''SingleSignOnService''
      | ARTIFACT_RESOLUTION \<Rightarrow> ''ArtifactResolutionService''
      | MANAGE_NAME_ID \<Rightarrow> ''ManageNameIDService''
      | ASSERTION_ID_REQUEST \<Rightarrow> ''AssertionIDRequestService''
      | AUTHN_QUERY \<Rightarrow> ''AuthnQueryService''
      | AUTHZ_SERVICE \<Rightarrow> ''AuthzService''
      | ATTRIBUTE_SERVICE \<Rightarrow> ''AttributeService'')"

datatype http_method_kind_t = SYNC_NOT_APPLICABLE | SYNCHRONOUS | ASYNCHRONOUS

definition http_method_kind :: "int \<Rightarrow> http_method_kind_t" where
  "http_method_kind m =
     (if m = LASSO_HTTP_METHOD_SOAP then ASYNCHRONOUS
      else if m = LASSO_HTTP_METHOD_GET \<or> m = LASSO_HTTP_METHOD_POST \<or> m = LASSO_HTTP_METHOD_REDIRECT \<or>
              m = LASSO_HTTP_METHOD_ARTIFACT_GET \<or> m = LASSO_HTTP_METHOD_ARTIFACT_POST then SYNCHRONOUS
      else SYNC_NOT_APPLICABLE)"

definition binding_uri_to_identifier :: "string \<Rightarrow> cstr" where
  "binding_uri_to_identifier uri =
     (if uri = LASSO_SAML2_METADATA_BINDING_SOAP then Some ''SOAP''
      else if uri = LASSO_SAML2_METADATA_BINDING_REDIRECT then Some ''HTTP-Redirect''
      else if uri = LASSO_SAML2_METADATA_BINDING_POST then Some ''HTTP-POST''
      else if uri = LASSO_SAML2_METADATA_BINDING_ARTIFACT then Some ''HTTP-Artifact''
      else if uri = LASSO_SAML2_METADATA_BINDING_PAOS then Some ''PAOS''
      else if uri = LASSO_SAML2_METADATA_BINDING_URI then Some ''URI''
      else None)"

definition binding_uri_to_http_method :: "string \<Rightarrow> int" where
  "binding_uri_to_http_method uri =
     (if uri = LASSO_SAML2_METADATA_BINDING_SOAP then LASSO_HTTP_METHOD_SOAP
      else if uri = LASSO_SAML2_METADATA_BINDING_REDIRECT then LASSO_HTTP_METHOD_REDIRECT
      else if uri = LASSO_SAML2_METADATA_BINDING_POST then LASSO_HTTP_METHOD_POST
      else if uri = LASSO_SAML2_METADATA_BINDING_ARTIFACT then LASSO_HTTP_METHOD_ARTIFACT_GET
      else if uri = LASSO_SAML2_METADATA_BINDING_PAOS then LASSO_HTTP_METHOD_PAOS
      else LASSO_HTTP_METHOD_NONE)"

section \<open>State\<close>

record endpoint_type =
  ep_role :: int
  ep_kind :: string
  ep_binding :: string
  ep_url :: string
  ep_return_url :: cstr
  ep_index :: int
  ep_is_default :: int

text \<open>A key is its identity; \<^verbatim>\<open>encryption_mode\<close> and the symmetric key type keep their integer values.\<close>

record lasso_provider =
  prv_role :: int
  prv_ProviderID :: cstr
  prv_metadata_filename :: cstr
  prv_public_key :: cstr
  prv_ca_cert_chain :: cstr
  prv_roles :: int
  prv_conformance :: int
  prv_Descriptors :: "(string, string list) ghash"
  prv_attributes :: "xml list"
  prv_default_assertion_consumer :: cstr
  prv_organization :: "xml option"
  prv_affiliation_owner_id :: cstr
  prv_affiliation_id :: cstr
  prv_signing_public_keys :: "string list"
  prv_signing_key_descriptors :: "xml list"
  prv_encryption_key_descriptor :: "xml option"
  prv_encryption_public_keys :: "string list"
  prv_encryption_mode :: int
  prv_encryption_sym_key_type :: int
  prv_valid_until :: cstr
  prv_cache_duration :: cstr
  prv_endpoints :: "endpoint_type list"
  prv_signature_context :: "signature_context option"

definition provider_instance_init :: lasso_provider where
  "provider_instance_init = \<lparr>prv_role = LASSO_PROVIDER_ROLE_NONE, prv_ProviderID = None,
     prv_metadata_filename = None, prv_public_key = None, prv_ca_cert_chain = None, prv_roles = 0,
     prv_conformance = 0, prv_Descriptors = [], prv_attributes = [], prv_default_assertion_consumer = None,
     prv_organization = None, prv_affiliation_owner_id = None, prv_affiliation_id = None,
     prv_signing_public_keys = [], prv_signing_key_descriptors = [], prv_encryption_key_descriptor = None,
     prv_encryption_public_keys = [], prv_encryption_mode = 0, prv_encryption_sym_key_type = 2,
     prv_valid_until = None, prv_cache_duration = None, prv_endpoints = [], prv_signature_context = None\<rparr>"

section \<open>Metadata values\<close>

definition lasso_provider_get_role_index :: "int \<Rightarrow> int" where
  "lasso_provider_get_role_index role =
     (if role = LASSO_PROVIDER_ROLE_IDP then 1
      else if role = LASSO_PROVIDER_ROLE_SP then 2
      else if role = LASSO_PROVIDER_ROLE_AUTHN_AUTHORITY then 3
      else if role = LASSO_PROVIDER_ROLE_AUTHZ_AUTHORITY then 4
      else if role = LASSO_PROVIDER_ROLE_ATTRIBUTE_AUTHORITY then 5
      else 0)"

definition role_to_prefix :: "int \<Rightarrow> cstr" where
  "role_to_prefix role =
     map_of [(1, ''idp''), (2, ''sp''), (3, ''authn-authority''), (4, ''pdp''), (5, ''attribute-authority'')]
       (lasso_provider_get_role_index role)"

definition lasso_provider_get_metadata_list_for_role :: "lasso_provider \<Rightarrow> int \<Rightarrow> string \<Rightarrow> string list" where
  "lasso_provider_get_metadata_list_for_role p role name =
     (case role_to_prefix role of
        None \<Rightarrow> []
      | Some pfx \<Rightarrow>
          (case ght_lookup (prv_Descriptors p) (pfx @ '' '' @ name) of None \<Rightarrow> [] | Some l \<Rightarrow> l))"

text \<open>Appending to a list that is there changes it in place; the first value of a key inserts it.\<close>

definition lasso_provider_add_metadata_value_for_role ::
  "lasso_provider \<Rightarrow> int \<Rightarrow> string \<Rightarrow> string \<Rightarrow> lasso_provider" where
  "lasso_provider_add_metadata_value_for_role p role name v =
     (case role_to_prefix role of
        None \<Rightarrow> p
      | Some pfx \<Rightarrow>
          p\<lparr>prv_Descriptors := ght_insert (pfx @ '' '' @ name)
              (lasso_provider_get_metadata_list_for_role p role name @ [v]) (prv_Descriptors p)\<rparr>)"

definition lasso_provider_get_metadata_one_for_role :: "lasso_provider \<Rightarrow> int \<Rightarrow> string \<Rightarrow> cstr" where
  "lasso_provider_get_metadata_one_for_role p role name =
     (case lasso_provider_get_metadata_list_for_role p role name of [] \<Rightarrow> None | v # _ \<Rightarrow> Some v)"

definition lasso_provider_get_metadata_one :: "lasso_provider \<Rightarrow> string \<Rightarrow> cstr" where
  "lasso_provider_get_metadata_one p name = lasso_provider_get_metadata_one_for_role p (prv_role p) name"

definition lasso_provider_get_metadata_list :: "lasso_provider \<Rightarrow> string \<Rightarrow> string list" where
  "lasso_provider_get_metadata_list p name = lasso_provider_get_metadata_list_for_role p (prv_role p) name"

definition lasso_provider_get_metadata_keys_for_role :: "lasso_provider \<Rightarrow> int \<Rightarrow> string list" where
  "lasso_provider_get_metadata_keys_for_role p role =
     (if \<not> (role > LASSO_PROVIDER_ROLE_NONE \<and> role < 17) then []
      else case role_to_prefix role of
             None \<Rightarrow> []
           | Some pfx \<Rightarrow>
               List.map_filter
                 (\<lambda>key. if take (length pfx + 1) key = pfx @ '' '' then Some (drop (length pfx + 1) key)
                         else None)
                 (ght_keys (prv_Descriptors p)))"

definition lasso_provider_get_default_name_id_format :: "lasso_provider \<Rightarrow> cstr" where
  "lasso_provider_get_default_name_id_format p = lasso_provider_get_metadata_one p ''NameIDFormat''"

definition lasso_provider_get_sp_name_qualifier :: "lasso_provider \<Rightarrow> cstr" where
  "lasso_provider_get_sp_name_qualifier p =
     (case prv_affiliation_id p of Some a \<Rightarrow> Some a | None \<Rightarrow> prv_ProviderID p)"

definition lasso_provider_match_conformance :: "lasso_provider \<Rightarrow> lasso_provider \<Rightarrow> bool" where
  "lasso_provider_match_conformance p q = (prv_conformance p AND prv_conformance q \<noteq> 0)"

section \<open>Endpoints\<close>

text \<open>\<^verbatim>\<open>strcmp\<close> up to the magnitude of its result.\<close>

fun strcmp :: "string \<Rightarrow> string \<Rightarrow> int" where
  "strcmp [] [] = 0"
| "strcmp [] (y # ys) = -1"
| "strcmp (x # xs) [] = 1"
| "strcmp (x # xs) (y # ys) =
     (if (of_char x :: nat) < of_char y then -1
      else if (of_char y :: nat) < of_char x then 1
      else strcmp xs ys)"

definition compare_endpoint_type :: "endpoint_type \<Rightarrow> endpoint_type \<Rightarrow> int" where
  "compare_endpoint_type a b =
     (if ep_role a < ep_role b then -1
      else if ep_role a > ep_role b then 1
      else let c = strcmp (ep_kind a) (ep_kind b) in
           if c \<noteq> 0 then c
           else if ep_is_default a < ep_is_default b then -1
           else if ep_is_default a > ep_is_default b then 1
           else if ep_index a < ep_index b then -1
           else if ep_index a > ep_index b then 1
           else 0)"

text \<open>\<^verbatim>\<open>g_list_sort\<close> is a stable sort.\<close>

fun endpoint_insert :: "endpoint_type \<Rightarrow> endpoint_type list \<Rightarrow> endpoint_type list" where
  "endpoint_insert x [] = [x]"
| "endpoint_insert x (y # ys) =
     (if compare_endpoint_type x y \<le> 0 then x # y # ys else y # endpoint_insert x ys)"

definition endpoint_sort :: "endpoint_type list \<Rightarrow> endpoint_type list" where
  "endpoint_sort xs = foldr endpoint_insert xs []"

definition has_synchronous_methods :: "lasso_provider \<Rightarrow> md_protocol_type \<Rightarrow> bool \<Rightarrow> bool" where
  "has_synchronous_methods p protocol_type for_response =
     (let kind = (if for_response \<and> protocol_type = SINGLE_SIGN_ON
                  then LASSO_SAML2_METADATA_ELEMENT_ASSERTION_CONSUMER_SERVICE
                  else profile_names protocol_type)
      in list_ex (\<lambda>e. ep_kind e = kind \<and>
                      http_method_kind (binding_uri_to_http_method (ep_binding e)) = SYNCHRONOUS)
           (prv_endpoints p))"

fun first_http_method_loop :: "bool \<Rightarrow> string \<Rightarrow> int \<Rightarrow> endpoint_type list \<Rightarrow> int" where
  "first_http_method_loop sync_ok kind result [] = result"
| "first_http_method_loop sync_ok kind result (e # es) =
     (if ep_kind e = kind then
        (let result = binding_uri_to_http_method (ep_binding e) in
         if http_method_kind result = SYNCHRONOUS \<and> \<not> sync_ok
         then first_http_method_loop sync_ok kind result es
         else if result \<noteq> LASSO_HTTP_METHOD_NONE then result
         else first_http_method_loop sync_ok kind result es)
      else first_http_method_loop sync_ok kind result es)"

definition lasso_saml20_provider_get_first_http_method ::
  "lasso_provider \<Rightarrow> lasso_provider \<Rightarrow> md_protocol_type \<Rightarrow> int" where
  "lasso_saml20_provider_get_first_http_method p remote protocol_type =
     first_http_method_loop (has_synchronous_methods p protocol_type True) (profile_names protocol_type)
       LASSO_HTTP_METHOD_NONE (prv_endpoints remote)"

definition lasso_saml20_provider_accept_http_method ::
  "lasso_provider \<Rightarrow> lasso_provider \<Rightarrow> md_protocol_type \<Rightarrow> int \<Rightarrow> bool \<Rightarrow> bool" where
  "lasso_saml20_provider_accept_http_method p remote protocol_type http_method initiate_profile =
     list_ex (\<lambda>e. ep_role e = prv_role remote \<and> ep_kind e = profile_names protocol_type \<and>
                  binding_uri_to_http_method (ep_binding e) = http_method)
       (prv_endpoints remote)"

definition lasso_saml20_provider_check_assertion_consumer_service_url ::
  "lasso_provider \<Rightarrow> cstr \<Rightarrow> cstr \<Rightarrow> bool" where
  "lasso_saml20_provider_check_assertion_consumer_service_url p url binding =
     list_ex (\<lambda>e. ep_role e = LASSO_PROVIDER_ROLE_SP \<and> lasso_strisequal (Some (ep_url e)) url \<and>
                  lasso_strisequal (Some (ep_binding e)) binding)
       (prv_endpoints p)"

definition supported_assertion_consumer_bindings :: "string list" where
  "supported_assertion_consumer_bindings =
     [LASSO_SAML2_METADATA_BINDING_POST, LASSO_SAML2_METADATA_BINDING_ARTIFACT]"

definition is_acs :: "endpoint_type \<Rightarrow> bool" where
  "is_acs e \<longleftrightarrow> ep_role e = LASSO_PROVIDER_ROLE_SP \<and>
     ep_kind e = LASSO_SAML2_METADATA_ELEMENT_ASSERTION_CONSUMER_SERVICE"

definition lasso_saml20_provider_get_assertion_consumer_service ::
  "lasso_provider \<Rightarrow> int \<Rightarrow> endpoint_type option" where
  "lasso_saml20_provider_get_assertion_consumer_service p service_id =
     (if service_id \<noteq> -1
      then List.find (\<lambda>e. is_acs e \<and> ep_index e = service_id) (prv_endpoints p)
      else List.find (\<lambda>e. is_acs e \<and> ep_binding e \<in> set supported_assertion_consumer_bindings) (prv_endpoints p))"

definition lasso_saml20_provider_get_assertion_consumer_service_url :: "lasso_provider \<Rightarrow> int \<Rightarrow> cstr" where
  "lasso_saml20_provider_get_assertion_consumer_service_url p service_id =
     map_option ep_url (lasso_saml20_provider_get_assertion_consumer_service p service_id)"

definition lasso_saml20_provider_get_assertion_consumer_service_binding :: "lasso_provider \<Rightarrow> int \<Rightarrow> cstr" where
  "lasso_saml20_provider_get_assertion_consumer_service_binding p service_id =
     (case lasso_saml20_provider_get_assertion_consumer_service p service_id of
        None \<Rightarrow> None
      | Some e \<Rightarrow> binding_uri_to_identifier (ep_binding e))"

definition lasso_saml20_provider_get_assertion_consumer_service_binding_by_url ::
  "lasso_provider \<Rightarrow> cstr \<Rightarrow> cstr" where
  "lasso_saml20_provider_get_assertion_consumer_service_binding_by_url p url =
     map_option ep_binding
       (List.find (\<lambda>e. is_acs e \<and> lasso_strisequal (Some (ep_url e)) url) (prv_endpoints p))"

definition lasso_saml20_provider_get_assertion_consumer_service_url_by_binding ::
  "lasso_provider \<Rightarrow> cstr \<Rightarrow> cstr" where
  "lasso_saml20_provider_get_assertion_consumer_service_url_by_binding p binding =
     map_option ep_url
       (List.find (\<lambda>e. is_acs e \<and> lasso_strisequal (Some (ep_binding e)) binding) (prv_endpoints p))"

text \<open>The loop variable keeps an endpoint that was skipped for its role or kind; it is reset only when
  role and kind matched and the index or the binding did not.\<close>

fun endpoint_url_loop ::
  "int \<Rightarrow> string \<Rightarrow> string list \<Rightarrow> bool \<Rightarrow> int \<Rightarrow> endpoint_type option \<Rightarrow> endpoint_type list \<Rightarrow> endpoint_type option" where
  "endpoint_url_loop role kind bindings is_default idx current [] = current"
| "endpoint_url_loop role kind bindings is_default idx current (e # es) =
     (if ep_role e \<noteq> role \<and> role \<noteq> LASSO_PROVIDER_ROLE_ANY \<and> role \<noteq> LASSO_PROVIDER_ROLE_NONE
      then endpoint_url_loop role kind bindings is_default idx (Some e) es
      else if ep_kind e \<noteq> kind then endpoint_url_loop role kind bindings is_default idx (Some e) es
      else if is_default then Some e
      else if idx \<ge> 0 then
        (if ep_index e = idx then Some e else endpoint_url_loop role kind bindings is_default idx None es)
      else if bindings = [] \<or> ep_binding e \<in> set bindings then Some e
      else endpoint_url_loop role kind bindings is_default idx None es)"

definition lasso_saml20_provider_get_endpoint_url ::
  "lasso_provider \<Rightarrow> int \<Rightarrow> cstr \<Rightarrow> string list \<Rightarrow> bool \<Rightarrow> bool \<Rightarrow> int \<Rightarrow> cstr" where
  "lasso_saml20_provider_get_endpoint_url p role kind bindings is_response is_default idx =
     (case kind of
        None \<Rightarrow> None
      | Some k \<Rightarrow>
          (case endpoint_url_loop role k bindings is_default idx None (prv_endpoints p) of
             None \<Rightarrow> None
           | Some e \<Rightarrow>
               (case ep_return_url e of
                  Some r \<Rightarrow> if is_response then Some r else Some (ep_url e)
                | None \<Rightarrow> Some (ep_url e))))"

text \<open>The index goes into an \<^verbatim>\<open>unsigned short\<close>.\<close>

definition lasso_saml20_provider_get_artifact_resolution_service_index :: "lasso_provider \<Rightarrow> int \<times> int option" where
  "lasso_saml20_provider_get_artifact_resolution_service_index p =
     (case List.find
        (\<lambda>e. (ep_role e = prv_role p \<or> prv_role p = LASSO_PROVIDER_ROLE_NONE \<or> prv_role p = LASSO_PROVIDER_ROLE_ANY) \<and>
             ep_kind e = LASSO_SAML2_METADATA_ELEMENT_ARTIFACT_RESOLUTION_SERVICE)
        (prv_endpoints p) of
        None \<Rightarrow> (-1, None)
      | Some e \<Rightarrow> (0, Some (ep_index e mod 65536)))"

section \<open>Loading SAML 2.0 metadata\<close>

definition checkSaml2MdNode :: "xml \<Rightarrow> string \<Rightarrow> bool" where
  "checkSaml2MdNode t name \<longleftrightarrow> is_element t \<and> xml_name t = name \<and> xml_ns t = Some LASSO_SAML2_METADATA_HREF"

definition xsdIsTrue :: "cstr \<Rightarrow> bool" where "xsdIsTrue v \<longleftrightarrow> v = Some ''true''"

definition xsdIsFalse :: "cstr \<Rightarrow> bool" where "xsdIsFalse v \<longleftrightarrow> v = Some ''false''"

text \<open>The \<^verbatim>\<open>long\<close> that \<^verbatim>\<open>strtol\<close> returns, clamped to its range, is stored in an \<^verbatim>\<open>int\<close> of 32 bits.\<close>

definition long_to_int :: "int \<Rightarrow> int" where
  "long_to_int v = (let c = max (- (2 ^ 63)) (min (2 ^ 63 - 1) v) in (c + 2 ^ 31) mod 2 ^ 32 - 2 ^ 31)"

definition xsdUnsignedShortParse :: "string \<Rightarrow> int option" where
  "xsdUnsignedShortParse v =
     (let l = long_to_int (strtol10 v);
          erange = (strtol10 v < - (2 ^ 63) \<or> strtol10 v > 2 ^ 63 - 1)
      in if ((l = - (2 ^ 31) \<or> l = 2 ^ 31 - 1) \<and> erange) \<or> l < 0 \<or> l \<ge> 65535 then None else Some l)"

text \<open>\<^verbatim>\<open>*counter++\<close> advances the pointer and not the counter: the index of an endpoint that is not
  indexed is the counter's initial value 0.\<close>

definition load_endpoint_type2 :: "xml \<Rightarrow> int \<Rightarrow> lasso_provider \<Rightarrow> lasso_provider" where
  "load_endpoint_type2 t role p =
     (case (xmlGetProp t ''Binding'', xmlGetProp t ''Location'') of
        (Some binding, Some location) \<Rightarrow>
          (let indexed = checkSaml2MdNode t LASSO_SAML2_METADATA_ELEMENT_ASSERTION_CONSUMER_SERVICE \<or>
                         checkSaml2MdNode t LASSO_SAML2_METADATA_ELEMENT_ARTIFACT_RESOLUTION_SERVICE;
               idx = (if indexed then Option.bind (xmlGetProp t ''index'') xsdUnsignedShortParse else Some 0);
               is_default = (if \<not> indexed then 0
                             else if xsdIsTrue (xmlGetProp t ''isDefault'') then -1
                             else if xsdIsFalse (xmlGetProp t ''isDefault'') then 1 else 0)
           in case idx of
                None \<Rightarrow> p
              | Some i \<Rightarrow>
                  p\<lparr>prv_endpoints := prv_endpoints p @
                      [\<lparr>ep_role = role, ep_kind = xml_name t, ep_binding = binding, ep_url = location,
                        ep_return_url = xmlGetProp t ''ResponseLocation'', ep_index = i,
                        ep_is_default = is_default\<rparr>]\<rparr>)
      | _ \<Rightarrow> p)"

definition printf_string :: "cstr \<Rightarrow> string" where
  "printf_string v = (case v of None \<Rightarrow> ''(null)'' | Some x \<Rightarrow> x)"

definition load_endpoint_type :: "xml \<Rightarrow> int \<Rightarrow> lasso_provider \<Rightarrow> lasso_provider" where
  "load_endpoint_type t role p =
     (case Option.bind (xmlGetProp t ''Binding'') binding_uri_to_identifier of
        None \<Rightarrow> p
      | Some binding_s \<Rightarrow>
          (case xmlGetProp t ''Location'' of
             None \<Rightarrow> p
           | Some v \<Rightarrow>
               (let acs = checkSaml2MdNode t LASSO_SAML2_METADATA_ELEMENT_ASSERTION_CONSUMER_SERVICE;
                    index = xmlGetProp t ''index'';
                    p = (if acs \<and> xsdIsTrue (xmlGetProp t ''isDefault'') \<and> prv_default_assertion_consumer p = None
                         then p\<lparr>prv_default_assertion_consumer := index\<rparr> else p);
                    name = (if acs
                            then LASSO_SAML2_METADATA_ELEMENT_ASSERTION_CONSUMER_SERVICE @ '' '' @ binding_s @ '' '' @ printf_string index
                            else xml_name t @ '' '' @ binding_s);
                    p = (case xmlGetProp t ''ResponseLocation'' of
                           None \<Rightarrow> p
                         | Some r \<Rightarrow> lasso_provider_add_metadata_value_for_role p role (name @ '' ResponseLocation'') r)
                in lasso_provider_add_metadata_value_for_role p role name v)))"

definition is_acs_node :: "xml \<Rightarrow> bool" where
  "is_acs_node t = checkSaml2MdNode t LASSO_SAML2_METADATA_ELEMENT_ASSERTION_CONSUMER_SERVICE"

definition load_default_assertion_consumer :: "xml \<Rightarrow> lasso_provider \<Rightarrow> bool \<times> lasso_provider" where
  "load_default_assertion_consumer descriptor p =
     (if prv_default_assertion_consumer p \<noteq> None then (True, p)
      else case List.find (\<lambda>t. is_acs_node t \<and> \<not> xsdIsFalse (xmlGetProp t ''isDefault'') \<and> xmlGetProp t ''index'' \<noteq> None)
                  (xml_children descriptor) of
             Some t \<Rightarrow> (True, p\<lparr>prv_default_assertion_consumer := xmlGetProp t ''index''\<rparr>)
           | None \<Rightarrow>
               (case List.find is_acs_node (xml_children descriptor) of
                  None \<Rightarrow> (False, p)
                | Some t \<Rightarrow>
                    (case xmlGetProp t ''index'' of
                       None \<Rightarrow> (False, p)
                     | Some i \<Rightarrow> (True, p\<lparr>prv_default_assertion_consumer := Some i\<rparr>))))"

definition lasso_provider_load_key_descriptor :: "xml \<Rightarrow> lasso_provider \<Rightarrow> lasso_provider" where
  "lasso_provider_load_key_descriptor t p =
     (let usage = xmlGetProp t ''use'';
          p = (if usage = None \<or> lasso_strisequal usage (Some ''signing'')
               then p\<lparr>prv_signing_key_descriptors := prv_signing_key_descriptors p @ [t]\<rparr> else p)
      in if usage = None \<or> usage = Some ''encryption'' then p\<lparr>prv_encryption_key_descriptor := Some t\<rparr> else p)"

fun strtok_spaces :: "string \<Rightarrow> string \<Rightarrow> string list" where
  "strtok_spaces acc [] = (if acc = [] then [] else [acc])"
| "strtok_spaces acc (c # cs) =
     (if c = CHR '' '' then (if acc = [] then strtok_spaces [] cs else acc # strtok_spaces [] cs)
      else strtok_spaces (acc @ [c]) cs)"

definition load_descriptor_child :: "int \<Rightarrow> xml \<Rightarrow> lasso_provider \<Rightarrow> lasso_provider" where
  "load_descriptor_child role t p =
     (if \<not> is_element t then p
      else if checkSaml2MdNode t LASSO_SAML2_METADATA_ELEMENT_KEY_DESCRIPTOR then lasso_provider_load_key_descriptor t p
      else if checkSaml2MdNode t ''Attribute'' \<and> role = LASSO_PROVIDER_ROLE_IDP
        then p\<lparr>prv_attributes := prv_attributes p @ [t]\<rparr>
      else if xmlGetProp t ''Binding'' \<noteq> None then load_endpoint_type2 t role (load_endpoint_type t role p)
      else lasso_provider_add_metadata_value_for_role p role (xml_name t) (xmlNodeGetContent t))"

definition descriptor_attrs :: "string list" where
  "descriptor_attrs = [''validUntil'', ''cacheDuration'', ''AuthnRequestsSigned'', ''WantAuthnRequestsSigned'', ''errorURL'']"

definition load_descriptor :: "xml \<Rightarrow> int \<Rightarrow> lasso_provider \<Rightarrow> bool \<times> lasso_provider" where
  "load_descriptor d role p =
     (let tokens = (case xmlGetProp d ''protocolSupportEnumeration'' of None \<Rightarrow> [] | Some v \<Rightarrow> strtok_spaces [] v) in
      if LASSO_SAML2_PROTOCOL_HREF \<notin> set tokens then (False, p)
      else let p = p\<lparr>prv_roles := prv_roles p OR role\<rparr>;
               p = fold (load_descriptor_child role) (xml_children d) p;
               p = p\<lparr>prv_endpoints := endpoint_sort (prv_endpoints p)\<rparr>;
               p = fold (\<lambda>a p. case xmlGetProp d a of
                                 None \<Rightarrow> p
                               | Some v \<Rightarrow> lasso_provider_add_metadata_value_for_role p role a v)
                     descriptor_attrs p;
               (ok, p) = load_default_assertion_consumer d p
           in if \<not> ok \<and> role = LASSO_PROVIDER_ROLE_SP then (False, p) else (True, p))"

definition descriptors :: "(string \<times> int) list" where
  "descriptors =
     [(LASSO_SAML2_METADATA_ELEMENT_IDP_SSO_DESCRIPTOR, LASSO_PROVIDER_ROLE_IDP),
      (LASSO_SAML2_METADATA_ELEMENT_SP_SSO_DESCRIPTOR, LASSO_PROVIDER_ROLE_SP),
      (LASSO_SAML2_METADATA_ELEMENT_ATTRIBUTE_AUTHORITY_DESCRIPTOR, LASSO_PROVIDER_ROLE_ATTRIBUTE_AUTHORITY),
      (LASSO_SAML2_METADATA_ELEMENT_PDP_DESCRIPTOR, LASSO_PROVIDER_ROLE_AUTHZ_AUTHORITY),
      (LASSO_SAML2_METADATA_ELEMENT_AUTHN_DESCRIPTOR, LASSO_PROVIDER_ROLE_AUTHN_AUTHORITY)]"

definition load_entity_child :: "xml \<Rightarrow> bool \<times> lasso_provider \<Rightarrow> bool \<times> lasso_provider" where
  "load_entity_child t lp =
     (let (loaded, p) =
        fold (\<lambda>(name, role) (loaded, p).
                if checkSaml2MdNode t name
                then (case load_descriptor t role p of (ok, p) \<Rightarrow> (loaded \<or> ok, p))
                else (loaded, p))
          descriptors lp
      in (loaded, if checkSaml2MdNode t LASSO_SAML2_METADATA_ELEMENT_ORGANIZATION
                  then p\<lparr>prv_organization := Some t\<rparr> else p))"

text \<open>The attributes \<^verbatim>\<open>validUntil\<close> and \<^verbatim>\<open>cacheDuration\<close> of the entity are read with the metadata
  namespace, in which the schema does not define them: what such an attribute would hold is the
  parameter \<open>ns_prop\<close>.\<close>

definition lasso_saml20_provider_load_metadata ::
  "(xml \<Rightarrow> string \<Rightarrow> cstr) \<Rightarrow> bool \<Rightarrow> xml \<Rightarrow> lasso_provider \<Rightarrow> bool \<times> lasso_provider" where
  "lasso_saml20_provider_load_metadata ns_prop is_server root p =
     (let node = (if checkSaml2MdNode root LASSO_SAML2_METADATA_ELEMENT_ENTITY_DESCRIPTOR then Some root
                  else if checkSaml2MdNode root LASSO_SAML2_METADATA_ELEMENT_ENTITIES_DESCRIPTOR
                  then List.find (\<lambda>t. checkSaml2MdNode t LASSO_SAML2_METADATA_ELEMENT_ENTITY_DESCRIPTOR) (xml_children root)
                  else None)
      in case node of
           None \<Rightarrow> (False, p)
         | Some node \<Rightarrow>
             (case xmlGetProp node ''entityID'' of
                None \<Rightarrow> (False, p)
              | Some entityID \<Rightarrow>
                  (let p = p\<lparr>prv_ProviderID := Some entityID, prv_roles := LASSO_PROVIDER_ROLE_NONE\<rparr>;
                       p = (case ns_prop node ''validUntil'' of None \<Rightarrow> p | Some v \<Rightarrow> p\<lparr>prv_valid_until := Some v\<rparr>);
                       p = (case ns_prop node ''cacheDuration'' of None \<Rightarrow> p | Some v \<Rightarrow> p\<lparr>prv_cache_duration := Some v\<rparr>);
                       (loaded, p) = fold load_entity_child (filter is_element (xml_children node)) (False, p)
                   in if \<not> is_server \<and> (\<not> loaded \<or> prv_roles p AND prv_role p = 0) then (False, p)
                      else (True, p))))"

section \<open>Keys\<close>

text \<open>What xmlsec and OpenSSL provide: reading a key from a file or a key descriptor, reading a chain of
  certificates into a keys manager, the libraries behind the query functions, and the digital signature itself.  \<open>cry_dsig node signature mngr
  key empty_uri\<close> is the return code of \<^verbatim>\<open>xmlSecDSigCtxVerify\<close>, whether its status is success, and the
  URIs of the references it signed.\<close>

record crypto =
  cry_load_key_file :: "string \<Rightarrow> string option"
  cry_load_key_info :: "xml \<Rightarrow> string option"
  cry_load_certs :: "string \<Rightarrow> string option"
  cry_dsig :: "xml \<Rightarrow> xml \<Rightarrow> cstr \<Rightarrow> cstr \<Rightarrow> bool \<Rightarrow> int \<times> bool \<times> cstr list"
  cry_query :: query_lib

datatype public_key_type = LASSO_PUBLIC_KEY_SIGNING | LASSO_PUBLIC_KEY_ENCRYPTION

definition lasso_provider_load_public_key ::
  "crypto \<Rightarrow> lasso_provider \<Rightarrow> public_key_type \<Rightarrow> bool \<times> lasso_provider" where
  "lasso_provider_load_public_key cr p ty =
     (let public_key = (if ty = LASSO_PUBLIC_KEY_SIGNING then prv_public_key p else None);
          keys_descriptors = (if ty = LASSO_PUBLIC_KEY_SIGNING then prv_signing_key_descriptors p else []);
          key_descriptor = (if ty = LASSO_PUBLIC_KEY_SIGNING then None else prv_encryption_key_descriptor p)
      in if public_key = None \<and> keys_descriptors = [] \<and> key_descriptor = None then (True, p)
         else let keys = (case public_key of None \<Rightarrow> [] | Some f \<Rightarrow> (case cry_load_key_file cr f of None \<Rightarrow> [] | Some k \<Rightarrow> [k])) @
                         (case key_descriptor of None \<Rightarrow> [] | Some d \<Rightarrow> (case cry_load_key_info cr d of None \<Rightarrow> [] | Some k \<Rightarrow> [k])) @
                         List.map_filter (cry_load_key_info cr) keys_descriptors
              in if keys = [] then (False, p)
                 else (True, case ty of
                               LASSO_PUBLIC_KEY_SIGNING \<Rightarrow> p\<lparr>prv_signing_public_keys := keys\<rparr>
                             | LASSO_PUBLIC_KEY_ENCRYPTION \<Rightarrow> p\<lparr>prv_encryption_public_keys := keys\<rparr>))"

definition lasso_provider_get_public_keys :: "lasso_provider \<Rightarrow> string list" where
  "lasso_provider_get_public_keys p = prv_signing_public_keys p"

definition lasso_provider_get_encryption_public_key :: "lasso_provider \<Rightarrow> cstr" where
  "lasso_provider_get_encryption_public_key p =
     (case prv_encryption_public_keys p of [] \<Rightarrow> None | k # _ \<Rightarrow> Some k)"

definition lasso_provider_try_loading_public_keys :: "lasso_provider \<Rightarrow> bool \<Rightarrow> int \<times> string list" where
  "lasso_provider_try_loading_public_keys p mandatory =
     (if prv_public_key p \<noteq> None \<or> prv_signing_key_descriptors p \<noteq> [] then
        (if lasso_provider_get_public_keys p = [] then (LASSO_DS_ERROR_PUBLIC_KEY_LOAD_FAILED, [])
         else (0, lasso_provider_get_public_keys p))
      else if mandatory then (LASSO_PROVIDER_ERROR_MISSING_PUBLIC_KEY, [])
      else (0, []))"

definition lasso_provider_try_loading_ca_cert_chain :: "crypto \<Rightarrow> lasso_provider \<Rightarrow> int \<times> cstr" where
  "lasso_provider_try_loading_ca_cert_chain cr p =
     (case prv_ca_cert_chain p of
        None \<Rightarrow> (0, None)
      | Some f \<Rightarrow>
          (case cry_load_certs cr f of
             None \<Rightarrow> (LASSO_DS_ERROR_CA_CERT_CHAIN_LOAD_FAILED, None)
           | Some m \<Rightarrow> (0, Some m)))"

text \<open>Adding a key appends it when \<open>after\<close> holds.\<close>

definition lasso_provider_add_key :: "lasso_provider \<Rightarrow> cstr \<Rightarrow> bool \<Rightarrow> int \<times> lasso_provider" where
  "lasso_provider_add_key p key after =
     (case key of
        None \<Rightarrow> (LASSO_PARAM_ERROR_INVALID_VALUE, p)
      | Some k \<Rightarrow>
          (0, p\<lparr>prv_signing_public_keys :=
                  (if after then prv_signing_public_keys p @ [k] else k # prv_signing_public_keys p)\<rparr>))"

section \<open>Verifying signatures\<close>

abbreviation (input) NO_OPTION :: int where "NO_OPTION \<equiv> 0"
abbreviation (input) NO_SINGLE_REFERENCE :: int where "NO_SINGLE_REFERENCE \<equiv> 1"
abbreviation (input) EMPTY_URI :: int where "EMPTY_URI \<equiv> 2"

definition xmlSecDSigNs :: string where "xmlSecDSigNs = ''http://www.w3.org/2000/09/xmldsig#''"

definition LASSO_SAML_PROTOCOL_HREF :: string where
  "LASSO_SAML_PROTOCOL_HREF = ''urn:oasis:names:tc:SAML:1.0:protocol''"

definition find_signature :: "xml \<Rightarrow> xml option" where
  "find_signature node =
     List.find (\<lambda>t. is_element t \<and> xml_name t = ''Signature'' \<and> xml_ns t = Some xmlSecDSigNs) (xml_children node)"

text \<open>\<^verbatim>\<open>lasso_verify_signature\<close>: \<open>flag\<close> is \<^verbatim>\<open>lasso_flag_verify_signature\<close>, \<open>is_root\<close> whether the signed node
  is the root of its document.  The list of signed URIs is returned as well.\<close>

definition lasso_verify_signature ::
  "crypto \<Rightarrow> bool \<Rightarrow> xml \<Rightarrow> bool \<Rightarrow> cstr \<Rightarrow> cstr \<Rightarrow> cstr \<Rightarrow> int \<Rightarrow> int \<times> string list" where
  "lasso_verify_signature cr flag signed_node is_root id_attr_name keys_manager public_key option =
     (if keys_manager = None \<and> public_key = None then (LASSO_PARAM_ERROR_INVALID_VALUE, [])
      else if \<not> flag then (0, [])
      else case find_signature signed_node of
             None \<Rightarrow> (LASSO_DS_ERROR_SIGNATURE_NOT_FOUND, [])
           | Some signature \<Rightarrow>
               (let node_id = Option.bind id_attr_name (xmlGetProp signed_node);
                    empty_uri = (option AND EMPTY_URI \<noteq> 0);
                    (vrc, succeeded, refs) = cry_dsig cr signed_node signature keys_manager public_key empty_uri;
                    first = (case refs of [] \<Rightarrow> None | r # _ \<Rightarrow> r)
                in if \<not> vrc \<ge> 0 then (LASSO_DS_ERROR_SIGNATURE_VERIFICATION_FAILED, [])
                   else if \<not> succeeded then (LASSO_DS_ERROR_SIGNATURE_VERIFICATION_FAILED, [])
                   else if \<not> (option AND NO_SINGLE_REFERENCE = 0 \<or> length refs = 1)
                     then (LASSO_DS_ERROR_TOO_MUCH_REFERENCES, [])
                   else if \<not> (refs \<noteq> [] \<and> lasso_strisequal first (Some (CHR ''#'' # printf_string node_id)) \<or>
                                empty_uri \<and> is_root \<and> refs \<noteq> [] \<and> lasso_strisequal first (Some []))
                     then (LASSO_DS_ERROR_INVALID_REFERENCE_FOR_SAML, [])
                   else (0, List.map_filter id refs)))"

text \<open>The loops over the signing keys: the code of the last attempt, 0 when there was none.\<close>

fun verify_with_keys :: "(string \<Rightarrow> int) \<Rightarrow> int \<Rightarrow> string list \<Rightarrow> int" where
  "verify_with_keys check rc [] = rc"
| "verify_with_keys check rc (k # ks) = (let rc = check k in if rc = 0 then 0 else verify_with_keys check rc ks)"

definition saml_id_attribute :: "xml \<Rightarrow> cstr" where
  "saml_id_attribute node =
     (if xml_ns node = Some LASSO_SAML2_PROTOCOL_HREF \<or> xml_ns node = Some LASSO_SAML2_ASSERTION_HREF then Some ''ID''
      else if xml_name node = ''Request'' \<and> xml_ns node = Some LASSO_SAML_PROTOCOL_HREF then Some ''RequestID''
      else if xml_name node = ''Response'' \<and> xml_ns node = Some LASSO_SAML_PROTOCOL_HREF then Some ''ResponseID''
      else if xml_name node = ''Assertion'' \<and> xml_ns node = Some LASSO_SAML_ASSERTION_HREF then Some ''AssertionID''
      else None)"

definition lasso_provider_verify_saml_signature :: "crypto \<Rightarrow> bool \<Rightarrow> lasso_provider \<Rightarrow> xml option \<Rightarrow> int" where
  "lasso_provider_verify_saml_signature cr flag p signed_node =
     (case signed_node of
        None \<Rightarrow> LASSO_PARAM_ERROR_BAD_TYPE_OR_NULL_OBJ
      | Some node \<Rightarrow>
          (case saml_id_attribute node of
             None \<Rightarrow> LASSO_PARAM_ERROR_INVALID_VALUE
           | Some attr \<Rightarrow>
               (let (rc, keys_manager) = lasso_provider_try_loading_ca_cert_chain cr p in
                if rc \<noteq> 0 then rc
                else let (rc, public_keys) = lasso_provider_try_loading_public_keys p (keys_manager = None) in
                     if rc \<noteq> 0 then rc
                     else verify_with_keys
                            (\<lambda>k. fst (lasso_verify_signature cr flag node True (Some attr) keys_manager (Some k) NO_OPTION))
                            0 public_keys)))"

definition lasso_provider_verify_single_node_signature ::
  "crypto \<Rightarrow> bool \<Rightarrow> lasso_provider \<Rightarrow> xml option \<Rightarrow> string \<Rightarrow> int" where
  "lasso_provider_verify_single_node_signature cr flag p original_xmlnode id_attr_name =
     (case original_xmlnode of
        None \<Rightarrow> LASSO_DS_ERROR_SIGNATURE_VERIFICATION_FAILED
      | Some node \<Rightarrow>
          (let (rc, keys_manager) = lasso_provider_try_loading_ca_cert_chain cr p in
           if rc \<noteq> 0 then rc
           else let (rc, public_keys) = lasso_provider_try_loading_public_keys p (keys_manager = None) in
                if rc \<noteq> 0 then rc
                else verify_with_keys
                       (\<lambda>k. fst (lasso_verify_signature cr flag node True (Some id_attr_name) keys_manager (Some k)
                                   NO_SINGLE_REFERENCE))
                       0 public_keys))"

definition lasso_provider_verify_query_signature :: "crypto \<Rightarrow> bool \<Rightarrow> int \<Rightarrow> lasso_provider \<Rightarrow> string \<Rightarrow> int" where
  "lasso_provider_verify_query_signature cr flag min_method p msg =
     (let (rc, public_keys) = lasso_provider_try_loading_public_keys p True in
      if rc \<noteq> 0 then rc
      else if prv_conformance p \<in> {LASSO_PROTOCOL_LIBERTY_1_0, LASSO_PROTOCOL_LIBERTY_1_1, LASSO_PROTOCOL_LIBERTY_1_2}
        then verify_with_keys (\<lambda>k. lasso_query_verify_signature (cry_query cr) flag min_method msg (Some k)) 0 public_keys
      else if prv_conformance p = LASSO_PROTOCOL_SAML_2_0
        then verify_with_keys (\<lambda>k. lasso_saml2_query_verify_signature (cry_query cr) flag min_method msg (Some k)) 0 public_keys
      else LASSO_PROFILE_ERROR_CANNOT_VERIFY_SIGNATURE)"

definition lasso_provider_verify_signature ::
  "crypto \<Rightarrow> bool \<Rightarrow> int \<Rightarrow> (string \<Rightarrow> xml option) \<Rightarrow> lasso_provider \<Rightarrow> cstr \<Rightarrow> string \<Rightarrow> message_format \<Rightarrow> int" where
  "lasso_provider_verify_signature cr flag min_method xml_parse p msg id_attr_name format =
     (if \<not> flag then 0
      else case msg of
             None \<Rightarrow> LASSO_PROFILE_ERROR_INVALID_MSG
           | Some m \<Rightarrow>
               if format = LASSO_MESSAGE_FORMAT_ERROR \<or> format = LASSO_MESSAGE_FORMAT_UNKNOWN
               then LASSO_PROFILE_ERROR_INVALID_MSG
               else if format = LASSO_MESSAGE_FORMAT_QUERY then lasso_provider_verify_query_signature cr flag min_method p m
               else let (rc, keys_manager) = lasso_provider_try_loading_ca_cert_chain cr p in
                    if rc \<noteq> 0 then rc
                    else let (rc, public_keys) = lasso_provider_try_loading_public_keys p (keys_manager = None) in
                         if rc \<noteq> 0 then rc
                         else case message_root (cry_query cr) xml_parse format m of
                                None \<Rightarrow> LASSO_PROFILE_ERROR_INVALID_MSG
                              | Some None \<Rightarrow>
                                  if format = LASSO_MESSAGE_FORMAT_SOAP then LASSO_PROFILE_ERROR_INVALID_MSG
                                  else verify_with_keys (\<lambda>k. LASSO_PARAM_ERROR_INVALID_VALUE) 0 public_keys
                              | Some (Some node) \<Rightarrow>
                                  verify_with_keys
                                    (\<lambda>k. fst (lasso_verify_signature cr flag node (format \<noteq> LASSO_MESSAGE_FORMAT_SOAP)
                                                (Some id_attr_name) keys_manager (Some k) NO_OPTION))
                                    0 public_keys)"

section \<open>Laws of the endpoints\<close>

lemma strcmp_refl [simp]: "strcmp a a = 0"
  by (induction a) auto

lemma strcmp_zero: "strcmp a b = 0 \<longleftrightarrow> a = b"
  by (induction a b rule: strcmp.induct) (auto simp: of_char_eq_iff[symmetric])

lemma strcmp_swap: "strcmp b a = - strcmp a b"
  by (induction a b rule: strcmp.induct) auto

lemma strcmp_Cons_less:
  "strcmp (x # xs) (y # ys) < 0 \<longleftrightarrow>
     (of_char x :: nat) < of_char y \<or> (of_char x :: nat) = of_char y \<and> strcmp xs ys < 0"
  by auto

lemma strcmp_less_trans: "strcmp a b < 0 \<Longrightarrow> strcmp b c < 0 \<Longrightarrow> strcmp a c < 0"
proof (induction a arbitrary: b c)
  case Nil
  then show ?case by (cases b; cases c) simp_all
next
  case (Cons x xs)
  obtain y ys where b: "b = y # ys" using Cons.prems by (cases b) simp_all
  obtain z zs where c: "c = z # zs" using Cons.prems b by (cases c) simp_all
  show ?case
    using Cons.prems Cons.IH[of ys zs] unfolding b c strcmp_Cons_less by (elim disjE conjE) simp_all
qed

definition endpoint_le :: "endpoint_type \<Rightarrow> endpoint_type \<Rightarrow> bool" where
  "endpoint_le a b \<longleftrightarrow> compare_endpoint_type a b \<le> 0"

text \<open>The order of the endpoints: by role, then by kind, then default first, then by index.\<close>

lemma endpoint_le_iff:
  "endpoint_le a b \<longleftrightarrow>
     ep_role a < ep_role b \<or> ep_role a = ep_role b \<and>
       (strcmp (ep_kind a) (ep_kind b) < 0 \<or> ep_kind a = ep_kind b \<and>
         (ep_is_default a < ep_is_default b \<or> ep_is_default a = ep_is_default b \<and> ep_index a \<le> ep_index b))"
  using strcmp_zero[of "ep_kind a" "ep_kind b"]
  by (simp add: endpoint_le_def compare_endpoint_type_def Let_def) linarith

lemma endpoint_le_trans: "endpoint_le a b \<Longrightarrow> endpoint_le b c \<Longrightarrow> endpoint_le a c"
  unfolding endpoint_le_iff
  by (elim disjE conjE) (simp_all add: strcmp_less_trans)

lemma endpoint_le_linear: "endpoint_le a b \<or> endpoint_le b a"
proof -
  have "ep_kind a = ep_kind b \<or> strcmp (ep_kind a) (ep_kind b) < 0 \<or> strcmp (ep_kind b) (ep_kind a) < 0"
    using strcmp_swap[of "ep_kind a" "ep_kind b"] strcmp_zero[of "ep_kind a" "ep_kind b"] by linarith
  then show ?thesis unfolding endpoint_le_iff by (metis linorder_less_linear linorder_linear)
qed

lemma mset_endpoint_insert: "mset (endpoint_insert x ys) = add_mset x (mset ys)"
  by (induction ys) auto

lemma sorted_endpoint_insert: "sorted_wrt endpoint_le ys \<Longrightarrow> sorted_wrt endpoint_le (endpoint_insert x ys)"
proof (induction ys)
  case (Cons y ys)
  show ?case
  proof (cases "compare_endpoint_type x y \<le> 0")
    case True
    then have "endpoint_le x y" by (simp add: endpoint_le_def)
    then show ?thesis using True Cons.prems endpoint_le_trans by auto
  next
    case False
    then have "endpoint_le y x" using endpoint_le_linear endpoint_le_def by blast
    moreover have "set (endpoint_insert x ys) = insert x (set ys)"
      using mset_endpoint_insert[of x ys] by (metis set_mset_add_mset_insert set_mset_mset)
    ultimately show ?thesis using Cons False by auto
  qed
qed simp

lemma endpoint_sort_sorted: "sorted_wrt endpoint_le (endpoint_sort xs)"
  unfolding endpoint_sort_def by (induction xs) (simp_all add: sorted_endpoint_insert)

lemma endpoint_sort_mset: "mset (endpoint_sort xs) = mset xs"
  unfolding endpoint_sort_def by (induction xs) (simp_all add: mset_endpoint_insert)

lemma endpoint_sort_set [simp]: "set (endpoint_sort xs) = set xs"
  by (metis endpoint_sort_mset set_mset_mset)

lemma filter_endpoint_insert:
  assumes "\<And>y. y \<in> set ys \<Longrightarrow> P y \<Longrightarrow> P x \<Longrightarrow> compare_endpoint_type x y \<le> 0"
  shows "filter P (endpoint_insert x ys) = (if P x then x # filter P ys else filter P ys)"
  using assms by (induction ys) auto

lemma endpoint_sort_stable:
  assumes "\<And>x y. P x \<Longrightarrow> P y \<Longrightarrow> compare_endpoint_type x y = 0"
  shows "filter P (endpoint_sort xs) = filter P xs"
  unfolding endpoint_sort_def
  by (induction xs) (simp_all add: filter_endpoint_insert assms)

lemma find_sorted_least:
  "sorted_wrt R xs \<Longrightarrow> List.find P xs = Some x \<Longrightarrow> y \<in> set xs \<Longrightarrow> P y \<Longrightarrow> y = x \<or> R x y"
  by (induction xs) (auto split: if_splits)

section \<open>Laws of the verification\<close>

lemma verify_with_keys_zero:
  "verify_with_keys check rc ks = 0 \<longleftrightarrow> (if ks = [] then rc = 0 else \<exists>k \<in> set ks. check k = 0)"
  by (induction check rc ks rule: verify_with_keys.induct) (auto simp: Let_def)

lemma try_loading_public_keys_ok:
  "lasso_provider_try_loading_public_keys p mandatory = (0, ks) \<Longrightarrow>
     (ks = prv_signing_public_keys p \<and> ks \<noteq> []) \<or> (ks = [] \<and> \<not> mandatory)"
  by (auto simp: lasso_provider_try_loading_public_keys_def lasso_provider_get_public_keys_def split: if_splits)

lemma endpoint_url_loop_hit:
  assumes "List.find (\<lambda>e. (ep_role e = role \<or> role = LASSO_PROVIDER_ROLE_ANY \<or> role = LASSO_PROVIDER_ROLE_NONE) \<and>
      ep_kind e = kind \<and> (is_default \<or> (if idx \<ge> 0 then ep_index e = idx else bindings = [] \<or> ep_binding e \<in> set bindings)))
      es = Some e"
  shows "endpoint_url_loop role kind bindings is_default idx current es = Some e"
  using assms by (induction es arbitrary: current) (auto split: if_splits)

lemma endpoint_url_loop_other_kind:
  "\<forall>e \<in> set es. ep_kind e \<noteq> kind \<Longrightarrow>
     endpoint_url_loop role kind bindings is_default idx current es = (if es = [] then current else Some (last es))"
  by (induction es arbitrary: current) auto

lemma first_http_method_hit:
  assumes "List.find (\<lambda>e. ep_kind e = kind \<and> binding_uri_to_http_method (ep_binding e) \<noteq> LASSO_HTTP_METHOD_NONE \<and>
      (http_method_kind (binding_uri_to_http_method (ep_binding e)) = SYNCHRONOUS \<longrightarrow> sync_ok)) es = Some e"
  shows "first_http_method_loop sync_ok kind result es = binding_uri_to_http_method (ep_binding e)"
  using assms by (induction es arbitrary: result) (auto simp: Let_def split: if_splits)

lemma first_http_method_rejected:
  assumes "\<forall>e \<in> set es. ep_kind e = kind \<and> http_method_kind (binding_uri_to_http_method (ep_binding e)) = SYNCHRONOUS"
  shows "first_http_method_loop False kind result es =
    (if es = [] then result else binding_uri_to_http_method (ep_binding (last es)))"
  using assms by (induction es arbitrary: result) (auto simp: Let_def)

section \<open>Properties\<close>

text \<open>C6: when signatures are verified and the verification of a node succeeds, the node has a signature
  as a direct child, the cryptographic verification of that signature with the given key succeeded,
  and the first reference that it signs is the identifier of the node itself; the empty reference is
  accepted only on request and only for the root of the document.\<close>

theorem verify_signature_sound:
  assumes "lasso_verify_signature cr True node is_root attr mngr key opt = (0, uris)"
  shows "\<exists>sig vrc ref refs. find_signature node = Some sig \<and>
    cry_dsig cr node sig mngr key (opt AND EMPTY_URI \<noteq> 0) = (vrc, True, Some ref # refs) \<and> 0 \<le> vrc \<and>
    (ref = CHR ''#'' # printf_string (Option.bind attr (xmlGetProp node)) \<or>
     ref = [] \<and> is_root \<and> opt AND EMPTY_URI \<noteq> 0) \<and>
    (mngr \<noteq> None \<or> key \<noteq> None)"
proof -
  obtain sig where sig: "find_signature node = Some sig"
    using assms by (auto simp: lasso_verify_signature_def split: if_splits option.splits)
  obtain vrc st refs where d: "cry_dsig cr node sig mngr key (opt AND EMPTY_URI \<noteq> 0) = (vrc, st, refs)"
    by (metis prod_cases3)
  have "0 \<le> vrc" "st" "refs \<noteq> []" "mngr \<noteq> None \<or> key \<noteq> None"
    "(case refs of [] \<Rightarrow> None | r # _ \<Rightarrow> r) = Some (CHR ''#'' # printf_string (Option.bind attr (xmlGetProp node))) \<or>
     (case refs of [] \<Rightarrow> None | r # _ \<Rightarrow> r) = Some [] \<and> is_root \<and> opt AND EMPTY_URI \<noteq> 0"
    using assms by (auto simp: lasso_verify_signature_def sig d Let_def split: if_splits)
  then show ?thesis using sig d by (cases refs) auto
qed

definition sample_crypto :: crypto where
  "sample_crypto = \<lparr>cry_load_key_file = Some, cry_load_key_info = \<lambda>_. None, cry_load_certs = Some,
     cry_dsig = \<lambda>_ _ _ k _. (0, k = Some ''key'', [Some ''#i'']),
     cry_query = sample_lib\<rparr>"

definition sample_signed_node :: xml where
  "sample_signed_node = Element ''Assertion'' (Some LASSO_SAML2_ASSERTION_HREF) [(''ID'', ''i'')]
     [Element ''Signature'' (Some xmlSecDSigNs) [] []]"

definition sample_unsigned_node :: xml where
  "sample_unsigned_node = Element ''Assertion'' (Some LASSO_SAML2_ASSERTION_HREF) [(''ID'', ''i'')] []"

lemma sample_node_verifies:
  "lasso_verify_signature sample_crypto True sample_signed_node True (Some ''ID'') None (Some ''key'') NO_OPTION =
     (0, [''#i''])"
  by (simp add: lasso_verify_signature_def sample_signed_node_def sample_crypto_def find_signature_def is_element_def
      xmlGetProp_def printf_string_def List.map_filter_simps)

theorem verify_signature_sound_witness: "find_signature sample_signed_node \<noteq> None"
  using verify_signature_sound[OF sample_node_verifies] by auto

text \<open>For a provider with signing keys and no chain of certificates, a SAML node is accepted exactly when
  the signature of the node verifies with one of the keys.\<close>

theorem saml_signature_some_key:
  assumes "saml_id_attribute node = Some attr" and "prv_ca_cert_chain p = None"
    and "prv_signing_public_keys p \<noteq> []" and "prv_public_key p \<noteq> None \<or> prv_signing_key_descriptors p \<noteq> []"
  shows "lasso_provider_verify_saml_signature cr flag p (Some node) = 0 \<longleftrightarrow>
    (\<exists>k \<in> set (prv_signing_public_keys p).
       fst (lasso_verify_signature cr flag node True (Some attr) None (Some k) NO_OPTION) = 0)"
  using assms
  by (auto simp: lasso_provider_verify_saml_signature_def lasso_provider_try_loading_ca_cert_chain_def
      lasso_provider_try_loading_public_keys_def lasso_provider_get_public_keys_def verify_with_keys_zero)

definition sample_provider :: lasso_provider where
  "sample_provider = provider_instance_init\<lparr>prv_role := LASSO_PROVIDER_ROLE_IDP, prv_ProviderID := Some ''idp'',
     prv_conformance := LASSO_PROTOCOL_SAML_2_0, prv_public_key := Some ''file'', prv_signing_public_keys := [''key'']\<rparr>"

theorem saml_signature_some_key_witness:
  "lasso_provider_verify_saml_signature sample_crypto True sample_provider (Some sample_signed_node) = 0"
proof -
  have "saml_id_attribute sample_signed_node = Some ''ID''"
    by (simp add: saml_id_attribute_def sample_signed_node_def)
  then show ?thesis
    using saml_signature_some_key[of sample_signed_node "''ID''" sample_provider sample_crypto True] sample_node_verifies
    by (simp add: sample_provider_def provider_instance_init_def)
qed

text \<open>For a provider that is known by a chain of certificates and no key of its own, every SAML node is
  accepted, signed or not: the loop over the keys is empty and its result starts as success.\<close>

theorem ca_chain_only_accepts_everything:
  assumes "saml_id_attribute node \<noteq> None" and "prv_ca_cert_chain p = Some f" and "cry_load_certs cr f = Some m"
    and "prv_public_key p = None" and "prv_signing_key_descriptors p = []"
  shows "lasso_provider_verify_saml_signature cr flag p (Some node) = 0 \<and>
    lasso_provider_verify_single_node_signature cr flag p (Some node) ''ID'' = 0"
  using assms
  by (auto simp: lasso_provider_verify_saml_signature_def lasso_provider_verify_single_node_signature_def
      lasso_provider_try_loading_ca_cert_chain_def lasso_provider_try_loading_public_keys_def)

theorem ca_chain_only_accepts_everything_witness:
  "find_signature sample_unsigned_node = None \<and>
   lasso_provider_verify_saml_signature sample_crypto True
     (provider_instance_init\<lparr>prv_ca_cert_chain := Some ''chain''\<rparr>) (Some sample_unsigned_node) = 0"
  using ca_chain_only_accepts_everything[of sample_unsigned_node
      "provider_instance_init\<lparr>prv_ca_cert_chain := Some ''chain''\<rparr>" "''chain''" sample_crypto "''chain''" True]
  by (simp add: find_signature_def sample_unsigned_node_def saml_id_attribute_def sample_crypto_def
      provider_instance_init_def)

text \<open>The endpoints of a loaded descriptor are the declared ones in the order by role, kind, default
  and index, endpoints that compare equal keeping their order; the default assertion consumer service
  is the first supported one: no other supported one comes before it by default attribute and index.\<close>

theorem default_assertion_consumer_least:
  assumes "lasso_saml20_provider_get_assertion_consumer_service (p\<lparr>prv_endpoints := endpoint_sort es\<rparr>) (-1) = Some e"
  shows "mset (endpoint_sort es) = mset es \<and> e \<in> set es \<and> is_acs e \<and>
    ep_binding e \<in> set supported_assertion_consumer_bindings \<and>
    (\<forall>e' \<in> set es. is_acs e' \<and> ep_binding e' \<in> set supported_assertion_consumer_bindings \<longrightarrow>
       ep_is_default e < ep_is_default e' \<or> ep_is_default e = ep_is_default e' \<and> ep_index e \<le> ep_index e')"
proof -
  let ?P = "\<lambda>e. is_acs e \<and> ep_binding e \<in> set supported_assertion_consumer_bindings"
  have find: "List.find ?P (endpoint_sort es) = Some e"
    using assms by (simp add: lasso_saml20_provider_get_assertion_consumer_service_def)
  then have e: "e \<in> set es" "?P e" by (auto simp: find_Some_iff dest: nth_mem)
  have "endpoint_le e e' \<or> e' = e" if "e' \<in> set es" "?P e'" for e'
    using find_sorted_least[OF endpoint_sort_sorted find, of e'] that by auto
  then show ?thesis
    using e by (fastforce simp: endpoint_sort_mset is_acs_def endpoint_le_iff)
qed

definition sample_acs :: "int \<Rightarrow> int \<Rightarrow> endpoint_type" where
  "sample_acs d i = \<lparr>ep_role = LASSO_PROVIDER_ROLE_SP, ep_kind = ''AssertionConsumerService'',
     ep_binding = LASSO_SAML2_METADATA_BINDING_POST, ep_url = ''https://sp/acs'', ep_return_url = None,
     ep_index = i, ep_is_default = d\<rparr>"

theorem default_assertion_consumer_least_witness:
  "lasso_saml20_provider_get_assertion_consumer_service
     (provider_instance_init\<lparr>prv_endpoints := endpoint_sort [sample_acs 0 1, sample_acs (-1) 2]\<rparr>) (-1) =
     Some (sample_acs (-1) 2) \<and> sample_acs (-1) 2 \<in> set [sample_acs 0 1, sample_acs (-1) 2]"
proof -
  have "lasso_saml20_provider_get_assertion_consumer_service
     (provider_instance_init\<lparr>prv_endpoints := endpoint_sort [sample_acs 0 1, sample_acs (-1) 2]\<rparr>) (-1) =
     Some (sample_acs (-1) 2)"
    by (simp add: lasso_saml20_provider_get_assertion_consumer_service_def endpoint_sort_def sample_acs_def
        compare_endpoint_type_def is_acs_def supported_assertion_consumer_bindings_def)
  with default_assertion_consumer_least[OF this] show ?thesis by blast
qed

text \<open>Looking for the URL of an endpoint gives the first endpoint of the role and kind that fits the
  index or bindings when there is one; when no endpoint has the kind, it gives the URL of the last
  endpoint of the provider, whatever that endpoint is for.\<close>

theorem endpoint_url_law:
  "(List.find (\<lambda>e. (ep_role e = role \<or> role = LASSO_PROVIDER_ROLE_ANY \<or> role = LASSO_PROVIDER_ROLE_NONE) \<and>
      ep_kind e = k \<and> (is_default \<or> (if idx \<ge> 0 then ep_index e = idx else bs = [] \<or> ep_binding e \<in> set bs)))
      (prv_endpoints p) = Some e \<longrightarrow>
    lasso_saml20_provider_get_endpoint_url p role (Some k) bs False is_default idx = Some (ep_url e)) \<and>
   (prv_endpoints p \<noteq> [] \<and> (\<forall>e \<in> set (prv_endpoints p). ep_kind e \<noteq> k) \<longrightarrow>
    lasso_saml20_provider_get_endpoint_url p role (Some k) bs False is_default idx =
      Some (ep_url (last (prv_endpoints p))))"
  by (auto simp: lasso_saml20_provider_get_endpoint_url_def endpoint_url_loop_hit endpoint_url_loop_other_kind
      split: option.split)

theorem endpoint_url_law_witness:
  "lasso_saml20_provider_get_endpoint_url (provider_instance_init\<lparr>prv_endpoints := [sample_acs 0 1]\<rparr>)
     LASSO_PROVIDER_ROLE_IDP (Some ''ArtifactResolutionService'') [] False False 7 = Some ''https://sp/acs''"
  using endpoint_url_law[of LASSO_PROVIDER_ROLE_IDP "''ArtifactResolutionService''" False 7 "[]"
      "provider_instance_init\<lparr>prv_endpoints := [sample_acs 0 1]\<rparr>"]
  by (simp add: sample_acs_def)

text \<open>The HTTP method for a protocol is that of the first endpoint of the peer that can be used, where a
  front-channel method needs a front-channel endpoint to receive the answer; when all the endpoints
  are front-channel and the answer could not be received, the method of the last of them is
  returned instead of no method.\<close>

theorem first_http_method_law:
  "(List.find (\<lambda>e. ep_kind e = profile_names pt \<and> binding_uri_to_http_method (ep_binding e) \<noteq> LASSO_HTTP_METHOD_NONE \<and>
      (http_method_kind (binding_uri_to_http_method (ep_binding e)) = SYNCHRONOUS \<longrightarrow> has_synchronous_methods p pt True))
      (prv_endpoints r) = Some e \<longrightarrow>
    lasso_saml20_provider_get_first_http_method p r pt = binding_uri_to_http_method (ep_binding e)) \<and>
   (\<not> has_synchronous_methods p pt True \<and> prv_endpoints r \<noteq> [] \<and>
    (\<forall>e \<in> set (prv_endpoints r). ep_kind e = profile_names pt \<and>
        http_method_kind (binding_uri_to_http_method (ep_binding e)) = SYNCHRONOUS) \<longrightarrow>
    lasso_saml20_provider_get_first_http_method p r pt =
      binding_uri_to_http_method (ep_binding (last (prv_endpoints r))))"
  by (simp add: lasso_saml20_provider_get_first_http_method_def first_http_method_hit first_http_method_rejected)

theorem first_http_method_law_witness:
  "lasso_saml20_provider_get_first_http_method provider_instance_init
     (provider_instance_init\<lparr>prv_endpoints := [(sample_acs 0 0)\<lparr>ep_kind := ''SingleSignOnService''\<rparr>]\<rparr>) SINGLE_SIGN_ON =
     LASSO_HTTP_METHOD_POST"
  using first_http_method_law[of SINGLE_SIGN_ON provider_instance_init
      "provider_instance_init\<lparr>prv_endpoints := [(sample_acs 0 0)\<lparr>ep_kind := ''SingleSignOnService''\<rparr>]\<rparr>"]
  by (simp add: sample_acs_def has_synchronous_methods_def provider_instance_init_def profile_names_def
      binding_uri_to_http_method_def http_method_kind_def uri_defs)

end
