(* ===== verification/Lasso_Metadata.thy ===== *)
theory Lasso_Metadata
  imports Lasso_Provider "HOL-Library.Sublist"
begin

text \<open>
  Building providers, the rest of \<^verbatim>\<open>lasso/id-ff/provider.c\<close>: the dispatch between SAML 2.0 and ID-FF
  metadata, the loading of ID-FF 1.1 and 1.2 metadata, the choice of an HTTP method for ID-FF, and the
  constructors of a provider.  What the process and the libraries provide is the record
  \<open>environment\<close>.
\<close>

section \<open>The environment\<close>

text \<open>The cryptography, the global settings of \<^verbatim>\<open>lasso.c\<close> and \<^verbatim>\<open>xml.c\<close> (\<^verbatim>\<open>lasso_flag_verify_signature\<close>,
  minimal and default signature methods), attributes with a namespace, the file system, libxml2's
  parser (the root of the document), OpenSSL's private keys (with whether the key is private), the
  base64 encoded SHA-1 of a string, and the clock.\<close>

record environment =
  env_crypto :: crypto
  env_verify_signature :: bool
  env_min_signature_method :: int
  env_default_signature_method :: int
  env_ns_prop :: "xml \<Rightarrow> string \<Rightarrow> cstr"
  env_file_contents :: "string \<Rightarrow> cstr"
  env_xml_parse :: "string \<Rightarrow> xml option"
  env_load_private_key :: "string \<Rightarrow> cstr \<Rightarrow> int \<Rightarrow> cstr \<Rightarrow> (string \<times> bool) option"
  env_base64_sha1 :: "string \<Rightarrow> string"
  env_now :: int

abbreviation env_lib :: "environment \<Rightarrow> query_lib" where
  "env_lib env \<equiv> cry_query (env_crypto env)"

abbreviation LASSO_METADATA_HREF :: string where "LASSO_METADATA_HREF \<equiv> ''urn:liberty:metadata:2003-08''"

section \<open>HTTP methods of ID-FF\<close>

definition protocol_uris :: "md_protocol_type \<Rightarrow> cstr" where
  "protocol_uris t =
     (case t of
        FEDERATION_TERMINATION \<Rightarrow> Some ''http://projectliberty.org/profiles/fedterm''
      | NAME_IDENTIFIER_MAPPING \<Rightarrow> Some ''http://projectliberty.org/profiles/nim''
      | REGISTER_NAME_IDENTIFIER \<Rightarrow> Some ''http://projectliberty.org/profiles/rni''
      | SINGLE_LOGOUT \<Rightarrow> Some ''http://projectliberty.org/profiles/slo''
      | _ \<Rightarrow> None)"

definition protocol_md_nodename :: "md_protocol_type \<Rightarrow> cstr" where
  "protocol_md_nodename t =
     (case t of
        FEDERATION_TERMINATION \<Rightarrow> Some ''FederationTerminationNotificationProtocolProfile''
      | NAME_IDENTIFIER_MAPPING \<Rightarrow> Some ''NameIdentifierMappingProtocolProfile''
      | REGISTER_NAME_IDENTIFIER \<Rightarrow> Some ''RegisterNameIdentifierProtocolProfile''
      | SINGLE_LOGOUT \<Rightarrow> Some ''SingleLogoutProtocolProfile''
      | SINGLE_SIGN_ON \<Rightarrow> Some ''SingleSignOnProtocolProfile''
      | _ \<Rightarrow> None)"

text \<open>The suffix of a profile for a method, the table being read one further than the method; the
  entries after \<^verbatim>\<open>SOAP\<close> are \<^verbatim>\<open>NULL\<close>.\<close>

definition protocol_methods :: "int \<Rightarrow> cstr" where
  "protocol_methods i =
     (if 0 \<le> i \<and> i \<le> 4 then Some [] else if i = 5 then Some ''-http'' else if i = 6 then Some ''-soap'' else None)"

definition supported_profiles :: "lasso_provider \<Rightarrow> md_protocol_type \<Rightarrow> string list" where
  "supported_profiles p protocol_type =
     (case protocol_md_nodename protocol_type of None \<Rightarrow> [] | Some n \<Rightarrow> lasso_provider_get_metadata_list p n)"

definition lasso_provider_has_protocol_profile :: "lasso_provider \<Rightarrow> md_protocol_type \<Rightarrow> string \<Rightarrow> bool" where
  "lasso_provider_has_protocol_profile p protocol_type profile \<longleftrightarrow>
     profile \<in> set (supported_profiles p protocol_type)"

text \<open>Both functions set the role of the local provider to the complement of the peer's.\<close>

definition complement_role :: "lasso_provider \<Rightarrow> lasso_provider \<Rightarrow> lasso_provider" where
  "complement_role p remote =
     (let p = (if prv_role remote = LASSO_PROVIDER_ROLE_SP then p\<lparr>prv_role := LASSO_PROVIDER_ROLE_IDP\<rparr> else p)
      in if prv_role remote = LASSO_PROVIDER_ROLE_IDP then p\<lparr>prv_role := LASSO_PROVIDER_ROLE_SP\<rparr> else p)"

text \<open>The method is absent where the code aborts: a common profile that ends neither in \<^verbatim>\<open>http\<close> nor in
  \<^verbatim>\<open>soap\<close>.\<close>

definition lasso_provider_get_first_http_method ::
  "lasso_provider \<Rightarrow> lasso_provider option \<Rightarrow> md_protocol_type \<Rightarrow> int option \<times> lasso_provider" where
  "lasso_provider_get_first_http_method p remote protocol_type =
     (case remote of
        None \<Rightarrow> (Some LASSO_HTTP_METHOD_NONE, p)
      | Some remote \<Rightarrow>
          if prv_conformance p = LASSO_PROTOCOL_SAML_2_0
          then (Some (lasso_saml20_provider_get_first_http_method p remote protocol_type), p)
          else let p = complement_role p remote in
               case role_to_prefix (prv_role p) of
                 None \<Rightarrow> (Some LASSO_HTTP_METHOD_NONE, p)
               | Some role_prefix \<Rightarrow>
                   (let profile_prefix = printf_string (protocol_uris protocol_type) @ ''-'' @ role_prefix in
                    case List.find (\<lambda>s. prefix profile_prefix s \<and> s \<in> set (supported_profiles remote protocol_type))
                           (supported_profiles p protocol_type) of
                      None \<Rightarrow> (Some LASSO_HTTP_METHOD_NONE, p)
                    | Some s \<Rightarrow>
                        (if suffix ''http'' s then Some LASSO_HTTP_METHOD_REDIRECT
                         else if suffix ''soap'' s then Some LASSO_HTTP_METHOD_SOAP
                         else None, p)))"

definition lasso_provider_accept_http_method ::
  "lasso_provider \<Rightarrow> lasso_provider \<Rightarrow> md_protocol_type \<Rightarrow> int \<Rightarrow> bool \<Rightarrow> bool \<times> lasso_provider" where
  "lasso_provider_accept_http_method p remote protocol_type http_method initiate_profile =
     (if prv_conformance p = LASSO_PROTOCOL_SAML_2_0
      then (lasso_saml20_provider_accept_http_method p remote protocol_type http_method initiate_profile, p)
      else let p = complement_role p remote;
               initiating_role = (if initiate_profile then prv_role p else prv_role remote)
           in case role_to_prefix initiating_role of
                None \<Rightarrow> (False, p)
              | Some role_prefix \<Rightarrow>
                  (let profile = printf_string (protocol_uris protocol_type) @ ''-'' @ role_prefix @
                                 printf_string (protocol_methods (http_method + 1))
                   in (lasso_provider_has_protocol_profile p protocol_type profile \<and>
                       lasso_provider_has_protocol_profile remote protocol_type profile, p)))"

definition lasso_provider_get_assertion_consumer_service_url :: "lasso_provider \<Rightarrow> cstr \<Rightarrow> cstr" where
  "lasso_provider_get_assertion_consumer_service_url p service_id =
     (if prv_conformance p = LASSO_PROTOCOL_SAML_2_0
      then let (ok, sid) = lasso_string_to_xsd_integer service_id (-1);
               sid = (if ok \<and> sid < 0 then -1 else sid)
           in lasso_saml20_provider_get_assertion_consumer_service_url p (long_to_int sid)
      else let service_id = (case service_id of None \<Rightarrow> prv_default_assertion_consumer p | Some i \<Rightarrow> Some i)
           in lasso_provider_get_metadata_one_for_role p LASSO_PROVIDER_ROLE_SP
                (''AssertionConsumerServiceURL '' @ printf_string service_id))"

section \<open>ID-FF metadata\<close>

definition lasso_provider_load_endpoint_type :: "int \<Rightarrow> xml \<Rightarrow> lasso_provider \<Rightarrow> lasso_provider" where
  "lasso_provider_load_endpoint_type role endpoint p =
     (let acs = (xml_name endpoint = ''AssertionConsumerServiceURL'');
          ident = xmlGetProp endpoint ''id'';
          name = (if acs then xml_name endpoint @ '' '' @ printf_string ident else xml_name endpoint);
          p = (if acs \<and> xmlGetProp endpoint ''isDefault'' \<in> {Some ''true'', Some ''1''}
               then p\<lparr>prv_default_assertion_consumer := ident\<rparr> else p)
      in lasso_provider_add_metadata_value_for_role p role name (xmlNodeGetContent endpoint))"

definition lasso_provider_load_descriptor :: "int \<Rightarrow> xml \<Rightarrow> lasso_provider \<Rightarrow> lasso_provider" where
  "lasso_provider_load_descriptor role node p =
     fold (\<lambda>t p. if xml_name t = ''KeyDescriptor'' \<and> xml_ns t = Some LASSO_METADATA_HREF
                 then lasso_provider_load_key_descriptor t p
                 else lasso_provider_load_endpoint_type role t p)
       (filter is_element (xml_children node)) p"

abbreviation md11_HREF :: string where "md11_HREF \<equiv> ''http://projectliberty.org/schemas/core/2002/12''"

text \<open>The path expressions select the root or its children by name.  A descriptor is loaded when there is
  exactly one of its kind.\<close>

definition select_node :: "string \<Rightarrow> string \<Rightarrow> xml list \<Rightarrow> xml list" where
  "select_node ns name xs = filter (\<lambda>x. is_element x \<and> xml_name x = name \<and> xml_ns x = Some ns) xs"

definition load_idff_descriptor :: "int \<Rightarrow> xml list \<Rightarrow> lasso_provider \<Rightarrow> lasso_provider" where
  "load_idff_descriptor role nodes p =
     (case nodes of
        [d] \<Rightarrow>
          (let p = lasso_provider_load_descriptor role d p in
           if prv_conformance p < LASSO_PROTOCOL_LIBERTY_1_2 then
             (case List.find (\<lambda>t. is_element t \<and> xml_name t = ''ProviderID'') (xml_children d) of
                None \<Rightarrow> p
              | Some t \<Rightarrow> p\<lparr>prv_ProviderID := Some (xmlNodeGetContent t)\<rparr>)
           else p)
      | _ \<Rightarrow> p)"

text \<open>\<open>root\<close> is the root of the document of \<open>node\<close>.\<close>

definition lasso_provider_load_metadata_from_xmlnode ::
  "environment \<Rightarrow> bool \<Rightarrow> xml \<Rightarrow> xml \<Rightarrow> lasso_provider \<Rightarrow> bool \<times> lasso_provider" where
  "lasso_provider_load_metadata_from_xmlnode env is_server root node p =
     (if \<not> is_element node \<or> xml_ns node = None then (False, p)
      else if xml_ns node = Some LASSO_SAML2_METADATA_HREF
      then lasso_saml20_provider_load_metadata (env_ns_prop env) is_server node
             (p\<lparr>prv_conformance := LASSO_PROTOCOL_SAML_2_0\<rparr>)
      else let p = p\<lparr>prv_conformance := LASSO_PROTOCOL_LIBERTY_1_2\<rparr>;
               md = select_node LASSO_METADATA_HREF ''EntityDescriptor'' [root];
               md11_sp = select_node md11_HREF ''SPDescriptor'' [root];
               md11_idp = select_node md11_HREF ''IDPDescriptor'' [root]
           in if md = [] \<and> md11_sp = [] \<and> md11_idp = [] then (False, p)
              else let p = (if md = [] then p\<lparr>prv_conformance := LASSO_PROTOCOL_LIBERTY_1_1\<rparr> else p);
                       idp = (if md = [] then md11_idp else select_node LASSO_METADATA_HREF ''IDPDescriptor'' (xml_children root));
                       sp = (if md = [] then md11_sp else select_node LASSO_METADATA_HREF ''SPDescriptor'' (xml_children root));
                       org = (if md = [] then [] else select_node LASSO_METADATA_HREF ''Organization'' (xml_children root));
                       p = p\<lparr>prv_ProviderID := xmlGetProp root ''providerID''\<rparr>;
                       p = load_idff_descriptor LASSO_PROVIDER_ROLE_IDP idp p;
                       p = load_idff_descriptor LASSO_PROVIDER_ROLE_SP sp p
                   in (True, case org of [x] \<Rightarrow> p\<lparr>prv_organization := Some x\<rparr> | _ \<Rightarrow> p))"

section \<open>Constructors\<close>

definition lasso_provider_load_metadata_from_buffer ::
  "environment \<Rightarrow> bool \<Rightarrow> string \<Rightarrow> lasso_provider \<Rightarrow> bool \<times> lasso_provider" where
  "lasso_provider_load_metadata_from_buffer env is_server metadata p =
     (case env_xml_parse env metadata of
        None \<Rightarrow> (False, p)
      | Some node \<Rightarrow>
          (let (ok, p) = lasso_provider_load_metadata_from_xmlnode env is_server node node p
           in if ok then (True, p\<lparr>prv_metadata_filename := Some metadata\<rparr>) else (False, p)))"

definition lasso_provider_load_metadata ::
  "environment \<Rightarrow> bool \<Rightarrow> string \<Rightarrow> lasso_provider \<Rightarrow> bool \<times> lasso_provider" where
  "lasso_provider_load_metadata env is_server path p =
     (case env_file_contents env path of
        None \<Rightarrow> (False, p)
      | Some content \<Rightarrow> lasso_provider_load_metadata_from_buffer env is_server content p)"

text \<open>Loading both kinds of keys, as every constructor of a provider does.\<close>

definition load_both_keys :: "environment \<Rightarrow> lasso_provider \<Rightarrow> lasso_provider option" where
  "load_both_keys env p =
     (let (ok, p) = lasso_provider_load_public_key (env_crypto env) p LASSO_PUBLIC_KEY_SIGNING in
      if \<not> ok then None
      else let (ok, p) = lasso_provider_load_public_key (env_crypto env) p LASSO_PUBLIC_KEY_ENCRYPTION in
           if \<not> ok then None else Some (p\<lparr>prv_encryption_mode := 0\<rparr>))"

definition lasso_provider_new_helper ::
  "environment \<Rightarrow> (string \<Rightarrow> lasso_provider \<Rightarrow> bool \<times> lasso_provider) \<Rightarrow> int \<Rightarrow> string \<Rightarrow> cstr \<Rightarrow> cstr \<Rightarrow> lasso_provider option" where
  "lasso_provider_new_helper env loader role metadata public_key ca_cert_chain =
     (let (ok, p) = loader metadata (provider_instance_init\<lparr>prv_role := role\<rparr>) in
      if \<not> ok then None
      else load_both_keys env (p\<lparr>prv_public_key := public_key, prv_ca_cert_chain := ca_cert_chain\<rparr>))"

definition lasso_provider_new :: "environment \<Rightarrow> int \<Rightarrow> string \<Rightarrow> cstr \<Rightarrow> cstr \<Rightarrow> lasso_provider option" where
  "lasso_provider_new env = lasso_provider_new_helper env (lasso_provider_load_metadata env False)"

definition lasso_provider_new_from_buffer :: "environment \<Rightarrow> int \<Rightarrow> string \<Rightarrow> cstr \<Rightarrow> cstr \<Rightarrow> lasso_provider option" where
  "lasso_provider_new_from_buffer env = lasso_provider_new_helper env (lasso_provider_load_metadata_from_buffer env False)"

definition lasso_provider_new_from_xmlnode :: "environment \<Rightarrow> xml \<Rightarrow> int \<Rightarrow> xml \<Rightarrow> lasso_provider option" where
  "lasso_provider_new_from_xmlnode env root role node =
     (let (ok, p) = lasso_provider_load_metadata_from_xmlnode env False root node
                      (provider_instance_init\<lparr>prv_role := role\<rparr>)
      in if \<not> ok then None else load_both_keys env p)"

section \<open>Signature contexts\<close>

text \<open>\<^verbatim>\<open>LASSO_SIGNATURE_CONTEXT_NONE\<close> has method 0 and no key.\<close>

definition LASSO_SIGNATURE_CONTEXT_NONE :: signature_context where
  "LASSO_SIGNATURE_CONTEXT_NONE = \<lparr>sctx_method = 0, sctx_key = None\<rparr>"

definition lasso_ok_signature_method :: "environment \<Rightarrow> int \<Rightarrow> bool" where
  "lasso_ok_signature_method env m \<longleftrightarrow> lasso_validate_signature_method m \<and> lasso_allowed_signature_method (env_min_signature_method env) m"

definition lasso_validate_signature_context :: "signature_context \<Rightarrow> bool" where
  "lasso_validate_signature_context c \<longleftrightarrow> lasso_validate_signature_method (sctx_method c) \<and> sctx_key c \<noteq> None"

text \<open>The context of a key, \<^verbatim>\<open>lasso_key_get_signature_context\<close>, is given; \<open>None\<close> stands for an object
  that is not a key.\<close>

definition lasso_provider_set_server_signing_key ::
  "lasso_provider \<Rightarrow> signature_context option \<Rightarrow> int \<times> lasso_provider" where
  "lasso_provider_set_server_signing_key p key =
     (case key of
        None \<Rightarrow> (LASSO_PARAM_ERROR_BAD_TYPE_OR_NULL_OBJ, p)
      | Some c \<Rightarrow>
          if \<not> lasso_validate_signature_context c then (LASSO_DS_ERROR_PRIVATE_KEY_LOAD_FAILED, p)
          else (0, p\<lparr>prv_signature_context := Some c\<rparr>))"

end
