(* ===== verification/Lasso_Assertion.thy ===== *)
theory Lasso_Assertion
  imports Lasso_Nodes Lasso_Tools
begin

text \<open>
  The helpers of \<^verbatim>\<open>lasso/saml-2.0/saml2_helper.c\<close> on SAML 2.0 assertions: building and checking the
  conditions of use, the subject confirmation, attributes, and decrypting the subject.  The current
  time (\<^verbatim>\<open>time(NULL)\<close>) is a parameter.
\<close>

section \<open>Validation states\<close>

datatype validation_state =
    LASSO_SAML2_ASSERTION_VALID
  | LASSO_SAML2_ASSERTION_INVALID
  | LASSO_SAML2_ASSERTION_INDETERMINATE

section \<open>Parts of an assertion\<close>

definition lasso_saml2_assertion_get_audience_restrictions :: "saml2_assertion \<Rightarrow> audience_restriction list" where
  "lasso_saml2_assertion_get_audience_restrictions a =
     (case asn_Conditions a of None \<Rightarrow> [] | Some c \<Rightarrow> cd_AudienceRestriction c)"

definition lasso_saml2_assertion_has_audience_restriction :: "saml2_assertion \<Rightarrow> bool" where
  "lasso_saml2_assertion_has_audience_restriction a =
     (lasso_saml2_assertion_get_audience_restrictions a \<noteq> [])"

definition lasso_saml2_assertion_is_audience_restricted :: "saml2_assertion \<Rightarrow> cstr \<Rightarrow> bool" where
  "lasso_saml2_assertion_is_audience_restricted a providerID =
     list_ex (\<lambda>r. lasso_strisequal (ar_Audience r) providerID)
       (lasso_saml2_assertion_get_audience_restrictions a)"

definition lasso_saml2_name_id_build_persistent :: "cstr \<Rightarrow> cstr \<Rightarrow> cstr \<Rightarrow> name_id" where
  "lasso_saml2_name_id_build_persistent i idpID providerID =
     lasso_saml2_name_id_new\<lparr>nid_content := i,
       nid_Format := Some LASSO_SAML2_NAME_IDENTIFIER_FORMAT_PERSISTENT,
       nid_NameQualifier := idpID, nid_SPNameQualifier := providerID\<rparr>"

definition lasso_saml2_name_id_new_with_persistent_format :: "cstr \<Rightarrow> cstr \<Rightarrow> cstr \<Rightarrow> name_id" where
  "lasso_saml2_name_id_new_with_persistent_format i idpID providerID =
     lasso_saml2_name_id_build_persistent i idpID providerID"

text \<open>The accessors that create what is missing are given as the object they return, with the assertion
  that holds it.\<close>

definition lasso_saml2_assertion_get_conditions ::
  "saml2_assertion \<Rightarrow> bool \<Rightarrow> conditions option \<times> saml2_assertion" where
  "lasso_saml2_assertion_get_conditions a create =
     (if asn_Conditions a = None \<and> create
      then (Some lasso_saml2_conditions_new, a\<lparr>asn_Conditions := Some lasso_saml2_conditions_new\<rparr>)
      else (asn_Conditions a, a))"

definition lasso_saml2_assertion_get_subject ::
  "saml2_assertion \<Rightarrow> bool \<Rightarrow> subject option \<times> saml2_assertion" where
  "lasso_saml2_assertion_get_subject a create =
     (if asn_Subject a = None \<and> create
      then (Some lasso_saml2_subject_new, a\<lparr>asn_Subject := Some lasso_saml2_subject_new\<rparr>)
      else (asn_Subject a, a))"

definition lasso_saml2_assertion_get_subject_confirmation ::
  "saml2_assertion \<Rightarrow> bool \<Rightarrow> subject_confirmation option \<times> saml2_assertion" where
  "lasso_saml2_assertion_get_subject_confirmation a create =
     (let (subject, a) = lasso_saml2_assertion_get_subject a create in
      case subject of
        None \<Rightarrow> (None, a)
      | Some s \<Rightarrow>
          if sb_SubjectConfirmation s = None \<and> create
          then (Some lasso_saml2_subject_confirmation_new,
                a\<lparr>asn_Subject := Some (s\<lparr>sb_SubjectConfirmation := Some lasso_saml2_subject_confirmation_new\<rparr>)\<rparr>)
          else (sb_SubjectConfirmation s, a))"

definition set_subject_confirmation :: "saml2_assertion \<Rightarrow> subject_confirmation \<Rightarrow> saml2_assertion" where
  "set_subject_confirmation a sc =
     a\<lparr>asn_Subject := map_option (\<lambda>s. s\<lparr>sb_SubjectConfirmation := Some sc\<rparr>) (asn_Subject a)\<rparr>"

definition lasso_saml2_assertion_get_subject_confirmation_data ::
  "saml2_assertion \<Rightarrow> bool \<Rightarrow> subject_confirmation_data option \<times> saml2_assertion" where
  "lasso_saml2_assertion_get_subject_confirmation_data a create =
     (let (confirmation, a) = lasso_saml2_assertion_get_subject_confirmation a create in
      case confirmation of
        None \<Rightarrow> (None, a)
      | Some sc \<Rightarrow>
          if sc_SubjectConfirmationData sc = None \<and> create
          then (Some lasso_saml2_subject_confirmation_data_new,
                set_subject_confirmation a
                  (sc\<lparr>sc_SubjectConfirmationData := Some lasso_saml2_subject_confirmation_data_new\<rparr>))
          else (sc_SubjectConfirmationData sc, a))"

datatype name_or_encrypted = PlainNameID name_id | EncryptedNameID encrypted_element | NeitherNameID

definition lasso_saml2_assertion_set_subject_name_id ::
  "saml2_assertion \<Rightarrow> name_or_encrypted \<Rightarrow> saml2_assertion" where
  "lasso_saml2_assertion_set_subject_name_id a node =
     (let a = snd (lasso_saml2_assertion_get_subject a True) in
      a\<lparr>asn_Subject := map_option
          (\<lambda>s. case node of
                 PlainNameID n \<Rightarrow> s\<lparr>sb_NameID := Some n\<rparr>
               | EncryptedNameID e \<Rightarrow> s\<lparr>sb_EncryptedID := Some e\<rparr>
               | NeitherNameID \<Rightarrow> s)
          (asn_Subject a)\<rparr>)"

definition lasso_saml2_assertion_set_subject_confirmation_name_id ::
  "saml2_assertion \<Rightarrow> name_or_encrypted \<Rightarrow> saml2_assertion" where
  "lasso_saml2_assertion_set_subject_confirmation_name_id a node =
     (case lasso_saml2_assertion_get_subject_confirmation a True of
        (None, a) \<Rightarrow> a
      | (Some sc, a) \<Rightarrow>
          set_subject_confirmation a
            (case node of
               PlainNameID n \<Rightarrow> sc\<lparr>sc_NameID := Some n\<rparr>
             | EncryptedNameID e \<Rightarrow> sc\<lparr>sc_EncryptedID := Some e\<rparr>
             | NeitherNameID \<Rightarrow> sc))"

section \<open>Setting conditions\<close>

text \<open>The pair of dates that \<^verbatim>\<open>set_notbefore_and_notonorafter\<close> writes, or nothing when one of its
  arguments is -1.\<close>

definition set_notbefore_and_notonorafter :: "int \<Rightarrow> int \<Rightarrow> int \<Rightarrow> (cstr \<times> cstr) option" where
  "set_notbefore_and_notonorafter now tolerance duration =
     (if tolerance \<noteq> -1 \<and> duration \<noteq> -1
      then Some (lasso_time_to_iso_8601_gmt (now - tolerance),
                 lasso_time_to_iso_8601_gmt (now + duration + tolerance))
      else None)"

definition lasso_saml2_assertion_set_subject_confirmation_data ::
  "int \<Rightarrow> saml2_assertion \<Rightarrow> int \<Rightarrow> int \<Rightarrow> cstr \<Rightarrow> cstr \<Rightarrow> cstr \<Rightarrow> saml2_assertion" where
  "lasso_saml2_assertion_set_subject_confirmation_data now a tolerance duration recipient in_response_to address =
     (let a = snd (lasso_saml2_assertion_get_subject_confirmation_data a True) in
      case lasso_saml2_assertion_get_subject_confirmation a False of
        (None, _) \<Rightarrow> a
      | (Some sc, _) \<Rightarrow>
          set_subject_confirmation a
            (sc\<lparr>sc_SubjectConfirmationData := map_option
                (\<lambda>d. (case set_notbefore_and_notonorafter now tolerance duration of
                        None \<Rightarrow> d
                      | Some (nb, noa) \<Rightarrow> d\<lparr>scd_NotBefore := nb, scd_NotOnOrAfter := noa\<rparr>)
                       \<lparr>scd_Recipient := recipient, scd_InResponseTo := in_response_to, scd_Address := address\<rparr>)
                (sc_SubjectConfirmationData sc)\<rparr>))"

definition lasso_saml2_assertion_set_one_time_use :: "saml2_assertion \<Rightarrow> bool \<Rightarrow> saml2_assertion" where
  "lasso_saml2_assertion_set_one_time_use a one_time_use =
     (let a = snd (lasso_saml2_assertion_get_conditions a True) in
      a\<lparr>asn_Conditions := map_option
          (\<lambda>c. let c = c\<lparr>cd_OneTimeUse := cd_OneTimeUse c @ [()]\<rparr> in
                if one_time_use then c\<lparr>cd_OneTimeUse := cd_OneTimeUse c @ [()]\<rparr> else c\<lparr>cd_OneTimeUse := []\<rparr>)
          (asn_Conditions a)\<rparr>)"

definition lasso_saml2_assertion_set_basic_conditions ::
  "int \<Rightarrow> saml2_assertion \<Rightarrow> int \<Rightarrow> int \<Rightarrow> bool \<Rightarrow> saml2_assertion" where
  "lasso_saml2_assertion_set_basic_conditions now a tolerance duration one_time_use =
     (let a = snd (lasso_saml2_assertion_get_conditions a True);
          a = (case set_notbefore_and_notonorafter now tolerance duration of
                 None \<Rightarrow> a
               | Some (nb, noa) \<Rightarrow>
                   a\<lparr>asn_Conditions := map_option
                       (\<lambda>c. c\<lparr>cd_NotBefore := nb, cd_NotOnOrAfter := noa\<rparr>) (asn_Conditions a)\<rparr>)
      in lasso_saml2_assertion_set_one_time_use a one_time_use)"

definition lasso_saml2_assertion_add_audience_restriction :: "saml2_assertion \<Rightarrow> cstr \<Rightarrow> saml2_assertion" where
  "lasso_saml2_assertion_add_audience_restriction a providerID =
     (let a = snd (lasso_saml2_assertion_get_conditions a True) in
      a\<lparr>asn_Conditions := map_option
          (\<lambda>c. c\<lparr>cd_AudienceRestriction := cd_AudienceRestriction c @ [\<lparr>ar_Audience = providerID\<rparr>]\<rparr>)
          (asn_Conditions a)\<rparr>)"

text \<open>The restriction is built, with its count printed by \<open>show_int\<close>, and not attached to the
  conditions: all that is left is that the conditions exist.\<close>

definition lasso_saml2_assertion_add_proxy_limit ::
  "(int \<Rightarrow> string) \<Rightarrow> saml2_assertion \<Rightarrow> int \<Rightarrow> string list \<Rightarrow> proxy_restriction \<times> saml2_assertion" where
  "lasso_saml2_assertion_add_proxy_limit show_int a proxy_count proxy_audiences =
     (let a = snd (lasso_saml2_assertion_get_conditions a True) in
      (\<lparr>pr_Audience = (case proxy_audiences of [] \<Rightarrow> None | x # _ \<Rightarrow> Some x),
        pr_Count = (if proxy_count \<ge> 0 then Some (show_int proxy_count) else None)\<rparr>, a))"

section \<open>Checking conditions\<close>

definition lasso_saml2_assertion_validate_time_checks ::
  "int \<Rightarrow> saml2_assertion \<Rightarrow> int \<Rightarrow> int \<Rightarrow> validation_state" where
  "lasso_saml2_assertion_validate_time_checks system_time a tolerance now =
     (case asn_Conditions a of
        None \<Rightarrow> LASSO_SAML2_ASSERTION_VALID
      | Some c \<Rightarrow>
          (let now = (if now = 0 then system_time else now);
               upper =
                 (case cd_NotOnOrAfter c of
                    None \<Rightarrow> LASSO_SAML2_ASSERTION_VALID
                  | Some s \<Rightarrow>
                      (let b = lasso_iso_8601_gmt_to_time_t (Some s) + tolerance in
                       if b = -1 then LASSO_SAML2_ASSERTION_INDETERMINATE
                       else if now \<ge> b then LASSO_SAML2_ASSERTION_INVALID
                       else LASSO_SAML2_ASSERTION_VALID))
           in case cd_NotBefore c of
                None \<Rightarrow> upper
              | Some s \<Rightarrow>
                  (let x = lasso_iso_8601_gmt_to_time_t (Some s) - tolerance in
                   if x = -1 then LASSO_SAML2_ASSERTION_INDETERMINATE
                   else if now < x then LASSO_SAML2_ASSERTION_INVALID
                   else upper)))"

definition lasso_saml2_assertion_has_one_time_use :: "saml2_assertion \<Rightarrow> bool" where
  "lasso_saml2_assertion_has_one_time_use a =
     (case asn_Conditions a of None \<Rightarrow> False | Some c \<Rightarrow> cd_OneTimeUse c \<noteq> [])"

definition lasso_saml2_assertion_allows_proxying :: "saml2_assertion \<Rightarrow> validation_state" where
  "lasso_saml2_assertion_allows_proxying a =
     (case asn_Conditions a of
        None \<Rightarrow> LASSO_SAML2_ASSERTION_VALID
      | Some c \<Rightarrow>
          (case cd_ProxyRestriction c of
             [] \<Rightarrow> LASSO_SAML2_ASSERTION_VALID
           | [r] \<Rightarrow>
               (if pr_Count r = None then LASSO_SAML2_ASSERTION_VALID
                else case lasso_string_to_xsd_integer (pr_Count r) 0 of
                       (ok, count) \<Rightarrow>
                         if \<not> ok \<or> count < 0 then LASSO_SAML2_ASSERTION_INDETERMINATE
                         else if count = 0 then LASSO_SAML2_ASSERTION_INVALID
                         else LASSO_SAML2_ASSERTION_VALID)
           | _ \<Rightarrow> LASSO_SAML2_ASSERTION_INDETERMINATE))"

definition lasso_saml2_assertion_allows_proxying_to :: "saml2_assertion \<Rightarrow> cstr \<Rightarrow> validation_state" where
  "lasso_saml2_assertion_allows_proxying_to a audience =
     (case asn_Conditions a of
        None \<Rightarrow> LASSO_SAML2_ASSERTION_VALID
      | Some c \<Rightarrow>
          (case cd_ProxyRestriction c of
             [] \<Rightarrow> LASSO_SAML2_ASSERTION_VALID
           | [r] \<Rightarrow> if lasso_strisnotequal (pr_Audience r) audience then LASSO_SAML2_ASSERTION_INVALID
                     else LASSO_SAML2_ASSERTION_VALID
           | _ \<Rightarrow> LASSO_SAML2_ASSERTION_INDETERMINATE))"

definition lasso_saml2_assertion_validate_audience :: "saml2_assertion \<Rightarrow> cstr \<Rightarrow> validation_state" where
  "lasso_saml2_assertion_validate_audience a audience =
     (case asn_Conditions a of
        None \<Rightarrow> LASSO_SAML2_ASSERTION_VALID
      | Some c \<Rightarrow>
          (let did_audience = (cd_AudienceRestriction c \<noteq> []);
               found_audience = list_ex (\<lambda>r. lasso_strisequal (ar_Audience r) audience) (cd_AudienceRestriction c)
           in if did_audience \<and> \<not> found_audience then LASSO_SAML2_ASSERTION_INVALID
              else LASSO_SAML2_ASSERTION_VALID))"

definition lasso_saml2_assertion_validate_conditions :: "int \<Rightarrow> saml2_assertion \<Rightarrow> cstr \<Rightarrow> validation_state" where
  "lasso_saml2_assertion_validate_conditions system_time a relaying_party_providerID =
     (let state = lasso_saml2_assertion_validate_time_checks system_time a 0 0 in
      if state \<noteq> LASSO_SAML2_ASSERTION_VALID then state
      else lasso_saml2_assertion_validate_audience a relaying_party_providerID)"

section \<open>Attributes, subject\<close>

definition lasso_saml2_assertion_add_attribute_with_node ::
  "saml2_assertion \<Rightarrow> cstr \<Rightarrow> cstr \<Rightarrow> string option \<Rightarrow> int \<times> saml2_assertion" where
  "lasso_saml2_assertion_add_attribute_with_node a name name_format content =
     (if lasso_strisempty name then (LASSO_PARAM_ERROR_BAD_TYPE_OR_NULL_OBJ, a)
      else if lasso_strisempty name_format then (LASSO_PARAM_ERROR_BAD_TYPE_OR_NULL_OBJ, a)
      else case content of
             None \<Rightarrow> (LASSO_PARAM_ERROR_BAD_TYPE_OR_NULL_OBJ, a)
           | Some x \<Rightarrow>
               (let attr = \<lparr>at_Name = name, at_NameFormat = Some LASSO_SAML2_ATTRIBUTE_NAME_FORMAT_URI,
                            at_FriendlyName = None, at_AttributeValue = [\<lparr>av_any = [x]\<rparr>]\<rparr>
                in (0, a\<lparr>asn_AttributeStatement :=
                         (case asn_AttributeStatement a of
                            [] \<Rightarrow> [\<lparr>ats_Attribute = [attr]\<rparr>]
                          | st # sts \<Rightarrow> st\<lparr>ats_Attribute := ats_Attribute st @ [attr]\<rparr> # sts)\<rparr>)))"

definition lasso_saml2_assertion_get_in_response_to :: "saml2_assertion \<Rightarrow> cstr" where
  "lasso_saml2_assertion_get_in_response_to a =
     (case fst (lasso_saml2_assertion_get_subject_confirmation_data a False) of
        None \<Rightarrow> None
      | Some d \<Rightarrow> scd_InResponseTo d)"

text \<open>The private keys of the server are tried one after the other until one decrypts.  The decryption
  with one key is xmlsec's, the parameter \<open>decrypt\<close>: its return code and the node on success.\<close>

fun try_private_keys ::
  "(encrypted_element \<Rightarrow> string \<Rightarrow> int \<times> 'n option) \<Rightarrow> encrypted_element \<Rightarrow> int \<Rightarrow> string list \<Rightarrow> int \<times> 'n option" where
  "try_private_keys decrypt e rc [] = (rc, None)"
| "try_private_keys decrypt e rc (k # ks) =
     (case decrypt e k of (rc', n) \<Rightarrow> if rc' = 0 then (0, n) else try_private_keys decrypt e rc' ks)"

definition lasso_saml2_encrypted_element_server_decrypt ::
  "(encrypted_element \<Rightarrow> string \<Rightarrow> int \<times> 'n option) \<Rightarrow> encrypted_element \<Rightarrow> string list \<Rightarrow> int \<times> 'n option" where
  "lasso_saml2_encrypted_element_server_decrypt decrypt e private_keys =
     (if private_keys = [] then (LASSO_PROFILE_ERROR_MISSING_ENCRYPTION_PRIVATE_KEY, None)
      else try_private_keys decrypt e 0 private_keys)"

definition lasso_saml2_assertion_decrypt_subject ::
  "(encrypted_element \<Rightarrow> string \<Rightarrow> int \<times> name_id option) \<Rightarrow> saml2_assertion \<Rightarrow> string list \<Rightarrow> int \<times> saml2_assertion" where
  "lasso_saml2_assertion_decrypt_subject decrypt a private_keys =
     (case asn_Subject a of
        None \<Rightarrow> (0, a)
      | Some s \<Rightarrow>
          (case (sb_NameID s, sb_EncryptedID s) of
             (None, Some e) \<Rightarrow>
               (case lasso_saml2_encrypted_element_server_decrypt decrypt e private_keys of
                  (rc, Some n) \<Rightarrow> (rc, a\<lparr>asn_Subject := Some (s\<lparr>sb_NameID := Some n\<rparr>)\<rparr>)
                | (rc, None) \<Rightarrow> (rc, a))
           | _ \<Rightarrow> (0, a)))"

section \<open>Laws\<close>

lemmas creation_defs =
  lasso_saml2_assertion_get_conditions_def lasso_saml2_assertion_get_subject_def
  lasso_saml2_assertion_get_subject_confirmation_def
  lasso_saml2_assertion_get_subject_confirmation_data_def set_subject_confirmation_def

lemma get_conditions_create:
  "\<exists>c. asn_Conditions (snd (lasso_saml2_assertion_get_conditions a True)) = Some c"
  by (auto simp: lasso_saml2_assertion_get_conditions_def)

lemma iso_date_parsed:
  assumes "0 \<le> t" and "t < 253402300800"
  obtains s where "lasso_time_to_iso_8601_gmt t = Some s" and "lasso_iso_8601_gmt_to_time_t (Some s) = t"
  using iso_8601_parsed_back[OF assms] by blast

lemma set_basic_conditions_dates:
  assumes "0 \<le> t" "0 \<le> l" "t \<le> now" "now + l + t < 253402300800"
  shows "\<exists>c s1 s2. asn_Conditions (lasso_saml2_assertion_set_basic_conditions now a t l u) = Some c \<and>
    cd_NotBefore c = Some s1 \<and> lasso_iso_8601_gmt_to_time_t (Some s1) = now - t \<and>
    cd_NotOnOrAfter c = Some s2 \<and> lasso_iso_8601_gmt_to_time_t (Some s2) = now + l + t \<and>
    cd_AudienceRestriction c = (case asn_Conditions a of None \<Rightarrow> [] | Some c \<Rightarrow> cd_AudienceRestriction c)"
proof -
  obtain s1 where s1: "lasso_time_to_iso_8601_gmt (now - t) = Some s1"
    "lasso_iso_8601_gmt_to_time_t (Some s1) = now - t"
    using assms by (elim iso_date_parsed[of "now - t", rotated -1]) auto
  obtain s2 where s2: "lasso_time_to_iso_8601_gmt (now + l + t) = Some s2"
    "lasso_iso_8601_gmt_to_time_t (Some s2) = now + l + t"
    using assms by (elim iso_date_parsed[of "now + l + t", rotated -1]) auto
  show ?thesis
    using assms s1 s2
    by (auto simp: lasso_saml2_assertion_set_basic_conditions_def lasso_saml2_assertion_set_one_time_use_def
        lasso_saml2_assertion_get_conditions_def set_notbefore_and_notonorafter_def Let_def
        lasso_saml2_conditions_new_def split: option.split)
qed

lemma try_private_keys_ok:
  "fst (try_private_keys decrypt e rc ks) = 0 \<longleftrightarrow>
     (if ks = [] then rc = 0 else \<exists>k \<in> set ks. fst (decrypt e k) = 0)"
  by (induction decrypt e rc ks rule: try_private_keys.induct) (auto split: prod.splits if_splits)

lemma subject_confirmation_data_created:
  "\<exists>s sc d. asn_Subject (snd (lasso_saml2_assertion_get_subject_confirmation_data a True)) = Some s \<and>
     sb_SubjectConfirmation s = Some sc \<and> sc_SubjectConfirmationData sc = Some d"
proof (cases "asn_Subject a")
  case None
  then show ?thesis
    by (simp add: creation_defs lasso_saml2_subject_new_def lasso_saml2_subject_confirmation_new_def)
next
  case s: (Some s)
  show ?thesis
  proof (cases "sb_SubjectConfirmation s")
    case None
    then show ?thesis using s by (simp add: creation_defs lasso_saml2_subject_confirmation_new_def)
  next
    case (Some sc)
    then show ?thesis using s by (cases "sc_SubjectConfirmationData sc") (simp_all add: creation_defs)
  qed
qed

section \<open>Properties\<close>

text \<open>C37: the conditions that the issuer sets at an instant make the assertion valid, for a relying
  party that checks with its own tolerance, exactly from the lower to below the upper end of the
  window widened by both tolerances.\<close>

theorem conditions_time_window:
  assumes "0 \<le> t" "0 \<le> l" "t \<le> now" "now + l + t < 253402300800"
    and "0 \<le> r" "r < now - t" "check \<noteq> 0"
  shows "lasso_saml2_assertion_validate_time_checks sys
           (lasso_saml2_assertion_set_basic_conditions now a t l u) r check =
         (if now - t - r \<le> check \<and> check < now + l + t + r
          then LASSO_SAML2_ASSERTION_VALID else LASSO_SAML2_ASSERTION_INVALID)"
proof -
  obtain c s1 s2 where c: "asn_Conditions (lasso_saml2_assertion_set_basic_conditions now a t l u) = Some c"
    "cd_NotBefore c = Some s1" "lasso_iso_8601_gmt_to_time_t (Some s1) = now - t"
    "cd_NotOnOrAfter c = Some s2" "lasso_iso_8601_gmt_to_time_t (Some s2) = now + l + t"
    using set_basic_conditions_dates[OF assms(1-4)] by metis
  then show ?thesis
    using assms by (auto simp: lasso_saml2_assertion_validate_time_checks_def Let_def)
qed

theorem conditions_time_window_witness:
  "lasso_saml2_assertion_validate_time_checks 0
     (lasso_saml2_assertion_set_basic_conditions 1700000000 lasso_saml2_assertion_new 60 300 True) 5 1700000300 =
   LASSO_SAML2_ASSERTION_VALID"
  using conditions_time_window[of 60 300 1700000000 5 1700000300 0 lasso_saml2_assertion_new True] by simp

text \<open>A date that cannot be parsed is detected only when no tolerance is given: with a positive
  tolerance an unreadable \<^verbatim>\<open>NotBefore\<close> does not restrict the use of the assertion at all, and an
  unreadable \<^verbatim>\<open>NotOnOrAfter\<close> makes it invalid instead of indeterminate.\<close>

theorem unparsable_date_with_tolerance:
  assumes "asn_Conditions a = Some c" and "0 < r" "r \<le> now"
  shows "(cd_NotBefore c = Some s \<and> lasso_iso_8601_gmt_to_time_t (Some s) = -1 \<and> cd_NotOnOrAfter c = None \<longrightarrow>
            lasso_saml2_assertion_validate_time_checks sys a r now = LASSO_SAML2_ASSERTION_VALID \<and>
            lasso_saml2_assertion_validate_time_checks sys a 0 now = LASSO_SAML2_ASSERTION_INDETERMINATE) \<and>
         (cd_NotOnOrAfter c = Some s \<and> lasso_iso_8601_gmt_to_time_t (Some s) = -1 \<and> cd_NotBefore c = None \<longrightarrow>
            lasso_saml2_assertion_validate_time_checks sys a r now = LASSO_SAML2_ASSERTION_INVALID \<and>
            lasso_saml2_assertion_validate_time_checks sys a 0 now = LASSO_SAML2_ASSERTION_INDETERMINATE)"
  using assms by (auto simp: lasso_saml2_assertion_validate_time_checks_def Let_def)

theorem unparsable_date_with_tolerance_witness:
  "lasso_saml2_assertion_validate_time_checks 0
     (lasso_saml2_assertion_new\<lparr>asn_Conditions := Some (lasso_saml2_conditions_new\<lparr>cd_NotBefore := Some ''x''\<rparr>)\<rparr>) 5 10 =
   LASSO_SAML2_ASSERTION_VALID"
proof -
  have "lasso_iso_8601_gmt_to_time_t (Some ''x'') = -1"
    by (simp add: lasso_iso_8601_gmt_to_time_t_def xsdtime_format1_def xsdtime_format2_def is_digit_def)
  then show ?thesis
    using unparsable_date_with_tolerance[of
        "lasso_saml2_assertion_new\<lparr>asn_Conditions := Some (lasso_saml2_conditions_new\<lparr>cd_NotBefore := Some ''x''\<rparr>)\<rparr>"
        "lasso_saml2_conditions_new\<lparr>cd_NotBefore := Some ''x''\<rparr>" 5 10 "''x''" 0]
    by (simp add: lasso_saml2_conditions_new_def)
qed

text \<open>After audience restrictions for a list of providers were added to a new assertion, the
  audience check accepts exactly those providers; with an empty list it accepts everyone.\<close>

theorem audience_restrictions_exact:
  "lasso_saml2_assertion_validate_audience
     (fold (\<lambda>p a. lasso_saml2_assertion_add_audience_restriction a (Some p)) ps lasso_saml2_assertion_new) (Some q) =
   (if ps = [] \<or> q \<in> set ps then LASSO_SAML2_ASSERTION_VALID else LASSO_SAML2_ASSERTION_INVALID)"
proof -
  let ?f = "\<lambda>p a. lasso_saml2_assertion_add_audience_restriction a (Some p)"
  have "lasso_saml2_assertion_get_audience_restrictions (fold ?f ps a) =
      lasso_saml2_assertion_get_audience_restrictions a @ map (\<lambda>p. \<lparr>ar_Audience = Some p\<rparr>) ps" for a
    by (induction ps arbitrary: a)
      (auto simp: lasso_saml2_assertion_add_audience_restriction_def Let_def
        lasso_saml2_assertion_get_audience_restrictions_def lasso_saml2_assertion_get_conditions_def
        lasso_saml2_conditions_new_def split: option.split)
  from this[of lasso_saml2_assertion_new] show ?thesis
    by (auto simp: lasso_saml2_assertion_validate_audience_def lasso_saml2_assertion_get_audience_restrictions_def
        lasso_saml2_assertion_new_def list_ex_iff image_iff split: option.splits)
qed

text \<open>The limit on proxying that an issuer adds is lost: whether an assertion allows proxying does
  not depend on it.\<close>

theorem proxy_limit_has_no_effect:
  "lasso_saml2_assertion_allows_proxying (snd (lasso_saml2_assertion_add_proxy_limit sh a n auds)) =
     lasso_saml2_assertion_allows_proxying a \<and>
   lasso_saml2_assertion_allows_proxying_to (snd (lasso_saml2_assertion_add_proxy_limit sh a n auds)) p =
     lasso_saml2_assertion_allows_proxying_to a p"
  by (auto simp: lasso_saml2_assertion_add_proxy_limit_def lasso_saml2_assertion_allows_proxying_def
      lasso_saml2_assertion_allows_proxying_to_def lasso_saml2_assertion_get_conditions_def
      lasso_saml2_conditions_new_def)

text \<open>The subject confirmation data that the issuer sets on an assertion is what the relying party
  reads: the identifier of the request, whether or not the assertion had a subject before.\<close>

theorem in_response_to_roundtrip:
  "lasso_saml2_assertion_get_in_response_to
     (lasso_saml2_assertion_set_subject_confirmation_data now a tol l recipient irt addr) = irt"
proof -
  have set_get: "fst (lasso_saml2_assertion_get_subject_confirmation_data (set_subject_confirmation b sc) False) =
      (if asn_Subject b = None then None else sc_SubjectConfirmationData sc)" for b sc
    by (auto simp: creation_defs)
  obtain s sc d where a': "asn_Subject (snd (lasso_saml2_assertion_get_subject_confirmation_data a True)) = Some s"
    "sb_SubjectConfirmation s = Some sc" "sc_SubjectConfirmationData sc = Some d"
    using subject_confirmation_data_created by blast
  then have "fst (lasso_saml2_assertion_get_subject_confirmation
      (snd (lasso_saml2_assertion_get_subject_confirmation_data a True)) False) = Some sc"
    by (simp add: lasso_saml2_assertion_get_subject_confirmation_def lasso_saml2_assertion_get_subject_def)
  then show ?thesis
    using a'
    by (auto simp: lasso_saml2_assertion_get_in_response_to_def set_get Let_def
        lasso_saml2_assertion_set_subject_confirmation_data_def split: prod.split option.splits)
qed

end
