(* ===== verification/Lasso_Server.thy ===== *)
theory Lasso_Server
  imports Lasso_Metadata Lasso_Assertion
begin

text \<open>
  The server, \<^verbatim>\<open>lasso/id-ff/server.c\<close> and \<^verbatim>\<open>lasso/saml-2.0/server.c\<close>: the local provider with its private
  keys, the table of the providers it knows, the loading of federation metadata with its signature
  checks, affiliations, and the choice of the key that signs a message.
\<close>

section \<open>State\<close>

text \<open>The table of ID-WSF services is left out.\<close>

record lasso_server =
  srv_parent :: lasso_provider
  srv_providers :: "(string, lasso_provider) ghash"
  srv_private_key :: cstr
  srv_private_key_password :: cstr
  srv_certificate :: cstr
  srv_signature_method :: int
  srv_encryption_private_keys :: "string list"

definition server_instance_init :: "environment \<Rightarrow> lasso_server" where
  "server_instance_init env = \<lparr>srv_parent = provider_instance_init, srv_providers = [], srv_private_key = None,
     srv_private_key_password = None, srv_certificate = None,
     srv_signature_method = env_default_signature_method env, srv_encryption_private_keys = []\<rparr>"

section \<open>Providers\<close>

definition lasso_server_get_provider :: "lasso_server option \<Rightarrow> cstr \<Rightarrow> lasso_provider option" where
  "lasso_server_get_provider server providerID =
     (case (server, providerID) of
        (Some s, Some i) \<Rightarrow> if i = [] then None else ght_lookup (srv_providers s) i
      | _ \<Rightarrow> None)"

definition lasso_server_add_provider2 :: "lasso_server \<Rightarrow> lasso_provider option \<Rightarrow> int \<times> lasso_server" where
  "lasso_server_add_provider2 s provider =
     (case provider of
        None \<Rightarrow> (LASSO_PARAM_ERROR_BAD_TYPE_OR_NULL_OBJ, s)
      | Some p \<Rightarrow>
          (case prv_ProviderID p of
             None \<Rightarrow> (LASSO_PARAM_ERROR_NON_INITIALIZED_OBJECT, s)
           | Some i \<Rightarrow> (0, s\<lparr>srv_providers := ght_insert i p (srv_providers s)\<rparr>)))"

text \<open>The result of \<^verbatim>\<open>lasso_server_add_provider2\<close> is not looked at.\<close>

definition lasso_server_add_provider_helper ::
  "(int \<Rightarrow> string \<Rightarrow> cstr \<Rightarrow> cstr \<Rightarrow> lasso_provider option) \<Rightarrow> lasso_server \<Rightarrow> int \<Rightarrow> cstr \<Rightarrow> cstr \<Rightarrow> cstr \<Rightarrow> int \<times> lasso_server" where
  "lasso_server_add_provider_helper provider_constructor s role metadata public_key ca_cert_chain =
     (case metadata of
        None \<Rightarrow> (LASSO_PARAM_ERROR_INVALID_VALUE, s)
      | Some m \<Rightarrow>
          (case provider_constructor role m public_key ca_cert_chain of
             None \<Rightarrow> (LASSO_SERVER_ERROR_ADD_PROVIDER_FAILED, s)
           | Some p \<Rightarrow>
               (let p = p\<lparr>prv_role := role\<rparr> in
                if prv_conformance (srv_parent s) = LASSO_PROTOCOL_SAML_2_0 \<and> prv_conformance p \<noteq> LASSO_PROTOCOL_SAML_2_0
                then (LASSO_SERVER_ERROR_ADD_PROVIDER_PROTOCOL_MISMATCH, s)
                else if prv_conformance (srv_parent s) = LASSO_PROTOCOL_LIBERTY_1_2 \<and>
                        prv_conformance p > LASSO_PROTOCOL_LIBERTY_1_2
                then (LASSO_SERVER_ERROR_ADD_PROVIDER_PROTOCOL_MISMATCH, s)
                else (0, snd (lasso_server_add_provider2 s (Some p))))))"

definition lasso_server_add_provider ::
  "environment \<Rightarrow> lasso_server \<Rightarrow> int \<Rightarrow> cstr \<Rightarrow> cstr \<Rightarrow> cstr \<Rightarrow> int \<times> lasso_server" where
  "lasso_server_add_provider env = lasso_server_add_provider_helper (lasso_provider_new env)"

definition lasso_server_add_provider_from_buffer ::
  "environment \<Rightarrow> lasso_server \<Rightarrow> int \<Rightarrow> cstr \<Rightarrow> cstr \<Rightarrow> cstr \<Rightarrow> int \<times> lasso_server" where
  "lasso_server_add_provider_from_buffer env = lasso_server_add_provider_helper (lasso_provider_new_from_buffer env)"

definition lasso_server_get_endpoint_url_by_id :: "lasso_server \<Rightarrow> cstr \<Rightarrow> string \<Rightarrow> cstr" where
  "lasso_server_get_endpoint_url_by_id s provider_id endpoint_description =
     (case lasso_server_get_provider (Some s) provider_id of
        None \<Rightarrow> None | Some p \<Rightarrow> lasso_provider_get_metadata_one p endpoint_description)"

text \<open>The traversals of the table take the order of its entries.\<close>

definition lasso_server_get_first_providerID_by_role :: "lasso_server \<Rightarrow> int \<Rightarrow> cstr" where
  "lasso_server_get_first_providerID_by_role s role =
     (case List.find (\<lambda>p. prv_role p = role \<or> role = LASSO_PROVIDER_ROLE_ANY) (ght_values (srv_providers s)) of
        None \<Rightarrow> None | Some p \<Rightarrow> prv_ProviderID p)"

definition lasso_server_get_first_providerID :: "lasso_server \<Rightarrow> cstr" where
  "lasso_server_get_first_providerID s = (case ght_keys (srv_providers s) of [] \<Rightarrow> None | k # _ \<Rightarrow> Some k)"

definition lasso_server_get_providerID_from_hash :: "environment \<Rightarrow> lasso_server \<Rightarrow> string \<Rightarrow> cstr" where
  "lasso_server_get_providerID_from_hash env s b64_hash =
     List.find (\<lambda>key. env_base64_sha1 env key = b64_hash) (ght_keys (srv_providers s))"

text \<open>The filter may change the role of the local provider, which is threaded through the traversal.\<close>

definition filter_provider_list ::
  "int \<Rightarrow> md_protocol_type \<Rightarrow> int \<Rightarrow> lasso_provider \<Rightarrow> lasso_provider \<times> cstr list \<Rightarrow> lasso_provider \<times> cstr list" where
  "filter_provider_list role protocol_type http_method remote st =
     (case st of (p, l) \<Rightarrow>
        if prv_role remote = role then
          (let (ok, p) = lasso_provider_accept_http_method p remote protocol_type http_method False
           in if ok then (p, l @ [prv_ProviderID remote]) else (p, l))
        else (p, l))"

definition lasso_server_get_filtered_provider_list ::
  "lasso_server \<Rightarrow> int \<Rightarrow> md_protocol_type \<Rightarrow> int \<Rightarrow> cstr list \<times> lasso_server" where
  "lasso_server_get_filtered_provider_list s role protocol_type http_method =
     (let (p, l) = fold (filter_provider_list role protocol_type http_method) (ght_values (srv_providers s))
                     (srv_parent s, [])
      in (l, s\<lparr>srv_parent := p\<rparr>))"

section \<open>Keys\<close>

definition lasso_server_set_encryption_private_key_with_password ::
  "environment \<Rightarrow> lasso_server \<Rightarrow> cstr \<Rightarrow> cstr \<Rightarrow> int \<times> lasso_server" where
  "lasso_server_set_encryption_private_key_with_password env s filename_or_buffer password =
     (case filename_or_buffer of
        None \<Rightarrow> (0, s)
      | Some f \<Rightarrow>
          (case env_load_private_key env f password (srv_signature_method s) None of
             Some (key, True) \<Rightarrow> (0, s\<lparr>srv_encryption_private_keys := srv_encryption_private_keys s @ [key]\<rparr>)
           | _ \<Rightarrow> (LASSO_SERVER_ERROR_SET_ENCRYPTION_PRIVATE_KEY_FAILED, s)))"

definition lasso_server_set_encryption_private_key :: "environment \<Rightarrow> lasso_server \<Rightarrow> cstr \<Rightarrow> int \<times> lasso_server" where
  "lasso_server_set_encryption_private_key env s filename_or_buffer =
     lasso_server_set_encryption_private_key_with_password env s filename_or_buffer None"

definition lasso_server_get_encryption_private_keys :: "lasso_server \<Rightarrow> string list" where
  "lasso_server_get_encryption_private_keys s = srv_encryption_private_keys s"

definition lasso_server_get_private_key :: "environment \<Rightarrow> lasso_server \<Rightarrow> cstr" where
  "lasso_server_get_private_key env s =
     (case srv_private_key s of
        None \<Rightarrow> None
      | Some f \<Rightarrow> map_option fst (env_load_private_key env f (srv_private_key_password s) (srv_signature_method s)
                                    (srv_certificate s)))"

definition lasso_make_signature_context_from_path_or_string ::
  "environment \<Rightarrow> cstr \<Rightarrow> cstr \<Rightarrow> int \<Rightarrow> cstr \<Rightarrow> signature_context" where
  "lasso_make_signature_context_from_path_or_string env filename_or_buffer password method certificate =
     (case Option.bind filename_or_buffer (\<lambda>f. env_load_private_key env f password method certificate) of
        None \<Rightarrow> LASSO_SIGNATURE_CONTEXT_NONE
      | Some (key, _) \<Rightarrow> \<lparr>sctx_method = method, sctx_key = Some key\<rparr>)"

definition lasso_server_get_signature_context :: "environment \<Rightarrow> lasso_server \<Rightarrow> int \<times> signature_context" where
  "lasso_server_get_signature_context env s =
     (let context = lasso_make_signature_context_from_path_or_string env (srv_private_key s)
                      (srv_private_key_password s) (srv_signature_method s) (srv_certificate s)
      in if \<not> lasso_validate_signature_context context then (LASSO_DS_ERROR_PRIVATE_KEY_LOAD_FAILED, context)
         else (0, context))"

text \<open>A provider without a context of its own has \<^verbatim>\<open>LASSO_SIGNATURE_CONTEXT_NONE\<close>.\<close>

definition lasso_server_get_signature_context_for_provider ::
  "environment \<Rightarrow> lasso_server option \<Rightarrow> lasso_provider option \<Rightarrow> int \<times> signature_context" where
  "lasso_server_get_signature_context_for_provider env server provider =
     (case server of
        None \<Rightarrow> (LASSO_PARAM_ERROR_BAD_TYPE_OR_NULL_OBJ, LASSO_SIGNATURE_CONTEXT_NONE)
      | Some s \<Rightarrow>
          (case Option.bind provider prv_signature_context of
             Some c \<Rightarrow> if lasso_ok_signature_method env (sctx_method c) then (0, c)
                       else lasso_server_get_signature_context env s
           | None \<Rightarrow> lasso_server_get_signature_context env s))"

definition lasso_server_get_signature_context_for_provider_by_name ::
  "environment \<Rightarrow> lasso_server option \<Rightarrow> cstr \<Rightarrow> int \<times> signature_context" where
  "lasso_server_get_signature_context_for_provider_by_name env server provider_id =
     (case server of
        None \<Rightarrow> (LASSO_PARAM_ERROR_BAD_TYPE_OR_NULL_OBJ, LASSO_SIGNATURE_CONTEXT_NONE)
      | Some s \<Rightarrow> lasso_server_get_signature_context_for_provider env server (lasso_server_get_provider server provider_id))"

text \<open>Signing a query in a context.  The end of the process in \<^verbatim>\<open>lasso_query_sign\<close> is taken for its failure.\<close>

definition sign_query :: "environment \<Rightarrow> string \<Rightarrow> signature_context \<Rightarrow> cstr" where
  "sign_query env query c =
     Option.bind (lasso_query_sign (env_lib env) (env_min_signature_method env) query (sctx_method c) (sctx_key c)) id"

text \<open>Writing the node as a query is a parameter.\<close>

definition lasso_server_export_to_query_for_provider_by_name ::
  "environment \<Rightarrow> ('n \<Rightarrow> cstr) \<Rightarrow> lasso_server option \<Rightarrow> cstr \<Rightarrow> 'n \<Rightarrow> int \<times> cstr" where
  "lasso_server_export_to_query_for_provider_by_name env build_query server provider_id node =
     (let (rc, context) = lasso_server_get_signature_context_for_provider_by_name env server provider_id in
      if rc \<noteq> 0 then (rc, None)
      else case build_query node of
             None \<Rightarrow> (LASSO_PROFILE_ERROR_BUILDING_QUERY_FAILED, None)
           | Some query \<Rightarrow>
               (case (if lasso_ok_signature_method env (sctx_method context) then sign_query env query context
                      else Some query) of
                  None \<Rightarrow> (LASSO_PROFILE_ERROR_BUILDING_QUERY_FAILED, None)
                | Some q \<Rightarrow> (0, Some q)))"

section \<open>Constructors\<close>

definition lasso_server_new_helper ::
  "environment \<Rightarrow> (string \<Rightarrow> lasso_provider \<Rightarrow> bool \<times> lasso_provider) \<Rightarrow> cstr \<Rightarrow> cstr \<Rightarrow> cstr \<Rightarrow> cstr \<Rightarrow> lasso_server option" where
  "lasso_server_new_helper env loader metadata private_key private_key_password certificate =
     (let s = server_instance_init env;
          (ok, parent) = (case metadata of None \<Rightarrow> (True, srv_parent s) | Some m \<Rightarrow> loader m (srv_parent s))
      in if \<not> ok then None
         else let s = s\<lparr>srv_parent := parent, srv_certificate := certificate\<rparr>;
                  (rc, s) = (case private_key of
                               None \<Rightarrow> (0, s)
                             | Some k \<Rightarrow>
                                 lasso_server_set_encryption_private_key_with_password env
                                   (s\<lparr>srv_private_key := Some k, srv_private_key_password := private_key_password\<rparr>)
                                   (Some k) private_key_password)
              in if rc \<noteq> 0 then None
                 else let p = snd (lasso_provider_load_public_key (env_crypto env) (srv_parent s) LASSO_PUBLIC_KEY_SIGNING);
                          p = snd (lasso_provider_load_public_key (env_crypto env) p LASSO_PUBLIC_KEY_ENCRYPTION)
                      in Some (s\<lparr>srv_parent := p\<rparr>))"

definition lasso_server_new :: "environment \<Rightarrow> cstr \<Rightarrow> cstr \<Rightarrow> cstr \<Rightarrow> cstr \<Rightarrow> lasso_server option" where
  "lasso_server_new env = lasso_server_new_helper env (lasso_provider_load_metadata env True)"

definition lasso_server_new_from_buffers :: "environment \<Rightarrow> cstr \<Rightarrow> cstr \<Rightarrow> cstr \<Rightarrow> cstr \<Rightarrow> lasso_server option" where
  "lasso_server_new_from_buffers env = lasso_server_new_helper env (lasso_provider_load_metadata_from_buffer env True)"

section \<open>Affiliations\<close>

definition join_affiliation :: "cstr \<Rightarrow> cstr \<Rightarrow> xml \<Rightarrow> lasso_server \<Rightarrow> lasso_server" where
  "join_affiliation owner_id affiliation_id t s =
     (if is_element t \<and> xml_name t = ''AffiliateMember'' then
        (let member_id = xmlNodeGetContent t in
         case lasso_server_get_provider (Some s) (Some member_id) of
           None \<Rightarrow> s
         | Some p \<Rightarrow>
             s\<lparr>srv_providers := ght_insert member_id
                 (p\<lparr>prv_affiliation_owner_id := owner_id, prv_affiliation_id := affiliation_id\<rparr>) (srv_providers s)\<rparr>)
      else s)"

definition lasso_saml20_server_load_affiliation :: "lasso_server \<Rightarrow> xml \<Rightarrow> int \<times> lasso_server" where
  "lasso_saml20_server_load_affiliation s node =
     (if xml_ns node \<noteq> Some LASSO_SAML2_METADATA_HREF then (LASSO_XML_ERROR_NODE_NOT_FOUND, s)
      else case List.find (\<lambda>t. is_element t \<and> xml_name t = ''AffiliationDescriptor'') (xml_children node) of
             None \<Rightarrow> (LASSO_XML_ERROR_NODE_NOT_FOUND, s)
           | Some t \<Rightarrow>
               (0, fold (join_affiliation (xmlGetProp t ''affiliationOwnerID'') (xmlGetProp node ''entityID''))
                     (xml_children t) s))"

definition lasso_xml_parse_file :: "environment \<Rightarrow> string \<Rightarrow> xml option" where
  "lasso_xml_parse_file env filename = Option.bind (env_file_contents env filename) (env_xml_parse env)"

definition lasso_server_load_affiliation :: "environment \<Rightarrow> lasso_server \<Rightarrow> string \<Rightarrow> int \<times> lasso_server" where
  "lasso_server_load_affiliation env s filename =
     (case lasso_xml_parse_file env filename of
        None \<Rightarrow> (LASSO_XML_ERROR_INVALID_FILE, s)
      | Some node \<Rightarrow>
          if xml_ns node = None then (LASSO_XML_ERROR_NODE_NOT_FOUND, s)
          else if prv_conformance (srv_parent s) = LASSO_PROTOCOL_SAML_2_0
          then lasso_saml20_server_load_affiliation s node
          else (LASSO_ERROR_UNIMPLEMENTED, s))"

unbundle bit_operations_syntax

section \<open>Federation metadata\<close>

abbreviation (input) LASSO_SERVER_LOAD_METADATA_FLAG_DEFAULT :: int where
  "LASSO_SERVER_LOAD_METADATA_FLAG_DEFAULT \<equiv> 0"
abbreviation (input) LASSO_SERVER_LOAD_METADATA_FLAG_CHECK_ENTITIES_DESCRIPTOR_SIGNATURE :: int where
  "LASSO_SERVER_LOAD_METADATA_FLAG_CHECK_ENTITIES_DESCRIPTOR_SIGNATURE \<equiv> 1"
abbreviation (input) LASSO_SERVER_LOAD_METADATA_FLAG_CHECK_ENTITY_DESCRIPTOR_SIGNATURE :: int where
  "LASSO_SERVER_LOAD_METADATA_FLAG_CHECK_ENTITY_DESCRIPTOR_SIGNATURE \<equiv> 2"
abbreviation (input) LASSO_SERVER_LOAD_METADATA_FLAG_INHERIT_SIGNATURE :: int where
  "LASSO_SERVER_LOAD_METADATA_FLAG_INHERIT_SIGNATURE \<equiv> 4"

definition lasso_test_sp_descriptor :: "xml \<Rightarrow> bool" where
  "lasso_test_sp_descriptor node =
     list_ex (\<lambda>t. checkSaml2MdNode t LASSO_SAML2_METADATA_ELEMENT_SP_SSO_DESCRIPTOR) (xml_children node)"

definition lasso_test_idp_descriptor :: "xml \<Rightarrow> bool" where
  "lasso_test_idp_descriptor node =
     list_ex (\<lambda>t. checkSaml2MdNode t LASSO_SAML2_METADATA_ELEMENT_IDP_SSO_DESCRIPTOR) (xml_children node)"

text \<open>What one call of the loader keeps fixed: the environment, the role, the root of the document, the
  refused identifiers and the flags.  The state of the loading is the server and the list of the
  loaded identifiers, the last one first.\<close>

record load_context =
  lc_env :: environment
  lc_role :: int
  lc_root :: xml
  lc_blacklisted :: "string list"
  lc_flags :: int

definition verify_descriptor :: "load_context \<Rightarrow> bool \<Rightarrow> cstr \<Rightarrow> xml \<Rightarrow> int" where
  "verify_descriptor c is_root keys_mngr node =
     fst (lasso_verify_signature (env_crypto (lc_env c)) (env_verify_signature (lc_env c)) node is_root
            (Some ''ID'') keys_mngr None EMPTY_URI)"

definition lasso_saml20_server_load_metadata_entity ::
  "load_context \<Rightarrow> bool \<Rightarrow> cstr \<Rightarrow> xml \<Rightarrow> lasso_server \<times> string list \<Rightarrow> int \<times> lasso_server \<times> string list" where
  "lasso_saml20_server_load_metadata_entity c is_root keys_mngr entity st =
     (let check_signature = (lc_flags c AND LASSO_SERVER_LOAD_METADATA_FLAG_CHECK_ENTITY_DESCRIPTOR_SIGNATURE \<noteq> 0) in
      if lc_role c = LASSO_PROVIDER_ROLE_IDP \<and> \<not> lasso_test_idp_descriptor entity then (0, st)
      else if lc_role c = LASSO_PROVIDER_ROLE_SP \<and> \<not> lasso_test_sp_descriptor entity then (0, st)
      else let result = (if keys_mngr \<noteq> None \<and> check_signature then verify_descriptor c is_root keys_mngr entity else 0) in
           if result \<noteq> 0 then (result, st)
           else case lasso_provider_new_from_xmlnode (lc_env c) (lc_root c) (lc_role c) entity of
                  None \<Rightarrow> (LASSO_SERVER_ERROR_NO_PROVIDER_LOADED, st)
                | Some p \<Rightarrow>
                    (case prv_ProviderID p of
                       None \<Rightarrow> (LASSO_SERVER_ERROR_NO_PROVIDER_LOADED, st)
                     | Some name \<Rightarrow>
                         if name \<in> set (lc_blacklisted c) then (LASSO_SERVER_ERROR_NO_PROVIDER_LOADED, st)
                         else (0, (fst st)\<lparr>srv_providers := ght_insert name p (srv_providers (fst st))\<rparr>, name # snd st)))"

fun lasso_saml20_server_load_metadata_child ::
  "load_context \<Rightarrow> bool \<Rightarrow> cstr \<Rightarrow> xml \<Rightarrow> lasso_server \<times> string list \<Rightarrow> int \<times> lasso_server \<times> string list"
and lasso_saml20_server_load_metadata_entities ::
  "load_context \<Rightarrow> cstr \<Rightarrow> xml list \<Rightarrow> bool \<Rightarrow> lasso_server \<times> string list \<Rightarrow> int \<times> lasso_server \<times> string list" where
  "lasso_saml20_server_load_metadata_child c is_root keys_mngr (Text x) st = (LASSO_SERVER_ERROR_INVALID_XML, st)"
| "lasso_saml20_server_load_metadata_child c is_root keys_mngr (Element n ns ps cs) st =
     (if checkSaml2MdNode (Element n ns ps cs) LASSO_SAML2_METADATA_ELEMENT_ENTITY_DESCRIPTOR
      then lasso_saml20_server_load_metadata_entity c is_root keys_mngr (Element n ns ps cs) st
      else if checkSaml2MdNode (Element n ns ps cs) LASSO_SAML2_METADATA_ELEMENT_ENTITIES_DESCRIPTOR
      then let check_signature = (lc_flags c AND LASSO_SERVER_LOAD_METADATA_FLAG_CHECK_ENTITIES_DESCRIPTOR_SIGNATURE \<noteq> 0);
               inherit_signature = (lc_flags c AND LASSO_SERVER_LOAD_METADATA_FLAG_INHERIT_SIGNATURE \<noteq> 0);
               result = (if keys_mngr \<noteq> None \<and> check_signature
                         then verify_descriptor c is_root keys_mngr (Element n ns ps cs) else 0)
           in if result \<noteq> 0 then (result, st)
              else lasso_saml20_server_load_metadata_entities c
                     (if keys_mngr \<noteq> None \<and> check_signature \<and> inherit_signature then None else keys_mngr) cs False st
      else (LASSO_SERVER_ERROR_INVALID_XML, st))"
| "lasso_saml20_server_load_metadata_entities c keys_mngr [] at_least_one st =
     (if at_least_one then 0 else LASSO_SERVER_ERROR_NO_PROVIDER_LOADED, st)"
| "lasso_saml20_server_load_metadata_entities c keys_mngr (x # xs) at_least_one st =
     (if is_element x then
        (let (rc, st) = lasso_saml20_server_load_metadata_child c False keys_mngr x st
         in lasso_saml20_server_load_metadata_entities c keys_mngr xs (at_least_one \<or> rc = 0) st)
      else lasso_saml20_server_load_metadata_entities c keys_mngr xs at_least_one st)"

definition lasso_saml20_server_load_metadata ::
  "load_context \<Rightarrow> cstr \<Rightarrow> lasso_server \<Rightarrow> int \<times> lasso_server \<times> string list" where
  "lasso_saml20_server_load_metadata c keys_mngr s =
     (let (rc, s, loaded) = lasso_saml20_server_load_metadata_child c True keys_mngr (lc_root c) (s, [])
      in (rc, s, rev loaded))"

definition lasso_server_load_metadata ::
  "environment \<Rightarrow> lasso_server \<Rightarrow> int \<Rightarrow> string \<Rightarrow> cstr \<Rightarrow> string list \<Rightarrow> int \<Rightarrow> int \<times> lasso_server \<times> string list" where
  "lasso_server_load_metadata env s role federation_file trusted_roots blacklisted flags =
     (if \<not> (role = LASSO_PROVIDER_ROLE_SP \<or> role = LASSO_PROVIDER_ROLE_IDP)
      then (LASSO_PARAM_ERROR_BAD_TYPE_OR_NULL_OBJ, s, [])
      else let flags = (if flags = LASSO_SERVER_LOAD_METADATA_FLAG_DEFAULT then 1 OR 2 OR 4 else flags);
               keys_mngr = Option.bind trusted_roots (cry_load_certs (env_crypto env))
           in if trusted_roots \<noteq> None \<and> keys_mngr = None then (LASSO_DS_ERROR_CA_CERT_CHAIN_LOAD_FAILED, s, [])
              else case lasso_xml_parse_file env federation_file of
                     None \<Rightarrow> (LASSO_SERVER_ERROR_INVALID_XML, s, [])
                   | Some root \<Rightarrow>
                       if xml_ns root = Some LASSO_SAML2_METADATA_HREF
                       then lasso_saml20_server_load_metadata
                              \<lparr>lc_env = env, lc_role = role, lc_root = root, lc_blacklisted = blacklisted, lc_flags = flags\<rparr>
                              keys_mngr s
                       else (LASSO_ERROR_UNIMPLEMENTED, s, []))"

section \<open>Assertions of known issuers\<close>

definition lasso_saml2_assertion_get_issuer_provider :: "saml2_assertion \<Rightarrow> lasso_server option \<Rightarrow> lasso_provider option" where
  "lasso_saml2_assertion_get_issuer_provider a server =
     (case (asn_Issuer a, server) of
        (Some issuer, Some s) \<Rightarrow>
          if nid_Format issuer = None \<or> nid_Format issuer = Some LASSO_SAML2_NAME_IDENTIFIER_FORMAT_ENTITY
          then if lasso_strisequal (prv_ProviderID (srv_parent s)) (nid_content issuer) then Some (srv_parent s)
               else lasso_server_get_provider (Some s) (nid_content issuer)
          else None
      | _ \<Rightarrow> None)"

text \<open>\<open>uid\<close> is the identifier that \<^verbatim>\<open>lasso_build_unique_id\<close> gives when the assertion has none.\<close>

definition lasso_server_saml2_assertion_setup_signature ::
  "environment \<Rightarrow> string \<Rightarrow> lasso_server \<Rightarrow> saml2_assertion \<Rightarrow> int \<times> saml2_assertion" where
  "lasso_server_saml2_assertion_setup_signature env uid s a =
     (let provider_id = (case lasso_saml2_assertion_get_audience_restrictions a of [] \<Rightarrow> None | r # _ \<Rightarrow> ar_Audience r);
          (rc, context) = lasso_server_get_signature_context_for_provider_by_name env (Some s) provider_id
      in if rc \<noteq> 0 then (rc, a)
         else (0, a\<lparr>asn_signature := Some context, asn_ID := (case asn_ID a of None \<Rightarrow> Some uid | i \<Rightarrow> i)\<rparr>))"

section \<open>Laws of the table of providers\<close>

text \<open>An element is within another when it is the other or one of its descendants.\<close>

inductive xml_within :: "xml \<Rightarrow> xml \<Rightarrow> bool" where
  within_refl: "xml_within x x"
| within_child: "y \<in> set cs \<Longrightarrow> xml_within x y \<Longrightarrow> xml_within x (Element n ns ps cs)"

lemma xml_within_top: "y \<in> set cs \<Longrightarrow> xml_within y (Element n ns ps cs)"
  by (rule within_child) (auto intro: within_refl)

text \<open>An entity is vouched for when signatures need not be checked, or the entity or an element around
  it has a signature that verifies.\<close>

definition vouched :: "load_context \<Rightarrow> cstr \<Rightarrow> xml \<Rightarrow> xml \<Rightarrow> bool" where
  "vouched c m whole x \<longleftrightarrow>
     (m \<noteq> None \<and> lc_flags c AND LASSO_SERVER_LOAD_METADATA_FLAG_CHECK_ENTITY_DESCRIPTOR_SIGNATURE \<noteq> 0 \<longrightarrow>
        (\<exists>is_root y. xml_within x y \<and> xml_within y whole \<and> verify_descriptor c is_root m y = 0))"

text \<open>\<open>loads c m whole i p\<close>: below \<open>whole\<close> there is an entity descriptor that gives the provider \<open>p\<close> with
  identifier \<open>i\<close>, is vouched for and is not refused.\<close>

definition loads :: "load_context \<Rightarrow> cstr \<Rightarrow> xml \<Rightarrow> string \<Rightarrow> lasso_provider \<Rightarrow> bool" where
  "loads c m whole i p \<longleftrightarrow>
     (\<exists>x. xml_within x whole \<and> checkSaml2MdNode x LASSO_SAML2_METADATA_ELEMENT_ENTITY_DESCRIPTOR \<and>
          lasso_provider_new_from_xmlnode (lc_env c) (lc_root c) (lc_role c) x = Some p \<and>
          prv_ProviderID p = Some i \<and> i \<notin> set (lc_blacklisted c) \<and> vouched c m whole x)"

text \<open>The state of a loader grows by providers that satisfy a predicate; nothing else of the server
  changes.\<close>

definition grown :: "(string \<Rightarrow> lasso_provider \<Rightarrow> bool) \<Rightarrow> lasso_server \<times> string list \<Rightarrow> lasso_server \<times> string list \<Rightarrow> bool" where
  "grown P st st' \<longleftrightarrow>
     fst st' = (fst st)\<lparr>srv_providers := srv_providers (fst st')\<rparr> \<and>
     (\<exists>new. snd st' = new @ snd st \<and>
        (\<forall>i. if i \<in> set new then \<exists>p. P i p \<and> ght_lookup (srv_providers (fst st')) i = Some p
             else ght_lookup (srv_providers (fst st')) i = ght_lookup (srv_providers (fst st)) i))"

lemma grown_refl: "grown P st st"
  unfolding grown_def by (auto intro: exI[of _ "[]"])

lemma grown_mono: "grown P st st' \<Longrightarrow> (\<And>i p. P i p \<Longrightarrow> Q i p) \<Longrightarrow> grown Q st st'"
  unfolding grown_def by (fastforce split: if_splits)

lemma grown_trans:
  assumes "grown P st st'" and "grown P st' st''"
  shows "grown P st st''"
proof -
  let ?look = "\<lambda>t. ght_lookup (srv_providers (fst t))"
  obtain a where a: "snd st' = a @ snd st" and a_look: "\<And>i. if i \<in> set a then \<exists>p. P i p \<and> ?look st' i = Some p else ?look st' i = ?look st i"
    and a_fr: "fst st' = (fst st)\<lparr>srv_providers := srv_providers (fst st')\<rparr>"
    using assms(1) unfolding grown_def by blast
  obtain b where b: "snd st'' = b @ snd st'" and b_look: "\<And>i. if i \<in> set b then \<exists>p. P i p \<and> ?look st'' i = Some p else ?look st'' i = ?look st' i"
    and b_fr: "fst st'' = (fst st')\<lparr>srv_providers := srv_providers (fst st'')\<rparr>"
    using assms(2) unfolding grown_def by blast
  have fr: "fst st'' = (fst st)\<lparr>srv_providers := srv_providers (fst st'')\<rparr>"
    using b_fr by (subst (asm) a_fr) simp
  have "if i \<in> set (b @ a) then \<exists>p. P i p \<and> ?look st'' i = Some p else ?look st'' i = ?look st i" for i
    using a_look[of i] b_look[of i] by (auto split: if_splits)
  with fr a b show ?thesis unfolding grown_def by (intro conjI exI[of _ "b @ a"]) auto
qed

lemma entity_grown:
  assumes "checkSaml2MdNode x LASSO_SAML2_METADATA_ELEMENT_ENTITY_DESCRIPTOR"
    and "lasso_saml20_server_load_metadata_entity c b m x st = (rc, st')"
  shows "grown (loads c m x) st st'"
proof (cases "st' = st")
  case False
  then obtain p i where p: "lasso_provider_new_from_xmlnode (lc_env c) (lc_root c) (lc_role c) x = Some p"
    and i: "prv_ProviderID p = Some i" "i \<notin> set (lc_blacklisted c)"
    and st': "st' = ((fst st)\<lparr>srv_providers := ght_insert i p (srv_providers (fst st))\<rparr>, i # snd st)"
    and v: "m \<noteq> None \<and> lc_flags c AND 2 \<noteq> 0 \<longrightarrow> verify_descriptor c b m x = 0"
    using assms(2) unfolding lasso_saml20_server_load_metadata_entity_def Let_def
    by (auto split: if_splits option.splits)
  have "vouched c m x x" using v unfolding vouched_def by (blast intro: within_refl)
  then have "loads c m x i p" unfolding loads_def using assms(1) p i by (blast intro: within_refl)
  then show ?thesis unfolding grown_def st' by (auto intro!: exI[of _ "[i]"])
qed (simp add: grown_refl)

lemma loads_child: "loads c m y i p \<Longrightarrow> y \<in> set cs \<Longrightarrow> loads c m (Element n ns ps cs) i p"
  unfolding loads_def vouched_def by (blast intro: within_child)

lemma loads_inherited:
  assumes "loads c None y i p" and "y \<in> set cs" and "verify_descriptor c b m (Element n ns ps cs) = 0"
  shows "loads c m (Element n ns ps cs) i p"
  using assms unfolding loads_def vouched_def by (blast intro: within_child within_refl)

lemma load_metadata_grown:
  "lasso_saml20_server_load_metadata_child c b m x st = (rc, st') \<Longrightarrow> grown (loads c m x) st st'"
  "lasso_saml20_server_load_metadata_entities c m xs any st = (rc, st') \<Longrightarrow>
     grown (\<lambda>i p. \<exists>y \<in> set xs. loads c m y i p) st st'"
proof (induction c b m x st and c m xs any st arbitrary: rc st' and rc st'
    rule: lasso_saml20_server_load_metadata_child_lasso_saml20_server_load_metadata_entities.induct)
  case (2 c is_root m n ns ps cs st)
  let ?x = "Element n ns ps cs"
  show ?case
  proof (cases "checkSaml2MdNode ?x LASSO_SAML2_METADATA_ELEMENT_ENTITY_DESCRIPTOR")
    case True
    then show ?thesis using 2(2) by (auto intro: entity_grown)
  next
    case False
    show ?thesis
    proof (cases "st' = st")
      case True
      then show ?thesis by (simp add: grown_refl)
    next
      case changed: False
      let ?check = "m \<noteq> None \<and> lc_flags c AND 1 \<noteq> 0"
      let ?m = "if ?check \<and> lc_flags c AND 4 \<noteq> 0 then None else m"
      from 2(2) False changed have md: "checkSaml2MdNode ?x LASSO_SAML2_METADATA_ELEMENT_ENTITIES_DESCRIPTOR"
        and v: "?check \<Longrightarrow> verify_descriptor c is_root m ?x = 0"
        and go: "lasso_saml20_server_load_metadata_entities c ?m cs False st = (rc, st')"
        by (auto simp: Let_def split: if_splits)
      have "grown (\<lambda>i p. \<exists>y \<in> set cs. loads c ?m y i p) st st'"
        using 2(1)[OF False md refl refl refl] v go by auto
      then show ?thesis
        by (rule grown_mono) (use v in \<open>auto intro: loads_child loads_inherited split: if_splits\<close>)
    qed
  qed
next
  case (4 c m x xs any st)
  show ?case
  proof (cases "is_element x")
    case True
    obtain rc1 st1 where r: "lasso_saml20_server_load_metadata_child c False m x st = (rc1, st1)" by (metis surj_pair)
    have "grown (loads c m x) st st1" using 4(1)[OF True r] .
    then have 1: "grown (\<lambda>i p. \<exists>y \<in> set (x # xs). loads c m y i p) st st1" by (rule grown_mono) simp
    have "lasso_saml20_server_load_metadata_entities c m xs (any \<or> rc1 = 0) st1 = (rc, st')"
      using 4(4) True r by simp
    then have "grown (\<lambda>i p. \<exists>y \<in> set xs. loads c m y i p) st1 st'" using 4(2)[OF True] r by simp
    then have 2: "grown (\<lambda>i p. \<exists>y \<in> set (x # xs). loads c m y i p) st1 st'" by (rule grown_mono) simp
    show ?thesis using 1 2 by (rule grown_trans)
  next
    case False
    then show ?thesis using 4 by (auto elim!: grown_mono)
  qed
qed (auto simp: grown_refl)


section \<open>Invariant\<close>

text \<open>Every provider is stored under its own identifier.\<close>

definition server_inv :: "lasso_server \<Rightarrow> bool" where
  "server_inv s \<longleftrightarrow> ght_inv (srv_providers s) \<and> (\<forall>i p. ght_lookup (srv_providers s) i = Some p \<longrightarrow> prv_ProviderID p = Some i)"

datatype server_op =
    OpAddProvider int cstr cstr cstr
  | OpAddProviderFromBuffer int cstr cstr cstr
  | OpLoadMetadata int string cstr "string list" int
  | OpLoadAffiliation string
  | OpSetEncryptionKey cstr cstr
  | OpFilterProviders int md_protocol_type int

definition server_step :: "environment \<Rightarrow> server_op \<Rightarrow> lasso_server \<Rightarrow> lasso_server" where
  "server_step env op s =
     (case op of
        OpAddProvider role md pk chain \<Rightarrow> snd (lasso_server_add_provider env s role md pk chain)
      | OpAddProviderFromBuffer role md pk chain \<Rightarrow> snd (lasso_server_add_provider_from_buffer env s role md pk chain)
      | OpLoadMetadata role path roots bl flags \<Rightarrow> fst (snd (lasso_server_load_metadata env s role path roots bl flags))
      | OpLoadAffiliation path \<Rightarrow> snd (lasso_server_load_affiliation env s path)
      | OpSetEncryptionKey f pw \<Rightarrow> snd (lasso_server_set_encryption_private_key_with_password env s f pw)
      | OpFilterProviders role ty m \<Rightarrow> snd (lasso_server_get_filtered_provider_list s role ty m))"

lemma server_inv_insert:
  "server_inv s \<Longrightarrow> prv_ProviderID p = Some i \<Longrightarrow> server_inv (s\<lparr>srv_providers := ght_insert i p (srv_providers s)\<rparr>)"
  unfolding server_inv_def by auto

lemma server_inv_add: "server_inv s \<Longrightarrow> server_inv (snd (lasso_server_add_provider_helper k s role md pk chain))"
  unfolding lasso_server_add_provider_helper_def lasso_server_add_provider2_def Let_def
  by (auto intro: server_inv_insert split: option.split)

lemma server_inv_entity:
  "server_inv (fst st) \<Longrightarrow> lasso_saml20_server_load_metadata_entity c b m x st = (rc, st') \<Longrightarrow> server_inv (fst st')"
  unfolding lasso_saml20_server_load_metadata_entity_def Let_def
  by (auto intro: server_inv_insert split: if_splits option.splits)

lemma server_inv_load_metadata:
  "lasso_saml20_server_load_metadata_child c b m x st = (rc, st') \<Longrightarrow> server_inv (fst st) \<Longrightarrow> server_inv (fst st')"
  "lasso_saml20_server_load_metadata_entities c m xs any st = (rc, st') \<Longrightarrow> server_inv (fst st) \<Longrightarrow> server_inv (fst st')"
proof (induction c b m x st and c m xs any st arbitrary: rc st' and rc st'
    rule: lasso_saml20_server_load_metadata_child_lasso_saml20_server_load_metadata_entities.induct)
  case (2 c is_root m n ns ps cs st)
  then show ?case by (auto simp: Let_def intro: server_inv_entity split: if_splits)
next
  case (4 c m x xs any st)
  then show ?case by (auto split: if_splits prod.splits)
qed auto

lemma server_inv_join: "server_inv s \<Longrightarrow> server_inv (join_affiliation o_id a_id t s)"
  unfolding join_affiliation_def Let_def lasso_server_get_provider_def
  by (auto split: option.split simp: server_inv_def)

lemma server_inv_fold_join: "server_inv s \<Longrightarrow> server_inv (fold (join_affiliation o_id a_id) ts s)"
  by (induction ts arbitrary: s) (simp_all add: server_inv_join)

lemma server_inv_parent [simp]: "server_inv (s\<lparr>srv_parent := p\<rparr>) = server_inv s"
  "server_inv (s\<lparr>srv_encryption_private_keys := ks\<rparr>) = server_inv s"
  by (simp_all add: server_inv_def)

lemma server_inv_step: "server_inv s \<Longrightarrow> server_inv (server_step env op s)"
proof (cases op)
  case (OpLoadMetadata role path roots bl flags)
  moreover assume "server_inv s"
  ultimately show ?thesis
    using server_inv_load_metadata(1)[where st = "(s, [])"]
    by (auto simp: server_step_def lasso_server_load_metadata_def lasso_saml20_server_load_metadata_def Let_def
        split: option.split prod.split)
qed (auto simp: server_step_def server_inv_add lasso_server_add_provider_def lasso_server_add_provider_from_buffer_def
    lasso_server_load_affiliation_def lasso_saml20_server_load_affiliation_def server_inv_fold_join
    lasso_server_set_encryption_private_key_with_password_def lasso_server_get_filtered_provider_list_def Let_def
    split: option.split bool.split prod.split)

interpretation srv: component "server_step env" server_inv "server_instance_init env" for env
  by unfold_locales (simp add: server_inv_def server_instance_init_def, rule server_inv_step)


lemma load_metadata_run:
  assumes "lasso_server_load_metadata env s role path trusted_roots blacklisted flags = (rc, s', loaded)"
    and "\<not> (s' = s \<and> loaded = [])"
  obtains root f where "lasso_xml_parse_file env path = Some root"
    and "flags = 0 \<or> flags AND 2 \<noteq> 0 \<longrightarrow> f AND 2 \<noteq> 0"
    and "trusted_roots \<noteq> None \<longrightarrow> Option.bind trusted_roots (cry_load_certs (env_crypto env)) \<noteq> None"
    and "grown (loads \<lparr>lc_env = env, lc_role = role, lc_root = root, lc_blacklisted = blacklisted, lc_flags = f\<rparr>
           (Option.bind trusted_roots (cry_load_certs (env_crypto env))) root) (s, []) (s', rev loaded)"
proof -
  define f where "f = (if flags = 0 then 1 OR 2 OR 4 else flags)"
  define m where "m = Option.bind trusted_roots (cry_load_certs (env_crypto env))"
  define c where "c root = \<lparr>lc_env = env, lc_role = role, lc_root = root, lc_blacklisted = blacklisted, lc_flags = f\<rparr>" for root
  have c_root: "lc_root (c root) = root" for root by (simp add: c_def)
  from assms obtain root where root: "lasso_xml_parse_file env path = Some root"
    and m: "trusted_roots \<noteq> None \<longrightarrow> m \<noteq> None"
    and run: "lasso_saml20_server_load_metadata_child (c root) True m root (s, []) = (rc, s', rev loaded)"
    unfolding lasso_server_load_metadata_def lasso_saml20_server_load_metadata_def Let_def f_def[symmetric]
      m_def[symmetric] c_def[symmetric]
    by (auto simp: c_root split: if_splits option.splits prod.splits)
  have f: "flags = 0 \<or> flags AND 2 \<noteq> 0 \<longrightarrow> f AND 2 \<noteq> 0" unfolding f_def by auto
  show thesis
    by (rule that[OF root f m[unfolded m_def]]) (fact load_metadata_grown(1)[OF run, unfolded c_def m_def])
qed

section \<open>Properties\<close>

lemma server_new_no_providers:
  assumes "lasso_server_new env metadata key password cert = Some s \<or> lasso_server_new_from_buffers env metadata key password cert = Some s"
  shows "srv_providers s = []"
  using assms
  by (auto simp: lasso_server_new_def lasso_server_new_from_buffers_def lasso_server_new_helper_def server_instance_init_def Let_def
      lasso_server_set_encryption_private_key_with_password_def split: option.splits prod.splits if_splits bool.splits)

text \<open>C36: whatever sequence of providers, metadata files, affiliations and keys a server is given after it was made from its own
  metadata, every provider it knows is stored under its own identifier, once.\<close>

theorem server_reachable_inv:
  assumes "lasso_server_new env metadata key password cert = Some s \<or> lasso_server_new_from_buffers env metadata key password cert = Some s"
  shows "server_inv (fold (server_step env) ops s)"
proof -
  have "server_inv s" using server_new_no_providers[OF assms] by (simp add: server_inv_def)
  from srv.run_inv[OF this] show ?thesis by (simp add: srv.run_def)
qed

text \<open>C7: loading a metadata file changes the table only at the identifiers it reports as loaded.  Each of
  them comes from an entity descriptor of the file that gives a provider for the requested role and is
  not refused; when trusted roots are given and the signatures of entities are to be checked, the
  descriptor or an element around it has a signature that verifies with the trusted roots.\<close>

theorem load_metadata_vouched:
  assumes "lasso_server_load_metadata env s role path trusted_roots blacklisted flags = (rc, s', loaded)"
  shows "s' = s\<lparr>srv_providers := srv_providers s'\<rparr> \<and>
    (\<forall>i. i \<notin> set loaded \<longrightarrow> ght_lookup (srv_providers s') i = ght_lookup (srv_providers s) i) \<and>
    (\<forall>i \<in> set loaded. i \<notin> set blacklisted \<and>
       (\<exists>root x p. lasso_xml_parse_file env path = Some root \<and> xml_within x root \<and>
          checkSaml2MdNode x LASSO_SAML2_METADATA_ELEMENT_ENTITY_DESCRIPTOR \<and>
          lasso_provider_new_from_xmlnode env root role x = Some p \<and> prv_ProviderID p = Some i \<and>
          ght_lookup (srv_providers s') i = Some p \<and>
          (trusted_roots \<noteq> None \<and> (flags = 0 \<or> flags AND 2 \<noteq> 0) \<longrightarrow>
             (\<exists>is_root y. xml_within x y \<and> xml_within y root \<and>
                fst (lasso_verify_signature (env_crypto env) (env_verify_signature env) y is_root (Some ''ID'')
                       (Option.bind trusted_roots (cry_load_certs (env_crypto env))) None EMPTY_URI) = 0))))"
proof (cases "s' = s \<and> loaded = []")
  case False
  define m where "m = Option.bind trusted_roots (cry_load_certs (env_crypto env))"
  from load_metadata_run[OF assms False] obtain root f where root: "lasso_xml_parse_file env path = Some root"
    and f: "flags = 0 \<or> flags AND 2 \<noteq> 0 \<longrightarrow> f AND 2 \<noteq> 0" and m: "trusted_roots \<noteq> None \<longrightarrow> m \<noteq> None"
    and grown: "grown (loads \<lparr>lc_env = env, lc_role = role, lc_root = root, lc_blacklisted = blacklisted, lc_flags = f\<rparr>
           m root) (s, []) (s', rev loaded)" unfolding m_def .
  define c where "c = \<lparr>lc_env = env, lc_role = role, lc_root = root, lc_blacklisted = blacklisted, lc_flags = f\<rparr>"
  obtain new where fr: "s' = s\<lparr>srv_providers := srv_providers s'\<rparr>" and new: "rev loaded = new"
    and look: "if i \<in> set new then \<exists>p. loads c m root i p \<and> ght_lookup (srv_providers s') i = Some p
       else ght_lookup (srv_providers s') i = ght_lookup (srv_providers s) i" for i
    using grown[folded c_def] unfolding grown_def fst_conv snd_conv append_Nil2 by blast
  have others: "\<forall>i. i \<notin> set loaded \<longrightarrow> ght_lookup (srv_providers s') i = ght_lookup (srv_providers s) i"
    using look new by (metis set_rev)
  have each: "i \<notin> set blacklisted \<and>
       (\<exists>root x p. lasso_xml_parse_file env path = Some root \<and> xml_within x root \<and>
          checkSaml2MdNode x LASSO_SAML2_METADATA_ELEMENT_ENTITY_DESCRIPTOR \<and>
          lasso_provider_new_from_xmlnode env root role x = Some p \<and> prv_ProviderID p = Some i \<and>
          ght_lookup (srv_providers s') i = Some p \<and>
          (trusted_roots \<noteq> None \<and> (flags = 0 \<or> flags AND 2 \<noteq> 0) \<longrightarrow>
             (\<exists>is_root y. xml_within x y \<and> xml_within y root \<and>
                fst (lasso_verify_signature (env_crypto env) (env_verify_signature env) y is_root (Some ''ID'')
                       m None EMPTY_URI) = 0)))" if i: "i \<in> set loaded" for i
  proof -
    obtain p where p: "loads c m root i p" "ght_lookup (srv_providers s') i = Some p"
      using look[of i] new i by (metis set_rev)
    obtain x where x: "xml_within x root" "checkSaml2MdNode x LASSO_SAML2_METADATA_ELEMENT_ENTITY_DESCRIPTOR"
      "lasso_provider_new_from_xmlnode env root role x = Some p" "prv_ProviderID p = Some i" "i \<notin> set blacklisted"
      "vouched c m root x"
      using p(1) unfolding loads_def c_def load_context.simps by (elim exE conjE)
    have "trusted_roots \<noteq> None \<and> (flags = 0 \<or> flags AND 2 \<noteq> 0) \<longrightarrow> (\<exists>is_root y. xml_within x y \<and> xml_within y root \<and>
        fst (lasso_verify_signature (env_crypto env) (env_verify_signature env) y is_root (Some ''ID'') m None EMPTY_URI) = 0)"
      using x(6) m f unfolding vouched_def verify_descriptor_def c_def load_context.simps by blast
    note sig = this
    show ?thesis
      by (intro conjI exI[of _ root] exI[of _ x] exI[of _ p]) (fact x p(2) root sig)+
  qed
  show ?thesis unfolding m_def[symmetric] by (rule conjI[OF fr conjI[OF others ballI]]) (rule each)
qed auto

text \<open>Adding a provider either fails and leaves the server as it was, or stores the provider built from
  the metadata under its identifier with the requested role, leaving the others alone; a SAML 2.0
  server accepts only SAML 2.0 providers.\<close>

theorem server_add_provider_law:
  assumes "lasso_server_add_provider env s role metadata public_key ca_cert_chain = (rc, s')"
  shows "(rc \<noteq> 0 \<longrightarrow> s' = s) \<and>
    (rc = 0 \<longrightarrow>
      (\<exists>m p. metadata = Some m \<and> lasso_provider_new env role m public_key ca_cert_chain = Some p \<and>
         (prv_conformance (srv_parent s) = LASSO_PROTOCOL_SAML_2_0 \<longrightarrow> prv_conformance p = LASSO_PROTOCOL_SAML_2_0) \<and>
         (\<forall>i. i \<noteq> [] \<longrightarrow> lasso_server_get_provider (Some s') (Some i) =
            (if prv_ProviderID p = Some i then Some (p\<lparr>prv_role := role\<rparr>) else lasso_server_get_provider (Some s) (Some i)))))"
  using assms
  unfolding lasso_server_add_provider_def lasso_server_add_provider_helper_def lasso_server_add_provider2_def
    lasso_server_get_provider_def Let_def
  by (auto split: option.splits if_splits)

text \<open>A key set for a provider signs the messages for that provider when its method is allowed; without
  one the key of the server is used, and a context that is returned with success can be used for
  signing.\<close>

theorem signing_key_override:
  assumes "lasso_provider_set_server_signing_key p key = (0, p')" and "prv_ProviderID p = Some i" and "i \<noteq> []"
    and "lasso_server_add_provider2 s (Some p') = (rc, s')"
    and "lasso_server_get_signature_context_for_provider_by_name env (Some s') (Some i) = (0, context)"
  shows "lasso_validate_signature_context context \<and>
    (if lasso_ok_signature_method env (sctx_method (the key)) then key = Some context
     else (0, context) = lasso_server_get_signature_context env s)"
proof -
  obtain c where c: "key = Some c" "lasso_validate_signature_context c" "p' = p\<lparr>prv_signature_context := Some c\<rparr>"
    using assms(1) unfolding lasso_provider_set_server_signing_key_def by (auto split: option.splits if_splits)
  have s': "s' = s\<lparr>srv_providers := ght_insert i p' (srv_providers s)\<rparr>"
    using assms(2,4) c unfolding lasso_server_add_provider2_def by auto
  have get: "lasso_server_get_signature_context env s' = lasso_server_get_signature_context env s"
    unfolding s' lasso_server_get_signature_context_def by simp
  have "lasso_server_get_provider (Some s') (Some i) = Some p'"
    using assms(3) unfolding s' lasso_server_get_provider_def by simp
  then show ?thesis
    using assms(5) c get
    unfolding lasso_server_get_signature_context_for_provider_by_name_def lasso_server_get_signature_context_for_provider_def
    by (auto simp: lasso_server_get_signature_context_def Let_def split: if_splits)
qed

section \<open>Examples\<close>

definition sample_entity :: xml where
  "sample_entity = Element ''EntityDescriptor'' (Some LASSO_SAML2_METADATA_HREF) [(''ID'', ''i''), (''entityID'', ''idp'')]
     [Element ''Signature'' (Some xmlSecDSigNs) [] [],
      Element ''IDPSSODescriptor'' (Some LASSO_SAML2_METADATA_HREF)
        [(''protocolSupportEnumeration'', LASSO_SAML2_PROTOCOL_HREF)] []]"

definition sample_envelope :: xml where
  "sample_envelope = Element ''Envelope'' (Some LASSO_SOAP_ENV_HREF) [] [Element ''Body'' (Some LASSO_SOAP_ENV_HREF) [] [sample_signed_node]]"

definition sample_env :: environment where
  "sample_env = \<lparr>env_crypto = sample_crypto\<lparr>cry_dsig := \<lambda>_ _ _ _ _. (0, True, [Some ''#i''])\<rparr>,
     env_verify_signature = True, env_min_signature_method = 1, env_default_signature_method = 1,
     env_ns_prop = \<lambda>_ _. None, env_file_contents = Some, env_xml_parse = \<lambda>m. Some (if m = ''<r/>'' then sample_signed_node else if m = ''<s/>'' then sample_envelope else sample_entity),
     env_load_private_key = \<lambda>k _ _ _. Some (k, True), env_base64_sha1 = id, env_now = 0\<rparr>"

definition sample_idp :: lasso_provider where
  "sample_idp = provider_instance_init\<lparr>prv_role := LASSO_PROVIDER_ROLE_IDP, prv_ProviderID := Some ''idp'',
     prv_roles := LASSO_PROVIDER_ROLE_IDP, prv_conformance := LASSO_PROTOCOL_SAML_2_0\<rparr>"

lemma sample_entity_simps [simp]:
  "xml_children sample_entity =
     [Element ''Signature'' (Some xmlSecDSigNs) [] [],
      Element ''IDPSSODescriptor'' (Some LASSO_SAML2_METADATA_HREF)
        [(''protocolSupportEnumeration'', LASSO_SAML2_PROTOCOL_HREF)] []]"
  "xml_name sample_entity = ''EntityDescriptor''" "xml_ns sample_entity = Some LASSO_SAML2_METADATA_HREF"
  "xmlGetProp sample_entity ''entityID'' = Some ''idp''" "xmlGetProp sample_entity ''ID'' = Some ''i''"
  "is_element sample_entity"
  by (simp_all add: sample_entity_def xmlGetProp_def is_element_def)

lemma sample_tokens: "LASSO_SAML2_PROTOCOL_HREF \<in> set (strtok_spaces [] LASSO_SAML2_PROTOCOL_HREF)"
  by (simp add: LASSO_SAML2_PROTOCOL_HREF_def)

lemma sample_entity_metadata_for:
  assumes "env_ns_prop env = (\<lambda>_ _. None)" and "is_server \<or> role = LASSO_PROVIDER_ROLE_IDP"
  shows "lasso_provider_load_metadata_from_xmlnode env is_server sample_entity sample_entity
     (provider_instance_init\<lparr>prv_role := role\<rparr>) = (True, sample_idp\<lparr>prv_role := role\<rparr>)"
proof -
  have no: "\<not> checkSaml2MdNode (Element ''Signature'' (Some xmlSecDSigNs) [] []) n" for n
    by (simp add: checkSaml2MdNode_def xmlSecDSigNs_def LASSO_SAML2_METADATA_HREF_def)
  let ?d = "Element ''IDPSSODescriptor'' (Some LASSO_SAML2_METADATA_HREF)
        [(''protocolSupportEnumeration'', LASSO_SAML2_PROTOCOL_HREF)] []"
  have d: "checkSaml2MdNode ?d n \<longleftrightarrow> n = ''IDPSSODescriptor''" for n
    by (auto simp: checkSaml2MdNode_def is_element_def)
  have l: "load_descriptor ?d 2 p = (True, p\<lparr>prv_roles := prv_roles p OR 2\<rparr>)" if "prv_endpoints p = []" "prv_default_assertion_consumer p = None" for p
    using that by (simp add: load_descriptor_def xmlGetProp_def sample_tokens descriptor_attrs_def endpoint_sort_def
        load_default_assertion_consumer_def)
  show ?thesis
    using assms by (auto simp: lasso_provider_load_metadata_from_xmlnode_def
        lasso_saml20_provider_load_metadata_def checkSaml2MdNode_def[of sample_entity]
        load_entity_child_def descriptors_def no d l provider_instance_init_def is_element_def[of "Element _ _ _ _"] sample_idp_def)
qed

lemma sample_entity_metadata:
  "lasso_provider_load_metadata_from_xmlnode sample_env False sample_entity sample_entity
     (provider_instance_init\<lparr>prv_role := LASSO_PROVIDER_ROLE_IDP\<rparr>) = (True, sample_idp)"
  using sample_entity_metadata_for[of sample_env False LASSO_PROVIDER_ROLE_IDP] by (simp add: sample_env_def sample_idp_def)

lemma sample_idp_keys:
  "load_both_keys sample_env (sample_idp\<lparr>prv_public_key := None, prv_ca_cert_chain := None\<rparr>) = Some sample_idp"
  "load_both_keys sample_env sample_idp = Some sample_idp"
  by (simp_all add: load_both_keys_def lasso_provider_load_public_key_def sample_idp_def provider_instance_init_def)

lemma sample_entity_loads:
  "lasso_provider_new_from_xmlnode sample_env sample_entity LASSO_PROVIDER_ROLE_IDP sample_entity = Some sample_idp"
  "lasso_provider_new sample_env LASSO_PROVIDER_ROLE_IDP ''metadata.xml'' None None =
     Some (sample_idp\<lparr>prv_metadata_filename := Some ''metadata.xml''\<rparr>)"
  using sample_entity_metadata sample_idp_keys
  by (simp_all add: lasso_provider_new_from_xmlnode_def lasso_provider_new_def lasso_provider_new_helper_def
      lasso_provider_load_metadata_def lasso_provider_load_metadata_from_buffer_def sample_env_def
      load_both_keys_def lasso_provider_load_public_key_def sample_idp_def provider_instance_init_def)


lemma sample_load:
  "lasso_server_load_metadata sample_env (server_instance_init sample_env) LASSO_PROVIDER_ROLE_IDP ''federation.xml''
     (Some ''roots.pem'') [] 0 =
   (0, (server_instance_init sample_env)\<lparr>srv_providers := [(''idp'', sample_idp)]\<rparr>, [''idp''])"
proof -
  have sig: "verify_descriptor c True (Some m) sample_entity = 0" if "lc_env c = sample_env" for c m
    using that by (simp add: verify_descriptor_def lasso_verify_signature_def sample_env_def sample_crypto_def
        find_signature_def is_element_def printf_string_def)
  obtain n ns ps cs where e: "sample_entity = Element n ns ps cs" by (simp add: sample_entity_def)
  have md: "checkSaml2MdNode sample_entity ''EntityDescriptor''" by (simp add: checkSaml2MdNode_def)
  have child: "lasso_saml20_server_load_metadata_child c True m sample_entity st =
      lasso_saml20_server_load_metadata_entity c True m sample_entity st" for c m st
    using md by (simp add: e)
  have idp: "lasso_test_idp_descriptor sample_entity"
    by (simp add: lasso_test_idp_descriptor_def checkSaml2MdNode_def is_element_def)
  have "lasso_xml_parse_file sample_env ''federation.xml'' = Some sample_entity"
    "cry_load_certs (env_crypto sample_env) ''roots.pem'' = Some ''roots.pem''"
    by (simp_all add: lasso_xml_parse_file_def sample_env_def sample_crypto_def)
  moreover have "prv_ProviderID sample_idp = Some ''idp''" by (simp add: sample_idp_def)
  ultimately show ?thesis
    by (simp add: lasso_server_load_metadata_def lasso_saml20_server_load_metadata_def child idp sig
        sample_entity_loads lasso_saml20_server_load_metadata_entity_def server_instance_init_def
        ght_insert_fresh Let_def)
qed

definition sample_club :: xml where
  "sample_club = Element ''EntityDescriptor'' (Some LASSO_SAML2_METADATA_HREF) [(''entityID'', ''club'')]
     [Element ''AffiliationDescriptor'' (Some LASSO_SAML2_METADATA_HREF) [(''affiliationOwnerID'', ''owner'')]
        [Element ''AffiliateMember'' (Some LASSO_SAML2_METADATA_HREF) [] [Text ''idp'']]]"

definition sample_club_env :: environment where
  "sample_club_env = sample_env\<lparr>env_xml_parse := \<lambda>m. Some (if m = ''club.xml'' then sample_club else sample_entity)\<rparr>"

theorem server_reachable_inv_witness:
  "\<exists>s p. lasso_server_new sample_club_env (Some ''metadata.xml'') None None None = Some s \<and>
     server_inv (fold (server_step sample_club_env) [OpAddProvider LASSO_PROVIDER_ROLE_IDP (Some ''metadata.xml'') None None, OpLoadAffiliation ''club.xml''] s) \<and>
     ght_lookup (srv_providers (fold (server_step sample_club_env)
       [OpAddProvider LASSO_PROVIDER_ROLE_IDP (Some ''metadata.xml'') None None, OpLoadAffiliation ''club.xml''] s)) ''idp'' = Some p \<and>
     prv_affiliation_id p = Some ''club''"
proof -
  have ns: "env_ns_prop sample_club_env = (\<lambda>_ _. None)" by (simp add: sample_club_env_def sample_env_def)
  have role: "provider_instance_init\<lparr>prv_role := 0\<rparr> = provider_instance_init" by (simp add: provider_instance_init_def)
  have files: "env_file_contents sample_club_env f = Some f" "env_xml_parse sample_club_env ''metadata.xml'' = Some sample_entity"
    "env_xml_parse sample_club_env ''club.xml'' = Some sample_club" for f by (simp_all add: sample_club_env_def sample_env_def)
  obtain s where s: "lasso_server_new sample_club_env (Some ''metadata.xml'') None None None = Some s"
     "prv_conformance (srv_parent s) = LASSO_PROTOCOL_SAML_2_0" "srv_providers s = []"
    using sample_entity_metadata_for[OF ns, of True 0, unfolded role]
    by (simp add: lasso_server_new_def lasso_server_new_helper_def files lasso_provider_load_metadata_def
       lasso_provider_load_metadata_from_buffer_def server_instance_init_def lasso_provider_load_public_key_def sample_idp_def provider_instance_init_def Let_def)
  have new: "lasso_provider_new sample_club_env LASSO_PROVIDER_ROLE_IDP ''metadata.xml'' None None =
     Some (sample_idp\<lparr>prv_metadata_filename := Some ''metadata.xml''\<rparr>)"
    using sample_entity_metadata_for[OF ns, of False LASSO_PROVIDER_ROLE_IDP]
    by (simp add: lasso_provider_new_def lasso_provider_new_helper_def files
      lasso_provider_load_metadata_def lasso_provider_load_metadata_from_buffer_def
      load_both_keys_def lasso_provider_load_public_key_def sample_idp_def provider_instance_init_def)
  show ?thesis
    using server_reachable_inv[OF disjI1[OF s(1)], of "[OpAddProvider LASSO_PROVIDER_ROLE_IDP (Some ''metadata.xml'') None None, OpLoadAffiliation ''club.xml'']"] s
    by (simp add: server_step_def lasso_server_add_provider_def lasso_server_add_provider_helper_def lasso_server_add_provider2_def
       lasso_server_load_affiliation_def lasso_xml_parse_file_def files new sample_idp_def
       sample_club_def lasso_saml20_server_load_affiliation_def is_element_def xmlGetProp_def join_affiliation_def
       lasso_server_get_provider_def ght_simps provider_instance_init_def Let_def)
qed

theorem load_metadata_vouched_witness:
  "\<exists>root y is_root. lasso_xml_parse_file sample_env ''federation.xml'' = Some root \<and> xml_within y root \<and>
     fst (lasso_verify_signature (env_crypto sample_env) True y is_root (Some ''ID'') (Some ''roots.pem'') None EMPTY_URI) = 0"
proof -
  have "env_verify_signature sample_env" "cry_load_certs (env_crypto sample_env) ''roots.pem'' = Some ''roots.pem''"
    by (simp_all add: sample_env_def sample_crypto_def)
  with load_metadata_vouched[OF sample_load] show ?thesis by fastforce
qed

theorem server_add_provider_law_witness:
  "lasso_server_get_provider (Some (snd (lasso_server_add_provider sample_env (server_instance_init sample_env)
     LASSO_PROVIDER_ROLE_IDP (Some ''metadata.xml'') None None))) (Some ''idp'') \<noteq> None"
proof -
  let ?r = "lasso_server_add_provider sample_env (server_instance_init sample_env)
     LASSO_PROVIDER_ROLE_IDP (Some ''metadata.xml'') None None"
  have "fst ?r = 0" and i: "prv_ProviderID sample_idp = Some ''idp''"
    by (simp_all add: lasso_server_add_provider_def lasso_server_add_provider_helper_def sample_entity_loads
        server_instance_init_def provider_instance_init_def sample_idp_def)
  then have r: "?r = (0, snd ?r)" by (metis prod.collapse)
  from server_add_provider_law[OF r] sample_entity_loads i show ?thesis by auto
qed

theorem signing_key_override_witness:
  "lasso_server_get_signature_context_for_provider_by_name sample_env
     (Some (snd (lasso_server_add_provider2 (server_instance_init sample_env)
        (Some (snd (lasso_provider_set_server_signing_key sample_idp (Some \<lparr>sctx_method = 4, sctx_key = Some ''k''\<rparr>)))))))
     (Some ''idp'') = (0, \<lparr>sctx_method = 4, sctx_key = Some ''k''\<rparr>)"
proof -
  let ?c = "\<lparr>sctx_method = 4, sctx_key = Some ''k''\<rparr>"
  let ?p = "lasso_provider_set_server_signing_key sample_idp (Some ?c)"
  let ?s = "lasso_server_add_provider2 (server_instance_init sample_env) (Some (snd ?p))"
  let ?g = "lasso_server_get_signature_context_for_provider_by_name sample_env (Some (snd ?s)) (Some ''idp'')"
  have p: "?p = (0, snd ?p)" and ok: "lasso_ok_signature_method sample_env 4" and i: "prv_ProviderID sample_idp = Some ''idp''"
    by (simp_all add: lasso_provider_set_server_signing_key_def lasso_validate_signature_context_def
        lasso_validate_signature_method_def lasso_ok_signature_method_def lasso_allowed_signature_method_def sample_env_def sample_idp_def)
  have "fst ?g = 0"
    using ok by (simp add: lasso_provider_set_server_signing_key_def lasso_validate_signature_context_def
        lasso_validate_signature_method_def lasso_server_add_provider2_def sample_idp_def lasso_server_get_provider_def
        lasso_server_get_signature_context_for_provider_by_name_def lasso_server_get_signature_context_for_provider_def)
  then have g: "?g = (0, snd ?g)" by (metis prod.collapse)
  from signing_key_override[OF p i _ prod.collapse[symmetric] g] ok have "snd ?g = ?c" by simp
  then show ?thesis using g by simp
qed

end
