(* ===== verification/Lasso_QuerySnippets.thy ===== *)
theory Lasso_QuerySnippets
  imports Lasso_Soap
begin

text \<open>
  How \<^verbatim>\<open>lasso/xml/xml.c\<close> writes the fields of an ID-FF message into a query and reads them back.  A class of messages
  lists its query fields in \<^verbatim>\<open>query_snippets\<close>; the two functions here interpret that list.  The locale \<open>query_class\<close> states
  what they need of a list, and has the round trip.
\<close>

section \<open>Snippets\<close>

text \<open>An entry of \<^verbatim>\<open>query_snippets\<close>: the path of the field in the object and the name in the query, with what
  \<^verbatim>\<open>get_value_by_path\<close> and \<^verbatim>\<open>set_value_at_path\<close> do at that path.  The value of an extension is written as it is.\<close>

record 'm query_snippet =
  qsn_path :: string
  qsn_field_name :: cstr
  qsn_extension :: bool
  qsn_get :: "'m \<Rightarrow> cstr"
  qsn_set :: "string \<Rightarrow> 'm \<Rightarrow> 'm"

definition snippet_field :: "'m query_snippet \<Rightarrow> string" where
  "snippet_field q = (case qsn_field_name q of None \<Rightarrow> qsn_path q | Some n \<Rightarrow> n)"

definition append_value :: "'m \<Rightarrow> string \<Rightarrow> 'm query_snippet \<Rightarrow> string" where
  "append_value m s q =
     (case qsn_get q m of
        None \<Rightarrow> s
      | Some v \<Rightarrow> (if s \<noteq> [] then s @ ''&'' else s) @
                  (if qsn_extension q then v else snippet_field q @ ''='' @ lasso_xmlURIEscapeStr v []))"

definition lasso_node_build_query_from_snippets :: "'m query_snippet list \<Rightarrow> 'm \<Rightarrow> string" where
  "lasso_node_build_query_from_snippets snippets m = foldl (append_value m) [] snippets"

text \<open>\<open>add_extension\<close> puts a field with an unknown name into the extension of the object.\<close>

definition read_field ::
  "'m query_snippet list \<Rightarrow> (string \<Rightarrow> string \<Rightarrow> 'm \<Rightarrow> 'm) \<Rightarrow> string \<Rightarrow> 'm \<Rightarrow> 'm" where
  "read_field snippets add_extension field m =
     (case strchr field CHR ''='' of
        None \<Rightarrow> m
      | Some t \<Rightarrow>
          (let name = takeWhile (\<lambda>c. c \<noteq> CHR ''='') field; v = drop 1 t in
           case List.find (\<lambda>q. snippet_field q \<noteq> ''Extension'' \<and> snippet_field q = name) snippets of
             Some q \<Rightarrow> qsn_set q v m
           | None \<Rightarrow>
               if list_ex (\<lambda>q. snippet_field q = ''Extension'') snippets \<and> name \<noteq> ''SigAlg'' \<and> name \<noteq> ''Signature''
               then add_extension name v m else m))"

definition lasso_node_init_from_query_fields ::
  "'m query_snippet list \<Rightarrow> (string \<Rightarrow> string \<Rightarrow> 'm \<Rightarrow> 'm) \<Rightarrow> string list \<Rightarrow> 'm \<Rightarrow> 'm" where
  "lasso_node_init_from_query_fields snippets add_extension query_fields m =
     fold (read_field snippets add_extension) query_fields m"

section \<open>Values\<close>

text \<open>The snippets for a string and for an integer; \<open>upd\<close> is the update of the field of the record.  \<^verbatim>\<open>%d\<close> and \<^verbatim>\<open>atoi\<close>
  are written out, the latter as \<open>strtol10\<close>; numbers outside the range of \<^verbatim>\<open>int\<close>, for which \<^verbatim>\<open>atoi\<close> is undefined, are read as they are.\<close>

definition string_snippet :: "string \<Rightarrow> cstr \<Rightarrow> ('m \<Rightarrow> cstr) \<Rightarrow> ((cstr \<Rightarrow> cstr) \<Rightarrow> 'm \<Rightarrow> 'm) \<Rightarrow> 'm query_snippet" where
  "string_snippet path name get upd =
     \<lparr>qsn_path = path, qsn_field_name = name, qsn_extension = False, qsn_get = get, qsn_set = \<lambda>v. upd (\<lambda>_. Some v)\<rparr>"

fun show_nat :: "nat \<Rightarrow> string" where
  "show_nat n = (if n < 10 then [digit n] else show_nat (n div 10) @ [digit n])"

declare show_nat.simps [simp del]

definition show_int :: "int \<Rightarrow> string" where
  "show_int i = (if i < 0 then ''-'' @ show_nat (nat (- i)) else show_nat (nat i))"

definition int_snippet :: "string \<Rightarrow> cstr \<Rightarrow> ('m \<Rightarrow> int) \<Rightarrow> ((int \<Rightarrow> int) \<Rightarrow> 'm \<Rightarrow> 'm) \<Rightarrow> 'm query_snippet" where
  "int_snippet path name get upd =
     \<lparr>qsn_path = path, qsn_field_name = name, qsn_extension = False, qsn_get = \<lambda>m. Some (show_int (get m)),
      qsn_set = \<lambda>v. upd (\<lambda>_. strtol10 v)\<rparr>"

text \<open>The parts of a name identifier, which are reached through a path such as \<^verbatim>\<open>NameIdentifier/Format\<close>.  A path through a
  missing identifier is neither read nor written.  The fields are found by name in the class of the identifier.\<close>

datatype name_part = PartNameQualifier | PartFormat | PartContent

fun get_part :: "name_part \<Rightarrow> name_identifier \<Rightarrow> cstr" where
  "get_part PartNameQualifier (SamlNameIdentifier n) = sni_NameQualifier n"
| "get_part PartFormat (SamlNameIdentifier n) = sni_Format n"
| "get_part PartContent (SamlNameIdentifier n) = sni_content n"
| "get_part PartNameQualifier (Saml2NameID n) = nid_NameQualifier n"
| "get_part PartFormat (Saml2NameID n) = nid_Format n"
| "get_part PartContent (Saml2NameID n) = nid_content n"
| "get_part _ (OtherNode _) = None"

fun set_part :: "name_part \<Rightarrow> string \<Rightarrow> name_identifier \<Rightarrow> name_identifier" where
  "set_part PartNameQualifier v (SamlNameIdentifier n) = SamlNameIdentifier (n\<lparr>sni_NameQualifier := Some v\<rparr>)"
| "set_part PartFormat v (SamlNameIdentifier n) = SamlNameIdentifier (n\<lparr>sni_Format := Some v\<rparr>)"
| "set_part PartContent v (SamlNameIdentifier n) = SamlNameIdentifier (n\<lparr>sni_content := Some v\<rparr>)"
| "set_part PartNameQualifier v (Saml2NameID n) = Saml2NameID (n\<lparr>nid_NameQualifier := Some v\<rparr>)"
| "set_part PartFormat v (Saml2NameID n) = Saml2NameID (n\<lparr>nid_Format := Some v\<rparr>)"
| "set_part PartContent v (Saml2NameID n) = Saml2NameID (n\<lparr>nid_content := Some v\<rparr>)"
| "set_part _ v (OtherNode x) = OtherNode x"

definition name_snippet ::
  "string \<Rightarrow> string \<Rightarrow> name_part \<Rightarrow> ('m \<Rightarrow> name_identifier option) \<Rightarrow>
     ((name_identifier option \<Rightarrow> name_identifier option) \<Rightarrow> 'm \<Rightarrow> 'm) \<Rightarrow> 'm query_snippet" where
  "name_snippet path name part get upd =
     \<lparr>qsn_path = path, qsn_field_name = Some name, qsn_extension = False,
      qsn_get = \<lambda>m. Option.bind (get m) (get_part part), qsn_set = \<lambda>v. upd (map_option (set_part part v))\<rparr>"

section \<open>Laws of the values\<close>

lemma show_nat_digits: "show_nat n \<noteq> [] \<and> list_all is_digit (show_nat n)"
proof (induction n rule: show_nat.induct)
  case (1 n)
  then show ?case by (subst (1 2) show_nat.simps) (simp split: if_split)
qed

lemma num_snoc: "num (s @ [digit n]) = num s * 10 + n mod 10"
  by (simp add: num_def digit_value)

lemma num_show_nat: "num (show_nat n) = n"
proof (induction n rule: show_nat.induct)
  case (1 n)
  show ?case
  proof (cases "n < 10")
    case True
    then show ?thesis using num_snoc[of "[]" n] by (subst show_nat.simps) (simp add: num_def digit_value)
  next
    case False
    then show ?thesis using 1 by (subst show_nat.simps) (simp add: num_snoc)
  qed
qed

lemma digit_cases: "is_digit c \<Longrightarrow> \<not> is_space c \<and> c \<noteq> CHR ''-'' \<and> c \<noteq> CHR ''+''"
  by (auto simp: is_digit_def is_space_def)

lemma strtol10_show_int: "strtol10 (show_int i) = i"
proof -
  have d: "show_nat n \<noteq> []" "list_all is_digit (show_nat n)" for n using show_nat_digits[of n] by auto
  then have t: "takeWhile is_digit (show_nat n) = show_nat n" for n by (simp add: takeWhile_eq_all_conv list_all_iff)
  have m: "\<not> is_space CHR ''-''" by (simp add: is_space_def)
  obtain c s where cs: "show_nat (nat i) = c # s" using d(1)[of "nat i"] by (cases "show_nat (nat i)") auto
  have "is_digit c" using d(2)[of "nat i"] cs by simp
  then show ?thesis
    using t[of "nat i"] t[of "nat (- i)"] m cs digit_cases[of c] num_show_nat[of "nat i"] num_show_nat[of "nat (- i)"]
    by (auto simp: strtol10_def show_int_def Let_def simp del: takeWhile_eq_all_conv)
qed

section \<open>The round trip\<close>

lemma query_sign_chars:
  assumes "lasso_query_sign lib min_method q m key = Some (Some s)" and "CHR ''<'' \<notin> set q"
  shows "CHR ''&'' \<in> set s" "CHR ''<'' \<notin> set s"
proof -
  obtain sig where "s = signed_content lib m q @ ''&Signature='' @ lasso_xmlURIEscapeStr (qlb_base64_encode lib sig) []"
    by (rule query_sign_made[OF assms(1)])
  then show "CHR ''&'' \<in> set s" "CHR ''<'' \<notin> set s" using assms(2) escape_no_angle by (simp_all add: signed_content_def)
qed

lemma escape_alnum: "list_all is_alnum s \<Longrightarrow> lasso_xmlURIEscapeStr s [] = s"
  by (induction s) (auto simp: is_plain_def)

lemma alnum_no_eq: "list_all is_alnum s \<Longrightarrow> CHR ''='' \<notin> set s"
  by (auto simp: list_all_iff is_alnum_def)

lemma alnum_c_string: "list_all is_alnum s \<Longrightarrow> c_string s"
  by (auto simp: list_all_iff is_alnum_def c_string_def)

text \<open>Setting the field of an object to that of the message, when the message has it.\<close>

definition apply_snippet :: "'m \<Rightarrow> 'm query_snippet \<Rightarrow> 'm \<Rightarrow> 'm" where
  "apply_snippet m q m0 = (case qsn_get q m of None \<Rightarrow> m0 | Some v \<Rightarrow> qsn_set q v m0)"

text \<open>The values that a message has for the query.\<close>

definition query_values :: "'m query_snippet list \<Rightarrow> 'm \<Rightarrow> string list" where
  "query_values snippets m = List.map_filter (\<lambda>q. qsn_get q m) snippets"

text \<open>The query fields of a class.\<close>

locale query_class =
  fixes snippets :: "'m query_snippet list"
  assumes names: "distinct (map snippet_field snippets)"
    and plain_names: "list_all (\<lambda>q. list_all is_alnum (snippet_field q) \<and> snippet_field q \<noteq> [] \<and> \<not> qsn_extension q) snippets"
    and reserved: "''Extension'' \<notin> set (map snippet_field snippets)" "''SigAlg'' \<notin> set (map snippet_field snippets)"
      "''Signature'' \<notin> set (map snippet_field snippets)"
begin

definition pairs_of :: "'m \<Rightarrow> 'm query_snippet list \<Rightarrow> (string \<times> string) list" where
  "pairs_of m qs = List.map_filter (\<lambda>q. map_option (Pair (snippet_field q)) (qsn_get q m)) qs"

lemma name_unique: "q \<in> set snippets \<Longrightarrow> q' \<in> set snippets \<Longrightarrow> snippet_field q = snippet_field q' \<Longrightarrow> q = q'"
  using names by (auto simp: distinct_map dest: inj_onD)

lemma plain_name: "q \<in> set snippets \<Longrightarrow> list_all is_alnum (snippet_field q)" "q \<in> set snippets \<Longrightarrow> snippet_field q \<noteq> []"
  "q \<in> set snippets \<Longrightarrow> \<not> qsn_extension q"
  using plain_names by (auto simp: list_all_iff)

lemma read_known: "q \<in> set snippets \<Longrightarrow> read_field snippets add (snippet_field q @ ''='' @ v) m = qsn_set q v m"
proof -
  assume q: "q \<in> set snippets"
  have n: "CHR ''='' \<notin> set (snippet_field q)" using alnum_no_eq[OF plain_name(1)[OF q]] .
  then have s: "strchr (snippet_field q @ ''='' @ v) CHR ''='' = Some (CHR ''='' # v)" by (induction "snippet_field q") (auto simp: strchr_append)
  have t: "takeWhile (\<lambda>c. c \<noteq> CHR ''='') (snippet_field q @ ''='' @ v) = snippet_field q" using n by (simp add: takeWhile_append)
  have e: "snippet_field q \<noteq> ''Extension''" using q reserved(1) by (auto simp: image_iff)
  have "List.find (\<lambda>p. snippet_field p \<noteq> ''Extension'' \<and> snippet_field p = snippet_field q) snippets = Some q"
  proof -
    have "List.find (\<lambda>p. snippet_field p \<noteq> ''Extension'' \<and> snippet_field p = snippet_field q) snippets \<noteq> None"
      using q e by (auto simp: find_None_iff)
    then obtain p where p: "List.find (\<lambda>p. snippet_field p \<noteq> ''Extension'' \<and> snippet_field p = snippet_field q) snippets = Some p" by auto
    then have "p \<in> set snippets" "snippet_field p = snippet_field q" by (auto simp: find_Some_iff)
    then show ?thesis using p name_unique[OF _ q] by blast
  qed
  then show ?thesis unfolding read_field_def s t by simp
qed

lemma read_signature: "read_field snippets add (''SigAlg='' @ v) m = m" "read_field snippets add (''Signature='' @ v) m = m"
proof -
  have "List.find (\<lambda>p. snippet_field p \<noteq> ''Extension'' \<and> snippet_field p = n) snippets = None"
    if "n = ''SigAlg'' \<or> n = ''Signature''" for n
    using that reserved by (auto simp: find_None_iff image_iff)
  then show "read_field snippets add (''SigAlg='' @ v) m = m" "read_field snippets add (''Signature='' @ v) m = m"
    by (auto simp: read_field_def)
qed

lemma build_split:
  assumes "set qs \<subseteq> set snippets"
  shows "s \<noteq> [] \<Longrightarrow> foldl (append_value m) s qs \<noteq> [] \<and>
    split_fields [] (foldl (append_value m) s qs) = split_fields [] s @ map parameter_field (pairs_of m qs)"
  using assms
proof (induction qs arbitrary: s)
  case (Cons q qs)
  then have q: "q \<in> set snippets" by simp
  show ?case
  proof (cases "qsn_get q m")
    case None
    then show ?thesis using Cons by (simp add: append_value_def pairs_of_def map_filter_def)
  next
    case (Some v)
    have f: "snippet_field q @ ''='' @ lasso_xmlURIEscapeStr v [] = parameter_field (snippet_field q, v)"
      by (simp add: parameter_field_def escape_alnum[OF plain_name(1)[OF q]])
    have "split_fields [] (s @ ''&'' @ parameter_field (snippet_field q, v)) = split_fields [] s @ [parameter_field (snippet_field q, v)]"
      using amp_field_simps[OF parameter_field_plain] .
    then show ?thesis
      using Cons Some plain_name(3)[OF q] f by (simp add: append_value_def pairs_of_def map_filter_def)
  qed
qed (simp add: pairs_of_def map_filter_def)

lemma build_fields:
  assumes "pairs_of m snippets \<noteq> []"
  shows "split_fields [] (lasso_node_build_query_from_snippets snippets m) = map parameter_field (pairs_of m snippets)"
proof -
  have "split_fields [] (foldl (append_value m) [] qs) = map parameter_field (pairs_of m qs)"
    if "set qs \<subseteq> set snippets" "pairs_of m qs \<noteq> []" for qs
    using that
  proof (induction qs)
    case (Cons q qs)
    then have q: "q \<in> set snippets" by simp
    show ?case
    proof (cases "qsn_get q m")
      case None
      then show ?thesis using Cons by (simp add: append_value_def pairs_of_def map_filter_def)
    next
      case (Some v)
      have f: "snippet_field q @ ''='' @ lasso_xmlURIEscapeStr v [] = parameter_field (snippet_field q, v)"
        by (simp add: parameter_field_def escape_alnum[OF plain_name(1)[OF q]])
      moreover have "parameter_field (snippet_field q, v) \<noteq> []" by (simp add: parameter_field_def)
      moreover have "split_fields [] (parameter_field (snippet_field q, v)) = [parameter_field (snippet_field q, v)]"
        using split_fields_plain[OF parameter_field_plain, of "[]"] by simp
      moreover have "append_value m [] q = parameter_field (snippet_field q, v)"
        using f Some plain_name(3)[OF q] by (simp add: append_value_def)
      ultimately show ?thesis
        using Cons(2) build_split[of qs "parameter_field (snippet_field q, v)" m] Some
        by (simp add: pairs_of_def map_filter_def)
    qed
  qed (simp add: pairs_of_def map_filter_def)
  then show ?thesis using assms by (simp add: lasso_node_build_query_from_snippets_def)
qed

lemma read_pairs:
  assumes "set qs \<subseteq> set snippets"
  shows "fold (read_field snippets add) (map (\<lambda>(k, v). k @ ''='' @ v) (pairs_of m qs)) m0 = fold (apply_snippet m) qs m0"
  using assms
proof (induction qs arbitrary: m0)
  case (Cons p qs)
  then show ?case
    using read_known[of p] by (cases "qsn_get p m") (auto simp: pairs_of_def map_filter_def apply_snippet_def)
qed (simp add: pairs_of_def map_filter_def)

lemma build_no_angle: "CHR ''<'' \<notin> set (lasso_node_build_query_from_snippets snippets m)"
proof -
  have "CHR ''<'' \<notin> set (foldl (append_value m) s qs)" if "CHR ''<'' \<notin> set s" "set qs \<subseteq> set snippets" for s qs
    using that
  proof (induction qs arbitrary: s)
    case (Cons q qs)
    then have "CHR ''<'' \<notin> set (snippet_field q)" using plain_name(1)[of q] by (auto simp: list_all_iff is_alnum_def)
    then have "CHR ''<'' \<notin> set (append_value m s q)"
      using Cons plain_name(3)[of q] escape_no_angle by (auto simp: append_value_def split: option.split)
    then show ?case using Cons by simp
  qed simp
  then show ?thesis by (simp add: lasso_node_build_query_from_snippets_def)
qed

text \<open>A message that is written as a query, signed, and read into an object: every field that the message has is set.\<close>

theorem signed_query_read:
  assumes "unescapes (qlb_unescape lib)" and "lasso_query_sign lib min_method (lasso_node_build_query_from_snippets snippets m) method key = Some (Some s)"
    and "list_all c_string (query_values snippets m)" and "query_values snippets m \<noteq> []"
  shows "lasso_node_init_from_query_fields snippets add (lasso_urlencoded_to_strings lib s) m0 = fold (apply_snippet m) snippets m0"
proof -
  have n: "pairs_of m snippets \<noteq> []" using assms(4) by (simp add: pairs_of_def query_values_def map_filter_Nil_iff)
  have c: "c_string v" if "q \<in> set snippets" "qsn_get q m = Some v" for q v
    using assms(3) that by (auto simp: list_all_iff query_values_def in_map_filter)
  obtain b where "s = signed_content lib method (lasso_node_build_query_from_snippets snippets m) @ ''&Signature='' @ lasso_xmlURIEscapeStr b []"
    by (rule query_sign_made[OF assms(2)])
  then have sp: "split_fields [] s = map parameter_field (pairs_of m snippets) @
      [''SigAlg='' @ lasso_xmlURIEscapeStr (qlb_href lib method) [], ''Signature='' @ lasso_xmlURIEscapeStr b []]"
    using signed_split build_fields[OF n] by simp
  have "unescape_field lib (parameter_field kv) = fst kv @ ''='' @ snd kv" if kv: "kv \<in> set (pairs_of m snippets)" for kv
  proof -
    obtain p v where p: "p \<in> set snippets" "qsn_get p m = Some v" "kv = (snippet_field p, v)"
      using kv by (auto simp: pairs_of_def in_map_filter)
    then show ?thesis using unescape_parameter_field[OF assms(1) alnum_c_string[OF plain_name(1)] c] by simp
  qed
  then have u: "map (unescape_field lib) (map parameter_field (pairs_of m snippets)) = map (\<lambda>(k, v). k @ ''='' @ v) (pairs_of m snippets)"
    by auto
  have d: "unescape_field lib (''SigAlg='' @ x) = ''SigAlg='' @ qlb_unescape lib x"
    "unescape_field lib (''Signature='' @ x) = ''Signature='' @ qlb_unescape lib x" for x
    using assms(1) percent_decode_verbatim[of "''SigAlg=''" x] percent_decode_verbatim[of "''Signature=''" x]
    by (simp_all add: unescape_field_def unescapes_def)
  have "lasso_urlencoded_to_strings lib s = map (\<lambda>(k, v). k @ ''='' @ v) (pairs_of m snippets) @
      [''SigAlg='' @ qlb_unescape lib (lasso_xmlURIEscapeStr (qlb_href lib method) []), ''Signature='' @ qlb_unescape lib (lasso_xmlURIEscapeStr b [])]"
    by (simp only: urlencoded_fields sp map_append u) (simp only: list.map d)
  then have "lasso_node_init_from_query_fields snippets add (lasso_urlencoded_to_strings lib s) m0 =
      fold (read_field snippets add) (map (\<lambda>(k, v). k @ ''='' @ v) (pairs_of m snippets)) m0"
    by (simp only: lasso_node_init_from_query_fields_def fold_append fold_simps comp_def read_signature)
  then show ?thesis using read_pairs[OF subset_refl, of add m m0] by simp
qed

lemma signed_query_format:
  assumes "lasso_query_sign lib min_method (lasso_node_build_query_from_snippets snippets m) method key = Some (Some s)"
  shows "lasso_node_init_from_message_with_format lib xml_parse init init_from_query s LASSO_MESSAGE_FORMAT_UNKNOWN =
    (let (ok, n) = init_from_query (lasso_urlencoded_to_strings lib s)
     in (if ok then LASSO_MESSAGE_FORMAT_QUERY else LASSO_MESSAGE_FORMAT_ERROR, None, n))"
  by (rule class_query_format[OF query_sign_chars[OF assms build_no_angle]])

end

end
