(* ===== verification/Lasso_IdffMessages.thy ===== *)
theory Lasso_IdffMessages
  imports Lasso_Server Lasso_QuerySnippets
begin

text \<open>
  The messages of ID-FF 1.2 that the profiles of \<^verbatim>\<open>lasso/id-ff\<close> exchange: the classes \<^verbatim>\<open>lib_*\<close> and \<^verbatim>\<open>samlp_*\<close> of
  \<^verbatim>\<open>lasso/xml\<close>.  A class that extends another is a record that extends its record.  Each class has its constructor, its
  query fields and its methods \<^verbatim>\<open>build_query\<close> and \<^verbatim>\<open>init_from_query\<close>.  A name identifier is the object the code
  stores, of whatever class: the casts of the code do not change it.
\<close>

section \<open>Constants\<close>

abbreviation LASSO_LIB_STATUS_CODE_UNKNOWN_PRINCIPAL :: string where
  "LASSO_LIB_STATUS_CODE_UNKNOWN_PRINCIPAL \<equiv> ''lib:UnknownPrincipal''"
abbreviation LASSO_LIB_STATUS_CODE_INVALID_SIGNATURE :: string where
  "LASSO_LIB_STATUS_CODE_INVALID_SIGNATURE \<equiv> ''lib:InvalidSignature''"
abbreviation LASSO_LIB_STATUS_CODE_FEDERATION_DOES_NOT_EXIST :: string where
  "LASSO_LIB_STATUS_CODE_FEDERATION_DOES_NOT_EXIST \<equiv> ''lib:FederationDoesNotExist''"
abbreviation LASSO_LIB_STATUS_CODE_UNSUPPORTED_PROFILE :: string where
  "LASSO_LIB_STATUS_CODE_UNSUPPORTED_PROFILE \<equiv> ''lib:UnsupportedProfile''"
abbreviation LASSO_SAML_STATUS_CODE_SUCCESS :: string where "LASSO_SAML_STATUS_CODE_SUCCESS \<equiv> ''samlp:Success''"
abbreviation LASSO_SAML_STATUS_CODE_RESPONDER :: string where "LASSO_SAML_STATUS_CODE_RESPONDER \<equiv> ''samlp:Responder''"
abbreviation LASSO_SAML_STATUS_CODE_REQUEST_DENIED :: string where "LASSO_SAML_STATUS_CODE_REQUEST_DENIED \<equiv> ''samlp:RequestDenied''"
abbreviation LASSO_LIB_NAME_IDENTIFIER_FORMAT_FEDERATED :: string where
  "LASSO_LIB_NAME_IDENTIFIER_FORMAT_FEDERATED \<equiv> ''urn:liberty:iff:nameid:federated''"
abbreviation LASSO_LIB_PROTOCOL_PROFILE_SLO_SP_SOAP :: string where
  "LASSO_LIB_PROTOCOL_PROFILE_SLO_SP_SOAP \<equiv> ''http://projectliberty.org/profiles/slo-sp-soap''"

section \<open>Requests\<close>

datatype signature_type = LASSO_SIGNATURE_TYPE_NONE | LASSO_SIGNATURE_TYPE_SIMPLE | LASSO_SIGNATURE_TYPE_WITHX509

text \<open>\<open>sra_signature\<close> is the context that \<^verbatim>\<open>lasso_node_set_signature\<close> attaches to any object.\<close>

record samlp_request_abstract =
  sra_RequestID :: cstr
  sra_MajorVersion :: int
  sra_MinorVersion :: int
  sra_IssueInstant :: cstr
  sra_sign_type :: signature_type
  sra_sign_method :: int
  sra_private_key_file :: cstr
  sra_certificate_file :: cstr
  sra_signature :: "signature_context option"

record lib_federation_termination_notification = samlp_request_abstract +
  ftn_ProviderID :: cstr
  ftn_NameIdentifier :: "name_identifier option"
  ftn_consent :: cstr
  ftn_RelayState :: cstr

record lib_register_name_identifier_request = samlp_request_abstract +
  rni_ProviderID :: cstr
  rni_IDPProvidedNameIdentifier :: "name_identifier option"
  rni_SPProvidedNameIdentifier :: "name_identifier option"
  rni_OldProvidedNameIdentifier :: "name_identifier option"
  rni_RelayState :: cstr

record lib_logout_request = samlp_request_abstract +
  llr_ProviderID :: cstr
  llr_NameIdentifier :: "name_identifier option"
  llr_SessionIndex :: cstr
  llr_SessionIndex_more :: "string list"
  llr_RelayState :: cstr
  llr_consent :: cstr
  llr_NotOnOrAfter :: cstr

record lib_name_identifier_mapping_request = samlp_request_abstract +
  nmr_ProviderID :: cstr
  nmr_NameIdentifier :: "name_identifier option"
  nmr_TargetNamespace :: cstr
  nmr_consent :: cstr

record lib_request_authn_context =
  lrc_AuthnContextClassRef :: "string list"
  lrc_AuthnContextStatementRef :: "string list"
  lrc_AuthnContextComparison :: cstr

text \<open>The list of identity providers of a scoping is present or not, with its address for a complete list.\<close>

record lib_scoping =
  lsc_ProxyCount :: int
  lsc_IDPList :: "cstr option"

record lib_authn_request = samlp_request_abstract +
  lar_Extension :: "xml list"
  lar_ProviderID :: cstr
  lar_AffiliationID :: cstr
  lar_NameIDPolicy :: cstr
  lar_ForceAuthn :: bool
  lar_IsPassive :: bool
  lar_ProtocolProfile :: cstr
  lar_AssertionConsumerServiceID :: cstr
  lar_RequestAuthnContext :: "lib_request_authn_context option"
  lar_RelayState :: cstr
  lar_Scoping :: "lib_scoping option"
  lar_consent :: cstr

text \<open>The request for the assertion of an artifact.\<close>

record samlp_request = samlp_request_abstract +
  spr_AssertionArtifact :: cstr

definition LASSO_LIB_MAJOR_VERSION_N :: int where "LASSO_LIB_MAJOR_VERSION_N = 1"
definition LASSO_LIB_MINOR_VERSION_N :: int where "LASSO_LIB_MINOR_VERSION_N = 2"

definition lasso_lib_federation_termination_notification_new :: lib_federation_termination_notification where
  "lasso_lib_federation_termination_notification_new =
     \<lparr>sra_RequestID = None, sra_MajorVersion = 0, sra_MinorVersion = 0, sra_IssueInstant = None,
      sra_sign_type = LASSO_SIGNATURE_TYPE_NONE, sra_sign_method = 0, sra_private_key_file = None, sra_certificate_file = None,
      sra_signature = None, ftn_ProviderID = None, ftn_NameIdentifier = None, ftn_consent = None, ftn_RelayState = None\<rparr>"

definition lasso_lib_register_name_identifier_request_new :: lib_register_name_identifier_request where
  "lasso_lib_register_name_identifier_request_new =
     \<lparr>sra_RequestID = None, sra_MajorVersion = 0, sra_MinorVersion = 0, sra_IssueInstant = None,
      sra_sign_type = LASSO_SIGNATURE_TYPE_NONE, sra_sign_method = 0, sra_private_key_file = None, sra_certificate_file = None,
      sra_signature = None, rni_ProviderID = None, rni_IDPProvidedNameIdentifier = None, rni_SPProvidedNameIdentifier = None,
      rni_OldProvidedNameIdentifier = None, rni_RelayState = None\<rparr>"

definition lasso_lib_logout_request_new :: lib_logout_request where
  "lasso_lib_logout_request_new =
     \<lparr>sra_RequestID = None, sra_MajorVersion = 0, sra_MinorVersion = 0, sra_IssueInstant = None,
      sra_sign_type = LASSO_SIGNATURE_TYPE_NONE, sra_sign_method = 0, sra_private_key_file = None, sra_certificate_file = None,
      sra_signature = None, llr_ProviderID = None, llr_NameIdentifier = None, llr_SessionIndex = None, llr_SessionIndex_more = [],
      llr_RelayState = None, llr_consent = None, llr_NotOnOrAfter = None\<rparr>"

definition lasso_lib_name_identifier_mapping_request_new :: lib_name_identifier_mapping_request where
  "lasso_lib_name_identifier_mapping_request_new =
     \<lparr>sra_RequestID = None, sra_MajorVersion = 0, sra_MinorVersion = 0, sra_IssueInstant = None,
      sra_sign_type = LASSO_SIGNATURE_TYPE_NONE, sra_sign_method = 0, sra_private_key_file = None, sra_certificate_file = None,
      sra_signature = None, nmr_ProviderID = None, nmr_NameIdentifier = None, nmr_TargetNamespace = None, nmr_consent = None\<rparr>"

definition lasso_lib_authn_request_new :: lib_authn_request where
  "lasso_lib_authn_request_new =
     \<lparr>sra_RequestID = None, sra_MajorVersion = 0, sra_MinorVersion = 0, sra_IssueInstant = None,
      sra_sign_type = LASSO_SIGNATURE_TYPE_NONE, sra_sign_method = 0, sra_private_key_file = None, sra_certificate_file = None,
      sra_signature = None, lar_Extension = [], lar_ProviderID = None, lar_AffiliationID = None, lar_NameIDPolicy = None,
      lar_ForceAuthn = False, lar_IsPassive = True, lar_ProtocolProfile = None, lar_AssertionConsumerServiceID = None,
      lar_RequestAuthnContext = None, lar_RelayState = None, lar_Scoping = None, lar_consent = None\<rparr>"

definition lasso_samlp_request_new :: samlp_request where
  "lasso_samlp_request_new =
     \<lparr>sra_RequestID = None, sra_MajorVersion = 0, sra_MinorVersion = 0, sra_IssueInstant = None,
      sra_sign_type = LASSO_SIGNATURE_TYPE_NONE, sra_sign_method = 0, sra_private_key_file = None, sra_certificate_file = None,
      sra_signature = None, spr_AssertionArtifact = None\<rparr>"

text \<open>What the constructors with arguments share; \<open>uid\<close> is the fresh identifier.\<close>

definition new_request :: "environment \<Rightarrow> string \<Rightarrow> signature_type \<Rightarrow> int \<Rightarrow> 'a samlp_request_abstract_scheme \<Rightarrow>
     'a samlp_request_abstract_scheme" where
  "new_request env uid sign_type sign_method r =
     r\<lparr>sra_RequestID := Some uid, sra_MajorVersion := LASSO_LIB_MAJOR_VERSION_N, sra_MinorVersion := LASSO_LIB_MINOR_VERSION_N,
       sra_IssueInstant := lasso_time_to_iso_8601_gmt (env_now env), sra_sign_type := sign_type, sra_sign_method := sign_method\<rparr>"

definition lasso_lib_federation_termination_notification_new_full ::
  "environment \<Rightarrow> string \<Rightarrow> cstr \<Rightarrow> name_identifier \<Rightarrow> signature_type \<Rightarrow> int \<Rightarrow> lib_federation_termination_notification" where
  "lasso_lib_federation_termination_notification_new_full env uid providerID nameIdentifier sign_type sign_method =
     (new_request env uid sign_type sign_method lasso_lib_federation_termination_notification_new)
       \<lparr>ftn_ProviderID := providerID, ftn_NameIdentifier := Some nameIdentifier\<rparr>"

definition lasso_lib_register_name_identifier_request_new_full ::
  "environment \<Rightarrow> string \<Rightarrow> cstr \<Rightarrow> name_identifier option \<Rightarrow> name_identifier option \<Rightarrow> name_identifier option \<Rightarrow>
     signature_type \<Rightarrow> int \<Rightarrow> lib_register_name_identifier_request" where
  "lasso_lib_register_name_identifier_request_new_full env uid providerID idpNameIdentifier spNameIdentifier oldNameIdentifier
       sign_type sign_method =
     (new_request env uid sign_type sign_method lasso_lib_register_name_identifier_request_new)
       \<lparr>rni_ProviderID := providerID, rni_IDPProvidedNameIdentifier := idpNameIdentifier,
        rni_SPProvidedNameIdentifier := spNameIdentifier, rni_OldProvidedNameIdentifier := oldNameIdentifier\<rparr>"

definition lasso_lib_logout_request_new_full ::
  "environment \<Rightarrow> string \<Rightarrow> cstr \<Rightarrow> name_identifier \<Rightarrow> signature_type \<Rightarrow> int \<Rightarrow> lib_logout_request" where
  "lasso_lib_logout_request_new_full env uid providerID nameIdentifier sign_type sign_method =
     (new_request env uid sign_type sign_method lasso_lib_logout_request_new)
       \<lparr>llr_ProviderID := providerID, llr_NameIdentifier := Some nameIdentifier\<rparr>"

definition lasso_lib_name_identifier_mapping_request_new_full ::
  "environment \<Rightarrow> string \<Rightarrow> cstr \<Rightarrow> name_identifier \<Rightarrow> string \<Rightarrow> signature_type \<Rightarrow> int \<Rightarrow> lib_name_identifier_mapping_request" where
  "lasso_lib_name_identifier_mapping_request_new_full env uid providerID nameIdentifier targetNamespace sign_type sign_method =
     (new_request env uid sign_type sign_method lasso_lib_name_identifier_mapping_request_new)
       \<lparr>nmr_ProviderID := providerID, nmr_NameIdentifier := Some nameIdentifier, nmr_TargetNamespace := Some targetNamespace\<rparr>"

definition lasso_lib_logout_request_set_session_indexes :: "lib_logout_request \<Rightarrow> string list \<Rightarrow> lib_logout_request" where
  "lasso_lib_logout_request_set_session_indexes r l =
     (case l of
        [] \<Rightarrow> r\<lparr>llr_SessionIndex := None, llr_SessionIndex_more := []\<rparr>
      | first # rest \<Rightarrow> r\<lparr>llr_SessionIndex := Some first, llr_SessionIndex_more := rest\<rparr>)"

definition lasso_lib_logout_request_get_session_indexes :: "lib_logout_request \<Rightarrow> string list" where
  "lasso_lib_logout_request_get_session_indexes r =
     (case llr_SessionIndex r of None \<Rightarrow> [] | Some i \<Rightarrow> [i]) @ llr_SessionIndex_more r"

section \<open>Responses\<close>

datatype samlp_status_code = SamlpStatusCode (ssc_Value: cstr) (ssc_StatusCode: "samlp_status_code option")

record samlp_status =
  sst_StatusCode :: "samlp_status_code option"

record samlp_response_abstract =
  spa_ResponseID :: cstr
  spa_InResponseTo :: cstr
  spa_MajorVersion :: int
  spa_MinorVersion :: int
  spa_IssueInstant :: cstr
  spa_Recipient :: cstr
  spa_sign_type :: signature_type
  spa_sign_method :: int
  spa_private_key_file :: cstr
  spa_certificate_file :: cstr
  spa_signature :: "signature_context option"

text \<open>The two classes of \<^verbatim>\<open>lib:StatusResponseType\<close>, for the registration of names and for the logout, differ in their name only.\<close>

record lib_status_response = samlp_response_abstract +
  lsr_ProviderID :: cstr
  lsr_Status :: "samlp_status option"
  lsr_RelayState :: cstr

record lib_name_identifier_mapping_response = samlp_response_abstract +
  nms_ProviderID :: cstr
  nms_Status :: "samlp_status option"
  nms_NameIdentifier :: "name_identifier option"

text \<open>The answer to a request for an assertion, and the one to an authentication request, which extends it.  A response that
  was read has the node that it was read from.\<close>

record samlp_response = samlp_response_abstract +
  srs_Status :: "samlp_status option"
  srs_Assertion :: "assertion_node list"
  srs_original_xmlnode :: "xml option"

record lib_authn_response = samlp_response +
  lap_ProviderID :: cstr
  lap_RelayState :: cstr
  lap_consent :: cstr

definition lasso_lib_status_response_new :: lib_status_response where
  "lasso_lib_status_response_new =
     \<lparr>spa_ResponseID = None, spa_InResponseTo = None, spa_MajorVersion = 0, spa_MinorVersion = 0, spa_IssueInstant = None,
      spa_Recipient = None, spa_sign_type = LASSO_SIGNATURE_TYPE_NONE, spa_sign_method = 0, spa_private_key_file = None,
      spa_certificate_file = None, spa_signature = None, lsr_ProviderID = None, lsr_Status = None, lsr_RelayState = None\<rparr>"

definition lasso_lib_name_identifier_mapping_response_new :: lib_name_identifier_mapping_response where
  "lasso_lib_name_identifier_mapping_response_new =
     \<lparr>spa_ResponseID = None, spa_InResponseTo = None, spa_MajorVersion = 0, spa_MinorVersion = 0, spa_IssueInstant = None,
      spa_Recipient = None, spa_sign_type = LASSO_SIGNATURE_TYPE_NONE, spa_sign_method = 0, spa_private_key_file = None,
      spa_certificate_file = None, spa_signature = None, nms_ProviderID = None, nms_Status = None, nms_NameIdentifier = None\<rparr>"

definition LASSO_SAML_MAJOR_VERSION_N :: int where "LASSO_SAML_MAJOR_VERSION_N = 1"
definition LASSO_SAML_MINOR_VERSION_N :: int where "LASSO_SAML_MINOR_VERSION_N = 1"

definition new_status :: "string \<Rightarrow> samlp_status" where
  "new_status v = \<lparr>sst_StatusCode = Some (SamlpStatusCode (Some v) None)\<rparr>"

definition lasso_samlp_response_new :: "environment \<Rightarrow> string \<Rightarrow> samlp_response" where
  "lasso_samlp_response_new env uid =
     \<lparr>spa_ResponseID = Some uid, spa_InResponseTo = None, spa_MajorVersion = LASSO_SAML_MAJOR_VERSION_N,
      spa_MinorVersion = LASSO_SAML_MINOR_VERSION_N, spa_IssueInstant = lasso_time_to_iso_8601_gmt (env_now env),
      spa_Recipient = None, spa_sign_type = LASSO_SIGNATURE_TYPE_NONE, spa_sign_method = 0, spa_private_key_file = None,
      spa_certificate_file = None, spa_signature = None, srs_Status = Some (new_status LASSO_SAML_STATUS_CODE_REQUEST_DENIED),
      srs_Assertion = [], srs_original_xmlnode = None\<rparr>"

definition lasso_samlp_response_abstract_fill ::
  "environment \<Rightarrow> string \<Rightarrow> cstr \<Rightarrow> cstr \<Rightarrow> 'a samlp_response_abstract_scheme \<Rightarrow> 'a samlp_response_abstract_scheme" where
  "lasso_samlp_response_abstract_fill env uid inResponseTo recipient r =
     r\<lparr>spa_ResponseID := Some uid, spa_MajorVersion := LASSO_LIB_MAJOR_VERSION_N, spa_MinorVersion := LASSO_LIB_MINOR_VERSION_N,
       spa_IssueInstant := lasso_time_to_iso_8601_gmt (env_now env), spa_InResponseTo := inResponseTo, spa_Recipient := recipient\<rparr>"

text \<open>Without a provider identifier the response is empty, and the request is not read.\<close>

definition lasso_lib_authn_response_new :: "environment \<Rightarrow> string \<Rightarrow> cstr \<Rightarrow> lib_authn_request \<Rightarrow> lib_authn_response" where
  "lasso_lib_authn_response_new env uid providerID request =
     (let response = \<lparr>spa_ResponseID = None, spa_InResponseTo = None, spa_MajorVersion = 0, spa_MinorVersion = 0,
            spa_IssueInstant = None, spa_Recipient = None, spa_sign_type = LASSO_SIGNATURE_TYPE_NONE, spa_sign_method = 0,
            spa_private_key_file = None, spa_certificate_file = None, spa_signature = None, srs_Status = None, srs_Assertion = [],
            srs_original_xmlnode = None, lap_ProviderID = None, lap_RelayState = None, lap_consent = None\<rparr>
      in if providerID = None then response
         else (lasso_samlp_response_abstract_fill env uid (sra_RequestID request) (lar_ProviderID request) response)
                \<lparr>lap_ProviderID := providerID, lap_RelayState := lar_RelayState request\<rparr>)"

definition lasso_lib_register_name_identifier_response_new_full ::
  "environment \<Rightarrow> string \<Rightarrow> cstr \<Rightarrow> string \<Rightarrow> lib_register_name_identifier_request \<Rightarrow> signature_type \<Rightarrow> int \<Rightarrow> lib_status_response" where
  "lasso_lib_register_name_identifier_response_new_full env uid providerID statusCodeValue request sign_type sign_method =
     (lasso_samlp_response_abstract_fill env uid (sra_RequestID request) (rni_ProviderID request) lasso_lib_status_response_new)
       \<lparr>lsr_ProviderID := providerID, spa_sign_type := sign_type, spa_sign_method := sign_method,
        lsr_RelayState := rni_RelayState request, lsr_Status := Some (new_status statusCodeValue)\<rparr>"

definition lasso_lib_logout_response_new_full ::
  "environment \<Rightarrow> string \<Rightarrow> cstr \<Rightarrow> string \<Rightarrow> lib_logout_request \<Rightarrow> signature_type \<Rightarrow> int \<Rightarrow> lib_status_response" where
  "lasso_lib_logout_response_new_full env uid providerID statusCodeValue request sign_type sign_method =
     (lasso_samlp_response_abstract_fill env uid (sra_RequestID request) (llr_ProviderID request) lasso_lib_status_response_new)
       \<lparr>lsr_ProviderID := providerID, spa_sign_type := sign_type, spa_sign_method := sign_method,
        lsr_RelayState := llr_RelayState request, lsr_Status := Some (new_status statusCodeValue)\<rparr>"

definition lasso_lib_name_identifier_mapping_response_new_full ::
  "environment \<Rightarrow> string \<Rightarrow> cstr \<Rightarrow> string \<Rightarrow> lib_name_identifier_mapping_request \<Rightarrow> signature_type \<Rightarrow> int \<Rightarrow>
     lib_name_identifier_mapping_response" where
  "lasso_lib_name_identifier_mapping_response_new_full env uid providerID statusCodeValue request sign_type sign_method =
     (lasso_samlp_response_abstract_fill env uid (sra_RequestID request) (nmr_ProviderID request)
        lasso_lib_name_identifier_mapping_response_new)
       \<lparr>nms_ProviderID := providerID, spa_sign_type := sign_type, spa_sign_method := sign_method,
        nms_Status := Some (new_status statusCodeValue)\<rparr>"

section \<open>Query fields\<close>

text \<open>\<^verbatim>\<open>lasso_saml_name_identifier_new\<close>, an empty identifier.\<close>

definition empty_name :: name_identifier where
  "empty_name = SamlNameIdentifier \<lparr>sni_content = None, sni_NameQualifier = None, sni_Format = None\<rparr>"

definition request_snippets :: "'a samlp_request_abstract_scheme query_snippet list" where
  "request_snippets =
     [string_snippet ''RequestID'' None sra_RequestID sra_RequestID_update,
      int_snippet ''MajorVersion'' None sra_MajorVersion sra_MajorVersion_update,
      int_snippet ''MinorVersion'' None sra_MinorVersion sra_MinorVersion_update,
      string_snippet ''IssueInstant'' None sra_IssueInstant sra_IssueInstant_update]"

definition notification_snippets :: "lib_federation_termination_notification query_snippet list" where
  "notification_snippets = request_snippets @
     [string_snippet ''ProviderID'' None ftn_ProviderID ftn_ProviderID_update,
      name_snippet ''NameIdentifier/NameQualifier'' ''NameQualifier'' PartNameQualifier ftn_NameIdentifier ftn_NameIdentifier_update,
      name_snippet ''NameIdentifier/Format'' ''NameFormat'' PartFormat ftn_NameIdentifier ftn_NameIdentifier_update,
      name_snippet ''NameIdentifier/content'' ''NameIdentifier'' PartContent ftn_NameIdentifier ftn_NameIdentifier_update,
      string_snippet ''consent'' None ftn_consent ftn_consent_update]"

definition register_snippets :: "lib_register_name_identifier_request query_snippet list" where
  "register_snippets = request_snippets @
     [string_snippet ''ProviderID'' None rni_ProviderID rni_ProviderID_update,
      name_snippet ''IDPProvidedNameIdentifier/NameQualifier'' ''IDPNameQualifier'' PartNameQualifier
        rni_IDPProvidedNameIdentifier rni_IDPProvidedNameIdentifier_update,
      name_snippet ''IDPProvidedNameIdentifier/Format'' ''IDPNameFormat'' PartFormat
        rni_IDPProvidedNameIdentifier rni_IDPProvidedNameIdentifier_update,
      name_snippet ''IDPProvidedNameIdentifier/content'' ''IDPProvidedNameIdentifier'' PartContent
        rni_IDPProvidedNameIdentifier rni_IDPProvidedNameIdentifier_update,
      name_snippet ''SPProvidedNameIdentifier/NameQualifier'' ''SPNameQualifier'' PartNameQualifier
        rni_SPProvidedNameIdentifier rni_SPProvidedNameIdentifier_update,
      name_snippet ''SPProvidedNameIdentifier/Format'' ''SPNameFormat'' PartFormat
        rni_SPProvidedNameIdentifier rni_SPProvidedNameIdentifier_update,
      name_snippet ''SPProvidedNameIdentifier/content'' ''SPProvidedNameIdentifier'' PartContent
        rni_SPProvidedNameIdentifier rni_SPProvidedNameIdentifier_update,
      name_snippet ''OldProvidedNameIdentifier/NameQualifier'' ''OldNameQualifier'' PartNameQualifier
        rni_OldProvidedNameIdentifier rni_OldProvidedNameIdentifier_update,
      name_snippet ''OldProvidedNameIdentifier/Format'' ''OldNameFormat'' PartFormat
        rni_OldProvidedNameIdentifier rni_OldProvidedNameIdentifier_update,
      name_snippet ''OldProvidedNameIdentifier/content'' ''OldProvidedNameIdentifier'' PartContent
        rni_OldProvidedNameIdentifier rni_OldProvidedNameIdentifier_update,
      string_snippet ''RelayState'' None rni_RelayState rni_RelayState_update]"

text \<open>Of two fields \<^verbatim>\<open>SessionIndex\<close> of the logout request, the one with the first index is found.\<close>

definition logout_snippets :: "lib_logout_request query_snippet list" where
  "logout_snippets = request_snippets @
     [string_snippet ''ProviderID'' None llr_ProviderID llr_ProviderID_update,
      name_snippet ''NameIdentifier/NameQualifier'' ''NameQualifier'' PartNameQualifier llr_NameIdentifier llr_NameIdentifier_update,
      name_snippet ''NameIdentifier/Format'' ''NameFormat'' PartFormat llr_NameIdentifier llr_NameIdentifier_update,
      name_snippet ''NameIdentifier/content'' ''NameIdentifier'' PartContent llr_NameIdentifier llr_NameIdentifier_update,
      string_snippet ''SessionIndex'' None llr_SessionIndex llr_SessionIndex_update,
      string_snippet ''RelayState'' None llr_RelayState llr_RelayState_update,
      string_snippet ''consent'' None llr_consent llr_consent_update]"

text \<open>Authentication requests: truth values, lists of values separated by spaces, the parts of the authentication context and of
  the scoping, which are reached through a path, and the extension.  A request that is filled from a query is new and has no scoping,
  so that its path is not followed.  The entries of a list of identity providers have no query fields.\<close>

definition bool_snippet :: "string \<Rightarrow> ('m \<Rightarrow> bool) \<Rightarrow> ((bool \<Rightarrow> bool) \<Rightarrow> 'm \<Rightarrow> 'm) \<Rightarrow> 'm query_snippet" where
  "bool_snippet path get upd =
     \<lparr>qsn_path = path, qsn_field_name = None, qsn_extension = False,
      qsn_get = \<lambda>m. Some (if get m then ''true'' else ''false''), qsn_set = \<lambda>v. upd (\<lambda>_. v = ''true'')\<rparr>"

fun join_spaces :: "string list \<Rightarrow> string" where
  "join_spaces [] = []"
| "join_spaces [v] = v"
| "join_spaces (v # w # vs) = v @ '' '' @ join_spaces (w # vs)"

definition list_value :: "string list \<Rightarrow> cstr" where
  "list_value l = (if join_spaces l = [] then None else Some (join_spaces l))"

definition context_snippet ::
  "string \<Rightarrow> string \<Rightarrow> (lib_request_authn_context \<Rightarrow> cstr) \<Rightarrow>
     (string \<Rightarrow> lib_request_authn_context \<Rightarrow> lib_request_authn_context) \<Rightarrow> lib_authn_request query_snippet" where
  "context_snippet path name get set_value =
     \<lparr>qsn_path = path, qsn_field_name = Some name, qsn_extension = False,
      qsn_get = \<lambda>m. Option.bind (lar_RequestAuthnContext m) get,
      qsn_set = \<lambda>v. lar_RequestAuthnContext_update (map_option (set_value v))\<rparr>"

definition scoping_snippet :: "string \<Rightarrow> string \<Rightarrow> (lib_scoping \<Rightarrow> cstr) \<Rightarrow> lib_authn_request query_snippet" where
  "scoping_snippet path name get =
     \<lparr>qsn_path = path, qsn_field_name = Some name, qsn_extension = False,
      qsn_get = \<lambda>m. Option.bind (lar_Scoping m) get, qsn_set = \<lambda>_ m. m\<rparr>"

text \<open>Of an extension, the children that have a text and no attributes are written, already escaped.  A child without any
  content, which the code reads through a null pointer, is left out.\<close>

definition simple_child :: "xml \<Rightarrow> bool" where
  "simple_child c \<longleftrightarrow> is_element c \<and> xml_props c = [] \<and> (case xml_children c of Text _ # _ \<Rightarrow> True | _ \<Rightarrow> False)"

definition extension_value :: "xml list \<Rightarrow> cstr" where
  "extension_value l =
     (let children = concat (map (\<lambda>t. filter simple_child (if is_element t then xml_children t else [])) l);
          result = foldl (\<lambda>s c. (if s \<noteq> [] then s @ ''&'' else s) @ xml_name c @ ''='' @
                                lasso_xmlURIEscapeStr (xmlNodeGetContent c) []) [] children
      in if result = [] then None else Some result)"

definition extension_snippet :: "lib_authn_request query_snippet" where
  "extension_snippet =
     \<lparr>qsn_path = ''Extension'', qsn_field_name = None, qsn_extension = True, qsn_get = \<lambda>m. extension_value (lar_Extension m),
      qsn_set = \<lambda>_ m. m\<rparr>"

definition authn_request_snippets :: "lib_authn_request query_snippet list" where
  "authn_request_snippets = request_snippets @
     [string_snippet ''ProviderID'' None lar_ProviderID lar_ProviderID_update,
      string_snippet ''AffiliationID'' None lar_AffiliationID lar_AffiliationID_update,
      bool_snippet ''ForceAuthn'' lar_ForceAuthn lar_ForceAuthn_update,
      bool_snippet ''IsPassive'' lar_IsPassive lar_IsPassive_update,
      string_snippet ''NameIDPolicy'' None lar_NameIDPolicy lar_NameIDPolicy_update,
      string_snippet ''ProtocolProfile'' None lar_ProtocolProfile lar_ProtocolProfile_update,
      string_snippet ''AssertionConsumerServiceID'' None lar_AssertionConsumerServiceID lar_AssertionConsumerServiceID_update,
      context_snippet ''RequestAuthnContext/AuthnContextStatementRef'' ''AuthnContextStatementRef''
        (\<lambda>c. list_value (lrc_AuthnContextStatementRef c)) (\<lambda>v c. c\<lparr>lrc_AuthnContextStatementRef := g_strsplit v '' ''\<rparr>),
      context_snippet ''RequestAuthnContext/AuthnContextClassRef'' ''AuthnContextClassRef''
        (\<lambda>c. list_value (lrc_AuthnContextClassRef c)) (\<lambda>v c. c\<lparr>lrc_AuthnContextClassRef := g_strsplit v '' ''\<rparr>),
      context_snippet ''RequestAuthnContext/AuthnContextComparison'' ''AuthnContextComparison''
        lrc_AuthnContextComparison (\<lambda>v c. c\<lparr>lrc_AuthnContextComparison := Some v\<rparr>),
      string_snippet ''RelayState'' None lar_RelayState lar_RelayState_update,
      scoping_snippet ''Scoping/ProxyCount'' ''ProxyCount'' (\<lambda>s. Some (show_int (lsc_ProxyCount s))),
      scoping_snippet ''Scoping/IDPList/IDPEntries'' ''IDPEntries'' (\<lambda>s. None),
      scoping_snippet ''Scoping/IDPList/GetComplete'' ''GetComplete'' (\<lambda>s. Option.bind (lsc_IDPList s) id),
      string_snippet ''consent'' None lar_consent lar_consent_update,
      extension_snippet]"

text \<open>A status is written as its codes, separated by spaces.\<close>

fun status_query :: "string \<Rightarrow> samlp_status_code \<Rightarrow> string" where
  "status_query s (SamlpStatusCode v sub) =
     (let s = (if s \<noteq> [] then s @ '' '' else s) @ (case v of None \<Rightarrow> [] | Some x \<Rightarrow> x)
      in case sub of None \<Rightarrow> s | Some c \<Rightarrow> status_query s c)"

fun status_of_values :: "string list \<Rightarrow> samlp_status_code" where
  "status_of_values [] = SamlpStatusCode None None"
| "status_of_values [v] = SamlpStatusCode (Some v) None"
| "status_of_values (v # w # vs) = SamlpStatusCode (Some v) (Some (status_of_values (w # vs)))"

definition status_snippet :: "lib_status_response query_snippet" where
  "status_snippet =
     \<lparr>qsn_path = ''Status'', qsn_field_name = Some ''Value'', qsn_extension = False,
      qsn_get = \<lambda>r. map_option (\<lambda>st. case sst_StatusCode st of None \<Rightarrow> [] | Some c \<Rightarrow> status_query [] c) (lsr_Status r),
      qsn_set = \<lambda>v. lsr_Status_update (map_option (\<lambda>_. \<lparr>sst_StatusCode = Some (status_of_values (g_strsplit v '' ''))\<rparr>))\<rparr>"

definition status_response_snippets :: "lib_status_response query_snippet list" where
  "status_response_snippets =
     [string_snippet ''ResponseID'' None spa_ResponseID spa_ResponseID_update,
      int_snippet ''MajorVersion'' None spa_MajorVersion spa_MajorVersion_update,
      int_snippet ''MinorVersion'' None spa_MinorVersion spa_MinorVersion_update,
      string_snippet ''IssueInstant'' None spa_IssueInstant spa_IssueInstant_update,
      string_snippet ''Recipient'' None spa_Recipient spa_Recipient_update,
      string_snippet ''ProviderID'' None lsr_ProviderID lsr_ProviderID_update,
      status_snippet,
      string_snippet ''RelayState'' None lsr_RelayState lsr_RelayState_update,
      string_snippet ''InResponseTo'' None spa_InResponseTo spa_InResponseTo_update]"

section \<open>Writing and reading queries\<close>

text \<open>Only an authentication request lists an extension among its query fields.\<close>

definition no_extension :: "string \<Rightarrow> string \<Rightarrow> 'm \<Rightarrow> 'm" where
  "no_extension name v m = m"

text \<open>With a relay state, the arguments of \<^verbatim>\<open>g_strdup_printf\<close> are one place off: the escaped relay state is the format.\<close>

definition notification_build_query :: "query_lib \<Rightarrow> lib_federation_termination_notification \<Rightarrow> string" where
  "notification_build_query lib request =
     (let query = lasso_node_build_query_from_snippets notification_snippets request in
      case ftn_RelayState request of
        None \<Rightarrow> query
      | Some r \<Rightarrow> qlb_printf lib (qlb_uri_escape lib r) [''%s&RelayState=%s'', query, r])"

definition notification_init_from_query ::
  "lib_federation_termination_notification \<Rightarrow> string list \<Rightarrow> bool \<times> lib_federation_termination_notification" where
  "notification_init_from_query node query_fields =
     (let request = lasso_node_init_from_query_fields notification_snippets no_extension query_fields
                      (node\<lparr>ftn_NameIdentifier := Some empty_name\<rparr>)
      in if ftn_ProviderID request = None \<or> Option.bind (ftn_NameIdentifier request) (get_part PartContent) = None \<or>
            Option.bind (ftn_NameIdentifier request) (get_part PartFormat) = None
         then (False, request\<lparr>ftn_NameIdentifier := None\<rparr>)
         else (True, request))"

definition drop_empty :: "name_identifier option \<Rightarrow> name_identifier option" where
  "drop_empty n = (if Option.bind n (get_part PartContent) = None then None else n)"

definition register_init_from_query ::
  "lib_register_name_identifier_request \<Rightarrow> string list \<Rightarrow> bool \<times> lib_register_name_identifier_request" where
  "register_init_from_query node query_fields =
     (let request = lasso_node_init_from_query_fields register_snippets no_extension query_fields
                      (node\<lparr>rni_IDPProvidedNameIdentifier := Some empty_name, rni_SPProvidedNameIdentifier := Some empty_name,
                            rni_OldProvidedNameIdentifier := Some empty_name\<rparr>);
          request = request\<lparr>rni_IDPProvidedNameIdentifier := drop_empty (rni_IDPProvidedNameIdentifier request),
                            rni_SPProvidedNameIdentifier := drop_empty (rni_SPProvidedNameIdentifier request),
                            rni_OldProvidedNameIdentifier := drop_empty (rni_OldProvidedNameIdentifier request)\<rparr>
      in (\<not> (rni_ProviderID request = None \<or> rni_OldProvidedNameIdentifier request = None \<or>
             rni_IDPProvidedNameIdentifier request = None), request))"

text \<open>The format that is put in for a missing one is the name of the constant, in quotes.\<close>

definition logout_request_init_from_query :: "lib_logout_request \<Rightarrow> string list \<Rightarrow> bool \<times> lib_logout_request" where
  "logout_request_init_from_query node query_fields =
     (let request = lasso_node_init_from_query_fields logout_snippets no_extension query_fields
                      (node\<lparr>llr_NameIdentifier := Some empty_name\<rparr>)
      in if llr_ProviderID request = None \<or> Option.bind (llr_NameIdentifier request) (get_part PartContent) = None
         then (False, request\<lparr>llr_NameIdentifier := None\<rparr>)
         else (True, if Option.bind (llr_NameIdentifier request) (get_part PartFormat) = None
                     then request\<lparr>llr_NameIdentifier := map_option (set_part PartFormat
                            ''LASSO_SAML2_NAME_IDENTIFIER_FORMAT_UNSPECIFIED'') (llr_NameIdentifier request)\<rparr>
                     else request))"

text \<open>A field of an unknown name is added to the first extension.\<close>

definition add_authn_extension :: "string \<Rightarrow> string \<Rightarrow> lib_authn_request \<Rightarrow> lib_authn_request" where
  "add_authn_extension name v r =
     (let child = Element name None [] [Text v] in
      r\<lparr>lar_Extension :=
          (case lar_Extension r of
             [] \<Rightarrow> [Element ''Extension'' (Some ''urn:liberty:iff:2003-08'') [] [child]]
           | Element n ns ps cs # l \<Rightarrow> Element n ns ps (cs @ [child]) # l
           | Text t # l \<Rightarrow> Text t # l)\<rparr>)"

definition lasso_lib_request_authn_context_new :: lib_request_authn_context where
  "lasso_lib_request_authn_context_new =
     \<lparr>lrc_AuthnContextClassRef = [], lrc_AuthnContextStatementRef = [], lrc_AuthnContextComparison = None\<rparr>"

definition authn_request_init_from_query :: "lib_authn_request \<Rightarrow> string list \<Rightarrow> bool \<times> lib_authn_request" where
  "authn_request_init_from_query node query_fields =
     (let request = lasso_node_init_from_query_fields authn_request_snippets add_authn_extension query_fields
                      (node\<lparr>lar_RequestAuthnContext := Some lasso_lib_request_authn_context_new\<rparr>);
          request = (if lar_RequestAuthnContext request = Some lasso_lib_request_authn_context_new
                     then request\<lparr>lar_RequestAuthnContext := None\<rparr> else request)
      in (lar_ProviderID request \<noteq> None, request))"

definition qualify_status :: "samlp_status \<Rightarrow> samlp_status" where
  "qualify_status st =
     (case sst_StatusCode st of
        Some (SamlpStatusCode (Some v) sub) \<Rightarrow>
          if CHR '':'' \<notin> set v then \<lparr>sst_StatusCode = Some (SamlpStatusCode (Some (''samlp:'' @ v)) sub)\<rparr> else st
      | _ \<Rightarrow> st)"

definition status_response_init_from_query :: "lib_status_response \<Rightarrow> string list \<Rightarrow> bool \<times> lib_status_response" where
  "status_response_init_from_query node query_fields =
     (let response = lasso_node_init_from_query_fields status_response_snippets no_extension query_fields
                       (node\<lparr>lsr_Status := Some \<lparr>sst_StatusCode = None\<rparr>\<rparr>)
      in if lsr_ProviderID response = None \<or> lsr_Status response = None then (False, response)
         else (True, response\<lparr>lsr_Status := map_option qualify_status (lsr_Status response)\<rparr>))"

text \<open>The messages as objects.  The classes for the mapping of names and for artifacts and the authentication response have no
  query fields.\<close>

datatype idff_node =
    FederationTerminationNotification lib_federation_termination_notification
  | RegisterNameIdentifierRequest lib_register_name_identifier_request
  | RegisterNameIdentifierResponse lib_status_response
  | LibLogoutRequest lib_logout_request
  | LibLogoutResponse lib_status_response
  | NameIdentifierMappingRequest lib_name_identifier_mapping_request
  | NameIdentifierMappingResponse lib_name_identifier_mapping_response
  | LibAuthnRequest lib_authn_request
  | SamlpRequest samlp_request
  | SamlpResponse samlp_response
  | LibAuthnResponse lib_authn_response

definition idff_build_query :: "query_lib \<Rightarrow> idff_node \<Rightarrow> cstr" where
  "idff_build_query lib node =
     (case node of
        FederationTerminationNotification r \<Rightarrow> Some (notification_build_query lib r)
      | RegisterNameIdentifierRequest r \<Rightarrow> Some (lasso_node_build_query_from_snippets register_snippets r)
      | RegisterNameIdentifierResponse r \<Rightarrow> Some (lasso_node_build_query_from_snippets status_response_snippets r)
      | LibLogoutRequest r \<Rightarrow> Some (lasso_node_build_query_from_snippets logout_snippets r)
      | LibLogoutResponse r \<Rightarrow> Some (lasso_node_build_query_from_snippets status_response_snippets r)
      | LibAuthnRequest r \<Rightarrow> Some (lasso_node_build_query_from_snippets authn_request_snippets r)
      | _ \<Rightarrow> None)"

definition idff_set_signature :: "signature_context option \<Rightarrow> idff_node \<Rightarrow> idff_node" where
  "idff_set_signature c node =
     (case node of
        FederationTerminationNotification r \<Rightarrow> FederationTerminationNotification (r\<lparr>sra_signature := c\<rparr>)
      | RegisterNameIdentifierRequest r \<Rightarrow> RegisterNameIdentifierRequest (r\<lparr>sra_signature := c\<rparr>)
      | RegisterNameIdentifierResponse r \<Rightarrow> RegisterNameIdentifierResponse (r\<lparr>spa_signature := c\<rparr>)
      | LibLogoutRequest r \<Rightarrow> LibLogoutRequest (r\<lparr>sra_signature := c\<rparr>)
      | LibLogoutResponse r \<Rightarrow> LibLogoutResponse (r\<lparr>spa_signature := c\<rparr>)
      | NameIdentifierMappingRequest r \<Rightarrow> NameIdentifierMappingRequest (r\<lparr>sra_signature := c\<rparr>)
      | NameIdentifierMappingResponse r \<Rightarrow> NameIdentifierMappingResponse (r\<lparr>spa_signature := c\<rparr>)
      | LibAuthnRequest r \<Rightarrow> LibAuthnRequest (r\<lparr>sra_signature := c\<rparr>)
      | SamlpRequest r \<Rightarrow> SamlpRequest (r\<lparr>sra_signature := c\<rparr>)
      | SamlpResponse r \<Rightarrow> SamlpResponse (r\<lparr>spa_signature := c\<rparr>)
      | LibAuthnResponse r \<Rightarrow> LibAuthnResponse (r\<lparr>spa_signature := c\<rparr>))"

definition idff_get_signature :: "idff_node \<Rightarrow> signature_context option" where
  "idff_get_signature node =
     (case node of
        FederationTerminationNotification r \<Rightarrow> sra_signature r
      | RegisterNameIdentifierRequest r \<Rightarrow> sra_signature r
      | RegisterNameIdentifierResponse r \<Rightarrow> spa_signature r
      | LibLogoutRequest r \<Rightarrow> sra_signature r
      | LibLogoutResponse r \<Rightarrow> spa_signature r
      | NameIdentifierMappingRequest r \<Rightarrow> sra_signature r
      | NameIdentifierMappingResponse r \<Rightarrow> spa_signature r
      | LibAuthnRequest r \<Rightarrow> sra_signature r
      | SamlpRequest r \<Rightarrow> sra_signature r
      | SamlpResponse r \<Rightarrow> spa_signature r
      | LibAuthnResponse r \<Rightarrow> spa_signature r)"

section \<open>Laws\<close>

lemma snippet_simps [simp]:
  "snippet_field (string_snippet p n g u) = (case n of None \<Rightarrow> p | Some x \<Rightarrow> x)" "qsn_get (string_snippet p n g u) = g"
  "\<not> qsn_extension (string_snippet p n g u)"
  "snippet_field (int_snippet p n g' u') = (case n of None \<Rightarrow> p | Some x \<Rightarrow> x)" "qsn_get (int_snippet p n g' u') = (\<lambda>m. Some (show_int (g' m)))"
  "\<not> qsn_extension (int_snippet p n g' u')"
  "snippet_field (name_snippet p x part g'' u'') = x" "qsn_get (name_snippet p x part g'' u'') = (\<lambda>m. Option.bind (g'' m) (get_part part))"
  "\<not> qsn_extension (name_snippet p x part g'' u'')"
  "snippet_field status_snippet = ''Value''" "\<not> qsn_extension status_snippet"
  by (simp_all add: snippet_field_def string_snippet_def int_snippet_def name_snippet_def status_snippet_def split: option.split)

text \<open>Copying into an object that does not have the field yet.\<close>

lemma apply_string: "g m0 = None \<Longrightarrow> u (\<lambda>_. None) m0 = m0 \<Longrightarrow> apply_snippet m (string_snippet p n g u) m0 = u (\<lambda>_. g m) m0"
  by (cases "g m") (simp_all add: apply_snippet_def string_snippet_def)

lemma apply_int: "apply_snippet m (int_snippet p n g u) m0 = u (\<lambda>_. g m) m0"
  by (simp add: apply_snippet_def int_snippet_def strtol10_show_int)

lemma apply_no_name: "g m = None \<Longrightarrow> apply_snippet m (name_snippet p x part g u) m0 = m0"
  by (simp add: apply_snippet_def name_snippet_def)

lemma apply_name:
  assumes "g m = Some (SamlNameIdentifier j)" and "g m0 = Some (SamlNameIdentifier i)" and "\<And>f. u f m0 = u (\<lambda>_. f (g m0)) m0"
    and "u (\<lambda>_. Some (SamlNameIdentifier i)) m0 = m0"
  shows "sni_NameQualifier i = None \<Longrightarrow> apply_snippet m (name_snippet p x PartNameQualifier g u) m0 =
      u (\<lambda>_. Some (SamlNameIdentifier (i\<lparr>sni_NameQualifier := sni_NameQualifier j\<rparr>))) m0"
    and "sni_Format i = None \<Longrightarrow> apply_snippet m (name_snippet p x PartFormat g u) m0 =
      u (\<lambda>_. Some (SamlNameIdentifier (i\<lparr>sni_Format := sni_Format j\<rparr>))) m0"
    and "sni_content i = None \<Longrightarrow> apply_snippet m (name_snippet p x PartContent g u) m0 =
      u (\<lambda>_. Some (SamlNameIdentifier (i\<lparr>sni_content := sni_content j\<rparr>))) m0"
proof -
  have n: "sni_NameQualifier i = None \<Longrightarrow> i\<lparr>sni_NameQualifier := None\<rparr> = i" "sni_Format i = None \<Longrightarrow> i\<lparr>sni_Format := None\<rparr> = i"
    "sni_content i = None \<Longrightarrow> i\<lparr>sni_content := None\<rparr> = i"
    by (cases i, simp)+
  note s = apply_snippet_def name_snippet_def assms(1,2,4)
  show "sni_NameQualifier i = None \<Longrightarrow> apply_snippet m (name_snippet p x PartNameQualifier g u) m0 =
      u (\<lambda>_. Some (SamlNameIdentifier (i\<lparr>sni_NameQualifier := sni_NameQualifier j\<rparr>))) m0"
    by (cases "sni_NameQualifier j") (simp_all add: s n(1) assms(3)[of "map_option (set_part PartNameQualifier _)"])
  show "sni_Format i = None \<Longrightarrow> apply_snippet m (name_snippet p x PartFormat g u) m0 =
      u (\<lambda>_. Some (SamlNameIdentifier (i\<lparr>sni_Format := sni_Format j\<rparr>))) m0"
    by (cases "sni_Format j") (simp_all add: s n(2) assms(3)[of "map_option (set_part PartFormat _)"])
  show "sni_content i = None \<Longrightarrow> apply_snippet m (name_snippet p x PartContent g u) m0 =
      u (\<lambda>_. Some (SamlNameIdentifier (i\<lparr>sni_content := sni_content j\<rparr>))) m0"
    by (cases "sni_content j") (simp_all add: s n(3) assms(3)[of "map_option (set_part PartContent _)"])
qed

lemmas class_snippets = notification_snippets_def register_snippets_def logout_snippets_def status_response_snippets_def request_snippets_def

interpretation ftn: query_class notification_snippets
  by unfold_locales (simp_all add: class_snippets, simp_all add: is_alnum_def)

interpretation rni: query_class register_snippets
  by unfold_locales (simp_all add: class_snippets, simp_all add: is_alnum_def)

interpretation llr: query_class logout_snippets
  by unfold_locales (simp_all add: class_snippets, simp_all add: is_alnum_def)

interpretation lsr: query_class status_response_snippets
  by unfold_locales (simp_all add: class_snippets, simp_all add: is_alnum_def)

lemma register_read:
  assumes "rni_IDPProvidedNameIdentifier r = Some (SamlNameIdentifier i)" and "rni_OldProvidedNameIdentifier r = Some (SamlNameIdentifier o')"
    and "rni_SPProvidedNameIdentifier r = map_option SamlNameIdentifier n"
  shows "fold (apply_snippet r) register_snippets (lasso_lib_register_name_identifier_request_new
       \<lparr>rni_IDPProvidedNameIdentifier := Some empty_name, rni_SPProvidedNameIdentifier := Some empty_name,
        rni_OldProvidedNameIdentifier := Some empty_name\<rparr>) =
    lasso_lib_register_name_identifier_request_new
      \<lparr>sra_RequestID := sra_RequestID r, sra_MajorVersion := sra_MajorVersion r, sra_MinorVersion := sra_MinorVersion r,
       sra_IssueInstant := sra_IssueInstant r, rni_ProviderID := rni_ProviderID r, rni_RelayState := rni_RelayState r,
       rni_IDPProvidedNameIdentifier := Some (SamlNameIdentifier i), rni_OldProvidedNameIdentifier := Some (SamlNameIdentifier o'),
       rni_SPProvidedNameIdentifier := Some (case n of None \<Rightarrow> empty_name | Some n \<Rightarrow> SamlNameIdentifier n)\<rparr>"
  using assms
  by (cases n) (simp_all add: class_snippets lasso_lib_register_name_identifier_request_new_def apply_string apply_int apply_no_name apply_name empty_name_def)

text \<open>C25: A request to register a name identifier that is written as a query and signed is recognised and read at the other end
  with all its identifiers, whether or not it has one of the service provider.\<close>

theorem register_request_roundtrip:
  assumes "lasso_query_sign lib min_method (lasso_node_build_query_from_snippets register_snippets r) method key = Some (Some s)"
    and "unescapes (qlb_unescape lib)" and "list_all c_string (query_values register_snippets r)"
    and "rni_ProviderID r \<noteq> None"
    and "rni_IDPProvidedNameIdentifier r = Some (SamlNameIdentifier idp)" "sni_content idp \<noteq> None"
    and "rni_OldProvidedNameIdentifier r = Some (SamlNameIdentifier old)" "sni_content old \<noteq> None"
    and "rni_SPProvidedNameIdentifier r = map_option SamlNameIdentifier sp" "\<forall>n. sp = Some n \<longrightarrow> sni_content n \<noteq> None"
  shows "lasso_node_init_from_message_with_format lib xml_parse init (register_init_from_query lasso_lib_register_name_identifier_request_new) s
      LASSO_MESSAGE_FORMAT_UNKNOWN =
    (LASSO_MESSAGE_FORMAT_QUERY, None, r\<lparr>sra_sign_type := LASSO_SIGNATURE_TYPE_NONE, sra_sign_method := 0, sra_private_key_file := None,
       sra_certificate_file := None, sra_signature := None\<rparr>)"
proof -
  have "query_values register_snippets r \<noteq> []"
    by (simp add: query_values_def class_snippets map_filter_simps split: option.split)
  note q = rni.signed_query_read[OF assms(2,1,3) this]
  have "register_init_from_query lasso_lib_register_name_identifier_request_new (lasso_urlencoded_to_strings lib s) =
      (True, r\<lparr>sra_sign_type := LASSO_SIGNATURE_TYPE_NONE, sra_sign_method := 0, sra_private_key_file := None,
         sra_certificate_file := None, sra_signature := None\<rparr>)"
    unfolding register_init_from_query_def q register_read[OF assms(5,7,9)] Let_def
    using assms(4-10)
    by (cases r; cases sp) (simp_all add: drop_empty_def lasso_lib_register_name_identifier_request_new_def empty_name_def)
  then show ?thesis using rni.signed_query_format[OF assms(1), where init_from_query = "register_init_from_query lasso_lib_register_name_identifier_request_new"]
    by simp
qed

lemma logout_read:
  assumes "llr_NameIdentifier r = Some (SamlNameIdentifier i)"
  shows "fold (apply_snippet r) logout_snippets (lasso_lib_logout_request_new\<lparr>llr_NameIdentifier := Some empty_name\<rparr>) =
    lasso_lib_logout_request_new
      \<lparr>sra_RequestID := sra_RequestID r, sra_MajorVersion := sra_MajorVersion r, sra_MinorVersion := sra_MinorVersion r,
       sra_IssueInstant := sra_IssueInstant r, llr_ProviderID := llr_ProviderID r, llr_NameIdentifier := Some (SamlNameIdentifier i),
       llr_SessionIndex := llr_SessionIndex r, llr_RelayState := llr_RelayState r, llr_consent := llr_consent r\<rparr>"
  using assms
  by (simp add: class_snippets lasso_lib_logout_request_new_def apply_string apply_int apply_name empty_name_def)

text \<open>A logout request that is written as a query is read with its first session index only: the request at the other end
  does not name the other sessions.\<close>

theorem logout_request_roundtrip:
  assumes "lasso_query_sign lib min_method (lasso_node_build_query_from_snippets logout_snippets r) method key = Some (Some s)"
    and "unescapes (qlb_unescape lib)" and "list_all c_string (query_values logout_snippets r)"
    and "llr_ProviderID r \<noteq> None" and "llr_NameIdentifier r = Some (SamlNameIdentifier i)" "sni_content i \<noteq> None" "sni_Format i \<noteq> None"
  shows "lasso_node_init_from_message_with_format lib xml_parse init (logout_request_init_from_query lasso_lib_logout_request_new) s
      LASSO_MESSAGE_FORMAT_UNKNOWN =
    (LASSO_MESSAGE_FORMAT_QUERY, None, r\<lparr>sra_sign_type := LASSO_SIGNATURE_TYPE_NONE, sra_sign_method := 0, sra_private_key_file := None,
       sra_certificate_file := None, sra_signature := None, llr_SessionIndex_more := [], llr_NotOnOrAfter := None\<rparr>)"
proof -
  have "query_values logout_snippets r \<noteq> []"
    by (simp add: query_values_def class_snippets map_filter_simps split: option.split)
  note q = llr.signed_query_read[OF assms(2,1,3) this]
  have "logout_request_init_from_query lasso_lib_logout_request_new (lasso_urlencoded_to_strings lib s) =
      (True, r\<lparr>sra_sign_type := LASSO_SIGNATURE_TYPE_NONE, sra_sign_method := 0, sra_private_key_file := None,
         sra_certificate_file := None, sra_signature := None, llr_SessionIndex_more := [], llr_NotOnOrAfter := None\<rparr>)"
    unfolding logout_request_init_from_query_def q logout_read[OF assms(5)] Let_def
    by (simp add: assms(4-7), simp add: lasso_lib_logout_request_new_def, rule lib_logout_request.equality) (simp_all add: assms)
  then show ?thesis using llr.signed_query_format[OF assms(1), where init_from_query = "logout_request_init_from_query lasso_lib_logout_request_new"]
    by simp
qed

lemma notification_read:
  assumes "ftn_NameIdentifier r = Some (SamlNameIdentifier i)"
  shows "fold (apply_snippet r) notification_snippets (lasso_lib_federation_termination_notification_new\<lparr>ftn_NameIdentifier := Some empty_name\<rparr>) =
    lasso_lib_federation_termination_notification_new
      \<lparr>sra_RequestID := sra_RequestID r, sra_MajorVersion := sra_MajorVersion r, sra_MinorVersion := sra_MinorVersion r,
       sra_IssueInstant := sra_IssueInstant r, ftn_ProviderID := ftn_ProviderID r, ftn_NameIdentifier := Some (SamlNameIdentifier i),
       ftn_consent := ftn_consent r\<rparr>"
  using assms
  by (simp add: class_snippets lasso_lib_federation_termination_notification_new_def apply_string apply_int apply_name empty_name_def)

text \<open>A notification without a relay state is read as it was written.\<close>

theorem notification_roundtrip:
  assumes "lasso_query_sign lib min_method (notification_build_query lib r) method key = Some (Some s)"
    and "unescapes (qlb_unescape lib)" and "list_all c_string (query_values notification_snippets r)"
    and "ftn_RelayState r = None" and "ftn_ProviderID r \<noteq> None"
    and "ftn_NameIdentifier r = Some (SamlNameIdentifier i)" "sni_content i \<noteq> None" "sni_Format i \<noteq> None"
  shows "lasso_node_init_from_message_with_format lib xml_parse init
      (notification_init_from_query lasso_lib_federation_termination_notification_new) s LASSO_MESSAGE_FORMAT_UNKNOWN =
    (LASSO_MESSAGE_FORMAT_QUERY, None, r\<lparr>sra_sign_type := LASSO_SIGNATURE_TYPE_NONE, sra_sign_method := 0, sra_private_key_file := None,
       sra_certificate_file := None, sra_signature := None\<rparr>)"
proof -
  have q: "lasso_query_sign lib min_method (lasso_node_build_query_from_snippets notification_snippets r) method key = Some (Some s)"
    using assms(1,4) by (simp add: notification_build_query_def Let_def)
  have "query_values notification_snippets r \<noteq> []"
    by (simp add: query_values_def class_snippets map_filter_simps split: option.split)
  note read = ftn.signed_query_read[OF assms(2) q assms(3) this]
  have "notification_init_from_query lasso_lib_federation_termination_notification_new (lasso_urlencoded_to_strings lib s) =
      (True, r\<lparr>sra_sign_type := LASSO_SIGNATURE_TYPE_NONE, sra_sign_method := 0, sra_private_key_file := None,
         sra_certificate_file := None, sra_signature := None\<rparr>)"
    unfolding notification_init_from_query_def read notification_read[OF assms(6)] Let_def
    using assms(4-8) by (cases r) (simp add: lasso_lib_federation_termination_notification_new_def)
  then show ?thesis using ftn.signed_query_format[OF q, where init_from_query = "notification_init_from_query lasso_lib_federation_termination_notification_new"]
    by simp
qed

lemma break_at_space: "CHR '' '' \<notin> set v \<Longrightarrow> break_at '' '' (v @ '' '' @ w) = Some (v, w)"
  "CHR '' '' \<notin> set v \<Longrightarrow> break_at '' '' v = None"
  by (induction v) (simp_all add: break_at.simps)

lemma status_query_append:
  assumes "list_all (\<lambda>v. v \<noteq> []) vs" and "vs \<noteq> []" and "s \<noteq> []"
  shows "status_query s (status_of_values vs) = s @ '' '' @ status_query [] (status_of_values vs)"
  using assms by (induction vs arbitrary: s rule: status_of_values.induct) (simp_all add: Let_def)

lemma split_status:
  assumes "list_all (\<lambda>v. v \<noteq> [] \<and> CHR '' '' \<notin> set v) vs" and "vs \<noteq> []"
  shows "g_strsplit (status_query [] (status_of_values vs)) '' '' = vs"
proof -
  have "strsplit_loop '' '' (status_query [] (status_of_values vs)) = vs \<and> status_query [] (status_of_values vs) \<noteq> []"
    using assms
  proof (induction vs rule: status_of_values.induct)
    case (2 v)
    then show ?case by (subst strsplit_loop.simps) (simp add: break_at_space(2))
  next
    case (3 v w vs)
    then have "status_query [] (status_of_values (v # w # vs)) = v @ '' '' @ status_query [] (status_of_values (w # vs))"
      using status_query_append[of "w # vs" v] by (simp add: list_all_iff)
    then show ?case
      using 3 break_at_space(1)[of v] by (subst strsplit_loop.simps) simp
  qed simp
  then show ?thesis by (simp add: g_strsplit_def)
qed

lemma status_response_read:
  assumes "lsr_Status r = Some \<lparr>sst_StatusCode = Some (status_of_values vs)\<rparr>" and "vs \<noteq> []"
    and "list_all (\<lambda>v. v \<noteq> [] \<and> CHR '' '' \<notin> set v) vs"
  shows "fold (apply_snippet r) status_response_snippets (lasso_lib_status_response_new\<lparr>lsr_Status := Some \<lparr>sst_StatusCode = None\<rparr>\<rparr>) =
    lasso_lib_status_response_new
      \<lparr>spa_ResponseID := spa_ResponseID r, spa_MajorVersion := spa_MajorVersion r, spa_MinorVersion := spa_MinorVersion r,
       spa_IssueInstant := spa_IssueInstant r, spa_Recipient := spa_Recipient r, lsr_ProviderID := lsr_ProviderID r, lsr_Status := lsr_Status r,
       lsr_RelayState := lsr_RelayState r, spa_InResponseTo := spa_InResponseTo r\<rparr>"
proof -
  have "apply_snippet r status_snippet m = m\<lparr>lsr_Status := lsr_Status r\<rparr>" if "lsr_Status m = Some s" for m s
    using assms(1) that split_status[OF assms(3,2)] by (simp add: apply_snippet_def status_snippet_def)
  then show ?thesis
    by (simp add: class_snippets lasso_lib_status_response_new_def apply_string apply_int)
qed

text \<open>A response is read with its status, from the first code to the last.\<close>

theorem status_response_roundtrip:
  assumes "lasso_query_sign lib min_method (lasso_node_build_query_from_snippets status_response_snippets r) method key = Some (Some s)"
    and "unescapes (qlb_unescape lib)" and "list_all c_string (query_values status_response_snippets r)"
    and "lsr_ProviderID r \<noteq> None" and "lsr_Status r = Some \<lparr>sst_StatusCode = Some (status_of_values vs)\<rparr>" "vs \<noteq> []"
    and "list_all (\<lambda>v. v \<noteq> [] \<and> CHR '' '' \<notin> set v) vs" and "CHR '':'' \<in> set (hd vs)"
  shows "lasso_node_init_from_message_with_format lib xml_parse init (status_response_init_from_query lasso_lib_status_response_new) s
      LASSO_MESSAGE_FORMAT_UNKNOWN =
    (LASSO_MESSAGE_FORMAT_QUERY, None, r\<lparr>spa_sign_type := LASSO_SIGNATURE_TYPE_NONE, spa_sign_method := 0, spa_private_key_file := None,
       spa_certificate_file := None, spa_signature := None\<rparr>)"
proof -
  have "query_values status_response_snippets r \<noteq> []"
    by (simp add: query_values_def class_snippets map_filter_simps split: option.split)
  note q = lsr.signed_query_read[OF assms(2,1,3) this]
  have u: "qualify_status \<lparr>sst_StatusCode = Some (status_of_values vs)\<rparr> = \<lparr>sst_StatusCode = Some (status_of_values vs)\<rparr>"
    using assms(6,8) by (cases vs rule: status_of_values.cases) (simp_all add: qualify_status_def)
  have "status_response_init_from_query lasso_lib_status_response_new (lasso_urlencoded_to_strings lib s) =
      (True, r\<lparr>spa_sign_type := LASSO_SIGNATURE_TYPE_NONE, spa_sign_method := 0, spa_private_key_file := None,
         spa_certificate_file := None, spa_signature := None\<rparr>)"
    unfolding status_response_init_from_query_def q status_response_read[OF assms(5-7)] Let_def
    by (simp add: assms(4,5) u, simp add: lasso_lib_status_response_new_def, rule lib_status_response.equality) (simp_all add: assms)
  then show ?thesis using lsr.signed_query_format[OF assms(1), where init_from_query = "status_response_init_from_query lasso_lib_status_response_new"]
    by simp
qed

text \<open>With a relay state, the query of a notification is not the notification: for a relay state of letters and digits it is
  the relay state alone, whatever provider and identifier the notification names.\<close>

theorem notification_query_is_relaystate:
  assumes "\<forall>f args. CHR ''%'' \<notin> set f \<longrightarrow> qlb_printf lib f args = f" and "\<forall>s. list_all is_alnum s \<longrightarrow> qlb_uri_escape lib s = s"
    and "ftn_RelayState r = Some state" and "list_all is_alnum state"
  shows "idff_build_query lib (FederationTerminationNotification r) = Some state"
proof -
  have "CHR ''%'' \<notin> set state" using assms(4) by (auto simp: list_all_iff is_alnum_def)
  then show ?thesis using assms by (simp add: idff_build_query_def notification_build_query_def Let_def)
qed

definition sample_name :: "string \<Rightarrow> saml_name_identifier" where
  "sample_name s = \<lparr>sni_content = Some s, sni_NameQualifier = None, sni_Format = Some ''f''\<rparr>"

definition sample_register :: lib_register_name_identifier_request where
  "sample_register = lasso_lib_register_name_identifier_request_new
     \<lparr>rni_ProviderID := Some ''idp'', rni_IDPProvidedNameIdentifier := Some (SamlNameIdentifier (sample_name ''a'')),
      rni_OldProvidedNameIdentifier := Some (SamlNameIdentifier (sample_name ''b''))\<rparr>"

lemma sample_register_values: "query_values register_snippets sample_register =
    [''0'', ''0'', ''idp'', ''f'', ''a'', ''f'', ''b'']"
proof -
  have "char_of (48 :: nat) = CHR ''0''" by code_simp
  then have "show_int 0 = ''0''" by (simp add: show_int_def show_nat.simps[of 0] digit_def)
  then show ?thesis
    by (simp add: query_values_def class_snippets map_filter_simps sample_register_def lasso_lib_register_name_identifier_request_new_def sample_name_def)
qed

theorem register_request_roundtrip_witness:
  "\<exists>s. lasso_query_sign sample_lib 1 (lasso_node_build_query_from_snippets register_snippets sample_register)
      LASSO_SIGNATURE_METHOD_RSA_SHA256 (Some ''key'') = Some (Some s) \<and>
    lasso_node_init_from_message_with_format sample_lib (\<lambda>_. None) (\<lambda>_. (0, sample_register))
      (register_init_from_query lasso_lib_register_name_identifier_request_new) s LASSO_MESSAGE_FORMAT_UNKNOWN =
    (LASSO_MESSAGE_FORMAT_QUERY, None, sample_register)"
proof -
  obtain s where s: "lasso_query_sign sample_lib 1 (lasso_node_build_query_from_snippets register_snippets sample_register)
      LASSO_SIGNATURE_METHOD_RSA_SHA256 (Some ''key'') = Some (Some s)" using sample_signs by blast
  have "list_all c_string (query_values register_snippets sample_register)" by (simp add: sample_register_values c_string_def)
  moreover have "rni_ProviderID sample_register \<noteq> None"
    "rni_IDPProvidedNameIdentifier sample_register = Some (SamlNameIdentifier (sample_name ''a''))" "sni_content (sample_name ''a'') \<noteq> None"
    "rni_OldProvidedNameIdentifier sample_register = Some (SamlNameIdentifier (sample_name ''b''))" "sni_content (sample_name ''b'') \<noteq> None"
    "rni_SPProvidedNameIdentifier sample_register = map_option SamlNameIdentifier None"
    by (simp_all add: sample_register_def sample_name_def lasso_lib_register_name_identifier_request_new_def)
  moreover have "sample_register\<lparr>sra_sign_type := LASSO_SIGNATURE_TYPE_NONE, sra_sign_method := 0, sra_private_key_file := None,
       sra_certificate_file := None, sra_signature := None\<rparr> = sample_register"
    by (simp add: sample_register_def lasso_lib_register_name_identifier_request_new_def)
  ultimately show ?thesis
    using register_request_roundtrip[OF s sample_lib_unescapes, of "sample_name ''a''" "sample_name ''b''" None] s by auto
qed

theorem notification_query_is_relaystate_witness:
  "idff_build_query (sample_lib\<lparr>qlb_printf := \<lambda>f args. f, qlb_uri_escape := \<lambda>s. s\<rparr>) (FederationTerminationNotification
     (lasso_lib_federation_termination_notification_new\<lparr>ftn_ProviderID := Some ''sp'', ftn_RelayState := Some ''state''\<rparr>)) = Some ''state''"
  by (rule notification_query_is_relaystate) (simp_all add: is_alnum_def)

end
