(* ===== verification/Lasso_Messages.thy ===== *)
theory Lasso_Messages
  imports Lasso_IdffMessages
begin

text \<open>
  The protocol messages of SAML 2.0 as the profiles use them (the classes of
  \<^verbatim>\<open>lasso/xml/saml-2.0/samlp2_*.h\<close>), and the interface to the XML engine: parsing and writing messages,
  encryption, queries and base64 are the record \<open>message_io\<close>.
\<close>

section \<open>Requests\<close>

record name_id_policy =
  nip_Format :: cstr
  nip_SPNameQualifier :: cstr
  nip_AllowCreate :: bool

record requested_authn_context =
  rac_AuthnContextClassRef :: "string list"
  rac_Comparison :: cstr

record authn_request =
  anr_NameIDPolicy :: "name_id_policy option"
  anr_RequestedAuthnContext :: "requested_authn_context option"
  anr_ForceAuthn :: bool
  anr_IsPassive :: bool
  anr_ProtocolBinding :: cstr
  anr_AssertionConsumerServiceIndex :: int
  anr_AssertionConsumerServiceURL :: cstr
  anr_ProviderName :: cstr

record logout_request =
  lor_NameID :: "name_id option"
  lor_EncryptedID :: "encrypted_element option"
  lor_SessionIndex :: cstr
  lor_SessionIndex_more :: "string list"

record manage_name_id_request =
  mnr_NameID :: "name_id option"
  mnr_EncryptedID :: "encrypted_element option"
  mnr_NewID :: cstr
  mnr_NewEncryptedID :: "encrypted_element option"
  mnr_Terminate :: bool

text \<open>The queries for assertions about a subject; only the attribute query has a content of its own that the code
  uses.\<close>

datatype subject_query_body = AuthnQuery | AttributeQuery "attribute list" | AuthzDecisionQuery

record subject_query =
  sqa_Subject :: "subject option"
  sqa_body :: subject_query_body

datatype request_body =
    AuthnRequest authn_request
  | LogoutRequest logout_request
  | ManageNameIDRequest manage_name_id_request
  | ArtifactResolve cstr
  | SubjectQuery subject_query
  | AssertionIDRequest
  | OtherRequest

text \<open>The signature that a message is to be given is \<open>None\<close> for \<^verbatim>\<open>LASSO_SIGNATURE_CONTEXT_NONE\<close>.\<close>

record request_abstract =
  req_Issuer :: "name_id option"
  req_ID :: cstr
  req_Version :: cstr
  req_IssueInstant :: cstr
  req_Destination :: cstr
  req_Consent :: cstr
  req_signature :: "signature_context option"
  req_body :: request_body

definition lasso_samlp2_request_abstract_new :: "request_body \<Rightarrow> request_abstract" where
  "lasso_samlp2_request_abstract_new body = \<lparr>req_Issuer = None, req_ID = None, req_Version = None,
     req_IssueInstant = None, req_Destination = None, req_Consent = None, req_signature = None, req_body = body\<rparr>"

definition lasso_samlp2_name_id_policy_new :: name_id_policy where
  "lasso_samlp2_name_id_policy_new = \<lparr>nip_Format = None, nip_SPNameQualifier = None, nip_AllowCreate = False\<rparr>"

definition lasso_samlp2_authn_request_new :: authn_request where
  "lasso_samlp2_authn_request_new = \<lparr>anr_NameIDPolicy = None, anr_RequestedAuthnContext = None,
     anr_ForceAuthn = False, anr_IsPassive = False, anr_ProtocolBinding = None,
     anr_AssertionConsumerServiceIndex = -1, anr_AssertionConsumerServiceURL = None, anr_ProviderName = None\<rparr>"

definition lasso_samlp2_logout_request_new :: logout_request where
  "lasso_samlp2_logout_request_new = \<lparr>lor_NameID = None, lor_EncryptedID = None, lor_SessionIndex = None,
     lor_SessionIndex_more = []\<rparr>"

definition lasso_samlp2_manage_name_id_request_new :: manage_name_id_request where
  "lasso_samlp2_manage_name_id_request_new = \<lparr>mnr_NameID = None, mnr_EncryptedID = None, mnr_NewID = None,
     mnr_NewEncryptedID = None, mnr_Terminate = False\<rparr>"

definition lasso_samlp2_logout_request_get_session_indexes :: "logout_request \<Rightarrow> string list" where
  "lasso_samlp2_logout_request_get_session_indexes r =
     (case lor_SessionIndex r of None \<Rightarrow> [] | Some i \<Rightarrow> [i]) @ lor_SessionIndex_more r"

definition lasso_samlp2_logout_request_set_session_indexes :: "logout_request \<Rightarrow> string list \<Rightarrow> logout_request" where
  "lasso_samlp2_logout_request_set_session_indexes r l =
     (case l of
        [] \<Rightarrow> r\<lparr>lor_SessionIndex := None, lor_SessionIndex_more := []\<rparr>
      | i # is \<Rightarrow> r\<lparr>lor_SessionIndex := Some i, lor_SessionIndex_more := is\<rparr>)"

lemma logout_session_indexes_roundtrip [simp]:
  "lasso_samlp2_logout_request_get_session_indexes (lasso_samlp2_logout_request_set_session_indexes r l) = l"
  by (cases l) (simp_all add: lasso_samlp2_logout_request_get_session_indexes_def
      lasso_samlp2_logout_request_set_session_indexes_def)

section \<open>Responses\<close>

datatype status_code = StatusCode (sc_Value: cstr) (sc_StatusCode: "status_code option")

record samlp2_status =
  st_StatusCode :: "status_code option"

datatype response_body =
    Samlp2Response "saml2_assertion list" "encrypted_element list"
  | LogoutResponse
  | ManageNameIDResponse
  | ArtifactResponse "xml option"
  | OtherResponse

record status_response =
  rsp_Issuer :: "name_id option"
  rsp_Status :: "samlp2_status option"
  rsp_ID :: cstr
  rsp_InResponseTo :: cstr
  rsp_Version :: cstr
  rsp_IssueInstant :: cstr
  rsp_Destination :: cstr
  rsp_signature :: "signature_context option"
  rsp_body :: response_body

definition lasso_samlp2_status_response_new :: "response_body \<Rightarrow> status_response" where
  "lasso_samlp2_status_response_new body = \<lparr>rsp_Issuer = None, rsp_Status = None, rsp_ID = None,
     rsp_InResponseTo = None, rsp_Version = None, rsp_IssueInstant = None, rsp_Destination = None,
     rsp_signature = None, rsp_body = body\<rparr>"

text \<open>Setting a status keeps the objects that are there: an old second code stays when only the first one
  is set.\<close>

definition sub_status :: "status_code option \<Rightarrow> status_code option" where
  "sub_status c = (case c of None \<Rightarrow> None | Some (StatusCode v s) \<Rightarrow> s)"

definition top_status :: "status_response \<Rightarrow> status_code option" where
  "top_status r = Option.bind (rsp_Status r) st_StatusCode"

definition set_status :: "string \<Rightarrow> cstr \<Rightarrow> status_response \<Rightarrow> status_response" where
  "set_status code1 code2 r =
     (let old = sub_status (top_status r)
      in r\<lparr>rsp_Status := Some \<lparr>st_StatusCode = Some (StatusCode (Some code1)
             (case code2 of None \<Rightarrow> old | Some c \<Rightarrow> Some (StatusCode (Some c) (sub_status old))))\<rparr>\<rparr>)"

lemma set_status_top [simp]:
  "top_status (set_status c1 c2 r) = Some (StatusCode (Some c1)
     (case c2 of None \<Rightarrow> sub_status (top_status r) | Some c \<Rightarrow> Some (StatusCode (Some c) (sub_status (sub_status (top_status r))))))"
  by (simp only: set_status_def Let_def) (simp add: top_status_def split: option.split)

section \<open>Messages\<close>

text \<open>The messages of ID-FF 1.2 are \<open>IdffNode\<close>.\<close>

datatype message_node = RequestNode request_abstract | ResponseNode status_response | IdffNode idff_node | OtherMessage

definition lasso_node_set_signature :: "signature_context option \<Rightarrow> message_node \<Rightarrow> message_node" where
  "lasso_node_set_signature c n =
     (case n of
        RequestNode r \<Rightarrow> RequestNode (r\<lparr>req_signature := c\<rparr>)
      | ResponseNode r \<Rightarrow> ResponseNode (r\<lparr>rsp_signature := c\<rparr>)
      | IdffNode r \<Rightarrow> IdffNode (idff_set_signature c r)
      | OtherMessage \<Rightarrow> OtherMessage)"

definition lasso_node_get_signature :: "message_node \<Rightarrow> signature_context option" where
  "lasso_node_get_signature n =
     (case n of RequestNode r \<Rightarrow> req_signature r | ResponseNode r \<Rightarrow> rsp_signature r
      | IdffNode r \<Rightarrow> idff_get_signature r | OtherMessage \<Rightarrow> None)"

definition lasso_node_remove_signature :: "message_node \<Rightarrow> message_node" where
  "lasso_node_remove_signature n = lasso_node_set_signature None n"

text \<open>A SOAP envelope: the header, and the body with what it holds.\<close>

record soap_envelope =
  sev_Header :: "xml option"
  sev_Body :: "message_node list option"

text \<open>Filling an object of a class from a tree gives a code, the object, and for an \<^verbatim>\<open>ArtifactResponse\<close> the message inside;
  \<open>mio_xml_text\<close> is the text of the tree of a message.  Decryption gives a return code and an object.  Files and global flags are in \<open>environment\<close>; the two flags here are
  \<^verbatim>\<open>lasso_flag_sign_messages\<close> and \<^verbatim>\<open>lasso_flag_add_signature\<close>, and \<^verbatim>\<open>lasso_flag_thin_sessions\<close>.\<close>

record message_io =
  mio_init_request :: "string \<Rightarrow> xml option \<Rightarrow> int \<times> request_abstract"
  mio_init_response :: "string \<Rightarrow> xml option \<Rightarrow> int \<times> status_response \<times> message_node option"
  mio_new_from_xml :: "xml \<Rightarrow> message_node option"
  mio_soap_envelope :: "string \<Rightarrow> soap_envelope option"
  mio_export_soap :: "message_node \<Rightarrow> cstr"
  mio_export_base64 :: "message_node \<Rightarrow> cstr"
  mio_export_xml :: "message_node \<Rightarrow> cstr"
  mio_export_paos :: "message_node \<Rightarrow> cstr \<Rightarrow> cstr \<Rightarrow> cstr \<Rightarrow> cstr \<Rightarrow> bool \<Rightarrow> cstr \<Rightarrow> cstr"
  mio_xml_text :: "message_node \<Rightarrow> string"
  mio_base64_encode :: "8 word list \<Rightarrow> string"
  mio_base64_decode :: "string \<Rightarrow> 8 word list option"
  mio_sha1 :: "string \<Rightarrow> 8 word list"
  mio_decrypt_name :: "encrypted_element \<Rightarrow> string \<Rightarrow> int \<times> name_identifier option"
  mio_decrypt_assertion :: "encrypted_element \<Rightarrow> string \<Rightarrow> int \<times> saml2_assertion option"
  mio_encrypt_name :: "name_identifier \<Rightarrow> cstr \<Rightarrow> int \<Rightarrow> cstr \<Rightarrow> encrypted_element option"
  mio_sign_messages :: bool
  mio_add_signature :: bool
  mio_thin_sessions :: bool

text \<open>Reading a message as an object of a class: the format of the message, the node that may be signed, the object.\<close>

definition parse_request :: "environment \<Rightarrow> message_io \<Rightarrow> string \<Rightarrow> string \<Rightarrow> message_format \<times> xml option \<times> request_abstract" where
  "parse_request env io kind msg =
     lasso_node_init_from_message_with_format (env_lib env) (env_xml_parse env) (mio_init_request io kind)
       (saml2_init_from_query (env_lib env) (env_xml_parse env) (mio_init_request io kind)) msg LASSO_MESSAGE_FORMAT_UNKNOWN"

definition parse_response ::
  "environment \<Rightarrow> message_io \<Rightarrow> string \<Rightarrow> string \<Rightarrow> message_format \<times> xml option \<times> status_response \<times> message_node option" where
  "parse_response env io kind msg =
     lasso_node_init_from_message_with_format (env_lib env) (env_xml_parse env) (mio_init_response io kind)
       (saml2_init_from_query (env_lib env) (env_xml_parse env) (mio_init_response io kind)) msg LASSO_MESSAGE_FORMAT_UNKNOWN"

definition from_soap :: "environment \<Rightarrow> message_io \<Rightarrow> string \<Rightarrow> message_node option" where
  "from_soap env io msg = lasso_node_new_from_soap (env_xml_parse env) (mio_new_from_xml io) msg"

text \<open>\<^verbatim>\<open>lasso_node_build_query\<close>, the methods of the two abstract classes of SAML 2.0 and of the ID-FF classes; other objects are not written as queries.\<close>

definition lasso_node_build_query :: "environment \<Rightarrow> message_io \<Rightarrow> message_node \<Rightarrow> cstr" where
  "lasso_node_build_query env io node =
     (let deflated_message = lasso_xmlnode_build_deflated_query (env_lib env) (mio_xml_text io node) in
      case node of
        RequestNode _ \<Rightarrow> map_option (\<lambda>d. ''SAMLRequest='' @ d) deflated_message
      | ResponseNode _ \<Rightarrow> map_option (\<lambda>d. ''SAMLResponse='' @ d) deflated_message
      | IdffNode r \<Rightarrow> idff_build_query (env_lib env) r
      | OtherMessage \<Rightarrow> None)"

text \<open>An engine for examples: base64 is the identity on bytes and the hash is constant.\<close>

definition sample_io :: message_io where
  "sample_io = \<lparr>mio_init_request = \<lambda>_ _. (1, lasso_samlp2_request_abstract_new OtherRequest),
     mio_init_response = \<lambda>_ _. (1, lasso_samlp2_status_response_new OtherResponse, None),
     mio_new_from_xml = \<lambda>_. None, mio_soap_envelope = \<lambda>_. None, mio_export_soap = \<lambda>_. Some ''soap'',
     mio_export_base64 = \<lambda>_. Some ''b64'', mio_export_xml = \<lambda>_. Some ''xml'', mio_export_paos = \<lambda>_ _ _ _ _ _ _. Some ''paos'',
     mio_xml_text = \<lambda>_. ''<r/>'',
     mio_base64_encode = map (\<lambda>w. char_of (unat w)), mio_base64_decode = \<lambda>s. Some (map (\<lambda>c. word_of_nat (of_char c)) s),
     mio_sha1 = \<lambda>_. replicate 20 0, mio_decrypt_name = \<lambda>_ _. (1, None), mio_decrypt_assertion = \<lambda>_ _. (1, None),
     mio_encrypt_name = \<lambda>_ _ _ _. None, mio_sign_messages = False, mio_add_signature = False, mio_thin_sessions = False\<rparr>"

end
