(* ===== verification/Lasso_Session.thy ===== *)
theory Lasso_Session
  imports Lasso_Nodes
begin

text \<open>
  The principal's session, \<^verbatim>\<open>lasso/id-ff/session.c\<close>: the assertions received from each provider, the
  NameID and session indexes that single logout works on, the pending statuses, the assertions by
  identifier and the list of providers that logout walks through.  With thin sessions
  (\<^verbatim>\<open>lasso_flag_thin_sessions\<close>, the parameter \<open>thin\<close>) the assertions themselves are not kept.
\<close>

section \<open>State\<close>

record nid_and_session_index =
  nsi_name_id :: name_identifier
  nsi_assertion_id :: cstr
  nsi_session_index :: cstr

record lasso_session =
  ses_assertions :: "(str, assertion_node) ghash"
  ses_is_dirty :: bool
  ses_providerIDs :: "str list"
  ses_status :: "(str, xml option) ghash"
  ses_assertions_by_id :: "(str, xml) ghash"
  ses_nid_and_session_indexes :: "(str, nid_and_session_index list) ghash"

definition lasso_session_new :: lasso_session where
  "lasso_session_new = \<lparr>ses_assertions = [], ses_is_dirty = False, ses_providerIDs = [],
     ses_status = [], ses_assertions_by_id = [], ses_nid_and_session_indexes = []\<rparr>"

definition lasso_new_nid_and_session_index ::
  "name_identifier \<Rightarrow> cstr \<Rightarrow> cstr \<Rightarrow> nid_and_session_index" where
  "lasso_new_nid_and_session_index name_id assertion_id session_index =
     \<lparr>nsi_name_id = name_id, nsi_assertion_id = assertion_id, nsi_session_index = session_index\<rparr>"

section \<open>Operations\<close>

definition lasso_match_name_id :: "name_identifier \<Rightarrow> name_identifier \<Rightarrow> bool" where
  "lasso_match_name_id a b =
     (case (a, b) of
        (SamlNameIdentifier x, SamlNameIdentifier y) \<Rightarrow> lasso_saml_name_identifier_equals x y
      | (Saml2NameID x, Saml2NameID y) \<Rightarrow> lasso_saml2_name_id_equals x y
      | _ \<Rightarrow> False)"

definition nsi_duplicate :: "nid_and_session_index \<Rightarrow> nid_and_session_index \<Rightarrow> bool" where
  "nsi_duplicate other nsi =
     (lasso_match_name_id (nsi_name_id other) (nsi_name_id nsi) \<and>
      lasso_strisequal (nsi_session_index other) (nsi_session_index nsi))"

definition nsi_list :: "lasso_session \<Rightarrow> str \<Rightarrow> nid_and_session_index list" where
  "nsi_list s providerID =
     (case ght_lookup (ses_nid_and_session_indexes s) providerID of None \<Rightarrow> [] | Some l \<Rightarrow> l)"

definition lasso_session_add_nid_and_session_index ::
  "lasso_session \<Rightarrow> str \<Rightarrow> nid_and_session_index \<Rightarrow> lasso_session" where
  "lasso_session_add_nid_and_session_index s providerID nsi =
     (let l = nsi_list s providerID in
      if list_ex (\<lambda>other. nsi_duplicate other nsi) l then s
      else s\<lparr>ses_nid_and_session_indexes :=
               ght_insert providerID (l @ [nsi]) (ses_nid_and_session_indexes s)\<rparr>)"

definition add_authn_statement_nsi ::
  "str \<Rightarrow> name_id \<Rightarrow> cstr \<Rightarrow> authn_statement \<Rightarrow> lasso_session \<Rightarrow> lasso_session" where
  "add_authn_statement_nsi providerID nid assertion_id st s =
     (case as_SessionIndex st of
        None \<Rightarrow> s
      | Some si \<Rightarrow> lasso_session_add_nid_and_session_index s providerID
                    (lasso_new_nid_and_session_index (Saml2NameID nid) assertion_id (Some si)))"

definition lasso_session_add_assertion_nid_and_session_index ::
  "lasso_session \<Rightarrow> str \<Rightarrow> assertion_node \<Rightarrow> int \<times> lasso_session" where
  "lasso_session_add_assertion_nid_and_session_index s providerID assertion =
     (case assertion of
        SamlAssertion a \<Rightarrow>
          (case (case sma_SubjectStatement a of Some st \<Rightarrow> Some st | None \<Rightarrow> sma_AuthenticationStatement a) of
             None \<Rightarrow> (LASSO_PARAM_ERROR_INVALID_VALUE, s)
           | Some ss \<Rightarrow>
             (case sst_Subject ss of
                None \<Rightarrow> (LASSO_PARAM_ERROR_INVALID_VALUE, s)
              | Some None \<Rightarrow> (LASSO_PARAM_ERROR_INVALID_VALUE, s)
              | Some (Some nid) \<Rightarrow>
                (case sma_AuthenticationStatement a of
                   None \<Rightarrow> (LASSO_ERROR_UNIMPLEMENTED, s)
                 | Some au \<Rightarrow>
                   if \<not> sst_is_lib_authentication au then (LASSO_ERROR_UNIMPLEMENTED, s)
                   else (case sst_SessionIndex au of
                           None \<Rightarrow> (0, s)
                         | Some si \<Rightarrow> (0, lasso_session_add_nid_and_session_index s providerID
                              (lasso_new_nid_and_session_index (SamlNameIdentifier nid)
                                 (sma_AssertionID a) (Some si)))))))
      | Saml2Assertion a \<Rightarrow>
          (case asn_Subject a of
             None \<Rightarrow> (LASSO_PARAM_ERROR_INVALID_VALUE, s)
           | Some sb \<Rightarrow>
             (case sb_NameID sb of
                None \<Rightarrow> (LASSO_PARAM_ERROR_INVALID_VALUE, s)
              | Some nid \<Rightarrow>
                  (0, fold (add_authn_statement_nsi providerID nid (asn_ID a)) (asn_AuthnStatement a) s)))
      | OtherAssertion _ \<Rightarrow> (LASSO_ERROR_UNIMPLEMENTED, s))"

definition lasso_session_add_assertion_simple ::
  "bool \<Rightarrow> lasso_session \<Rightarrow> str \<Rightarrow> assertion_node \<Rightarrow> int \<times> lasso_session" where
  "lasso_session_add_assertion_simple thin s providerID assertion =
     (if thin then (0, s)
      else (0, s\<lparr>ses_assertions := ght_insert providerID assertion (ses_assertions s)\<rparr>))"

definition lasso_session_get_session_indexes ::
  "lasso_session option \<Rightarrow> cstr \<Rightarrow> name_identifier option \<Rightarrow> str list" where
  "lasso_session_get_session_indexes session providerID node =
     (case (session, providerID) of
        (Some s, Some p) \<Rightarrow>
          List.map_filter
            (\<lambda>nsi. if nsi_session_index nsi = None then None
                   else case node of
                          Some n \<Rightarrow> if \<not> lasso_match_name_id n (nsi_name_id nsi) then None
                                     else nsi_session_index nsi
                        | None \<Rightarrow> nsi_session_index nsi)
            (nsi_list s p)
      | _ \<Rightarrow> [])"

fun collect_name_ids :: "name_identifier list \<Rightarrow> nid_and_session_index list \<Rightarrow> name_identifier list" where
  "collect_name_ids ret [] = ret"
| "collect_name_ids ret (nsi # l) =
     (if list_ex (\<lambda>j. lasso_match_name_id j (nsi_name_id nsi)) ret then collect_name_ids ret l
      else collect_name_ids (ret @ [nsi_name_id nsi]) l)"

definition lasso_session_get_name_ids :: "lasso_session option \<Rightarrow> cstr \<Rightarrow> name_identifier list" where
  "lasso_session_get_name_ids session providerID =
     (case (session, providerID) of
        (Some s, Some p) \<Rightarrow> collect_name_ids [] (nsi_list s p)
      | _ \<Rightarrow> [])"

definition lasso_session_get_assertion_ids :: "lasso_session option \<Rightarrow> cstr \<Rightarrow> str list" where
  "lasso_session_get_assertion_ids session providerID =
     (case (session, providerID) of
        (Some s, Some p) \<Rightarrow> List.map_filter nsi_assertion_id (nsi_list s p)
      | _ \<Rightarrow> [])"

definition lasso_session_add_assertion_with_id ::
  "lasso_session \<Rightarrow> cstr \<Rightarrow> xml option \<Rightarrow> int \<times> lasso_session" where
  "lasso_session_add_assertion_with_id s assertionID assertion =
     (case (assertionID, assertion) of
        (Some i, Some x) \<Rightarrow>
          (0, s\<lparr>ses_assertions_by_id := ght_insert i x (ses_assertions_by_id s), ses_is_dirty := True\<rparr>)
      | _ \<Rightarrow> (LASSO_PARAM_ERROR_INVALID_VALUE, s))"

text \<open>The advice of a SAML 1.1 assertion carries the original xmlnode of an inner assertion.  It is
  indexed by the \<^verbatim>\<open>AssertionID\<close> attribute of that node.\<close>

definition lasso_session_add_advice ::
  "lasso_session \<Rightarrow> assertion_node \<Rightarrow> int \<times> lasso_session" where
  "lasso_session_add_advice s assertion =
     (case assertion of
        SamlAssertion a \<Rightarrow>
          (case sma_Advice_Assertion a of
             None \<Rightarrow> (0, s)
           | Some node \<Rightarrow>
               if is_element node \<and> xml_name node = ''Assertion'' \<and> xml_ns node = Some LASSO_SAML_ASSERTION_HREF
               then lasso_session_add_assertion_with_id s (xmlGetProp node ''AssertionID'') (Some node)
               else (0, s))
      | _ \<Rightarrow> (0, s))"

definition lasso_session_add_assertion ::
  "bool \<Rightarrow> lasso_session option \<Rightarrow> cstr \<Rightarrow> assertion_node option \<Rightarrow> int \<times> lasso_session option" where
  "lasso_session_add_assertion thin session providerID assertion =
     (case (session, providerID, assertion) of
        (Some s, Some p, Some a) \<Rightarrow>
          (let (rc, s) = lasso_session_add_assertion_simple thin s p a in
           if rc \<noteq> 0 then (rc, Some s)
           else let (rc, s) = lasso_session_add_assertion_nid_and_session_index s p a in
                if rc \<noteq> 0 then (rc, Some s)
                else let (rc, s) = lasso_session_add_advice s a in
                     (rc, Some (s\<lparr>ses_is_dirty := True\<rparr>)))
      | _ \<Rightarrow> (LASSO_PARAM_ERROR_INVALID_VALUE, session))"

definition lasso_session_add_status :: "lasso_session \<Rightarrow> cstr \<Rightarrow> xml option \<Rightarrow> int \<times> lasso_session" where
  "lasso_session_add_status s providerID status =
     (case (providerID, status) of
        (Some p, Some st) \<Rightarrow> (0, s\<lparr>ses_status := ght_insert p (Some st) (ses_status s), ses_is_dirty := True\<rparr>)
      | _ \<Rightarrow> (LASSO_PARAM_ERROR_INVALID_VALUE, s))"

definition lasso_session_get_assertion :: "lasso_session option \<Rightarrow> str \<Rightarrow> assertion_node option" where
  "lasso_session_get_assertion session providerID =
     (case session of None \<Rightarrow> None | Some s \<Rightarrow> ght_lookup (ses_assertions s) providerID)"

definition lasso_session_get_assertion_by_id :: "lasso_session option \<Rightarrow> str \<Rightarrow> xml option" where
  "lasso_session_get_assertion_by_id session assertionID =
     (case session of None \<Rightarrow> None | Some s \<Rightarrow> ght_lookup (ses_assertions_by_id s) assertionID)"

definition lasso_session_get_assertions :: "lasso_session option \<Rightarrow> cstr \<Rightarrow> assertion_node list" where
  "lasso_session_get_assertions session provider_id =
     (case session of
        None \<Rightarrow> []
      | Some s \<Rightarrow>
          (case provider_id of
             None \<Rightarrow> ght_values (ses_assertions s)
           | Some p \<Rightarrow> (case ght_lookup (ses_assertions s) p of None \<Rightarrow> [] | Some a \<Rightarrow> [a])))"

definition lasso_session_get_status :: "lasso_session option \<Rightarrow> str \<Rightarrow> xml option" where
  "lasso_session_get_status session providerID =
     (case session of None \<Rightarrow> None | Some s \<Rightarrow> Option.bind (ght_lookup (ses_status s) providerID) id)"

definition lasso_session_init_provider_ids :: "lasso_session \<Rightarrow> lasso_session" where
  "lasso_session_init_provider_ids s =
     s\<lparr>ses_providerIDs := ght_keys (ses_nid_and_session_indexes s)\<rparr>"

text \<open>\<^verbatim>\<open>g_list_nth\<close> takes an unsigned index: a negative one is past the end of every list.\<close>

definition lasso_session_get_provider_index :: "lasso_session \<Rightarrow> int \<Rightarrow> cstr \<times> lasso_session" where
  "lasso_session_get_provider_index s index =
     (if ses_nid_and_session_indexes s = [] then (None, s)
      else let s = (if ses_providerIDs s = [] then lasso_session_init_provider_ids s else s);
               l = ses_providerIDs s
           in (if 0 \<le> index \<and> nat index < length l then Some (l ! nat index) else None, s))"

definition lasso_session_is_empty :: "lasso_session option \<Rightarrow> bool" where
  "lasso_session_is_empty session =
     (case session of
        None \<Rightarrow> True
      | Some s \<Rightarrow> length (ses_assertions s) + length (ses_status s) + length (ses_assertions_by_id s)
                   + length (ses_nid_and_session_indexes s) = 0)"

definition lasso_session_count_assertions :: "bool \<Rightarrow> lasso_session option \<Rightarrow> int" where
  "lasso_session_count_assertions thin session =
     (case session of
        None \<Rightarrow> -1
      | Some s \<Rightarrow> int (if thin then length (ses_nid_and_session_indexes s) else length (ses_assertions s)))"

definition lasso_session_is_dirty :: "lasso_session option \<Rightarrow> bool" where
  "lasso_session_is_dirty session = (case session of None \<Rightarrow> True | Some s \<Rightarrow> ses_is_dirty s)"

definition lasso_session_remove_assertion ::
  "lasso_session option \<Rightarrow> cstr \<Rightarrow> int \<times> lasso_session option" where
  "lasso_session_remove_assertion session providerID =
     (case session of
        None \<Rightarrow> (LASSO_PARAM_ERROR_BAD_TYPE_OR_NULL_OBJ, None)
      | Some s \<Rightarrow>
          (case providerID of
             None \<Rightarrow> (LASSO_PARAM_ERROR_INVALID_VALUE, session)
           | Some p \<Rightarrow>
             if lasso_strisempty (Some p) then (LASSO_PARAM_ERROR_INVALID_VALUE, session)
             else let ok1 = (ght_lookup (ses_assertions s) p \<noteq> None);
                      ok2 = (ght_lookup (ses_nid_and_session_indexes s) p \<noteq> None);
                      s' = s\<lparr>ses_assertions := ght_remove p (ses_assertions s),
                             ses_nid_and_session_indexes := ght_remove p (ses_nid_and_session_indexes s)\<rparr>
                  in if ok1 \<or> ok2 then (0, Some (s'\<lparr>ses_is_dirty := True\<rparr>))
                     else (LASSO_PROFILE_ERROR_MISSING_ASSERTION, Some s')))"

definition lasso_session_remove_status :: "lasso_session option \<Rightarrow> cstr \<Rightarrow> int \<times> lasso_session option" where
  "lasso_session_remove_status session providerID =
     (case (session, providerID) of
        (Some s, Some p) \<Rightarrow>
          if ght_lookup (ses_status s) p \<noteq> None
          then (0, Some (s\<lparr>ses_status := ght_remove p (ses_status s), ses_is_dirty := True\<rparr>))
          else (LASSO_PROFILE_ERROR_MISSING_STATUS_CODE, session)
      | _ \<Rightarrow> (LASSO_PARAM_ERROR_INVALID_VALUE, session))"

definition lasso_session_has_slo_session :: "lasso_session option \<Rightarrow> str \<Rightarrow> bool" where
  "lasso_session_has_slo_session session provider_id =
     (case session of
        None \<Rightarrow> False
      | Some s \<Rightarrow> (case ght_lookup (ses_nid_and_session_indexes s) provider_id of
                     None \<Rightarrow> False | Some l \<Rightarrow> l \<noteq> []))"

section \<open>Dump and restore\<close>

text \<open>The serialisation of assertions and name identifiers is that of their own classes, and base64
  is xmlsec's: they are parameters.\<close>

record session_codec =
  cdc_assertion :: "assertion_node \<Rightarrow> xml"
  cdc_assertion_of :: "xml \<Rightarrow> assertion_node option"
  cdc_name :: "name_identifier \<Rightarrow> xml"
  cdc_name_of :: "xml \<Rightarrow> name_identifier option"
  cdc_status_of :: "xml \<Rightarrow> xml option"
  cdc_b64 :: "xml \<Rightarrow> cstr"
  cdc_unb64 :: "string \<Rightarrow> xml option"

definition add_assertion_childnode :: "session_codec \<Rightarrow> str \<times> assertion_node \<Rightarrow> xml" where
  "add_assertion_childnode c kv =
     Element ''Assertion'' (Some LASSO_LASSO_HREF) [(''RemoteProviderID'', fst kv)] [cdc_assertion c (snd kv)]"

definition add_assertion_by_id :: "session_codec \<Rightarrow> str \<times> xml \<Rightarrow> xml" where
  "add_assertion_by_id c kv =
     Element ''Assertion'' (Some LASSO_LASSO_HREF) [(''ID'', fst kv)]
       (case cdc_b64 c (snd kv) of None \<Rightarrow> [] | Some b \<Rightarrow> [Text b])"

definition add_status_childnode :: "str \<times> xml option \<Rightarrow> xml" where
  "add_status_childnode kv =
     Element ''Status'' (Some LASSO_LASSO_HREF) [(''RemoteProviderID'', fst kv)]
       (case snd kv of None \<Rightarrow> [] | Some x \<Rightarrow> [x])"

text \<open>\<^verbatim>\<open>xmlSetProp\<close> with a \<^verbatim>\<open>NULL\<close> value sets an empty attribute.\<close>

definition nsi_childnode :: "session_codec \<Rightarrow> str \<Rightarrow> nid_and_session_index \<Rightarrow> xml" where
  "nsi_childnode c key nsi =
     Element ''NidAndSessionIndex'' (Some LASSO_LASSO_HREF)
       ([(''ProviderID'', key),
         (''AssertionID'', case nsi_assertion_id nsi of None \<Rightarrow> [] | Some i \<Rightarrow> i)] @
        (case nsi_session_index nsi of None \<Rightarrow> [] | Some i \<Rightarrow> [(''SessionIndex'', i)]))
       [cdc_name c (nsi_name_id nsi)]"

definition xmlnode_add_assertion_nid_and_session_indexes ::
  "session_codec \<Rightarrow> str \<times> nid_and_session_index list \<Rightarrow> xml list" where
  "xmlnode_add_assertion_nid_and_session_indexes c kv = map (nsi_childnode c (fst kv)) (snd kv)"

definition session_get_xmlNode :: "session_codec \<Rightarrow> lasso_session \<Rightarrow> xml" where
  "session_get_xmlNode c s =
     Element ''Session'' (Some LASSO_LASSO_HREF) [(''Version'', ''2'')]
       (map (add_assertion_childnode c) (ses_assertions s) @
        map add_status_childnode (ses_status s) @
        map (add_assertion_by_id c) (ses_assertions_by_id s) @
        concat (map (xmlnode_add_assertion_nid_and_session_indexes c) (ses_nid_and_session_indexes s)))"

definition init_from_xml_nid_and_session_index ::
  "session_codec \<Rightarrow> xml \<Rightarrow> lasso_session \<Rightarrow> lasso_session" where
  "init_from_xml_nid_and_session_index c t s =
     (case (xmlGetProp t ''ProviderID'', xmlGetProp t ''AssertionID'', xmlFirstElement t) of
        (Some p, Some i, Some n) \<Rightarrow>
          (case cdc_name_of c n of
             None \<Rightarrow> s
           | Some nid \<Rightarrow> lasso_session_add_nid_and_session_index s p
                           (lasso_new_nid_and_session_index nid (Some i) (xmlGetProp t ''SessionIndex'')))
      | _ \<Rightarrow> s)"

text \<open>The \<^verbatim>\<open>Assertion\<close> and \<^verbatim>\<open>Status\<close> branches of \<^verbatim>\<open>init_from_xml\<close>.  Inserting a status under a
  \<^verbatim>\<open>NULL\<close> key is an invalid memory access in \<^verbatim>\<open>g_str_hash\<close>: the result is then \<^const>\<open>None\<close>.\<close>

definition init_from_xml_assertion :: "session_codec \<Rightarrow> bool \<Rightarrow> xml \<Rightarrow> lasso_session \<Rightarrow> lasso_session" where
  "init_from_xml_assertion c thin t s =
     (case xmlFirstElement t of
        Some n \<Rightarrow>
          (case xmlGetProp t ''RemoteProviderID'' of
             None \<Rightarrow> s
           | Some p \<Rightarrow>
               (case cdc_assertion_of c n of
                  None \<Rightarrow> s
                | Some a \<Rightarrow>
                    snd (lasso_session_add_assertion_nid_and_session_index
                           (snd (lasso_session_add_assertion_simple thin s p a)) p a)))
      | None \<Rightarrow>
          (case xmlGetProp t ''ID'' of
             None \<Rightarrow> s
           | Some i \<Rightarrow>
               (case cdc_unb64 c (xmlNodeGetContent t) of
                  None \<Rightarrow> s
                | Some x \<Rightarrow> snd (lasso_session_add_assertion_with_id s (Some i) (Some x)))))"

definition init_from_xml_status :: "session_codec \<Rightarrow> xml \<Rightarrow> lasso_session \<Rightarrow> lasso_session option" where
  "init_from_xml_status c t s =
     (case xmlFirstElement t of
        None \<Rightarrow> Some s
      | Some n \<Rightarrow>
          (case xmlGetProp t ''RemoteProviderID'' of
             None \<Rightarrow> None
           | Some p \<Rightarrow> Some (s\<lparr>ses_status := ght_insert p (cdc_status_of c n) (ses_status s)\<rparr>)))"

fun session_init_children :: "session_codec \<Rightarrow> bool \<Rightarrow> xml list \<Rightarrow> lasso_session \<Rightarrow> lasso_session option" where
  "session_init_children c thin [] s = Some s"
| "session_init_children c thin (t # ts) s =
     (if \<not> is_element t then session_init_children c thin ts s
      else let s = (if xml_name t = ''Assertion'' then init_from_xml_assertion c thin t s else s) in
           case (if xml_name t = ''Status'' then init_from_xml_status c t s else Some s) of
             None \<Rightarrow> None
           | Some s \<Rightarrow>
               session_init_children c thin ts
                 (if xml_name t = ''NidAndSessionIndex'' \<and> xml_ns t = Some LASSO_LASSO_HREF
                  then init_from_xml_nid_and_session_index c t s else s))"

definition session_init_from_xml :: "session_codec \<Rightarrow> bool \<Rightarrow> xml \<Rightarrow> lasso_session option" where
  "session_init_from_xml c thin x = session_init_children c thin (xml_children x) lasso_session_new"

section \<open>Invariant\<close>

text \<open>Keys are distinct, no provider has an empty list of session indexes, and no list holds the same
  NameID and session index twice.\<close>

definition nsi_ok :: "nid_and_session_index list \<Rightarrow> bool" where
  "nsi_ok l \<longleftrightarrow> l \<noteq> [] \<and> sorted_wrt (\<lambda>a b. \<not> nsi_duplicate a b) l"

definition session_inv :: "lasso_session \<Rightarrow> bool" where
  "session_inv s \<longleftrightarrow> ght_inv (ses_assertions s) \<and> ght_inv (ses_status s) \<and>
     ght_inv (ses_assertions_by_id s) \<and> ght_inv (ses_nid_and_session_indexes s) \<and>
     (\<forall>p l. ght_lookup (ses_nid_and_session_indexes s) p = Some l \<longrightarrow> nsi_ok l)"

lemma session_inv_new [simp]: "session_inv lasso_session_new"
  by (simp add: session_inv_def lasso_session_new_def)

lemma session_inv_add_nsi:
  "session_inv s \<Longrightarrow> session_inv (lasso_session_add_nid_and_session_index s p nsi)"
  by (auto simp: session_inv_def lasso_session_add_nid_and_session_index_def Let_def nsi_list_def
      nsi_ok_def sorted_wrt_append list_ex_iff split: option.splits)

lemma session_inv_authn: "session_inv s \<Longrightarrow> session_inv (add_authn_statement_nsi p nid i st s)"
  by (simp add: add_authn_statement_nsi_def session_inv_add_nsi split: option.split)

lemma session_inv_fold_authn:
  "session_inv s \<Longrightarrow> session_inv (fold (add_authn_statement_nsi p nid i) sts s)"
  by (induction sts arbitrary: s) (simp_all add: session_inv_authn)

lemma session_inv_add_assertion_nsi:
  "session_inv s \<Longrightarrow> session_inv (snd (lasso_session_add_assertion_nid_and_session_index s p a))"
  by (auto simp: lasso_session_add_assertion_nid_and_session_index_def session_inv_add_nsi
      session_inv_fold_authn split: assertion_node.split option.split)

lemma session_inv_add_simple:
  "session_inv s \<Longrightarrow> session_inv (snd (lasso_session_add_assertion_simple thin s p a))"
  by (auto simp: lasso_session_add_assertion_simple_def session_inv_def)

lemma session_inv_dirty [simp]: "session_inv (s\<lparr>ses_is_dirty := b\<rparr>) = session_inv s"
  by (simp add: session_inv_def)

lemma session_inv_providerIDs [simp]: "session_inv (s\<lparr>ses_providerIDs := b\<rparr>) = session_inv s"
  by (simp add: session_inv_def)

lemma session_inv_add_with_id:
  "session_inv s \<Longrightarrow> session_inv (snd (lasso_session_add_assertion_with_id s i x))"
  by (auto simp: lasso_session_add_assertion_with_id_def session_inv_def split: option.split)

lemma session_inv_add_advice: "session_inv s \<Longrightarrow> session_inv (snd (lasso_session_add_advice s a))"
  by (auto simp: lasso_session_add_advice_def session_inv_add_with_id
      split: assertion_node.split option.split)

definition session_opt_inv :: "lasso_session option \<Rightarrow> bool" where
  "session_opt_inv s = pred_option session_inv s"

lemma session_opt_inv_simps [simp]: "session_opt_inv None" "session_opt_inv (Some s) = session_inv s"
  by (simp_all add: session_opt_inv_def)

lemma session_inv_add_assertion:
  assumes "session_opt_inv s"
  shows "session_opt_inv (snd (lasso_session_add_assertion thin s p a))"
proof (cases "s = None \<or> p = None \<or> a = None")
  case True
  then show ?thesis using assms
    by (auto simp: lasso_session_add_assertion_def split: option.split)
next
  case False
  then obtain t q b where [simp]: "s = Some t" "p = Some q" "a = Some b" by auto
  define s1 where "s1 = snd (lasso_session_add_assertion_simple thin t q b)"
  define s2 where "s2 = snd (lasso_session_add_assertion_nid_and_session_index s1 q b)"
  have "session_inv s1" using assms session_inv_add_simple unfolding s1_def by simp
  moreover then have "session_inv s2" using session_inv_add_assertion_nsi unfolding s2_def by simp
  moreover then have "session_inv (snd (lasso_session_add_advice s2 b))"
    by (rule session_inv_add_advice)
  ultimately show ?thesis
    by (auto simp: lasso_session_add_assertion_def s1_def s2_def split_beta Let_def)
qed

lemma session_inv_remove_assertion:
  "session_opt_inv s \<Longrightarrow> session_opt_inv (snd (lasso_session_remove_assertion s p))"
  by (auto simp: lasso_session_remove_assertion_def session_inv_def Let_def split: option.split)

lemma session_inv_remove_status:
  "session_opt_inv s \<Longrightarrow> session_opt_inv (snd (lasso_session_remove_status s p))"
  by (auto simp: lasso_session_remove_status_def session_inv_def split: option.split)

lemma session_inv_add_status: "session_inv s \<Longrightarrow> session_inv (snd (lasso_session_add_status s p st))"
  by (auto simp: lasso_session_add_status_def session_inv_def split: option.split)

lemma session_inv_init_provider_ids: "session_inv s \<Longrightarrow> session_inv (lasso_session_init_provider_ids s)"
  by (simp add: lasso_session_init_provider_ids_def)

lemmas session_inv_intros =
  session_inv_add_assertion session_inv_remove_assertion session_inv_remove_status
  session_inv_add_status session_inv_init_provider_ids session_inv_add_with_id

section \<open>Sessions over sequences of operations\<close>

datatype session_op =
    OpAddAssertion cstr "assertion_node option"
  | OpAddAssertionWithId cstr "xml option"
  | OpAddStatus cstr "xml option"
  | OpRemoveAssertion cstr
  | OpRemoveStatus cstr
  | OpInitProviderIds
  | OpGetProviderIndex int

definition session_step :: "bool \<Rightarrow> session_op \<Rightarrow> lasso_session \<Rightarrow> lasso_session" where
  "session_step thin op s =
     (case op of
        OpAddAssertion p a \<Rightarrow> the (snd (lasso_session_add_assertion thin (Some s) p a))
      | OpAddAssertionWithId i x \<Rightarrow> snd (lasso_session_add_assertion_with_id s i x)
      | OpAddStatus p st \<Rightarrow> snd (lasso_session_add_status s p st)
      | OpRemoveAssertion p \<Rightarrow> the (snd (lasso_session_remove_assertion (Some s) p))
      | OpRemoveStatus p \<Rightarrow> the (snd (lasso_session_remove_status (Some s) p))
      | OpInitProviderIds \<Rightarrow> lasso_session_init_provider_ids s
      | OpGetProviderIndex i \<Rightarrow> snd (lasso_session_get_provider_index s i))"

lemma add_assertion_Some: "snd (lasso_session_add_assertion thin (Some s) p a) \<noteq> None"
  by (auto simp: lasso_session_add_assertion_def split_beta Let_def split: option.split)

lemma remove_assertion_Some: "snd (lasso_session_remove_assertion (Some s) p) \<noteq> None"
  by (auto simp: lasso_session_remove_assertion_def Let_def split: option.split)

lemma remove_status_Some: "snd (lasso_session_remove_status (Some s) p) \<noteq> None"
  by (auto simp: lasso_session_remove_status_def split: option.split)

lemma session_opt_inv_the: "session_opt_inv x \<Longrightarrow> x \<noteq> None \<Longrightarrow> session_inv (the x)"
  by auto

lemma session_step_inv: "session_inv s \<Longrightarrow> session_inv (session_step thin op s)"
  by (cases op)
    (auto simp: session_step_def lasso_session_get_provider_index_def Let_def
      intro!: session_opt_inv_the session_inv_intros add_assertion_Some remove_assertion_Some remove_status_Some)

interpretation ses: component "session_step thin" session_inv lasso_session_new for thin
  by unfold_locales (simp_all add: session_step_inv)

section \<open>Laws of the operations\<close>

lemma nsi_list_add:
  "nsi_list (lasso_session_add_nid_and_session_index s p nsi) q =
     (if q = p \<and> \<not> list_ex (\<lambda>other. nsi_duplicate other nsi) (nsi_list s p)
      then nsi_list s p @ [nsi] else nsi_list s q)"
  by (auto simp: lasso_session_add_nid_and_session_index_def Let_def nsi_list_def)

lemma nsi_list_simps [simp]:
  "nsi_list (s\<lparr>ses_is_dirty := b\<rparr>) q = nsi_list s q"
  "nsi_list (s\<lparr>ses_assertions := t\<rparr>) q = nsi_list s q"
  "nsi_list (s\<lparr>ses_assertions_by_id := i\<rparr>) q = nsi_list s q"
  "nsi_list (s\<lparr>ses_providerIDs := ps\<rparr>) q = nsi_list s q"
  by (simp_all add: nsi_list_def)

text \<open>The other fields are left alone.\<close>

lemma add_nsi_fields [simp]:
  "ses_assertions (lasso_session_add_nid_and_session_index s p nsi) = ses_assertions s"
  "ses_status (lasso_session_add_nid_and_session_index s p nsi) = ses_status s"
  "ses_assertions_by_id (lasso_session_add_nid_and_session_index s p nsi) = ses_assertions_by_id s"
  "ses_providerIDs (lasso_session_add_nid_and_session_index s p nsi) = ses_providerIDs s"
  "ses_is_dirty (lasso_session_add_nid_and_session_index s p nsi) = ses_is_dirty s"
  by (simp_all add: lasso_session_add_nid_and_session_index_def Let_def)

lemma authn_fields [simp]:
  "ses_assertions (add_authn_statement_nsi p nid i st s) = ses_assertions s"
  by (simp add: add_authn_statement_nsi_def split: option.split)

lemma fold_authn_assertions [simp]:
  "ses_assertions (fold (add_authn_statement_nsi p nid i) sts s) = ses_assertions s"
  by (induction sts arbitrary: s) simp_all

lemma authn_nsi_other: "q \<noteq> p \<Longrightarrow> nsi_list (add_authn_statement_nsi p nid i st s) q = nsi_list s q"
  by (simp add: add_authn_statement_nsi_def nsi_list_add split: option.split)

lemma fold_authn_nsi_other:
  "q \<noteq> p \<Longrightarrow> nsi_list (fold (add_authn_statement_nsi p nid i) sts s) q = nsi_list s q"
  by (induction sts arbitrary: s) (simp_all add: authn_nsi_other)

lemma authn_nsi_grows: "set (nsi_list s q) \<subseteq> set (nsi_list (add_authn_statement_nsi p nid i st s) q)"
  by (auto simp: add_authn_statement_nsi_def nsi_list_add split: option.split)

lemma fold_authn_nsi_grows:
  "set (nsi_list s q) \<subseteq> set (nsi_list (fold (add_authn_statement_nsi p nid i) sts s) q)"
proof (induction sts arbitrary: s)
  case (Cons st sts)
  then show ?case using authn_nsi_grows[of s q p nid i st] by fastforce
qed simp

text \<open>After an authentication statement with a session index was added, that index is known for the
  NameID.\<close>

definition nsi_known :: "lasso_session \<Rightarrow> str \<Rightarrow> name_identifier \<Rightarrow> cstr \<Rightarrow> bool" where
  "nsi_known s p nid si \<longleftrightarrow>
     (\<exists>nsi \<in> set (nsi_list s p). lasso_match_name_id nid (nsi_name_id nsi) \<and> nsi_session_index nsi = si)"

lemma match_name_id_iff:
  "lasso_match_name_id a b \<longleftrightarrow>
     a = b \<and> (case a of SamlNameIdentifier _ \<Rightarrow> True | Saml2NameID n \<Rightarrow> nid_content n \<noteq> None | OtherNode _ \<Rightarrow> False)"
  by (cases a; cases b) (auto simp: lasso_match_name_id_def name_id_equals_iff name_identifier_equals_iff)

lemma nsi_known_indexes:
  "nsi_known s p nid (Some si) \<longleftrightarrow> si \<in> set (lasso_session_get_session_indexes (Some s) (Some p) (Some nid))"
  by (force simp: nsi_known_def lasso_session_get_session_indexes_def in_map_filter split: if_splits)

lemma authn_known:
  assumes "as_SessionIndex st = Some si" and "nid_content nid \<noteq> None"
  shows "nsi_known (add_authn_statement_nsi p nid i st s) p (Saml2NameID nid) (Some si)"
  using assms
  by (auto simp: add_authn_statement_nsi_def nsi_known_def nsi_list_add nsi_duplicate_def list_ex_iff
      match_name_id_iff lasso_new_nid_and_session_index_def) metis

lemma nsi_known_mono:
  "nsi_known s p nid si \<Longrightarrow> set (nsi_list s p) \<subseteq> set (nsi_list t p) \<Longrightarrow> nsi_known t p nid si"
  by (auto simp: nsi_known_def)

lemma fold_authn_known:
  assumes "nid_content nid \<noteq> None"
  shows "st \<in> set sts \<Longrightarrow> as_SessionIndex st = Some si \<Longrightarrow>
    nsi_known (fold (add_authn_statement_nsi p nid i) sts s) p (Saml2NameID nid) (Some si)"
proof (induction sts arbitrary: s)
  case (Cons a sts)
  show ?case
  proof (cases "st = a")
    case True
    then show ?thesis
      using nsi_known_mono[OF authn_known fold_authn_nsi_grows] Cons.prems assms by simp
  next
    case False
    then show ?thesis using Cons by simp
  qed
qed simp

lemma add_assertion_saml2:
  assumes "asn_Subject a = Some sb" and "sb_NameID sb = Some nid"
  shows "lasso_session_add_assertion thin (Some s) (Some p) (Some (Saml2Assertion a)) =
    (0, Some ((fold (add_authn_statement_nsi p nid (asn_ID a)) (asn_AuthnStatement a)
       (if thin then s else s\<lparr>ses_assertions := ght_insert p (Saml2Assertion a) (ses_assertions s)\<rparr>))
       \<lparr>ses_is_dirty := True\<rparr>))"
  using assms
  by (simp add: lasso_session_add_assertion_def lasso_session_add_assertion_simple_def
      lasso_session_add_assertion_nid_and_session_index_def lasso_session_add_advice_def)

section \<open>Properties\<close>

text \<open>C27: in every session that the operations can build from a new session, no provider has an empty
  list of session indexes, no NameID and session index are registered twice, and every key is unique.\<close>

theorem session_reachable_inv: "session_inv (fold (session_step thin) ops lasso_session_new)"
  using ses.reachable_inv unfolding ses.run_def .

text \<open>Accepting a SAML 2.0 assertion whose subject has a NameID registers each of its session
  indexes under the provider for that NameID, keeps the indexes known before, keeps the assertion
  itself unless sessions are thin, marks the session dirty and does not touch the other providers.\<close>

theorem session_add_assertion_law:
  assumes sb: "asn_Subject a = Some sb" "sb_NameID sb = Some nid" "nid_content nid = Some c"
  shows "\<exists>t. lasso_session_add_assertion thin (Some s) (Some p) (Some (Saml2Assertion a)) = (0, Some t) \<and>
    ses_is_dirty t \<and>
    (\<forall>st \<in> set (asn_AuthnStatement a). \<forall>si. as_SessionIndex st = Some si \<longrightarrow>
       si \<in> set (lasso_session_get_session_indexes (Some t) (Some p) (Some (Saml2NameID nid)))) \<and>
    (\<forall>q. set (nsi_list s q) \<subseteq> set (nsi_list t q)) \<and>
    (\<forall>q. q \<noteq> p \<longrightarrow> nsi_list t q = nsi_list s q) \<and>
    (\<forall>q. lasso_session_get_assertion (Some t) q =
       (if q = p \<and> \<not> thin then Some (Saml2Assertion a) else lasso_session_get_assertion (Some s) q))"
proof -
  let ?s1 = "if thin then s else s\<lparr>ses_assertions := ght_insert p (Saml2Assertion a) (ses_assertions s)\<rparr>"
  let ?s2 = "fold (add_authn_statement_nsi p nid (asn_ID a)) (asn_AuthnStatement a) ?s1"
  have lists: "nsi_list ?s1 q = nsi_list s q" for q by simp
  have known: "nsi_known (?s2\<lparr>ses_is_dirty := True\<rparr>) p (Saml2NameID nid) (Some si)"
    if "st \<in> set (asn_AuthnStatement a)" "as_SessionIndex st = Some si" for st si
    using fold_authn_known[OF _ that] sb(3) by (simp add: nsi_known_def)
  have grow: "set (nsi_list s q) \<subseteq> set (nsi_list ?s2 q)" for q
    using fold_authn_nsi_grows[of ?s1 q] lists by simp
  have other: "q \<noteq> p \<Longrightarrow> nsi_list ?s2 q = nsi_list s q" for q
    using lists by (simp add: fold_authn_nsi_other)
  show ?thesis
    using known grow other
    by (intro exI[of _ "?s2\<lparr>ses_is_dirty := True\<rparr>"])
      (auto simp: add_assertion_saml2[OF sb(1,2)] nsi_known_indexes lasso_session_get_assertion_def)
qed

theorem session_add_assertion_law_witness:
  "\<exists>t. lasso_session_add_assertion True (Some lasso_session_new) (Some ''idp'')
          (Some (Saml2Assertion (sample_assertion ''a1''))) = (0, Some t) \<and>
       ''s1'' \<in> set (lasso_session_get_session_indexes (Some t) (Some ''idp'') (Some (Saml2NameID sample_nid)))"
  using session_add_assertion_law[of "sample_assertion ''a1''" sample_subject sample_nid "''alice''"
      True lasso_session_new "''idp''"]
  by auto

text \<open>Removing a provider's assertion answers success exactly when the session had an assertion or
  session indexes of that provider; afterwards it has neither, and the other providers keep theirs.\<close>

theorem session_remove_assertion_law:
  assumes "p \<noteq> []"
  shows "\<exists>rc t. lasso_session_remove_assertion (Some s) (Some p) = (rc, Some t) \<and>
    rc = (if lasso_session_get_assertion (Some s) p \<noteq> None \<or>
             ght_lookup (ses_nid_and_session_indexes s) p \<noteq> None
          then 0 else LASSO_PROFILE_ERROR_MISSING_ASSERTION) \<and>
    (rc = 0 \<longrightarrow> ses_is_dirty t) \<and>
    lasso_session_get_assertion (Some t) p = None \<and> \<not> lasso_session_has_slo_session (Some t) p \<and>
    lasso_session_get_session_indexes (Some t) (Some p) None = [] \<and>
    (\<forall>q. q \<noteq> p \<longrightarrow> nsi_list t q = nsi_list s q \<and>
                 lasso_session_get_assertion (Some t) q = lasso_session_get_assertion (Some s) q)"
  using assms
  by (auto simp: lasso_session_remove_assertion_def Let_def lasso_session_get_assertion_def
      lasso_session_has_slo_session_def lasso_session_get_session_indexes_def nsi_list_def
      List.map_filter_simps)

theorem session_remove_assertion_law_witness:
  "\<exists>t. lasso_session_remove_assertion (Some lasso_session_new) (Some ''idp'') =
         (LASSO_PROFILE_ERROR_MISSING_ASSERTION, Some t) \<and> \<not> lasso_session_has_slo_session (Some t) ''idp''"
  using session_remove_assertion_law[of "''idp''" lasso_session_new]
  by (auto simp: lasso_session_get_assertion_def lasso_session_new_def)

text \<open>After the list of providers was initialised, the provider index enumerates every provider with
  session indexes exactly once, and answers nothing past the end or for a negative index.\<close>

theorem session_provider_index_enumerates:
  assumes "session_inv s" and "ses_nid_and_session_indexes s \<noteq> []"
  defines "t \<equiv> lasso_session_init_provider_ids s"
    and "n \<equiv> length (ses_nid_and_session_indexes s)"
  shows "map (\<lambda>i. fst (lasso_session_get_provider_index t (int i))) [0..<n] =
           map Some (ght_keys (ses_nid_and_session_indexes s)) \<and>
         distinct (ght_keys (ses_nid_and_session_indexes s)) \<and>
         (\<forall>i. i < 0 \<or> int n \<le> i \<longrightarrow> fst (lasso_session_get_provider_index t i) = None)"
proof -
  have len: "length (ght_keys (ses_nid_and_session_indexes s)) = n" by (simp add: ght_keys_def n_def)
  moreover have "ght_keys (ses_nid_and_session_indexes s) \<noteq> []" using assms(2) by (simp add: ght_keys_def)
  ultimately have "fst (lasso_session_get_provider_index t i) =
      (if 0 \<le> i \<and> nat i < n then Some (ght_keys (ses_nid_and_session_indexes s) ! nat i) else None)" for i
    using assms(2) by (simp add: lasso_session_get_provider_index_def t_def Let_def
        lasso_session_init_provider_ids_def)
  then show ?thesis
    using assms(1) len
    by (auto simp: session_inv_def ght_inv_def ght_keys_def intro!: nth_equalityI)
qed

definition sample_nsi :: nid_and_session_index where
  "sample_nsi = \<lparr>nsi_name_id = Saml2NameID sample_nid, nsi_assertion_id = Some ''a1'',
     nsi_session_index = Some ''s1''\<rparr>"

definition sample_session :: lasso_session where
  "sample_session = lasso_session_new\<lparr>ses_nid_and_session_indexes := [(''idp'', [sample_nsi])]\<rparr>"

lemma sample_session_inv: "session_inv sample_session"
  by (auto simp: session_inv_def sample_session_def lasso_session_new_def ght_inv_def ght_lookup_def
      nsi_ok_def split: if_splits)

theorem session_provider_index_enumerates_witness:
  "fst (lasso_session_get_provider_index (lasso_session_init_provider_ids sample_session) 0) = Some ''idp''"
  using session_provider_index_enumerates[OF sample_session_inv]
  by (simp add: sample_session_def lasso_session_new_def ght_keys_def)

section \<open>Dumping and restoring a session\<close>

text \<open>What can be dumped without loss: name identifiers with content, entries with an assertion
  identifier, statuses that are elements the status class reads back, nodes that base64 carries.\<close>

definition name_has_content :: "name_identifier \<Rightarrow> bool" where
  "name_has_content n =
     (case n of SamlNameIdentifier x \<Rightarrow> sni_content x \<noteq> None | Saml2NameID x \<Rightarrow> nid_content x \<noteq> None
      | OtherNode _ \<Rightarrow> False)"

definition nsi_dumpable :: "nid_and_session_index \<Rightarrow> bool" where
  "nsi_dumpable nsi \<longleftrightarrow> nsi_assertion_id nsi \<noteq> None \<and> name_has_content (nsi_name_id nsi)"

definition session_dumpable :: "session_codec \<Rightarrow> lasso_session \<Rightarrow> bool" where
  "session_dumpable c s \<longleftrightarrow> session_inv s \<and>
     (\<forall>(p, st) \<in> set (ses_status s). \<exists>x. st = Some x \<and> is_element x \<and> cdc_status_of c x = Some x) \<and>
     (\<forall>(i, x) \<in> set (ses_assertions_by_id s). \<exists>b. cdc_b64 c x = Some b \<and> cdc_unb64 c b = Some x) \<and>
     (\<forall>(p, l) \<in> set (ses_nid_and_session_indexes s). \<forall>nsi \<in> set l. nsi_dumpable nsi)"

text \<open>What restoring relies on: a name identifier with content that its class writes is an element
  that the class reads back.\<close>

locale session_codec_laws =
  fixes c :: session_codec
  assumes name_roundtrip: "name_has_content n \<Longrightarrow> cdc_name_of c (cdc_name c n) = Some n"
    and name_element: "name_has_content n \<Longrightarrow> is_element (cdc_name c n)"
begin

lemma first_element_name:
  "name_has_content n \<Longrightarrow> xmlFirstElement (Element m ns ps [cdc_name c n]) = Some (cdc_name c n)"
  by (simp add: xmlFirstElement_def name_element)

lemma init_nsi_childnode:
  assumes "nsi_dumpable nsi"
  shows "init_from_xml_nid_and_session_index c (nsi_childnode c p nsi) s =
    lasso_session_add_nid_and_session_index s p nsi"
  using assms
  by (cases nsi) (auto simp: init_from_xml_nid_and_session_index_def nsi_childnode_def xmlGetProp_def
      nsi_dumpable_def first_element_name name_roundtrip lasso_new_nid_and_session_index_def split: option.splits)

lemma init_children_nsi:
  "\<forall>nsi \<in> set l. nsi_dumpable nsi \<Longrightarrow>
   session_init_children c thin (map (nsi_childnode c p) l @ rest) s =
     session_init_children c thin rest
       (fold (\<lambda>nsi s. lasso_session_add_nid_and_session_index s p nsi) l s)"
proof (induction l arbitrary: s)
  case (Cons nsi l)
  have "is_element (nsi_childnode c p nsi)" "xml_name (nsi_childnode c p nsi) = ''NidAndSessionIndex''"
    "xml_ns (nsi_childnode c p nsi) = Some LASSO_LASSO_HREF"
    by (simp_all add: nsi_childnode_def is_element_def)
  then show ?case using Cons by (simp add: init_nsi_childnode)
qed simp

lemma init_children_by_id:
  "\<forall>(i, x) \<in> set l. \<exists>b. cdc_b64 c x = Some b \<and> cdc_unb64 c b = Some x \<Longrightarrow>
   session_init_children c thin (map (add_assertion_by_id c) l @ rest) s =
     session_init_children c thin rest
       (fold (\<lambda>kv s. s\<lparr>ses_assertions_by_id := ght_insert (fst kv) (snd kv) (ses_assertions_by_id s),
                      ses_is_dirty := True\<rparr>) l s)"
proof (induction l arbitrary: s)
  case (Cons kv l)
  obtain b where b: "cdc_b64 c (snd kv) = Some b" "cdc_unb64 c b = Some (snd kv)"
    using Cons.prems by (cases kv) auto
  then have "init_from_xml_assertion c thin (add_assertion_by_id c kv) s =
      s\<lparr>ses_assertions_by_id := ght_insert (fst kv) (snd kv) (ses_assertions_by_id s), ses_is_dirty := True\<rparr>"
    by (simp add: init_from_xml_assertion_def add_assertion_by_id_def xmlFirstElement_def is_element_def
        xmlGetProp_def lasso_session_add_assertion_with_id_def)
  moreover have "is_element (add_assertion_by_id c kv)" "xml_name (add_assertion_by_id c kv) = ''Assertion''"
    by (simp_all add: add_assertion_by_id_def is_element_def)
  ultimately show ?case using Cons by simp
qed simp

end

lemma fold_by_id_fields:
  "ses_assertions_by_id (fold (\<lambda>kv s. s\<lparr>ses_assertions_by_id := ght_insert (fst kv) (snd kv) (ses_assertions_by_id s),
       ses_is_dirty := True\<rparr>) l s) = fold (\<lambda>kv. ght_insert (fst kv) (snd kv)) l (ses_assertions_by_id s)"
  by (induction l arbitrary: s) simp_all

lemma fold_by_id_rest:
  "fold (\<lambda>kv s. s\<lparr>ses_assertions_by_id := ght_insert (fst kv) (snd kv) (ses_assertions_by_id s),
       ses_is_dirty := True\<rparr>) l s =
     s\<lparr>ses_assertions_by_id := fold (\<lambda>kv. ght_insert (fst kv) (snd kv)) l (ses_assertions_by_id s),
       ses_is_dirty := (ses_is_dirty s \<or> l \<noteq> [])\<rparr>"
  by (induction l arbitrary: s) simp_all

text \<open>Registering the entries of a list without duplicates one after the other rebuilds it.\<close>

lemma fold_add_nsi:
  assumes "sorted_wrt (\<lambda>a b. \<not> nsi_duplicate a b) (nsi_list s p @ l)" and "l \<noteq> []"
  shows "fold (\<lambda>nsi s. lasso_session_add_nid_and_session_index s p nsi) l s =
    s\<lparr>ses_nid_and_session_indexes := ght_insert p (nsi_list s p @ l) (ses_nid_and_session_indexes s)\<rparr>"
  using assms
proof (induction l arbitrary: s)
  case (Cons nsi l)
  let ?s1 = "lasso_session_add_nid_and_session_index s p nsi"
  have nodup: "\<not> list_ex (\<lambda>other. nsi_duplicate other nsi) (nsi_list s p)"
    using Cons.prems(1) by (auto simp: list_ex_iff sorted_wrt_append)
  then have s1: "?s1 = s\<lparr>ses_nid_and_session_indexes := ght_insert p (nsi_list s p @ [nsi]) (ses_nid_and_session_indexes s)\<rparr>"
    by (simp add: lasso_session_add_nid_and_session_index_def Let_def)
  have l1: "nsi_list ?s1 p = nsi_list s p @ [nsi]" using nodup by (simp add: nsi_list_add)
  show ?case
  proof (cases "l = []")
    case True
    then show ?thesis using s1 by simp
  next
    case False
    have "ght_insert p v (ght_insert p w t) = ght_insert p v t" for v w :: "nid_and_session_index list" and t
      by (induction t) (auto simp: ght_insert_def)
    then show ?thesis
      using Cons.IH[of ?s1] Cons.prems(1) False l1 by (simp add: s1)
  qed
qed simp

context session_codec_laws
begin

lemma init_children_status:
  "\<forall>(p, st) \<in> set l. \<exists>x. st = Some x \<and> is_element x \<and> cdc_status_of c x = Some x \<Longrightarrow>
   session_init_children c thin (map add_status_childnode l @ rest) s =
     session_init_children c thin rest
       (s\<lparr>ses_status := fold (\<lambda>kv. ght_insert (fst kv) (snd kv)) l (ses_status s)\<rparr>)"
proof (induction l arbitrary: s)
  case (Cons kv l)
  obtain p x where kv: "kv = (p, Some x)" "is_element x" "cdc_status_of c x = Some x"
    using Cons.prems by (cases kv) auto
  then have "init_from_xml_status c (add_status_childnode kv) s =
      Some (s\<lparr>ses_status := ght_insert p (Some x) (ses_status s)\<rparr>)"
    by (simp add: init_from_xml_status_def add_status_childnode_def xmlFirstElement_def xmlGetProp_def)
  moreover have "is_element (add_status_childnode kv)" "xml_name (add_status_childnode kv) = ''Status''"
    by (simp_all add: add_status_childnode_def is_element_def)
  ultimately show ?case using Cons kv by simp
qed simp

lemma init_children_nsi_table:
  assumes "ght_inv (ses_nid_and_session_indexes s @ l)"
    and "\<forall>(p, ns) \<in> set l. nsi_ok ns \<and> (\<forall>nsi \<in> set ns. nsi_dumpable nsi)"
  shows "session_init_children c thin (concat (map (xmlnode_add_assertion_nid_and_session_indexes c) l)) s =
     Some (s\<lparr>ses_nid_and_session_indexes := ses_nid_and_session_indexes s @ l\<rparr>)"
  using assms
proof (induction l arbitrary: s)
  case (Cons kv l)
  obtain p ns where kv: "kv = (p, ns)" by (cases kv)
  have ns: "nsi_ok ns" "\<forall>nsi \<in> set ns. nsi_dumpable nsi" using Cons.prems(2) kv by auto
  have none: "ght_lookup (ses_nid_and_session_indexes s) p = None"
    using Cons.prems(1) kv by (auto simp: ght_inv_def ght_lookup_def map_of_eq_None_iff)
  then have empty: "nsi_list s p = []" by (simp add: nsi_list_def)
  have "fold (\<lambda>nsi s. lasso_session_add_nid_and_session_index s p nsi) ns s =
      s\<lparr>ses_nid_and_session_indexes := ses_nid_and_session_indexes s @ [(p, ns)]\<rparr>"
    using fold_add_nsi[of s p ns] ns(1) by (simp add: empty nsi_ok_def ght_insert_fresh[OF none])
  then show ?case
    using Cons.IH[of "s\<lparr>ses_nid_and_session_indexes := ses_nid_and_session_indexes s @ [(p, ns)]\<rparr>"] Cons.prems kv
    by (simp add: xmlnode_add_assertion_nid_and_session_indexes_def init_children_nsi[OF ns(2)])
qed simp

lemma thin_roundtrip:
  assumes "session_dumpable c s" and "ses_assertions s = []"
  shows "session_init_from_xml c thin (session_get_xmlNode c s) =
    Some (s\<lparr>ses_is_dirty := (ses_assertions_by_id s \<noteq> []), ses_providerIDs := []\<rparr>)"
proof -
  have inv: "session_inv s" using assms(1) by (simp add: session_dumpable_def)
  then have rebuild: "fold (\<lambda>kv. ght_insert (fst kv) (snd kv)) (ses_status s) [] = ses_status s"
    "fold (\<lambda>kv. ght_insert (fst kv) (snd kv)) (ses_assertions_by_id s) [] = ses_assertions_by_id s"
    by (simp_all add: session_inv_def ght_rebuild)
  have nsi: "\<forall>(p, ns) \<in> set (ses_nid_and_session_indexes s). nsi_ok ns \<and> (\<forall>nsi \<in> set ns. nsi_dumpable nsi)"
    using assms(1) inv by (fastforce simp: session_dumpable_def session_inv_def dest: ght_in_lookup)
  show ?thesis
    using assms inv nsi
    by (simp add: session_init_from_xml_def session_get_xmlNode_def session_dumpable_def init_children_status
        init_children_by_id fold_by_id_rest lasso_session_new_def rebuild init_children_nsi_table
        session_inv_def)
qed

end

text \<open>The classes \<^verbatim>\<open>saml:NameIdentifier\<close> and \<^verbatim>\<open>saml2:NameID\<close> write their attributes and a text child
  from their snippet tables.  Reading takes the text content of the element, which is an empty string
  when there is none, so that a name identifier without content comes back with empty content.\<close>

definition opt_attr :: "string \<Rightarrow> cstr \<Rightarrow> (string \<times> string) list" where
  "opt_attr a v = (case v of None \<Rightarrow> [] | Some x \<Rightarrow> [(a, x)])"

definition opt_text :: "cstr \<Rightarrow> xml list" where
  "opt_text v = (case v of None \<Rightarrow> [] | Some x \<Rightarrow> [Text x])"

definition name_get_xmlNode :: "name_identifier \<Rightarrow> xml" where
  "name_get_xmlNode n =
     (case n of
        SamlNameIdentifier x \<Rightarrow>
          Element ''NameIdentifier'' (Some LASSO_SAML_ASSERTION_HREF)
            (opt_attr ''NameQualifier'' (sni_NameQualifier x) @ opt_attr ''Format'' (sni_Format x))
            (opt_text (sni_content x))
      | Saml2NameID x \<Rightarrow>
          Element ''NameID'' (Some LASSO_SAML2_ASSERTION_HREF)
            (opt_attr ''Format'' (nid_Format x) @ opt_attr ''SPProvidedID'' (nid_SPProvidedID x) @
             opt_attr ''NameQualifier'' (nid_NameQualifier x) @
             opt_attr ''SPNameQualifier'' (nid_SPNameQualifier x))
            (opt_text (nid_content x))
      | OtherNode x \<Rightarrow> x)"

definition name_new_from_xmlNode :: "xml \<Rightarrow> name_identifier option" where
  "name_new_from_xmlNode x =
     (if \<not> is_element x then None
      else if xml_name x = ''NameIdentifier'' \<and> xml_ns x = Some LASSO_SAML_ASSERTION_HREF then
        Some (SamlNameIdentifier \<lparr>sni_content = Some (xmlNodeGetContent x),
          sni_NameQualifier = xmlGetProp x ''NameQualifier'', sni_Format = xmlGetProp x ''Format''\<rparr>)
      else if xml_name x = ''NameID'' \<and> xml_ns x = Some LASSO_SAML2_ASSERTION_HREF then
        Some (Saml2NameID \<lparr>nid_content = Some (xmlNodeGetContent x), nid_Format = xmlGetProp x ''Format'',
          nid_SPProvidedID = xmlGetProp x ''SPProvidedID'', nid_NameQualifier = xmlGetProp x ''NameQualifier'',
          nid_SPNameQualifier = xmlGetProp x ''SPNameQualifier''\<rparr>)
      else Some (OtherNode x))"

lemma name_xml_roundtrip:
  "name_has_content n \<Longrightarrow> name_new_from_xmlNode (name_get_xmlNode n) = Some n \<and> is_element (name_get_xmlNode n)"
  by (cases n) (auto simp: name_has_content_def name_get_xmlNode_def name_new_from_xmlNode_def is_element_def
      xmlGetProp_def opt_attr_def opt_text_def LASSO_SAML_ASSERTION_HREF_def LASSO_SAML2_ASSERTION_HREF_def
      map_of_append map_add_def split: option.splits)

definition with_name_codec :: "session_codec \<Rightarrow> session_codec" where
  "with_name_codec c = c\<lparr>cdc_name := name_get_xmlNode, cdc_name_of := name_new_from_xmlNode\<rparr>"

interpretation name_codec: session_codec_laws "with_name_codec c" for c
  by unfold_locales (simp_all add: with_name_codec_def name_xml_roundtrip)

text \<open>A thin session that is dumped and restored has the same session indexes, statuses and
  assertions by identifier; the list of providers that logout walks through is not kept, and the
  session comes back dirty when it holds assertions by identifier.\<close>

theorem session_dump_restore_thin:
  assumes "session_dumpable (with_name_codec c) s" and "ses_assertions s = []"
  shows "session_init_from_xml (with_name_codec c) thin (session_get_xmlNode (with_name_codec c) s) =
    Some (s\<lparr>ses_is_dirty := (ses_assertions_by_id s \<noteq> []), ses_providerIDs := []\<rparr>)"
  using assms by (rule name_codec.thin_roundtrip)

definition sample_codec :: session_codec where
  "sample_codec = \<lparr>cdc_assertion = \<lambda>_. Element ''Assertion'' None [] [],
     cdc_assertion_of = \<lambda>_. Some (Saml2Assertion (sample_assertion ''a2'')), cdc_name = \<lambda>_. Text [],
     cdc_name_of = \<lambda>_. None, cdc_status_of = Some, cdc_b64 = \<lambda>_. None, cdc_unb64 = \<lambda>_. None\<rparr>"

theorem session_dump_restore_thin_witness:
  "session_init_from_xml (with_name_codec sample_codec) True
     (session_get_xmlNode (with_name_codec sample_codec) sample_session) = Some sample_session"
  using session_dump_restore_thin[of sample_codec sample_session True] sample_session_inv
  by (simp add: session_dumpable_def sample_session_def lasso_session_new_def sample_nsi_def
      nsi_dumpable_def name_has_content_def)

lemma init_children_assertion:
  "session_init_children c thin (add_assertion_childnode c kv # ts) s =
     session_init_children c thin ts (init_from_xml_assertion c thin (add_assertion_childnode c kv) s)"
  by (simp add: add_assertion_childnode_def is_element_def)

text \<open>Of two assertions from the same provider with the same NameID and session index a session
  remembers the identifier of the first only; after a dump and a restore it remembers that of the
  second only.\<close>

theorem session_assertion_id_memory:
  assumes sb: "asn_Subject a1 = Some sb1" "sb_NameID sb1 = Some nid"
      "asn_Subject a2 = Some sb2" "sb_NameID sb2 = Some nid"
    and nid: "nid_content nid \<noteq> None"
    and sts: "asn_AuthnStatement a1 = [st1]" "asn_AuthnStatement a2 = [st2]"
      "as_SessionIndex st1 = Some si" "as_SessionIndex st2 = Some si"
    and ids: "asn_ID a1 = Some i1" "asn_ID a2 = Some i2"
    and codec: "cdc_assertion_of c (cdc_assertion c (Saml2Assertion a2)) = Some (Saml2Assertion a2)"
      "is_element (cdc_assertion c (Saml2Assertion a2))"
    and s1: "lasso_session_add_assertion False (Some lasso_session_new) (Some p) (Some (Saml2Assertion a1)) = (r1, s1)"
    and s2: "lasso_session_add_assertion False s1 (Some p) (Some (Saml2Assertion a2)) = (r2, Some s2)"
    and s3: "session_init_from_xml (with_name_codec c) False (session_get_xmlNode (with_name_codec c) s2) = s3"
  shows "r1 = 0 \<and> r2 = 0 \<and> lasso_session_get_assertion_ids (Some s2) (Some p) = [i1] \<and>
    s3 \<noteq> None \<and> lasso_session_get_assertion_ids s3 (Some p) = [i2]"
proof -
  let ?e = "\<lambda>i. \<lparr>nsi_name_id = Saml2NameID nid, nsi_assertion_id = Some i, nsi_session_index = Some si\<rparr>"
  have dup: "nsi_duplicate (?e i) (?e j)" for i j
    using nid by (simp add: nsi_duplicate_def match_name_id_iff)
  have dump: "nsi_dumpable (?e i)" for i
    using nid by (simp add: nsi_dumpable_def name_has_content_def)
  have s2_eq: "r1 = 0" "r2 = 0" "s2 = \<lparr>ses_assertions = [(p, Saml2Assertion a2)], ses_is_dirty = True,
      ses_providerIDs = [], ses_status = [], ses_assertions_by_id = [],
      ses_nid_and_session_indexes = [(p, [?e i1])]\<rparr>"
    using s1 s2 dup sb sts ids
    by (auto simp: add_assertion_saml2 lasso_session_new_def add_authn_statement_nsi_def nsi_list_def
        lasso_session_add_nid_and_session_index_def lasso_new_nid_and_session_index_def
        ght_insert_def ght_lookup_def)
  let ?c = "with_name_codec c"
  let ?t = "\<lparr>ses_assertions = [(p, Saml2Assertion a2)], ses_is_dirty = False,
      ses_providerIDs = [], ses_status = [], ses_assertions_by_id = [],
      ses_nid_and_session_indexes = [(p, [?e i2])]\<rparr>"
  have first: "init_from_xml_assertion ?c False (add_assertion_childnode ?c (p, Saml2Assertion a2)) lasso_session_new = ?t"
    using codec sb sts ids
    by (simp add: init_from_xml_assertion_def add_assertion_childnode_def with_name_codec_def
        xmlFirstElement_def xmlGetProp_def lasso_session_add_assertion_simple_def nsi_list_def
        lasso_session_add_assertion_nid_and_session_index_def add_authn_statement_nsi_def
        lasso_session_add_nid_and_session_index_def lasso_new_nid_and_session_index_def
        lasso_session_new_def ght_insert_def)
  have kids: "xml_children (session_get_xmlNode ?c s2) =
      add_assertion_childnode ?c (p, Saml2Assertion a2) # map (nsi_childnode ?c p) [?e i1] @ []"
    by (simp add: session_get_xmlNode_def s2_eq xmlnode_add_assertion_nid_and_session_indexes_def)
  have "s3 = session_init_children ?c False (map (nsi_childnode ?c p) [?e i1] @ []) ?t"
    using s3 unfolding session_init_from_xml_def kids init_children_assertion first by simp
  also have "\<dots> = Some ?t"
    by (subst name_codec.init_children_nsi)
      (simp_all add: dump dup lasso_session_add_nid_and_session_index_def nsi_list_def ght_lookup_def)
  finally show ?thesis
    using s2_eq by (simp add: lasso_session_get_assertion_ids_def nsi_list_def ght_lookup_def List.map_filter_simps)
qed

definition sample_two :: "lasso_session option" where
  "sample_two = snd (lasso_session_add_assertion False
     (snd (lasso_session_add_assertion False (Some lasso_session_new) (Some ''idp'')
        (Some (Saml2Assertion (sample_assertion ''a1'')))))
     (Some ''idp'') (Some (Saml2Assertion (sample_assertion ''a2''))))"

theorem session_assertion_id_memory_witness:
  "lasso_session_get_assertion_ids sample_two (Some ''idp'') = [''a1''] \<and>
   lasso_session_get_assertion_ids
     (session_init_from_xml (with_name_codec sample_codec) False
        (session_get_xmlNode (with_name_codec sample_codec) (the sample_two))) (Some ''idp'') = [''a2'']"
proof -
  let ?r1 = "lasso_session_add_assertion False (Some lasso_session_new) (Some ''idp'')
        (Some (Saml2Assertion (sample_assertion ''a1'')))"
  let ?r2 = "lasso_session_add_assertion False (snd ?r1) (Some ''idp'') (Some (Saml2Assertion (sample_assertion ''a2'')))"
  have r2: "?r2 = (fst ?r2, Some (the sample_two))" and s: "sample_two = Some (the sample_two)"
    by (simp_all add: sample_two_def add_assertion_saml2[OF sample_simps(6) sample_simps(3)])
  have codec: "cdc_assertion_of sample_codec (cdc_assertion sample_codec (Saml2Assertion (sample_assertion ''a2''))) =
      Some (Saml2Assertion (sample_assertion ''a2''))"
    "is_element (cdc_assertion sample_codec (Saml2Assertion (sample_assertion ''a2'')))"
    by (simp_all add: sample_codec_def is_element_def)
  have "nid_content sample_nid \<noteq> None" by simp
  from session_assertion_id_memory[OF sample_simps(6) sample_simps(3) sample_simps(6) sample_simps(3) this
      sample_simps(7) sample_simps(7) sample_simps(2) sample_simps(2) sample_simps(4) sample_simps(4)
      codec prod.collapse[symmetric] r2 refl]
  show ?thesis by (subst s) simp
qed

lemma collect_name_ids_remdups:
  assumes "\<forall>nsi \<in> set l. lasso_match_name_id (nsi_name_id nsi) (nsi_name_id nsi)" and "distinct ret"
  shows "collect_name_ids ret l = rev (remdups (rev (ret @ map nsi_name_id l)))"
  using assms
proof (induction ret l rule: collect_name_ids.induct)
  case (2 ret nsi l)
  have known: "list_ex (\<lambda>j. lasso_match_name_id j (nsi_name_id nsi)) ret \<longleftrightarrow> nsi_name_id nsi \<in> set ret"
    using "2.prems"(1) by (auto simp: list_ex_iff match_name_id_iff)
  have "remdups (xs @ nsi_name_id nsi # rev ret) = remdups (xs @ rev ret)" if "nsi_name_id nsi \<in> set ret" for xs
    using that remdups_append2[of xs "nsi_name_id nsi # rev ret"] remdups_append2[of xs "rev ret"] by simp
  then show ?case
    using 2 known by (cases "nsi_name_id nsi \<in> set ret") simp_all
qed (simp add: distinct_remdups_id)

text \<open>The name identifiers that a session has for a provider, which the code collects with one search of the
  result for every entry, are the name identifiers of the entries in the order of their first appearance,
  each of them once, provided that every identifier has a content.\<close>

theorem session_name_ids_reference:
  assumes "\<forall>nsi \<in> set (nsi_list s p). lasso_match_name_id (nsi_name_id nsi) (nsi_name_id nsi)"
  shows "lasso_session_get_name_ids (Some s) (Some p) = rev (remdups (rev (map nsi_name_id (nsi_list s p))))"
  using collect_name_ids_remdups[OF assms, of "[]"] by (simp add: lasso_session_get_name_ids_def)

theorem session_name_ids_reference_witness:
  "lasso_session_get_name_ids (Some (lasso_session_new\<lparr>ses_nid_and_session_indexes :=
      [(''idp'', [sample_nsi, sample_nsi\<lparr>nsi_session_index := Some ''s2''\<rparr>])]\<rparr>)) (Some ''idp'') = [nsi_name_id sample_nsi]"
  using session_name_ids_reference[of "lasso_session_new\<lparr>ses_nid_and_session_indexes :=
      [(''idp'', [sample_nsi, sample_nsi\<lparr>nsi_session_index := Some ''s2''\<rparr>])]\<rparr>" "''idp''"]
  by (simp add: nsi_list_def ght_lookup_def sample_nsi_def match_name_id_iff)

end
