(* ===== verification/Lasso_Identity.thy ===== *)
theory Lasso_Identity
  imports Lasso_Session
begin

text \<open>
  The principal's long-lived identity, \<^verbatim>\<open>lasso/id-ff/federation.c\<close>, \<^verbatim>\<open>lasso/id-ff/identity.c\<close> and
  \<^verbatim>\<open>lasso/saml-2.0/federation.c\<close>: a table of federations, one per remote provider, each with the
  name identifiers that the two sides use for the principal.
\<close>

section \<open>State\<close>

record lasso_federation =
  fed_remote_providerID :: str
  fed_local_nameIdentifier :: "name_identifier option"
  fed_remote_nameIdentifier :: "name_identifier option"

record lasso_identity =
  idn_federations :: "(str, lasso_federation) ghash"
  idn_is_dirty :: bool

definition lasso_federation_new :: "cstr \<Rightarrow> lasso_federation option" where
  "lasso_federation_new remote_providerID =
     (case remote_providerID of
        None \<Rightarrow> None
      | Some p \<Rightarrow> Some \<lparr>fed_remote_providerID = p, fed_local_nameIdentifier = None,
                         fed_remote_nameIdentifier = None\<rparr>)"

definition lasso_identity_new :: lasso_identity where
  "lasso_identity_new = \<lparr>idn_federations = [], idn_is_dirty = False\<rparr>"

section \<open>Federations\<close>

text \<open>The random identifier of \<^verbatim>\<open>lasso_build_unique_id(32)\<close> is the parameter \<open>uid\<close>.\<close>

definition lasso_federation_build_name_identifier ::
  "string \<Rightarrow> cstr \<Rightarrow> cstr \<Rightarrow> cstr \<Rightarrow> name_identifier" where
  "lasso_federation_build_name_identifier uid nameQualifier format content =
     SamlNameIdentifier
       \<lparr>sni_content = (case content of None \<Rightarrow> Some uid | Some c \<Rightarrow> Some c),
        sni_NameQualifier = nameQualifier, sni_Format = format\<rparr>"

definition lasso_federation_build_local_name_identifier ::
  "string \<Rightarrow> lasso_federation \<Rightarrow> cstr \<Rightarrow> cstr \<Rightarrow> cstr \<Rightarrow> lasso_federation" where
  "lasso_federation_build_local_name_identifier uid f nameQualifier format content =
     f\<lparr>fed_local_nameIdentifier :=
         Some (lasso_federation_build_name_identifier uid nameQualifier format content)\<rparr>"

definition lasso_saml20_federation_build_name_identifier ::
  "string \<Rightarrow> cstr \<Rightarrow> cstr \<Rightarrow> cstr \<Rightarrow> name_id" where
  "lasso_saml20_federation_build_name_identifier uid nameQualifier format content =
     lasso_saml2_name_id_new
       \<lparr>nid_content := (case content of None \<Rightarrow> Some uid | Some c \<Rightarrow> Some c),
        nid_NameQualifier := nameQualifier, nid_Format := format\<rparr>"

definition lasso_saml20_federation_build_local_name_identifier ::
  "string \<Rightarrow> lasso_federation \<Rightarrow> cstr \<Rightarrow> cstr \<Rightarrow> cstr \<Rightarrow> lasso_federation" where
  "lasso_saml20_federation_build_local_name_identifier uid f nameQualifier format content =
     f\<lparr>fed_local_nameIdentifier :=
         Some (Saml2NameID (lasso_saml20_federation_build_name_identifier uid nameQualifier format content))\<rparr>"

text \<open>The comparison of one stored name identifier.  \<^const>\<open>None\<close> stands for undefined behaviour: a
  stored identifier of the other class is cast to the class of the argument, and \<^verbatim>\<open>strcmp\<close> reads
  through \<^verbatim>\<open>NULL\<close> when a content is missing.\<close>

definition federation_content_matches :: "name_identifier \<Rightarrow> name_identifier option \<Rightarrow> bool option" where
  "federation_content_matches n stored =
     (case stored of
        None \<Rightarrow> Some False
      | Some m \<Rightarrow>
          (case (n, m) of
             (SamlNameIdentifier x, SamlNameIdentifier y) \<Rightarrow>
               (case (sni_content y, sni_content x) of (Some a, Some b) \<Rightarrow> Some (a = b) | _ \<Rightarrow> None)
           | (Saml2NameID x, Saml2NameID y) \<Rightarrow>
               (case (nid_content y, nid_content x) of (Some a, Some b) \<Rightarrow> Some (a = b) | _ \<Rightarrow> None)
           | _ \<Rightarrow> None))"

definition lasso_federation_verify_name_identifier ::
  "lasso_federation \<Rightarrow> name_identifier option \<Rightarrow> bool option" where
  "lasso_federation_verify_name_identifier f name_identifier =
     (case name_identifier of
        None \<Rightarrow> Some False
      | Some (OtherNode _) \<Rightarrow> Some False
      | Some n \<Rightarrow>
          (case federation_content_matches n (fed_local_nameIdentifier f) of
             None \<Rightarrow> None
           | Some True \<Rightarrow> Some True
           | Some False \<Rightarrow> federation_content_matches n (fed_remote_nameIdentifier f)))"

section \<open>Identities\<close>

definition lasso_identity_add_federation ::
  "lasso_identity option \<Rightarrow> lasso_federation option \<Rightarrow> int \<times> lasso_identity option" where
  "lasso_identity_add_federation identity federation =
     (case (identity, federation) of
        (Some i, Some f) \<Rightarrow>
          (0, Some (i\<lparr>idn_federations := ght_insert (fed_remote_providerID f) f (idn_federations i),
                      idn_is_dirty := True\<rparr>))
      | _ \<Rightarrow> (LASSO_PARAM_ERROR_BAD_TYPE_OR_NULL_OBJ, identity))"

definition lasso_identity_get_federation :: "lasso_identity option \<Rightarrow> cstr \<Rightarrow> lasso_federation option" where
  "lasso_identity_get_federation identity providerID =
     (case (identity, providerID) of
        (Some i, Some p) \<Rightarrow> ght_lookup (idn_federations i) p
      | _ \<Rightarrow> None)"

definition lasso_identity_remove_federation ::
  "lasso_identity option \<Rightarrow> cstr \<Rightarrow> int \<times> lasso_identity option" where
  "lasso_identity_remove_federation identity providerID =
     (case (identity, providerID) of
        (Some i, Some p) \<Rightarrow>
          if ght_lookup (idn_federations i) p = None
          then (LASSO_PROFILE_ERROR_FEDERATION_NOT_FOUND, identity)
          else (0, Some (i\<lparr>idn_federations := ght_remove p (idn_federations i), idn_is_dirty := True\<rparr>))
      | _ \<Rightarrow> (LASSO_PARAM_ERROR_BAD_TYPE_OR_NULL_OBJ, identity))"

section \<open>Dump and restore\<close>

definition name_in_child :: "string \<Rightarrow> name_identifier option \<Rightarrow> xml list" where
  "name_in_child tag n =
     (case n of None \<Rightarrow> [] | Some n \<Rightarrow> [Element tag (Some LASSO_LASSO_HREF) [] [name_get_xmlNode n]])"

definition federation_get_xmlNode :: "lasso_federation \<Rightarrow> xml" where
  "federation_get_xmlNode f =
     Element ''Federation'' (Some LASSO_LASSO_HREF)
       [(''RemoteProviderID'', fed_remote_providerID f), (''FederationDumpVersion'', ''2'')]
       (name_in_child ''LocalNameIdentifier'' (fed_local_nameIdentifier f) @
        name_in_child ''RemoteNameIdentifier'' (fed_remote_nameIdentifier f))"

definition name_of_child :: "string \<Rightarrow> xml list \<Rightarrow> name_identifier option" where
  "name_of_child tag cs =
     (case List.find (\<lambda>x. is_element x \<and> xml_name x = tag) cs of
        None \<Rightarrow> None
      | Some x \<Rightarrow> Option.bind (xmlFirstElement x) name_new_from_xmlNode)"

definition federation_init_from_xml :: "xml \<Rightarrow> lasso_federation option" where
  "federation_init_from_xml x =
     (case xmlGetProp x ''RemoteProviderID'' of
        None \<Rightarrow> None
      | Some p \<Rightarrow> Some \<lparr>fed_remote_providerID = p,
           fed_local_nameIdentifier = name_of_child ''LocalNameIdentifier'' (xml_children x),
           fed_remote_nameIdentifier = name_of_child ''RemoteNameIdentifier'' (xml_children x)\<rparr>)"

definition identity_get_xmlNode :: "lasso_identity \<Rightarrow> xml" where
  "identity_get_xmlNode i =
     Element ''Identity'' (Some LASSO_LASSO_HREF) [(''Version'', ''2'')]
       (map (federation_get_xmlNode \<circ> snd) (idn_federations i))"

text \<open>A \<^verbatim>\<open>Federation\<close> child without \<^verbatim>\<open>RemoteProviderID\<close> is inserted under a \<^verbatim>\<open>NULL\<close> key, an
  invalid memory access: the result is then \<^const>\<open>None\<close>.\<close>

fun identity_init_children :: "xml list \<Rightarrow> lasso_identity \<Rightarrow> lasso_identity option" where
  "identity_init_children [] i = Some i"
| "identity_init_children (t # ts) i =
     (if is_element t \<and> xml_name t = ''Federation'' then
        (case federation_init_from_xml t of
           None \<Rightarrow> None
         | Some f \<Rightarrow> identity_init_children ts
             (i\<lparr>idn_federations := ght_insert (fed_remote_providerID f) f (idn_federations i)\<rparr>))
      else identity_init_children ts i)"

definition identity_init_from_xml :: "xml \<Rightarrow> lasso_identity option" where
  "identity_init_from_xml x = identity_init_children (xml_children x) lasso_identity_new"

section \<open>Invariant\<close>

text \<open>Keys are distinct and every federation is filed under its remote provider.\<close>

definition identity_inv :: "lasso_identity \<Rightarrow> bool" where
  "identity_inv i \<longleftrightarrow> ght_inv (idn_federations i) \<and>
     (\<forall>p f. ght_lookup (idn_federations i) p = Some f \<longrightarrow> fed_remote_providerID f = p)"

lemma identity_inv_new [simp]: "identity_inv lasso_identity_new"
  by (simp add: identity_inv_def lasso_identity_new_def)

lemma identity_inv_add:
  "pred_option identity_inv i \<Longrightarrow> pred_option identity_inv (snd (lasso_identity_add_federation i f))"
  by (auto simp: lasso_identity_add_federation_def identity_inv_def split: option.splits)

lemma identity_inv_remove:
  "pred_option identity_inv i \<Longrightarrow> pred_option identity_inv (snd (lasso_identity_remove_federation i p))"
  by (auto simp: lasso_identity_remove_federation_def identity_inv_def split: option.splits)

section \<open>Operations in sequence\<close>

datatype identity_op = OpAddFederation "lasso_federation option" | OpRemoveFederation cstr

definition identity_step :: "identity_op \<Rightarrow> lasso_identity \<Rightarrow> lasso_identity" where
  "identity_step op i =
     the (case op of
            OpAddFederation f \<Rightarrow> snd (lasso_identity_add_federation (Some i) f)
          | OpRemoveFederation p \<Rightarrow> snd (lasso_identity_remove_federation (Some i) p))"

lemma identity_step_inv: "identity_inv i \<Longrightarrow> identity_inv (identity_step op i)"
  by (cases op)
    (auto simp: identity_step_def identity_inv_def lasso_identity_add_federation_def
      lasso_identity_remove_federation_def split: option.splits)

text \<open>What an identity stands for: the federation with each provider.  An addition without a federation and a
  removal without a provider are refused.\<close>

definition identity_federation_map :: "lasso_identity \<Rightarrow> string \<rightharpoonup> lasso_federation" where
  "identity_federation_map i = (\<lambda>p. lasso_identity_get_federation (Some i) (Some p))"

definition federation_map_step :: "identity_op \<Rightarrow> (string \<rightharpoonup> lasso_federation) \<Rightarrow> (string \<rightharpoonup> lasso_federation)" where
  "federation_map_step op m =
     (case op of
        OpAddFederation (Some f) \<Rightarrow> m(fed_remote_providerID f \<mapsto> f)
      | OpRemoveFederation (Some p) \<Rightarrow> m(p := None)
      | _ \<Rightarrow> m)"

lemma identity_map_new: "identity_federation_map lasso_identity_new = Map.empty"
  by (simp add: identity_federation_map_def lasso_identity_get_federation_def lasso_identity_new_def fun_eq_iff)

lemma identity_map_step: "identity_federation_map (identity_step op i) = federation_map_step op (identity_federation_map i)"
  by (auto simp: identity_federation_map_def federation_map_step_def identity_step_def lasso_identity_get_federation_def
      lasso_identity_add_federation_def lasso_identity_remove_federation_def fun_eq_iff split: identity_op.split option.splits)

interpretation idn: refined_component identity_step identity_inv lasso_identity_new
  identity_federation_map federation_map_step Map.empty
  by unfold_locales
    (simp_all add: identity_step_inv identity_map_new identity_map_step)

section \<open>Round trip\<close>

definition federation_dumpable :: "lasso_federation \<Rightarrow> bool" where
  "federation_dumpable f \<longleftrightarrow> pred_option name_has_content (fed_local_nameIdentifier f) \<and>
     pred_option name_has_content (fed_remote_nameIdentifier f)"

lemma name_of_child_skip:
  "tag \<noteq> tag' \<Longrightarrow> name_of_child tag (name_in_child tag' n @ cs) = name_of_child tag cs"
  by (auto simp: name_in_child_def name_of_child_def split: option.split)

lemma name_of_child_hit:
  "pred_option name_has_content n \<Longrightarrow> name_of_child tag cs = None \<Longrightarrow>
     name_of_child tag (name_in_child tag n @ cs) = n"
  by (auto simp: name_in_child_def name_of_child_def is_element_def xmlFirstElement_def
      name_xml_roundtrip[unfolded is_element_def] split: option.split)

lemma name_of_child_Nil [simp]: "name_of_child tag [] = None"
  by (simp add: name_of_child_def)

lemma federation_roundtrip:
  assumes "federation_dumpable f"
  shows "federation_init_from_xml (federation_get_xmlNode f) = Some f"
proof -
  have "name_of_child ''RemoteNameIdentifier'' (name_in_child ''RemoteNameIdentifier'' (fed_remote_nameIdentifier f)) =
      fed_remote_nameIdentifier f"
    using name_of_child_hit[of "fed_remote_nameIdentifier f" "''RemoteNameIdentifier''" "[]"] assms
    by (simp add: federation_dumpable_def)
  moreover have "name_of_child ''LocalNameIdentifier'' (name_in_child ''RemoteNameIdentifier'' (fed_remote_nameIdentifier f)) = None"
    using name_of_child_skip[of "''LocalNameIdentifier''" "''RemoteNameIdentifier''" "fed_remote_nameIdentifier f" "[]"]
    by simp
  ultimately show ?thesis
    using assms
    by (simp add: federation_init_from_xml_def federation_get_xmlNode_def xmlGetProp_def
        name_of_child_skip name_of_child_hit federation_dumpable_def)
qed

lemma identity_init_children_federations:
  assumes "\<forall>f \<in> snd ` set l. federation_dumpable f" and "\<forall>(p, f) \<in> set l. fed_remote_providerID f = p"
  shows "identity_init_children (map (federation_get_xmlNode \<circ> snd) l) i =
    Some (i\<lparr>idn_federations := fold (\<lambda>kv. ght_insert (fst kv) (snd kv)) l (idn_federations i)\<rparr>)"
  using assms
proof (induction l arbitrary: i)
  case (Cons kv l)
  obtain p f where kv: "kv = (p, f)" "fed_remote_providerID f = p" using Cons.prems by (cases kv) auto
  have "is_element (federation_get_xmlNode f)" "xml_name (federation_get_xmlNode f) = ''Federation''"
    by (simp_all add: federation_get_xmlNode_def is_element_def)
  then show ?case using Cons kv by (simp add: federation_roundtrip)
qed simp

section \<open>Properties\<close>

text \<open>An identity that is dumped and restored has the same federations with the same name
  identifiers; the restored identity is not dirty.\<close>

theorem identity_dump_restore:
  assumes "identity_inv i" and "\<forall>f \<in> snd ` set (idn_federations i). federation_dumpable f"
  shows "identity_init_from_xml (identity_get_xmlNode i) = Some (i\<lparr>idn_is_dirty := False\<rparr>)"
proof -
  have "\<forall>(p, f) \<in> set (idn_federations i). fed_remote_providerID f = p"
    using assms(1) by (auto simp: identity_inv_def dest: ght_in_lookup)
  then show ?thesis
    using assms
    by (simp add: identity_init_from_xml_def identity_get_xmlNode_def lasso_identity_new_def
        identity_init_children_federations identity_inv_def ght_rebuild)
qed

definition sample_federation :: lasso_federation where
  "sample_federation = \<lparr>fed_remote_providerID = ''sp'', fed_local_nameIdentifier = Some (Saml2NameID sample_nid),
     fed_remote_nameIdentifier = None\<rparr>"

definition sample_identity :: lasso_identity where
  "sample_identity = \<lparr>idn_federations = [(''sp'', sample_federation)], idn_is_dirty = False\<rparr>"

lemma sample_identity_inv: "identity_inv sample_identity"
  by (auto simp: identity_inv_def sample_identity_def sample_federation_def ght_inv_def ght_lookup_def
      split: if_splits)

theorem identity_dump_restore_witness:
  "identity_init_from_xml (identity_get_xmlNode sample_identity) = Some sample_identity"
  using identity_dump_restore[OF sample_identity_inv]
  by (simp add: sample_identity_def sample_federation_def federation_dumpable_def name_has_content_def)

text \<open>C34: the identity implements a map from providers to federations: after any sequence of additions and removals
  from a new identity, looking up a provider gives what the same sequence of updates of a map gives; every federation is
  filed under its own remote provider, and removing a federation succeeds exactly when the map has one.\<close>

theorem identity_refines_map:
  fixes ops :: "identity_op list"
  defines "i \<equiv> fold identity_step ops lasso_identity_new"
  shows "identity_inv i \<and> identity_federation_map i = fold federation_map_step ops Map.empty \<and>
    (fst (lasso_identity_remove_federation (Some i) (Some p)) = 0 \<longleftrightarrow> fold federation_map_step ops Map.empty p \<noteq> None)"
proof -
  have r: "identity_federation_map i = fold federation_map_step ops Map.empty"
    using idn.reachable_refines[of ops] by (simp add: i_def idn.run_def)
  have "fst (lasso_identity_remove_federation (Some i) (Some p)) = 0 \<longleftrightarrow> identity_federation_map i p \<noteq> None"
    by (auto simp: lasso_identity_remove_federation_def identity_federation_map_def lasso_identity_get_federation_def)
  with r idn.reachable_inv[of ops] show ?thesis by (simp add: i_def idn.run_def)
qed

end
