(* ===== verification/Lasso_Profile.thy ===== *)
theory Lasso_Profile
  imports Lasso_Messages Lasso_Session Lasso_Identity
begin

text \<open>
  What the SAML 2.0 profiles share, \<^verbatim>\<open>lasso/saml-2.0/profile.c\<close> with the parts of \<^verbatim>\<open>lasso/id-ff/profile.c\<close> it
  uses: the state of a conversation, receiving requests and responses with their signatures, initialising
  and sending requests and responses, artifacts, and the encryption of name identifiers.
\<close>

unbundle bit_operations_syntax

section \<open>State\<close>

text \<open>The setters refuse the value \<^verbatim>\<open>LASSO_PROFILE_SIGNATURE_VERIFY_HINT_LAST\<close>.  The list of identity providers
  of ECP is left out.\<close>

datatype signature_hint = SIGNATURE_HINT_MAYBE | SIGNATURE_HINT_FORCE | SIGNATURE_HINT_FORBID

datatype signature_verify_hint = VERIFY_HINT_MAYBE | VERIFY_HINT_FORCE | VERIFY_HINT_IGNORE

record lasso_profile =
  prf_server :: "lasso_server option"
  prf_request :: "message_node option"
  prf_response :: "message_node option"
  prf_nameIdentifier :: "name_identifier option"
  prf_remote_providerID :: cstr
  prf_msg_url :: cstr
  prf_msg_body :: cstr
  prf_msg_relayState :: cstr
  prf_identity :: "lasso_identity option"
  prf_session :: "lasso_session option"
  prf_http_request_method :: int
  prf_signature_status :: int
  prf_artifact :: cstr
  prf_artifact_message :: cstr
  prf_signature_hint :: signature_hint
  prf_signature_verify_hint :: signature_verify_hint
  prf_message_id :: cstr

definition profile_new :: "lasso_server option \<Rightarrow> lasso_profile" where
  "profile_new server = \<lparr>prf_server = server, prf_request = None, prf_response = None, prf_nameIdentifier = None,
     prf_remote_providerID = None, prf_msg_url = None, prf_msg_body = None, prf_msg_relayState = None,
     prf_identity = None, prf_session = None, prf_http_request_method = LASSO_HTTP_METHOD_ANY,
     prf_signature_status = 0, prf_artifact = None, prf_artifact_message = None,
     prf_signature_hint = SIGNATURE_HINT_MAYBE, prf_signature_verify_hint = VERIFY_HINT_MAYBE, prf_message_id = None\<rparr>"

definition lasso_profile_get_identity :: "lasso_profile \<Rightarrow> lasso_identity option" where
  "lasso_profile_get_identity p =
     (case prf_identity p of Some i \<Rightarrow> if idn_federations i \<noteq> [] then Some i else None | None \<Rightarrow> None)"

definition lasso_profile_get_session :: "lasso_profile \<Rightarrow> lasso_session option" where
  "lasso_profile_get_session p =
     (case prf_session p of None \<Rightarrow> None | Some s \<Rightarrow> if lasso_session_is_empty (Some s) then None else Some s)"

definition lasso_profile_is_identity_dirty :: "lasso_profile \<Rightarrow> bool" where
  "lasso_profile_is_identity_dirty p = (case prf_identity p of None \<Rightarrow> False | Some i \<Rightarrow> idn_is_dirty i)"

definition lasso_profile_is_session_dirty :: "lasso_profile \<Rightarrow> bool" where
  "lasso_profile_is_session_dirty p = (prf_session p \<noteq> None \<and> lasso_session_is_dirty (prf_session p))"

definition lasso_profile_clean_msg_info :: "lasso_profile \<Rightarrow> lasso_profile" where
  "lasso_profile_clean_msg_info p = p\<lparr>prf_msg_url := None, prf_msg_body := None\<rparr>"

definition lasso_profile_set_signature_verify_hint :: "lasso_profile \<Rightarrow> signature_verify_hint option \<Rightarrow> lasso_profile" where
  "lasso_profile_set_signature_verify_hint p h = (case h of None \<Rightarrow> p | Some h \<Rightarrow> p\<lparr>prf_signature_verify_hint := h\<rparr>)"

definition lasso_saml_assertion_get_name_id :: "assertion_node option \<Rightarrow> name_identifier option" where
  "lasso_saml_assertion_get_name_id a =
     (case a of
        Some (SamlAssertion sa) \<Rightarrow>
          (case Option.bind (sma_AuthenticationStatement sa) sst_Subject of
             Some (Some n) \<Rightarrow> Some (SamlNameIdentifier n)
           | _ \<Rightarrow> None)
      | _ \<Rightarrow> None)"

definition lasso_saml2_assertion_get_name_id :: "assertion_node option \<Rightarrow> name_identifier option" where
  "lasso_saml2_assertion_get_name_id a =
     (case a of
        Some (Saml2Assertion sa) \<Rightarrow> map_option Saml2NameID (Option.bind (asn_Subject sa) sb_NameID)
      | _ \<Rightarrow> None)"

definition lasso_profile_get_nameIdentifier :: "lasso_profile \<Rightarrow> name_identifier option" where
  "lasso_profile_get_nameIdentifier p =
     (case prf_remote_providerID p of
        None \<Rightarrow> None
      | Some i \<Rightarrow>
          (let assertion = Option.bind (prf_session p) (\<lambda>s. lasso_session_get_assertion (Some s) i)
           in case lasso_saml_assertion_get_name_id assertion of
                Some n \<Rightarrow> Some n
              | None \<Rightarrow>
                  (case lasso_saml2_assertion_get_name_id assertion of
                     Some n \<Rightarrow> Some n
                   | None \<Rightarrow>
                       (case Option.bind (lasso_server_get_provider (prf_server p) (Some i)) lasso_provider_get_sp_name_qualifier of
                          None \<Rightarrow> None
                        | Some q \<Rightarrow>
                            (case Option.bind (prf_identity p) (\<lambda>d. ght_lookup (idn_federations d) q) of
                               None \<Rightarrow> None
                             | Some f \<Rightarrow> if fed_remote_nameIdentifier f \<noteq> None then fed_remote_nameIdentifier f
                                         else fed_local_nameIdentifier f)))))"

definition name_qualifier_of :: "name_identifier option \<Rightarrow> cstr option" where
  "name_qualifier_of n =
     (case n of
        Some (Saml2NameID i) \<Rightarrow> Some (nid_NameQualifier i)
      | Some (SamlNameIdentifier i) \<Rightarrow> Some (sni_NameQualifier i)
      | _ \<Rightarrow> None)"

definition lasso_profile_sso_role_with :: "lasso_profile \<Rightarrow> cstr \<Rightarrow> int" where
  "lasso_profile_sso_role_with p remote_provider_id =
     (case remote_provider_id of
        None \<Rightarrow> LASSO_PROVIDER_ROLE_NONE
      | Some i \<Rightarrow>
          (let provider_id = Option.bind (prf_server p) (\<lambda>s. prv_ProviderID (srv_parent s)) in
           case lasso_identity_get_federation (prf_identity p) (Some i) of
             None \<Rightarrow> LASSO_PROVIDER_ROLE_NONE
           | Some f \<Rightarrow>
               if \<not> lasso_strisequal (Some (fed_remote_providerID f)) (Some i) then LASSO_PROVIDER_ROLE_NONE
               else case name_qualifier_of (fed_local_nameIdentifier f) of
                      None \<Rightarrow> LASSO_PROVIDER_ROLE_NONE
                    | Some q \<Rightarrow> if lasso_strisequal (Some i) q then LASSO_PROVIDER_ROLE_SP
                                else if lasso_strisequal provider_id q then LASSO_PROVIDER_ROLE_IDP
                                else LASSO_PROVIDER_ROLE_NONE))"

section \<open>Helpers\<close>

definition get_provider :: "lasso_profile \<Rightarrow> int \<times> lasso_provider option" where
  "get_provider p =
     (case prf_server p of
        None \<Rightarrow> (LASSO_PROFILE_ERROR_MISSING_SERVER, None)
      | Some s \<Rightarrow>
          (case lasso_server_get_provider (Some s) (prf_remote_providerID p) of
             None \<Rightarrow> (LASSO_SERVER_ERROR_PROVIDER_NOT_FOUND, None)
           | Some r \<Rightarrow> (0, Some r)))"

definition get_url :: "lasso_provider \<Rightarrow> string \<Rightarrow> string \<Rightarrow> cstr" where
  "get_url r service binding = lasso_provider_get_metadata_one r (service @ '' '' @ binding)"

definition get_response_url :: "lasso_provider \<Rightarrow> string \<Rightarrow> string \<Rightarrow> cstr" where
  "get_response_url r service binding =
     (case lasso_provider_get_metadata_one r (service @ '' '' @ binding @ '' ResponseLocation'') of
        Some u \<Rightarrow> Some u | None \<Rightarrow> get_url r service binding)"

definition http_method_to_binding :: "int \<Rightarrow> string" where
  "http_method_to_binding m =
     (if m = LASSO_HTTP_METHOD_POST then ''HTTP-POST''
      else if m = LASSO_HTTP_METHOD_REDIRECT then ''HTTP-Redirect''
      else if m = LASSO_HTTP_METHOD_SOAP then ''SOAP''
      else if m = LASSO_HTTP_METHOD_ARTIFACT_GET \<or> m = LASSO_HTTP_METHOD_ARTIFACT_POST then ''HTTP-Artifact''
      else if m = LASSO_HTTP_METHOD_PAOS then ''PAOS''
      else [])"

definition lasso_saml20_profile_check_signature_status :: "lasso_profile \<Rightarrow> int" where
  "lasso_saml20_profile_check_signature_status p =
     (if prf_signature_status p \<noteq> 0 then
        (case prf_signature_verify_hint p of VERIFY_HINT_IGNORE \<Rightarrow> 0 | _ \<Rightarrow> prf_signature_status p)
      else 0)"

text \<open>Signing a message: the key for the peer is attached to the message unless signatures are switched
  off.\<close>

definition lasso_profile_saml20_setup_message_signature ::
  "environment \<Rightarrow> message_io \<Rightarrow> lasso_profile \<Rightarrow> message_node option \<Rightarrow> int \<times> message_node option" where
  "lasso_profile_saml20_setup_message_signature env io p node =
     (if prf_signature_hint p = SIGNATURE_HINT_MAYBE \<and> \<not> mio_sign_messages io then (0, node)
      else if prf_signature_hint p = SIGNATURE_HINT_FORBID then (0, node)
      else case prf_server p of
             None \<Rightarrow> (LASSO_PROFILE_ERROR_MISSING_SERVER, node)
           | Some s \<Rightarrow>
               (let (rc, context) = lasso_server_get_signature_context_for_provider_by_name env (Some s) (prf_remote_providerID p) in
                if rc \<noteq> 0 then (rc, node)
                else case node of
                       None \<Rightarrow> (LASSO_PARAM_ERROR_BAD_TYPE_OR_NULL_OBJ, None)
                     | Some n \<Rightarrow> (0, Some (lasso_node_set_signature (Some context) n))))"

definition sign_request :: "environment \<Rightarrow> message_io \<Rightarrow> lasso_profile \<Rightarrow> int \<times> lasso_profile" where
  "sign_request env io p =
     (let (rc, n) = lasso_profile_saml20_setup_message_signature env io p (prf_request p) in (rc, p\<lparr>prf_request := n\<rparr>))"

definition sign_response :: "environment \<Rightarrow> message_io \<Rightarrow> lasso_profile \<Rightarrow> int \<times> lasso_profile" where
  "sign_response env io p =
     (let (rc, n) = lasso_profile_saml20_setup_message_signature env io p (prf_response p) in (rc, p\<lparr>prf_response := n\<rparr>))"

definition lasso_saml20_profile_set_response_status :: "lasso_profile \<Rightarrow> string \<Rightarrow> cstr \<Rightarrow> int \<times> lasso_profile" where
  "lasso_saml20_profile_set_response_status p code1 code2 =
     (case prf_response p of
        Some (ResponseNode r) \<Rightarrow> (0, p\<lparr>prf_response := Some (ResponseNode (set_status code1 code2 r))\<rparr>)
      | _ \<Rightarrow> (LASSO_PROFILE_ERROR_MISSING_RESPONSE, p))"

text \<open>The status is mostly set without looking at the return code.\<close>

abbreviation respond :: "string \<Rightarrow> cstr \<Rightarrow> lasso_profile \<Rightarrow> lasso_profile" where
  "respond code1 code2 p \<equiv> snd (lasso_saml20_profile_set_response_status p code1 code2)"

section \<open>Name identifiers\<close>

definition lasso_saml20_profile_process_name_identifier_decryption ::
  "message_io \<Rightarrow> lasso_profile \<Rightarrow> name_id option \<Rightarrow> encrypted_element option \<Rightarrow>
     int \<times> lasso_profile \<times> name_id option \<times> encrypted_element option" where
  "lasso_saml20_profile_process_name_identifier_decryption io p name_id encrypted_id =
     (case (name_id, encrypted_id) of
        (None, Some e) \<Rightarrow>
          (let keys = (case prf_server p of None \<Rightarrow> [] | Some s \<Rightarrow> lasso_server_get_encryption_private_keys s);
               (rc, n) = try_private_keys (mio_decrypt_name io) e LASSO_PROFILE_ERROR_MISSING_ENCRYPTION_PRIVATE_KEY keys
           in if rc \<noteq> 0 then (rc, p, name_id, encrypted_id)
              else let p = p\<lparr>prf_nameIdentifier := n\<rparr> in
                   case n of
                     Some (Saml2NameID i) \<Rightarrow> (0, p, Some i, None)
                   | _ \<Rightarrow> (LASSO_PROFILE_ERROR_MISSING_NAME_IDENTIFIER, p, name_id, encrypted_id))
      | _ \<Rightarrow> (0, p\<lparr>prf_nameIdentifier := map_option Saml2NameID name_id\<rparr>, name_id, encrypted_id))"

text \<open>Encrypting a name identifier for a provider: the code, the identifier that stays in clear and the
  encrypted one.\<close>

definition lasso_saml20_profile_setup_encrypted_node ::
  "message_io \<Rightarrow> lasso_provider \<Rightarrow> name_id option \<Rightarrow> encrypted_element option \<Rightarrow>
     int \<times> name_id option \<times> encrypted_element option" where
  "lasso_saml20_profile_setup_encrypted_node io r node dest =
     (case Option.bind node (\<lambda>n. mio_encrypt_name io (Saml2NameID n) (lasso_provider_get_encryption_public_key r)
                                   (prv_encryption_sym_key_type r) (prv_ProviderID r)) of
        None \<Rightarrow> (LASSO_DS_ERROR_ENCRYPTION_FAILED, node, dest)
      | Some e \<Rightarrow> (0, None, Some e))"

section \<open>Receiving requests\<close>

text \<open>The HTTP method that carries a format, where the code knows one.\<close>

definition format_method :: "message_format \<Rightarrow> int option" where
  "format_method f =
     (case f of
        LASSO_MESSAGE_FORMAT_BASE64 \<Rightarrow> Some LASSO_HTTP_METHOD_POST
      | LASSO_MESSAGE_FORMAT_SOAP \<Rightarrow> Some LASSO_HTTP_METHOD_SOAP
      | LASSO_MESSAGE_FORMAT_QUERY \<Rightarrow> Some LASSO_HTTP_METHOD_REDIRECT
      | _ \<Rightarrow> None)"

definition lasso_saml20_profile_process_any_request ::
  "environment \<Rightarrow> message_io \<Rightarrow> lasso_profile \<Rightarrow> string \<Rightarrow> string \<Rightarrow> int \<times> lasso_profile" where
  "lasso_saml20_profile_process_any_request env io p kind msg =
     (let p = p\<lparr>prf_signature_status := 0\<rparr>;
          (format, content, request) = parse_request env io kind msg
      in if no_format format
         then (LASSO_PROFILE_ERROR_INVALID_MSG, p)
         else case format_method format of
                None \<Rightarrow> (LASSO_PROFILE_ERROR_UNSUPPORTED_PROFILE, p)
              | Some m \<Rightarrow>
                  (let p = p\<lparr>prf_http_request_method := m, prf_request := Some (RequestNode request)\<rparr>;
                       p = (if format = LASSO_MESSAGE_FORMAT_QUERY then p\<lparr>prf_msg_relayState := lasso_get_relaystate_from_query (env_lib env) (Some msg)\<rparr> else p)
                   in case req_Issuer request of
                        None \<Rightarrow> (LASSO_PROFILE_ERROR_MISSING_ISSUER, p)
                      | Some issuer \<Rightarrow>
                          (let p = p\<lparr>prf_remote_providerID := nid_content issuer\<rparr> in
                           case get_provider p of
                             (rc, None) \<Rightarrow> (rc, p)
                           | (rc, Some r) \<Rightarrow>
                               (0, p\<lparr>prf_signature_status :=
                                  (if content \<noteq> None \<and> format \<noteq> LASSO_MESSAGE_FORMAT_QUERY
                                   then lasso_provider_verify_saml_signature (env_crypto env) (env_verify_signature env) r content
                                   else if format = LASSO_MESSAGE_FORMAT_QUERY
                                   then lasso_provider_verify_query_signature (env_crypto env) (env_verify_signature env) (env_min_signature_method env) r msg
                                   else LASSO_PROFILE_ERROR_CANNOT_VERIFY_SIGNATURE)\<rparr>))))"

definition lasso_saml20_profile_process_soap_request ::
  "environment \<Rightarrow> message_io \<Rightarrow> lasso_profile \<Rightarrow> string \<Rightarrow> int \<times> lasso_profile" where
  "lasso_saml20_profile_process_soap_request env io p msg =
     (let p = p\<lparr>prf_signature_status := 0, prf_request := from_soap env io msg,
                prf_http_request_method := LASSO_HTTP_METHOD_SOAP\<rparr>
      in case prf_request p of
           Some (RequestNode request) \<Rightarrow>
             (case req_Issuer request of
                None \<Rightarrow> (LASSO_PROFILE_ERROR_MISSING_ISSUER, p)
              | Some issuer \<Rightarrow>
                  (let p = p\<lparr>prf_remote_providerID := nid_content issuer\<rparr> in
                   case get_provider p of
                     (rc, None) \<Rightarrow> (rc, p)
                   | (rc, Some r) \<Rightarrow>
                       (let p = p\<lparr>prf_signature_status :=
                              lasso_provider_verify_signature (env_crypto env) (env_verify_signature env)
                                (env_min_signature_method env) (env_xml_parse env) r (Some msg) ''ID'' LASSO_MESSAGE_FORMAT_SOAP\<rparr>
                        in (if prf_signature_verify_hint p = VERIFY_HINT_IGNORE then 0 else prf_signature_status p, p))))
         | _ \<Rightarrow> (LASSO_PROFILE_ERROR_INVALID_MSG, p))"

section \<open>Receiving responses\<close>

definition lasso_saml20_is_valid_issuer :: "name_id option \<Rightarrow> bool" where
  "lasso_saml20_is_valid_issuer n =
     (case n of
        None \<Rightarrow> False
      | Some i \<Rightarrow> \<not> (nid_Format i \<noteq> None \<and>
                       lasso_strisnotequal (nid_Format i) (Some LASSO_SAML2_NAME_IDENTIFIER_FORMAT_ENTITY)))"

text \<open>The code of the status of a response.\<close>

definition response_status_rc :: "status_response \<Rightarrow> int" where
  "response_status_rc r =
     (case top_status r of
        None \<Rightarrow> LASSO_PROFILE_ERROR_MISSING_STATUS_CODE
      | Some (StatusCode v sub) \<Rightarrow>
          if lasso_strisnotequal v (Some LASSO_SAML2_STATUS_CODE_SUCCESS)
          then (case sub of
                  Some (StatusCode (Some v2) _) \<Rightarrow>
                    if v2 = LASSO_SAML2_STATUS_CODE_REQUEST_DENIED then LASSO_PROFILE_ERROR_REQUEST_DENIED
                    else LASSO_PROFILE_ERROR_STATUS_NOT_SUCCESS
                | _ \<Rightarrow> LASSO_PROFILE_ERROR_STATUS_NOT_SUCCESS)
          else 0)"

text \<open>The end of \<^verbatim>\<open>lasso_saml20_profile_process_any_response\<close>: an error first, then the signature, then the
  issuer.\<close>

definition any_response_rc :: "lasso_profile \<Rightarrow> int \<Rightarrow> bool \<Rightarrow> int" where
  "any_response_rc p rc missing_issuer =
     (if rc \<noteq> 0 then rc
      else if prf_signature_verify_hint p \<noteq> VERIFY_HINT_IGNORE \<and> prf_signature_status p \<noteq> 0
      then LASSO_PROFILE_ERROR_CANNOT_VERIFY_SIGNATURE
      else if missing_issuer then LASSO_PROFILE_ERROR_MISSING_ISSUER
      else 0)"

text \<open>The first result is the return code, the second the profile, the third the HTTP method of the
  response, which is left as it was on an early error.  \<open>response_method\<close> is \<open>None\<close> when the caller passes
  \<^verbatim>\<open>NULL\<close>.\<close>

definition lasso_saml20_profile_process_any_response ::
  "environment \<Rightarrow> message_io \<Rightarrow> lasso_profile \<Rightarrow> string \<Rightarrow> int option \<Rightarrow> string \<Rightarrow> int \<times> lasso_profile \<times> int option" where
  "lasso_saml20_profile_process_any_response env io p kind response_method msg =
     (let p = p\<lparr>prf_signature_status := 0\<rparr>;
          (format, content, response, any) = parse_response env io kind msg
      in if no_format format
         then (any_response_rc p LASSO_PROFILE_ERROR_INVALID_MSG False, p, response_method)
         else if response_method \<noteq> None \<and> format_method format = None
         then (LASSO_PROFILE_ERROR_UNSUPPORTED_PROFILE, p, response_method)
         else
           let m = (if response_method = None then None else format_method format);
               p = p\<lparr>prf_response := Some (ResponseNode response)\<rparr>
           in case prf_server p of
                None \<Rightarrow> (any_response_rc p LASSO_PROFILE_ERROR_MISSING_SERVER False, p, m)
              | Some server \<Rightarrow>
                  (let missing_issuer = (\<not> lasso_saml20_is_valid_issuer (rsp_Issuer response));
                       p = (if missing_issuer then p
                            else p\<lparr>prf_remote_providerID := Option.bind (rsp_Issuer response) nid_content\<rparr>);
                       remote_provider = (if missing_issuer then None
                                          else lasso_server_get_provider (Some server) (prf_remote_providerID p))
                   in case remote_provider of
                        None \<Rightarrow>
                          (let p = p\<lparr>prf_signature_status := LASSO_SERVER_ERROR_PROVIDER_NOT_FOUND\<rparr>
                           in (any_response_rc p LASSO_SERVER_ERROR_PROVIDER_NOT_FOUND missing_issuer, p, m))
                      | Some r \<Rightarrow>
                          (let p = p\<lparr>prf_signature_status :=
                                 (if content \<noteq> None \<and> format \<noteq> LASSO_MESSAGE_FORMAT_QUERY
                                  then lasso_provider_verify_saml_signature (env_crypto env) (env_verify_signature env) r content
                                  else if format = LASSO_MESSAGE_FORMAT_QUERY
                                  then lasso_provider_verify_query_signature (env_crypto env) (env_verify_signature env) (env_min_signature_method env) r msg
                                  else LASSO_DS_ERROR_SIGNATURE_VERIFICATION_FAILED)\<rparr>
                           in (any_response_rc p (response_status_rc response) missing_issuer, p, m))))"

definition lasso_saml20_profile_process_soap_response_with_headers ::
  "environment \<Rightarrow> message_io \<Rightarrow> lasso_profile \<Rightarrow> string \<Rightarrow> int \<times> lasso_profile \<times> xml option" where
  "lasso_saml20_profile_process_soap_response_with_headers env io p msg =
     (let p = p\<lparr>prf_signature_status := 0\<rparr> in
      case mio_soap_envelope io msg of
        None \<Rightarrow> (LASSO_PROFILE_ERROR_INVALID_SOAP_MSG, p, None)
      | Some envelope \<Rightarrow>
          (case sev_Body envelope of
             None \<Rightarrow> (LASSO_SOAP_ERROR_MISSING_BODY, p, None)
           | Some [] \<Rightarrow> (LASSO_SOAP_ERROR_MISSING_BODY, p\<lparr>prf_response := None\<rparr>, None)
           | Some (n # _) \<Rightarrow>
               (let p = p\<lparr>prf_response := Some n\<rparr>; header = sev_Header envelope in
                case n of
                  ResponseNode response \<Rightarrow>
                    (case (prf_server p, rsp_Issuer response) of
                       (None, _) \<Rightarrow> (LASSO_PROFILE_ERROR_MISSING_SERVER, p, header)
                     | (Some server, None) \<Rightarrow> (LASSO_PROFILE_ERROR_MISSING_ISSUER, p, header)
                     | (Some server, Some issuer) \<Rightarrow>
                         (let p = p\<lparr>prf_remote_providerID := nid_content issuer\<rparr> in
                          case lasso_server_get_provider (Some server) (prf_remote_providerID p) of
                            None \<Rightarrow> (LASSO_SERVER_ERROR_PROVIDER_NOT_FOUND, p, header)
                          | Some r \<Rightarrow>
                              (let p = p\<lparr>prf_signature_status :=
                                     lasso_provider_verify_signature (env_crypto env) (env_verify_signature env)
                                       (env_min_signature_method env) (env_xml_parse env) r (Some msg) ''ID'' LASSO_MESSAGE_FORMAT_SOAP\<rparr>
                               in (if prf_signature_verify_hint p = VERIFY_HINT_IGNORE then 0 else prf_signature_status p,
                                   p, header))))
                | _ \<Rightarrow> (LASSO_PROFILE_ERROR_INVALID_MSG, p, header))))"

definition lasso_saml20_profile_process_soap_response ::
  "environment \<Rightarrow> message_io \<Rightarrow> lasso_profile \<Rightarrow> string \<Rightarrow> int \<times> lasso_profile" where
  "lasso_saml20_profile_process_soap_response env io p msg =
     (case lasso_saml20_profile_process_soap_response_with_headers env io p msg of (rc, p, header) \<Rightarrow> (rc, p))"

section \<open>Sessions from dumps\<close>

text \<open>An encrypted element that was just restored has no decrypted object beside it; one that decrypts to
  something else than a name identifier is left.\<close>

definition lasso_saml20_profile_set_session_from_dump_decrypt :: "message_io \<Rightarrow> lasso_profile \<Rightarrow> assertion_node \<Rightarrow> assertion_node" where
  "lasso_saml20_profile_set_session_from_dump_decrypt io p a =
     (case a of
        Saml2Assertion sa \<Rightarrow>
          (case asn_Subject sa of
             Some sb \<Rightarrow>
               (case (sb_NameID sb, sb_EncryptedID sb) of
                  (None, Some e) \<Rightarrow>
                    (let keys = (case prf_server p of None \<Rightarrow> [] | Some s \<Rightarrow> lasso_server_get_encryption_private_keys s)
                     in case try_private_keys (mio_decrypt_name io) e LASSO_PROFILE_ERROR_MISSING_ENCRYPTION_PRIVATE_KEY keys of
                          (rc, Some (Saml2NameID n)) \<Rightarrow>
                            if rc = 0 then Saml2Assertion (sa\<lparr>asn_Subject := Some (sb\<lparr>sb_NameID := Some n, sb_EncryptedID := None\<rparr>)\<rparr>)
                            else a
                        | _ \<Rightarrow> a)
                | _ \<Rightarrow> a)
           | None \<Rightarrow> a)
      | _ \<Rightarrow> a)"

definition lasso_saml20_profile_set_session_from_dump :: "message_io \<Rightarrow> lasso_profile \<Rightarrow> int \<times> lasso_profile" where
  "lasso_saml20_profile_set_session_from_dump io p =
     (if lasso_session_count_assertions (mio_thin_sessions io) (prf_session p) > 0
      then (0, p\<lparr>prf_session := map_option (\<lambda>s. s\<lparr>ses_assertions :=
                   map (map_prod id (lasso_saml20_profile_set_session_from_dump_decrypt io p)) (ses_assertions s)\<rparr>)
                 (prf_session p)\<rparr>)
      else (0, p))"

section \<open>What an accepted message guarantees\<close>

text \<open>The signature check that fits the format of a message.\<close>

definition message_verified :: "environment \<Rightarrow> lasso_provider \<Rightarrow> message_format \<Rightarrow> xml option \<Rightarrow> string \<Rightarrow> bool" where
  "message_verified env r format content msg \<longleftrightarrow>
     (if format = LASSO_MESSAGE_FORMAT_QUERY then lasso_provider_verify_query_signature (env_crypto env) (env_verify_signature env) (env_min_signature_method env) r msg = 0
      else content \<noteq> None \<and> lasso_provider_verify_saml_signature (env_crypto env) (env_verify_signature env) r content = 0)"

lemma any_response_rc_zero:
  "any_response_rc p rc mi = 0 \<longleftrightarrow>
     rc = 0 \<and> \<not> mi \<and> (prf_signature_verify_hint p \<noteq> VERIFY_HINT_IGNORE \<longrightarrow> prf_signature_status p = 0)"
  by (simp add: any_response_rc_def)

lemma response_status_rc_zero:
  "response_status_rc r = 0 \<longleftrightarrow>
     (\<exists>sub. top_status r = Some (StatusCode (Some LASSO_SAML2_STATUS_CODE_SUCCESS) sub))"
  by (auto simp: response_status_rc_def split: option.splits status_code.splits if_splits)

lemma valid_issuer_content:
  "lasso_saml20_is_valid_issuer n \<Longrightarrow> \<exists>i. n = Some i"
  by (auto simp: lasso_saml20_is_valid_issuer_def split: option.splits)

lemma process_any_response_ok:
  assumes r: "lasso_saml20_profile_process_any_response env io p kind rm msg = (0, p', m)"
    and q: "parse_response env io kind msg = (format, content, response, any)"
  obtains server issuer remote where
    "prf_server p = Some server" "rsp_Issuer response = Some issuer"
    "lasso_server_get_provider (Some server) (nid_content issuer) = Some remote"
    "response_status_rc response = 0"
    "prf_signature_verify_hint p \<noteq> VERIFY_HINT_IGNORE \<longrightarrow> prf_signature_status p' = 0 \<and> message_verified env remote format content msg"
    "p' = p\<lparr>prf_response := Some (ResponseNode response), prf_remote_providerID := nid_content issuer,
       prf_signature_status := prf_signature_status p'\<rparr>"
proof -
  note d = r[unfolded lasso_saml20_profile_process_any_response_def q Let_def prod.case]
  show ?thesis
    using d by (auto simp: any_response_rc_zero message_verified_def intro!: that dest!: valid_issuer_content
        split: if_splits option.splits)
qed

lemma process_any_request_ok:
  assumes r: "lasso_saml20_profile_process_any_request env io p kind msg = (0, p')"
    and q: "parse_request env io kind msg = (format, content, request)"
  obtains issuer remote m where
    "req_Issuer request = Some issuer" "format_method format = Some m"
    "get_provider (p\<lparr>prf_remote_providerID := nid_content issuer\<rparr>) = (0, Some remote)"
    "prf_signature_status p' = 0 \<longleftrightarrow> message_verified env remote format content msg"
    "p' = p\<lparr>prf_request := Some (RequestNode request), prf_remote_providerID := nid_content issuer,
       prf_http_request_method := m,
       prf_msg_relayState := (if format = LASSO_MESSAGE_FORMAT_QUERY then lasso_get_relaystate_from_query (env_lib env) (Some msg) else prf_msg_relayState p),
       prf_signature_status := prf_signature_status p'\<rparr>"
proof -
  note d = r[unfolded lasso_saml20_profile_process_any_request_def q Let_def prod.case]
  show ?thesis
    using d by (auto simp: get_provider_def message_verified_def intro!: that split: if_splits option.splits)
qed

text \<open>C8: a response is accepted, unless signatures are ignored, only from a provider that the server knows
  under the name that the response gives as its issuer, with a signature of that provider over the message,
  and with the status Success; the profile then has that response and that provider.  The comment of the function
  announces that a signature that does not verify gives no error code; the code returns one.\<close>

theorem process_any_response_sound:
  assumes "lasso_saml20_profile_process_any_response env io p kind rm msg = (0, p', m)"
    and "prf_signature_verify_hint p \<noteq> VERIFY_HINT_IGNORE"
  shows "\<exists>format content response any issuer remote.
    parse_response env io kind msg = (format, content, response, any) \<and>
    prf_response p' = Some (ResponseNode response) \<and> rsp_Issuer response = Some issuer \<and>
    prf_remote_providerID p' = nid_content issuer \<and>
    lasso_server_get_provider (prf_server p) (nid_content issuer) = Some remote \<and>
    message_verified env remote format content msg \<and>
    (\<exists>sub. top_status response = Some (StatusCode (Some LASSO_SAML2_STATUS_CODE_SUCCESS) sub))"
proof -
  obtain format content response any where q: "parse_response env io kind msg = (format, content, response, any)"
    by (metis surj_pair)
  obtain server issuer remote where s: "prf_server p = Some server" "rsp_Issuer response = Some issuer"
    "lasso_server_get_provider (Some server) (nid_content issuer) = Some remote" "response_status_rc response = 0"
    and v: "prf_signature_verify_hint p \<noteq> VERIFY_HINT_IGNORE \<longrightarrow> prf_signature_status p' = 0 \<and> message_verified env remote format content msg"
    and e: "p' = p\<lparr>prf_response := Some (ResponseNode response), prf_remote_providerID := nid_content issuer,
       prf_signature_status := prf_signature_status p'\<rparr>"
    by (rule process_any_response_ok[OF assms(1) q])
  have f: "prf_response p' = Some (ResponseNode response)" "prf_remote_providerID p' = nid_content issuer"
    by (subst e, simp)+
  show ?thesis
    using f s v assms(2) q
    by (intro exI[of _ format] exI[of _ content] exI[of _ response] exI[of _ any] exI[of _ issuer] exI[of _ remote])
      (simp add: response_status_rc_zero)
qed

definition sample_server :: lasso_server where
  "sample_server = (server_instance_init sample_env)\<lparr>srv_parent := provider_instance_init\<lparr>prv_role := LASSO_PROVIDER_ROLE_SP,
       prv_roles := LASSO_PROVIDER_ROLE_SP, prv_ProviderID := Some ''sp'', prv_conformance := LASSO_PROTOCOL_SAML_2_0\<rparr>,
     srv_providers := [(''idp'', sample_provider)]\<rparr>"

definition sample_response :: "response_body \<Rightarrow> status_response" where
  "sample_response body = set_status LASSO_SAML2_STATUS_CODE_SUCCESS None ((lasso_samlp2_status_response_new body)
     \<lparr>rsp_Issuer := Some (lasso_saml2_name_id_new_with_string (Some ''idp'')), rsp_InResponseTo := Some ''r''\<rparr>)"

lemma sample_server_provider [simp]: "lasso_server_get_provider (Some sample_server) (Some ''idp'') = Some sample_provider"
  by (simp add: lasso_server_get_provider_def sample_server_def ght_lookup_def)

lemma sample_response_simps [simp]:
  "rsp_Issuer (sample_response b) = Some (lasso_saml2_name_id_new_with_string (Some ''idp''))"
  "rsp_body (sample_response b) = b" "rsp_InResponseTo (sample_response b) = Some ''r''"
  "response_status_rc (sample_response b) = 0"
  by (simp_all add: sample_response_def set_status_def response_status_rc_zero top_status_def lasso_samlp2_status_response_new_def)

text \<open>A message in a signed query and a message in base64, both for the tree \<open>sample_signed_node\<close>.\<close>

definition sample_query_part :: string where
  "sample_query_part = ''SAMLResponse='' @ lasso_xmlURIEscapeStr (deflated_text sample_lib ''<r/>'') [] @ ''&RelayState='' @ lasso_xmlURIEscapeStr ''s'' []"

definition sample_query_msg :: string where
  "sample_query_msg = the (the (lasso_query_sign sample_lib 1 sample_query_part LASSO_SIGNATURE_METHOD_RSA_SHA256 (Some ''key'')))"

definition sample_base64_msg :: string where
  "sample_base64_msg = hex_encode (bytes_of ''<r/>'')"

lemma sample_text: "c_string ''<r/>''" "''<r/>'' \<noteq> []" "length ''<r/>'' < 100"
  by (simp_all add: c_string_def)

lemma sample_env_simps [simp]:
  "env_lib sample_env = sample_lib" "env_verify_signature sample_env" "env_min_signature_method sample_env = 1"
  "env_xml_parse sample_env ''<r/>'' = Some sample_signed_node" "env_xml_parse sample_env ''<s/>'' = Some sample_envelope"
  by (simp_all add: sample_env_def sample_crypto_def)

lemma sample_query_signed_msg:
  "lasso_query_sign sample_lib 1 sample_query_part LASSO_SIGNATURE_METHOD_RSA_SHA256 (Some ''key'') = Some (Some sample_query_msg)"
  "lasso_saml2_query_verify_signature sample_lib True 1 sample_query_msg (Some ''key'') = 0"
  "lasso_node_init_from_saml2_query_fields sample_lib (lasso_urlencoded_to_strings sample_lib sample_query_msg) = Some (Some ''<r/>'')"
  "lasso_get_relaystate_from_query sample_lib (Some sample_query_msg) = Some ''s''"
proof -
  obtain part s where s: "lasso_xmlnode_build_deflated_query sample_lib ''<r/>'' = Some part"
    "lasso_query_sign sample_lib 1 (''SAMLResponse'' @ ''='' @ part @ (case relaystate_field (Some ''s'') of None \<Rightarrow> [] | Some r \<Rightarrow> ''&'' @ r))
       LASSO_SIGNATURE_METHOD_RSA_SHA256 (Some ''key'') = Some (Some s)"
    "compressible sample_lib ''<r/>''"
    by (rule sample_redirect_message[OF disjI2[OF refl] sample_text])
  have q: "''SAMLResponse'' @ ''='' @ part @ (case relaystate_field (Some ''s'') of None \<Rightarrow> [] | Some r \<Rightarrow> ''&'' @ r) = sample_query_part"
    using deflated_part[OF s(1)] by (simp add: sample_query_part_def relaystate_field_def)
  have m: "s = sample_query_msg" using s(2) unfolding q by (simp add: sample_query_msg_def)
  have k: "key_pair sample_lib LASSO_SIGNATURE_METHOD_RSA_SHA256 ''key'' ''key''" by simp
  have r: "list_all c_string (case Some ''s'' of None \<Rightarrow> [] | Some r \<Rightarrow> [r])" by (simp add: c_string_def)
  show "lasso_query_sign sample_lib 1 sample_query_part LASSO_SIGNATURE_METHOD_RSA_SHA256 (Some ''key'') = Some (Some sample_query_msg)"
    using s(2) unfolding q m .
  show "lasso_saml2_query_verify_signature sample_lib True 1 sample_query_msg (Some ''key'') = 0"
    "lasso_node_init_from_saml2_query_fields sample_lib (lasso_urlencoded_to_strings sample_lib sample_query_msg) = Some (Some ''<r/>'')"
    "lasso_get_relaystate_from_query sample_lib (Some sample_query_msg) = Some ''s''"
    using redirect_message_read[OF s(1) disjI2[OF refl] refl s(2,3) r k sample_lib_base64 sample_lib_hrefs sample_lib_unescapes, of True]
    unfolding m by blast+
qed

lemma sample_query_chars: "CHR ''&'' \<in> set sample_query_msg" "CHR ''<'' \<notin> set sample_query_msg"
proof -
  obtain sig where s: "sample_query_msg = signed_content sample_lib LASSO_SIGNATURE_METHOD_RSA_SHA256 sample_query_part @ ''&Signature='' @
      lasso_xmlURIEscapeStr (qlb_base64_encode sample_lib sig) []"
    by (rule query_sign_made[OF sample_query_signed_msg(1)])
  have "CHR ''<'' \<notin> set (lasso_xmlURIEscapeStr x [])" for x
    using escape_chars[of x] by (auto simp: list_all_iff escaped_char_def is_plain_def is_alnum_def)
  then show "CHR ''&'' \<in> set sample_query_msg" "CHR ''<'' \<notin> set sample_query_msg"
    by (simp_all add: s signed_content_def sample_query_part_def)
qed

lemma sample_query_parsed [simp]:
  "parse_response sample_env io kind sample_query_msg = (LASSO_MESSAGE_FORMAT_QUERY, None, snd (mio_init_response io kind (Some sample_signed_node)))"
  "parse_request sample_env io kind sample_query_msg = (LASSO_MESSAGE_FORMAT_QUERY, None, snd (mio_init_request io kind (Some sample_signed_node)))"
  unfolding parse_response_def parse_request_def sample_env_simps
  using query_format[OF sample_query_chars sample_query_signed_msg(3), of "env_xml_parse sample_env"] by simp_all

lemma sample_query_verifies [simp]:
  "lasso_provider_verify_query_signature (env_crypto sample_env) True 1 sample_provider sample_query_msg = 0"
proof -
  have "cry_query (env_crypto sample_env) = sample_lib" by (rule sample_env_simps)
  then show ?thesis
    using sample_query_signed_msg(2)
    by (simp add: lasso_provider_verify_query_signature_def sample_provider_def provider_instance_init_def
        lasso_provider_try_loading_public_keys_def lasso_provider_get_public_keys_def)
qed

lemma sample_base64_parsed:
  assumes "init (Some sample_signed_node) = (0, n)"
  shows "lasso_node_init_from_message_with_format sample_lib (env_xml_parse sample_env) init init_from_query sample_base64_msg
      LASSO_MESSAGE_FORMAT_UNKNOWN =
    (LASSO_MESSAGE_FORMAT_BASE64, Some sample_signed_node, n)"
proof (rule base64_format)
  show "qlb_base64_decode sample_lib sample_base64_msg (length sample_base64_msg) = (4, bytes_of ''<r/>'')"
    by (simp add: sample_lib_def sample_base64_msg_def hex_decode_encode) (simp add: bytes_of_def)
  show "is_base64 sample_base64_msg"
    using sample_lib_base64 unfolding base64_inverse_def sample_base64_msg_def by (simp add: sample_lib_def)
  show "sample_base64_msg \<noteq> []" by (simp add: sample_base64_msg_def hex_encode_def bytes_of_def)
  show "CHR ''<'' \<in> set (text_of (bytes_of ''<r/>''))" "env_xml_parse sample_env (text_of (bytes_of ''<r/>'')) = Some sample_signed_node"
    unfolding text_bytes[OF sample_text(1)] by simp_all
  show "\<not> lasso_xml_is_soap sample_signed_node"
    by (simp add: lasso_xml_is_soap_def lasso_xml_is_element_node_def sample_signed_node_def)
qed (use assms in simp_all)

lemma sample_issuer [simp]:
  "lasso_saml20_is_valid_issuer (Some (lasso_saml2_name_id_new_with_string c))"
  "nid_content (lasso_saml2_name_id_new_with_string c) = c"
  by (simp_all add: lasso_saml20_is_valid_issuer_def lasso_saml2_name_id_new_with_string_def lasso_saml2_name_id_new_def)

lemma sample_response_accepted:
  assumes "parse_response sample_env io kind sample_query_msg = (LASSO_MESSAGE_FORMAT_QUERY, None, sample_response b, None)"
  shows "lasso_saml20_profile_process_any_response sample_env io (profile_new (Some sample_server)) kind None sample_query_msg =
    (0, (profile_new (Some sample_server))\<lparr>prf_response := Some (ResponseNode (sample_response b)),
       prf_remote_providerID := Some ''idp''\<rparr>, None)"
  using assms by (simp add: lasso_saml20_profile_process_any_response_def profile_new_def any_response_rc_def Let_def)

theorem process_any_response_sound_witness:
  "\<exists>io p' remote. lasso_saml20_profile_process_any_response sample_env io (profile_new (Some sample_server)) ''k'' None sample_query_msg = (0, p', None) \<and>
     lasso_server_get_provider (Some sample_server) (prf_remote_providerID p') = Some remote"
proof -
  obtain io :: message_io where io: "mio_init_response io = (\<lambda>_ _. (0, sample_response LogoutResponse, None))"
    by (metis message_io.select_convs(2))
  have r: "lasso_saml20_profile_process_any_response sample_env io (profile_new (Some sample_server)) ''k'' None sample_query_msg =
      (0, (profile_new (Some sample_server))\<lparr>prf_response := Some (ResponseNode (sample_response LogoutResponse)),
       prf_remote_providerID := Some ''idp''\<rparr>, None)"
    by (rule sample_response_accepted) (simp add: io)
  have h: "prf_signature_verify_hint (profile_new (Some sample_server)) \<noteq> VERIFY_HINT_IGNORE"
    "prf_server (profile_new (Some sample_server)) = Some sample_server" by (simp_all add: profile_new_def)
  from process_any_response_sound[OF r h(1)] r show ?thesis unfolding h by (intro exI[of _ io]) auto
qed

end
