(* ===== verification/Lasso_Artifact.thy ===== *)
theory Lasso_Artifact
  imports Lasso_Profile
begin

text \<open>
  SAML artifacts, the artifact part of \<^verbatim>\<open>lasso/saml-2.0/profile.c\<close>: making an artifact and keeping the message
  it stands for, sending it, resolving one that was received, and answering a resolution.  The artifact
  is the 44 bytes of the SAML bindings: the type code 4, the index of the resolution endpoint, the SHA-1 of the
  provider's name and twenty random bytes, in base64.

  A profile is created with a server; where the code reads the server without a test, the model gives
  \<^verbatim>\<open>LASSO_PROFILE_ERROR_MISSING_SERVER\<close>.
\<close>

section \<open>Making artifacts\<close>

definition index_bytes :: "int \<Rightarrow> 8 word list" where
  "index_bytes i = [word_of_int (i div 256), word_of_int i]"

definition lasso_saml20_profile_build_artifact :: "message_io \<Rightarrow> 8 word list \<Rightarrow> lasso_provider \<Rightarrow> cstr" where
  "lasso_saml20_profile_build_artifact io rnd provider =
     (case (prv_ProviderID provider, lasso_saml20_provider_get_artifact_resolution_service_index provider) of
        (Some i, rc, Some idx) \<Rightarrow>
          if rc = 0 then Some (mio_base64_encode io ([0, 4] @ index_bytes idx @ take 20 (mio_sha1 io i) @ take 20 rnd))
          else None
      | _ \<Rightarrow> None)"

definition lasso_saml20_profile_generate_artifact ::
  "message_io \<Rightarrow> 8 word list \<Rightarrow> lasso_server \<Rightarrow> lasso_profile \<Rightarrow> bool \<Rightarrow> cstr \<times> lasso_profile" where
  "lasso_saml20_profile_generate_artifact io rnd server p is_response =
     (let p = p\<lparr>prf_artifact := lasso_saml20_profile_build_artifact io rnd (srv_parent server)\<rparr>;
          p = (if is_response then p\<lparr>prf_response := map_option lasso_node_remove_signature (prf_response p)\<rparr>
               else p\<lparr>prf_request := map_option lasso_node_remove_signature (prf_request p)\<rparr>);
          p = p\<lparr>prf_artifact_message := Option.bind (if is_response then prf_response p else prf_request p) (mio_export_xml io)\<rparr>
      in (prf_artifact p, p))"

text \<open>A login also keeps the artifact in \<^verbatim>\<open>assertionArtifact\<close>; the login component does that.\<close>

definition lasso_profile_saml20_build_artifact_msg ::
  "message_io \<Rightarrow> 8 word list \<Rightarrow> lasso_profile \<Rightarrow> string \<Rightarrow> bool \<Rightarrow> bool \<Rightarrow> int \<times> lasso_profile" where
  "lasso_profile_saml20_build_artifact_msg io rnd p url is_response is_post =
     (case prf_server p of
        None \<Rightarrow> (LASSO_PROFILE_ERROR_MISSING_SERVER, p)
      | Some server \<Rightarrow>
          (case lasso_saml20_profile_generate_artifact io rnd server p is_response of
             (None, p) \<Rightarrow> (LASSO_PROFILE_ERROR_BUILDING_QUERY_FAILED, p)
           | (Some artifact, p) \<Rightarrow>
               if \<not> is_post
               then (let query = lasso_url_add_parameters None
                           ([Some ''SAMLart'', Some artifact] @
                            (case prf_msg_relayState p of None \<Rightarrow> [] | Some r \<Rightarrow> [Some ''RelayState'', Some r]))
                     in (0, p\<lparr>prf_msg_url := Some (lasso_concat_url_query url (printf_string query))\<rparr>))
               else (0, p\<lparr>prf_msg_url := Some url, prf_msg_body := Some artifact\<rparr>)))"

section \<open>Resolving artifacts\<close>

text \<open>The buffer of 45 bytes is on the stack and not cleared: after a short artifact it still has what was
  there, \<open>stack\<close>.\<close>

definition artifact_byte :: "8 word list \<Rightarrow> 8 word list \<Rightarrow> nat \<Rightarrow> 8 word" where
  "artifact_byte stack decoded i =
     (if i < length decoded then decoded ! i else if i < length stack then stack ! i else 0)"

text \<open>The two bytes are signed characters; the result goes into an \<^verbatim>\<open>unsigned short\<close>, and the first byte is
  shifted by 16.\<close>

definition artifact_index :: "8 word \<Rightarrow> 8 word \<Rightarrow> int" where
  "artifact_index hi lo = (sint hi * 65536 + sint lo) mod 65536"

text \<open>The bytes 4 to 23, the hash of the name of the provider.\<close>

definition succinct_id :: "(nat \<Rightarrow> 8 word) \<Rightarrow> 8 word list" where
  "succinct_id a = map (\<lambda>i. a (4 + i)) [0..<20]"

definition query_artifact :: "query_lib \<Rightarrow> string \<Rightarrow> cstr" where
  "query_artifact lib msg =
     fold (\<lambda>f acc. if take 8 f = ''SAMLart='' then Some (drop 8 f) else acc) (lasso_urlencoded_to_strings lib msg) None"

definition lasso_saml20_profile_init_artifact_resolve ::
  "environment \<Rightarrow> message_io \<Rightarrow> string \<Rightarrow> 8 word list \<Rightarrow> lasso_profile \<Rightarrow> int \<Rightarrow> string \<Rightarrow> int \<Rightarrow> int \<times> lasso_profile" where
  "lasso_saml20_profile_init_artifact_resolve env io uid stack p remote_provider_role msg http_method =
     (if http_method \<noteq> LASSO_HTTP_METHOD_ARTIFACT_GET \<and> http_method \<noteq> LASSO_HTTP_METHOD_ARTIFACT_POST
      then (LASSO_PROFILE_ERROR_INVALID_HTTP_METHOD, p)
      else case (if http_method = LASSO_HTTP_METHOD_ARTIFACT_GET then query_artifact (env_lib env) msg else Some msg) of
             None \<Rightarrow> (LASSO_PROFILE_ERROR_MISSING_ARTIFACT, p)
           | Some b64 \<Rightarrow>
               (case mio_base64_decode io b64 of
                  None \<Rightarrow> (LASSO_PROFILE_ERROR_INVALID_ARTIFACT, p)
                | Some decoded \<Rightarrow>
                    (let a = artifact_byte stack decoded in
                     if length decoded > 44 \<or> a 0 \<noteq> 0 \<or> a 1 \<noteq> 4 then (LASSO_PROFILE_ERROR_INVALID_ARTIFACT, p)
                     else case prf_server p of
                            None \<Rightarrow> (LASSO_PROFILE_ERROR_MISSING_SERVER, p)
                          | Some server \<Rightarrow>
                              (let p = p\<lparr>prf_remote_providerID := lasso_server_get_providerID_from_hash env server
                                           (mio_base64_encode io (succinct_id a))\<rparr>
                               in case lasso_server_get_provider (Some server) (prf_remote_providerID p) of
                                    None \<Rightarrow> (LASSO_SERVER_ERROR_PROVIDER_NOT_FOUND, p)
                                  | Some remote \<Rightarrow>
                                      (let p = p\<lparr>prf_msg_url := lasso_saml20_provider_get_endpoint_url remote remote_provider_role
                                                 (Some LASSO_SAML2_METADATA_ELEMENT_ARTIFACT_RESOLUTION_SERVICE) [] False False
                                                 (artifact_index (a 2) (a 3))\<rparr>
                                       in if prf_msg_url p = None then (LASSO_PROFILE_ERROR_ENDPOINT_INDEX_NOT_FOUND, p)
                                          else sign_request env io (p\<lparr>prf_request := Some (RequestNode
                                                 ((lasso_samlp2_request_abstract_new (ArtifactResolve (Some b64)))
                                                   \<lparr>req_ID := Some uid, req_Version := Some ''2.0'',
                                                    req_Issuer := Some (lasso_saml2_name_id_new_with_string (prv_ProviderID (srv_parent server))),
                                                    req_IssueInstant := lasso_time_to_iso_8601_gmt (env_now env)\<rparr>))\<rparr>))))))"

text \<open>Answering: the issuer of the request is read without a test, \<open>None\<close> is the crash that this is when the
  message has none.\<close>

definition lasso_saml20_profile_process_artifact_resolve ::
  "environment \<Rightarrow> message_io \<Rightarrow> lasso_profile \<Rightarrow> string \<Rightarrow> (int \<times> lasso_profile) option" where
  "lasso_saml20_profile_process_artifact_resolve env io p msg =
     (let p = p\<lparr>prf_request := from_soap env io msg\<rparr> in
      case prf_request p of
        Some (RequestNode request) \<Rightarrow>
          (case req_body request of
             ArtifactResolve artifact \<Rightarrow>
               (let p = p\<lparr>prf_artifact := artifact\<rparr> in
                case req_Issuer request of
                  None \<Rightarrow> None
                | Some issuer \<Rightarrow>
                    (let p = p\<lparr>prf_remote_providerID := nid_content issuer\<rparr> in
                     case lasso_server_get_provider (prf_server p) (prf_remote_providerID p) of
                       None \<Rightarrow> Some (LASSO_PROFILE_ERROR_UNKNOWN_PROVIDER, p)
                     | Some r \<Rightarrow>
                         Some (if prf_signature_verify_hint p = VERIFY_HINT_IGNORE then (0, p)
                               else let p = p\<lparr>prf_signature_status :=
                                          lasso_provider_verify_signature (env_crypto env) (env_verify_signature env)
                                            (env_min_signature_method env) (env_xml_parse env) r (Some msg) ''ID'' LASSO_MESSAGE_FORMAT_SOAP\<rparr>
                                    in (prf_signature_status p, p))))
           | _ \<Rightarrow> Some (LASSO_PROFILE_ERROR_INVALID_MSG, p))
      | _ \<Rightarrow> Some (LASSO_PROFILE_ERROR_INVALID_MSG, p))"

abbreviation LASSO_PRIVATE_STATUS_CODE_FAILED_TO_RESTORE_ARTIFACT :: string where
  "LASSO_PRIVATE_STATUS_CODE_FAILED_TO_RESTORE_ARTIFACT \<equiv> ''FailedToRestoreArtifact''"

definition lasso_saml20_profile_build_artifact_response ::
  "environment \<Rightarrow> message_io \<Rightarrow> string \<Rightarrow> lasso_profile \<Rightarrow> int \<times> lasso_profile" where
  "lasso_saml20_profile_build_artifact_response env io uid p =
     (case prf_request p of
        Some (RequestNode request) \<Rightarrow>
          (case prf_server p of
             None \<Rightarrow> (LASSO_PROFILE_ERROR_MISSING_SERVER, p)
           | Some server \<Rightarrow>
               (let root = Option.bind (prf_artifact_message p) (env_xml_parse env);
                    response = (lasso_samlp2_status_response_new (ArtifactResponse root))
                      \<lparr>rsp_ID := Some uid, rsp_Version := Some ''2.0'',
                       rsp_Issuer := Some (lasso_saml2_name_id_new_with_string (prv_ProviderID (srv_parent server))),
                       rsp_IssueInstant := lasso_time_to_iso_8601_gmt (env_now env),
                       rsp_InResponseTo := req_ID request\<rparr>;
                    p = p\<lparr>prf_response := Some (ResponseNode response)\<rparr>;
                    p = (if prf_artifact_message p \<noteq> None \<and> root = None
                         then respond LASSO_SAML2_STATUS_CODE_RESPONDER
                                (Some LASSO_PRIVATE_STATUS_CODE_FAILED_TO_RESTORE_ARTIFACT) p
                         else respond LASSO_SAML2_STATUS_CODE_SUCCESS None p);
                    (rc, p) = sign_response env io p
                in if rc \<noteq> 0 then (rc, p)
                   else (0, p\<lparr>prf_msg_body := Option.bind (prf_response p) (mio_export_soap io)\<rparr>)))
      | _ \<Rightarrow> (LASSO_PROFILE_ERROR_MISSING_REQUEST, p))"

definition lasso_saml20_profile_process_artifact_response ::
  "environment \<Rightarrow> message_io \<Rightarrow> lasso_profile \<Rightarrow> string \<Rightarrow> int \<times> lasso_profile" where
  "lasso_saml20_profile_process_artifact_response env io p msg =
     (let (rc, p, m) = lasso_saml20_profile_process_any_response env io p ''ArtifactResponse'' None msg;
          (format, content, response, any) = parse_response env io ''ArtifactResponse'' msg
      in if rc \<noteq> 0 then (rc, p)
         else if prf_response p = None then (LASSO_PROFILE_ERROR_INVALID_RESPONSE, p)
         else case any of
                None \<Rightarrow> (LASSO_PROFILE_ERROR_MISSING_RESPONSE, p)
              | Some (RequestNode r) \<Rightarrow> (0, p\<lparr>prf_request := Some (RequestNode r)\<rparr>)
              | Some (ResponseNode r) \<Rightarrow> (0, p\<lparr>prf_response := Some (ResponseNode r)\<rparr>)
              | Some _ \<Rightarrow> (LASSO_PROFILE_ERROR_INVALID_RESPONSE, p))"

definition lasso_profile_is_saml_query :: "string \<Rightarrow> bool" where
  "lasso_profile_is_saml_query query = list_ex (\<lambda>t. strstr query t \<noteq> None) [''SAMLRequest='', ''SAMLResponse='', ''SAMLart='']"

section \<open>Laws\<close>

lemma sint_byte: "sint (word_of_int i :: 8 word) = (i + 128) mod 256 - 128"
  by (simp add: signed_of_int signed_take_bit_eq_take_bit_shift take_bit_eq_mod)

lemma byte_index:
  assumes "i = 256 * q + j - 128" and "0 \<le> j" and "j < 256" and "0 \<le> i" and "i < (65536 :: int)"
  shows "(if j < 128 then j + 65408 else j - 128) = i \<longleftrightarrow> i < 128 \<or> i \<ge> 65408"
proof -
  consider "q \<le> 0" | "1 \<le> q" "q \<le> 255" | "256 \<le> q" by linarith
  then show ?thesis using assms by cases auto
qed

lemma artifact_index_eq: "artifact_index hi lo = sint lo mod 65536"
  by (simp add: artifact_index_def)

text \<open>The index of the resolution endpoint that the receiver reads from an artifact is the one that the
  sender wrote exactly when it is below 128 or at least 65408.\<close>

theorem artifact_index_correct_iff:
  assumes "0 \<le> i" and "i < 65536"
  shows "artifact_index (index_bytes i ! 0) (index_bytes i ! 1) = i \<longleftrightarrow> i < 128 \<or> i \<ge> 65408"
proof -
  have "artifact_index (index_bytes i ! 0) (index_bytes i ! 1) = ((i + 128) mod 256 - 128) mod 65536"
    by (simp add: artifact_index_eq index_bytes_def sint_byte)
  also have "\<dots> = i \<longleftrightarrow> i < 128 \<or> i \<ge> 65408"
  proof -
    let ?j = "(i + 128) mod 256"
    have j: "(?j - 128) mod 65536 = (if ?j < 128 then ?j + 65408 else ?j - 128)"
      using mod_add_self2[of "?j - 128" 65536] pos_mod_bound[of 256 "i + 128"] pos_mod_sign[of 256 "i + 128"] by auto
    have q: "i = 256 * ((i + 128) div 256) + ?j - 128" by simp
    show ?thesis unfolding j by (rule byte_index[OF q _ _ assms]) simp_all
  qed
  finally show ?thesis .
qed

theorem artifact_index_correct_iff_witness:
  "artifact_index (index_bytes 200 ! 0) (index_bytes 200 ! 1) \<noteq> 200 \<and>
   artifact_index (index_bytes 7 ! 0) (index_bytes 7 ! 1) = 7"
  using artifact_index_correct_iff[of 200] artifact_index_correct_iff[of 7] by simp

lemma artifact_index_low: "0 \<le> i \<Longrightarrow> i < 128 \<Longrightarrow> artifact_index (word_of_int (i div 256)) (word_of_int i) = i"
  by (simp add: artifact_index_eq sint_byte)

lemma bytes_after:
  assumes "length h = 20"
  shows "map (\<lambda>i. artifact_byte stack (pre @ h @ r) (length pre + i)) [0..<20] = h"
proof (rule nth_equalityI)
  show "length (map (\<lambda>i. artifact_byte stack (pre @ h @ r) (length pre + i)) [0..<20]) = length h"
    using assms by (simp del: upt_rec_numeral)
  fix i
  assume "i < length (map (\<lambda>i. artifact_byte stack (pre @ h @ r) (length pre + i)) [0..<20])"
  then have i: "i < 20" by (simp del: upt_rec_numeral)
  have "map (\<lambda>i. artifact_byte stack (pre @ h @ r) (length pre + i)) [0..<20] ! i = artifact_byte stack (pre @ h @ r) (length pre + i)"
    using i by (subst nth_map) (simp_all del: upt_rec_numeral)
  also have "\<dots> = (pre @ h @ r) ! (length pre + i)" using i assms by (simp add: artifact_byte_def)
  also have "\<dots> = h ! i" unfolding nth_append_length_plus using i assms by (simp add: nth_append)
  finally show "map (\<lambda>i. artifact_byte stack (pre @ h @ r) (length pre + i)) [0..<20] ! i = h ! i" .
qed

lemma find_unique:
  assumes "x \<in> set xs" and "P x" and "\<And>y. y \<in> set xs \<Longrightarrow> P y \<Longrightarrow> y = x"
  shows "List.find P xs = Some x"
proof -
  obtain y where y: "List.find P xs = Some y" using assms(1,2) by (cases "List.find P xs") (auto simp: find_None_iff)
  then have "y \<in> set xs \<and> P y" by (auto simp: find_Some_iff)
  then show ?thesis using assms(3)[of y] y by simp
qed

lemma provider_of_hash:
  assumes b64: "\<And>bs. mio_base64_decode io (mio_base64_encode io bs) = Some bs"
    and hash: "\<And>k. env_base64_sha1 env k = mio_base64_encode io (mio_sha1 io k)"
    and distinct: "\<And>k. k \<in> set (ght_keys (srv_providers server)) \<Longrightarrow> mio_sha1 io k = mio_sha1 io i \<Longrightarrow> k = i"
    and known: "lasso_server_get_provider (Some server) (Some i) = Some remote"
  shows "lasso_server_get_providerID_from_hash env server (mio_base64_encode io (mio_sha1 io i)) = Some i"
proof -
  have "mio_sha1 io k = mio_sha1 io j" if "mio_base64_encode io (mio_sha1 io k) = mio_base64_encode io (mio_sha1 io j)" for k j
    by (metis b64 option.inject that)
  moreover have "i \<in> set (ght_keys (srv_providers server))"
    using known by (auto simp: lasso_server_get_provider_def ght_lookup_def ght_keys_def split: if_splits
        dest!: map_of_SomeD intro: rev_image_eqI)
  ultimately show ?thesis
    unfolding lasso_server_get_providerID_from_hash_def hash by (intro find_unique) (blast intro: distinct)+
qed

lemma sign_request_frame:
  assumes "(rc, p') = sign_request env io p"
  shows "prf_remote_providerID p' = prf_remote_providerID p \<and> prf_msg_url p' = prf_msg_url p \<and>
    (prf_request p = Some (RequestNode r) \<longrightarrow> (\<exists>r'. prf_request p' = Some (RequestNode r') \<and> req_body r' = req_body r))"
  using assms by (auto simp: sign_request_def lasso_profile_saml20_setup_message_signature_def lasso_node_set_signature_def
      split: if_splits option.splits prod.splits)

text \<open>C35: an artifact that a provider builds for an endpoint index below 128 leads the receiver back to that
  provider and to the resolution endpoint with that index, and the request that it prepares carries the
  artifact; when base64 decodes what it encoded, a hash has twenty bytes, and no two known providers
  have the same hash.\<close>

theorem artifact_roundtrip:
  assumes b64: "\<And>bs. mio_base64_decode io (mio_base64_encode io bs) = Some bs"
    and hash: "\<And>k. length (mio_sha1 io k) = 20" "\<And>k. env_base64_sha1 env k = mio_base64_encode io (mio_sha1 io k)"
    and distinct: "\<And>k. k \<in> set (ght_keys (srv_providers server)) \<Longrightarrow> mio_sha1 io k = mio_sha1 io i \<Longrightarrow> k = i"
    and build: "lasso_saml20_profile_build_artifact io rnd sender = Some art"
    and sender: "prv_ProviderID sender = Some i"
      "lasso_saml20_provider_get_artifact_resolution_service_index sender = (0, Some idx)" "idx < 128" "length rnd = 20"
    and known: "prf_server p = Some server" "lasso_server_get_provider (Some server) (Some i) = Some remote"
    and endpoint: "lasso_saml20_provider_get_endpoint_url remote role
      (Some LASSO_SAML2_METADATA_ELEMENT_ARTIFACT_RESOLUTION_SERVICE) [] False False idx = Some url"
    and res: "lasso_saml20_profile_init_artifact_resolve env io uid stack p role art LASSO_HTTP_METHOD_ARTIFACT_POST = (rc, p')"
  shows "prf_remote_providerID p' = Some i \<and> prf_msg_url p' = Some url \<and>
    (\<exists>r. prf_request p' = Some (RequestNode r) \<and> req_body r = ArtifactResolve (Some art))"
proof -
  have idx: "0 \<le> idx"
    using sender(2) by (auto simp: lasso_saml20_provider_get_artifact_resolution_service_index_def split: option.splits)
  define bs where "bs = [0, 4, word_of_int (idx div 256), word_of_int idx] @ mio_sha1 io i @ rnd"
  have art: "art = mio_base64_encode io bs"
    using build sender hash(1)[of i] by (simp add: lasso_saml20_profile_build_artifact_def index_bytes_def bs_def)
  have dec: "mio_base64_decode io art = Some bs" "length bs = 44"
    using b64[of bs] art hash(1)[of i] sender(4) by (simp_all add: bs_def)
  have bytes: "artifact_byte stack bs 0 = 0" "artifact_byte stack bs 1 = 4"
    "artifact_byte stack bs 2 = word_of_int (idx div 256)" "artifact_byte stack bs 3 = word_of_int idx"
    by (simp_all add: artifact_byte_def bs_def)
  have four: "4 + k = Suc (Suc (Suc (Suc k)))" for k :: nat by simp
  have f: "succinct_id (artifact_byte stack bs) = mio_sha1 io i"
    using bytes_after[OF hash(1)[of i], where pre = "[0, 4, word_of_int (idx div 256), word_of_int idx]" and stack = stack and r = rnd]
    by (simp add: succinct_id_def bs_def four del: upt_rec_numeral append.simps)
  note hit = provider_of_hash[OF b64 hash(2) distinct known(2)]
  define r1 where "r1 = (lasso_samlp2_request_abstract_new (ArtifactResolve (Some art)))
       \<lparr>req_ID := Some uid, req_Version := Some ''2.0'',
        req_Issuer := Some (lasso_saml2_name_id_new_with_string (prv_ProviderID (srv_parent server))),
        req_IssueInstant := lasso_time_to_iso_8601_gmt (env_now env)\<rparr>"
  define p1 where "p1 = p\<lparr>prf_remote_providerID := Some i, prf_msg_url := Some url, prf_request := Some (RequestNode r1)\<rparr>"
  have body: "req_body r1 = ArtifactResolve (Some art)" by (simp add: r1_def lasso_samlp2_request_abstract_new_def)
  have sign: "(rc, p') = sign_request env io p1"
    unfolding res[symmetric] lasso_saml20_profile_init_artifact_resolve_def
    by (simp add: dec bytes[unfolded One_nat_def] f known hit endpoint artifact_index_low[OF idx sender(3)] p1_def r1_def)
  show ?thesis using sign_request_frame[OF sign, of r1] body unfolding p1_def by simp
qed

definition sample_resolver :: lasso_provider where
  "sample_resolver = sample_provider\<lparr>prv_role := LASSO_PROVIDER_ROLE_NONE, prv_endpoints :=
     [\<lparr>ep_role = LASSO_PROVIDER_ROLE_IDP, ep_kind = LASSO_SAML2_METADATA_ELEMENT_ARTIFACT_RESOLUTION_SERVICE,
       ep_binding = LASSO_SAML2_METADATA_BINDING_SOAP, ep_url = ''https://idp/art'', ep_return_url = None,
       ep_index = 7, ep_is_default = 0\<rparr>]\<rparr>"

lemma sample_io_base64: "mio_base64_decode sample_io (mio_base64_encode sample_io bs) = Some bs"
proof -
  have "word_of_nat (of_char (char_of (unat w) :: char)) = w" for w :: "8 word"
    using unsigned_less[of w, where ?'a = nat] by simp
  then show ?thesis by (simp add: sample_io_def map_idI)
qed

theorem artifact_roundtrip_witness:
  "\<exists>art rc p'. lasso_saml20_profile_build_artifact sample_io (replicate 20 1) sample_resolver = Some art \<and>
     lasso_saml20_profile_init_artifact_resolve (sample_env\<lparr>env_base64_sha1 := \<lambda>_. mio_base64_encode sample_io (replicate 20 0)\<rparr>)
       sample_io ''u'' [] (profile_new (Some (sample_server\<lparr>srv_providers := [(''idp'', sample_resolver)]\<rparr>)))
       LASSO_PROVIDER_ROLE_IDP art LASSO_HTTP_METHOD_ARTIFACT_POST = (rc, p') \<and>
     prf_remote_providerID p' = Some ''idp'' \<and> prf_msg_url p' = Some ''https://idp/art''"
proof -
  let ?io = sample_io and ?s = "sample_server\<lparr>srv_providers := [(''idp'', sample_resolver)]\<rparr>"
  let ?env = "sample_env\<lparr>env_base64_sha1 := \<lambda>_. mio_base64_encode ?io (replicate 20 0)\<rparr>"
  let ?p = "profile_new (Some ?s)"
  have h: "length (mio_sha1 ?io k) = 20" "env_base64_sha1 ?env k = mio_base64_encode ?io (mio_sha1 ?io k)" for k
    by (simp_all add: sample_io_def)
  have d: "k \<in> set (ght_keys (srv_providers ?s)) \<Longrightarrow> mio_sha1 ?io k = mio_sha1 ?io ''idp'' \<Longrightarrow> k = ''idp''" for k
    by (simp add: ght_keys_def)
  have i: "prv_ProviderID sample_resolver = Some ''idp''"
    "lasso_saml20_provider_get_artifact_resolution_service_index sample_resolver = (0, Some 7)"
    by (simp_all add: sample_resolver_def sample_provider_def lasso_saml20_provider_get_artifact_resolution_service_index_def)
  obtain art where art: "lasso_saml20_profile_build_artifact ?io (replicate 20 1) sample_resolver = Some art"
    using i by (simp add: lasso_saml20_profile_build_artifact_def)
  have s: "prf_server ?p = Some ?s" "lasso_server_get_provider (Some ?s) (Some ''idp'') = Some sample_resolver"
    by (simp_all add: profile_new_def lasso_server_get_provider_def ght_lookup_def)
  have e: "lasso_saml20_provider_get_endpoint_url sample_resolver LASSO_PROVIDER_ROLE_IDP
      (Some LASSO_SAML2_METADATA_ELEMENT_ARTIFACT_RESOLUTION_SERVICE) [] False False 7 = Some ''https://idp/art''"
    by (simp add: lasso_saml20_provider_get_endpoint_url_def sample_resolver_def)
  obtain rc p' where r: "lasso_saml20_profile_init_artifact_resolve ?env ?io ''u'' [] ?p LASSO_PROVIDER_ROLE_IDP art
      LASSO_HTTP_METHOD_ARTIFACT_POST = (rc, p')" by (metis surj_pair)
  from artifact_roundtrip[OF sample_io_base64 h(1) h(2) d art i _ _ s e r] art r show ?thesis by auto
qed

end
