(* ===== verification/Lasso_Bindings.thy ===== *)
theory Lasso_Bindings
  imports Lasso_Artifact
begin

text \<open>
  Sending, the rest of \<^verbatim>\<open>lasso/saml-2.0/profile.c\<close>: initialising requests and responses, the checks that every
  answering profile makes on a request, and the HTTP-Redirect, HTTP-POST, SOAP, PAOS and artifact bindings.
\<close>

section \<open>Requests\<close>

definition init_request_methods :: "int list" where
  "init_request_methods = [LASSO_HTTP_METHOD_ANY, LASSO_HTTP_METHOD_REDIRECT, LASSO_HTTP_METHOD_POST,
     LASSO_HTTP_METHOD_ARTIFACT_GET, LASSO_HTTP_METHOD_ARTIFACT_POST, LASSO_HTTP_METHOD_SOAP, LASSO_HTTP_METHOD_PAOS]"

text \<open>The provider a request goes to: the one that is named, the first of the session, or the first of the
  server.  Asking the session fills its list of provider names.\<close>

definition choose_remote ::
  "lasso_server \<Rightarrow> lasso_profile \<Rightarrow> cstr \<Rightarrow> bool \<Rightarrow> (int + string) \<times> lasso_profile" where
  "choose_remote server p remote_provider_id first_in_session =
     (case remote_provider_id of
        Some i \<Rightarrow> (Inr i, p)
      | None \<Rightarrow>
          if first_in_session then
            (case prf_session p of
               None \<Rightarrow> (Inl LASSO_PROFILE_ERROR_SESSION_NOT_FOUND, p)
             | Some s \<Rightarrow>
                 (case lasso_session_get_provider_index s 0 of
                    (None, s) \<Rightarrow> (Inl LASSO_PROFILE_ERROR_CANNOT_FIND_A_PROVIDER, p\<lparr>prf_session := Some s\<rparr>)
                  | (Some i, s) \<Rightarrow> (Inr i, p\<lparr>prf_session := Some s\<rparr>)))
          else (case lasso_server_get_first_providerID server of
                  None \<Rightarrow> (Inl LASSO_PROFILE_ERROR_CANNOT_FIND_A_PROVIDER, p)
                | Some i \<Rightarrow> (Inr i, p)))"

text \<open>The fields of the request and its signature.  An HTTP method that the peer does not support is reported
  at the end, when nothing else went wrong.\<close>

definition fill_request ::
  "environment \<Rightarrow> message_io \<Rightarrow> string \<Rightarrow> lasso_server \<Rightarrow> lasso_profile \<Rightarrow> request_abstract \<Rightarrow> int \<Rightarrow> int \<Rightarrow> int \<times> lasso_profile" where
  "fill_request env io uid server p request http_method rc =
     (let p = p\<lparr>prf_http_request_method := http_method,
                prf_request := Some (RequestNode (request\<lparr>req_ID := Some uid, req_Version := Some ''2.0'',
                  req_Issuer := Some (lasso_saml2_name_id_new_with_string (prv_ProviderID (srv_parent server))),
                  req_IssueInstant := lasso_time_to_iso_8601_gmt (env_now env)\<rparr>))\<rparr>;
          (rc', p) = sign_request env io p
      in (check_rc rc' rc, p))"

definition lasso_saml20_profile_init_request ::
  "environment \<Rightarrow> message_io \<Rightarrow> string \<Rightarrow> lasso_profile \<Rightarrow> cstr \<Rightarrow> bool \<Rightarrow> request_abstract \<Rightarrow> int \<Rightarrow> md_protocol_type \<Rightarrow>
     int \<times> lasso_profile" where
  "lasso_saml20_profile_init_request env io uid p remote_provider_id first_in_session request http_method protocol_type =
     (if http_method \<notin> set init_request_methods then (LASSO_PROFILE_ERROR_INVALID_HTTP_METHOD, p)
      else case prf_server p of
             None \<Rightarrow> (LASSO_PROFILE_ERROR_MISSING_SERVER, p)
           | Some server \<Rightarrow>
               if http_method = LASSO_HTTP_METHOD_PAOS then fill_request env io uid server p request http_method 0
               else case choose_remote server p remote_provider_id first_in_session of
                      (Inl rc, p) \<Rightarrow> (rc, p)
                    | (Inr i, p) \<Rightarrow>
                        (let p = p\<lparr>prf_remote_providerID := Some i\<rparr> in
                         case get_provider p of
                           (rc, None) \<Rightarrow> (rc, p)
                         | (rc, Some remote) \<Rightarrow>
                             (let p = (case lasso_profile_get_nameIdentifier p of
                                         Some (Saml2NameID n) \<Rightarrow> p\<lparr>prf_nameIdentifier := Some (Saml2NameID n)\<rparr>
                                       | _ \<Rightarrow> p);
                                  m = (if http_method = LASSO_HTTP_METHOD_ANY
                                       then lasso_saml20_provider_get_first_http_method (srv_parent server) remote protocol_type
                                       else http_method)
                              in if m = LASSO_HTTP_METHOD_NONE then (LASSO_PROFILE_ERROR_UNSUPPORTED_PROFILE, p)
                                 else fill_request env io uid server p request m
                                        (if lasso_saml20_provider_accept_http_method (srv_parent server) remote protocol_type m True
                                         then 0 else LASSO_PROFILE_ERROR_UNSUPPORTED_PROFILE))))"

section \<open>The bindings\<close>

definition lasso_saml20_profile_export_to_query ::
  "environment \<Rightarrow> message_io \<Rightarrow> lasso_profile \<Rightarrow> message_node \<Rightarrow> signature_context \<Rightarrow> int \<times> cstr" where
  "lasso_saml20_profile_export_to_query env io p msg context =
     (case lasso_node_build_query env io msg of
        None \<Rightarrow> (LASSO_PROFILE_ERROR_BUILDING_QUERY_FAILED, None)
      | Some q \<Rightarrow>
          (let unsigned_query = (case prf_msg_relayState p of
                                   None \<Rightarrow> q
                                 | Some r \<Rightarrow> printf_string (lasso_url_add_parameters (Some q) [Some ''RelayState'', Some r]))
           in if lasso_ok_signature_method env (sctx_method context)
              then (case sign_query env unsigned_query context of
                      None \<Rightarrow> (LASSO_PROFILE_ERROR_BUILDING_QUERY_FAILED, None)
                    | Some r \<Rightarrow> (0, Some r))
              else (0, Some unsigned_query)))"

text \<open>The message loses its XML signature, the query is signed instead.  The message is returned as it is
  then.\<close>

definition lasso_saml20_profile_build_http_redirect ::
  "environment \<Rightarrow> message_io \<Rightarrow> lasso_profile \<Rightarrow> message_node \<Rightarrow> cstr \<Rightarrow> int \<times> lasso_profile \<times> message_node" where
  "lasso_saml20_profile_build_http_redirect env io p msg url =
     (case url of
        None \<Rightarrow> (LASSO_PROFILE_ERROR_UNKNOWN_PROFILE_URL, p, msg)
      | Some u \<Rightarrow>
          (let context = (case lasso_node_get_signature msg of None \<Rightarrow> LASSO_SIGNATURE_CONTEXT_NONE | Some c \<Rightarrow> c);
               msg = (if lasso_ok_signature_method env (sctx_method context) then lasso_node_remove_signature msg else msg)
           in case lasso_saml20_profile_export_to_query env io p msg context of
                (rc, None) \<Rightarrow> (rc, p, msg)
              | (rc, Some q) \<Rightarrow> (0, p\<lparr>prf_msg_url := Some (lasso_concat_url_query u q), prf_msg_body := None\<rparr>, msg)))"

definition lasso_saml20_profile_build_redirect_request_msg ::
  "environment \<Rightarrow> message_io \<Rightarrow> lasso_profile \<Rightarrow> message_node \<Rightarrow> string \<Rightarrow> int \<times> lasso_profile" where
  "lasso_saml20_profile_build_redirect_request_msg env io p request url =
     (case lasso_saml20_profile_build_http_redirect env io p request (Some url) of
        (rc, p, msg) \<Rightarrow> (rc, p\<lparr>prf_request := Some msg\<rparr>))"

definition lasso_saml20_profile_build_redirect_response_msg ::
  "environment \<Rightarrow> message_io \<Rightarrow> lasso_profile \<Rightarrow> message_node \<Rightarrow> cstr \<Rightarrow> int \<times> lasso_profile" where
  "lasso_saml20_profile_build_redirect_response_msg env io p response url =
     (case lasso_saml20_profile_build_http_redirect env io p response url of
        (rc, p, msg) \<Rightarrow> (rc, p\<lparr>prf_response := Some msg\<rparr>))"

definition check_msg_body :: "lasso_profile \<Rightarrow> int \<times> lasso_profile" where
  "check_msg_body p = (if prf_msg_body p = None then LASSO_PROFILE_ERROR_BUILDING_MESSAGE_FAILED else 0, p)"

definition lasso_saml20_profile_build_post_request_msg ::
  "message_io \<Rightarrow> lasso_profile \<Rightarrow> message_node \<Rightarrow> string \<Rightarrow> int \<times> lasso_profile" where
  "lasso_saml20_profile_build_post_request_msg io p request url =
     check_msg_body (p\<lparr>prf_msg_url := Some url, prf_msg_body := mio_export_base64 io request\<rparr>)"

definition lasso_saml20_profile_build_soap_request_msg ::
  "message_io \<Rightarrow> lasso_profile \<Rightarrow> message_node \<Rightarrow> string \<Rightarrow> int \<times> lasso_profile" where
  "lasso_saml20_profile_build_soap_request_msg io p request url =
     check_msg_body (p\<lparr>prf_msg_url := Some url, prf_msg_body := mio_export_soap io request\<rparr>)"

definition lasso_saml20_profile_build_post_response_msg ::
  "message_io \<Rightarrow> lasso_profile \<Rightarrow> message_node \<Rightarrow> cstr \<Rightarrow> int \<times> lasso_profile" where
  "lasso_saml20_profile_build_post_response_msg io p response url =
     check_msg_body (p\<lparr>prf_msg_url := url, prf_msg_body := mio_export_base64 io response\<rparr>)"

definition lasso_saml20_profile_build_soap_response_msg ::
  "message_io \<Rightarrow> lasso_profile \<Rightarrow> message_node \<Rightarrow> int \<times> lasso_profile" where
  "lasso_saml20_profile_build_soap_response_msg io p response =
     check_msg_body (p\<lparr>prf_msg_url := None, prf_msg_body := mio_export_soap io response\<rparr>)"

text \<open>The list of identity providers for the ECP is not modelled.\<close>

definition lasso_profile_saml20_build_paos_request_msg ::
  "message_io \<Rightarrow> lasso_profile \<Rightarrow> request_abstract \<Rightarrow> cstr \<Rightarrow> int \<times> lasso_profile" where
  "lasso_profile_saml20_build_paos_request_msg io p request url =
     (case (req_body request, prf_server p) of
        (AuthnRequest a, None) \<Rightarrow> (LASSO_PROFILE_ERROR_MISSING_SERVER, p)
      | (AuthnRequest a, Some server) \<Rightarrow>
          check_msg_body (p\<lparr>prf_msg_body := mio_export_paos io (RequestNode request) (prv_ProviderID (srv_parent server)) url
             (prf_message_id p) (prf_msg_relayState p) (anr_IsPassive a) (anr_ProviderName a)\<rparr>)
      | _ \<Rightarrow> (LASSO_PROFILE_ERROR_MISSING_REQUEST, p))"

definition lasso_saml20_profile_build_request_msg ::
  "environment \<Rightarrow> message_io \<Rightarrow> 8 word list \<Rightarrow> lasso_profile \<Rightarrow> string \<Rightarrow> int \<Rightarrow> cstr \<Rightarrow> int \<times> lasso_profile" where
  "lasso_saml20_profile_build_request_msg env io rnd p service http_method given_url =
     (let p = lasso_profile_clean_msg_info p in
      case prf_request p of
        Some (RequestNode request) \<Rightarrow>
          (let (rc, url) = (case given_url of
                 Some u \<Rightarrow> (0, Some u)
               | None \<Rightarrow> (case get_provider p of
                            (rc, None) \<Rightarrow> (rc, None)
                          | (_, Some r) \<Rightarrow> (0, get_url r service (http_method_to_binding http_method))))
           in if rc \<noteq> 0 then (rc, p)
              else if http_method = LASSO_HTTP_METHOD_PAOS
              then (let request = request\<lparr>req_Destination := None\<rparr>; p = p\<lparr>prf_request := Some (RequestNode request)\<rparr>
                    in lasso_profile_saml20_build_paos_request_msg io p request url)
              else case url of
                     None \<Rightarrow> (LASSO_PROFILE_ERROR_UNKNOWN_PROFILE_URL, p)
                   | Some u \<Rightarrow>
                       (let n = RequestNode (request\<lparr>req_Destination := Some u\<rparr>);
                            p = p\<lparr>prf_request := Some n\<rparr>
                        in if http_method = LASSO_HTTP_METHOD_SOAP then lasso_saml20_profile_build_soap_request_msg io p n u
                           else if http_method = LASSO_HTTP_METHOD_POST then lasso_saml20_profile_build_post_request_msg io p n u
                           else if http_method = LASSO_HTTP_METHOD_REDIRECT
                           then lasso_saml20_profile_build_redirect_request_msg env io p n u
                           else if http_method = LASSO_HTTP_METHOD_ARTIFACT_GET
                           then lasso_profile_saml20_build_artifact_msg io rnd p u False False
                           else if http_method = LASSO_HTTP_METHOD_ARTIFACT_POST
                           then lasso_profile_saml20_build_artifact_msg io rnd p u False True
                           else (LASSO_PROFILE_ERROR_INVALID_HTTP_METHOD, p)))
      | _ \<Rightarrow> (LASSO_PROFILE_ERROR_MISSING_REQUEST, p))"

section \<open>Responses\<close>

definition lasso_saml20_profile_init_response ::
  "environment \<Rightarrow> message_io \<Rightarrow> string \<Rightarrow> lasso_profile \<Rightarrow> status_response \<Rightarrow> cstr \<Rightarrow> cstr \<Rightarrow> int \<times> lasso_profile" where
  "lasso_saml20_profile_init_response env io uid p response status_code1 status_code2 =
     (let response = response\<lparr>rsp_ID := Some uid, rsp_Version := Some ''2.0'',
            rsp_Issuer := (case prf_server p of
                             Some server \<Rightarrow> Some (lasso_saml2_name_id_new_with_string (prv_ProviderID (srv_parent server)))
                           | None \<Rightarrow> rsp_Issuer response),
            rsp_IssueInstant := lasso_time_to_iso_8601_gmt (env_now env),
            rsp_InResponseTo := (case prf_request p of Some (RequestNode r) \<Rightarrow> req_ID r | _ \<Rightarrow> rsp_InResponseTo response)\<rparr>;
          (rc, p) = sign_response env io (p\<lparr>prf_response := Some (ResponseNode response)\<rparr>)
      in if rc \<noteq> 0 then (rc, p)
         else case status_code1 of
                None \<Rightarrow> (0, p)
              | Some c \<Rightarrow> (0, respond c status_code2 p))"

text \<open>The checks on a request that is to be answered.  The provider is given back when it was found, except
  on an invalid signature, where the code returns at once.\<close>

definition lasso_saml20_profile_validate_request ::
  "environment \<Rightarrow> message_io \<Rightarrow> string \<Rightarrow> lasso_profile \<Rightarrow> bool \<Rightarrow> status_response \<Rightarrow> int \<times> lasso_profile \<times> lasso_provider option" where
  "lasso_saml20_profile_validate_request env io uid p needs_identity response =
     (case prf_request p of
        Some (RequestNode request) \<Rightarrow>
          if needs_identity \<and> prf_identity p = None then (LASSO_PROFILE_ERROR_IDENTITY_NOT_FOUND, p, None)
          else case req_Issuer request of
                 None \<Rightarrow> (LASSO_PROFILE_ERROR_MISSING_ISSUER, p, None)
               | Some issuer \<Rightarrow>
                   (let p = p\<lparr>prf_remote_providerID := nid_content issuer\<rparr> in
                    case get_provider p of
                      (rc, None) \<Rightarrow> (rc, p, None)
                    | (rc, Some r) \<Rightarrow>
                        (let p = snd (lasso_saml20_profile_init_response env io uid p response (Some LASSO_SAML2_STATUS_CODE_SUCCESS) None)
                         in if prf_signature_verify_hint p \<noteq> VERIFY_HINT_IGNORE \<and> prf_signature_status p \<noteq> 0
                            then (prf_signature_status p,
                                  respond LASSO_SAML2_STATUS_CODE_REQUESTER (Some LASSO_LIB_STATUS_CODE_INVALID_SIGNATURE) p, None)
                            else (0, p, Some r)))
      | _ \<Rightarrow> (LASSO_PROFILE_ERROR_MISSING_REQUEST, p, None))"

definition needs_url :: "int \<Rightarrow> bool" where
  "needs_url m \<longleftrightarrow> m \<in> {LASSO_HTTP_METHOD_POST, LASSO_HTTP_METHOD_REDIRECT, LASSO_HTTP_METHOD_ARTIFACT_GET,
     LASSO_HTTP_METHOD_ARTIFACT_POST, LASSO_HTTP_METHOD_PAOS}"

definition lasso_saml20_profile_build_response_msg ::
  "environment \<Rightarrow> message_io \<Rightarrow> 8 word list \<Rightarrow> lasso_profile \<Rightarrow> cstr \<Rightarrow> int \<Rightarrow> cstr \<Rightarrow> int \<times> lasso_profile" where
  "lasso_saml20_profile_build_response_msg env io rnd p service http_method given_url =
     (let p = lasso_profile_clean_msg_info p in
      case get_provider p of
        (rc, None) \<Rightarrow> (rc, p)
      | (rc, Some r) \<Rightarrow>
          (case prf_response p of
             Some (ResponseNode response) \<Rightarrow>
               (let url = (case (given_url, service) of
                             (None, Some s) \<Rightarrow> if http_method = LASSO_HTTP_METHOD_SOAP then None
                                               else get_response_url r s (http_method_to_binding http_method)
                           | _ \<Rightarrow> given_url)
                in if url = None \<and> needs_url http_method then (LASSO_PROFILE_ERROR_UNKNOWN_PROFILE_URL, p)
                   else
                     let n = ResponseNode (case url of None \<Rightarrow> response | Some u \<Rightarrow> response\<lparr>rsp_Destination := Some u\<rparr>);
                         p = p\<lparr>prf_response := Some n\<rparr>
                     in if http_method = LASSO_HTTP_METHOD_POST then lasso_saml20_profile_build_post_response_msg io p n url
                        else if http_method = LASSO_HTTP_METHOD_REDIRECT
                        then lasso_saml20_profile_build_redirect_response_msg env io p n url
                        else if http_method = LASSO_HTTP_METHOD_SOAP then lasso_saml20_profile_build_soap_response_msg io p n
                        else case url of
                               Some u \<Rightarrow> if http_method = LASSO_HTTP_METHOD_ARTIFACT_GET
                                           then lasso_profile_saml20_build_artifact_msg io rnd p u True False
                                           else if http_method = LASSO_HTTP_METHOD_ARTIFACT_POST
                                           then lasso_profile_saml20_build_artifact_msg io rnd p u True True
                                           else (LASSO_PROFILE_ERROR_UNSUPPORTED_PROFILE, p)
                             | None \<Rightarrow> (LASSO_PROFILE_ERROR_UNSUPPORTED_PROFILE, p))
           | _ \<Rightarrow> (LASSO_PROFILE_ERROR_MISSING_RESPONSE, p)))"

definition lasso_saml20_profile_build_http_redirect_query_simple ::
  "environment \<Rightarrow> message_io \<Rightarrow> lasso_profile \<Rightarrow> message_node \<Rightarrow> string \<Rightarrow> bool \<Rightarrow> int \<times> lasso_profile \<times> message_node" where
  "lasso_saml20_profile_build_http_redirect_query_simple env io p msg profile_name is_response =
     (if prf_remote_providerID p = None then (LASSO_PROFILE_ERROR_MISSING_REMOTE_PROVIDERID, p, msg)
      else case lasso_server_get_provider (prf_server p) (prf_remote_providerID p) of
             None \<Rightarrow> (LASSO_SERVER_ERROR_PROVIDER_NOT_FOUND, p, msg)
           | Some r \<Rightarrow>
               lasso_saml20_profile_build_http_redirect env io p msg
                 (if is_response then get_response_url r profile_name ''HTTP-Redirect''
                  else get_url r profile_name ''HTTP-Redirect''))"

text \<open>Encrypting the subject of a query: the code casts the name identifier itself instead of the address of
  the field, so with encryption switched on the behaviour is undefined, \<open>None\<close>.\<close>

definition lasso_saml20_profile_setup_subject :: "lasso_profile \<Rightarrow> subject \<Rightarrow> (int \<times> subject) option" where
  "lasso_saml20_profile_setup_subject p s =
     (case lasso_server_get_provider (prf_server p) (prf_remote_providerID p) of
        None \<Rightarrow> Some (LASSO_ERROR_CAST_FAILED, s)
      | Some r \<Rightarrow> if prv_encryption_mode r AND 1 = 0 then Some (0, s) else None)"

section \<open>What the operations leave alone\<close>

text \<open>Answering changes the response of a profile only.\<close>

definition only_response :: "lasso_profile \<Rightarrow> lasso_profile \<Rightarrow> bool" where
  "only_response p p' \<longleftrightarrow> (\<exists>r. p' = p\<lparr>prf_response := r\<rparr>)"

lemma only_responseI [intro]: "only_response p (p\<lparr>prf_response := r\<rparr>)"
  by (auto simp: only_response_def)

lemma only_response_refl [simp]: "only_response p p"
  unfolding only_response_def by (rule exI[of _ "prf_response p"]) simp

lemma only_response_trans: "only_response p q \<Longrightarrow> only_response q r \<Longrightarrow> only_response p r"
  by (auto simp: only_response_def)

lemma only_response_fields:
  assumes "only_response p p'"
  shows "prf_server p' = prf_server p" "prf_request p' = prf_request p" "prf_nameIdentifier p' = prf_nameIdentifier p"
    "prf_remote_providerID p' = prf_remote_providerID p" "prf_identity p' = prf_identity p" "prf_session p' = prf_session p"
    "prf_http_request_method p' = prf_http_request_method p" "prf_signature_status p' = prf_signature_status p"
    "prf_signature_verify_hint p' = prf_signature_verify_hint p" "prf_msg_url p' = prf_msg_url p"
    "prf_signature_hint p' = prf_signature_hint p"
  using assms by (auto simp: only_response_def)

lemma respond_only [simp]: "only_response p (respond c1 c2 p)"
  by (auto simp: lasso_saml20_profile_set_response_status_def split: option.split message_node.split)

lemma sign_response_only [simp]: "only_response p (snd (sign_response env io p))"
  by (auto simp: sign_response_def split: prod.split)

lemma init_response_only [simp]: "only_response p (snd (lasso_saml20_profile_init_response env io uid p r c1 c2))"
proof -
  have s: "only_response p (snd (sign_response env io (p\<lparr>prf_response := n\<rparr>)))" for n
    by (rule only_response_trans[OF only_responseI sign_response_only])
  have "only_response p (snd (let (rc, q) = sign_response env io (p\<lparr>prf_response := n\<rparr>) in
      if rc \<noteq> 0 then (rc, q) else case c1 of None \<Rightarrow> (0, q) | Some c \<Rightarrow> (0, respond c c2 q)))" for n
    using s[of n] only_response_trans[OF s[of n] respond_only] by (cases c1; cases "sign_response env io (p\<lparr>prf_response := n\<rparr>)") simp_all
  then show ?thesis unfolding lasso_saml20_profile_init_response_def Let_def .
qed

lemmas init_response_fields [simp] = only_response_fields[OF init_response_only]

lemmas respond_fields [simp] = only_response_fields[OF respond_only]

lemmas sign_response_fields [simp] = only_response_fields[OF sign_response_only]

text \<open>A response that was initialised carries the status it was given.\<close>

lemma respond_node:
  "prf_response p = Some (ResponseNode r) \<Longrightarrow> prf_response (respond c1 c2 p) = Some (ResponseNode (set_status c1 c2 r))"
  by (simp add: lasso_saml20_profile_set_response_status_def)

lemma sign_response_node:
  "prf_response p = Some (ResponseNode r) \<Longrightarrow>
     \<exists>c. prf_response (snd (sign_response env io p)) = Some (ResponseNode (r\<lparr>rsp_signature := c\<rparr>))"
  by (auto simp: sign_response_def lasso_profile_saml20_setup_message_signature_def lasso_node_set_signature_def
      split: if_splits option.splits prod.splits intro: exI[of _ "rsp_signature r"])

lemma init_response_node:
  assumes "lasso_saml20_profile_init_response env io uid p r (Some c1) c2 = (0, p')"
  shows "\<exists>r'. prf_response p' = Some (ResponseNode r') \<and> rsp_ID r' = Some uid \<and> rsp_body r' = rsp_body r \<and>
    (\<exists>sub. top_status r' = Some (StatusCode (Some c1) sub)) \<and>
    (\<forall>q. prf_request p = Some (RequestNode q) \<longrightarrow> rsp_InResponseTo r' = req_ID q) \<and>
    (\<forall>s. prf_server p = Some s \<longrightarrow> rsp_Issuer r' = Some (lasso_saml2_name_id_new_with_string (prv_ProviderID (srv_parent s))))"
proof -
  let ?r = "r\<lparr>rsp_ID := Some uid, rsp_Version := Some ''2.0'',
            rsp_Issuer := (case prf_server p of
                             Some server \<Rightarrow> Some (lasso_saml2_name_id_new_with_string (prv_ProviderID (srv_parent server)))
                           | None \<Rightarrow> rsp_Issuer r),
            rsp_IssueInstant := lasso_time_to_iso_8601_gmt (env_now env),
            rsp_InResponseTo := (case prf_request p of Some (RequestNode r) \<Rightarrow> req_ID r | _ \<Rightarrow> rsp_InResponseTo r)\<rparr>"
  let ?s = "sign_response env io (p\<lparr>prf_response := Some (ResponseNode ?r)\<rparr>)"
  obtain c where c: "prf_response (snd ?s) = Some (ResponseNode (?r\<lparr>rsp_signature := c\<rparr>))"
    using sign_response_node[of "p\<lparr>prf_response := Some (ResponseNode ?r)\<rparr>" ?r] by auto
  have "p' = respond c1 c2 (snd ?s)"
    using assms unfolding lasso_saml20_profile_init_response_def Let_def by (auto split: prod.splits if_splits)
  then have "prf_response p' = Some (ResponseNode (set_status c1 c2 (?r\<lparr>rsp_signature := c\<rparr>)))"
    using respond_node[OF c] by simp
  then show ?thesis
    by (intro exI[of _ "set_status c1 c2 (?r\<lparr>rsp_signature := c\<rparr>)"] conjI) (simp_all, simp_all add: set_status_def Let_def)
qed

lemma init_response_names_request:
  assumes "prf_request p = Some (RequestNode q)" and "prf_server p = Some s"
  shows "\<exists>r'. prf_response (snd (lasso_saml20_profile_init_response env io uid p r c1 c2)) = Some (ResponseNode r') \<and>
    rsp_InResponseTo r' = req_ID q \<and> rsp_Issuer r' = Some (lasso_saml2_name_id_new_with_string (prv_ProviderID (srv_parent s)))"
proof -
  define r1 where "r1 = r\<lparr>rsp_ID := Some uid, rsp_Version := Some ''2.0'',
      rsp_Issuer := Some (lasso_saml2_name_id_new_with_string (prv_ProviderID (srv_parent s))),
      rsp_IssueInstant := lasso_time_to_iso_8601_gmt (env_now env), rsp_InResponseTo := req_ID q\<rparr>"
  obtain rc p1 where s: "sign_response env io (p\<lparr>prf_response := Some (ResponseNode r1)\<rparr>) = (rc, p1)" by (metis surj_pair)
  obtain c where c: "prf_response p1 = Some (ResponseNode (r1\<lparr>rsp_signature := c\<rparr>))"
    using sign_response_node[of "p\<lparr>prf_response := Some (ResponseNode r1)\<rparr>" r1 env io] s by auto
  have "snd (lasso_saml20_profile_init_response env io uid p r c1 c2) =
      (if rc \<noteq> 0 then p1 else case c1 of None \<Rightarrow> p1 | Some c \<Rightarrow> respond c c2 p1)"
    using assms s by (simp add: lasso_saml20_profile_init_response_def Let_def r1_def split: option.split)
  then show ?thesis
    using c respond_node[OF c] by (auto simp: r1_def set_status_def Let_def split: option.split)
qed

text \<open>A request is taken for processing, unless signatures are ignored, only when its issuer is a known
  provider and its signature was found valid; the response that is prepared then has the status Success,
  answers that request and names this server as its issuer.  An invalid signature is reported and the
  prepared response says so.\<close>

theorem validate_request_law:
  assumes "lasso_saml20_profile_validate_request env io uid p needs_identity response = (rc, p', remote)"
    and "prf_signature_verify_hint p \<noteq> VERIFY_HINT_IGNORE"
    and "prf_request p = Some (RequestNode request)" and "req_Issuer request = Some issuer"
    and "needs_identity \<longrightarrow> prf_identity p \<noteq> None"
    and "get_provider (p\<lparr>prf_remote_providerID := nid_content issuer\<rparr>) = (0, Some r)"
    and "fst (lasso_saml20_profile_init_response env io uid (p\<lparr>prf_remote_providerID := nid_content issuer\<rparr>) response
           (Some LASSO_SAML2_STATUS_CODE_SUCCESS) None) = 0"
  shows "rc = prf_signature_status p \<and> (rc = 0 \<longleftrightarrow> remote = Some r) \<and> prf_remote_providerID p' = nid_content issuer \<and>
    (\<exists>r'. prf_response p' = Some (ResponseNode r') \<and> rsp_InResponseTo r' = req_ID request \<and>
       (\<forall>s. prf_server p = Some s \<longrightarrow> rsp_Issuer r' = Some (lasso_saml2_name_id_new_with_string (prv_ProviderID (srv_parent s)))) \<and>
       (\<exists>sub. top_status r' = Some (StatusCode (Some (if rc = 0 then LASSO_SAML2_STATUS_CODE_SUCCESS
                                                      else LASSO_SAML2_STATUS_CODE_REQUESTER)) sub)))"
proof -
  let ?p = "p\<lparr>prf_remote_providerID := nid_content issuer\<rparr>"
  let ?i = "lasso_saml20_profile_init_response env io uid ?p response (Some LASSO_SAML2_STATUS_CODE_SUCCESS) None"
  have "?i = (0, snd ?i)" using assms(7) by (metis prod.collapse)
  from init_response_node[OF this] obtain r' where
    r': "prf_response (snd ?i) = Some (ResponseNode r')" "rsp_InResponseTo r' = req_ID request"
    "\<forall>s. prf_server p = Some s \<longrightarrow> rsp_Issuer r' = Some (lasso_saml2_name_id_new_with_string (prv_ProviderID (srv_parent s)))"
    "\<exists>sub. top_status r' = Some (StatusCode (Some LASSO_SAML2_STATUS_CODE_SUCCESS) sub)"
    using assms(3) by auto
  let ?bad = "respond LASSO_SAML2_STATUS_CODE_REQUESTER (Some LASSO_LIB_STATUS_CODE_INVALID_SIGNATURE) (snd ?i)"
  have bad: "prf_response ?bad = Some (ResponseNode (set_status LASSO_SAML2_STATUS_CODE_REQUESTER (Some LASSO_LIB_STATUS_CODE_INVALID_SIGNATURE) r'))"
    by (rule respond_node) (rule r'(1))
  have keep: "rsp_InResponseTo (set_status a b r') = rsp_InResponseTo r'" "rsp_Issuer (set_status a b r') = rsp_Issuer r'" for a b
    by (simp_all add: set_status_def Let_def)
  have v: "(rc, p', remote) = (if prf_signature_status p \<noteq> 0 then (prf_signature_status p, ?bad, None) else (0, snd ?i, Some r))"
    using assms by (auto simp: lasso_saml20_profile_validate_request_def Let_def)
  show ?thesis
  proof (cases "prf_signature_status p = 0")
    case True
    then have "rc = 0" "p' = snd ?i" "remote = Some r" using v by simp_all
    then show ?thesis using True r' by simp
  next
    case False
    then have "rc = prf_signature_status p" "p' = ?bad" "remote = None" using v by simp_all
    then show ?thesis using False bad keep r'(2,3) by simp
  qed
qed

definition sample_request :: "request_body \<Rightarrow> request_abstract" where
  "sample_request body = (lasso_samlp2_request_abstract_new body)
     \<lparr>req_Issuer := Some (lasso_saml2_name_id_new_with_string (Some ''idp'')), req_ID := Some ''q''\<rparr>"

lemma sample_request_simps [simp]:
  "req_Issuer (sample_request b) = Some (lasso_saml2_name_id_new_with_string (Some ''idp''))"
  "req_body (sample_request b) = b" "req_ID (sample_request b) = Some ''q''"
  by (simp_all add: sample_request_def lasso_samlp2_request_abstract_new_def)

lemma profile_new_simps [simp]:
  "prf_server (profile_new s) = s" "prf_request (profile_new s) = None" "prf_response (profile_new s) = None"
  "prf_session (profile_new s) = None" "prf_identity (profile_new s) = None" "prf_signature_status (profile_new s) = 0"
  "prf_signature_verify_hint (profile_new s) = VERIFY_HINT_MAYBE" "prf_signature_hint (profile_new s) = SIGNATURE_HINT_MAYBE"
  "prf_http_request_method (profile_new s) = LASSO_HTTP_METHOD_ANY" "prf_remote_providerID (profile_new s) = None"
  "prf_msg_relayState (profile_new s) = None" "prf_nameIdentifier (profile_new s) = None"
  by (simp_all add: profile_new_def)

lemma sample_io_unsigned [simp]: "mio_sign_messages sample_io = False" "mio_thin_sessions sample_io = False"
  by (simp_all add: sample_io_def)

lemma sample_init_response:
  "prf_signature_hint p = SIGNATURE_HINT_MAYBE \<Longrightarrow> fst (lasso_saml20_profile_init_response env sample_io uid p r c1 c2) = 0"
  by (cases c1) (simp_all add: lasso_saml20_profile_init_response_def sign_response_def Let_def
      lasso_profile_saml20_setup_message_signature_def)

theorem validate_request_law_witness:
  "\<exists>p'. lasso_saml20_profile_validate_request sample_env sample_io ''u''
     ((profile_new (Some sample_server))\<lparr>prf_request := Some (RequestNode (sample_request OtherRequest)), prf_signature_status := 7\<rparr>)
     False (lasso_samlp2_status_response_new OtherResponse) = (7, p', None)"
proof -
  let ?p = "(profile_new (Some sample_server))\<lparr>prf_request := Some (RequestNode (sample_request OtherRequest)), prf_signature_status := 7\<rparr>"
  obtain rc p' remote where v: "lasso_saml20_profile_validate_request sample_env sample_io ''u'' ?p False
      (lasso_samlp2_status_response_new OtherResponse) = (rc, p', remote)" by (metis surj_pair)
  have "rc = 7" "rc \<noteq> 0 \<longrightarrow> remote \<noteq> Some sample_provider"
    using validate_request_law[OF v _ _ sample_request_simps(1), of OtherRequest sample_provider]
    by (auto simp: get_provider_def sample_init_response)
  moreover have "remote = None \<or> remote = Some sample_provider"
    using v by (auto simp: lasso_saml20_profile_validate_request_def get_provider_def Let_def split: if_splits)
  ultimately show ?thesis using v by simp
qed

section \<open>The redirect binding from end to end\<close>

lemma redirect_url:
  assumes "lasso_saml20_profile_build_http_redirect env io p msg (Some url) = (0, p1, msg1)"
    and "lasso_node_get_signature msg = Some c" and "lasso_ok_signature_method env (sctx_method c)"
  obtains q s where "msg1 = lasso_node_remove_signature msg" "lasso_node_build_query env io msg1 = Some q"
    "lasso_query_sign (env_lib env) (env_min_signature_method env)
       (q @ (case relaystate_field (prf_msg_relayState p) of None \<Rightarrow> [] | Some r \<Rightarrow> ''&'' @ r)) (sctx_method c) (sctx_key c) = Some (Some s)"
    "prf_msg_url p1 = Some (lasso_concat_url_query url s)"
proof -
  have e: "lasso_xmlURIEscapeStr ''RelayState'' [] = ''RelayState''" by (simp add: is_plain_def is_alnum_def)
  have a: "printf_string (lasso_url_add_parameters (Some q) [Some ''RelayState'', Some r]) = q @ ''&RelayState='' @ lasso_xmlURIEscapeStr r []" for q r
    by (simp add: lasso_url_add_parameters_def printf_string_def e Let_def)
  have "sign_query env q c = Some s \<longleftrightarrow> lasso_query_sign (env_lib env) (env_min_signature_method env) q (sctx_method c) (sctx_key c) = Some (Some s)" for q s
    by (auto simp: sign_query_def split: Option.bind_splits)
  then show ?thesis
    using assms that a
    by (auto simp: lasso_saml20_profile_build_http_redirect_def lasso_saml20_profile_export_to_query_def Let_def relaystate_field_def
        split: option.splits)
qed

text \<open>C9: A request that one end sends by the redirect binding, signed with a key that the other end has for the sender, is taken by
  the other end: the signature verifies, and request, sender and relay state are those that were sent.\<close>

theorem redirect_request_received:
  assumes sent: "lasso_saml20_profile_build_http_redirect env io p (RequestNode r) (Some url) = (0, p1, msg)"
    and cx: "req_signature r = Some \<lparr>sctx_method = m, sctx_key = Some private\<rparr>" "lasso_ok_signature_method env m"
    and same: "env_lib env' = env_lib env" "env_min_signature_method env' = env_min_signature_method env"
    and lib: "key_pair (env_lib env) m private public" "base64_inverse (env_lib env)" "distinct_hrefs (env_lib env)"
      "unescapes (qlb_unescape (env_lib env))" "compressible (env_lib env) (mio_xml_text io msg)"
    and relay: "list_all c_string (case prf_msg_relayState p of None \<Rightarrow> [] | Some r \<Rightarrow> [r])"
    and request: "snd (mio_init_request io' kind (env_xml_parse env' (mio_xml_text io msg))) = request" "req_Issuer request = Some issuer"
    and remote: "get_provider (p'\<lparr>prf_remote_providerID := nid_content issuer\<rparr>) = (0, Some remote)"
      "prv_conformance remote = LASSO_PROTOCOL_SAML_2_0" "lasso_provider_try_loading_public_keys remote True = (0, keys)" "public \<in> set keys"
  shows "\<exists>q p2. prf_msg_url p1 = Some (lasso_concat_url_query url q) \<and>
    lasso_saml20_profile_process_any_request env' io' p' kind q = (0, p2) \<and> prf_signature_status p2 = 0 \<and>
    prf_request p2 = Some (RequestNode request) \<and> prf_remote_providerID p2 = nid_content issuer \<and>
    prf_msg_relayState p2 = prf_msg_relayState p"
proof -
  have sg: "lasso_node_get_signature (RequestNode r) = Some \<lparr>sctx_method = m, sctx_key = Some private\<rparr>"
    using cx(1) by (simp add: lasso_node_get_signature_def)
  obtain q s where msg: "msg = lasso_node_remove_signature (RequestNode r)" and q: "lasso_node_build_query env io msg = Some q"
    and s: "lasso_query_sign (env_lib env) (env_min_signature_method env)
       (q @ (case relaystate_field (prf_msg_relayState p) of None \<Rightarrow> [] | Some r \<Rightarrow> ''&'' @ r)) m (Some private) = Some (Some s)"
    and url: "prf_msg_url p1 = Some (lasso_concat_url_query url s)"
    by (rule redirect_url[OF sent sg]) (use cx(2) in auto)
  obtain part where part: "lasso_xmlnode_build_deflated_query (env_lib env) (mio_xml_text io msg) = Some part" "q = ''SAMLRequest'' @ ''='' @ part"
    using q by (auto simp: msg lasso_node_build_query_def lasso_node_remove_signature_def lasso_node_set_signature_def Let_def)
  have read: "lasso_saml2_query_verify_signature (env_lib env) flag (env_min_signature_method env) s (Some public) = 0"
    "lasso_node_init_from_saml2_query_fields (env_lib env) (lasso_urlencoded_to_strings (env_lib env) s) = Some (Some (mio_xml_text io msg))"
    "lasso_get_relaystate_from_query (env_lib env) (Some s) = prf_msg_relayState p" for flag
    using redirect_message_read[OF part(1) disjI1[OF refl] refl s[unfolded part(2) append_assoc] lib(5) relay lib(1-4)] by blast+
  obtain sv where sv: "prf_server p' = Some sv" "lasso_server_get_provider (Some sv) (nid_content issuer) = Some remote"
    using remote(1) by (auto simp: get_provider_def split: option.splits)
  have "CHR ''<'' \<notin> set (q @ (case relaystate_field (prf_msg_relayState p) of None \<Rightarrow> [] | Some r \<Rightarrow> ''&'' @ r))"
    using escape_no_angle by (auto simp: part(2) deflated_part[OF part(1)] relaystate_field_def split: option.splits)
  then have "parse_request env' io' kind s = (LASSO_MESSAGE_FORMAT_QUERY, None, request)"
    unfolding parse_request_def same(1) using request(1)
    query_format[OF query_sign_chars[OF s] read(2), of "env_xml_parse env'" "mio_init_request io' kind"] by simp
  moreover have "lasso_provider_verify_query_signature (env_crypto env') flag (env_min_signature_method env') remote s = 0" for flag
    using remote(2-4) read(1)[of flag] by (auto simp: lasso_provider_verify_query_signature_def same verify_with_keys_zero)
  ultimately have "lasso_saml20_profile_process_any_request env' io' p' kind s =
      (0, p'\<lparr>prf_signature_status := 0, prf_http_request_method := LASSO_HTTP_METHOD_REDIRECT, prf_request := Some (RequestNode request),
        prf_msg_relayState := prf_msg_relayState p, prf_remote_providerID := nid_content issuer\<rparr>)"
    using sv request(2) read(3)
    by (simp add: lasso_saml20_profile_process_any_request_def format_method_def Let_def same(1) get_provider_def)
  then show ?thesis using url by (intro exI[of _ s] exI) (auto intro: conjI)
qed

definition sample_signed_request :: request_abstract where
  "sample_signed_request = (sample_request OtherRequest)
     \<lparr>req_signature := Some \<lparr>sctx_method = LASSO_SIGNATURE_METHOD_RSA_SHA256, sctx_key = Some ''key''\<rparr>\<rparr>"

definition sample_receiver_io :: message_io where
  "sample_receiver_io = sample_io\<lparr>mio_init_request := \<lambda>_ _. (0, sample_request OtherRequest)\<rparr>"

lemma sample_redirect_sent:
  obtains p1 msg where "lasso_saml20_profile_build_http_redirect sample_env sample_io (profile_new (Some sample_server)) (RequestNode sample_signed_request)
    (Some ''https://idp/'') = (0, p1, msg)"
proof -
  obtain part where part: "lasso_xmlnode_build_deflated_query sample_lib ''<r/>'' = Some part"
    by (rule sample_redirect_message[OF disjI1[OF refl] sample_text])
  have ok: "lasso_ok_signature_method sample_env LASSO_SIGNATURE_METHOD_RSA_SHA256"
    by (simp add: lasso_ok_signature_method_def lasso_validate_signature_method_def lasso_allowed_signature_method_def method_defs)
  obtain s where "sign_query sample_env (''SAMLRequest='' @ part) \<lparr>sctx_method = LASSO_SIGNATURE_METHOD_RSA_SHA256, sctx_key = Some ''key''\<rparr> = Some s"
    using sample_signs[of "''SAMLRequest='' @ part"] by (auto simp: sign_query_def)
  then have "fst (lasso_saml20_profile_build_http_redirect sample_env sample_io (profile_new (Some sample_server)) (RequestNode sample_signed_request)
      (Some ''https://idp/'')) = 0"
    using part ok
    by (simp add: lasso_saml20_profile_build_http_redirect_def lasso_saml20_profile_export_to_query_def lasso_node_get_signature_def
        sample_signed_request_def lasso_node_remove_signature_def lasso_node_set_signature_def lasso_node_build_query_def sample_io_def Let_def)
  then show ?thesis using that by (metis prod.collapse)
qed

theorem redirect_request_received_witness:
  "\<exists>q p2. lasso_saml20_profile_process_any_request sample_env sample_receiver_io (profile_new (Some sample_server)) ''k'' q = (0, p2) \<and>
     prf_signature_status p2 = 0 \<and> prf_request p2 = Some (RequestNode (sample_request OtherRequest))"
proof -
  obtain p1 msg where sent: "lasso_saml20_profile_build_http_redirect sample_env sample_io (profile_new (Some sample_server)) (RequestNode sample_signed_request)
    (Some ''https://idp/'') = (0, p1, msg)" by (rule sample_redirect_sent)
  have c: "req_signature sample_signed_request = Some \<lparr>sctx_method = LASSO_SIGNATURE_METHOD_RSA_SHA256, sctx_key = Some ''key''\<rparr>"
    "lasso_ok_signature_method sample_env LASSO_SIGNATURE_METHOD_RSA_SHA256"
    by (simp_all add: sample_signed_request_def lasso_ok_signature_method_def lasso_validate_signature_method_def
        lasso_allowed_signature_method_def method_defs)
  have k: "key_pair (env_lib sample_env) LASSO_SIGNATURE_METHOD_RSA_SHA256 ''key'' ''key''" "base64_inverse (env_lib sample_env)"
    "distinct_hrefs (env_lib sample_env)" "unescapes (qlb_unescape (env_lib sample_env))"
    "compressible (env_lib sample_env) (mio_xml_text sample_io msg)"
    using sample_text by (simp_all add: sample_io_def compressible_def deflated_text_def) (simp_all add: sample_lib_def bytes_of_def)
  have r: "list_all c_string (case prf_msg_relayState (profile_new (Some sample_server)) of None \<Rightarrow> [] | Some r \<Rightarrow> [r])"
    by (simp add: profile_new_def)
  have q: "snd (mio_init_request sample_receiver_io ''k'' (env_xml_parse sample_env (mio_xml_text sample_io msg))) = sample_request OtherRequest"
    by (simp add: sample_receiver_io_def)
  have g: "get_provider ((profile_new (Some sample_server))\<lparr>prf_remote_providerID := nid_content (lasso_saml2_name_id_new_with_string (Some ''idp''))\<rparr>) =
      (0, Some sample_provider)" by (simp add: get_provider_def profile_new_def)
  have p: "prv_conformance sample_provider = LASSO_PROTOCOL_SAML_2_0"
    "lasso_provider_try_loading_public_keys sample_provider True = (0, [''key''])" "''key'' \<in> set [''key'']"
    by (simp_all add: sample_provider_def provider_instance_init_def lasso_provider_try_loading_public_keys_def lasso_provider_get_public_keys_def)
  show ?thesis
    using redirect_request_received[OF sent c refl refl k r q sample_request_simps(1) g p] by blast
qed

end
