(* ===== verification/Lasso_Logout.thy ===== *)
theory Lasso_Logout
  imports Lasso_Bindings
begin

text \<open>
  Single logout, \<^verbatim>\<open>lasso/saml-2.0/logout.c\<close> and what it uses of \<^verbatim>\<open>lasso/id-ff/logout.c\<close>: asking a peer to log out,
  validating a request and removing the session with the requester, the propagation to the other providers of the
  session, and the answer to the first requester.
\<close>

section \<open>State\<close>

record lasso_logout =
  lgo_parent :: lasso_profile
  lgo_initial_request :: "message_node option"
  lgo_initial_response :: "message_node option"
  lgo_initial_remote_providerID :: cstr
  lgo_providerID_index :: int
  lgo_initial_http_request_method :: int
  lgo_all_soap :: bool
  lgo_partial_logout :: bool

definition lasso_logout_new :: "lasso_server \<Rightarrow> lasso_logout" where
  "lasso_logout_new server = \<lparr>lgo_parent = profile_new (Some server), lgo_initial_request = None, lgo_initial_response = None,
     lgo_initial_remote_providerID = None, lgo_providerID_index = 0,
     lgo_initial_http_request_method = LASSO_HTTP_METHOD_NONE, lgo_all_soap = False, lgo_partial_logout = False\<rparr>"

definition lasso_saml20_profile_set_response_status_responder :: "lasso_profile \<Rightarrow> string \<Rightarrow> lasso_profile" where
  "lasso_saml20_profile_set_response_status_responder p code2 = respond LASSO_SAML2_STATUS_CODE_RESPONDER (Some code2) p"

definition logout_body :: "lasso_profile \<Rightarrow> (request_abstract \<times> logout_request) option" where
  "logout_body p =
     (case prf_request p of
        Some (RequestNode r) \<Rightarrow> (case req_body r of LogoutRequest l \<Rightarrow> Some (r, l) | _ \<Rightarrow> None)
      | _ \<Rightarrow> None)"

text \<open>Changing the logout request that the profile holds.\<close>

definition set_logout_body :: "logout_request \<Rightarrow> lasso_profile \<Rightarrow> lasso_profile" where
  "set_logout_body l p =
     (case prf_request p of
        Some (RequestNode r) \<Rightarrow> p\<lparr>prf_request := Some (RequestNode (r\<lparr>req_body := LogoutRequest l\<rparr>))\<rparr>
      | _ \<Rightarrow> p)"

section \<open>The initiator\<close>

definition lasso_logout_get_next_providerID :: "lasso_logout \<Rightarrow> cstr \<times> lasso_logout" where
  "lasso_logout_get_next_providerID lo =
     (case prf_session (lgo_parent lo) of
        None \<Rightarrow> (None, lo)
      | Some s \<Rightarrow>
          (let (i, s) = lasso_session_get_provider_index s (lgo_providerID_index lo);
               n = lgo_providerID_index lo + 1;
               (i, s, n) = (if lgo_initial_remote_providerID lo \<noteq> None \<and> i \<noteq> None \<and> i = lgo_initial_remote_providerID lo
                            then (case lasso_session_get_provider_index s n of (i, s) \<Rightarrow> (i, s, n + 1))
                            else (i, s, n))
           in (i, lo\<lparr>lgo_parent := (lgo_parent lo)\<lparr>prf_session := Some s\<rparr>, lgo_providerID_index := n\<rparr>)))"

definition lasso_logout_reset_providerID_index :: "lasso_logout \<Rightarrow> lasso_logout" where
  "lasso_logout_reset_providerID_index lo =
     (let p = lgo_parent lo
      in lo\<lparr>lgo_parent := p\<lparr>prf_session := map_option lasso_session_init_provider_ids (prf_session p)\<rparr>, lgo_providerID_index := 0\<rparr>)"

definition lasso_saml20_logout_init_request ::
  "environment \<Rightarrow> message_io \<Rightarrow> string \<Rightarrow> lasso_logout \<Rightarrow> lasso_provider \<Rightarrow> int \<Rightarrow> int \<times> lasso_logout" where
  "lasso_saml20_logout_init_request env io uid lo remote_provider http_method =
     (let (rc, p) = lasso_saml20_profile_init_request env io uid (lgo_parent lo) (prv_ProviderID remote_provider) False
            (lasso_samlp2_request_abstract_new (LogoutRequest lasso_samlp2_logout_request_new)) http_method SINGLE_LOGOUT;
          result = (\<lambda>rc p. (rc, lo\<lparr>lgo_parent := p\<rparr>))
      in if rc \<noteq> 0 then result rc p
         else case lasso_session_get_name_ids (lasso_profile_get_session p) (prf_remote_providerID p) of
                Saml2NameID name_id # _ \<Rightarrow>
                  (let l = lasso_samlp2_logout_request_new\<lparr>lor_NameID := Some name_id\<rparr>;
                       (rc, n, e) = (if prv_encryption_mode remote_provider = 1
                                     then lasso_saml20_profile_setup_encrypted_node io remote_provider (lor_NameID l) (lor_EncryptedID l)
                                     else (0, lor_NameID l, lor_EncryptedID l));
                       l = l\<lparr>lor_NameID := n, lor_EncryptedID := e\<rparr>;
                       p = set_logout_body l p
                   in if rc \<noteq> 0 then result rc p
                      else result 0 (set_logout_body (lasso_samlp2_logout_request_set_session_indexes l
                             (lasso_session_get_session_indexes (prf_session p) (prv_ProviderID remote_provider)
                                (Some (Saml2NameID name_id)))) p))
              | _ \<Rightarrow> result LASSO_PROFILE_ERROR_MISSING_ASSERTION p)"

text \<open>The public function, for a SAML 2.0 server.\<close>

definition lasso_logout_init_request ::
  "environment \<Rightarrow> message_io \<Rightarrow> string \<Rightarrow> lasso_logout \<Rightarrow> cstr \<Rightarrow> int \<Rightarrow> int \<times> lasso_logout" where
  "lasso_logout_init_request env io uid lo remote_providerID http_method =
     (let p = lgo_parent lo in
      case lasso_profile_get_session p of
        None \<Rightarrow> (LASSO_PROFILE_ERROR_SESSION_NOT_FOUND, lo)
      | Some session \<Rightarrow>
          (let p = (case remote_providerID of
                      None \<Rightarrow> (case lasso_session_get_provider_index session 0 of
                                 (i, s) \<Rightarrow> p\<lparr>prf_remote_providerID := i, prf_session := Some s\<rparr>)
                    | Some i \<Rightarrow> p\<lparr>prf_remote_providerID := Some i\<rparr>);
               lo = lo\<lparr>lgo_parent := p\<rparr>
           in if prf_remote_providerID p = None then (LASSO_PROFILE_ERROR_MISSING_REMOTE_PROVIDERID, lo)
              else case lasso_server_get_provider (prf_server p) (prf_remote_providerID p) of
                     None \<Rightarrow> (LASSO_SERVER_ERROR_PROVIDER_NOT_FOUND, lo)
                   | Some r \<Rightarrow> lasso_saml20_logout_init_request env io uid lo r http_method))"

definition lasso_saml20_logout_build_request_msg ::
  "environment \<Rightarrow> message_io \<Rightarrow> 8 word list \<Rightarrow> lasso_logout \<Rightarrow> int \<times> lasso_logout" where
  "lasso_saml20_logout_build_request_msg env io rnd lo =
     (let (rc, p) = lasso_saml20_profile_build_request_msg env io rnd (lgo_parent lo) ''SingleLogoutService''
            (prf_http_request_method (lgo_parent lo)) None
      in (rc, lo\<lparr>lgo_parent := p\<rparr>))"

section \<open>The responder\<close>

definition lasso_saml20_logout_process_request_msg ::
  "environment \<Rightarrow> message_io \<Rightarrow> lasso_logout \<Rightarrow> string \<Rightarrow> int \<times> lasso_logout" where
  "lasso_saml20_logout_process_request_msg env io lo request_msg =
     (let (rc, p) = lasso_saml20_profile_process_any_request env io (lgo_parent lo) ''LogoutRequest'' request_msg;
          lo = lo\<lparr>lgo_parent := p\<rparr>
      in if rc \<noteq> 0 then (rc, lo)
         else
           let lo = lo\<lparr>lgo_initial_http_request_method := prf_http_request_method p\<rparr>
           in case logout_body p of
                None \<Rightarrow> (LASSO_PROFILE_ERROR_INVALID_MSG, lo)
              | Some (r, l) \<Rightarrow>
                  (case lasso_saml20_profile_process_name_identifier_decryption io p (lor_NameID l) (lor_EncryptedID l) of
                     (rc, p, n, e) \<Rightarrow>
                       (let p = set_logout_body (l\<lparr>lor_NameID := n, lor_EncryptedID := e\<rparr>) p
                        in (check_rc rc (lasso_saml20_profile_check_signature_status p), lo\<lparr>lgo_parent := p\<rparr>))))"

definition check_soap_support :: "lasso_profile \<Rightarrow> lasso_provider \<Rightarrow> bool" where
  "check_soap_support p provider =
     (if prv_ProviderID provider = prf_remote_providerID p then True
      else if \<not> (case prv_ProviderID provider of None \<Rightarrow> False | Some i \<Rightarrow> lasso_session_has_slo_session (prf_session p) i) then True
      else lasso_provider_get_metadata_list provider ''SingleLogoutService SOAP'' \<noteq> [])"

definition session_index_matches :: "lasso_provider \<Rightarrow> logout_request \<Rightarrow> string list \<Rightarrow> bool" where
  "session_index_matches remote_provider l local_session_indexes \<longleftrightarrow>
     prv_role remote_provider = LASSO_PROVIDER_ROLE_IDP \<and> lor_SessionIndex l = None \<or>
     list_ex (\<lambda>i. list_ex (\<lambda>j. i = j) local_session_indexes) (lasso_samlp2_logout_request_get_session_indexes l)"

text \<open>The removal of the session with the requester, and the backup of the conversation with the first
  requester while other providers are still to be asked.\<close>

definition logout_accept :: "message_io \<Rightarrow> lasso_provider \<Rightarrow> lasso_logout \<Rightarrow> lasso_logout" where
  "logout_accept io remote_provider lo =
     (let p = lgo_parent lo;
          p = p\<lparr>prf_session := snd (lasso_session_remove_assertion (prf_session p) (prf_remote_providerID p))\<rparr>;
          lo = lo\<lparr>lgo_parent := p\<rparr>
      in if prv_role remote_provider = LASSO_PROVIDER_ROLE_SP \<and>
            lasso_session_count_assertions (mio_thin_sessions io) (prf_session p) \<ge> 1
         then lo\<lparr>lgo_initial_remote_providerID := prf_remote_providerID p,
                 lgo_initial_request := prf_request p, lgo_initial_response := prf_response p,
                 lgo_parent := p\<lparr>prf_remote_providerID := None, prf_request := None, prf_response := None\<rparr>\<rparr>
         else lo)"

text \<open>The decision, once the response is prepared.\<close>

definition logout_decide ::
  "message_io \<Rightarrow> lasso_provider \<Rightarrow> logout_request \<Rightarrow> lasso_logout \<Rightarrow> lasso_profile \<Rightarrow> int \<times> lasso_logout" where
  "logout_decide io remote_provider l lo p =
     (let deny = (\<lambda>rc code. (rc, lo\<lparr>lgo_parent := lasso_saml20_profile_set_response_status_responder p code\<rparr>)) in
      case lor_NameID l of
        None \<Rightarrow> deny LASSO_PROFILE_ERROR_NAME_IDENTIFIER_NOT_FOUND LASSO_LIB_STATUS_CODE_FEDERATION_DOES_NOT_EXIST
      | Some name_id \<Rightarrow>
          (let indexes = lasso_session_get_session_indexes (prf_session p) (prf_remote_providerID p) (Some (Saml2NameID name_id));
               soap_at_idp = (prv_role remote_provider = LASSO_PROVIDER_ROLE_SP \<and>
                              prf_http_request_method p = LASSO_HTTP_METHOD_SOAP);
               all_soap = (case prf_server p of
                             None \<Rightarrow> True
                           | Some s \<Rightarrow> list_all (check_soap_support p) (ght_values (srv_providers s)))
           in if prf_session p = None then deny LASSO_PROFILE_ERROR_SESSION_NOT_FOUND LASSO_SAML2_STATUS_CODE_REQUEST_DENIED
              else if indexes = [] then deny LASSO_PROFILE_ERROR_MISSING_ASSERTION LASSO_SAML2_STATUS_CODE_REQUEST_DENIED
              else if \<not> session_index_matches remote_provider l indexes
              then deny LASSO_LOGOUT_ERROR_UNKNOWN_PRINCIPAL LASSO_SAML2_STATUS_CODE_REQUEST_DENIED
              else if soap_at_idp \<and> \<not> all_soap
              then (LASSO_LOGOUT_ERROR_UNSUPPORTED_PROFILE,
                    lo\<lparr>lgo_all_soap := False,
                       lgo_parent := lasso_saml20_profile_set_response_status_responder p LASSO_LIB_STATUS_CODE_UNSUPPORTED_PROFILE\<rparr>)
              else (0, logout_accept io remote_provider
                         (lo\<lparr>lgo_all_soap := (if soap_at_idp then True else lgo_all_soap lo), lgo_parent := p\<rparr>))))"

text \<open>\<^verbatim>\<open>lasso_saml20_logout_process_request_msg\<close> refuses a request without an issuer, which this function reads
  without a test; the model gives \<^verbatim>\<open>LASSO_PROFILE_ERROR_MISSING_ISSUER\<close> there.\<close>

definition lasso_saml20_logout_validate_request ::
  "environment \<Rightarrow> message_io \<Rightarrow> string \<Rightarrow> lasso_logout \<Rightarrow> int \<times> lasso_logout" where
  "lasso_saml20_logout_validate_request env io uid lo =
     (case logout_body (lgo_parent lo) of
        None \<Rightarrow> (LASSO_PROFILE_ERROR_MISSING_REQUEST, lo)
      | Some (request, l) \<Rightarrow>
          (case req_Issuer request of
             None \<Rightarrow> (LASSO_PROFILE_ERROR_MISSING_ISSUER, lo)
           | Some issuer \<Rightarrow>
               (let p = (lgo_parent lo)\<lparr>prf_remote_providerID := nid_content issuer\<rparr>
                in case lasso_server_get_provider (prf_server p) (prf_remote_providerID p) of
                     None \<Rightarrow> (LASSO_SERVER_ERROR_PROVIDER_NOT_FOUND, lo\<lparr>lgo_parent := p\<rparr>)
                   | Some remote_provider \<Rightarrow>
                       (let (rc, p) = lasso_saml20_profile_init_response env io uid p
                              (lasso_samlp2_status_response_new LogoutResponse) (Some LASSO_SAML2_STATUS_CODE_SUCCESS) None
                        in if rc \<noteq> 0 then (rc, lo\<lparr>lgo_parent := p\<rparr>)
                           else logout_decide io remote_provider l lo p))))"

definition lasso_saml20_logout_restore_initial_state :: "message_io \<Rightarrow> lasso_logout \<Rightarrow> lasso_logout" where
  "lasso_saml20_logout_restore_initial_state io lo =
     (if lgo_initial_remote_providerID lo = None then lo
      else
        let p = (lgo_parent lo)\<lparr>prf_remote_providerID := lgo_initial_remote_providerID lo,
                  prf_request := lgo_initial_request lo, prf_response := lgo_initial_response lo\<rparr>;
            lo = lo\<lparr>lgo_initial_remote_providerID := None, lgo_initial_request := None, lgo_initial_response := None,
                   lgo_parent := p\<rparr>
        in if lgo_partial_logout lo \<or> lasso_session_count_assertions (mio_thin_sessions io) (prf_session p) > 0
           then lo\<lparr>lgo_partial_logout := False,
                   lgo_parent := respond LASSO_SAML2_STATUS_CODE_SUCCESS (Some LASSO_SAML2_STATUS_CODE_PARTIAL_LOGOUT) p\<rparr>
           else lo)"

definition lasso_saml20_logout_build_response_msg ::
  "environment \<Rightarrow> message_io \<Rightarrow> string \<Rightarrow> 8 word list \<Rightarrow> lasso_logout \<Rightarrow> int \<times> lasso_logout" where
  "lasso_saml20_logout_build_response_msg env io uid rnd lo =
     (let lo = lasso_saml20_logout_restore_initial_state io lo;
          p = lgo_parent lo;
          fresh = lasso_samlp2_status_response_new LogoutResponse;
          (rc, p) = (case prf_response p of
                Some (ResponseNode r) \<Rightarrow> sign_response env io p
              | _ \<Rightarrow>
                  if lasso_saml20_profile_check_signature_status p \<noteq> 0
                  then lasso_saml20_profile_init_response env io uid p fresh
                         (Some LASSO_SAML2_STATUS_CODE_REQUESTER) (Some LASSO_LIB_STATUS_CODE_INVALID_SIGNATURE)
                  else lasso_saml20_profile_init_response env io uid p fresh
                         (Some LASSO_SAML2_STATUS_CODE_RESPONDER) (Some LASSO_SAML2_STATUS_CODE_REQUEST_DENIED));
          (rc, p) = (if rc \<noteq> 0 then (rc, p)
                     else lasso_saml20_profile_build_response_msg env io rnd p (Some ''SingleLogoutService'')
                            (lgo_initial_http_request_method lo) None)
      in (rc, lo\<lparr>lgo_parent := p\<rparr>))"

section \<open>The end of the propagation\<close>

definition sub_status_value :: "lasso_profile \<Rightarrow> cstr option" where
  "sub_status_value p =
     (case prf_response p of
        Some (ResponseNode r) \<Rightarrow> (case sub_status (top_status r) of None \<Rightarrow> None | Some (StatusCode v s) \<Rightarrow> Some v)
      | _ \<Rightarrow> None)"

text \<open>The finer code of a response that is not a success.\<close>

definition logout_error :: "lasso_profile \<Rightarrow> int" where
  "logout_error p =
     (case sub_status_value p of
        None \<Rightarrow> LASSO_PROFILE_ERROR_STATUS_NOT_SUCCESS
      | Some v \<Rightarrow>
          if v = Some LASSO_SAML2_STATUS_CODE_PARTIAL_LOGOUT then LASSO_LOGOUT_ERROR_PARTIAL_LOGOUT
          else if v = Some LASSO_SAML2_STATUS_CODE_REQUEST_DENIED then LASSO_LOGOUT_ERROR_REQUEST_DENIED
          else if v = Some LASSO_SAML2_STATUS_CODE_UNKNOWN_PRINCIPAL then LASSO_LOGOUT_ERROR_UNKNOWN_PRINCIPAL
          else LASSO_PROFILE_ERROR_STATUS_NOT_SUCCESS)"

definition lasso_saml20_logout_process_response_msg ::
  "environment \<Rightarrow> message_io \<Rightarrow> lasso_logout \<Rightarrow> string \<Rightarrow> int \<times> lasso_logout" where
  "lasso_saml20_logout_process_response_msg env io lo response_msg =
     (let (rc, p, m) = lasso_saml20_profile_process_any_response env io (lgo_parent lo) ''LogoutResponse'' (Some 0) response_msg;
          rc = (if rc \<noteq> 0 then rc
                else if prf_signature_status p \<noteq> 0 \<and> prf_signature_verify_hint p = VERIFY_HINT_FORCE then prf_signature_status p
                else case lasso_server_get_provider (prf_server p) (prf_remote_providerID p) of
                       None \<Rightarrow> LASSO_SERVER_ERROR_PROVIDER_NOT_FOUND
                     | Some r \<Rightarrow> 0);
          lo = lo\<lparr>lgo_parent := p\<rparr>;
          (rc, lo) = (if rc = LASSO_PROFILE_ERROR_STATUS_NOT_SUCCESS
                      then (logout_error p, lo\<lparr>lgo_partial_logout := True\<rparr>) else (rc, lo));
          lo = (if lasso_session_count_assertions (mio_thin_sessions io) (prf_session p) = 0
                then lasso_saml20_logout_restore_initial_state io lo else lo)
      in (rc, lo))"

section \<open>Laws\<close>

lemma logout_accept_session:
  "prf_session (lgo_parent (logout_accept io r lo)) =
     snd (lasso_session_remove_assertion (prf_session (lgo_parent lo)) (prf_remote_providerID (lgo_parent lo)))"
  by (simp add: logout_accept_def Let_def)

lemma logout_decide_ok:
  assumes "logout_decide io remote l lo p = (0, lo')"
  obtains name_id b where
    "lor_NameID l = Some name_id" "prf_session p \<noteq> None"
    "lasso_session_get_session_indexes (prf_session p) (prf_remote_providerID p) (Some (Saml2NameID name_id)) \<noteq> []"
    "session_index_matches remote l
       (lasso_session_get_session_indexes (prf_session p) (prf_remote_providerID p) (Some (Saml2NameID name_id)))"
    "lo' = logout_accept io remote (lo\<lparr>lgo_all_soap := b, lgo_parent := p\<rparr>)"
proof (cases "lor_NameID l")
  case None
  then show ?thesis using assms by (simp add: logout_decide_def)
next
  case (Some name_id)
  show ?thesis
    using assms that[OF Some, of "if prv_role remote = LASSO_PROVIDER_ROLE_SP \<and> prf_http_request_method p = LASSO_HTTP_METHOD_SOAP
      then True else lgo_all_soap lo"]
    unfolding logout_decide_def Let_def Some option.case by (simp split: if_splits)
qed

lemma logout_decide_refused:
  assumes "logout_decide io remote l lo p = (rc, lo')" and "rc \<noteq> 0"
  shows "prf_session (lgo_parent lo') = prf_session p"
  using assms unfolding logout_decide_def Let_def
  by (auto simp: lasso_saml20_profile_set_response_status_responder_def split: option.splits if_splits)

lemma validate_request_cases:
  assumes "lasso_saml20_logout_validate_request env io uid lo = (rc, lo')"
  obtains (refused) p where "rc \<noteq> 0" "lo' = lo\<lparr>lgo_parent := p\<rparr>" "prf_session p = prf_session (lgo_parent lo)"
  | (decided) request l issuer remote p where
    "logout_body (lgo_parent lo) = Some (request, l)" "req_Issuer request = Some issuer"
    "lasso_server_get_provider (prf_server (lgo_parent lo)) (nid_content issuer) = Some remote"
    "lasso_saml20_profile_init_response env io uid ((lgo_parent lo)\<lparr>prf_remote_providerID := nid_content issuer\<rparr>)
       (lasso_samlp2_status_response_new LogoutResponse) (Some LASSO_SAML2_STATUS_CODE_SUCCESS) None = (0, p)"
    "prf_session p = prf_session (lgo_parent lo)" "prf_remote_providerID p = nid_content issuer"
    "logout_decide io remote l lo p = (rc, lo')"
proof (cases "logout_body (lgo_parent lo)")
  case None
  then show ?thesis using assms refused[of "lgo_parent lo"] by (simp add: lasso_saml20_logout_validate_request_def)
next
  case (Some rl)
  obtain request l where b: "logout_body (lgo_parent lo) = Some (request, l)" using Some by (cases rl) simp
  note d = assms[unfolded lasso_saml20_logout_validate_request_def b option.case prod.case Let_def]
  show ?thesis
  proof (cases "req_Issuer request")
    case None
    then show ?thesis using d refused[of "lgo_parent lo"] by simp
  next
    case (Some issuer)
    let ?p = "(lgo_parent lo)\<lparr>prf_remote_providerID := nid_content issuer\<rparr>"
    obtain rc1 p where i: "lasso_saml20_profile_init_response env io uid ?p (lasso_samlp2_status_response_new LogoutResponse)
        (Some LASSO_SAML2_STATUS_CODE_SUCCESS) None = (rc1, p)" by (metis surj_pair)
    have f: "prf_session p = prf_session (lgo_parent lo)" "prf_remote_providerID p = nid_content issuer"
      using init_response_fields(4,6)[of env io uid ?p "lasso_samlp2_status_response_new LogoutResponse"
        "Some LASSO_SAML2_STATUS_CODE_SUCCESS" None] by (simp_all add: i)
    show ?thesis
    proof (cases "lasso_server_get_provider (prf_server (lgo_parent lo)) (nid_content issuer)")
      case None
      then show ?thesis using d \<open>req_Issuer request = Some issuer\<close> refused[of ?p] by simp
    next
      case (Some remote)
      then show ?thesis
        using d \<open>req_Issuer request = Some issuer\<close> i f refused[of p] decided[OF b] by (cases "rc1 = 0") simp_all
    qed
  qed
qed

text \<open>C4: a logout request is accepted only from a provider that the server knows, for a name identifier under which
  the session is open with that provider, and for one of its session indexes (an identity provider may
  leave the indexes out); then the session with that provider is gone and nothing else of the session
  has changed.\<close>

theorem logout_accepted_only_for_open_session:
  assumes "lasso_saml20_logout_validate_request env io uid lo = (0, lo')"
  shows "\<exists>request l issuer i remote name_id s s'.
    logout_body (lgo_parent lo) = Some (request, l) \<and> req_Issuer request = Some issuer \<and> nid_content issuer = Some i \<and>
    lasso_server_get_provider (prf_server (lgo_parent lo)) (Some i) = Some remote \<and>
    lor_NameID l = Some name_id \<and> prf_session (lgo_parent lo) = Some s \<and>
    (prv_role remote = LASSO_PROVIDER_ROLE_IDP \<and> lor_SessionIndex l = None \<or>
       set (lasso_samlp2_logout_request_get_session_indexes l) \<inter>
       set (lasso_session_get_session_indexes (Some s) (Some i) (Some (Saml2NameID name_id))) \<noteq> {}) \<and>
    lasso_session_get_session_indexes (Some s) (Some i) (Some (Saml2NameID name_id)) \<noteq> [] \<and>
    prf_session (lgo_parent lo') = Some s' \<and> \<not> lasso_session_has_slo_session (Some s') i \<and>
    lasso_session_get_assertion (Some s') i = None \<and>
    (\<forall>j. j \<noteq> i \<longrightarrow> nsi_list s' j = nsi_list s j \<and> lasso_session_get_assertion (Some s') j = lasso_session_get_assertion (Some s) j)"
  using assms
proof (cases rule: validate_request_cases)
  case (decided request l issuer remote p)
  obtain name_id b where n: "lor_NameID l = Some name_id" "prf_session p \<noteq> None"
    "lasso_session_get_session_indexes (prf_session p) (prf_remote_providerID p) (Some (Saml2NameID name_id)) \<noteq> []"
    "session_index_matches remote l
       (lasso_session_get_session_indexes (prf_session p) (prf_remote_providerID p) (Some (Saml2NameID name_id)))"
    "lo' = logout_accept io remote (lo\<lparr>lgo_all_soap := b, lgo_parent := p\<rparr>)"
    by (rule logout_decide_ok[OF decided(7)])
  obtain s where s: "prf_session (lgo_parent lo) = Some s" using n(2) decided(5) by auto
  obtain i where i: "nid_content issuer = Some i" "i \<noteq> []"
    using decided(3) by (auto simp: lasso_server_get_provider_def split: option.splits if_splits)
  let ?s = "snd (lasso_session_remove_assertion (Some s) (Some i))"
  have s': "prf_session (lgo_parent lo') = ?s"
    unfolding n(5) logout_accept_session using decided(5,6) s i by simp
  have "\<exists>s'. ?s = Some s' \<and> ses_assertions s' = ght_remove i (ses_assertions s) \<and>
    ses_nid_and_session_indexes s' = ght_remove i (ses_nid_and_session_indexes s)"
    using i(2) by (simp add: lasso_session_remove_assertion_def Let_def)
  then obtain s' where r: "?s = Some s'" "ses_assertions s' = ght_remove i (ses_assertions s)"
    "ses_nid_and_session_indexes s' = ght_remove i (ses_nid_and_session_indexes s)" by blast
  have "\<not> lasso_session_has_slo_session (Some s') i \<and> lasso_session_get_assertion (Some s') i = None \<and>
    (\<forall>j. j \<noteq> i \<longrightarrow> nsi_list s' j = nsi_list s j \<and> lasso_session_get_assertion (Some s') j = lasso_session_get_assertion (Some s) j)"
    by (simp add: lasso_session_has_slo_session_def lasso_session_get_assertion_def nsi_list_def r ght_simps)
  then show ?thesis
    using decided(1,2,3) i(1) n(1) n(3,4)[unfolded decided(5,6) s i(1)] s s'[unfolded r(1)]
    by (intro exI[of _ request] exI[of _ l] exI[of _ issuer] exI[of _ i] exI[of _ remote] exI[of _ name_id] exI[of _ s] exI[of _ s'])
      (auto simp: session_index_matches_def list_ex_iff)
qed simp

text \<open>A logout request that is refused leaves the session of the principal as it was.\<close>

theorem logout_refused_keeps_session:
  assumes "lasso_saml20_logout_validate_request env io uid lo = (rc, lo')" and "rc \<noteq> 0"
  shows "prf_session (lgo_parent lo') = prf_session (lgo_parent lo)"
  using assms(1)
proof (cases rule: validate_request_cases)
  case (decided request l issuer remote p)
  then show ?thesis using logout_decide_refused[OF decided(7) assms(2)] by simp
qed simp

text \<open>What the answer of a peer does: the profile receives a response, which leaves its session alone.\<close>

lemma process_any_response_session:
  assumes "lasso_saml20_profile_process_any_response env io p kind rm msg = (rc, p', m)"
  shows "prf_session p' = prf_session p"
  using assms unfolding lasso_saml20_profile_process_any_response_def Let_def
  by (auto split: prod.splits if_splits option.splits)

lemma restore_session [simp]:
  "prf_session (lgo_parent (lasso_saml20_logout_restore_initial_state io lo)) = prf_session (lgo_parent lo)"
  by (simp add: lasso_saml20_logout_restore_initial_state_def Let_def)

lemma process_response_step:
  "prf_session (lgo_parent (snd (lasso_saml20_logout_process_response_msg env io lo msg))) = prf_session (lgo_parent lo) \<and>
   (lasso_session_count_assertions (mio_thin_sessions io) (prf_session (lgo_parent lo)) > 0 \<longrightarrow>
      lgo_initial_remote_providerID (snd (lasso_saml20_logout_process_response_msg env io lo msg)) = lgo_initial_remote_providerID lo \<and>
      lgo_initial_response (snd (lasso_saml20_logout_process_response_msg env io lo msg)) = lgo_initial_response lo)"
proof -
  obtain rc p m where a: "lasso_saml20_profile_process_any_response env io (lgo_parent lo) ''LogoutResponse'' (Some 0) msg = (rc, p, m)"
    by (metis surj_pair)
  have "prf_session p = prf_session (lgo_parent lo)" by (rule process_any_response_session[OF a])
  then show ?thesis
    by (simp add: lasso_saml20_logout_process_response_msg_def a Let_def split: prod.split)
qed

text \<open>The answers of the other providers to the propagated logout never close anything in the session.  So
  when an identity provider has accepted a logout request while another service provider was logged in, its
  final answer is Success with PartialLogout, whatever the others answered, even when every one of
  them answered Success.\<close>

theorem propagated_logout_always_partial:
  assumes "lgo_initial_remote_providerID lo \<noteq> None" and "lgo_initial_response lo = Some (ResponseNode r)"
    and "lasso_session_count_assertions (mio_thin_sessions io) (prf_session (lgo_parent lo)) > 0"
  shows "let lo' = fold (\<lambda>msg lo. snd (lasso_saml20_logout_process_response_msg env io lo msg)) msgs lo;
             p = lgo_parent (lasso_saml20_logout_restore_initial_state io lo')
         in prf_session p = prf_session (lgo_parent lo) \<and>
            prf_response p = Some (ResponseNode (set_status LASSO_SAML2_STATUS_CODE_SUCCESS (Some LASSO_SAML2_STATUS_CODE_PARTIAL_LOGOUT) r))"
  using assms
proof (induction msgs arbitrary: lo)
  case Nil
  then show ?case
    by (auto simp: lasso_saml20_logout_restore_initial_state_def Let_def lasso_saml20_profile_set_response_status_def)
next
  case (Cons msg msgs)
  let ?lo = "snd (lasso_saml20_logout_process_response_msg env io lo msg)"
  have s: "prf_session (lgo_parent ?lo) = prf_session (lgo_parent lo)"
    "lgo_initial_remote_providerID ?lo = lgo_initial_remote_providerID lo" "lgo_initial_response ?lo = lgo_initial_response lo"
    using process_response_step[of env io lo msg] Cons.prems(3) by blast+
  show ?case using Cons.IH[of ?lo] Cons.prems unfolding s by simp
qed

text \<open>The enumeration of the providers of a session: the values of successive calls, until the first \<^verbatim>\<open>NULL\<close>.\<close>

fun next_providers :: "nat \<Rightarrow> lasso_logout \<Rightarrow> string list" where
  "next_providers 0 lo = []"
| "next_providers (Suc n) lo =
     (case lasso_logout_get_next_providerID lo of (None, lo) \<Rightarrow> [] | (Some i, lo) \<Rightarrow> i # next_providers n lo)"

lemma get_provider_index_cached:
  assumes "ses_nid_and_session_indexes s \<noteq> []" and "ses_providerIDs s = l" and "l \<noteq> []" and "0 \<le> n"
  shows "lasso_session_get_provider_index s n = (if nat n < length l then Some (l ! nat n) else None, s)"
  using assms by (simp add: lasso_session_get_provider_index_def Let_def)

text \<open>One call on a session whose list of providers is filled.\<close>

lemma next_providerID_cached:
  assumes "prf_session (lgo_parent lo) = Some s" and "ses_nid_and_session_indexes s \<noteq> []" and "ses_providerIDs s = l"
    and "l \<noteq> []" and "lgo_providerID_index lo = int k"
  defines "lo_at \<equiv> \<lambda>j. lo\<lparr>lgo_parent := (lgo_parent lo)\<lparr>prf_session := Some s\<rparr>, lgo_providerID_index := int j\<rparr>"
  shows "k < length l \<Longrightarrow> Some (l ! k) \<noteq> lgo_initial_remote_providerID lo \<Longrightarrow>
      lasso_logout_get_next_providerID lo = (Some (l ! k), lo_at (Suc k))"
    and "k < length l \<Longrightarrow> lgo_initial_remote_providerID lo = Some (l ! k) \<Longrightarrow>
      lasso_logout_get_next_providerID lo = (if Suc k < length l then Some (l ! Suc k) else None, lo_at (Suc (Suc k)))"
    and "\<not> k < length l \<Longrightarrow> fst (lasso_logout_get_next_providerID lo) = None"
  using assms(1,5) get_provider_index_cached[OF assms(2,3,4), of "int k"] get_provider_index_cached[OF assms(2,3,4), of "int k + 1"]
  by (simp_all add: lasso_logout_get_next_providerID_def Let_def nat_add_distrib lo_at_def)

lemma next_providers_cached:
  assumes "prf_session (lgo_parent lo) = Some s" and "ses_nid_and_session_indexes s \<noteq> []" and "ses_providerIDs s = l"
    and "distinct l" and "l \<noteq> []" and "lgo_providerID_index lo = int k" and "n > length l - k"
  shows "next_providers n lo = filter (\<lambda>i. Some i \<noteq> lgo_initial_remote_providerID lo) (drop k l)"
  using assms
proof (induction n arbitrary: lo k)
  case (Suc n)
  note call = next_providerID_cached[OF Suc.prems(1-3,5,6)]
  let ?lo = "\<lambda>j. lo\<lparr>lgo_parent := (lgo_parent lo)\<lparr>prf_session := Some s\<rparr>, lgo_providerID_index := int j\<rparr>"
  have IH: "next_providers n (?lo j) = filter (\<lambda>i. Some i \<noteq> lgo_initial_remote_providerID lo) (drop j l)" if "j > k" "k < length l" for j
    using Suc.IH[of "?lo j" j] Suc.prems(2-5,7) that by simp
  show ?case
  proof (cases "k < length l")
    case False
    then show ?thesis using call(3) by (cases "lasso_logout_get_next_providerID lo") simp
  next
    case True
    then have d: "drop k l = l ! k # drop (Suc k) l" by (simp add: Cons_nth_drop_Suc)
    show ?thesis
    proof (cases "lgo_initial_remote_providerID lo = Some (l ! k)")
      case False
      then have "Some (l ! k) \<noteq> lgo_initial_remote_providerID lo" by metis
      then show ?thesis using call(1)[OF True] IH[OF _ True, of "Suc k"] by (simp add: d)
    next
      case same: True
      have "Some (l ! Suc k) \<noteq> lgo_initial_remote_providerID lo" if "Suc k < length l"
        using that same Suc.prems(4) by (metis True nth_eq_iff_index_eq n_not_Suc_n option.inject)
      moreover have "drop (Suc k) l = (if Suc k < length l then l ! Suc k # drop (Suc (Suc k)) l else [])"
        by (simp add: Cons_nth_drop_Suc)
      ultimately show ?thesis using call(2)[OF True same] IH[OF _ True, of "Suc (Suc k)"] same by (simp add: d)
    qed
  qed
qed simp

lemma next_providers_fresh:
  assumes "prf_session (lgo_parent lo) = Some s" and "ses_nid_and_session_indexes s \<noteq> []" and "ses_providerIDs s = []"
  shows "next_providers n lo =
    next_providers n (lo\<lparr>lgo_parent := (lgo_parent lo)\<lparr>prf_session := Some (lasso_session_init_provider_ids s)\<rparr>\<rparr>)"
proof (cases n)
  case (Suc m)
  have "ses_providerIDs (lasso_session_init_provider_ids s) \<noteq> []"
    using assms(2) by (simp add: lasso_session_init_provider_ids_def ght_keys_def)
  then have "lasso_session_get_provider_index s j = lasso_session_get_provider_index (lasso_session_init_provider_ids s) j" for j
    using assms(2,3) by (simp add: lasso_session_get_provider_index_def Let_def lasso_session_init_provider_ids_def)
  then show ?thesis
    using assms(1) Suc by (simp add: lasso_logout_get_next_providerID_def Let_def split: prod.split)
qed simp

text \<open>C38: from a new logout object, asking for the next provider until there is none gives every provider of the
  session once, in the order of the session, except the one that asked for the logout.\<close>

theorem next_providers_enumerates:
  assumes "prf_session (lgo_parent lo) = Some s" and "ses_nid_and_session_indexes s \<noteq> []" and "ses_providerIDs s = []"
    and "distinct (ght_keys (ses_nid_and_session_indexes s))" and "lgo_providerID_index lo = 0"
    and "n > length (ght_keys (ses_nid_and_session_indexes s))"
  shows "next_providers n lo =
    filter (\<lambda>i. Some i \<noteq> lgo_initial_remote_providerID lo) (ght_keys (ses_nid_and_session_indexes s))"
proof -
  let ?s = "lasso_session_init_provider_ids s"
  let ?lo = "lo\<lparr>lgo_parent := (lgo_parent lo)\<lparr>prf_session := Some ?s\<rparr>\<rparr>"
  have "next_providers n ?lo = filter (\<lambda>i. Some i \<noteq> lgo_initial_remote_providerID ?lo)
      (drop 0 (ght_keys (ses_nid_and_session_indexes s)))"
    using assms by (intro next_providers_cached[of ?lo ?s])
      (simp_all add: lasso_session_init_provider_ids_def ght_keys_def)
  then show ?thesis using next_providers_fresh[OF assms(1-3), of n] by simp
qed

section \<open>Examples\<close>

definition sample_logout_request :: logout_request where
  "sample_logout_request = lasso_samlp2_logout_request_new\<lparr>lor_NameID := Some sample_nid, lor_SessionIndex := Some ''s1''\<rparr>"

definition sample_logout :: "lasso_session option \<Rightarrow> lasso_logout" where
  "sample_logout session = (lasso_logout_new sample_server)\<lparr>lgo_parent := (profile_new (Some sample_server))
     \<lparr>prf_request := Some (RequestNode (sample_request (LogoutRequest sample_logout_request))), prf_session := session\<rparr>\<rparr>"

lemma sample_session_indexes:
  "lasso_session_get_session_indexes (Some sample_session) (Some ''idp'') (Some (Saml2NameID sample_nid)) = [''s1'']"
  by (simp add: lasso_session_get_session_indexes_def sample_session_def nsi_list_def ght_lookup_def sample_nsi_def
      List.map_filter_simps lasso_match_name_id_def name_id_equals_iff)

lemma sample_logout_accepted:
  "\<exists>lo'. lasso_saml20_logout_validate_request sample_env sample_io ''u'' (sample_logout (Some sample_session)) = (0, lo')"
proof -
  let ?p = "(profile_new (Some sample_server))\<lparr>prf_request := Some (RequestNode (sample_request (LogoutRequest sample_logout_request))),
    prf_session := Some sample_session, prf_remote_providerID := Some ''idp''\<rparr>"
  let ?i = "lasso_saml20_profile_init_response sample_env sample_io ''u'' ?p
              (lasso_samlp2_status_response_new LogoutResponse) (Some LASSO_SAML2_STATUS_CODE_SUCCESS) None"
  have "fst ?i = 0" by (rule sample_init_response) simp
  then obtain q where i: "?i = (0, q)" by (cases ?i) simp
  have f: "prf_session q = Some sample_session" "prf_remote_providerID q = Some ''idp''"
    using init_response_fields(4,6)[of sample_env sample_io "''u''" ?p "lasso_samlp2_status_response_new LogoutResponse"
        "Some LASSO_SAML2_STATUS_CODE_SUCCESS" None] by (simp_all add: i)
  have l: "lor_NameID sample_logout_request = Some sample_nid" "lor_SessionIndex sample_logout_request = Some ''s1''"
    "lasso_samlp2_logout_request_get_session_indexes sample_logout_request = [''s1'']"
    by (simp_all add: sample_logout_request_def lasso_samlp2_logout_request_get_session_indexes_def lasso_samlp2_logout_request_new_def)
  have r: "prv_role sample_provider = LASSO_PROVIDER_ROLE_IDP" by (simp add: sample_provider_def)
  have "\<exists>lo'. logout_decide sample_io sample_provider sample_logout_request lo q = (0, lo')" for lo
    by (simp add: logout_decide_def l r f sample_session_indexes session_index_matches_def)
  moreover have "lasso_saml20_logout_validate_request sample_env sample_io ''u'' (sample_logout (Some sample_session)) =
      logout_decide sample_io sample_provider sample_logout_request (sample_logout (Some sample_session)) q"
    using i by (simp add: lasso_saml20_logout_validate_request_def sample_logout_def logout_body_def)
  ultimately show ?thesis by simp
qed

theorem logout_accepted_only_for_open_session_witness:
  "\<exists>lo' s'. lasso_saml20_logout_validate_request sample_env sample_io ''u'' (sample_logout (Some sample_session)) = (0, lo') \<and>
     prf_session (lgo_parent lo') = Some s' \<and> \<not> lasso_session_has_slo_session (Some s') ''idp''"
proof -
  obtain lo' where v: "lasso_saml20_logout_validate_request sample_env sample_io ''u'' (sample_logout (Some sample_session)) = (0, lo')"
    using sample_logout_accepted by blast
  from logout_accepted_only_for_open_session[OF v] v show ?thesis
    by (auto simp: sample_logout_def logout_body_def)
qed

theorem logout_refused_keeps_session_witness:
  "\<exists>rc lo'. lasso_saml20_logout_validate_request sample_env sample_io ''u'' (lasso_logout_new sample_server) = (rc, lo') \<and> rc \<noteq> 0 \<and>
     prf_session (lgo_parent lo') = None"
proof -
  have v: "lasso_saml20_logout_validate_request sample_env sample_io ''u'' (lasso_logout_new sample_server) =
      (LASSO_PROFILE_ERROR_MISSING_REQUEST, lasso_logout_new sample_server)"
    by (simp add: lasso_saml20_logout_validate_request_def lasso_logout_new_def logout_body_def)
  from logout_refused_keeps_session[OF v] v show ?thesis by (simp add: lasso_logout_new_def)
qed

theorem propagated_logout_always_partial_witness:
  "prf_response (lgo_parent (lasso_saml20_logout_restore_initial_state sample_io
     ((sample_logout (Some (sample_session\<lparr>ses_assertions := [(''idp'', Saml2Assertion (sample_assertion ''a1''))]\<rparr>)))
        \<lparr>lgo_initial_remote_providerID := Some ''sp2'', lgo_initial_response := Some (ResponseNode (sample_response LogoutResponse))\<rparr>))) =
   Some (ResponseNode (set_status LASSO_SAML2_STATUS_CODE_SUCCESS (Some LASSO_SAML2_STATUS_CODE_PARTIAL_LOGOUT) (sample_response LogoutResponse)))"
  using propagated_logout_always_partial[of "(sample_logout (Some (sample_session\<lparr>ses_assertions := [(''idp'', Saml2Assertion (sample_assertion ''a1''))]\<rparr>)))
        \<lparr>lgo_initial_remote_providerID := Some ''sp2'', lgo_initial_response := Some (ResponseNode (sample_response LogoutResponse))\<rparr>"
      "sample_response LogoutResponse" sample_io sample_env "[]"]
  by (simp add: sample_logout_def lasso_session_count_assertions_def)

theorem next_providers_enumerates_witness:
  "next_providers 2 (sample_logout (Some sample_session)) = [''idp'']"
  using next_providers_enumerates[of "sample_logout (Some sample_session)" sample_session 2]
  by (simp add: sample_logout_def sample_session_def lasso_session_new_def ght_keys_def lasso_logout_new_def)

end
