(* ===== verification/Lasso_NameIdManagement.thy ===== *)
theory Lasso_NameIdManagement
  imports Lasso_Logout
begin

text \<open>
  The Name Identifier Management profile, \<^verbatim>\<open>lasso/saml-2.0/name_id_management.c\<close>: terminating a federation or giving
  the principal a new identifier, from either side.  The object is a profile and nothing more.  \<open>None\<close> stands for a
  crash: a request object of another class or without a name identifier that the code reads through, or the comparison
  of a name identifier without content; and for an identity that is left with a federation that has been freed.
\<close>

section \<open>Operations\<close>

definition manage_body :: "lasso_profile \<Rightarrow> (request_abstract \<times> manage_name_id_request) option" where
  "manage_body p =
     (case prf_request p of
        Some (RequestNode r) \<Rightarrow> (case req_body r of ManageNameIDRequest m \<Rightarrow> Some (r, m) | _ \<Rightarrow> None)
      | _ \<Rightarrow> None)"

definition set_manage_body :: "manage_name_id_request \<Rightarrow> lasso_profile \<Rightarrow> lasso_profile" where
  "set_manage_body m p =
     (case prf_request p of
        Some (RequestNode r) \<Rightarrow> p\<lparr>prf_request := Some (RequestNode (r\<lparr>req_body := ManageNameIDRequest m\<rparr>))\<rparr>
      | _ \<Rightarrow> p)"

definition encrypt_new_id :: "message_io \<Rightarrow> lasso_provider \<Rightarrow> string \<Rightarrow> encrypted_element option" where
  "encrypt_new_id io r new_name_id =
     mio_encrypt_name io (OtherNode (Element ''NewEncryptedID'' (Some LASSO_SAML2_PROTOCOL_HREF) [] [Text new_name_id]))
       (lasso_provider_get_encryption_public_key r) (prv_encryption_sym_key_type r) (prv_ProviderID r)"

definition lasso_name_id_management_init_request ::
  "environment \<Rightarrow> message_io \<Rightarrow> string \<Rightarrow> lasso_profile \<Rightarrow> cstr \<Rightarrow> cstr \<Rightarrow> int \<Rightarrow> int \<times> lasso_profile" where
  "lasso_name_id_management_init_request env io uid p remote_provider_id new_name_id http_method =
     (case lasso_server_get_provider (prf_server p) remote_provider_id of
        None \<Rightarrow> (LASSO_SERVER_ERROR_PROVIDER_NOT_FOUND, p)
      | Some remote \<Rightarrow>
          (let (rc, p) = lasso_saml20_profile_init_request env io uid p remote_provider_id True
                 (lasso_samlp2_request_abstract_new (ManageNameIDRequest lasso_samlp2_manage_name_id_request_new))
                 http_method MANAGE_NAME_ID
           in if rc \<noteq> 0 then (rc, p)
              else
                let m = lasso_samlp2_manage_name_id_request_new
                      \<lparr>mnr_NameID := (case prf_nameIdentifier p of Some (Saml2NameID n) \<Rightarrow> Some n | _ \<Rightarrow> None)\<rparr>;
                    do_encrypt = (prv_encryption_mode remote = 1);
                    (rc, n, e) = (if do_encrypt then lasso_saml20_profile_setup_encrypted_node io remote (mnr_NameID m) (mnr_EncryptedID m)
                                  else (0, mnr_NameID m, mnr_EncryptedID m));
                    m = m\<lparr>mnr_NameID := n, mnr_EncryptedID := e\<rparr>
                in if rc \<noteq> 0 then (rc, set_manage_body m p)
                   else case new_name_id of
                          Some new \<Rightarrow>
                            if do_encrypt
                            then (case encrypt_new_id io remote new of
                                    None \<Rightarrow> (LASSO_DS_ERROR_ENCRYPTION_FAILED, set_manage_body m p)
                                  | Some e \<Rightarrow> (0, set_manage_body (m\<lparr>mnr_NewEncryptedID := Some e, mnr_NewID := None\<rparr>) p))
                            else (0, set_manage_body (m\<lparr>mnr_NewID := Some new\<rparr>) p)
                        | None \<Rightarrow>
                            (let p = set_manage_body (m\<lparr>mnr_Terminate := True\<rparr>) p in
                             case prf_server p of
                               Some s \<Rightarrow>
                                 if prv_role (srv_parent s) AND LASSO_PROVIDER_ROLE_IDP \<noteq> 0
                                 then (0, p\<lparr>prf_identity := snd (lasso_identity_remove_federation (prf_identity p) (prf_remote_providerID p))\<rparr>)
                                 else (0, p)
                             | None \<Rightarrow> (0, p))))"

definition lasso_name_id_management_build_request_msg ::
  "environment \<Rightarrow> message_io \<Rightarrow> 8 word list \<Rightarrow> lasso_profile \<Rightarrow> int \<times> lasso_profile" where
  "lasso_name_id_management_build_request_msg env io rnd p =
     lasso_saml20_profile_build_request_msg env io rnd p ''ManageNameIDService'' (prf_http_request_method p) None"

definition lasso_name_id_management_process_request_msg ::
  "environment \<Rightarrow> message_io \<Rightarrow> lasso_profile \<Rightarrow> string \<Rightarrow> int \<times> lasso_profile" where
  "lasso_name_id_management_process_request_msg env io p request_msg =
     (let (rc, p) = lasso_saml20_profile_process_any_request env io p ''ManageNameIDRequest'' request_msg
      in if rc \<noteq> 0 then (rc, p)
         else case manage_body p of
                None \<Rightarrow> (LASSO_PROFILE_ERROR_INVALID_MSG, p)
              | Some (r, m) \<Rightarrow>
                  (case lasso_saml20_profile_process_name_identifier_decryption io p (mnr_NameID m) (mnr_EncryptedID m) of
                     (rc, p, n, e) \<Rightarrow>
                       (let p = set_manage_body (m\<lparr>mnr_NameID := n, mnr_EncryptedID := e\<rparr>) p
                        in (check_rc rc (lasso_saml20_profile_check_signature_status p), p))))"

text \<open>The identifier after a change, at both sides: a service provider adds its own, an identity provider replaces the
  content.\<close>

definition changed_name_id :: "bool \<Rightarrow> name_id \<Rightarrow> cstr \<Rightarrow> name_id" where
  "changed_name_id requester_is_sp name_id new_id =
     (let n = lasso_saml2_name_id_new\<lparr>nid_Format := nid_Format name_id, nid_NameQualifier := nid_NameQualifier name_id,
            nid_SPNameQualifier := nid_SPNameQualifier name_id\<rparr>
      in if requester_is_sp then n\<lparr>nid_SPProvidedID := new_id, nid_content := nid_content name_id\<rparr>
         else n\<lparr>nid_content := new_id\<rparr>)"

text \<open>The federation is the object of the table of the identity, which has the only reference to it.  It changes in place and is
  then filed again under its own provider: the table destroys the value it had under that name, which is this object, and
  keeps the pointer to it.  \<open>None\<close> stands for that identity, in which a freed federation is left.  An object that was
  filed under another name than its own is not destroyed.\<close>

definition rename_federation :: "lasso_identity \<Rightarrow> str \<Rightarrow> lasso_federation \<Rightarrow> name_id \<Rightarrow> lasso_identity option" where
  "rename_federation i key f n =
     (let f = f\<lparr>fed_local_nameIdentifier := Some (Saml2NameID n)\<rparr>
      in if fed_remote_providerID f = key then None
         else snd (lasso_identity_add_federation (Some (i\<lparr>idn_federations := ght_insert key f (idn_federations i)\<rparr>)) (Some f)))"

definition lasso_name_id_management_validate_request ::
  "environment \<Rightarrow> message_io \<Rightarrow> string \<Rightarrow> lasso_profile \<Rightarrow> (int \<times> lasso_profile) option" where
  "lasso_name_id_management_validate_request env io uid p =
     (case lasso_saml20_profile_validate_request env io uid p True (lasso_samlp2_status_response_new ManageNameIDResponse) of
        (rc, p, None) \<Rightarrow> Some (rc, p)
      | (rc, p, Some remote) \<Rightarrow>
          (case (lasso_identity_get_federation (prf_identity p) (prv_ProviderID remote), prf_identity p, prv_ProviderID remote) of
             (Some federation, Some identity, Some i) \<Rightarrow>
               (case manage_body p of
                  None \<Rightarrow> None
                | Some (r, m) \<Rightarrow>
                    (case mnr_NameID m of
                       None \<Rightarrow> Some (LASSO_PROFILE_ERROR_NAME_IDENTIFIER_NOT_FOUND,
                                    respond LASSO_SAML2_STATUS_CODE_REQUESTER (Some ''MissingNameID'') p)
                     | Some name_id \<Rightarrow>
                         (case lasso_federation_verify_name_identifier federation (Some (Saml2NameID name_id)) of
                            None \<Rightarrow> None
                          | Some False \<Rightarrow> Some (LASSO_PROFILE_ERROR_FEDERATION_NOT_FOUND,
                                              respond LASSO_SAML2_STATUS_CODE_RESPONDER (Some LASSO_SAML2_STATUS_CODE_UNKNOWN_PRINCIPAL) p)
                          | Some True \<Rightarrow>
                              if mnr_Terminate m
                              then Some (0, p\<lparr>prf_identity := snd (lasso_identity_remove_federation (Some identity) (Some i))\<rparr>)
                              else map_option (\<lambda>identity. (0, p\<lparr>prf_identity := Some identity\<rparr>))
                                     (rename_federation identity i federation
                                        (changed_name_id (prv_role remote = LASSO_PROVIDER_ROLE_SP) name_id (mnr_NewID m))))))
           | _ \<Rightarrow> Some (LASSO_PROFILE_ERROR_FEDERATION_NOT_FOUND, p)))"

definition lasso_name_id_management_build_response_msg ::
  "environment \<Rightarrow> message_io \<Rightarrow> string \<Rightarrow> 8 word list \<Rightarrow> lasso_profile \<Rightarrow> int \<times> lasso_profile" where
  "lasso_name_id_management_build_response_msg env io uid rnd p =
     (let fresh = lasso_samlp2_status_response_new ManageNameIDResponse;
          (rc, p) = (case prf_response p of
                Some (ResponseNode r) \<Rightarrow> (0, p)
              | _ \<Rightarrow>
                  if lasso_saml20_profile_check_signature_status p \<noteq> 0
                  then lasso_saml20_profile_init_response env io uid p fresh
                         (Some LASSO_SAML2_STATUS_CODE_REQUESTER) (Some LASSO_LIB_STATUS_CODE_INVALID_SIGNATURE)
                  else lasso_saml20_profile_init_response env io uid p fresh
                         (Some LASSO_SAML2_STATUS_CODE_RESPONDER) (Some LASSO_SAML2_STATUS_CODE_REQUEST_DENIED))
      in if rc \<noteq> 0 then (rc, p)
         else lasso_saml20_profile_build_response_msg env io rnd p (Some ''ManageNameIDService'') (prf_http_request_method p) None)"

text \<open>The answer at the initiator.\<close>

definition lasso_name_id_management_process_response_msg ::
  "environment \<Rightarrow> message_io \<Rightarrow> lasso_profile \<Rightarrow> string \<Rightarrow> (int \<times> lasso_profile) option" where
  "lasso_name_id_management_process_response_msg env io p response_msg =
     (let (rc, p, meth) = lasso_saml20_profile_process_any_response env io p ''ManageNameIDResponse'' None response_msg;
          rc = check_rc rc (lasso_saml20_profile_check_signature_status p)
      in if rc \<noteq> 0 then Some (rc, p)
         else case manage_body p of
                None \<Rightarrow> None
              | Some (r, m) \<Rightarrow>
                  if mnr_Terminate m
                  then Some (0, p\<lparr>prf_identity := snd (lasso_identity_remove_federation (prf_identity p) (prf_remote_providerID p))\<rparr>)
                  else case (mnr_NameID m, prf_server p, prf_identity p, prf_remote_providerID p) of
                         (Some name_id, Some server, Some identity, Some i) \<Rightarrow>
                           (case ght_lookup (idn_federations identity) i of
                              None \<Rightarrow> Some (LASSO_PROFILE_ERROR_FEDERATION_NOT_FOUND, p)
                            | Some f \<Rightarrow>
                                Some (0, p\<lparr>prf_identity := Some (identity\<lparr>idn_federations := ght_insert i
                                       (f\<lparr>fed_local_nameIdentifier := Some (Saml2NameID (changed_name_id
                                            (prv_role (srv_parent server) = LASSO_PROVIDER_ROLE_SP) name_id (mnr_NewID m)))\<rparr>)
                                       (idn_federations identity), idn_is_dirty := True\<rparr>)\<rparr>))
                       | _ \<Rightarrow> None)"

section \<open>Laws\<close>

lemma profile_validate_ok:
  assumes "lasso_saml20_profile_validate_request env io uid p needs_identity response = (rc, p', Some remote)"
  obtains request issuer where "rc = 0" "prf_request p = Some (RequestNode request)" "req_Issuer request = Some issuer"
    "lasso_server_get_provider (prf_server p) (nid_content issuer) = Some remote"
    "prf_signature_verify_hint p \<noteq> VERIFY_HINT_IGNORE \<longrightarrow> prf_signature_status p = 0"
    "only_response (p\<lparr>prf_remote_providerID := nid_content issuer\<rparr>) p'"
  using assms unfolding lasso_saml20_profile_validate_request_def Let_def
  by (auto simp: get_provider_def split: option.splits message_node.splits if_splits prod.splits intro!: that)

text \<open>The cases of \<^verbatim>\<open>lasso_name_id_management_validate_request\<close> that succeed.\<close>

lemma manage_validate_ok:
  assumes "lasso_name_id_management_validate_request env io uid p = Some (0, p')"
  obtains q remote identity federation i r m name_id where
    "lasso_saml20_profile_validate_request env io uid p True (lasso_samlp2_status_response_new ManageNameIDResponse) = (0, q, Some remote)"
    "prf_identity q = Some identity" "prv_ProviderID remote = Some i"
    "lasso_identity_get_federation (Some identity) (Some i) = Some federation"
    "manage_body q = Some (r, m)" "mnr_NameID m = Some name_id"
    "lasso_federation_verify_name_identifier federation (Some (Saml2NameID name_id)) = Some True"
    "mnr_Terminate m \<or> fed_remote_providerID federation \<noteq> i"
    "mnr_Terminate m \<longrightarrow> p' = q\<lparr>prf_identity := snd (lasso_identity_remove_federation (Some identity) (Some i))\<rparr>"
proof -
  obtain rc q ro where v: "lasso_saml20_profile_validate_request env io uid p True
      (lasso_samlp2_status_response_new ManageNameIDResponse) = (rc, q, ro)" by (metis surj_pair)
  note d = assms[unfolded lasso_name_id_management_validate_request_def v prod.case]
  show ?thesis
  proof (cases ro)
    case None
    have "rc \<noteq> 0"
      using v None unfolding lasso_saml20_profile_validate_request_def Let_def
      by (auto simp: get_provider_def split: option.splits message_node.splits if_splits prod.splits)
    then show ?thesis using d None by simp
  next
    case (Some remote)
    have rc: "rc = 0" by (rule profile_validate_ok[OF v[unfolded Some]])
    obtain identity i federation where f: "prf_identity q = Some identity" "prv_ProviderID remote = Some i"
      "lasso_identity_get_federation (Some identity) (Some i) = Some federation"
      using d Some by (auto split: option.splits)
    obtain r m name_id where m: "manage_body q = Some (r, m)" "mnr_NameID m = Some name_id"
      using d Some f by (auto split: option.splits)
    have t: "lasso_federation_verify_name_identifier federation (Some (Saml2NameID name_id)) = Some True"
      using d Some f m by (auto split: option.splits bool.splits)
    show ?thesis using that[OF v[unfolded rc Some] f m t] d Some f m t by (auto simp: rename_federation_def Let_def split: if_splits)
  qed
qed

text \<open>A request that is applied terminates the federation, whatever it asks for.\<close>

lemma manage_terminates:
  assumes "lasso_name_id_management_validate_request env io uid p = Some (0, p')"
    and "prf_identity p = Some identity" and "identity_inv identity"
  obtains request m issuer remote i federation name_id where
    "manage_body p = Some (request, m)" "req_Issuer request = Some issuer"
    "prf_signature_verify_hint p \<noteq> VERIFY_HINT_IGNORE \<longrightarrow> prf_signature_status p = 0"
    "lasso_server_get_provider (prf_server p) (nid_content issuer) = Some remote" "prv_ProviderID remote = Some i"
    "lasso_identity_get_federation (Some identity) (Some i) = Some federation" "mnr_NameID m = Some name_id"
    "lasso_federation_verify_name_identifier federation (Some (Saml2NameID name_id)) = Some True" "mnr_Terminate m"
    "\<And>j. lasso_identity_get_federation (prf_identity p') (Some j) =
       (if j = i then None else lasso_identity_get_federation (Some identity) (Some j))"
proof -
  obtain q remote idn federation i r m name_id where
    v: "lasso_saml20_profile_validate_request env io uid p True (lasso_samlp2_status_response_new ManageNameIDResponse) = (0, q, Some remote)"
    and q: "prf_identity q = Some idn" "prv_ProviderID remote = Some i"
      "lasso_identity_get_federation (Some idn) (Some i) = Some federation" "manage_body q = Some (r, m)" "mnr_NameID m = Some name_id"
      "lasso_federation_verify_name_identifier federation (Some (Saml2NameID name_id)) = Some True"
    and t: "mnr_Terminate m \<or> fed_remote_providerID federation \<noteq> i"
    and p': "mnr_Terminate m \<longrightarrow> p' = q\<lparr>prf_identity := snd (lasso_identity_remove_federation (Some idn) (Some i))\<rparr>"
    by (rule manage_validate_ok[OF assms(1)])
  obtain request issuer where o: "prf_request p = Some (RequestNode request)" "req_Issuer request = Some issuer"
    "lasso_server_get_provider (prf_server p) (nid_content issuer) = Some remote"
    "prf_signature_verify_hint p \<noteq> VERIFY_HINT_IGNORE \<longrightarrow> prf_signature_status p = 0"
    "only_response (p\<lparr>prf_remote_providerID := nid_content issuer\<rparr>) q"
    by (rule profile_validate_ok[OF v])
  have idn: "idn = identity" using only_response_fields(5)[OF o(5)] q(1) assms(2) by simp
  have "manage_body q = manage_body p" using only_response_fields(2)[OF o(5)] by (simp add: manage_body_def)
  then have body: "manage_body p = Some (request, m)" using q(4) o(1) by (auto simp: manage_body_def split: request_body.splits)
  have own: "ght_lookup (idn_federations identity) i = Some federation" using q(3) idn by (simp add: lasso_identity_get_federation_def)
  then have "fed_remote_providerID federation = i" using assms(3) by (simp add: identity_inv_def)
  with t have t: "mnr_Terminate m" by simp
  have "lasso_identity_get_federation (prf_identity p') (Some j) =
      (if j = i then None else lasso_identity_get_federation (Some identity) (Some j))" for j
    using own by (simp add: p'[rule_format, OF t] idn lasso_identity_remove_federation_def lasso_identity_get_federation_def ght_simps)
  then show ?thesis using that[OF body o(2,4,3) q(2) _ q(5,6) t] q(3) idn by simp
qed



text \<open>A request for a principal that is not federated with the requester fails, but the response that is ready to be sent says
  Success.\<close>

theorem manage_name_id_unfederated_reports_success:
  assumes "lasso_saml20_profile_validate_request env io uid p True (lasso_samlp2_status_response_new ManageNameIDResponse) = (0, q, Some remote)"
    and "fst (lasso_saml20_profile_init_response env io uid (p\<lparr>prf_remote_providerID := prf_remote_providerID q\<rparr>)
           (lasso_samlp2_status_response_new ManageNameIDResponse) (Some LASSO_SAML2_STATUS_CODE_SUCCESS) None) = 0"
    and "lasso_identity_get_federation (prf_identity p) (prv_ProviderID remote) = None"
  shows "lasso_name_id_management_validate_request env io uid p = Some (LASSO_PROFILE_ERROR_FEDERATION_NOT_FOUND, q) \<and>
    (\<exists>r sub. prf_response q = Some (ResponseNode r) \<and> top_status r = Some (StatusCode (Some LASSO_SAML2_STATUS_CODE_SUCCESS) sub))"
proof -
  obtain request issuer where o: "prf_request p = Some (RequestNode request)" "req_Issuer request = Some issuer"
    "lasso_server_get_provider (prf_server p) (nid_content issuer) = Some remote"
    "only_response (p\<lparr>prf_remote_providerID := nid_content issuer\<rparr>) q"
    by (rule profile_validate_ok[OF assms(1)])
  have f: "prf_identity q = prf_identity p" "prf_remote_providerID q = nid_content issuer" using only_response_fields[OF o(4)] by simp_all
  let ?i = "lasso_saml20_profile_init_response env io uid (p\<lparr>prf_remote_providerID := nid_content issuer\<rparr>)
           (lasso_samlp2_status_response_new ManageNameIDResponse) (Some LASSO_SAML2_STATUS_CODE_SUCCESS) None"
  have i: "?i = (0, snd ?i)" using assms(2) f(2) by (metis prod.collapse)
  have "q = snd ?i"
    using assms(1) o(1,2,3) unfolding lasso_saml20_profile_validate_request_def Let_def
    by (auto simp: get_provider_def split: option.splits if_splits)
  then show ?thesis
    using init_response_node[OF i] assms(1,3) f(1) by (auto simp: lasso_name_id_management_validate_request_def)
qed

lemma process_any_response_request:
  assumes "lasso_saml20_profile_process_any_response env io p kind rm msg = (rc, p', m)"
  shows "prf_request p' = prf_request p \<and> prf_server p' = prf_server p \<and> prf_identity p' = prf_identity p"
  using assms unfolding lasso_saml20_profile_process_any_response_def Let_def
  by (auto split: prod.splits if_splits option.splits)

text \<open>At the side that asked for the change, which does not file the federation again, the federation has the new
  identifier once the answer is accepted.\<close>

theorem manage_name_id_changed_at_initiator:
  assumes "lasso_name_id_management_process_response_msg env io p msg = Some (0, p')"
    and "manage_body p = Some (r, m)" and "\<not> mnr_Terminate m" and "prf_server p = Some server"
  shows "\<exists>name_id i f. mnr_NameID m = Some name_id \<and> prf_remote_providerID p' = Some i \<and>
    lasso_identity_get_federation (prf_identity p') (Some i) = Some f \<and>
    fed_local_nameIdentifier f = Some (Saml2NameID (changed_name_id (prv_role (srv_parent server) = LASSO_PROVIDER_ROLE_SP) name_id (mnr_NewID m)))"
proof -
  obtain rc q meth where a: "lasso_saml20_profile_process_any_response env io p ''ManageNameIDResponse'' None msg = (rc, q, meth)"
    by (metis surj_pair)
  have q: "prf_request q = prf_request p" "prf_server q = Some server" "manage_body q = Some (r, m)"
    using process_any_response_request[OF a] assms(2,4) by (simp_all add: manage_body_def)
  note d = assms(1)[unfolded lasso_name_id_management_process_response_msg_def a prod.case Let_def q]
  show ?thesis
    using d assms(3) by (auto simp: lasso_identity_get_federation_def ght_simps split: option.splits if_splits)
qed

text \<open>When a request is applied at both ends, neither end has the federation.\<close>

theorem manage_name_id_terminated_both_sides:
  assumes responder: "lasso_name_id_management_validate_request env1 io1 uid pr = Some (0, pr')"
    and initiator: "lasso_name_id_management_process_response_msg env2 io2 pin msg = Some (0, pin')"
    and request: "manage_body pr = Some (r1, m)" "manage_body pin = Some (r2, m)"
    and identity: "prf_identity pr = Some identity" "identity_inv identity"
    and remote: "req_Issuer r1 = Some issuer" "lasso_server_get_provider (prf_server pr) (nid_content issuer) = Some remote"
  shows "lasso_identity_get_federation (prf_identity pr') (prv_ProviderID remote) = None \<and>
    lasso_identity_get_federation (prf_identity pin') (prf_remote_providerID pin') = None"
proof -
  have t: "mnr_Terminate m" and gone: "lasso_identity_get_federation (prf_identity pr') (prv_ProviderID remote) = None"
    by (rule manage_terminates[OF responder identity], use request(1) remote in auto)+
  obtain rc q meth where a: "lasso_saml20_profile_process_any_response env2 io2 pin ''ManageNameIDResponse'' None msg = (rc, q, meth)"
    by (metis surj_pair)
  have "manage_body q = Some (r2, m)" using process_any_response_request[OF a] request(2) by (simp add: manage_body_def)
  then have "pin' = q\<lparr>prf_identity := snd (lasso_identity_remove_federation (prf_identity q) (prf_remote_providerID q))\<rparr>"
    using initiator t by (auto simp: lasso_name_id_management_process_response_msg_def a Let_def split: if_splits)
  then show ?thesis
    using gone by (auto simp: lasso_identity_remove_federation_def lasso_identity_get_federation_def ght_simps split: option.splits)
qed

section \<open>Examples\<close>

definition sample_manage :: "bool \<Rightarrow> manage_name_id_request" where
  "sample_manage terminate = lasso_samlp2_manage_name_id_request_new\<lparr>mnr_NameID := Some sample_nid, mnr_Terminate := terminate,
     mnr_NewID := (if terminate then None else Some ''bob'')\<rparr>"

definition sample_federated :: lasso_identity where
  "sample_federated = \<lparr>idn_federations = [(''idp'', sample_federation\<lparr>fed_remote_providerID := ''idp''\<rparr>)], idn_is_dirty = False\<rparr>"

definition sample_manage_profile :: "bool \<Rightarrow> lasso_identity option \<Rightarrow> lasso_profile" where
  "sample_manage_profile t i = (profile_new (Some sample_server))
     \<lparr>prf_request := Some (RequestNode (sample_request (ManageNameIDRequest (sample_manage t)))), prf_identity := i\<rparr>"

lemma sample_federated_inv: "identity_inv sample_federated"
  by (auto simp: identity_inv_def sample_federated_def ght_inv_def ght_lookup_def split: if_splits)

lemma sample_manage_simps [simp]:
  "mnr_NameID (sample_manage t) = Some sample_nid" "mnr_Terminate (sample_manage t) = t"
  "manage_body (sample_manage_profile t i) = Some (sample_request (ManageNameIDRequest (sample_manage t)), sample_manage t)"
  "prf_identity (sample_manage_profile t i) = i" "prf_server (sample_manage_profile t i) = Some sample_server"
  "prf_signature_verify_hint (sample_manage_profile t i) = VERIFY_HINT_MAYBE"
  by (simp_all add: sample_manage_def lasso_samlp2_manage_name_id_request_new_def sample_manage_profile_def manage_body_def)

lemma sample_manage_validate:
  assumes "i \<noteq> None"
  obtains q where "lasso_saml20_profile_validate_request sample_env sample_io ''u'' (sample_manage_profile t i) True
      (lasso_samlp2_status_response_new ManageNameIDResponse) = (0, q, Some sample_provider)"
    "fst (lasso_saml20_profile_init_response sample_env sample_io ''u'' ((sample_manage_profile t i)\<lparr>prf_remote_providerID := prf_remote_providerID q\<rparr>)
       (lasso_samlp2_status_response_new ManageNameIDResponse) (Some LASSO_SAML2_STATUS_CODE_SUCCESS) None) = 0"
    "prf_identity q = i" "manage_body q = Some (sample_request (ManageNameIDRequest (sample_manage t)), sample_manage t)"
proof -
  let ?p = "(sample_manage_profile t i)\<lparr>prf_remote_providerID := Some ''idp''\<rparr>"
  let ?i = "\<lambda>p. lasso_saml20_profile_init_response sample_env sample_io ''u'' p
      (lasso_samlp2_status_response_new ManageNameIDResponse) (Some LASSO_SAML2_STATUS_CODE_SUCCESS) None"
  have z: "fst (?i ((sample_manage_profile t i)\<lparr>prf_remote_providerID := r\<rparr>)) = 0" for r
    by (rule sample_init_response) (simp add: sample_manage_profile_def)
  obtain q where q: "?i ?p = (0, q)" using z[of "Some ''idp''"] by (cases "?i ?p") simp
  have f: "only_response ?p q" using init_response_only[of ?p sample_env sample_io "''u''"
      "lasso_samlp2_status_response_new ManageNameIDResponse" "Some LASSO_SAML2_STATUS_CODE_SUCCESS" None] by (simp add: q)
  have fields: "prf_identity q = i" "prf_request q = prf_request (sample_manage_profile t i)" "prf_signature_status q = 0"
    using only_response_fields[OF f] by (simp_all add: sample_manage_profile_def)
  have v: "lasso_saml20_profile_validate_request sample_env sample_io ''u'' (sample_manage_profile t i) True
      (lasso_samlp2_status_response_new ManageNameIDResponse) = (0, q, Some sample_provider)"
    using q assms fields(3) unfolding lasso_saml20_profile_validate_request_def
    by (simp add: sample_manage_profile_def get_provider_def)
  have "manage_body q = Some (sample_request (ManageNameIDRequest (sample_manage t)), sample_manage t)"
    using fields(2) by (simp add: manage_body_def sample_manage_profile_def)
  with v z fields(1) show ?thesis by (rule that)
qed

lemma sample_manage_federation:
  "prv_ProviderID sample_provider = Some ''idp''"
  "lasso_identity_get_federation (Some sample_federated) (Some ''idp'') = Some (sample_federation\<lparr>fed_remote_providerID := ''idp''\<rparr>)"
  "lasso_federation_verify_name_identifier (sample_federation\<lparr>fed_remote_providerID := ''idp''\<rparr>) (Some (Saml2NameID sample_nid)) = Some True"
  by (simp_all add: sample_provider_def lasso_identity_get_federation_def sample_federated_def ght_lookup_def sample_federation_def
      lasso_federation_verify_name_identifier_def federation_content_matches_def)

lemma sample_manage_accepted:
  obtains p' where "lasso_name_id_management_validate_request sample_env sample_io ''u'' (sample_manage_profile True (Some sample_federated)) = Some (0, p')"
proof -
  obtain q where q: "lasso_saml20_profile_validate_request sample_env sample_io ''u'' (sample_manage_profile True (Some sample_federated)) True
      (lasso_samlp2_status_response_new ManageNameIDResponse) = (0, q, Some sample_provider)"
    "prf_identity q = Some sample_federated" "manage_body q = Some (sample_request (ManageNameIDRequest (sample_manage True)), sample_manage True)"
    by (rule sample_manage_validate[of "Some sample_federated"]) simp_all
  then show ?thesis
    using that by (simp add: lasso_name_id_management_validate_request_def sample_manage_federation)
qed



theorem manage_name_id_unfederated_reports_success_witness:
  "\<exists>q. lasso_name_id_management_validate_request sample_env sample_io ''u'' (sample_manage_profile True (Some lasso_identity_new)) =
     Some (LASSO_PROFILE_ERROR_FEDERATION_NOT_FOUND, q)"
proof -
  obtain q where q: "lasso_saml20_profile_validate_request sample_env sample_io ''u'' (sample_manage_profile True (Some lasso_identity_new)) True
      (lasso_samlp2_status_response_new ManageNameIDResponse) = (0, q, Some sample_provider)"
    "fst (lasso_saml20_profile_init_response sample_env sample_io ''u'' ((sample_manage_profile True (Some lasso_identity_new))\<lparr>prf_remote_providerID := prf_remote_providerID q\<rparr>)
       (lasso_samlp2_status_response_new ManageNameIDResponse) (Some LASSO_SAML2_STATUS_CODE_SUCCESS) None) = 0"
    by (rule sample_manage_validate[of "Some lasso_identity_new"]) simp_all
  have "lasso_identity_get_federation (prf_identity (sample_manage_profile True (Some lasso_identity_new))) (prv_ProviderID sample_provider) = None"
    by (simp add: lasso_identity_get_federation_def lasso_identity_new_def ght_lookup_def split: option.split)
  from manage_name_id_unfederated_reports_success[OF q this] show ?thesis by blast
qed

theorem manage_name_id_terminated_both_sides_witness:
  "\<exists>io p1 p2.
     lasso_name_id_management_validate_request sample_env sample_io ''u'' (sample_manage_profile True (Some sample_federated)) = Some (0, p1) \<and>
     lasso_name_id_management_process_response_msg sample_env io (sample_manage_profile True (Some sample_federated)) sample_query_msg = Some (0, p2) \<and>
     lasso_identity_get_federation (prf_identity p1) (Some ''idp'') = None \<and>
     lasso_identity_get_federation (prf_identity p2) (prf_remote_providerID p2) = None"
proof -
  let ?io = "sample_io\<lparr>mio_init_response := \<lambda>_ _. (0, sample_response ManageNameIDResponse, None)\<rparr>"
  let ?p = "sample_manage_profile True (Some sample_federated)"
  obtain p1 where v: "lasso_name_id_management_validate_request sample_env sample_io ''u'' ?p = Some (0, p1)"
    by (rule sample_manage_accepted)
  have g: "lasso_server_get_provider (Some sample_server) (Some ''idp'') = Some sample_provider"
    by (simp add: lasso_server_get_provider_def sample_server_def ght_lookup_def)
  have a: "lasso_saml20_profile_process_any_response sample_env ?io ?p ''ManageNameIDResponse'' None sample_query_msg =
      (0, ?p\<lparr>prf_response := Some (ResponseNode (sample_response ManageNameIDResponse)), prf_remote_providerID := Some ''idp'',
        prf_signature_status := 0\<rparr>, None)"
    using g by (simp add: lasso_saml20_profile_process_any_response_def any_response_rc_def Let_def)
  obtain p2 where r: "lasso_name_id_management_process_response_msg sample_env ?io ?p sample_query_msg = Some (0, p2)"
    using a by (simp add: lasso_name_id_management_process_response_msg_def lasso_saml20_profile_check_signature_status_def
        sample_manage_profile_def manage_body_def)
  have g1: "lasso_server_get_provider (prf_server ?p) (nid_content (lasso_saml2_name_id_new_with_string (Some ''idp''))) = Some sample_provider" by simp
  from manage_name_id_terminated_both_sides[OF v r _ _ _ sample_federated_inv sample_request_simps(1) g1] v r show ?thesis
    by (auto simp: sample_manage_federation)
qed

end
