(* ===== verification/Lasso_Login.thy ===== *)
theory Lasso_Login
  imports Lasso_NameIdManagement
begin

text \<open>
  Single sign-on at the service provider, \<^verbatim>\<open>lasso/saml-2.0/login.c\<close>: asking an identity provider to authenticate the
  principal, and receiving its response through HTTP-POST, an artifact or PAOS, with the checks of signatures,
  issuers and request identifiers, and the acceptance into the session and the identity of the principal.
\<close>

section \<open>State\<close>

abbreviation (input) LASSO_LOGIN_PROTOCOL_PROFILE_BRWS_ART :: int where "LASSO_LOGIN_PROTOCOL_PROFILE_BRWS_ART \<equiv> 1"
abbreviation (input) LASSO_LOGIN_PROTOCOL_PROFILE_BRWS_POST :: int where "LASSO_LOGIN_PROTOCOL_PROFILE_BRWS_POST \<equiv> 2"
abbreviation (input) LASSO_LOGIN_PROTOCOL_PROFILE_BRWS_LECP :: int where "LASSO_LOGIN_PROTOCOL_PROFILE_BRWS_LECP \<equiv> 3"
abbreviation (input) LASSO_LOGIN_PROTOCOL_PROFILE_REDIRECT :: int where "LASSO_LOGIN_PROTOCOL_PROFILE_REDIRECT \<equiv> 4"

record lasso_login =
  lgn_parent :: lasso_profile
  lgn_protocolProfile :: int
  lgn_assertionArtifact :: cstr
  lgn_nameIDPolicy :: cstr
  lgn_http_method :: int
  lgn_saml2_assertion :: "saml2_assertion option"
  lgn_request_id :: cstr
  lgn_assertion :: "saml_assertion option"
  lgn_soap_request_msg :: cstr

definition lasso_login_new :: "lasso_server \<Rightarrow> lasso_login" where
  "lasso_login_new server = \<lparr>lgn_parent = profile_new (Some server), lgn_protocolProfile = 0, lgn_assertionArtifact = None,
     lgn_nameIDPolicy = None, lgn_http_method = LASSO_HTTP_METHOD_ANY, lgn_saml2_assertion = None, lgn_request_id = None,
     lgn_assertion = None, lgn_soap_request_msg = None\<rparr>"

definition authn_body :: "lasso_profile \<Rightarrow> (request_abstract \<times> authn_request) option" where
  "authn_body p =
     (case prf_request p of
        Some (RequestNode r) \<Rightarrow> (case req_body r of AuthnRequest a \<Rightarrow> Some (r, a) | _ \<Rightarrow> None)
      | _ \<Rightarrow> None)"

definition set_authn_body :: "authn_request \<Rightarrow> lasso_profile \<Rightarrow> lasso_profile" where
  "set_authn_body a p =
     (case prf_request p of
        Some (RequestNode r) \<Rightarrow> p\<lparr>prf_request := Some (RequestNode (r\<lparr>req_body := AuthnRequest a\<rparr>))\<rparr>
      | _ \<Rightarrow> p)"

text \<open>The artifact bindings also keep the artifact in the login object.\<close>

definition keep_artifact :: "int \<Rightarrow> lasso_login \<Rightarrow> int \<times> lasso_profile \<Rightarrow> int \<times> lasso_login" where
  "keep_artifact http_method lg r =
     (case r of (rc, p) \<Rightarrow>
        (rc, lg\<lparr>lgn_parent := p,
                lgn_assertionArtifact :=
                  (if rc = 0 \<and> http_method \<in> {LASSO_HTTP_METHOD_ARTIFACT_GET, LASSO_HTTP_METHOD_ARTIFACT_POST}
                   then prf_artifact p else lgn_assertionArtifact lg)\<rparr>))"

section \<open>Signature policies\<close>

definition want_authn_request_signed :: "lasso_provider \<Rightarrow> bool" where
  "want_authn_request_signed p =
     (lasso_provider_get_metadata_one_for_role p LASSO_PROVIDER_ROLE_IDP LASSO_SAML2_METADATA_ATTRIBUTE_WANT_AUTHN_REQUEST_SIGNED = Some ''true'')"

definition authn_request_signed :: "lasso_provider \<Rightarrow> bool" where
  "authn_request_signed p =
     (lasso_provider_get_metadata_one_for_role p LASSO_PROVIDER_ROLE_SP LASSO_SAML2_METADATA_ATTRIBUTE_AUTHN_REQUEST_SIGNED = Some ''true'')"

definition lasso_login_must_sign_non_authn_request :: "message_io \<Rightarrow> lasso_profile \<Rightarrow> bool" where
  "lasso_login_must_sign_non_authn_request io p =
     (case prf_signature_hint p of
        SIGNATURE_HINT_MAYBE \<Rightarrow> mio_add_signature io | SIGNATURE_HINT_FORCE \<Rightarrow> True | SIGNATURE_HINT_FORBID \<Rightarrow> False)"

definition lasso_login_must_sign :: "lasso_profile \<Rightarrow> bool" where
  "lasso_login_must_sign p =
     (case prf_signature_hint p of
        SIGNATURE_HINT_MAYBE \<Rightarrow>
          pred_option (\<lambda>s. authn_request_signed (srv_parent s)) (prf_server p) \<and> prf_server p \<noteq> None \<or>
          (case lasso_server_get_provider (prf_server p) (prf_remote_providerID p) of
             None \<Rightarrow> False | Some r \<Rightarrow> want_authn_request_signed r)
      | SIGNATURE_HINT_FORCE \<Rightarrow> True
      | SIGNATURE_HINT_FORBID \<Rightarrow> False)"

definition lasso_login_must_verify_authn_request_signature :: "lasso_profile \<Rightarrow> bool" where
  "lasso_login_must_verify_authn_request_signature p =
     (case prf_signature_verify_hint p of
        VERIFY_HINT_MAYBE \<Rightarrow>
          (case prf_server p of None \<Rightarrow> False | Some s \<Rightarrow> want_authn_request_signed (srv_parent s)) \<or>
          (case lasso_server_get_provider (prf_server p) (prf_remote_providerID p) of
             None \<Rightarrow> False | Some r \<Rightarrow> authn_request_signed r)
      | VERIFY_HINT_IGNORE \<Rightarrow> False
      | VERIFY_HINT_FORCE \<Rightarrow> True)"

section \<open>The authentication request\<close>

definition lasso_saml20_login_init_authn_request ::
  "environment \<Rightarrow> message_io \<Rightarrow> string \<Rightarrow> lasso_login \<Rightarrow> int \<Rightarrow> int \<times> lasso_login" where
  "lasso_saml20_login_init_authn_request env io uid lg http_method =
     (let (rc, p) = lasso_saml20_profile_init_request env io uid (lgn_parent lg) (prf_remote_providerID (lgn_parent lg)) False
            (lasso_samlp2_request_abstract_new (AuthnRequest lasso_samlp2_authn_request_new)) http_method SINGLE_SIGN_ON
      in if rc \<noteq> 0 then (rc, lg\<lparr>lgn_parent := p\<rparr>)
         else
           let default_format = (case prf_server p of
                   None \<Rightarrow> None
                 | Some s \<Rightarrow> lasso_provider_get_metadata_one_for_role (srv_parent s) LASSO_PROVIDER_ROLE_SP ''NameIDFormat'');
               a = lasso_samlp2_authn_request_new\<lparr>anr_NameIDPolicy := Some (lasso_samlp2_name_id_policy_new\<lparr>nip_Format :=
                     (case default_format of None \<Rightarrow> Some LASSO_SAML2_NAME_IDENTIFIER_FORMAT_TRANSIENT | f \<Rightarrow> f)\<rparr>)\<rparr>
           in (0, lg\<lparr>lgn_parent := set_authn_body a p, lgn_http_method := prf_http_request_method p,
                     lgn_request_id := (case prf_request p of Some (RequestNode r) \<Rightarrow> req_ID r | _ \<Rightarrow> None)\<rparr>))"

definition lasso_saml20_login_build_authn_request_msg ::
  "environment \<Rightarrow> message_io \<Rightarrow> 8 word list \<Rightarrow> lasso_login \<Rightarrow> int \<times> lasso_login" where
  "lasso_saml20_login_build_authn_request_msg env io rnd lg =
     (let p = lgn_parent lg in
      case authn_body p of
        None \<Rightarrow> (LASSO_PROFILE_ERROR_INVALID_REQUEST, lg)
      | Some (r, a) \<Rightarrow>
          (let p = (if lasso_login_must_sign p then p else p\<lparr>prf_request := map_option lasso_node_remove_signature (prf_request p)\<rparr>);
               m = (if lgn_http_method lg = LASSO_HTTP_METHOD_SOAP \<and> anr_ProtocolBinding a = Some LASSO_SAML2_METADATA_BINDING_PAOS
                    then LASSO_HTTP_METHOD_PAOS else lgn_http_method lg);
               lg = lg\<lparr>lgn_parent := p, lgn_http_method := m\<rparr>
           in if m = LASSO_HTTP_METHOD_PAOS
              then (case prf_server p of
                      None \<Rightarrow> (LASSO_PROFILE_ERROR_MISSING_SERVER, lg)
                    | Some s \<Rightarrow>
                        (case anr_AssertionConsumerServiceURL a of
                           Some url \<Rightarrow>
                             if \<not> lasso_saml20_provider_check_assertion_consumer_service_url (srv_parent s) (Some url)
                                    (Some LASSO_SAML2_METADATA_BINDING_PAOS)
                             then (LASSO_PROFILE_ERROR_INVALID_REQUEST, lg)
                             else keep_artifact m lg (lasso_saml20_profile_build_request_msg env io rnd p ''SingleSignOnService'' m (Some url))
                         | None \<Rightarrow>
                             (let url = lasso_saml20_provider_get_assertion_consumer_service_url_by_binding (srv_parent s)
                                          (Some LASSO_SAML2_METADATA_BINDING_PAOS);
                                  p = set_authn_body (a\<lparr>anr_AssertionConsumerServiceURL := url\<rparr>) p
                              in keep_artifact m lg (lasso_saml20_profile_build_request_msg env io rnd p ''SingleSignOnService'' m url))))
              else keep_artifact m lg (lasso_saml20_profile_build_request_msg env io rnd p ''SingleSignOnService'' m None)))"

section \<open>Checking the response\<close>

definition lasso_saml20_login_check_assertion_signature :: "environment \<Rightarrow> lasso_profile \<Rightarrow> saml2_assertion \<Rightarrow> int" where
  "lasso_saml20_login_check_assertion_signature env p a =
     (case prf_server p of
        None \<Rightarrow> LASSO_PROFILE_ERROR_MISSING_SERVER
      | Some server \<Rightarrow>
          (case asn_Issuer a of
             None \<Rightarrow> LASSO_PROFILE_ERROR_MISSING_ISSUER
           | Some issuer \<Rightarrow>
               if nid_content issuer = None \<or> \<not> lasso_saml20_is_valid_issuer (Some issuer) then LASSO_PROFILE_ERROR_MISSING_ISSUER
               else case lasso_server_get_provider (Some server) (nid_content issuer) of
                      None \<Rightarrow> LASSO_SERVER_ERROR_PROVIDER_NOT_FOUND
                    | Some r \<Rightarrow>
                        if asn_original_xmlnode a = None then LASSO_PROFILE_ERROR_CANNOT_VERIFY_SIGNATURE
                        else lasso_provider_verify_saml_signature (env_crypto env) (env_verify_signature env) r (asn_original_xmlnode a)))"

text \<open>Assertions that do not decrypt are left out; the return code is not looked at by the caller.\<close>

definition lasso_saml20_login_decrypt_assertion ::
  "message_io \<Rightarrow> lasso_profile \<Rightarrow> saml2_assertion list \<Rightarrow> encrypted_element list \<Rightarrow> saml2_assertion list" where
  "lasso_saml20_login_decrypt_assertion io p assertions encrypted =
     (let keys = (case prf_server p of None \<Rightarrow> [] | Some s \<Rightarrow> lasso_server_get_encryption_private_keys s)
      in if keys = [] then assertions
         else assertions @ List.map_filter
                (\<lambda>e. case try_private_keys (mio_decrypt_assertion io) e 0 keys of (rc, a) \<Rightarrow> if rc \<noteq> 0 then None else a) encrypted)"

definition lasso_check_assertion_issuer :: "saml2_assertion \<Rightarrow> cstr \<Rightarrow> bool" where
  "lasso_check_assertion_issuer a provider_id =
     (provider_id \<noteq> None \<and> (case asn_Issuer a of None \<Rightarrow> False | Some i \<Rightarrow> nid_content i \<noteq> None \<and> nid_content i = provider_id))"

text \<open>Which result of the check of an assertion's signature is an error, given the state of the signature of
  the response: \<open>status\<close> is 0 or that none was found.\<close>

definition assertion_signature_rc :: "signature_verify_hint \<Rightarrow> int \<Rightarrow> int \<Rightarrow> int" where
  "assertion_signature_rc verify_hint status assertion_status =
     (if status \<noteq> 0
      then (if verify_hint = VERIFY_HINT_MAYBE then assertion_status else 0)
      else if assertion_status \<noteq> 0
      then (case verify_hint of
              VERIFY_HINT_FORCE \<Rightarrow> assertion_status
            | VERIFY_HINT_MAYBE \<Rightarrow> if assertion_status \<noteq> LASSO_DS_ERROR_SIGNATURE_NOT_FOUND then assertion_status else 0
            | VERIFY_HINT_IGNORE \<Rightarrow> 0)
      else 0)"

definition check_assertion ::
  "environment \<Rightarrow> message_io \<Rightarrow> cstr \<Rightarrow> lasso_profile \<Rightarrow> saml2_assertion \<Rightarrow> int \<times> lasso_profile \<times> saml2_assertion" where
  "check_assertion env io request_id p a =
     (if \<not> lasso_check_assertion_issuer a (prf_remote_providerID p) then (LASSO_PROFILE_ERROR_INVALID_ISSUER, p, a)
      else
        let rc = assertion_signature_rc (prf_signature_verify_hint p) (prf_signature_status p)
                   (lasso_saml20_login_check_assertion_signature env p a)
        in if rc \<noteq> 0 then (rc, p, a)
           else case asn_Subject a of
                  None \<Rightarrow> (LASSO_PROFILE_ERROR_MISSING_SUBJECT, p, a)
                | Some subject \<Rightarrow>
                    if request_id \<noteq> None \<and> lasso_strisnotequal (lasso_saml2_assertion_get_in_response_to a) request_id
                    then (LASSO_LOGIN_ERROR_ASSERTION_DOES_NOT_MATCH_REQUEST_ID, p, a)
                    else case lasso_saml20_profile_process_name_identifier_decryption io p (sb_NameID subject) (sb_EncryptedID subject) of
                           (rc, p, n, e) \<Rightarrow> (rc, p, a\<lparr>asn_Subject := Some (subject\<lparr>sb_NameID := n, sb_EncryptedID := e\<rparr>)\<rparr>))"

fun check_assertions ::
  "environment \<Rightarrow> message_io \<Rightarrow> cstr \<Rightarrow> lasso_profile \<Rightarrow> saml2_assertion list \<Rightarrow> int \<times> lasso_profile \<times> saml2_assertion list" where
  "check_assertions env io request_id p [] = (0, p, [])"
| "check_assertions env io request_id p (a # as) =
     (case check_assertion env io request_id p a of
        (rc, p, a) \<Rightarrow>
          if rc \<noteq> 0 then (rc, p, a # as)
          else case check_assertions env io request_id p as of (rc, p, as) \<Rightarrow> (rc, p, a # as))"

text \<open>The code of a status that is not Success.\<close>

definition login_status_rc :: "status_code \<Rightarrow> int" where
  "login_status_rc c =
     (if sc_Value c = Some LASSO_SAML2_STATUS_CODE_SUCCESS then 0
      else if sc_Value c = Some LASSO_SAML2_STATUS_CODE_REQUEST_DENIED then LASSO_LOGIN_ERROR_REQUEST_DENIED
      else if sc_Value c \<in> {Some LASSO_SAML2_STATUS_CODE_RESPONDER, Some LASSO_SAML2_STATUS_CODE_REQUESTER}
      then (case sc_StatusCode c of
              None \<Rightarrow> LASSO_LOGIN_ERROR_STATUS_NOT_SUCCESS
            | Some c2 \<Rightarrow>
                if sc_Value c2 = Some LASSO_LIB_STATUS_CODE_FEDERATION_DOES_NOT_EXIST then LASSO_LOGIN_ERROR_FEDERATION_NOT_FOUND
                else if sc_Value c2 = Some LASSO_LIB_STATUS_CODE_UNKNOWN_PRINCIPAL then LASSO_LOGIN_ERROR_UNKNOWN_PRINCIPAL
                else LASSO_LOGIN_ERROR_STATUS_NOT_SUCCESS)
      else LASSO_LOGIN_ERROR_STATUS_NOT_SUCCESS)"

definition lasso_saml20_login_process_response_status_and_assertion ::
  "environment \<Rightarrow> message_io \<Rightarrow> lasso_login \<Rightarrow> int \<times> lasso_login" where
  "lasso_saml20_login_process_response_status_and_assertion env io lg =
     (let p = lgn_parent lg in
      case prf_response p of
        Some (ResponseNode response) \<Rightarrow>
          (case rsp_body response of
             Samlp2Response assertions encrypted \<Rightarrow>
               (case top_status response of
                  None \<Rightarrow> (LASSO_PROFILE_ERROR_MISSING_STATUS_CODE, lg)
                | Some code \<Rightarrow>
                    if sc_Value code = None then (LASSO_PROFILE_ERROR_MISSING_STATUS_CODE, lg)
                    else if login_status_rc code \<noteq> 0 then (login_status_rc code, lg)
                    else
                      let clear = lasso_saml20_login_decrypt_assertion io p assertions encrypted;
                          with = (\<lambda>p as. p\<lparr>prf_response := Some (ResponseNode (response\<lparr>rsp_body := Samlp2Response as encrypted\<rparr>))\<rparr>);
                          p = with p clear
                      in if clear = [] then (LASSO_PROFILE_ERROR_MISSING_ASSERTION, lg\<lparr>lgn_parent := p\<rparr>)
                         else if prf_signature_status p = LASSO_DS_ERROR_SIGNATURE_NOT_FOUND \<and> prf_signature_verify_hint p = VERIFY_HINT_FORCE \<or>
                                 prf_signature_status p \<noteq> LASSO_DS_ERROR_SIGNATURE_NOT_FOUND \<and> prf_signature_status p \<noteq> 0
                         then (prf_signature_status p, lg\<lparr>lgn_parent := p\<rparr>)
                         else case check_assertions env io (lgn_request_id lg) p clear of
                                (rc, p, as) \<Rightarrow>
                                  if rc \<noteq> 0 then (rc, lg\<lparr>lgn_parent := with p as\<rparr>)
                                  else (0, lg\<lparr>lgn_parent := (with p as)\<lparr>prf_signature_status := 0\<rparr>,
                                              lgn_saml2_assertion := Some (last as)\<rparr>))
           | _ \<Rightarrow> (LASSO_PROFILE_ERROR_INVALID_MSG, lg))
      | _ \<Rightarrow> (LASSO_PROFILE_ERROR_INVALID_MSG, lg))"

section \<open>Receiving the response\<close>

definition lasso_saml20_login_process_authn_response_msg ::
  "environment \<Rightarrow> message_io \<Rightarrow> lasso_login \<Rightarrow> string \<Rightarrow> int \<times> lasso_login" where
  "lasso_saml20_login_process_authn_response_msg env io lg msg =
     (case lasso_saml20_profile_process_any_response env io (lgn_parent lg) ''Response'' (Some LASSO_HTTP_METHOD_NONE) msg of
        (rc, p, m) \<Rightarrow>
          (let lg = lg\<lparr>lgn_parent := p\<rparr> in
           if m \<noteq> Some LASSO_HTTP_METHOD_POST then (LASSO_PROFILE_ERROR_UNSUPPORTED_PROFILE, lg)
           else if rc \<notin> {0, LASSO_LOGIN_ERROR_STATUS_NOT_SUCCESS, LASSO_PROFILE_ERROR_CANNOT_VERIFY_SIGNATURE} then (rc, lg)
           else lasso_saml20_login_process_response_status_and_assertion env io lg))"

text \<open>The elements of the SOAP header that PAOS defines are read by \<open>headers\<close>: the relay state and the message
  identifier.\<close>

definition lasso_saml20_login_process_paos_response_msg ::
  "environment \<Rightarrow> message_io \<Rightarrow> (xml \<Rightarrow> cstr option \<times> cstr option) \<Rightarrow> lasso_login \<Rightarrow> string \<Rightarrow> int \<times> lasso_login" where
  "lasso_saml20_login_process_paos_response_msg env io headers lg msg =
     (case lasso_saml20_profile_process_soap_response_with_headers env io (lgn_parent lg) msg of
        (rc, p, header) \<Rightarrow>
          if rc \<noteq> 0 \<and> rc \<noteq> LASSO_DS_ERROR_SIGNATURE_NOT_FOUND then (rc, lg\<lparr>lgn_parent := p\<rparr>)
          else
            let p = (case header of
                       None \<Rightarrow> p
                     | Some h \<Rightarrow>
                         (case headers h of (relay, ident) \<Rightarrow>
                            p\<lparr>prf_msg_relayState := (case relay of None \<Rightarrow> prf_msg_relayState p | Some r \<Rightarrow> r),
                              prf_message_id := (case ident of None \<Rightarrow> prf_message_id p | Some i \<Rightarrow> i)\<rparr>))
            in lasso_saml20_login_process_response_status_and_assertion env io (lg\<lparr>lgn_parent := p\<rparr>))"

definition lasso_saml20_login_init_request ::
  "environment \<Rightarrow> message_io \<Rightarrow> string \<Rightarrow> 8 word list \<Rightarrow> lasso_login \<Rightarrow> string \<Rightarrow> int \<Rightarrow> int \<times> lasso_login" where
  "lasso_saml20_login_init_request env io uid stack lg msg http_method =
     (case lasso_saml20_profile_init_artifact_resolve env io uid stack (lgn_parent lg) LASSO_PROVIDER_ROLE_IDP msg http_method of
        (rc, p) \<Rightarrow> (rc, lg\<lparr>lgn_parent := p\<rparr>))"

definition lasso_saml20_login_build_request_msg ::
  "environment \<Rightarrow> message_io \<Rightarrow> 8 word list \<Rightarrow> lasso_login \<Rightarrow> int \<times> lasso_login" where
  "lasso_saml20_login_build_request_msg env io rnd lg =
     (let p = lgn_parent lg;
          (rc, p) = (if lasso_login_must_sign_non_authn_request io p then sign_request env io p
                     else (0, p\<lparr>prf_request := map_option lasso_node_remove_signature (prf_request p)\<rparr>))
      in if rc \<noteq> 0 then (rc, lg\<lparr>lgn_parent := p\<rparr>)
         else case lasso_saml20_profile_build_request_msg env io rnd p ''ArtifactResolutionService'' LASSO_HTTP_METHOD_SOAP (prf_msg_url p) of
                (rc, p) \<Rightarrow> (rc, lg\<lparr>lgn_parent := p\<rparr>))"

text \<open>The public function clears the URL and the body of the profile first.\<close>

definition lasso_login_build_request_msg ::
  "environment \<Rightarrow> message_io \<Rightarrow> 8 word list \<Rightarrow> lasso_login \<Rightarrow> int \<times> lasso_login" where
  "lasso_login_build_request_msg env io rnd lg =
     lasso_saml20_login_build_request_msg env io rnd (lg\<lparr>lgn_parent := lasso_profile_clean_msg_info (lgn_parent lg)\<rparr>)"

section \<open>Accepting the single sign-on\<close>

definition lasso_saml20_login_accept_sso :: "message_io \<Rightarrow> lasso_login \<Rightarrow> int \<times> lasso_login" where
  "lasso_saml20_login_accept_sso io lg =
     (let p = lgn_parent lg in
      case prf_response p of
        Some (ResponseNode response) \<Rightarrow>
          (case rsp_body response of
             Samlp2Response (a # _) _ \<Rightarrow>
               if list_ex (\<lambda>i. Some i = asn_ID a) (lasso_session_get_assertion_ids (prf_session p) (prf_remote_providerID p))
               then (LASSO_LOGIN_ERROR_ASSERTION_REPLAY, lg)
               else
                 let p = p\<lparr>prf_session := snd (lasso_session_add_assertion (mio_thin_sessions io) (prf_session p)
                              (prf_remote_providerID p) (Some (Saml2Assertion a)))\<rparr>
                 in case Option.bind (asn_Subject a) sb_NameID of
                      None \<Rightarrow> (LASSO_PROFILE_ERROR_MISSING_NAME_IDENTIFIER, lg\<lparr>lgn_parent := p\<rparr>)
                    | Some ni \<Rightarrow>
                        if nid_Format ni = Some LASSO_SAML2_NAME_IDENTIFIER_FORMAT_PERSISTENT
                        then (0, lg\<lparr>lgn_parent := p\<lparr>prf_identity := snd (lasso_identity_add_federation (prf_identity p)
                               (map_option (\<lambda>f. f\<lparr>fed_local_nameIdentifier := Some (Saml2NameID ni)\<rparr>)
                                  (lasso_federation_new (prf_remote_providerID p))))\<rparr>\<rparr>)
                        else (0, lg\<lparr>lgn_parent := p\<rparr>)
           | _ \<Rightarrow> (LASSO_PROFILE_ERROR_MISSING_ASSERTION, lg))
      | _ \<Rightarrow> (LASSO_PROFILE_ERROR_MISSING_ASSERTION, lg))"

text \<open>The public function, for a SAML 2.0 server.\<close>

definition lasso_login_accept_sso :: "message_io \<Rightarrow> lasso_login \<Rightarrow> int \<times> lasso_login" where
  "lasso_login_accept_sso io lg =
     (let p = lgn_parent lg;
          p = p\<lparr>prf_identity := (case prf_identity p of None \<Rightarrow> Some lasso_identity_new | i \<Rightarrow> i),
                prf_session := (case prf_session p of None \<Rightarrow> Some lasso_session_new | s \<Rightarrow> s)\<rparr>;
          lg = lg\<lparr>lgn_parent := p\<rparr>
      in if prf_response p = None then (LASSO_PROFILE_ERROR_MISSING_RESPONSE, lg)
         else lasso_saml20_login_accept_sso io lg)"

section \<open>What an accepted response guarantees\<close>

lemma any_response_signature:
  assumes r: "lasso_saml20_profile_process_any_response env io p kind rm msg = (rc, p', m)"
    and c: "rc \<in> {0, LASSO_LOGIN_ERROR_STATUS_NOT_SUCCESS, LASSO_PROFILE_ERROR_CANNOT_VERIFY_SIGNATURE}"
    and q: "parse_response env io kind msg = (format, content, response, any)"
  obtains server issuer remote where
    "prf_server p = Some server" "rsp_Issuer response = Some issuer"
    "lasso_server_get_provider (Some server) (nid_content issuer) = Some remote"
    "response_status_rc response = 0" "rm \<noteq> None \<longrightarrow> m = format_method format"
    "prf_signature_status p' = 0 \<longleftrightarrow> message_verified env remote format content msg"
    "p' = p\<lparr>prf_response := Some (ResponseNode response), prf_remote_providerID := nid_content issuer,
       prf_signature_status := prf_signature_status p'\<rparr>"
proof -
  note d = r[unfolded lasso_saml20_profile_process_any_response_def q Let_def prod.case]
  show ?thesis
    using d c by (auto simp: any_response_rc_def message_verified_def response_status_rc_def intro!: that dest!: valid_issuer_content
        split: if_splits option.splits status_code.splits)
qed

lemma check_assertion_signature_server:
  "prf_server p = prf_server q \<Longrightarrow>
     lasso_saml20_login_check_assertion_signature env p a = lasso_saml20_login_check_assertion_signature env q a"
  by (simp add: lasso_saml20_login_check_assertion_signature_def)

lemma decrypt_assertion_server:
  "prf_server p = prf_server q \<Longrightarrow> lasso_saml20_login_decrypt_assertion io p = lasso_saml20_login_decrypt_assertion io q"
  by (simp add: lasso_saml20_login_decrypt_assertion_def fun_eq_iff)

lemma name_decryption_frame:
  assumes "lasso_saml20_profile_process_name_identifier_decryption io p n e = (rc, p', n', e')"
  shows "p' = p\<lparr>prf_nameIdentifier := prf_nameIdentifier p'\<rparr>"
  using assms unfolding lasso_saml20_profile_process_name_identifier_decryption_def
  by (auto simp: Let_def split: option.splits prod.splits if_splits name_identifier.splits)

text \<open>The conditions under which one assertion passes, given the profile at the start of the loop.\<close>

definition assertion_passes :: "environment \<Rightarrow> cstr \<Rightarrow> lasso_profile \<Rightarrow> saml2_assertion \<Rightarrow> bool" where
  "assertion_passes env request_id p a \<longleftrightarrow>
     lasso_check_assertion_issuer a (prf_remote_providerID p) \<and>
     assertion_signature_rc (prf_signature_verify_hint p) (prf_signature_status p)
       (lasso_saml20_login_check_assertion_signature env p a) = 0 \<and>
     asn_Subject a \<noteq> None \<and>
     (request_id \<noteq> None \<longrightarrow> lasso_saml2_assertion_get_in_response_to a = request_id)"

lemma assertion_passes_frame:
  "assertion_passes env request_id (p\<lparr>prf_nameIdentifier := n\<rparr>) = assertion_passes env request_id p"
  by (simp add: assertion_passes_def fun_eq_iff check_assertion_signature_server[of "p\<lparr>prf_nameIdentifier := n\<rparr>" p])

lemma check_assertion_ok:
  assumes "check_assertion env io request_id p a = (0, p', a')"
  shows "assertion_passes env request_id p a \<and> p' = p\<lparr>prf_nameIdentifier := prf_nameIdentifier p'\<rparr> \<and>
    a'\<lparr>asn_Subject := None\<rparr> = a\<lparr>asn_Subject := None\<rparr>"
  using assms unfolding check_assertion_def Let_def
  by (auto simp: assertion_passes_def dest: name_decryption_frame
      split: if_splits option.splits prod.splits)

lemma check_assertions_ok:
  assumes "check_assertions env io request_id p as = (0, p', as')"
  shows "list_all (assertion_passes env request_id p) as \<and> p' = p\<lparr>prf_nameIdentifier := prf_nameIdentifier p'\<rparr> \<and>
    map (asn_Subject_update (\<lambda>_. None)) as' = map (asn_Subject_update (\<lambda>_. None)) as"
  using assms
proof (induction as arbitrary: p as')
  case (Cons a as)
  obtain rc q b where c: "check_assertion env io request_id p a = (rc, q, b)" by (metis surj_pair)
  with Cons.prems have z: "rc = 0" by (auto split: if_splits)
  obtain bs where r: "check_assertions env io request_id q as = (0, p', bs)" "as' = b # bs"
    using Cons.prems c z by (auto split: prod.splits)
  note one = check_assertion_ok[OF c[unfolded z]] and rest = Cons.IH[OF r(1)]
  have q: "q = p\<lparr>prf_nameIdentifier := prf_nameIdentifier q\<rparr>" using one by simp
  have "assertion_passes env request_id q = assertion_passes env request_id p"
    by (subst q) (rule assertion_passes_frame)
  moreover have "p' = p\<lparr>prf_nameIdentifier := prf_nameIdentifier p'\<rparr>"
  proof -
    have "p' = q\<lparr>prf_nameIdentifier := prf_nameIdentifier p'\<rparr>" using rest by simp
    also have "\<dots> = p\<lparr>prf_nameIdentifier := prf_nameIdentifier p'\<rparr>" by (subst q) simp
    finally show ?thesis .
  qed
  ultimately show ?case using one rest r by simp
qed simp


lemma login_status_rc_zero:
  "login_status_rc c = 0 \<longleftrightarrow> sc_Value c = Some LASSO_SAML2_STATUS_CODE_SUCCESS"
  by (auto simp: login_status_rc_def split: option.splits)

lemma assertion_signature_rc_zero:
  "assertion_signature_rc h st a = 0 \<longleftrightarrow>
     (if st \<noteq> 0 then h = VERIFY_HINT_MAYBE \<longrightarrow> a = 0
      else a = 0 \<or> h = VERIFY_HINT_IGNORE \<or> h = VERIFY_HINT_MAYBE \<and> a = LASSO_DS_ERROR_SIGNATURE_NOT_FOUND)"
  by (cases h) (simp_all add: assertion_signature_rc_def)

lemma response_status_and_assertion_ok:
  assumes r: "lasso_saml20_login_process_response_status_and_assertion env io lg = (0, lg')"
    and p: "prf_response (lgn_parent lg) = Some (ResponseNode response)"
  obtains assertions encrypted clear as where
    "rsp_body response = Samlp2Response assertions encrypted"
    "clear = lasso_saml20_login_decrypt_assertion io (lgn_parent lg) assertions encrypted" "clear \<noteq> []"
    "list_all (assertion_passes env (lgn_request_id lg) (lgn_parent lg)) clear"
    "prf_signature_status (lgn_parent lg) = 0 \<or>
     prf_signature_status (lgn_parent lg) = LASSO_DS_ERROR_SIGNATURE_NOT_FOUND \<and> prf_signature_verify_hint (lgn_parent lg) \<noteq> VERIFY_HINT_FORCE"
    "map (asn_Subject_update (\<lambda>_. None)) as = map (asn_Subject_update (\<lambda>_. None)) clear"
    "prf_response (lgn_parent lg') = Some (ResponseNode (response\<lparr>rsp_body := Samlp2Response as encrypted\<rparr>))"
    "lgn_saml2_assertion lg' = Some (last as)"
    "prf_remote_providerID (lgn_parent lg') = prf_remote_providerID (lgn_parent lg)"
proof -
  define P where "P = lgn_parent lg"
  note d = r[unfolded lasso_saml20_login_process_response_status_and_assertion_def p Let_def option.case message_node.case]
  obtain assertions encrypted where b: "rsp_body response = Samlp2Response assertions encrypted"
    using d by (auto split: response_body.splits)
  define clear where "clear = lasso_saml20_login_decrypt_assertion io P assertions encrypted"
  define Q where "Q = P\<lparr>prf_response := Some (ResponseNode (response\<lparr>rsp_body := Samlp2Response clear encrypted\<rparr>))\<rparr>"
  obtain rc p' as where k: "check_assertions env io (lgn_request_id lg) Q clear = (rc, p', as)" by (metis surj_pair)
  have Q: "prf_signature_status Q = prf_signature_status P" "prf_signature_verify_hint Q = prf_signature_verify_hint P"
    by (simp_all add: Q_def)
  have f: "rc = 0 \<and> clear \<noteq> [] \<and>
      (prf_signature_status P = 0 \<or> prf_signature_status P = LASSO_DS_ERROR_SIGNATURE_NOT_FOUND \<and> prf_signature_verify_hint P \<noteq> VERIFY_HINT_FORCE) \<and>
      prf_response (lgn_parent lg') = Some (ResponseNode (response\<lparr>rsp_body := Samlp2Response as encrypted\<rparr>)) \<and>
      lgn_saml2_assertion lg' = Some (last as) \<and> prf_remote_providerID (lgn_parent lg') = prf_remote_providerID p'"
    using d k unfolding b P_def[symmetric]
    by (auto simp: clear_def[symmetric] Q_def[symmetric] Q split: option.splits if_splits)
  have ok: "list_all (assertion_passes env (lgn_request_id lg) Q) clear \<and> p' = Q\<lparr>prf_nameIdentifier := prf_nameIdentifier p'\<rparr> \<and>
      map (asn_Subject_update (\<lambda>_. None)) as = map (asn_Subject_update (\<lambda>_. None)) clear"
    using check_assertions_ok k f by blast
  have "assertion_passes env (lgn_request_id lg) Q = assertion_passes env (lgn_request_id lg) P"
    by (simp add: Q_def assertion_passes_def fun_eq_iff lasso_saml20_login_check_assertion_signature_def)
  moreover have "prf_remote_providerID p' = prf_remote_providerID P"
  proof -
    have "p' = Q\<lparr>prf_nameIdentifier := prf_nameIdentifier p'\<rparr>" using ok by blast
    then have "prf_remote_providerID p' = prf_remote_providerID (Q\<lparr>prf_nameIdentifier := prf_nameIdentifier p'\<rparr>)" by argo
    then show ?thesis by (simp add: Q_def)
  qed
  ultimately show ?thesis
    using that[OF b refl, of as] f ok unfolding P_def clear_def by simp
qed

text \<open>C1: the service provider accepts the response of an authentication, unless signatures are ignored, only when the
  response names a provider it knows as its issuer and has the status Success, when it holds at least one assertion,
  and when every assertion, the decrypted ones included, has that same issuer, a subject and, where a request
  was sent, the identifier of that request.  The whole message is signed by that provider (and, when
  verification is forced, every assertion too), or every single assertion is signed by it.  The response
  keeps exactly these assertions, only the name identifiers of their subjects may have been decrypted, and
  the login object gets the last one.\<close>

theorem authn_response_authenticated:
  assumes "lasso_saml20_login_process_authn_response_msg env io lg msg = (0, lg')"
    and "prf_signature_verify_hint (lgn_parent lg) \<noteq> VERIFY_HINT_IGNORE"
  shows "\<exists>content response any issuer remote assertions encrypted clear as.
    parse_response env io ''Response'' msg = (LASSO_MESSAGE_FORMAT_BASE64, content, response, any) \<and>
    rsp_Issuer response = Some issuer \<and> prf_remote_providerID (lgn_parent lg') = nid_content issuer \<and>
    lasso_server_get_provider (prf_server (lgn_parent lg)) (nid_content issuer) = Some remote \<and>
    (\<exists>sub. top_status response = Some (StatusCode (Some LASSO_SAML2_STATUS_CODE_SUCCESS) sub)) \<and>
    rsp_body response = Samlp2Response assertions encrypted \<and>
    clear = lasso_saml20_login_decrypt_assertion io (lgn_parent lg) assertions encrypted \<and> clear \<noteq> [] \<and>
    (\<forall>a \<in> set clear. lasso_check_assertion_issuer a (nid_content issuer) \<and> asn_Subject a \<noteq> None \<and>
       (lgn_request_id lg \<noteq> None \<longrightarrow> lasso_saml2_assertion_get_in_response_to a = lgn_request_id lg)) \<and>
    (let signed = (\<lambda>a. lasso_saml20_login_check_assertion_signature env (lgn_parent lg) a = 0) in
     message_verified env remote LASSO_MESSAGE_FORMAT_BASE64 content msg \<and>
       (prf_signature_verify_hint (lgn_parent lg) = VERIFY_HINT_FORCE \<longrightarrow> (\<forall>a \<in> set clear. signed a)) \<or>
     (\<forall>a \<in> set clear. signed a)) \<and>
    prf_response (lgn_parent lg') = Some (ResponseNode (response\<lparr>rsp_body := Samlp2Response as encrypted\<rparr>)) \<and>
    map (asn_Subject_update (\<lambda>_. None)) as = map (asn_Subject_update (\<lambda>_. None)) clear \<and>
    lgn_saml2_assertion lg' = Some (last as)"
proof -
  let ?p = "lgn_parent lg"
  obtain rc q m where a: "lasso_saml20_profile_process_any_response env io ?p ''Response'' (Some LASSO_HTTP_METHOD_NONE) msg = (rc, q, m)"
    by (metis surj_pair)
  obtain format content response any where g: "parse_response env io ''Response'' msg = (format, content, response, any)"
    by (metis surj_pair)
  have m: "m = Some LASSO_HTTP_METHOD_POST"
    and rc: "rc \<in> {0, LASSO_LOGIN_ERROR_STATUS_NOT_SUCCESS, LASSO_PROFILE_ERROR_CANNOT_VERIFY_SIGNATURE}"
    and r: "lasso_saml20_login_process_response_status_and_assertion env io (lg\<lparr>lgn_parent := q\<rparr>) = (0, lg')"
    using assms(1) a by (auto simp: lasso_saml20_login_process_authn_response_msg_def Let_def split: if_splits)
  obtain server issuer remote where s: "prf_server ?p = Some server" "rsp_Issuer response = Some issuer"
    "lasso_server_get_provider (Some server) (nid_content issuer) = Some remote" "response_status_rc response = 0"
    and fm: "Some LASSO_HTTP_METHOD_NONE \<noteq> None \<longrightarrow> m = format_method format"
    and v: "prf_signature_status q = 0 \<longleftrightarrow> message_verified env remote format content msg"
    and e: "q = ?p\<lparr>prf_response := Some (ResponseNode response), prf_remote_providerID := nid_content issuer,
       prf_signature_status := prf_signature_status q\<rparr>"
    by (rule any_response_signature[OF a rc g])
  have f: "prf_response q = Some (ResponseNode response)" "prf_remote_providerID q = nid_content issuer" "prf_server q = prf_server ?p"
    "prf_signature_verify_hint q = prf_signature_verify_hint ?p" by (subst e, simp)+
  have fmt: "format = LASSO_MESSAGE_FORMAT_BASE64"
    using fm m by (auto simp: format_method_def split: message_format.splits)
  have sel: "lgn_parent (lg\<lparr>lgn_parent := q\<rparr>) = q" "lgn_request_id (lg\<lparr>lgn_parent := q\<rparr>) = lgn_request_id lg" by simp_all
  obtain assertions encrypted clear as where
    b: "rsp_body response = Samlp2Response assertions encrypted"
    and cl: "clear = lasso_saml20_login_decrypt_assertion io q assertions encrypted" "clear \<noteq> []"
    and ok: "list_all (assertion_passes env (lgn_request_id lg) q) clear"
    and st: "prf_signature_status q = 0 \<or> prf_signature_status q = LASSO_DS_ERROR_SIGNATURE_NOT_FOUND \<and> prf_signature_verify_hint q \<noteq> VERIFY_HINT_FORCE"
    and out: "map (asn_Subject_update (\<lambda>_. None)) as = map (asn_Subject_update (\<lambda>_. None)) clear"
      "prf_response (lgn_parent lg') = Some (ResponseNode (response\<lparr>rsp_body := Samlp2Response as encrypted\<rparr>))"
      "lgn_saml2_assertion lg' = Some (last as)" "prf_remote_providerID (lgn_parent lg') = prf_remote_providerID q"
    by (rule response_status_and_assertion_ok[OF r, unfolded sel, OF f(1)])
  have sig: "signed \<and> (prf_signature_verify_hint ?p = VERIFY_HINT_FORCE \<longrightarrow> (\<forall>a \<in> set clear. lasso_saml20_login_check_assertion_signature env ?p a = 0)) \<or>
      (\<forall>a \<in> set clear. lasso_saml20_login_check_assertion_signature env ?p a = 0)"
    if "signed \<longleftrightarrow> prf_signature_status q = 0" for signed
    using ok st assms(2) that f check_assertion_signature_server[OF f(3), of env]
    by (cases "prf_signature_verify_hint ?p") (auto simp: list_all_iff assertion_passes_def assertion_signature_rc_zero)
  have each: "\<forall>a \<in> set clear. lasso_check_assertion_issuer a (nid_content issuer) \<and> asn_Subject a \<noteq> None \<and>
       (lgn_request_id lg \<noteq> None \<longrightarrow> lasso_saml2_assertion_get_in_response_to a = lgn_request_id lg)"
    using ok f by (auto simp: list_all_iff assertion_passes_def)
  have cl': "clear = lasso_saml20_login_decrypt_assertion io ?p assertions encrypted"
    using cl decrypt_assertion_server[OF f(3)] by simp
  show ?thesis
    using g[unfolded fmt] s f(2) b cl' cl(2) each sig[OF v[symmetric]] out fmt
    by (intro exI[of _ content] exI[of _ response] exI[of _ any] exI[of _ issuer] exI[of _ remote] exI[of _ assertions]
        exI[of _ encrypted] exI[of _ clear] exI[of _ as]) (simp add: response_status_rc_zero Let_def)
qed


section \<open>What accepting the sign-on does\<close>

text \<open>Adding the statements of an assertion records the identifier of the assertion, unless each of its session indexes
  was already recorded for the name identifier.\<close>

lemma nsi_unchanged:
  "list_ex (\<lambda>other. nsi_duplicate other nsi) (nsi_list s p) \<Longrightarrow> lasso_session_add_nid_and_session_index s p nsi = s"
  by (simp add: lasso_session_add_nid_and_session_index_def)

lemma authn_statement_recorded:
  "as_SessionIndex st = Some si \<Longrightarrow> nid_content nid \<noteq> None \<Longrightarrow>
     (\<exists>e \<in> set (nsi_list (add_authn_statement_nsi p nid i st s) p). nsi_assertion_id e = i) \<or>
     add_authn_statement_nsi p nid i st s = s \<and> nsi_known s p (Saml2NameID nid) (Some si)"
  by (cases "list_ex (\<lambda>other. nsi_duplicate other (lasso_new_nid_and_session_index (Saml2NameID nid) i (Some si))) (nsi_list s p)")
    (auto simp: add_authn_statement_nsi_def nsi_list_add nsi_unchanged
      nsi_known_def nsi_duplicate_def list_ex_iff match_name_id_iff lasso_new_nid_and_session_index_def)

lemma authn_statements_recorded:
  assumes "st \<in> set sts" and "as_SessionIndex st = Some si" and "nid_content nid \<noteq> None"
    and "\<not> nsi_known s p (Saml2NameID nid) (Some si)"
  shows "\<exists>e \<in> set (nsi_list (fold (add_authn_statement_nsi p nid i) sts s) p). nsi_assertion_id e = i"
  using assms
proof (induction sts arbitrary: s)
  case (Cons b sts)
  let ?t = "add_authn_statement_nsi p nid i b s"
  have grow: "set (nsi_list ?t p) \<subseteq> set (nsi_list (fold (add_authn_statement_nsi p nid i) sts ?t) p)"
    by (rule fold_authn_nsi_grows)
  show ?case
  proof (cases "\<exists>e \<in> set (nsi_list ?t p). nsi_assertion_id e = i")
    case False
    then have "?t = s" and "st \<noteq> b"
      using authn_statement_recorded[of b _ nid p i s] Cons.prems
      by (cases "as_SessionIndex b"; force simp: add_authn_statement_nsi_def)+
    then show ?thesis using Cons by auto
  qed (use grow in auto)
qed simp

lemma accept_sso_first:
  assumes "prf_response p = Some (ResponseNode response)" and "rsp_body response = Samlp2Response (a # as) encrypted"
    and "prf_remote_providerID p = Some idp" and "lgn_parent lg = p"
  shows "lasso_saml20_login_accept_sso io lg =
    (if list_ex (\<lambda>i. Some i = asn_ID a) (lasso_session_get_assertion_ids (prf_session p) (Some idp))
     then (LASSO_LOGIN_ERROR_ASSERTION_REPLAY, lg)
     else
       let p = p\<lparr>prf_session := snd (lasso_session_add_assertion (mio_thin_sessions io) (prf_session p) (Some idp) (Some (Saml2Assertion a)))\<rparr>
       in case Option.bind (asn_Subject a) sb_NameID of
            None \<Rightarrow> (LASSO_PROFILE_ERROR_MISSING_NAME_IDENTIFIER, lg\<lparr>lgn_parent := p\<rparr>)
          | Some ni \<Rightarrow>
              if nid_Format ni = Some LASSO_SAML2_NAME_IDENTIFIER_FORMAT_PERSISTENT
              then (0, lg\<lparr>lgn_parent := p\<lparr>prf_identity := snd (lasso_identity_add_federation (prf_identity p)
                     (Some \<lparr>fed_remote_providerID = idp, fed_local_nameIdentifier = Some (Saml2NameID ni), fed_remote_nameIdentifier = None\<rparr>))\<rparr>\<rparr>)
              else (0, lg\<lparr>lgn_parent := p\<rparr>))"
  unfolding lasso_saml20_login_accept_sso_def Let_def assms(4)
  by (simp add: assms(1-3) lasso_federation_new_def split: option.split)

lemma accept_sso_ok:
  assumes r: "lasso_login_accept_sso io lg = (0, lg')" and p: "prf_remote_providerID (lgn_parent lg) = Some idp"
  defines "s \<equiv> (case prf_session (lgn_parent lg) of None \<Rightarrow> lasso_session_new | Some s \<Rightarrow> s)"
    and "i \<equiv> (case prf_identity (lgn_parent lg) of None \<Rightarrow> lasso_identity_new | Some i \<Rightarrow> i)"
  obtains response a as encrypted sb ni where
    "prf_response (lgn_parent lg) = Some (ResponseNode response)" "rsp_body response = Samlp2Response (a # as) encrypted"
    "asn_Subject a = Some sb" "sb_NameID sb = Some ni"
    "asn_ID a \<notin> Some ` set (lasso_session_get_assertion_ids (Some s) (Some idp))"
    "prf_session (lgn_parent lg') = snd (lasso_session_add_assertion (mio_thin_sessions io) (Some s) (Some idp) (Some (Saml2Assertion a)))"
    "prf_identity (lgn_parent lg') =
       (if nid_Format ni = Some LASSO_SAML2_NAME_IDENTIFIER_FORMAT_PERSISTENT
        then snd (lasso_identity_add_federation (Some i) (Some \<lparr>fed_remote_providerID = idp,
               fed_local_nameIdentifier = Some (Saml2NameID ni), fed_remote_nameIdentifier = None\<rparr>))
        else Some i)"
    "prf_response (lgn_parent lg') = prf_response (lgn_parent lg)" "prf_remote_providerID (lgn_parent lg') = Some idp"
proof -
  have si: "(case prf_session (lgn_parent lg) of None \<Rightarrow> Some lasso_session_new | Some s \<Rightarrow> Some s) = Some s"
    "(case prf_identity (lgn_parent lg) of None \<Rightarrow> Some lasso_identity_new | Some i \<Rightarrow> Some i) = Some i"
    by (simp_all add: s_def i_def split: option.split)
  obtain response where resp: "prf_response (lgn_parent lg) = Some (ResponseNode response)"
    using r by (auto simp: lasso_login_accept_sso_def lasso_saml20_login_accept_sso_def Let_def
        split: if_splits option.splits message_node.splits)
  obtain a as encrypted where body: "rsp_body response = Samlp2Response (a # as) encrypted"
    using r by (auto simp: lasso_login_accept_sso_def lasso_saml20_login_accept_sso_def resp Let_def
        split: if_splits response_body.splits list.splits)
  define P where "P = (lgn_parent lg)\<lparr>prf_identity := Some i, prf_session := Some s\<rparr>"
  have P: "prf_response P = Some (ResponseNode response)" "prf_session P = Some s" "prf_identity P = Some i"
    "prf_remote_providerID P = Some idp" using resp p by (simp_all add: P_def)
  have d: "lasso_saml20_login_accept_sso io (lg\<lparr>lgn_parent := P\<rparr>) = (0, lg')"
    using r unfolding lasso_login_accept_sso_def Let_def si P_def by (simp add: resp)
  note d = d[unfolded accept_sso_first[OF P(1) body P(4), of "lg\<lparr>lgn_parent := P\<rparr>", simplified] P Let_def]
  obtain sb ni where ni: "asn_Subject a = Some sb" "sb_NameID sb = Some ni"
    using d by (auto split: if_splits option.splits simp: Option.bind_eq_Some_conv)
  show ?thesis
    using d ni P resp by (intro that[OF resp body ni]) (auto simp: list_ex_iff split: if_splits)
qed

text \<open>C30: accepting the sign-on succeeds only for an assertion that names its subject and whose identifier the session does
  not have for that provider.  The session then has the session indexes of the assertion for that subject and,
  unless sessions are thin, the assertion itself, and nothing is changed for other providers; a persistent
  name identifier is recorded as the federation with the provider, and other federations stay.\<close>

theorem accept_sso_law:
  assumes "lasso_login_accept_sso io lg = (0, lg')" and "prf_remote_providerID (lgn_parent lg) = Some idp"
  defines "s \<equiv> (case prf_session (lgn_parent lg) of None \<Rightarrow> lasso_session_new | Some s \<Rightarrow> s)"
  shows "\<exists>response a as encrypted sb ni t.
    prf_response (lgn_parent lg) = Some (ResponseNode response) \<and> rsp_body response = Samlp2Response (a # as) encrypted \<and>
    asn_Subject a = Some sb \<and> sb_NameID sb = Some ni \<and>
    asn_ID a \<notin> Some ` set (lasso_session_get_assertion_ids (Some s) (Some idp)) \<and>
    prf_session (lgn_parent lg') = Some t \<and>
    (nid_content ni \<noteq> None \<longrightarrow> (\<forall>st \<in> set (asn_AuthnStatement a). \<forall>si. as_SessionIndex st = Some si \<longrightarrow>
       si \<in> set (lasso_session_get_session_indexes (Some t) (Some idp) (Some (Saml2NameID ni))))) \<and>
    (\<forall>q. q \<noteq> idp \<longrightarrow> nsi_list t q = nsi_list s q) \<and>
    (\<forall>q. lasso_session_get_assertion (Some t) q =
       (if q = idp \<and> \<not> mio_thin_sessions io then Some (Saml2Assertion a) else lasso_session_get_assertion (Some s) q)) \<and>
    (\<forall>q. lasso_identity_get_federation (prf_identity (lgn_parent lg')) (Some q) =
       (if q = idp \<and> nid_Format ni = Some LASSO_SAML2_NAME_IDENTIFIER_FORMAT_PERSISTENT
        then Some \<lparr>fed_remote_providerID = idp, fed_local_nameIdentifier = Some (Saml2NameID ni), fed_remote_nameIdentifier = None\<rparr>
        else lasso_identity_get_federation (prf_identity (lgn_parent lg)) (Some q)))"
proof -
  let ?i = "case prf_identity (lgn_parent lg) of None \<Rightarrow> lasso_identity_new | Some i \<Rightarrow> i"
  obtain response a as encrypted sb ni where
    r: "prf_response (lgn_parent lg) = Some (ResponseNode response)" "rsp_body response = Samlp2Response (a # as) encrypted"
      "asn_Subject a = Some sb" "sb_NameID sb = Some ni"
      "asn_ID a \<notin> Some ` set (lasso_session_get_assertion_ids (Some s) (Some idp))"
    and t: "prf_session (lgn_parent lg') = snd (lasso_session_add_assertion (mio_thin_sessions io) (Some s) (Some idp) (Some (Saml2Assertion a)))"
    and f: "prf_identity (lgn_parent lg') =
       (if nid_Format ni = Some LASSO_SAML2_NAME_IDENTIFIER_FORMAT_PERSISTENT
        then snd (lasso_identity_add_federation (Some ?i) (Some \<lparr>fed_remote_providerID = idp,
               fed_local_nameIdentifier = Some (Saml2NameID ni), fed_remote_nameIdentifier = None\<rparr>))
        else Some ?i)"
    unfolding s_def by (rule accept_sso_ok[OF assms(1,2)])
  let ?s1 = "if mio_thin_sessions io then s else s\<lparr>ses_assertions := ght_insert idp (Saml2Assertion a) (ses_assertions s)\<rparr>"
  define t2 where "t2 = (fold (add_authn_statement_nsi idp ni (asn_ID a)) (asn_AuthnStatement a) ?s1)\<lparr>ses_is_dirty := True\<rparr>"
  have "prf_session (lgn_parent lg') = Some t2"
    using t by (simp only: add_assertion_saml2[OF r(3,4)] t2_def snd_conv)
  moreover have "si \<in> set (lasso_session_get_session_indexes (Some t2) (Some idp) (Some (Saml2NameID ni)))"
    if "nid_content ni \<noteq> None" "st \<in> set (asn_AuthnStatement a)" "as_SessionIndex st = Some si" for st si
    using fold_authn_known[OF that] by (simp add: nsi_known_indexes[symmetric] nsi_known_def t2_def)
  moreover have "nsi_list t2 q = nsi_list s q" if "q \<noteq> idp" for q
    using that by (simp add: t2_def fold_authn_nsi_other)
  moreover have "lasso_session_get_assertion (Some t2) q =
       (if q = idp \<and> \<not> mio_thin_sessions io then Some (Saml2Assertion a) else lasso_session_get_assertion (Some s) q)" for q
    by (simp add: t2_def lasso_session_get_assertion_def)
  moreover have "lasso_identity_get_federation (Some ?i) (Some q) = lasso_identity_get_federation (prf_identity (lgn_parent lg)) (Some q)" for q
    by (simp add: lasso_identity_get_federation_def lasso_identity_new_def ght_lookup_def split: option.split)
  ultimately show ?thesis
    using r f by (intro exI[of _ response] exI[of _ a] exI[of _ as] exI[of _ encrypted] exI[of _ sb] exI[of _ ni] exI[of _ t2])
      (auto simp: lasso_identity_add_federation_def lasso_identity_get_federation_def)
qed

text \<open>C5: once an assertion was accepted, accepting it again is refused as a replay and changes nothing, when one of its
  session indexes was new for its subject.\<close>

theorem accept_sso_no_replay:
  assumes "lasso_login_accept_sso io lg = (0, lg')" and "prf_remote_providerID (lgn_parent lg) = Some idp"
    and "prf_response (lgn_parent lg) = Some (ResponseNode response)" "rsp_body response = Samlp2Response (a # as) encrypted"
    and "asn_ID a \<noteq> None" and "asn_Subject a = Some sb" "sb_NameID sb = Some ni" "nid_content ni \<noteq> None"
    and "st \<in> set (asn_AuthnStatement a)" "as_SessionIndex st = Some si"
    and "si \<notin> set (lasso_session_get_session_indexes (prf_session (lgn_parent lg)) (Some idp) (Some (Saml2NameID ni)))"
  shows "lasso_login_accept_sso io lg' = (LASSO_LOGIN_ERROR_ASSERTION_REPLAY, lg')"
proof -
  let ?s = "case prf_session (lgn_parent lg) of None \<Rightarrow> lasso_session_new | Some s \<Rightarrow> s"
  let ?s1 = "if mio_thin_sessions io then ?s else ?s\<lparr>ses_assertions := ght_insert idp (Saml2Assertion a) (ses_assertions ?s)\<rparr>"
  define t where "t = (fold (add_authn_statement_nsi idp ni (asn_ID a)) (asn_AuthnStatement a) ?s1)\<lparr>ses_is_dirty := True\<rparr>"
  have t: "prf_session (lgn_parent lg') = Some t" and r: "prf_response (lgn_parent lg') = Some (ResponseNode response)"
    "prf_remote_providerID (lgn_parent lg') = Some idp" and i: "\<exists>i. prf_identity (lgn_parent lg') = Some i"
    by (rule accept_sso_ok[OF assms(1,2)];
        use assms(3,4,6,7) add_assertion_saml2[OF assms(6,7)] in \<open>auto simp: t_def lasso_identity_add_federation_def\<close>)+
  have "\<not> nsi_known ?s1 idp (Saml2NameID ni) (Some si)"
    using assms(11) by (cases "prf_session (lgn_parent lg)")
      (auto simp: nsi_known_indexes[symmetric] nsi_known_def lasso_session_new_def nsi_list_def ght_lookup_def)
  then have "\<exists>e \<in> set (nsi_list t idp). nsi_assertion_id e = asn_ID a"
    using authn_statements_recorded[OF assms(9,10,8)] by (simp add: t_def)
  then have "list_ex (\<lambda>i. Some i = asn_ID a) (lasso_session_get_assertion_ids (Some t) (Some idp))"
    using assms(5) by (force simp: list_ex_iff lasso_session_get_assertion_ids_def in_map_filter)
  then have "lasso_saml20_login_accept_sso io lg' = (LASSO_LOGIN_ERROR_ASSERTION_REPLAY, lg')"
    using accept_sso_first[OF r(1) assms(4) r(2), of lg'] t by simp
  moreover obtain i where i: "prf_identity (lgn_parent lg') = Some i" using i by blast
  moreover have e: "lg'\<lparr>lgn_parent := (lgn_parent lg')\<lparr>prf_identity := Some i, prf_session := Some t\<rparr>\<rparr> = lg'"
    by (cases lg'; cases "lgn_parent lg'") (use t i in auto)
  ultimately show ?thesis
    unfolding lasso_login_accept_sso_def Let_def t i option.case e using r(1) by simp
qed

section \<open>A sign-on from end to end\<close>

definition sample_signed_assertion :: saml2_assertion where
  "sample_signed_assertion = (sample_assertion ''a1'')\<lparr>asn_original_xmlnode := Some sample_signed_node\<rparr>"

definition sample_sso_io :: message_io where
  "sample_sso_io = sample_io\<lparr>mio_init_response := \<lambda>_ _.
     (0, sample_response (Samlp2Response [sample_signed_assertion] []), None)\<rparr>"

definition sample_login :: lasso_login where
  "sample_login = lasso_login_new sample_server"

lemma sample_node_accepted [simp]:
  "lasso_provider_verify_saml_signature (env_crypto sample_env) True sample_provider (Some sample_signed_node) = 0"
  by (simp add: lasso_provider_verify_saml_signature_def sample_env_def sample_provider_def provider_instance_init_def
      sample_crypto_def lasso_provider_try_loading_public_keys_def lasso_provider_get_public_keys_def sample_signed_node_def
      saml_id_attribute_def lasso_provider_try_loading_ca_cert_chain_def lasso_verify_signature_def find_signature_def
      is_element_def xmlGetProp_def printf_string_def List.map_filter_simps)

lemma sample_signed_simps [simp]:
  "asn_Subject sample_signed_assertion = Some sample_subject" "asn_ID sample_signed_assertion = Some ''a1''"
  "asn_AuthnStatement sample_signed_assertion = [sample_statement]"
  "lasso_check_assertion_issuer sample_signed_assertion (Some ''idp'')"
  by (simp_all add: sample_signed_assertion_def sample_assertion_def lasso_check_assertion_issuer_def)

lemma sample_sso_accepted:
  "\<exists>lg. lasso_saml20_login_process_authn_response_msg sample_env sample_sso_io sample_login sample_base64_msg = (0, lg) \<and>
     prf_response (lgn_parent lg) = Some (ResponseNode (sample_response (Samlp2Response [sample_signed_assertion] []))) \<and>
     prf_remote_providerID (lgn_parent lg) = Some ''idp'' \<and> prf_session (lgn_parent lg) = None"
proof -
  have sig: "lasso_saml20_login_check_assertion_signature sample_env p sample_signed_assertion = 0" if "prf_server p = Some sample_server" for p
    using that by (simp add: lasso_saml20_login_check_assertion_signature_def sample_signed_assertion_def sample_assertion_def)
  have st: "top_status (sample_response b) = Some (StatusCode (Some LASSO_SAML2_STATUS_CODE_SUCCESS) None)" for b
    by (simp add: sample_response_def) (simp add: sub_status_def top_status_def lasso_samlp2_status_response_new_def)
  have any: "lasso_saml20_profile_process_any_response sample_env sample_sso_io (profile_new (Some sample_server)) k (Some m) sample_base64_msg =
      (0, (profile_new (Some sample_server))\<lparr>prf_response := Some (ResponseNode (sample_response (Samlp2Response [sample_signed_assertion] []))),
         prf_remote_providerID := Some ''idp''\<rparr>, Some LASSO_HTTP_METHOD_POST)" for k m
    using sample_base64_parsed[of "mio_init_response sample_sso_io k"]
    by (simp add: lasso_saml20_profile_process_any_response_def parse_response_def sample_sso_io_def profile_new_def any_response_rc_def
        format_method_def Let_def)
  have dec: "lasso_saml20_login_decrypt_assertion io p as [] = as" for io p as
    by (simp add: lasso_saml20_login_decrypt_assertion_def List.map_filter_simps Let_def)
  have upd: "(sample_response b)\<lparr>rsp_body := b\<rparr> = sample_response b" "sample_signed_assertion\<lparr>asn_Subject := Some sample_subject\<rparr> = sample_signed_assertion" for b
    by (simp_all add: sample_response_def set_status_def lasso_samlp2_status_response_new_def sample_signed_assertion_def sample_assertion_def)
  show ?thesis
    by (simp add: lasso_saml20_login_process_authn_response_msg_def any sample_login_def lasso_login_new_def)
      (simp add: lasso_saml20_login_process_response_status_and_assertion_def login_status_rc_zero st upd
        dec Let_def check_assertion_def profile_new_def assertion_signature_rc_zero sig
        lasso_saml20_profile_process_name_identifier_decryption_def)
qed

theorem authn_response_authenticated_witness:
  "\<exists>lg'. lasso_saml20_login_process_authn_response_msg sample_env sample_sso_io sample_login sample_base64_msg = (0, lg') \<and>
     lgn_saml2_assertion lg' \<noteq> None"
proof -
  obtain lg where a: "lasso_saml20_login_process_authn_response_msg sample_env sample_sso_io sample_login sample_base64_msg = (0, lg)"
    using sample_sso_accepted by blast
  have "prf_signature_verify_hint (lgn_parent sample_login) \<noteq> VERIFY_HINT_IGNORE"
    by (simp add: sample_login_def lasso_login_new_def profile_new_def)
  from authn_response_authenticated[OF a this] have "lgn_saml2_assertion lg \<noteq> None" by (elim exE conjE) simp
  with a show ?thesis by (intro exI conjI)
qed

lemma sample_sso_taken:
  obtains lg lg' where "prf_response (lgn_parent lg) = Some (ResponseNode (sample_response (Samlp2Response [sample_signed_assertion] [])))"
    "prf_remote_providerID (lgn_parent lg) = Some ''idp''" "prf_session (lgn_parent lg) = None"
    "lasso_login_accept_sso sample_sso_io lg = (0, lg')"
proof -
  obtain lg where "lasso_saml20_login_process_authn_response_msg sample_env sample_sso_io sample_login sample_base64_msg = (0, lg)"
    and lg: "prf_response (lgn_parent lg) = Some (ResponseNode (sample_response (Samlp2Response [sample_signed_assertion] [])))"
    "prf_remote_providerID (lgn_parent lg) = Some ''idp''" "prf_session (lgn_parent lg) = None"
    using sample_sso_accepted by (elim exE conjE)
  then have "fst (lasso_login_accept_sso sample_sso_io lg) = 0"
    by (simp add: lasso_login_accept_sso_def lasso_saml20_login_accept_sso_def Let_def lasso_session_get_assertion_ids_def nsi_list_def
        lasso_session_new_def ght_lookup_def List.map_filter_simps)
  then show ?thesis using that[OF lg] by (metis prod.collapse)
qed

theorem accept_sso_law_witness:
  "\<exists>lg lg' t. lasso_login_accept_sso sample_sso_io lg = (0, lg') \<and> prf_session (lgn_parent lg') = Some t"
proof -
  obtain lg lg' where a: "prf_response (lgn_parent lg) = Some (ResponseNode (sample_response (Samlp2Response [sample_signed_assertion] [])))"
    "prf_remote_providerID (lgn_parent lg) = Some ''idp''" "prf_session (lgn_parent lg) = None"
    "lasso_login_accept_sso sample_sso_io lg = (0, lg')"
    by (rule sample_sso_taken)
  obtain t where "prf_session (lgn_parent lg') = Some t" using accept_sso_law[OF a(4,2)] by (elim exE conjE)
  with a(4) show ?thesis by (intro exI conjI)
qed

theorem accept_sso_no_replay_witness:
  "\<exists>lg. lasso_login_accept_sso sample_sso_io lg = (LASSO_LOGIN_ERROR_ASSERTION_REPLAY, lg)"
proof -
  obtain lg lg' where a: "prf_response (lgn_parent lg) = Some (ResponseNode (sample_response (Samlp2Response [sample_signed_assertion] [])))"
    "prf_remote_providerID (lgn_parent lg) = Some ''idp''" "prf_session (lgn_parent lg) = None"
    "lasso_login_accept_sso sample_sso_io lg = (0, lg')"
    by (rule sample_sso_taken)
  have "''s1'' \<notin> set (lasso_session_get_session_indexes (prf_session (lgn_parent lg)) (Some ''idp'') (Some (Saml2NameID sample_nid)))"
    by (simp add: a lasso_session_get_session_indexes_def)
  from accept_sso_no_replay[OF a(4,2,1) _ _ _ _ _ _ _ this, of sample_signed_assertion "[]" "[]" sample_subject sample_statement]
  show ?thesis by auto
qed


end
