(* ===== verification/Lasso_LoginIdP.thy ===== *)
theory Lasso_LoginIdP
  imports Lasso_Login
begin

text \<open>
  Single sign-on at the identity provider, \<^verbatim>\<open>lasso/saml-2.0/login.c\<close>: receiving the authentication request,
  deciding whether the principal must authenticate or consent, the federation and the name identifier,
  the assertion, and the response through HTTP-POST, HTTP-Redirect, an artifact or the enhanced client.
\<close>

section \<open>The authentication request\<close>

text \<open>The code writes the roles into the objects of the server.\<close>

definition act_as_idp :: "string \<Rightarrow> lasso_server \<Rightarrow> lasso_server" where
  "act_as_idp i server =
     server\<lparr>srv_parent := (srv_parent server)\<lparr>prv_role := LASSO_PROVIDER_ROLE_IDP\<rparr>,
            srv_providers := (case ght_lookup (srv_providers server) i of
                                None \<Rightarrow> srv_providers server
                              | Some r \<Rightarrow> ght_insert i (r\<lparr>prv_role := LASSO_PROVIDER_ROLE_SP\<rparr>) (srv_providers server))\<rparr>"

text \<open>The protocol profile of a binding that the request asks for by its URI, with the return code.\<close>

definition binding_protocol_profile :: "string \<Rightarrow> int \<times> int" where
  "binding_protocol_profile b =
     (if b = LASSO_SAML2_METADATA_BINDING_ARTIFACT then (0, LASSO_LOGIN_PROTOCOL_PROFILE_BRWS_ART)
      else if b = LASSO_SAML2_METADATA_BINDING_POST then (0, LASSO_LOGIN_PROTOCOL_PROFILE_BRWS_POST)
      else if b = LASSO_SAML2_METADATA_BINDING_SOAP then (0, LASSO_LOGIN_PROTOCOL_PROFILE_BRWS_LECP)
      else if b = LASSO_SAML2_METADATA_BINDING_REDIRECT
      then (LASSO_PROFILE_ERROR_INVALID_PROTOCOLPROFILE, LASSO_LOGIN_PROTOCOL_PROFILE_REDIRECT)
      else if b = LASSO_SAML2_METADATA_BINDING_PAOS then (0, LASSO_LOGIN_PROTOCOL_PROFILE_BRWS_LECP)
      else (LASSO_PROFILE_ERROR_INVALID_PROTOCOLPROFILE, 0))"

text \<open>The same for the binding of an endpoint chosen by its index, which is the last part of the URI.\<close>

definition endpoint_protocol_profile :: "string \<Rightarrow> int" where
  "endpoint_protocol_profile b =
     (if b = ''HTTP-Artifact'' then LASSO_LOGIN_PROTOCOL_PROFILE_BRWS_ART
      else if b = ''HTTP-POST'' then LASSO_LOGIN_PROTOCOL_PROFILE_BRWS_POST
      else if b = ''HTTP-Redirect'' then LASSO_LOGIN_PROTOCOL_PROFILE_REDIRECT
      else if b = ''SOAP'' \<or> b = ''PAOS'' then LASSO_LOGIN_PROTOCOL_PROFILE_BRWS_LECP
      else 0)"

text \<open>How the response is going to be sent: the return code, the protocol profile, and the request, which
  gets the binding of the endpoint when it only gave a URL.\<close>

definition choose_protocol_profile :: "lasso_provider \<Rightarrow> authn_request \<Rightarrow> int \<times> int \<times> authn_request" where
  "choose_protocol_profile remote a =
     (let with_binding = (\<lambda>b. case binding_protocol_profile b of
              (rc, profile) \<Rightarrow> (rc, profile, a\<lparr>anr_ProtocolBinding := Some b\<rparr>))
      in if (anr_ProtocolBinding a \<noteq> None \<or> anr_AssertionConsumerServiceURL a \<noteq> None) \<and> anr_AssertionConsumerServiceIndex a \<noteq> -1
         then (LASSO_PROFILE_ERROR_INVALID_REQUEST, 0, a)
         else case (anr_AssertionConsumerServiceURL a, anr_ProtocolBinding a) of
                (Some url, Some b) \<Rightarrow>
                  if lasso_saml20_provider_check_assertion_consumer_service_url remote (Some url) (Some b) then with_binding b
                  else (LASSO_PROFILE_ERROR_INVALID_PROTOCOLPROFILE, 0, a)
              | (Some url, None) \<Rightarrow>
                  (case lasso_saml20_provider_get_assertion_consumer_service_binding_by_url remote (Some url) of
                     None \<Rightarrow> (LASSO_PROFILE_ERROR_INVALID_PROTOCOLPROFILE, 0, a)
                   | Some b \<Rightarrow> with_binding b)
              | (None, Some b) \<Rightarrow> with_binding b
              | (None, None) \<Rightarrow>
                  (case lasso_saml20_provider_get_assertion_consumer_service_binding remote (anr_AssertionConsumerServiceIndex a) of
                     None \<Rightarrow> (if anr_AssertionConsumerServiceIndex a = -1 then LASSO_LOGIN_ERROR_NO_DEFAULT_ENDPOINT
                               else LASSO_PROFILE_ERROR_INVALID_PROTOCOLPROFILE, 0, a)
                   | Some b \<Rightarrow> (0, endpoint_protocol_profile b, a)))"

text \<open>Without a message, the request that is in the profile is processed (again).\<close>

definition lasso_saml20_login_process_authn_request_msg ::
  "environment \<Rightarrow> message_io \<Rightarrow> string \<Rightarrow> lasso_login \<Rightarrow> cstr \<Rightarrow> int \<times> lasso_login" where
  "lasso_saml20_login_process_authn_request_msg env io uid lg msg =
     (let (rc, p) = (case msg of
                       None \<Rightarrow> (if prf_request (lgn_parent lg) = None then LASSO_PROFILE_ERROR_MISSING_REQUEST else 0, lgn_parent lg)
                     | Some m \<Rightarrow> lasso_saml20_profile_process_any_request env io (lgn_parent lg) ''AuthnRequest'' m)
      in if rc \<noteq> 0 then (rc, lg\<lparr>lgn_parent := p\<rparr>)
         else case authn_body p of
                None \<Rightarrow> (LASSO_PROFILE_ERROR_INVALID_MSG, lg\<lparr>lgn_parent := p\<rparr>)
              | Some (request, a) \<Rightarrow>
                  (let lg = lg\<lparr>lgn_parent := p, lgn_protocolProfile := 0\<rparr> in
                   if Option.bind (req_Issuer request) nid_content = None then (LASSO_PROFILE_ERROR_INVALID_REQUEST, lg)
                   else case (lasso_server_get_provider (prf_server p) (prf_remote_providerID p), prf_server p, prf_remote_providerID p) of
                          (Some remote, Some server, Some i) \<Rightarrow>
                            (let (rc, profile, a) = choose_protocol_profile remote a;
                                 p = set_authn_body a (p\<lparr>prf_server := Some (act_as_idp i server)\<rparr>);
                                 lg = lg\<lparr>lgn_parent := p, lgn_protocolProfile := profile\<rparr>;
                                 response = (lasso_samlp2_status_response_new (Samlp2Response [] []))\<lparr>rsp_InResponseTo := req_ID request\<rparr>
                             in if rc \<noteq> 0 then (rc, lg)
                                else if lasso_login_must_verify_authn_request_signature p \<and> prf_signature_status p \<noteq> 0
                                then (prf_signature_status p,
                                      lg\<lparr>lgn_parent := snd (lasso_saml20_profile_init_response env io uid p response
                                           (Some LASSO_SAML2_STATUS_CODE_REQUESTER) (Some LASSO_LIB_STATUS_CODE_INVALID_SIGNATURE))\<rparr>)
                                else (0, lg\<lparr>lgn_parent := snd (lasso_saml20_profile_init_response env io uid p response
                                           (Some LASSO_SAML2_STATUS_CODE_SUCCESS) None)\<rparr>))
                        | _ \<Rightarrow> (LASSO_PROFILE_ERROR_UNKNOWN_PROVIDER, lg)))"

definition lasso_saml20_login_init_idp_initiated_authn_request :: "lasso_login \<Rightarrow> cstr \<Rightarrow> int \<times> lasso_login" where
  "lasso_saml20_login_init_idp_initiated_authn_request lg remote_providerID =
     (let p = lgn_parent lg in
      case prf_server p of
        None \<Rightarrow> (LASSO_PROFILE_ERROR_MISSING_SERVER, lg)
      | Some server \<Rightarrow>
          (case (lasso_server_get_provider (Some server) remote_providerID, remote_providerID) of
             (Some remote, Some i) \<Rightarrow>
               (let format = (case lasso_provider_get_default_name_id_format (remote\<lparr>prv_role := LASSO_PROVIDER_ROLE_SP\<rparr>) of
                                None \<Rightarrow> Some LASSO_SAML2_NAME_IDENTIFIER_FORMAT_TRANSIENT | f \<Rightarrow> f);
                    policy = lasso_samlp2_name_id_policy_new\<lparr>nip_Format := format, nip_SPNameQualifier := Some i\<rparr>;
                    request = (lasso_samlp2_request_abstract_new
                        (AuthnRequest (lasso_samlp2_authn_request_new\<lparr>anr_NameIDPolicy := Some policy\<rparr>)))
                      \<lparr>req_Issuer := Some (lasso_saml2_name_id_new_with_string (Some i))\<rparr>
                in (0, lg\<lparr>lgn_parent := p\<lparr>prf_server := Some (act_as_idp i server), prf_remote_providerID := Some i,
                             prf_request := Some (RequestNode request)\<rparr>\<rparr>))
           | _ \<Rightarrow> (LASSO_SERVER_ERROR_PROVIDER_NOT_FOUND, lg)))"

section \<open>Authentication and consent\<close>

text \<open>The comparison that the request asks for is not implemented beyond equality; an unknown one never
  matches.  Only the first authentication statement of an assertion is looked at.\<close>

definition known_comparison :: "cstr \<Rightarrow> bool" where
  "known_comparison c \<longleftrightarrow> c \<in> {None, Some ''exact'', Some ''minimum'', Some ''better'', Some ''maximum''}"

definition assertion_method :: "assertion_node \<Rightarrow> cstr" where
  "assertion_method n =
     (case n of
        Saml2Assertion a \<Rightarrow> (case asn_AuthnStatement a of [] \<Rightarrow> None | st # _ \<Rightarrow> as_AuthnContextClassRef st)
      | _ \<Rightarrow> None)"

definition authn_context_matches :: "requested_authn_context \<Rightarrow> assertion_node list \<Rightarrow> bool" where
  "authn_context_matches context assertions \<longleftrightarrow>
     rac_AuthnContextClassRef context = [] \<or>
     known_comparison (rac_Comparison context) \<and>
     list_ex (\<lambda>class_ref. list_ex (\<lambda>n. assertion_method n = Some class_ref) assertions) (rac_AuthnContextClassRef context)"

definition lasso_saml20_login_must_authenticate :: "message_io \<Rightarrow> lasso_login \<Rightarrow> bool \<times> lasso_login" where
  "lasso_saml20_login_must_authenticate io lg =
     (let p = lgn_parent lg in
      case authn_body p of
        None \<Rightarrow> (False, lg)
      | Some (request, a) \<Rightarrow>
          if anr_ForceAuthn a \<and> \<not> anr_IsPassive a then (True, lg)
          else
            let matched = (case anr_RequestedAuthnContext a of
                             Some context \<Rightarrow> authn_context_matches context (lasso_session_get_assertions (prf_session p) None)
                           | None \<Rightarrow> prf_session p \<noteq> None \<and> lasso_session_count_assertions (mio_thin_sessions io) (prf_session p) > 0)
            in if \<not> matched \<and> \<not> anr_IsPassive a then (True, lg)
               else if prf_identity p = None \<and> anr_IsPassive a
               then (False, lg\<lparr>lgn_parent := respond LASSO_SAML2_STATUS_CODE_RESPONDER (Some LASSO_SAML2_STATUS_CODE_NO_PASSIVE) p\<rparr>)
               else (False, lg))"

text \<open>What the request says about consent.\<close>

definition consent_missing :: "cstr \<Rightarrow> bool" where
  "consent_missing consent \<longleftrightarrow>
     consent \<notin> {None, Some LASSO_SAML2_CONSENT_OBTAINED, Some LASSO_SAML2_CONSENT_PRIOR,
                 Some LASSO_SAML2_CONSENT_IMPLICIT, Some LASSO_SAML2_CONSENT_EXPLICIT}"

text \<open>The result is absent where the code reads the policy of a request that is not an authentication
  request.\<close>

definition lasso_saml20_login_must_ask_for_consent_private :: "lasso_profile \<Rightarrow> bool option" where
  "lasso_saml20_login_must_ask_for_consent_private p =
     (case authn_body p of
        None \<Rightarrow> None
      | Some (request, a) \<Rightarrow>
          Some (if pred_option (\<lambda>n. nip_Format n = Some LASSO_SAML2_NAME_IDENTIFIER_FORMAT_TRANSIENT \<or> \<not> nip_AllowCreate n) (anr_NameIDPolicy a)
                   \<and> anr_NameIDPolicy a \<noteq> None
                then False
                else case Option.bind (lasso_server_get_provider (prf_server p) (prf_remote_providerID p)) lasso_provider_get_sp_name_qualifier of
                       None \<Rightarrow> True
                     | Some qualifier \<Rightarrow>
                         if lasso_identity_get_federation (prf_identity p) (Some qualifier) \<noteq> None then False
                         else consent_missing (req_Consent request)))"

definition lasso_saml20_login_must_ask_for_consent :: "lasso_login \<Rightarrow> bool option" where
  "lasso_saml20_login_must_ask_for_consent lg =
     (case authn_body (lgn_parent lg) of
        None \<Rightarrow> None
      | Some (request, a) \<Rightarrow>
          if anr_IsPassive a then Some False else lasso_saml20_login_must_ask_for_consent_private (lgn_parent lg))"

section \<open>The federation\<close>

text \<open>A new federation for a service provider: \<open>uid\<close> becomes the content of the name identifier.\<close>

definition new_federation :: "string \<Rightarrow> cstr \<Rightarrow> string \<Rightarrow> lasso_federation" where
  "new_federation uid own qualifier =
     \<lparr>fed_remote_providerID = qualifier,
      fed_local_nameIdentifier = Some (Saml2NameID ((lasso_saml20_federation_build_name_identifier uid own
          (Some LASSO_SAML2_NAME_IDENTIFIER_FORMAT_PERSISTENT) None)\<lparr>nid_SPNameQualifier := Some qualifier\<rparr>)),
      fed_remote_nameIdentifier = None\<rparr>"

definition lasso_saml20_login_process_federation :: "string \<Rightarrow> lasso_login \<Rightarrow> bool \<Rightarrow> int \<times> lasso_login" where
  "lasso_saml20_login_process_federation uid lg is_consent_obtained =
     (let identity = (case prf_identity (lgn_parent lg) of None \<Rightarrow> lasso_identity_new | Some i \<Rightarrow> i);
          p = (lgn_parent lg)\<lparr>prf_identity := Some identity\<rparr>;
          lg = lg\<lparr>lgn_parent := p\<rparr>
      in case (lasso_server_get_provider (prf_server p) (prf_remote_providerID p), prf_server p) of
           (Some remote, Some server) \<Rightarrow>
             (case authn_body p of
                None \<Rightarrow> (LASSO_PROFILE_ERROR_INVALID_REQUEST, lg)
              | Some (request, a) \<Rightarrow>
                  (let policy = anr_NameIDPolicy a;
                       format = (case Option.bind policy nip_Format of
                                   None \<Rightarrow> lasso_provider_get_default_name_id_format remote | f \<Rightarrow> f);
                       lg = lg\<lparr>lgn_nameIDPolicy := format\<rparr>
                   in if lasso_saml20_login_must_ask_for_consent_private p = Some True \<and> \<not> is_consent_obtained
                      then (LASSO_LOGIN_ERROR_CONSENT_NOT_OBTAINED, lg)
                      else if lasso_strisnotequal format (Some LASSO_SAML2_NAME_IDENTIFIER_FORMAT_PERSISTENT) then (0, lg)
                      else case lasso_provider_get_sp_name_qualifier remote of
                             None \<Rightarrow> (LASSO_PROFILE_ERROR_UNKNOWN_PROVIDER, lg)
                           | Some qualifier \<Rightarrow>
                               (case lasso_identity_get_federation (Some identity) (Some qualifier) of
                                  Some federation \<Rightarrow>
                                    (0, lg\<lparr>lgn_parent := p\<lparr>prf_nameIdentifier := fed_local_nameIdentifier federation\<rparr>\<rparr>)
                                | None \<Rightarrow>
                                    if policy = None \<or> pred_option (\<lambda>n. \<not> nip_AllowCreate n) policy
                                    then (LASSO_LOGIN_ERROR_FEDERATION_NOT_FOUND, lg)
                                    else
                                      let federation = new_federation uid (prv_ProviderID (srv_parent server)) qualifier
                                      in (0, lg\<lparr>lgn_parent := p\<lparr>prf_identity := snd (lasso_identity_add_federation (Some identity) (Some federation)),
                                                   prf_nameIdentifier := fed_local_nameIdentifier federation\<rparr>\<rparr>))))
         | _ \<Rightarrow> (LASSO_PROFILE_ERROR_UNKNOWN_PROVIDER, lg))"

definition lasso_saml20_login_validate_request_msg :: "string \<Rightarrow> lasso_login \<Rightarrow> bool \<Rightarrow> bool \<Rightarrow> int \<times> lasso_login" where
  "lasso_saml20_login_validate_request_msg uid lg authentication_result is_consent_obtained =
     (let p = lgn_parent lg;
          answer = (\<lambda>c1 c2 lg. lg\<lparr>lgn_parent := respond c1 c2 (lgn_parent lg)\<rparr>)
      in if \<not> authentication_result
         then (LASSO_LOGIN_ERROR_REQUEST_DENIED, answer LASSO_SAML2_STATUS_CODE_RESPONDER (Some LASSO_SAML2_STATUS_CODE_REQUEST_DENIED) lg)
         else if lasso_login_must_verify_authn_request_signature p \<and> prf_signature_status p \<noteq> 0
         then (if prf_signature_status p = LASSO_DS_ERROR_SIGNATURE_NOT_FOUND then LASSO_LOGIN_ERROR_UNSIGNED_AUTHN_REQUEST
               else LASSO_LOGIN_ERROR_INVALID_SIGNATURE,
               answer LASSO_SAML2_STATUS_CODE_REQUESTER (Some LASSO_LIB_STATUS_CODE_INVALID_SIGNATURE) lg)
         else case lasso_saml20_login_process_federation uid lg is_consent_obtained of
                (rc, lg) \<Rightarrow>
                  (rc, if rc = LASSO_LOGIN_ERROR_FEDERATION_NOT_FOUND
                       then answer LASSO_SAML2_STATUS_CODE_REQUESTER (Some LASSO_LIB_STATUS_CODE_FEDERATION_DOES_NOT_EXIST) lg
                       else if rc \<noteq> 0
                       then answer LASSO_SAML2_STATUS_CODE_RESPONDER (Some LASSO_SAML2_STATUS_CODE_REQUEST_DENIED) lg
                       else answer LASSO_SAML2_STATUS_CODE_SUCCESS None lg))"


section \<open>The assertion\<close>

definition lasso_login_saml20_get_federation :: "lasso_profile \<Rightarrow> lasso_federation option" where
  "lasso_login_saml20_get_federation p =
     lasso_identity_get_federation (prf_identity p)
       (Option.bind (lasso_server_get_provider (prf_server p) (prf_remote_providerID p)) lasso_provider_get_sp_name_qualifier)"

definition lasso_node_set_encryption :: "cstr \<Rightarrow> int \<Rightarrow> saml2_assertion \<Rightarrow> saml2_assertion" where
  "lasso_node_set_encryption key sym_key_type a =
     a\<lparr>asn_encryption := map_option (\<lambda>k. (k, if sym_key_type < 4 then sym_key_type else 0)) key\<rparr>"

text \<open>The name identifier of the subject: the return code, the identifier, and whether it is to be encrypted.
  \<open>tid\<close> is the fresh content of a transient one.  The identifier of a federation that is not one of
  SAML 2.0 has no place in the subject.\<close>

definition assertion_name_id ::
  "string \<Rightarrow> lasso_profile \<Rightarrow> lasso_provider \<Rightarrow> name_id_policy option \<Rightarrow> bool \<Rightarrow> int \<times> name_id option \<times> bool" where
  "assertion_name_id tid p own policy do_encrypt =
     (let format = Option.bind policy nip_Format in
      if format \<in> {None, Some LASSO_SAML2_NAME_IDENTIFIER_FORMAT_UNSPECIFIED, Some LASSO_SAML2_NAME_IDENTIFIER_FORMAT_TRANSIENT}
      then (0, Some ((lasso_saml2_name_id_new_with_string (Some tid))
                 \<lparr>nid_NameQualifier := lasso_provider_get_sp_name_qualifier own,
                  nid_Format := Some LASSO_SAML2_NAME_IDENTIFIER_FORMAT_TRANSIENT\<rparr>), do_encrypt)
      else if format \<in> {Some LASSO_SAML2_NAME_IDENTIFIER_FORMAT_PERSISTENT, Some LASSO_SAML2_NAME_IDENTIFIER_FORMAT_ENCRYPTED}
      then (case lasso_login_saml20_get_federation p of
              None \<Rightarrow> (LASSO_PROFILE_ERROR_FEDERATION_NOT_FOUND, None, do_encrypt)
            | Some f \<Rightarrow> (0, (case fed_local_nameIdentifier f of Some (Saml2NameID n) \<Rightarrow> Some n | _ \<Rightarrow> None),
                         do_encrypt \<or> format = Some LASSO_SAML2_NAME_IDENTIFIER_FORMAT_ENCRYPTED))
      else (0, Some (lasso_saml2_name_id_new\<lparr>nid_NameQualifier := prv_ProviderID own, nid_Format := format\<rparr>), False))"

text \<open>The assertion before it is signed or encrypted.\<close>

definition new_assertion ::
  "environment \<Rightarrow> string \<Rightarrow> lasso_provider \<Rightarrow> cstr \<Rightarrow> cstr \<Rightarrow> name_id option \<Rightarrow> bool \<Rightarrow>
     cstr \<Rightarrow> cstr \<Rightarrow> cstr \<Rightarrow> cstr \<Rightarrow> saml2_assertion" where
  "new_assertion env uid own audience in_response_to name_id with_session_index authenticationMethod authenticationInstant notBefore notOnOrAfter =
     lasso_saml2_assertion_new\<lparr>asn_ID := Some uid, asn_Version := Some ''2.0'',
       asn_IssueInstant := lasso_time_to_iso_8601_gmt (env_now env),
       asn_Issuer := Some (lasso_saml2_name_id_new_with_string (prv_ProviderID own)),
       asn_Conditions := Some (lasso_saml2_conditions_new\<lparr>cd_NotBefore := notBefore, cd_NotOnOrAfter := notOnOrAfter,
         cd_AudienceRestriction := [\<lparr>ar_Audience = audience\<rparr>]\<rparr>),
       asn_Subject := Some (lasso_saml2_subject_new\<lparr>sb_NameID := name_id,
         sb_SubjectConfirmation := Some (lasso_saml2_subject_confirmation_new
           \<lparr>sc_Method := Some LASSO_SAML2_CONFIRMATION_METHOD_BEARER,
            sc_SubjectConfirmationData := Some (lasso_saml2_subject_confirmation_data_new
              \<lparr>scd_NotOnOrAfter := notOnOrAfter, scd_InResponseTo := in_response_to\<rparr>)\<rparr>)\<rparr>),
       asn_AuthnStatement := [\<lparr>as_AuthnContextClassRef = authenticationMethod, as_AuthnInstant = authenticationInstant,
         as_SessionIndex = (if with_session_index then Some uid else None), as_SessionNotOnOrAfter = None\<rparr>]\<rparr>"

text \<open>The response, the session and the login object refer to the same assertion object.  A change of that
  object is written to every place that holds it; assertions have fresh identifiers, so that the value tells
  the object.\<close>

definition replace_assertion :: "saml2_assertion \<Rightarrow> saml2_assertion \<Rightarrow> lasso_profile \<Rightarrow> lasso_profile" where
  "replace_assertion a b p =
     p\<lparr>prf_session := map_option (\<lambda>s. s\<lparr>ses_assertions :=
           map (\<lambda>(k, v). (k, if v = Saml2Assertion a then Saml2Assertion b else v)) (ses_assertions s)\<rparr>) (prf_session p),
       prf_response := map_option (\<lambda>n. case n of
           ResponseNode r \<Rightarrow> ResponseNode (case rsp_body r of
               Samlp2Response as e \<Rightarrow> r\<lparr>rsp_body := Samlp2Response (map (\<lambda>x. if x = a then b else x) as) e\<rparr>
             | _ \<Rightarrow> r)
         | _ \<Rightarrow> n) (prf_response p)\<rparr>"

definition keep_in_session :: "message_io \<Rightarrow> saml2_assertion \<Rightarrow> lasso_profile \<Rightarrow> lasso_profile" where
  "keep_in_session io a p =
     p\<lparr>prf_session := snd (lasso_session_add_assertion (mio_thin_sessions io)
         (Some (case prf_session p of None \<Rightarrow> lasso_session_new | Some s \<Rightarrow> s)) (prf_remote_providerID p) (Some (Saml2Assertion a)))\<rparr>"

text \<open>The assertion is put into the session before its name identifier is encrypted; afterwards the object in
  the session has the encrypted one too.\<close>

definition encrypt_subject ::
  "message_io \<Rightarrow> lasso_provider option \<Rightarrow> saml2_assertion \<Rightarrow> lasso_profile \<Rightarrow> int \<times> saml2_assertion \<times> lasso_profile" where
  "encrypt_subject io provider a p =
     (let p = keep_in_session io a p in
      case provider of
        None \<Rightarrow> (LASSO_SERVER_ERROR_PROVIDER_NOT_FOUND, a, p)
      | Some r \<Rightarrow>
          (case Option.bind (Option.bind (asn_Subject a) sb_NameID)
                  (\<lambda>n. mio_encrypt_name io (Saml2NameID n) (lasso_provider_get_encryption_public_key r)
                         (prv_encryption_sym_key_type r) (prv_ProviderID r)) of
             None \<Rightarrow> (LASSO_DS_ERROR_ENCRYPTION_FAILED, a, p)
           | Some e \<Rightarrow>
               (let b = a\<lparr>asn_Subject := map_option (\<lambda>s. s\<lparr>sb_EncryptedID := Some e, sb_NameID := None\<rparr>) (asn_Subject a)\<rparr>
                in (0, b, replace_assertion a b p))))"

text \<open>What is to be encrypted for the provider.\<close>

definition encrypts_name_id :: "lasso_provider option \<Rightarrow> bool" where
  "encrypts_name_id provider = (case provider of None \<Rightarrow> False | Some r \<Rightarrow> prv_encryption_mode r AND 1 \<noteq> 0)"

definition setup_encryption :: "lasso_provider option \<Rightarrow> saml2_assertion \<Rightarrow> saml2_assertion" where
  "setup_encryption provider a =
     (case provider of
        None \<Rightarrow> a
      | Some r \<Rightarrow> if prv_encryption_mode r AND 2 \<noteq> 0
                  then lasso_node_set_encryption (lasso_provider_get_encryption_public_key r) (prv_encryption_sym_key_type r) a
                  else a)"

definition lasso_saml20_login_build_assertion ::
  "environment \<Rightarrow> message_io \<Rightarrow> string \<Rightarrow> string \<Rightarrow> lasso_login \<Rightarrow> cstr \<Rightarrow> cstr \<Rightarrow> cstr \<Rightarrow> cstr \<Rightarrow> int \<times> lasso_login" where
  "lasso_saml20_login_build_assertion env io uid tid lg authenticationMethod authenticationInstant notBefore notOnOrAfter =
     (let p = lgn_parent lg;
          provider = lasso_server_get_provider (prf_server p) (prf_remote_providerID p)
      in case (prf_response p, prf_server p) of
           (Some (ResponseNode response), Some server) \<Rightarrow>
             (case rsp_body response of
                Samlp2Response assertions encrypted \<Rightarrow>
                  (let own = srv_parent server;
                       policy = Option.bind (authn_body p) (\<lambda>(request, a). anr_NameIDPolicy a);
                       in_response_to = Option.bind (authn_body p) (\<lambda>(request, a). req_ID request)
                   in case assertion_name_id tid p own policy (encrypts_name_id provider) of
                        (rc, name_id, do_encrypt) \<Rightarrow>
                          if rc \<noteq> 0 then (rc, lg)
                          else
                            let (m, own') = lasso_provider_get_first_http_method own provider SINGLE_LOGOUT;
                                server = server\<lparr>srv_parent := own'\<rparr>;
                                p = p\<lparr>prf_server := Some server\<rparr>;
                                a = new_assertion env uid own (prf_remote_providerID p) in_response_to name_id
                                      (m \<noteq> Some LASSO_HTTP_METHOD_NONE) authenticationMethod authenticationInstant notBefore notOnOrAfter;
                                (rc, a) = lasso_server_saml2_assertion_setup_signature env uid server a
                            in if rc \<noteq> 0 then (rc, lg\<lparr>lgn_parent := p\<rparr>)
                               else
                                 let (rc, b, p) = (if do_encrypt then encrypt_subject io provider a p else (0, a, p))
                                 in if rc \<noteq> 0 then (rc, lg\<lparr>lgn_parent := p\<rparr>)
                                    else
                                      let c = setup_encryption provider b;
                                          p = replace_assertion b c p
                                      in (0, lg\<lparr>lgn_parent := p\<lparr>prf_response := Some (ResponseNode (response
                                                 \<lparr>rsp_body := Samlp2Response (assertions @ [c]) encrypted\<rparr>))\<rparr>,
                                               lgn_saml2_assertion := Some c\<rparr>))
              | _ \<Rightarrow> (LASSO_PROFILE_ERROR_MISSING_RESPONSE, lg))
         | (Some (ResponseNode response), None) \<Rightarrow> (LASSO_PROFILE_ERROR_MISSING_SERVER, lg)
         | _ \<Rightarrow> (LASSO_PROFILE_ERROR_MISSING_RESPONSE, lg))"

definition lasso_login_build_assertion ::
  "environment \<Rightarrow> message_io \<Rightarrow> string \<Rightarrow> string \<Rightarrow> lasso_login \<Rightarrow> cstr \<Rightarrow> cstr \<Rightarrow> cstr \<Rightarrow> cstr \<Rightarrow> int \<times> lasso_login" where
  "lasso_login_build_assertion env io uid tid lg authenticationMethod authenticationInstant notBefore notOnOrAfter =
     (if prf_identity (lgn_parent lg) = None then (LASSO_PROFILE_ERROR_IDENTITY_NOT_FOUND, lg)
      else lasso_saml20_login_build_assertion env io uid tid lg authenticationMethod authenticationInstant notBefore notOnOrAfter)"


section \<open>The response\<close>

text \<open>Where the assertion is to be sent.  The result is absent when the request is not an authentication request,
  which the code reads without a test.\<close>

definition lasso_saml20_login_get_assertion_consumer_service_url :: "lasso_profile \<Rightarrow> lasso_provider \<Rightarrow> cstr option" where
  "lasso_saml20_login_get_assertion_consumer_service_url p remote =
     (case authn_body p of
        None \<Rightarrow> None
      | Some (request, a) \<Rightarrow>
          Some (if anr_AssertionConsumerServiceURL a \<noteq> None \<and>
                   lasso_saml20_provider_check_assertion_consumer_service_url remote (anr_AssertionConsumerServiceURL a) (anr_ProtocolBinding a)
                then anr_AssertionConsumerServiceURL a
                else
                  let url = (if anr_AssertionConsumerServiceIndex a \<noteq> -1 \<or> anr_ProtocolBinding a = None
                             then lasso_saml20_provider_get_assertion_consumer_service_url remote (anr_AssertionConsumerServiceIndex a)
                             else None);
                      url = (if url = None \<and> anr_ProtocolBinding a \<noteq> None
                             then lasso_saml20_provider_get_assertion_consumer_service_url_by_binding remote (anr_ProtocolBinding a)
                             else url)
                  in if url = None then lasso_saml20_provider_get_assertion_consumer_service_url remote (-1) else url))"

definition set_recipient :: "cstr \<Rightarrow> saml2_assertion \<Rightarrow> saml2_assertion" where
  "set_recipient url a =
     a\<lparr>asn_Subject := map_option (\<lambda>s. s\<lparr>sb_SubjectConfirmation := map_option (\<lambda>c. c\<lparr>sc_SubjectConfirmationData :=
         map_option (\<lambda>d. d\<lparr>scd_Recipient := url\<rparr>) (sc_SubjectConfirmationData c)\<rparr>) (sb_SubjectConfirmation s)\<rparr>) (asn_Subject a)\<rparr>"

text \<open>Before the response is sent, the assertion gets the address it is for, and is put into the session when its
  name identifier is not encrypted.\<close>

definition finish_assertion :: "message_io \<Rightarrow> cstr \<Rightarrow> lasso_login \<Rightarrow> lasso_login" where
  "finish_assertion io url lg =
     (case lgn_saml2_assertion lg of
        None \<Rightarrow> lg
      | Some a \<Rightarrow>
          (let b = (case url of
                      None \<Rightarrow> a
                    | Some u \<Rightarrow> set_recipient (Some u) (snd (lasso_saml2_assertion_get_subject_confirmation_data a True)));
               p = replace_assertion a b (lgn_parent lg);
               p = (if Option.bind (asn_Subject b) sb_NameID \<noteq> None then keep_in_session io b p else p)
           in lg\<lparr>lgn_parent := p, lgn_saml2_assertion := Some b\<rparr>))"

definition lasso_saml20_login_build_artifact_msg ::
  "environment \<Rightarrow> message_io \<Rightarrow> 8 word list \<Rightarrow> lasso_login \<Rightarrow> int \<Rightarrow> (int \<times> lasso_login) option" where
  "lasso_saml20_login_build_artifact_msg env io rnd lg http_method =
     (let p = lgn_parent lg in
      if prf_remote_providerID p = None then Some (LASSO_PROFILE_ERROR_MISSING_REMOTE_PROVIDERID, lg)
      else if http_method \<noteq> LASSO_HTTP_METHOD_ARTIFACT_GET \<and> http_method \<noteq> LASSO_HTTP_METHOD_ARTIFACT_POST
      then Some (LASSO_PROFILE_ERROR_INVALID_HTTP_METHOD, lg)
      else case prf_response p of
             Some (ResponseNode response) \<Rightarrow>
               (case rsp_body response of
                  Samlp2Response _ _ \<Rightarrow>
                    if Option.bind (top_status response) sc_Value = None then Some (LASSO_PROFILE_ERROR_MISSING_STATUS_CODE, lg)
                    else (case lasso_server_get_provider (prf_server p) (prf_remote_providerID p) of
                            None \<Rightarrow> Some (LASSO_SERVER_ERROR_PROVIDER_NOT_FOUND, lg)
                          | Some remote \<Rightarrow>
                              map_option (\<lambda>url.
                                  let lg = finish_assertion io url lg
                                  in keep_artifact http_method lg
                                       (lasso_saml20_profile_build_response_msg env io rnd (lgn_parent lg) None http_method url))
                                (lasso_saml20_login_get_assertion_consumer_service_url p remote))
                | _ \<Rightarrow> Some (LASSO_PROFILE_ERROR_MISSING_RESPONSE, lg))
           | _ \<Rightarrow> Some (LASSO_PROFILE_ERROR_MISSING_RESPONSE, lg))"

definition lasso_saml20_login_build_authn_response_msg ::
  "environment \<Rightarrow> message_io \<Rightarrow> 8 word list \<Rightarrow> lasso_login \<Rightarrow> (int \<times> lasso_login) option" where
  "lasso_saml20_login_build_authn_response_msg env io rnd lg =
     (if lgn_protocolProfile lg \<noteq> LASSO_LOGIN_PROTOCOL_PROFILE_BRWS_POST \<and>
         lgn_protocolProfile lg \<noteq> LASSO_LOGIN_PROTOCOL_PROFILE_REDIRECT
      then Some (LASSO_PROFILE_ERROR_INVALID_PROTOCOLPROFILE, lg)
      else
        let p = lgn_parent lg;
            (rc, p) = (if lasso_login_must_sign_non_authn_request io p then sign_response env io p
                       else (0, p\<lparr>prf_response := map_option lasso_node_remove_signature (prf_response p)\<rparr>));
            lg = lg\<lparr>lgn_parent := p\<rparr>
        in if rc \<noteq> 0 then Some (rc, lg)
           else case lasso_server_get_provider (prf_server p) (prf_remote_providerID p) of
                  None \<Rightarrow> Some (LASSO_SERVER_ERROR_PROVIDER_NOT_FOUND, lg)
                | Some remote \<Rightarrow>
                    map_option (\<lambda>url.
                        let lg = finish_assertion io url lg;
                            m = (if lgn_protocolProfile lg = LASSO_LOGIN_PROTOCOL_PROFILE_BRWS_POST
                                 then LASSO_HTTP_METHOD_POST else LASSO_HTTP_METHOD_REDIRECT)
                        in keep_artifact m lg (lasso_saml20_profile_build_response_msg env io rnd (lgn_parent lg) None m url))
                      (lasso_saml20_login_get_assertion_consumer_service_url p remote))"

text \<open>The response to an artifact request, or the response for the enhanced client, which \<open>ecp\<close> puts into a SOAP
  envelope.  The parts of the assertion are read without tests.\<close>

definition has_confirmation_data :: "saml2_assertion \<Rightarrow> bool" where
  "has_confirmation_data a \<longleftrightarrow>
     Option.bind (asn_Subject a) (\<lambda>s. Option.bind (sb_SubjectConfirmation s) sc_SubjectConfirmationData) \<noteq> None"

definition lasso_saml20_login_build_response_msg ::
  "environment \<Rightarrow> message_io \<Rightarrow> (message_node \<Rightarrow> cstr \<Rightarrow> cstr) \<Rightarrow> string \<Rightarrow> lasso_login \<Rightarrow> (int \<times> lasso_login) option" where
  "lasso_saml20_login_build_response_msg env io ecp uid lg =
     (if lgn_protocolProfile lg = LASSO_LOGIN_PROTOCOL_PROFILE_BRWS_LECP then
        (let (rc, p) = sign_response env io (lgn_parent lg);
             lg = lg\<lparr>lgn_parent := p\<rparr>
         in if rc \<noteq> 0 then Some (rc, lg)
            else case lasso_server_get_provider (prf_server p) (prf_remote_providerID p) of
                   None \<Rightarrow> Some (LASSO_SERVER_ERROR_PROVIDER_NOT_FOUND, lg)
                 | Some remote \<Rightarrow>
                     (let url = lasso_saml20_provider_get_assertion_consumer_service_url_by_binding remote
                                  (Some LASSO_SAML2_METADATA_BINDING_PAOS);
                          b = map_option (set_recipient url) (lgn_saml2_assertion lg);
                          p = (case (lgn_saml2_assertion lg, b) of (Some a, Some b) \<Rightarrow> replace_assertion a b p | _ \<Rightarrow> p)
                      in if pred_option has_confirmation_data (lgn_saml2_assertion lg) then
                           (case prf_response p of
                              Some (ResponseNode r) \<Rightarrow>
                                (let n = ResponseNode (r\<lparr>rsp_Destination := url\<rparr>)
                                 in Some (0, lg\<lparr>lgn_parent := p\<lparr>prf_response := Some n, prf_msg_body := ecp n url\<rparr>, lgn_saml2_assertion := b\<rparr>))
                            | _ \<Rightarrow> None)
                         else None))
      else case lasso_saml20_profile_build_artifact_response env io uid (lgn_parent lg) of
             (rc, p) \<Rightarrow> Some (rc, lg\<lparr>lgn_parent := p\<rparr>))"

definition lasso_saml20_login_process_request_msg ::
  "environment \<Rightarrow> message_io \<Rightarrow> lasso_login \<Rightarrow> string \<Rightarrow> (int \<times> lasso_login) option" where
  "lasso_saml20_login_process_request_msg env io lg msg =
     map_option (\<lambda>(rc, p). (rc, lg\<lparr>lgn_parent := p, lgn_assertionArtifact := (if rc = 0 then prf_artifact p else lgn_assertionArtifact lg)\<rparr>))
       (lasso_saml20_profile_process_artifact_resolve env io (lgn_parent lg) msg)"

text \<open>The service provider gets an artifact resolved, to a response or to a request.\<close>

definition lasso_saml20_login_process_response_msg ::
  "environment \<Rightarrow> message_io \<Rightarrow> string \<Rightarrow> lasso_login \<Rightarrow> string \<Rightarrow> int \<times> lasso_login" where
  "lasso_saml20_login_process_response_msg env io uid lg msg =
     (case lasso_saml20_profile_process_artifact_response env io (lgn_parent lg) msg of
        (rc, p) \<Rightarrow>
          (let lg = lg\<lparr>lgn_parent := p\<rparr> in
           if rc \<noteq> 0 then (rc, lg)
           else case prf_response p of
                  Some (ResponseNode r) \<Rightarrow>
                    (case rsp_body r of
                       ArtifactResponse _ \<Rightarrow> lasso_saml20_login_process_authn_request_msg env io uid lg None
                     | _ \<Rightarrow> lasso_saml20_login_process_response_status_and_assertion env io lg)
                | _ \<Rightarrow> lasso_saml20_login_process_response_status_and_assertion env io lg))"


section \<open>Where assertions are sent\<close>

lemma find_endpoint:
  "List.find P es = Some e \<Longrightarrow> e \<in> set es \<and> P e"
  by (auto simp: find_Some_iff)

lemma acs_url_endpoint:
  "lasso_saml20_provider_get_assertion_consumer_service_url r i = Some url \<Longrightarrow>
     \<exists>e \<in> set (prv_endpoints r). ep_role e = LASSO_PROVIDER_ROLE_SP \<and> ep_url e = url"
  unfolding lasso_saml20_provider_get_assertion_consumer_service_url_def lasso_saml20_provider_get_assertion_consumer_service_def
  by (auto simp: is_acs_def dest!: find_endpoint split: if_splits)

lemma acs_url_by_binding_endpoint:
  "lasso_saml20_provider_get_assertion_consumer_service_url_by_binding r b = Some url \<Longrightarrow>
     \<exists>e \<in> set (prv_endpoints r). ep_role e = LASSO_PROVIDER_ROLE_SP \<and> ep_url e = url"
  unfolding lasso_saml20_provider_get_assertion_consumer_service_url_by_binding_def
  by (auto simp: is_acs_def dest!: find_endpoint)

lemma login_acs_url_endpoint:
  assumes "lasso_saml20_login_get_assertion_consumer_service_url p remote = Some (Some url)"
  shows "\<exists>e \<in> set (prv_endpoints remote). ep_role e = LASSO_PROVIDER_ROLE_SP \<and> ep_url e = url"
proof -
  obtain request a where b: "authn_body p = Some (request, a)"
    using assms by (auto simp: lasso_saml20_login_get_assertion_consumer_service_url_def split: option.splits)
  consider "lasso_saml20_provider_check_assertion_consumer_service_url remote (Some url) (anr_ProtocolBinding a)"
    | i where "lasso_saml20_provider_get_assertion_consumer_service_url remote i = Some url"
    | "lasso_saml20_provider_get_assertion_consumer_service_url_by_binding remote (anr_ProtocolBinding a) = Some url"
    using assms by (auto simp: lasso_saml20_login_get_assertion_consumer_service_url_def b Let_def split: if_splits)
  then show ?thesis
    by cases (auto simp: lasso_saml20_provider_check_assertion_consumer_service_url_def list_ex_iff
        dest: acs_url_endpoint acs_url_by_binding_endpoint)
qed

lemma replace_assertion_frame [simp]:
  "prf_request (replace_assertion a b p) = prf_request p" "prf_server (replace_assertion a b p) = prf_server p"
  "prf_remote_providerID (replace_assertion a b p) = prf_remote_providerID p" "prf_identity (replace_assertion a b p) = prf_identity p"
  by (simp_all add: replace_assertion_def)

lemma keep_in_session_frame [simp]:
  "prf_request (keep_in_session io a p) = prf_request p" "prf_server (keep_in_session io a p) = prf_server p"
  "prf_remote_providerID (keep_in_session io a p) = prf_remote_providerID p" "prf_response (keep_in_session io a p) = prf_response p"
  "prf_identity (keep_in_session io a p) = prf_identity p"
  by (simp_all add: keep_in_session_def)

lemma finish_assertion_frame [simp]:
  "prf_server (lgn_parent (finish_assertion io url lg)) = prf_server (lgn_parent lg)"
  "prf_remote_providerID (lgn_parent (finish_assertion io url lg)) = prf_remote_providerID (lgn_parent lg)"
  "lgn_protocolProfile (finish_assertion io url lg) = lgn_protocolProfile lg"
  by (simp_all add: finish_assertion_def Let_def split: option.split)

definition recipient :: "saml2_assertion \<Rightarrow> cstr" where
  "recipient a = Option.bind (fst (lasso_saml2_assertion_get_subject_confirmation_data a False)) scd_Recipient"

lemma finish_assertion_recipient:
  assumes "lgn_saml2_assertion (finish_assertion io (Some url) lg) = Some b"
  shows "recipient b = Some url"
  using assms
  by (auto simp: finish_assertion_def Let_def recipient_def set_recipient_def set_subject_confirmation_def
      lasso_saml2_assertion_get_subject_confirmation_data_def lasso_saml2_assertion_get_subject_confirmation_def
      lasso_saml2_assertion_get_subject_def split: option.splits prod.splits if_splits)

lemma export_to_query_fails:
  "lasso_saml20_profile_export_to_query env io p msg context \<noteq> (0, None)"
  by (auto simp: lasso_saml20_profile_export_to_query_def Let_def split: option.splits if_splits)

lemma build_response_msg_destination:
  assumes "lasso_saml20_profile_build_response_msg env io rnd p None m url = (0, p')"
    and "m = LASSO_HTTP_METHOD_POST \<or> m = LASSO_HTTP_METHOD_REDIRECT"
  shows "\<exists>u r. url = Some u \<and> prf_response p' = Some (ResponseNode r) \<and> rsp_Destination r = Some u \<and>
    (if m = LASSO_HTTP_METHOD_POST then prf_msg_url p' = Some u else \<exists>q. prf_msg_url p' = Some (lasso_concat_url_query u q))"
  using assms
  by (auto simp: lasso_saml20_profile_build_response_msg_def Let_def needs_url_def lasso_saml20_profile_build_post_response_msg_def
      check_msg_body_def lasso_saml20_profile_build_redirect_response_msg_def lasso_saml20_profile_build_http_redirect_def
      lasso_node_remove_signature_def lasso_node_set_signature_def get_provider_def export_to_query_fails
      split: option.splits message_node.splits if_splits prod.splits)

text \<open>C2: the response of the identity provider goes only to an address that the metadata of the service provider lists among its
  endpoints as a service provider, whatever address the request asks for; the response names that address as its
  destination, and the assertion names it as its recipient.\<close>

theorem response_sent_to_metadata_endpoint:
  assumes "lasso_saml20_login_build_authn_response_msg env io rnd lg = Some (0, lg')"
  shows "\<exists>remote e r. lasso_server_get_provider (prf_server (lgn_parent lg)) (prf_remote_providerID (lgn_parent lg)) = Some remote \<and>
    e \<in> set (prv_endpoints remote) \<and> ep_role e = LASSO_PROVIDER_ROLE_SP \<and>
    (if lgn_protocolProfile lg = LASSO_LOGIN_PROTOCOL_PROFILE_BRWS_POST then prf_msg_url (lgn_parent lg') = Some (ep_url e)
     else \<exists>q. prf_msg_url (lgn_parent lg') = Some (lasso_concat_url_query (ep_url e) q)) \<and>
    prf_response (lgn_parent lg') = Some (ResponseNode r) \<and> rsp_Destination r = Some (ep_url e) \<and>
    (\<forall>a. lgn_saml2_assertion lg' = Some a \<longrightarrow> recipient a = Some (ep_url e))"
proof -
  let ?p = "lgn_parent lg"
  let ?m = "if lgn_protocolProfile lg = LASSO_LOGIN_PROTOCOL_PROFILE_BRWS_POST then LASSO_HTTP_METHOD_POST else LASSO_HTTP_METHOD_REDIRECT"
  obtain rc q where s: "(if lasso_login_must_sign_non_authn_request io ?p then sign_response env io ?p
        else (0, ?p\<lparr>prf_response := map_option lasso_node_remove_signature (prf_response ?p)\<rparr>)) = (rc, q)" by (metis surj_pair)
  have q: "prf_server q = prf_server ?p" "prf_remote_providerID q = prf_remote_providerID ?p"
    using s by (auto simp: sign_response_def Let_def split: if_splits prod.splits)
  obtain remote url where r: "lasso_server_get_provider (prf_server ?p) (prf_remote_providerID ?p) = Some remote"
    and u: "lasso_saml20_login_get_assertion_consumer_service_url q remote = Some url"
    and k: "keep_artifact ?m (finish_assertion io url (lg\<lparr>lgn_parent := q\<rparr>))
        (lasso_saml20_profile_build_response_msg env io rnd (lgn_parent (finish_assertion io url (lg\<lparr>lgn_parent := q\<rparr>))) None ?m url) = (0, lg')"
    using assms unfolding lasso_saml20_login_build_authn_response_msg_def Let_def s
    by (auto simp: q split: if_splits option.splits)
  obtain p' where b: "lasso_saml20_profile_build_response_msg env io rnd (lgn_parent (finish_assertion io url (lg\<lparr>lgn_parent := q\<rparr>))) None ?m url = (0, p')"
    and l: "lgn_parent lg' = p'" "lgn_saml2_assertion lg' = lgn_saml2_assertion (finish_assertion io url (lg\<lparr>lgn_parent := q\<rparr>))"
    using k by (auto simp: keep_artifact_def split: prod.splits)
  obtain v w where v: "url = Some v" "prf_response p' = Some (ResponseNode w)" "rsp_Destination w = Some v"
    "if ?m = LASSO_HTTP_METHOD_POST then prf_msg_url p' = Some v else \<exists>q. prf_msg_url p' = Some (lasso_concat_url_query v q)"
    by (rule build_response_msg_destination[OF b, THEN exE]) (auto split: if_splits)
  obtain e where e: "e \<in> set (prv_endpoints remote)" "ep_role e = LASSO_PROVIDER_ROLE_SP" "ep_url e = v"
    using login_acs_url_endpoint[OF u[unfolded v]] by auto
  have "recipient a = Some (ep_url e)" if "lgn_saml2_assertion lg' = Some a" for a
    using finish_assertion_recipient[of io v "lg\<lparr>lgn_parent := q\<rparr>" a] that e v l by simp
  then show ?thesis
    using r e v l by (intro exI[of _ remote] exI[of _ e] exI[of _ w]) (auto split: if_splits)
qed


section \<open>What the assertion says\<close>

lemma set_encryption_frame [simp]:
  "asn_Issuer (lasso_node_set_encryption k t a) = asn_Issuer a" "asn_Subject (lasso_node_set_encryption k t a) = asn_Subject a"
  "asn_Conditions (lasso_node_set_encryption k t a) = asn_Conditions a" "asn_AuthnStatement (lasso_node_set_encryption k t a) = asn_AuthnStatement a"
  "asn_ID (lasso_node_set_encryption k t a) = asn_ID a"
  by (simp_all add: lasso_node_set_encryption_def)

text \<open>The part of an assertion that neither the signature nor the encryption of the name identifier or of the assertion
  changes.\<close>

definition statement_of :: "saml2_assertion \<Rightarrow>
    cstr \<times> name_id option \<times> conditions option \<times> authn_statement list \<times> subject_confirmation option option" where
  "statement_of a = (asn_ID a, asn_Issuer a, asn_Conditions a, asn_AuthnStatement a, map_option sb_SubjectConfirmation (asn_Subject a))"

lemma setup_signature_statement:
  assumes "lasso_server_saml2_assertion_setup_signature env uid s a = (rc, b)" and "asn_ID a \<noteq> None"
  shows "statement_of b = statement_of a \<and> asn_Subject b = asn_Subject a"
  using assms by (auto simp: lasso_server_saml2_assertion_setup_signature_def statement_of_def Let_def split: prod.splits if_splits)

lemma encrypt_subject_statement:
  assumes "encrypt_subject io r a p = (0, b, q)"
  shows "statement_of b = statement_of a"
  using assms by (cases "asn_Subject a")
    (auto simp: encrypt_subject_def statement_of_def Let_def split: option.splits)

lemma new_assertion_statement:
  "statement_of (new_assertion env uid own aud irt n six am ai nb na) =
     (Some uid, Some (lasso_saml2_name_id_new_with_string (prv_ProviderID own)),
      Some (lasso_saml2_conditions_new\<lparr>cd_NotBefore := nb, cd_NotOnOrAfter := na, cd_AudienceRestriction := [\<lparr>ar_Audience = aud\<rparr>]\<rparr>),
      [\<lparr>as_AuthnContextClassRef = am, as_AuthnInstant = ai, as_SessionIndex = (if six then Some uid else None), as_SessionNotOnOrAfter = None\<rparr>],
      Some (Some (lasso_saml2_subject_confirmation_new
           \<lparr>sc_Method := Some LASSO_SAML2_CONFIRMATION_METHOD_BEARER,
            sc_SubjectConfirmationData := Some (lasso_saml2_subject_confirmation_data_new
              \<lparr>scd_NotOnOrAfter := na, scd_InResponseTo := irt\<rparr>)\<rparr>)))"
  "asn_Subject (new_assertion env uid own aud irt n six am ai nb na) \<noteq> None"
  "Option.bind (asn_Subject (new_assertion env uid own aud irt n six am ai nb na)) sb_NameID = n"
  "asn_ID (new_assertion env uid own aud irt n six am ai nb na) = Some uid"
  by (simp_all add: new_assertion_def statement_of_def)

lemma build_assertion_ok:
  assumes "lasso_saml20_login_build_assertion env io uid tid lg am ai nb na = (0, lg')"
  obtains response assertions encrypted server n enc six c where
    "prf_response (lgn_parent lg) = Some (ResponseNode response)" "rsp_body response = Samlp2Response assertions encrypted"
    "prf_server (lgn_parent lg) = Some server"
    "assertion_name_id tid (lgn_parent lg) (srv_parent server) (Option.bind (authn_body (lgn_parent lg)) (\<lambda>(request, a). anr_NameIDPolicy a))
       (encrypts_name_id (lasso_server_get_provider (prf_server (lgn_parent lg)) (prf_remote_providerID (lgn_parent lg)))) = (0, n, enc)"
    "statement_of c = statement_of (new_assertion env uid (srv_parent server) (prf_remote_providerID (lgn_parent lg))
       (Option.bind (authn_body (lgn_parent lg)) (\<lambda>(request, a). req_ID request)) n six am ai nb na)"
    "\<not> enc \<longrightarrow> Option.bind (asn_Subject c) sb_NameID = n"
    "prf_response (lgn_parent lg') = Some (ResponseNode (response\<lparr>rsp_body := Samlp2Response (assertions @ [c]) encrypted\<rparr>))"
    "lgn_saml2_assertion lg' = Some c"
proof -
  let ?p = "lgn_parent lg"
  let ?provider = "lasso_server_get_provider (prf_server ?p) (prf_remote_providerID ?p)"
  obtain response where r: "prf_response ?p = Some (ResponseNode response)"
    using assms by (auto simp: lasso_saml20_login_build_assertion_def Let_def split: option.splits message_node.splits)
  obtain server where s: "prf_server ?p = Some server"
    using assms by (auto simp: lasso_saml20_login_build_assertion_def Let_def r split: option.splits)
  obtain assertions encrypted where b: "rsp_body response = Samlp2Response assertions encrypted"
    using assms by (auto simp: lasso_saml20_login_build_assertion_def Let_def r s split: response_body.splits)
  obtain rc1 n enc where n: "assertion_name_id tid ?p (srv_parent server) (Option.bind (authn_body ?p) (\<lambda>(request, a). anr_NameIDPolicy a))
       (encrypts_name_id ?provider) = (rc1, n, enc)" by (metis surj_pair)
  obtain m own where h: "lasso_provider_get_first_http_method (srv_parent server) ?provider SINGLE_LOGOUT = (m, own)" by (metis surj_pair)
  define a1 where "a1 = new_assertion env uid (srv_parent server) (prf_remote_providerID ?p)
       (Option.bind (authn_body ?p) (\<lambda>(request, a). req_ID request)) n (m \<noteq> Some LASSO_HTTP_METHOD_NONE) am ai nb na"
  obtain rc2 a2 where a2: "lasso_server_saml2_assertion_setup_signature env uid (server\<lparr>srv_parent := own\<rparr>) a1 = (rc2, a2)" by (metis surj_pair)
  define q where "q = ?p\<lparr>prf_server := Some (server\<lparr>srv_parent := own\<rparr>)\<rparr>"
  obtain rc3 a3 q3 where a3: "(if enc then encrypt_subject io ?provider a2 q else (0, a2, q)) = (rc3, a3, q3)" by (metis surj_pair)
  define c where "c = setup_encryption ?provider a3"
  have d: "rc1 = 0 \<and> rc2 = 0 \<and> rc3 = 0 \<and>
      prf_response (lgn_parent lg') = Some (ResponseNode (response\<lparr>rsp_body := Samlp2Response (assertions @ [c]) encrypted\<rparr>)) \<and>
      lgn_saml2_assertion lg' = Some c"
    using assms n[unfolded s] h[unfolded s] a2 a3[unfolded s]
    unfolding lasso_saml20_login_build_assertion_def Let_def r s option.case message_node.case prod.case b response_body.case
    by (auto simp: a1_def q_def c_def s split: if_splits)
  have st: "statement_of c = statement_of a3" "asn_Subject c = asn_Subject a3"
    by (simp_all add: c_def setup_encryption_def statement_of_def split: option.split)
  have 3: "statement_of a3 = statement_of a2" "\<not> enc \<longrightarrow> a3 = a2"
    using a3 d encrypt_subject_statement by (auto split: if_splits)
  have 2: "statement_of a2 = statement_of a1 \<and> asn_Subject a2 = asn_Subject a1"
    using a2 by (rule setup_signature_statement) (simp add: a1_def new_assertion_statement)
  show ?thesis
    using d n st 3 2 by (intro that[OF r b s]) (auto simp: a1_def new_assertion_statement(3))
qed


lemma statement_of_confirmation:
  assumes "statement_of b = (i, iss, cd, sts, Some (Some sc))"
  shows "asn_Subject b \<noteq> None" "asn_Issuer b = iss" "asn_Conditions b = cd" "asn_AuthnStatement b = sts" "asn_ID b = i"
    "lasso_saml2_assertion_get_in_response_to b = Option.bind (sc_SubjectConfirmationData sc) scd_InResponseTo"
  using assms
  by (auto simp: statement_of_def lasso_saml2_assertion_get_in_response_to_def lasso_saml2_assertion_get_subject_confirmation_data_def
      lasso_saml2_assertion_get_subject_confirmation_def lasso_saml2_assertion_get_subject_def split: option.split)

lemma check_assertion_passing:
  assumes "assertion_passes env request_id p a" and "asn_Subject a = Some s" "sb_NameID s \<noteq> None \<or> sb_EncryptedID s = None"
  shows "fst (check_assertion env io request_id p a) = 0"
  using assms
  by (auto simp: check_assertion_def assertion_passes_def lasso_saml20_profile_process_name_identifier_decryption_def Let_def
      split: option.splits)

text \<open>An assertion arrives as a tree that is kept with it; nothing else of it is different at the other end.\<close>

lemma arrived_in_response_to:
  "lasso_saml2_assertion_get_in_response_to (b\<lparr>asn_original_xmlnode := t\<rparr>) = lasso_saml2_assertion_get_in_response_to b"
  by (simp add: lasso_saml2_assertion_get_in_response_to_def lasso_saml2_assertion_get_subject_confirmation_data_def
      lasso_saml2_assertion_get_subject_confirmation_def lasso_saml2_assertion_get_subject_def split: option.split)

lemma arrived_assertion_checked:
  assumes "asn_Subject b = Some s" and "sb_NameID s \<noteq> None \<or> sb_EncryptedID s = None"
    and "asn_Issuer b = Some (lasso_saml2_name_id_new_with_string i)" and "lasso_saml2_assertion_get_in_response_to b = request_id"
    and "prf_remote_providerID sp = i" and "lasso_server_get_provider (prf_server sp) i = Some idp"
    and "lasso_provider_verify_saml_signature (env_crypto env) (env_verify_signature env) idp (Some tree) = 0"
  shows "fst (check_assertion env io request_id sp (b\<lparr>asn_original_xmlnode := Some tree\<rparr>)) = 0"
proof (rule check_assertion_passing[OF _ _ assms(2)])
  have known: "prf_server sp \<noteq> None" "i \<noteq> None" using assms(6) by (auto simp: lasso_server_get_provider_def split: option.splits)
  have "lasso_saml20_login_check_assertion_signature env sp (b\<lparr>asn_original_xmlnode := Some tree\<rparr>) = 0"
    using assms(3,6,7) known
    by (auto simp: lasso_saml20_login_check_assertion_signature_def lasso_saml20_is_valid_issuer_def lasso_saml2_name_id_new_with_string_def
        lasso_saml2_name_id_new_def)
  then show "assertion_passes env request_id sp (b\<lparr>asn_original_xmlnode := Some tree\<rparr>)"
    using assms(1,3,4,5) known
    by (auto simp: assertion_passes_def lasso_check_assertion_issuer_def assertion_signature_rc_zero arrived_in_response_to)
qed (simp add: assms(1))

text \<open>C3: an assertion that the identity provider builds for a request is for the service provider that sent the request and
  for nobody else.  A service provider that knows the identity provider and expects its answer to this request takes the
  assertion, when it arrives as a tree whose signature verifies with the keys of the identity provider and unless its name
  identifier is encrypted: the assertion passes the checks of issuer, signature, subject and request.\<close>

theorem built_assertion_accepted:
  assumes "lasso_saml20_login_build_assertion env io uid tid lg am ai nb na = (0, lg')"
    and "authn_body (lgn_parent lg) = Some (request, a)" and "prf_server (lgn_parent lg) = Some server"
  shows "\<exists>r as encrypted b s. prf_response (lgn_parent lg') = Some (ResponseNode r) \<and> rsp_body r = Samlp2Response (as @ [b]) encrypted \<and>
    lgn_saml2_assertion lg' = Some b \<and> asn_Subject b = Some s \<and>
    (\<forall>audience. lasso_saml2_assertion_validate_audience b audience =
       (if audience = prf_remote_providerID (lgn_parent lg) then LASSO_SAML2_ASSERTION_VALID else LASSO_SAML2_ASSERTION_INVALID)) \<and>
    (\<forall>env' io' sp idp tree. prf_remote_providerID sp = prv_ProviderID (srv_parent server) \<and>
       lasso_server_get_provider (prf_server sp) (prv_ProviderID (srv_parent server)) = Some idp \<and>
       lasso_provider_verify_saml_signature (env_crypto env') (env_verify_signature env') idp (Some tree) = 0 \<and>
       (sb_NameID s \<noteq> None \<or> sb_EncryptedID s = None) \<longrightarrow>
       fst (check_assertion env' io' (req_ID request) sp (b\<lparr>asn_original_xmlnode := Some tree\<rparr>)) = 0)"
proof -
  let ?q = "prf_remote_providerID (lgn_parent lg)"
  obtain response assertions encrypted server' n enc six b where
    "prf_response (lgn_parent lg) = Some (ResponseNode response)" "rsp_body response = Samlp2Response assertions encrypted"
    and sv: "prf_server (lgn_parent lg) = Some server'"
    and "assertion_name_id tid (lgn_parent lg) (srv_parent server') (Option.bind (authn_body (lgn_parent lg)) (\<lambda>(request, a). anr_NameIDPolicy a))
       (encrypts_name_id (lasso_server_get_provider (prf_server (lgn_parent lg)) (prf_remote_providerID (lgn_parent lg)))) = (0, n, enc)"
    and st: "statement_of b = statement_of (new_assertion env uid (srv_parent server') ?q
       (Option.bind (authn_body (lgn_parent lg)) (\<lambda>(request, a). req_ID request)) n six am ai nb na)"
    and "\<not> enc \<longrightarrow> Option.bind (asn_Subject b) sb_NameID = n"
    and out: "prf_response (lgn_parent lg') = Some (ResponseNode (response\<lparr>rsp_body := Samlp2Response (assertions @ [b]) encrypted\<rparr>))"
      "lgn_saml2_assertion lg' = Some b"
    by (rule build_assertion_ok[OF assms(1)])
  note c = statement_of_confirmation[OF st[unfolded new_assertion_statement]]
  have own: "server' = server" using sv assms(3) by simp
  obtain s where s: "asn_Subject b = Some s" using c(1) by blast
  have aud: "lasso_saml2_assertion_validate_audience b x =
      (if x = ?q then LASSO_SAML2_ASSERTION_VALID else LASSO_SAML2_ASSERTION_INVALID)" for x
    using c(3) by (auto simp: lasso_saml2_assertion_validate_audience_def)
  note accepted = arrived_assertion_checked[OF s]
  show ?thesis
    using out s aud accepted c(2,6) assms(2) own
    by (intro exI[of _ "response\<lparr>rsp_body := Samlp2Response (assertions @ [b]) encrypted\<rparr>"] exI[of _ assertions] exI[of _ encrypted]
        exI[of _ b] exI[of _ s]) simp
qed

text \<open>The format in the policy of the request decides, and not the default of the metadata that the federation was made
  for: without a format the name identifier is transient.\<close>

theorem default_format_ignored_in_assertion:
  assumes "lasso_saml20_login_build_assertion env io uid tid lg am ai nb na = (0, lg')"
    and "authn_body (lgn_parent lg) = Some (request, a)" and "Option.bind (anr_NameIDPolicy a) nip_Format = None"
    and "\<not> encrypts_name_id (lasso_server_get_provider (prf_server (lgn_parent lg)) (prf_remote_providerID (lgn_parent lg)))"
  shows "\<exists>b n. lgn_saml2_assertion lg' = Some b \<and> Option.bind (asn_Subject b) sb_NameID = Some n \<and>
    nid_Format n = Some LASSO_SAML2_NAME_IDENTIFIER_FORMAT_TRANSIENT \<and> nid_content n = Some tid"
  by (rule build_assertion_ok[OF assms(1)])
    (use assms(2-4) in \<open>auto simp: assertion_name_id_def Let_def lasso_saml2_name_id_new_with_string_def\<close>)


section \<open>Which federation the name identifier comes from\<close>

lemma get_federation_add:
  "lasso_identity_get_federation (snd (lasso_identity_add_federation (Some i) (Some f))) (Some q) =
     (if q = fed_remote_providerID f then Some f else lasso_identity_get_federation (Some i) (Some q))"
  by (auto simp: lasso_identity_get_federation_def lasso_identity_add_federation_def)

text \<open>For a request for a persistent name identifier, the identity provider takes the identifier of the federation
  with the service provider; only when there is none, the principal agreed and the request allows it, it makes one, with
  the fresh content; the federations with the other service providers are never touched, and nothing is made without
  consent.\<close>

theorem process_federation_law:
  assumes "lasso_saml20_login_process_federation uid lg consent = (rc, lg')"
    and "prf_identity (lgn_parent lg) = Some i" and "prf_server (lgn_parent lg) = Some server"
    and "lasso_server_get_provider (Some server) (prf_remote_providerID (lgn_parent lg)) = Some remote"
    and "authn_body (lgn_parent lg) = Some (request, a)" and "anr_NameIDPolicy a = Some policy"
    and "nip_Format policy = Some LASSO_SAML2_NAME_IDENTIFIER_FORMAT_PERSISTENT"
    and "lasso_provider_get_sp_name_qualifier remote = Some q"
  shows "(case lasso_identity_get_federation (Some i) (Some q) of
        Some f \<Rightarrow> rc = 0 \<and> prf_nameIdentifier (lgn_parent lg') = fed_local_nameIdentifier f \<and>
          prf_identity (lgn_parent lg') = Some i
      | None \<Rightarrow>
          if nip_AllowCreate policy \<and> consent_missing (req_Consent request) \<and> \<not> consent
          then rc = LASSO_LOGIN_ERROR_CONSENT_NOT_OBTAINED \<and> prf_identity (lgn_parent lg') = Some i
          else if \<not> nip_AllowCreate policy
          then rc = LASSO_LOGIN_ERROR_FEDERATION_NOT_FOUND \<and> prf_identity (lgn_parent lg') = Some i
          else rc = 0 \<and> (\<exists>n. prf_nameIdentifier (lgn_parent lg') = Some (Saml2NameID n) \<and> nid_content n = Some uid \<and>
                 nid_Format n = Some LASSO_SAML2_NAME_IDENTIFIER_FORMAT_PERSISTENT \<and> nid_SPNameQualifier n = Some q \<and>
                 nid_NameQualifier n = prv_ProviderID (srv_parent server) \<and>
                 (\<forall>q'. lasso_identity_get_federation (prf_identity (lgn_parent lg')) (Some q') =
                    (if q' = q then Some \<lparr>fed_remote_providerID = q, fed_local_nameIdentifier = Some (Saml2NameID n), fed_remote_nameIdentifier = None\<rparr>
                     else lasso_identity_get_federation (Some i) (Some q')))))"
  using assms
  by (auto simp: lasso_saml20_login_process_federation_def lasso_saml20_login_must_ask_for_consent_private_def authn_body_def Let_def
      lasso_strisnotequal_def new_federation_def get_federation_add lasso_saml20_federation_build_name_identifier_def
      lasso_saml2_name_id_new_with_string_def uri_defs split: option.splits if_splits message_node.splits request_body.splits)

section \<open>When the principal has to authenticate\<close>

text \<open>A principal without a session has to authenticate, unless the request is passive or asks for an authentication
  context that lists no class: such a request is taken to be satisfied by the absent session too.\<close>

theorem must_authenticate_without_session:
  assumes "authn_body (lgn_parent lg) = Some (request, a)" and "prf_session (lgn_parent lg) = None"
  shows "fst (lasso_saml20_login_must_authenticate io lg) \<longleftrightarrow>
    \<not> anr_IsPassive a \<and> (anr_ForceAuthn a \<or> pred_option (\<lambda>c. rac_AuthnContextClassRef c \<noteq> []) (anr_RequestedAuthnContext a))"
  using assms
  by (auto simp: lasso_saml20_login_must_authenticate_def Let_def authn_context_matches_def lasso_session_get_assertions_def
      list_ex_iff split: option.splits)

section \<open>Which authentication requests are answered\<close>

lemma authn_request_msg_ok:
  assumes "lasso_saml20_login_process_authn_request_msg env io uid lg (Some msg) = (0, lg')"
  obtains p request a remote server i rc profile a' p2 where
    "lasso_saml20_profile_process_any_request env io (lgn_parent lg) ''AuthnRequest'' msg = (0, p)"
    "authn_body p = Some (request, a)" "Option.bind (req_Issuer request) nid_content \<noteq> None"
    "prf_server p = Some server" "prf_remote_providerID p = Some i" "lasso_server_get_provider (Some server) (Some i) = Some remote"
    "choose_protocol_profile remote a = (0, profile, a')"
    "p2 = set_authn_body a' (p\<lparr>prf_server := Some (act_as_idp i server)\<rparr>)"
    "lasso_login_must_verify_authn_request_signature p2 \<longrightarrow> prf_signature_status p2 = 0"
    "lgn_parent lg' = snd (lasso_saml20_profile_init_response env io uid p2
       ((lasso_samlp2_status_response_new (Samlp2Response [] []))\<lparr>rsp_InResponseTo := req_ID request\<rparr>)
       (Some LASSO_SAML2_STATUS_CODE_SUCCESS) None)" "lgn_protocolProfile lg' = profile"
proof -
  obtain rc p where p: "lasso_saml20_profile_process_any_request env io (lgn_parent lg) ''AuthnRequest'' msg = (rc, p)" by (metis surj_pair)
  have rc: "rc = 0" and "authn_body p \<noteq> None"
    using assms p by (auto simp: lasso_saml20_login_process_authn_request_msg_def split: if_splits option.splits)
  then obtain request a where b: "authn_body p = Some (request, a)" by auto
  obtain server i remote where s: "prf_server p = Some server" "prf_remote_providerID p = Some i"
    "lasso_server_get_provider (Some server) (Some i) = Some remote" and iss: "Option.bind (req_Issuer request) nid_content \<noteq> None"
    using assms p rc b
    by (auto simp: lasso_saml20_login_process_authn_request_msg_def Let_def lasso_server_get_provider_def split: if_splits option.splits)
  obtain rc2 profile a' where c: "choose_protocol_profile remote a = (rc2, profile, a')" by (metis surj_pair)
  have d: "rc2 = 0 \<and> (lasso_login_must_verify_authn_request_signature (set_authn_body a' (p\<lparr>prf_server := Some (act_as_idp i server)\<rparr>)) \<longrightarrow>
      prf_signature_status (set_authn_body a' (p\<lparr>prf_server := Some (act_as_idp i server)\<rparr>)) = 0) \<and>
     lgn_parent lg' = snd (lasso_saml20_profile_init_response env io uid (set_authn_body a' (p\<lparr>prf_server := Some (act_as_idp i server)\<rparr>))
       ((lasso_samlp2_status_response_new (Samlp2Response [] []))\<lparr>rsp_InResponseTo := req_ID request\<rparr>)
       (Some LASSO_SAML2_STATUS_CODE_SUCCESS) None) \<and> lgn_protocolProfile lg' = profile"
    using assms iss
    unfolding lasso_saml20_login_process_authn_request_msg_def option.case p prod.case rc Let_def b s c
    by (auto simp: s split: if_splits)
  show ?thesis
    by (rule that[OF p[unfolded rc] b iss s c[unfolded conjunct1[OF d]] refl]) (use d in simp_all)
qed

lemma set_authn_body_fields [simp]:
  "prf_server (set_authn_body a p) = prf_server p" "prf_remote_providerID (set_authn_body a p) = prf_remote_providerID p"
  "prf_signature_status (set_authn_body a p) = prf_signature_status p"
  "prf_signature_verify_hint (set_authn_body a p) = prf_signature_verify_hint p"
  by (simp_all add: set_authn_body_def split: option.split message_node.split)

lemma set_authn_body_request:
  "authn_body p = Some (request, a) \<Longrightarrow> prf_request (set_authn_body a' p) = Some (RequestNode (request\<lparr>req_body := AuthnRequest a'\<rparr>))"
  by (auto simp: authn_body_def set_authn_body_def split: option.splits message_node.splits request_body.splits)

text \<open>C14: an authentication request is accepted only from a provider the server knows, and, where the metadata of one of the
  two sides asks for it or the caller insists, only with a valid signature; the answer that is prepared names the
  request and the identity provider.\<close>

theorem authn_request_accepted:
  assumes "lasso_saml20_login_process_authn_request_msg env io uid lg (Some msg) = (0, lg')"
    and "parse_request env io ''AuthnRequest'' msg = (format, content, request)"
  shows "\<exists>issuer remote server server'. req_Issuer request = Some issuer \<and> nid_content issuer \<noteq> None \<and>
    prf_server (lgn_parent lg) = Some server \<and> lasso_server_get_provider (Some server) (nid_content issuer) = Some remote \<and>
    prf_server (lgn_parent lg') = Some server' \<and> prv_role (srv_parent server') = LASSO_PROVIDER_ROLE_IDP \<and>
    prf_remote_providerID (lgn_parent lg') = nid_content issuer \<and>
    (lasso_login_must_verify_authn_request_signature (lgn_parent lg') \<longrightarrow> message_verified env remote format content msg) \<and>
    (\<exists>r. prf_response (lgn_parent lg') = Some (ResponseNode r) \<and> rsp_InResponseTo r = req_ID request \<and>
       rsp_Issuer r = Some (lasso_saml2_name_id_new_with_string (prv_ProviderID (srv_parent server))))"
proof -
  obtain p q a remote server i rc profile a' p2 where
    any: "lasso_saml20_profile_process_any_request env io (lgn_parent lg) ''AuthnRequest'' msg = (0, p)"
    and b: "authn_body p = Some (q, a)" and iss: "Option.bind (req_Issuer q) nid_content \<noteq> None"
    and s: "prf_server p = Some server" "prf_remote_providerID p = Some i" "lasso_server_get_provider (Some server) (Some i) = Some remote"
    and "choose_protocol_profile remote a = (0, profile, a')"
    and p2: "p2 = set_authn_body a' (p\<lparr>prf_server := Some (act_as_idp i server)\<rparr>)"
    and sig: "lasso_login_must_verify_authn_request_signature p2 \<longrightarrow> prf_signature_status p2 = 0"
    and lg': "lgn_parent lg' = snd (lasso_saml20_profile_init_response env io uid p2
       ((lasso_samlp2_status_response_new (Samlp2Response [] []))\<lparr>rsp_InResponseTo := req_ID q\<rparr>)
       (Some LASSO_SAML2_STATUS_CODE_SUCCESS) None)" and "lgn_protocolProfile lg' = profile"
    by (rule authn_request_msg_ok[OF assms(1)])
  obtain issuer r m where r: "req_Issuer request = Some issuer" "get_provider ((lgn_parent lg)\<lparr>prf_remote_providerID := nid_content issuer\<rparr>) = (0, Some r)"
    and v: "prf_signature_status p = 0 \<longleftrightarrow> message_verified env r format content msg"
    and pp: "p = (lgn_parent lg)\<lparr>prf_request := Some (RequestNode request), prf_remote_providerID := nid_content issuer,
       prf_http_request_method := m,
       prf_msg_relayState := (if format = LASSO_MESSAGE_FORMAT_QUERY then lasso_get_relaystate_from_query (env_lib env) (Some msg) else prf_msg_relayState (lgn_parent lg)),
       prf_signature_status := prf_signature_status p\<rparr>"
    by (rule process_any_request_ok[OF any assms(2)])
  have f: "prf_request p = Some (RequestNode request)" "prf_server p = prf_server (lgn_parent lg)" "prf_remote_providerID p = nid_content issuer"
    by (subst pp, simp)+
  have q: "q = request" using b f by (auto simp: authn_body_def split: request_body.splits)
  have rr: "r = remote" using r s f by (auto simp: get_provider_def split: option.splits)
  have must: "lasso_login_must_verify_authn_request_signature (lgn_parent lg') \<longleftrightarrow> lasso_login_must_verify_authn_request_signature p2"
    by (cases "prf_signature_verify_hint p2") (simp_all add: lg' lasso_login_must_verify_authn_request_signature_def)
  have req2: "prf_request p2 = Some (RequestNode (request\<lparr>req_body := AuthnRequest a'\<rparr>))"
    unfolding p2 by (rule set_authn_body_request[of _ request a]) (use b q in \<open>simp add: authn_body_def\<close>)
  have srv2: "prf_server p2 = Some (act_as_idp i server)" by (simp add: p2)
  have own: "prv_role (srv_parent (act_as_idp i server)) = LASSO_PROVIDER_ROLE_IDP"
    "prv_ProviderID (srv_parent (act_as_idp i server)) = prv_ProviderID (srv_parent server)" by (simp_all add: act_as_idp_def)
  obtain w where w: "prf_response (lgn_parent lg') = Some (ResponseNode w)" "rsp_InResponseTo w = req_ID request"
    "rsp_Issuer w = Some (lasso_saml2_name_id_new_with_string (prv_ProviderID (srv_parent server)))"
    using init_response_names_request[OF req2 srv2, of env io uid
      "(lasso_samlp2_status_response_new (Samlp2Response [] []))\<lparr>rsp_InResponseTo := req_ID q\<rparr>" "Some LASSO_SAML2_STATUS_CODE_SUCCESS" None]
    unfolding lg' own by auto
  have v: "message_verified env remote format content msg" if "lasso_login_must_verify_authn_request_signature (lgn_parent lg')"
    using that sig must v rr by (simp add: p2)
  have o: "prf_server (lgn_parent lg') = Some (act_as_idp i server)" "prf_remote_providerID (lgn_parent lg') = nid_content issuer"
    using srv2 f by (simp_all add: lg' p2)
  show ?thesis
    by (rule exI[of _ issuer], rule exI[of _ remote], rule exI[of _ server], rule exI[of _ "act_as_idp i server"])
      (use r(1) f(2,3)[symmetric] s own w v o in simp)
qed

section \<open>An identity provider and a service provider\<close>

definition sample_sp :: lasso_provider where
  "sample_sp = sample_provider\<lparr>prv_role := LASSO_PROVIDER_ROLE_SP, prv_roles := LASSO_PROVIDER_ROLE_SP,
     prv_ProviderID := Some ''sp'', prv_endpoints := [sample_acs 1 0]\<rparr>"

definition sample_idp_server :: lasso_server where
  "sample_idp_server = (server_instance_init sample_env)\<lparr>srv_parent := sample_idp, srv_private_key := Some ''k'',
     srv_providers := [(''sp'', sample_sp)]\<rparr>"

definition sample_policy :: name_id_policy where
  "sample_policy = lasso_samlp2_name_id_policy_new\<lparr>nip_Format := Some LASSO_SAML2_NAME_IDENTIFIER_FORMAT_PERSISTENT, nip_AllowCreate := True\<rparr>"

definition sample_authn :: authn_request where
  "sample_authn = lasso_samlp2_authn_request_new"

definition sample_authn_request :: "authn_request \<Rightarrow> request_abstract" where
  "sample_authn_request a = (lasso_samlp2_request_abstract_new (AuthnRequest a))
     \<lparr>req_ID := Some ''q1'', req_Issuer := Some (lasso_saml2_name_id_new_with_string (Some ''sp''))\<rparr>"

definition sample_idp_login :: "authn_request \<Rightarrow> lasso_login" where
  "sample_idp_login a = (lasso_login_new sample_idp_server)\<lparr>lgn_parent := (profile_new (Some sample_idp_server))
     \<lparr>prf_remote_providerID := Some ''sp'', prf_identity := Some lasso_identity_new,
      prf_request := Some (RequestNode (sample_authn_request a)),
      prf_response := Some (ResponseNode (sample_response (Samlp2Response [] [])))\<rparr>, lgn_protocolProfile := LASSO_LOGIN_PROTOCOL_PROFILE_BRWS_POST\<rparr>"

lemma sample_idp_login_simps [simp]:
  "prf_server (lgn_parent (sample_idp_login a)) = Some sample_idp_server"
  "prf_remote_providerID (lgn_parent (sample_idp_login a)) = Some ''sp''"
  "prf_identity (lgn_parent (sample_idp_login a)) = Some lasso_identity_new"
  "prf_session (lgn_parent (sample_idp_login a)) = None"
  "prf_response (lgn_parent (sample_idp_login a)) = Some (ResponseNode (sample_response (Samlp2Response [] [])))"
  "authn_body (lgn_parent (sample_idp_login a)) =
     Some (sample_authn_request a, a)"
  "lgn_saml2_assertion (sample_idp_login a) = None"
  "lgn_protocolProfile (sample_idp_login a) = LASSO_LOGIN_PROTOCOL_PROFILE_BRWS_POST"
  by (simp_all add: sample_idp_login_def profile_new_def authn_body_def sample_authn_request_def
      lasso_samlp2_request_abstract_new_def lasso_login_new_def)

lemma sample_idp_provider [simp]:
  "lasso_server_get_provider (Some sample_idp_server) (Some ''sp'') = Some sample_sp"
  "srv_parent sample_idp_server = sample_idp"
  by (simp_all add: lasso_server_get_provider_def sample_idp_server_def ght_lookup_def)

theorem process_federation_law_witness:
  "\<exists>lg'. lasso_saml20_login_process_federation ''u'' (sample_idp_login (sample_authn\<lparr>anr_NameIDPolicy := Some sample_policy\<rparr>)) True = (0, lg') \<and>
     lasso_identity_get_federation (prf_identity (lgn_parent lg')) (Some ''sp'') \<noteq> None"
proof -
  obtain rc lg' where p: "lasso_saml20_login_process_federation ''u'' (sample_idp_login (sample_authn\<lparr>anr_NameIDPolicy := Some sample_policy\<rparr>)) True = (rc, lg')" by (metis surj_pair)
  have q: "lasso_provider_get_sp_name_qualifier sample_sp = Some ''sp''"
    by (simp add: sample_sp_def sample_provider_def lasso_provider_get_sp_name_qualifier_def provider_instance_init_def)
  have "lasso_identity_get_federation (Some lasso_identity_new) (Some ''sp'') = None"
    by (simp add: lasso_identity_get_federation_def lasso_identity_new_def ght_lookup_def)
  then have "rc = 0 \<and> lasso_identity_get_federation (prf_identity (lgn_parent lg')) (Some ''sp'') \<noteq> None"
    using process_federation_law[OF p, of lasso_identity_new sample_idp_server sample_sp "sample_authn_request (sample_authn\<lparr>anr_NameIDPolicy := Some sample_policy\<rparr>)" _ sample_policy "''sp''"] q
    by (auto simp: sample_policy_def lasso_samlp2_name_id_policy_new_def)
  then show ?thesis using p by blast
qed

theorem must_authenticate_without_session_witness:
  "fst (lasso_saml20_login_must_authenticate sample_io (sample_idp_login sample_authn)) \<and>
   \<not> fst (lasso_saml20_login_must_authenticate sample_io (sample_idp_login (sample_authn
        \<lparr>anr_RequestedAuthnContext := Some \<lparr>rac_AuthnContextClassRef = [], rac_Comparison = Some ''minimum''\<rparr>\<rparr>)))"
  using must_authenticate_without_session[OF sample_idp_login_simps(6,4)]
  by (simp add: sample_authn_def lasso_samlp2_authn_request_new_def)

lemma sample_plain [simp]:
  "encrypts_name_id (Some sample_sp) = False" "setup_encryption (Some sample_sp) a = a"
  by (simp_all add: encrypts_name_id_def setup_encryption_def sample_sp_def sample_provider_def provider_instance_init_def)

lemma sample_setup_signature [simp]:
  "fst (lasso_server_saml2_assertion_setup_signature sample_env uid sample_idp_server a) = 0"
proof -
  have "lasso_server_get_signature_context sample_env sample_idp_server =
      (0, lasso_make_signature_context_from_path_or_string sample_env (Some ''k'') None 1 None)"
    by (simp add: lasso_server_get_signature_context_def sample_idp_server_def server_instance_init_def sample_env_def
        lasso_make_signature_context_from_path_or_string_def lasso_validate_signature_context_def lasso_validate_signature_method_def)
  moreover have "Option.bind (lasso_server_get_provider (Some sample_idp_server) i) prv_signature_context = None" for i
    by (cases i) (simp_all add: lasso_server_get_provider_def sample_idp_server_def sample_sp_def sample_provider_def provider_instance_init_def ght_lookup_def)
  ultimately show ?thesis
    by (simp add: lasso_server_saml2_assertion_setup_signature_def lasso_server_get_signature_context_for_provider_by_name_def
        lasso_server_get_signature_context_for_provider_def)
qed

lemma sample_same_server: "sample_idp_server\<lparr>srv_parent := sample_idp\<rparr> = sample_idp_server"
  by (simp add: sample_idp_server_def)

lemma sample_no_policy: "anr_NameIDPolicy sample_authn = None"
  by (simp add: sample_authn_def lasso_samlp2_authn_request_new_def)

lemma sample_first_http_method [simp]:
  "snd (lasso_provider_get_first_http_method sample_idp r SINGLE_LOGOUT) = sample_idp"
  by (simp add: lasso_provider_get_first_http_method_def sample_idp_def split: option.split)

theorem built_assertion_accepted_witness:
  "\<exists>lg' b. lasso_saml20_login_build_assertion sample_env sample_io ''a1'' ''t1'' (sample_idp_login sample_authn) None None None None = (0, lg') \<and>
     lgn_saml2_assertion lg' = Some b \<and> lasso_saml2_assertion_validate_audience b (Some ''sp'') = LASSO_SAML2_ASSERTION_VALID \<and>
     fst (check_assertion sample_env sample_io (req_ID (sample_authn_request sample_authn))
       ((profile_new (Some sample_server))\<lparr>prf_remote_providerID := Some ''idp''\<rparr>) (b\<lparr>asn_original_xmlnode := Some sample_signed_node\<rparr>)) = 0"
proof -
  obtain m where m: "lasso_provider_get_first_http_method sample_idp (Some sample_sp) SINGLE_LOGOUT = (m, sample_idp)"
    using sample_first_http_method by (metis prod.collapse)
  have sig: "\<exists>b. lasso_server_saml2_assertion_setup_signature sample_env uid sample_idp_server a = (0, b)" for uid a
    using sample_setup_signature by (metis prod.collapse)
  obtain b where b: "lasso_server_saml2_assertion_setup_signature sample_env ''a1'' sample_idp_server
      (new_assertion sample_env ''a1'' sample_idp (Some ''sp'') (req_ID (sample_authn_request sample_authn))
        (Some ((lasso_saml2_name_id_new_with_string (Some ''t1''))\<lparr>nid_NameQualifier := lasso_provider_get_sp_name_qualifier sample_idp,
           nid_Format := Some LASSO_SAML2_NAME_IDENTIFIER_FORMAT_TRANSIENT\<rparr>)) (m \<noteq> Some LASSO_HTTP_METHOD_NONE) None None None None) = (0, b)"
    using sig by blast
  have "fst (lasso_saml20_login_build_assertion sample_env sample_io ''a1'' ''t1'' (sample_idp_login sample_authn) None None None None) = 0"
    using b by (simp add: lasso_saml20_login_build_assertion_def Let_def assertion_name_id_def sample_no_policy m sample_same_server)
  then obtain lg' where b: "lasso_saml20_login_build_assertion sample_env sample_io ''a1'' ''t1'' (sample_idp_login sample_authn) None None None None = (0, lg')"
    by (metis prod.collapse)
  obtain c where c: "lgn_saml2_assertion lg' = Some c" "Option.bind (asn_Subject c) sb_NameID \<noteq> None"
    by (rule build_assertion_ok[OF b]) (auto simp: assertion_name_id_def sample_no_policy split: if_splits)
  let ?sp = "(profile_new (Some sample_server))\<lparr>prf_remote_providerID := Some ''idp''\<rparr>"
  have sp: "prf_remote_providerID ?sp = Some ''idp''" "lasso_server_get_provider (prf_server ?sp) (Some ''idp'') = Some sample_provider"
    "prv_ProviderID (srv_parent sample_idp_server) = Some ''idp''"
    by (simp_all add: profile_new_def sample_idp_server_def sample_idp_def)
  have v: "lasso_provider_verify_saml_signature (env_crypto sample_env) (env_verify_signature sample_env) sample_provider (Some sample_signed_node) = 0"
    by simp
  have h: "authn_body (lgn_parent (sample_idp_login sample_authn)) = Some (sample_authn_request sample_authn, sample_authn)"
    "prf_server (lgn_parent (sample_idp_login sample_authn)) = Some sample_idp_server" by simp_all
  obtain s where "asn_Subject c = Some s" "lasso_saml2_assertion_validate_audience c (Some ''sp'') = LASSO_SAML2_ASSERTION_VALID"
    and checked: "\<And>env' io' sp idp tree. prf_remote_providerID sp = Some ''idp'' \<Longrightarrow> lasso_server_get_provider (prf_server sp) (Some ''idp'') = Some idp \<Longrightarrow>
       lasso_provider_verify_saml_signature (env_crypto env') (env_verify_signature env') idp (Some tree) = 0 \<Longrightarrow>
       sb_NameID s \<noteq> None \<or> sb_EncryptedID s = None \<Longrightarrow>
       fst (check_assertion env' io' (req_ID (sample_authn_request sample_authn)) sp (c\<lparr>asn_original_xmlnode := Some tree\<rparr>)) = 0"
    using built_assertion_accepted[OF b h] c(1) sp(3) by auto
  then show ?thesis using b c checked[OF sp(1,2) v] by auto
qed

lemma sample_hint: "prf_signature_hint (lgn_parent (sample_idp_login a)) = SIGNATURE_HINT_MAYBE"
  by (simp add: sample_idp_login_def profile_new_def)

lemma sample_acs_url:
  "lasso_saml20_login_get_assertion_consumer_service_url ((lgn_parent (sample_idp_login sample_authn))\<lparr>prf_response := r\<rparr>) sample_sp =
     Some (Some ''https://sp/acs'')"
proof -
  have "authn_body ((lgn_parent (sample_idp_login a))\<lparr>prf_response := r\<rparr>) = authn_body (lgn_parent (sample_idp_login a))" for a
    by (simp add: authn_body_def)
  then show ?thesis
    by (simp add: lasso_saml20_login_get_assertion_consumer_service_url_def sample_authn_def lasso_samlp2_authn_request_new_def
        lasso_saml20_provider_get_assertion_consumer_service_url_def lasso_saml20_provider_get_assertion_consumer_service_def
        sample_sp_def sample_acs_def is_acs_def supported_assertion_consumer_bindings_def)
qed

theorem response_sent_to_metadata_endpoint_witness:
  "\<exists>lg'. lasso_saml20_login_build_authn_response_msg sample_env sample_io [] (sample_idp_login sample_authn) = Some (0, lg') \<and>
     prf_msg_url (lgn_parent lg') = Some ''https://sp/acs''"
proof -
  have "\<exists>lg'. lasso_saml20_login_build_authn_response_msg sample_env sample_io [] (sample_idp_login sample_authn) = Some (0, lg')"
    by (simp add: lasso_saml20_login_build_authn_response_msg_def Let_def lasso_login_must_sign_non_authn_request_def sample_hint
        finish_assertion_def keep_artifact_def lasso_saml20_profile_build_response_msg_def get_provider_def needs_url_def
        lasso_saml20_profile_build_post_response_msg_def check_msg_body_def lasso_profile_clean_msg_info_def
        lasso_node_remove_signature_def lasso_node_set_signature_def sample_acs_url sample_io_def)
  then obtain lg' where b: "lasso_saml20_login_build_authn_response_msg sample_env sample_io [] (sample_idp_login sample_authn) = Some (0, lg')" ..
  show ?thesis
    using response_sent_to_metadata_endpoint[OF b] b by (auto simp: sample_sp_def sample_acs_def)
qed

definition sample_authn_io :: message_io where
  "sample_authn_io = sample_io\<lparr>mio_init_request := \<lambda>_ _. (0, sample_authn_request sample_authn)\<rparr>"

lemma sample_sp_node:
  "lasso_provider_verify_saml_signature (env_crypto sample_env) True sample_sp (Some sample_signed_node) = 0"
  by (simp add: lasso_provider_verify_saml_signature_def sample_env_def sample_sp_def sample_provider_def provider_instance_init_def
      sample_crypto_def lasso_provider_try_loading_public_keys_def lasso_provider_get_public_keys_def sample_signed_node_def
      saml_id_attribute_def lasso_provider_try_loading_ca_cert_chain_def lasso_verify_signature_def find_signature_def
      is_element_def xmlGetProp_def printf_string_def List.map_filter_simps)

lemma sample_acs_binding:
  "lasso_saml20_provider_get_assertion_consumer_service_binding sample_sp (-1) = Some ''HTTP-POST''"
  by (simp add: lasso_saml20_provider_get_assertion_consumer_service_binding_def lasso_saml20_provider_get_assertion_consumer_service_def
      sample_sp_def sample_acs_def is_acs_def supported_assertion_consumer_bindings_def binding_uri_to_identifier_def uri_defs)

lemma sample_authn_parsed:
  "parse_request sample_env sample_authn_io kind sample_base64_msg = (LASSO_MESSAGE_FORMAT_BASE64, Some sample_signed_node, sample_authn_request sample_authn)"
  using sample_base64_parsed[of "mio_init_request sample_authn_io kind"] by (simp add: parse_request_def sample_authn_io_def)

theorem authn_request_accepted_witness:
  "\<exists>lg' server. lasso_saml20_login_process_authn_request_msg sample_env sample_authn_io ''u'' (lasso_login_new sample_idp_server) (Some sample_base64_msg) = (0, lg') \<and>
     prf_server (lgn_parent lg') = Some server \<and> prv_role (srv_parent server) = LASSO_PROVIDER_ROLE_IDP"
proof -
  have any: "lasso_saml20_profile_process_any_request sample_env sample_authn_io (lgn_parent (lasso_login_new sample_idp_server)) ''AuthnRequest'' sample_base64_msg =
      (0, (profile_new (Some sample_idp_server))\<lparr>prf_http_request_method := LASSO_HTTP_METHOD_POST,
         prf_request := Some (RequestNode (sample_authn_request sample_authn)), prf_remote_providerID := Some ''sp''\<rparr>)"
    by (simp add: lasso_saml20_profile_process_any_request_def Let_def sample_authn_parsed format_method_def get_provider_def
        sample_authn_request_def lasso_saml2_name_id_new_with_string_def lasso_login_new_def profile_new_def sample_sp_node)
  have "fst (lasso_saml20_login_process_authn_request_msg sample_env sample_authn_io ''u'' (lasso_login_new sample_idp_server) (Some sample_base64_msg)) = 0"
    by (simp add: lasso_saml20_login_process_authn_request_msg_def Let_def any authn_body_def profile_new_def sample_authn_request_def
        lasso_samlp2_request_abstract_new_def lasso_saml2_name_id_new_with_string_def choose_protocol_profile_def sample_authn_def
        lasso_samlp2_authn_request_new_def sample_acs_binding)
  then obtain lg' where b: "lasso_saml20_login_process_authn_request_msg sample_env sample_authn_io ''u'' (lasso_login_new sample_idp_server) (Some sample_base64_msg) = (0, lg')"
    by (metis prod.collapse)
  show ?thesis
    using authn_request_accepted[OF b, of LASSO_MESSAGE_FORMAT_BASE64 "Some sample_signed_node" "sample_authn_request sample_authn"] b
    by (auto simp: sample_authn_parsed)
qed

end
