(* ===== verification/Lasso_Ecp.thy ===== *)
theory Lasso_Ecp
  imports Lasso_Bindings
begin

text \<open>
  The enhanced client of \<^verbatim>\<open>lasso/saml-2.0/ecp.c\<close>, which carries the authentication request of a service provider to
  an identity provider and the response back, with the SOAP header blocks of \<^verbatim>\<open>lasso/xml/paos_*.c\<close> and
  \<^verbatim>\<open>lasso/xml/ecp/*.c\<close>.
\<close>

section \<open>Header blocks\<close>

abbreviation LASSO_SOAP_ENV_ACTOR :: string where
  "LASSO_SOAP_ENV_ACTOR \<equiv> ''http://schemas.xmlsoap.org/soap/actor/next''"

abbreviation LASSO_ECP_HREF :: string where
  "LASSO_ECP_HREF \<equiv> ''urn:oasis:names:tc:SAML:2.0:profiles:SSO:ecp''"

record idp_entry =
  ide_ProviderID :: cstr
  ide_Name :: cstr
  ide_Loc :: cstr

record idp_list =
  idl_IDPEntry :: "idp_entry list"
  idl_GetComplete :: cstr

record paos_request =
  prq_responseConsumerURL :: cstr
  prq_messageID :: cstr
  prq_service :: cstr
  prq_mustUnderstand :: bool
  prq_actor :: cstr

record paos_response =
  prs_refToMessageID :: cstr
  prs_mustUnderstand :: bool
  prs_actor :: cstr

record ecp_request =
  erq_Issuer :: "name_id option"
  erq_IDPList :: "idp_list option"
  erq_mustUnderstand :: bool
  erq_actor :: cstr
  erq_ProviderName :: cstr
  erq_IsPassive :: bool

record ecp_response =
  ers_mustUnderstand :: bool
  ers_actor :: cstr
  ers_AssertionConsumerServiceURL :: cstr

record ecp_relaystate =
  erl_RelayState :: cstr
  erl_mustUnderstand :: bool
  erl_actor :: cstr

text \<open>The attributes every block must have.\<close>

definition validate_actor :: "bool \<Rightarrow> cstr \<Rightarrow> int" where
  "validate_actor mustUnderstand actor =
     (if \<not> mustUnderstand then LASSO_XML_ERROR_ATTR_VALUE_INVALID
      else if actor = None then LASSO_XML_ERROR_ATTR_NOT_FOUND
      else if lasso_strisnotequal actor (Some LASSO_SOAP_ENV_ACTOR) then LASSO_XML_ERROR_ATTR_VALUE_INVALID
      else 0)"

definition lasso_paos_request_validate :: "paos_request \<Rightarrow> int" where
  "lasso_paos_request_validate r =
     (if prq_responseConsumerURL r = None then LASSO_XML_ERROR_ATTR_NOT_FOUND
      else if prq_service r = None then LASSO_XML_ERROR_ATTR_NOT_FOUND
      else if lasso_strisnotequal (prq_service r) (Some LASSO_ECP_HREF) then LASSO_XML_ERROR_ATTR_VALUE_INVALID
      else validate_actor (prq_mustUnderstand r) (prq_actor r))"

definition lasso_paos_response_validate :: "paos_response \<Rightarrow> int" where
  "lasso_paos_response_validate r = validate_actor (prs_mustUnderstand r) (prs_actor r)"

definition lasso_ecp_request_validate :: "ecp_request \<Rightarrow> int" where
  "lasso_ecp_request_validate r = validate_actor (erq_mustUnderstand r) (erq_actor r)"

definition lasso_ecp_response_validate :: "ecp_response \<Rightarrow> int" where
  "lasso_ecp_response_validate r =
     (if ers_AssertionConsumerServiceURL r = None then LASSO_XML_ERROR_ATTR_NOT_FOUND
      else validate_actor (ers_mustUnderstand r) (ers_actor r))"

definition lasso_ecp_relay_state_validate :: "ecp_relaystate \<Rightarrow> int" where
  "lasso_ecp_relay_state_validate r =
     (if erl_RelayState r = None then LASSO_XML_ERROR_NODE_CONTENT_NOT_FOUND
      else validate_actor (erl_mustUnderstand r) (erl_actor r))"

text \<open>The constructors.  \<open>uid\<close> is the message identifier that is made when none is given.\<close>

definition lasso_paos_request_new :: "string \<Rightarrow> cstr \<Rightarrow> cstr \<Rightarrow> paos_request" where
  "lasso_paos_request_new uid responseConsumerURL messageID =
     \<lparr>prq_responseConsumerURL = responseConsumerURL, prq_messageID = (case messageID of None \<Rightarrow> Some uid | m \<Rightarrow> m),
      prq_service = Some LASSO_ECP_HREF, prq_mustUnderstand = True, prq_actor = Some LASSO_SOAP_ENV_ACTOR\<rparr>"

definition lasso_paos_response_new :: "cstr \<Rightarrow> paos_response" where
  "lasso_paos_response_new refToMessageID =
     \<lparr>prs_refToMessageID = refToMessageID, prs_mustUnderstand = True, prs_actor = Some LASSO_SOAP_ENV_ACTOR\<rparr>"

definition lasso_ecp_request_new :: "cstr \<Rightarrow> bool \<Rightarrow> cstr \<Rightarrow> idp_list option \<Rightarrow> ecp_request" where
  "lasso_ecp_request_new Issuer IsPassive ProviderName IDPList =
     \<lparr>erq_Issuer = Some (lasso_saml2_name_id_new_with_string Issuer), erq_IDPList = IDPList, erq_mustUnderstand = True,
      erq_actor = Some LASSO_SOAP_ENV_ACTOR, erq_ProviderName = ProviderName, erq_IsPassive = IsPassive\<rparr>"

definition lasso_ecp_response_new :: "cstr \<Rightarrow> ecp_response" where
  "lasso_ecp_response_new AssertionConsumerServiceURL =
     \<lparr>ers_mustUnderstand = True, ers_actor = Some LASSO_SOAP_ENV_ACTOR, ers_AssertionConsumerServiceURL = AssertionConsumerServiceURL\<rparr>"

definition lasso_ecp_relay_state_new :: "cstr \<Rightarrow> ecp_relaystate" where
  "lasso_ecp_relay_state_new RelayState =
     \<lparr>erl_RelayState = RelayState, erl_mustUnderstand = True, erl_actor = Some LASSO_SOAP_ENV_ACTOR\<rparr>"

text \<open>An envelope as the parser gives it: the blocks of its header, when it has one, and the contents of its body,
  each with the XML it was read from.  Writing takes that XML and the header blocks, when there are any, or the code of an
  error that becomes a SOAP fault.\<close>

datatype soap_block =
    PaosRequest paos_request | PaosResponse paos_response
  | EcpRequest ecp_request | EcpResponse ecp_response | EcpRelayState ecp_relaystate | OtherBlock

record ecp_envelope =
  eev_Header :: "soap_block list option"
  eev_Body :: "(message_node \<times> xml option) list option"

record ecp_io =
  eio_envelope :: "string \<Rightarrow> ecp_envelope option"
  eio_export_soap :: "xml option \<Rightarrow> soap_block list option \<Rightarrow> cstr"
  eio_fault :: "int \<Rightarrow> cstr"

section \<open>The client\<close>

record lasso_ecp =
  ecp_parent :: lasso_profile
  ecp_assertion_consumer_url :: cstr
  ecp_message_id :: cstr
  ecp_response_consumer_url :: cstr
  ecp_relaystate :: cstr
  ecp_issuer :: "name_id option"
  ecp_provider_name :: cstr
  ecp_is_passive :: bool
  ecp_sp_idp_list :: "idp_list option"
  ecp_known_sp_provided_idp_entries_supporting_ecp :: "idp_entry list"
  ecp_known_idp_entity_ids_supporting_ecp :: "cstr list"

definition lasso_ecp_new :: "lasso_server \<Rightarrow> lasso_ecp" where
  "lasso_ecp_new server =
     \<lparr>ecp_parent = profile_new (Some server), ecp_assertion_consumer_url = None, ecp_message_id = None,
      ecp_response_consumer_url = None, ecp_relaystate = None, ecp_issuer = None, ecp_provider_name = None,
      ecp_is_passive = False, ecp_sp_idp_list = None, ecp_known_sp_provided_idp_entries_supporting_ecp = [],
      ecp_known_idp_entity_ids_supporting_ecp = []\<rparr>"

definition is_provider_in_sp_idplist :: "idp_entry list \<Rightarrow> cstr \<Rightarrow> bool" where
  "is_provider_in_sp_idplist idp_list entity_id = list_ex (\<lambda>e. ide_ProviderID e = entity_id) idp_list"

definition is_idp_entry_in_entity_id_list :: "cstr list \<Rightarrow> idp_entry \<Rightarrow> bool" where
  "is_idp_entry_in_entity_id_list entity_id_list e = list_ex (\<lambda>i. i = ide_ProviderID e) entity_id_list"

fun intersect_sp_idplist_with_entity_id_list :: "idp_entry list \<Rightarrow> cstr list \<Rightarrow> idp_entry list" where
  "intersect_sp_idplist_with_entity_id_list [] known = []"
| "intersect_sp_idplist_with_entity_id_list (e # es) known =
     (if is_idp_entry_in_entity_id_list known e then e # intersect_sp_idplist_with_entity_id_list es known
      else intersect_sp_idplist_with_entity_id_list es known)"

text \<open>Absent where the code reads the list of a client that has none.\<close>

definition lasso_ecp_is_provider_in_sp_idplist :: "lasso_ecp \<Rightarrow> cstr \<Rightarrow> bool option" where
  "lasso_ecp_is_provider_in_sp_idplist ecp entity_id =
     map_option (\<lambda>l. is_provider_in_sp_idplist (idl_IDPEntry l) entity_id) (ecp_sp_idp_list ecp)"

definition lasso_ecp_is_idp_entry_known_idp_supporting_ecp :: "lasso_ecp \<Rightarrow> idp_entry \<Rightarrow> bool" where
  "lasso_ecp_is_idp_entry_known_idp_supporting_ecp ecp e =
     is_idp_entry_in_entity_id_list (ecp_known_idp_entity_ids_supporting_ecp ecp) e"

definition lasso_ecp_set_known_sp_provided_idp_entries_supporting_ecp :: "lasso_ecp \<Rightarrow> lasso_ecp" where
  "lasso_ecp_set_known_sp_provided_idp_entries_supporting_ecp ecp =
     ecp\<lparr>ecp_known_sp_provided_idp_entries_supporting_ecp :=
       intersect_sp_idplist_with_entity_id_list
         (case ecp_sp_idp_list ecp of None \<Rightarrow> [] | Some l \<Rightarrow> idl_IDPEntry l)
         (ecp_known_idp_entity_ids_supporting_ecp ecp)\<rparr>"

definition lasso_ecp_has_sp_idplist :: "lasso_ecp \<Rightarrow> bool" where
  "lasso_ecp_has_sp_idplist ecp = (case ecp_sp_idp_list ecp of None \<Rightarrow> False | Some l \<Rightarrow> idl_IDPEntry l \<noteq> [])"

definition lasso_ecp_get_endpoint_url_by_entity_id :: "lasso_ecp \<Rightarrow> cstr \<Rightarrow> cstr" where
  "lasso_ecp_get_endpoint_url_by_entity_id ecp entity_id =
     Option.bind (prf_server (ecp_parent ecp))
       (\<lambda>s. lasso_server_get_endpoint_url_by_id s entity_id ''SingleSignOnService SOAP'')"

text \<open>The identity provider that is chosen when the caller does not choose one.\<close>

definition default_idp :: "lasso_ecp \<Rightarrow> cstr" where
  "default_idp ecp =
     (let from_sp = (if lasso_ecp_has_sp_idplist ecp
                     then (case ecp_known_sp_provided_idp_entries_supporting_ecp ecp of [] \<Rightarrow> None | e # _ \<Rightarrow> ide_ProviderID e)
                     else None)
      in case from_sp of
           Some i \<Rightarrow> Some i
         | None \<Rightarrow> (case ecp_known_idp_entity_ids_supporting_ecp ecp of [] \<Rightarrow> None | i # _ \<Rightarrow> i))"

definition lasso_ecp_process_sp_idp_list :: "lasso_ecp \<Rightarrow> idp_list option \<Rightarrow> lasso_ecp" where
  "lasso_ecp_process_sp_idp_list ecp sp_idp_list =
     (let ecp = lasso_ecp_set_known_sp_provided_idp_entries_supporting_ecp (ecp\<lparr>ecp_sp_idp_list := sp_idp_list\<rparr>)
      in ecp\<lparr>ecp_parent := (ecp_parent ecp)\<lparr>prf_msg_url :=
           (case default_idp ecp of None \<Rightarrow> None | Some i \<Rightarrow> lasso_ecp_get_endpoint_url_by_entity_id ecp (Some i))\<rparr>\<rparr>)"

section \<open>The messages\<close>

text \<open>The first block of a kind.\<close>

definition first_block :: "(soap_block \<Rightarrow> 'a option) \<Rightarrow> soap_block list \<Rightarrow> 'a option" where
  "first_block f blocks = (case List.map_filter f blocks of [] \<Rightarrow> None | x # _ \<Rightarrow> Some x)"

definition paos_request_of :: "soap_block \<Rightarrow> paos_request option" where
  "paos_request_of b = (case b of PaosRequest r \<Rightarrow> Some r | _ \<Rightarrow> None)"

definition ecp_request_of :: "soap_block \<Rightarrow> ecp_request option" where
  "ecp_request_of b = (case b of EcpRequest r \<Rightarrow> Some r | _ \<Rightarrow> None)"

definition ecp_relaystate_of :: "soap_block \<Rightarrow> ecp_relaystate option" where
  "ecp_relaystate_of b = (case b of EcpRelayState r \<Rightarrow> Some r | _ \<Rightarrow> None)"

definition ecp_response_of :: "soap_block \<Rightarrow> ecp_response option" where
  "ecp_response_of b = (case b of EcpResponse r \<Rightarrow> Some r | _ \<Rightarrow> None)"

text \<open>The contents of an envelope, or the code of what is missing: the XML of the message in the body, which must be of the kind
  that \<open>is_kind\<close> tells, and the blocks of the header.\<close>

definition open_envelope :: "ecp_io \<Rightarrow> (message_node \<Rightarrow> bool) \<Rightarrow> int \<Rightarrow> string \<Rightarrow> int + xml option \<times> soap_block list" where
  "open_envelope eio is_kind error msg =
     (case eio_envelope eio msg of
        None \<Rightarrow> Inl LASSO_PROFILE_ERROR_INVALID_SOAP_MSG
      | Some envelope \<Rightarrow>
          (case eev_Body envelope of
             Some ((n, x) # _) \<Rightarrow>
               if \<not> is_kind n then Inl error
               else (case eev_Header envelope of
                       Some (b # bs) \<Rightarrow> Inr (x, b # bs)
                     | _ \<Rightarrow> Inl LASSO_SOAP_ERROR_MISSING_HEADER)
           | _ \<Rightarrow> Inl LASSO_SOAP_ERROR_MISSING_BODY))"

definition is_authn_request :: "message_node \<Rightarrow> bool" where
  "is_authn_request n = (case n of RequestNode r \<Rightarrow> (case req_body r of AuthnRequest _ \<Rightarrow> True | _ \<Rightarrow> False) | _ \<Rightarrow> False)"

definition is_samlp2_response :: "message_node \<Rightarrow> bool" where
  "is_samlp2_response n = (case n of ResponseNode r \<Rightarrow> (case rsp_body r of Samlp2Response _ _ \<Rightarrow> True | _ \<Rightarrow> False) | _ \<Rightarrow> False)"

text \<open>The result is absent for a client without a server, whose table of providers is read without a test.\<close>

definition lasso_ecp_process_authn_request_msg :: "ecp_io \<Rightarrow> lasso_ecp \<Rightarrow> string \<Rightarrow> (int \<times> lasso_ecp) option" where
  "lasso_ecp_process_authn_request_msg eio ecp authn_request_msg =
     (case open_envelope eio is_authn_request LASSO_ECP_ERROR_MISSING_AUTHN_REQUEST authn_request_msg of
        Inl rc \<Rightarrow> Some (rc, ecp)
      | Inr (xml, blocks) \<Rightarrow>
          (case (first_block paos_request_of blocks, first_block ecp_request_of blocks) of
             (None, _) \<Rightarrow> Some (LASSO_PAOS_ERROR_MISSING_REQUEST, ecp)
           | (Some paos, None) \<Rightarrow> Some (LASSO_ECP_ERROR_MISSING_REQUEST, ecp)
           | (Some paos, Some erq) \<Rightarrow>
               (case prq_responseConsumerURL paos of
                  None \<Rightarrow> Some (LASSO_PAOS_ERROR_MISSING_RESPONSE_CONSUMER_URL, ecp)
                | Some url \<Rightarrow>
                    (let ecp = ecp\<lparr>ecp_response_consumer_url := Some url,
                                   ecp_message_id := (case prq_messageID paos of None \<Rightarrow> ecp_message_id ecp | m \<Rightarrow> m),
                                   ecp_relaystate := (case first_block ecp_relaystate_of blocks of
                                                        None \<Rightarrow> ecp_relaystate ecp | Some r \<Rightarrow> erl_RelayState r),
                                   ecp_issuer := erq_Issuer erq, ecp_provider_name := erq_ProviderName erq,
                                   ecp_is_passive := erq_IsPassive erq,
                                   ecp_parent := (ecp_parent ecp)\<lparr>prf_msg_body := eio_export_soap eio xml None\<rparr>\<rparr>
                     in case prf_server (ecp_parent ecp) of
                          None \<Rightarrow> None
                        | Some server \<Rightarrow>
                            (let (l, server) = lasso_server_get_filtered_provider_list server LASSO_PROVIDER_ROLE_IDP
                                                 SINGLE_SIGN_ON LASSO_HTTP_METHOD_SOAP
                             in Some (0, lasso_ecp_process_sp_idp_list
                                  (ecp\<lparr>ecp_known_idp_entity_ids_supporting_ecp := l,
                                       ecp_parent := (ecp_parent ecp)\<lparr>prf_server := Some server\<rparr>\<rparr>) (erq_IDPList erq)))))))"

definition response_headers :: "lasso_ecp \<Rightarrow> soap_block list" where
  "response_headers ecp =
     PaosResponse (lasso_paos_response_new (ecp_message_id ecp)) #
     (case ecp_relaystate ecp of None \<Rightarrow> [] | r \<Rightarrow> [EcpRelayState (lasso_ecp_relay_state_new r)])"

definition lasso_ecp_process_response_msg :: "ecp_io \<Rightarrow> lasso_ecp \<Rightarrow> string \<Rightarrow> int \<times> lasso_ecp" where
  "lasso_ecp_process_response_msg eio ecp response_msg =
     (let fail = (\<lambda>rc ecp. (rc, ecp\<lparr>ecp_parent := (ecp_parent ecp)\<lparr>prf_msg_body := eio_fault eio rc\<rparr>\<rparr>)) in
      case open_envelope eio is_samlp2_response LASSO_ECP_ERROR_MISSING_SAML_RESPONSE response_msg of
        Inl rc \<Rightarrow> fail rc ecp
      | Inr (xml, blocks) \<Rightarrow>
          (case first_block ecp_response_of blocks of
             None \<Rightarrow> fail LASSO_ECP_ERROR_MISSING_RESPONSE ecp
           | Some ers \<Rightarrow>
               (let ecp = ecp\<lparr>ecp_assertion_consumer_url := ers_AssertionConsumerServiceURL ers\<rparr>
                in if lasso_strisnotequal (ecp_response_consumer_url ecp) (ers_AssertionConsumerServiceURL ers)
                   then fail LASSO_ECP_ERROR_ASSERTION_CONSUMER_URL_MISMATCH ecp
                   else (0, ecp\<lparr>ecp_parent := (ecp_parent ecp)
                              \<lparr>prf_msg_body := eio_export_soap eio xml (Some (response_headers ecp)),
                               prf_msg_url := ecp_response_consumer_url ecp\<rparr>\<rparr>))))"

section \<open>Laws\<close>

lemma intersect_is_filter:
  "intersect_sp_idplist_with_entity_id_list es known = filter (\<lambda>e. ide_ProviderID e \<in> set known) es"
  by (induction es) (auto simp: is_idp_entry_in_entity_id_list_def list_ex_iff)

lemma first_block_Some:
  assumes "first_block f blocks = Some x"
  shows "\<exists>b \<in> set blocks. f b = Some x"
proof -
  have "x \<in> set (List.map_filter f blocks)" using assms by (auto simp: first_block_def split: list.splits)
  then show ?thesis by (simp add: in_map_filter)
qed

lemma block_of_Some [simp]:
  "paos_request_of b = Some r \<longleftrightarrow> b = PaosRequest r" "ecp_request_of b = Some q \<longleftrightarrow> b = EcpRequest q"
  "ecp_relaystate_of b = Some l \<longleftrightarrow> b = EcpRelayState l" "ecp_response_of b = Some s \<longleftrightarrow> b = EcpResponse s"
  by (cases b; simp add: paos_request_of_def ecp_request_of_def ecp_relaystate_of_def ecp_response_of_def)+

lemma open_envelope_ok:
  assumes "open_envelope eio is_kind error msg = Inr (x, blocks)"
  obtains envelope n rest where "eio_envelope eio msg = Some envelope" "eev_Body envelope = Some ((n, x) # rest)" "is_kind n"
    "eev_Header envelope = Some blocks" "blocks \<noteq> []"
  using assms by (auto simp: open_envelope_def split: option.splits list.splits if_splits)

text \<open>Every block that the client writes passes the check that the receiver makes when it reads the block.\<close>

definition block_valid :: "soap_block \<Rightarrow> bool" where
  "block_valid b =
     (case b of
        PaosRequest r \<Rightarrow> lasso_paos_request_validate r = 0
      | PaosResponse r \<Rightarrow> lasso_paos_response_validate r = 0
      | EcpRequest r \<Rightarrow> lasso_ecp_request_validate r = 0
      | EcpResponse r \<Rightarrow> lasso_ecp_response_validate r = 0
      | EcpRelayState r \<Rightarrow> lasso_ecp_relay_state_validate r = 0
      | OtherBlock \<Rightarrow> True)"

lemma response_headers_valid: "list_all block_valid (response_headers ecp)"
  by (auto simp: response_headers_def block_valid_def lasso_paos_response_validate_def lasso_paos_response_new_def
      lasso_ecp_relay_state_validate_def lasso_ecp_relay_state_new_def validate_actor_def split: option.split)

lemma response_headers_consumer [simp]: "response_headers (ecp\<lparr>ecp_assertion_consumer_url := u\<rparr>) = response_headers ecp"
  by (simp add: response_headers_def)

lemma open_envelope_error: "e \<noteq> 0 \<Longrightarrow> open_envelope eio is_kind e msg \<noteq> Inl 0"
  by (auto simp: open_envelope_def split: option.splits list.splits)

lemma ecp_response_ok:
  assumes "lasso_ecp_process_response_msg eio ecp msg = (0, ecp')"
  obtains x blocks ers where "open_envelope eio is_samlp2_response LASSO_ECP_ERROR_MISSING_SAML_RESPONSE msg = Inr (x, blocks)"
    "first_block ecp_response_of blocks = Some ers" "ers_AssertionConsumerServiceURL ers = ecp_response_consumer_url ecp"
    "prf_msg_url (ecp_parent ecp') = ecp_response_consumer_url ecp"
    "prf_msg_body (ecp_parent ecp') = eio_export_soap eio x (Some (response_headers ecp))"
  using assms open_envelope_error[of LASSO_ECP_ERROR_MISSING_SAML_RESPONSE eio is_samlp2_response msg] that
  by (auto simp: lasso_ecp_process_response_msg_def Let_def split: sum.splits option.splits if_splits)

text \<open>C31: the enhanced client passes the response of the identity provider on only to the address that the service provider gave
  for it, and only when the identity provider gave the same address; the response is passed on as it was received,
  with header blocks the service provider accepts.  In every other case the client is left with a SOAP fault in
  place of the response and keeps its address.\<close>

theorem ecp_response_only_to_requester:
  assumes "lasso_ecp_process_response_msg eio ecp msg = (rc, ecp')"
  shows "if rc = 0
    then \<exists>envelope r x rest blocks ers. eio_envelope eio msg = Some envelope \<and>
      eev_Body envelope = Some ((ResponseNode r, x) # rest) \<and> eev_Header envelope = Some blocks \<and> EcpResponse ers \<in> set blocks \<and>
      ers_AssertionConsumerServiceURL ers = ecp_response_consumer_url ecp \<and>
      prf_msg_url (ecp_parent ecp') = ecp_response_consumer_url ecp \<and>
      (\<exists>headers. prf_msg_body (ecp_parent ecp') = eio_export_soap eio x (Some headers) \<and> list_all block_valid headers)
    else prf_msg_body (ecp_parent ecp') = eio_fault eio rc \<and> prf_msg_url (ecp_parent ecp') = prf_msg_url (ecp_parent ecp)"
proof (cases "rc = 0")
  case False
  then show ?thesis
    using assms by (auto simp: lasso_ecp_process_response_msg_def Let_def split: sum.splits option.splits if_splits)
next
  case True
  obtain x blocks ers where o: "open_envelope eio is_samlp2_response LASSO_ECP_ERROR_MISSING_SAML_RESPONSE msg = Inr (x, blocks)"
    and b: "first_block ecp_response_of blocks = Some ers" and u: "ers_AssertionConsumerServiceURL ers = ecp_response_consumer_url ecp"
    and e: "prf_msg_url (ecp_parent ecp') = ecp_response_consumer_url ecp"
      "prf_msg_body (ecp_parent ecp') = eio_export_soap eio x (Some (response_headers ecp))"
    by (rule ecp_response_ok[OF assms[unfolded True]])
  obtain envelope n rest where v: "eio_envelope eio msg = Some envelope" "eev_Body envelope = Some ((n, x) # rest)" "is_samlp2_response n"
    "eev_Header envelope = Some blocks" "blocks \<noteq> []" by (rule open_envelope_ok[OF o])
  obtain r where "n = ResponseNode r" using v(3) by (auto simp: is_samlp2_response_def split: message_node.splits)
  then show ?thesis
    using True v first_block_Some[OF b] u e response_headers_valid by auto
qed

text \<open>C33: in a conversation that a new client carries through, the response goes to the address, refers to the message and carries
  the relay state of the request that the service provider sent.\<close>

theorem ecp_conversation:
  assumes "lasso_ecp_process_authn_request_msg eio (lasso_ecp_new server) msg1 = Some (0, e1)"
    and "lasso_ecp_process_response_msg eio e1 msg2 = (0, e2)"
  shows "\<exists>envelope blocks paos x. eio_envelope eio msg1 = Some envelope \<and> eev_Header envelope = Some blocks \<and>
    PaosRequest paos \<in> set blocks \<and> prq_responseConsumerURL paos \<noteq> None \<and>
    prf_msg_url (ecp_parent e2) = prq_responseConsumerURL paos \<and>
    prf_msg_body (ecp_parent e2) = eio_export_soap eio x (Some
      (PaosResponse (lasso_paos_response_new (prq_messageID paos)) #
       (case Option.bind (first_block ecp_relaystate_of blocks) erl_RelayState of
          None \<Rightarrow> [] | r \<Rightarrow> [EcpRelayState (lasso_ecp_relay_state_new r)])))"
proof -
  obtain x blocks paos erq url where o: "open_envelope eio is_authn_request LASSO_ECP_ERROR_MISSING_AUTHN_REQUEST msg1 = Inr (x, blocks)"
    and p: "first_block paos_request_of blocks = Some paos" "prq_responseConsumerURL paos = Some url"
    and e1: "ecp_response_consumer_url e1 = Some url" "ecp_message_id e1 = prq_messageID paos"
      "ecp_relaystate e1 = Option.bind (first_block ecp_relaystate_of blocks) erl_RelayState"
    using assms(1) open_envelope_error[of LASSO_ECP_ERROR_MISSING_AUTHN_REQUEST eio is_authn_request msg1]
    by (auto simp: lasso_ecp_process_authn_request_msg_def lasso_ecp_new_def Let_def lasso_ecp_process_sp_idp_list_def
        lasso_ecp_set_known_sp_provided_idp_entries_supporting_ecp_def split: sum.splits option.splits prod.splits)
  obtain envelope n rest where v: "eio_envelope eio msg1 = Some envelope" "eev_Body envelope = Some ((n, x) # rest)" "is_authn_request n"
    "eev_Header envelope = Some blocks" "blocks \<noteq> []" by (rule open_envelope_ok[OF o])
  have "prf_msg_url (ecp_parent e2) = Some url \<and> (\<exists>y. prf_msg_body (ecp_parent e2) = eio_export_soap eio y (Some (response_headers e1)))"
    by (rule ecp_response_ok[OF assms(2)]) (use e1 in auto)
  then show ?thesis
    using v first_block_Some[OF p(1)] p(2) e1 by (auto simp: response_headers_def)
qed

lemma process_sp_idp_list_fields:
  "ecp_known_idp_entity_ids_supporting_ecp (lasso_ecp_process_sp_idp_list e l) = ecp_known_idp_entity_ids_supporting_ecp e"
  "ecp_sp_idp_list (lasso_ecp_process_sp_idp_list e l) = l"
  "ecp_known_sp_provided_idp_entries_supporting_ecp (lasso_ecp_process_sp_idp_list e l) =
     filter (\<lambda>x. ide_ProviderID x \<in> set (ecp_known_idp_entity_ids_supporting_ecp e)) (case l of None \<Rightarrow> [] | Some l \<Rightarrow> idl_IDPEntry l)"
  by (simp_all add: lasso_ecp_process_sp_idp_list_def lasso_ecp_set_known_sp_provided_idp_entries_supporting_ecp_def Let_def intersect_is_filter)

lemma process_sp_idp_list_url:
  "prf_msg_url (ecp_parent (lasso_ecp_process_sp_idp_list e l)) =
     Option.bind (default_idp (lasso_ecp_process_sp_idp_list e l))
       (\<lambda>i. lasso_ecp_get_endpoint_url_by_entity_id (lasso_ecp_process_sp_idp_list e l) (Some i))"
proof -
  define e1 where "e1 = lasso_ecp_set_known_sp_provided_idp_entries_supporting_ecp (e\<lparr>ecp_sp_idp_list := l\<rparr>)"
  have d: "default_idp (e1\<lparr>ecp_parent := (ecp_parent e1)\<lparr>prf_msg_url := u\<rparr>\<rparr>) = default_idp e1" for u
    by (simp add: default_idp_def lasso_ecp_has_sp_idplist_def Let_def split: option.split list.split)
  show ?thesis
    unfolding lasso_ecp_process_sp_idp_list_def Let_def e1_def[symmetric] d
    by (simp add: lasso_ecp_get_endpoint_url_by_entity_id_def split: option.split)
qed

lemma default_idp_cases:
  assumes "default_idp ecp = Some i"
  obtains e es where "ecp_known_sp_provided_idp_entries_supporting_ecp ecp = e # es" "ide_ProviderID e = Some i"
  | ids where "ecp_known_idp_entity_ids_supporting_ecp ecp = Some i # ids"
      "\<not> lasso_ecp_has_sp_idplist ecp \<or> ecp_known_sp_provided_idp_entries_supporting_ecp ecp = [] \<or>
       ide_ProviderID (hd (ecp_known_sp_provided_idp_entries_supporting_ecp ecp)) = None"
  using assms by (auto simp: default_idp_def Let_def split: if_splits option.splits list.splits)

text \<open>The identity provider that the client proposes is one it knows to support the client, and its address is the one in the
  metadata; it is one of those the service provider listed when the client knows one of these, and any other
  known one when it does not.\<close>

theorem ecp_default_idp:
  assumes "lasso_ecp_process_authn_request_msg eio ecp msg = Some (0, ecp')" and "default_idp ecp' = Some i"
  shows "Some i \<in> set (ecp_known_idp_entity_ids_supporting_ecp ecp') \<and>
    prf_msg_url (ecp_parent ecp') = lasso_ecp_get_endpoint_url_by_entity_id ecp' (Some i) \<and>
    (lasso_ecp_is_provider_in_sp_idplist ecp' (Some i) = Some True \<or> \<not> lasso_ecp_has_sp_idplist ecp' \<or>
     ecp_known_sp_provided_idp_entries_supporting_ecp ecp' = [] \<or>
     ide_ProviderID (hd (ecp_known_sp_provided_idp_entries_supporting_ecp ecp')) = None)"
proof -
  obtain e l where e: "ecp' = lasso_ecp_process_sp_idp_list e l"
    using assms(1) open_envelope_error[of LASSO_ECP_ERROR_MISSING_AUTHN_REQUEST eio is_authn_request msg]
    by (auto simp: lasso_ecp_process_authn_request_msg_def Let_def split: sum.splits option.splits prod.splits)
  note f = process_sp_idp_list_fields[of e l, folded e]
  have url: "prf_msg_url (ecp_parent ecp') = lasso_ecp_get_endpoint_url_by_entity_id ecp' (Some i)"
    using process_sp_idp_list_url[of e l, folded e] assms(2) by simp
  from assms(2) show ?thesis
  proof (cases rule: default_idp_cases)
    case (1 x xs)
    then have "x \<in> set (filter (\<lambda>x. ide_ProviderID x \<in> set (ecp_known_idp_entity_ids_supporting_ecp e)) (case l of None \<Rightarrow> [] | Some l \<Rightarrow> idl_IDPEntry l))"
      using f(3) by simp
    then have "Some i \<in> set (ecp_known_idp_entity_ids_supporting_ecp ecp')" "\<exists>m. l = Some m \<and> x \<in> set (idl_IDPEntry m)"
      using 1(2) f(1) by (auto split: option.splits)
    then show ?thesis
      using url 1(2) f(2) by (auto simp: lasso_ecp_is_provider_in_sp_idplist_def is_provider_in_sp_idplist_def list_ex_iff)
  qed (use url in auto)
qed

section \<open>A conversation\<close>

definition sample_paos :: paos_request where
  "sample_paos = lasso_paos_request_new ''u'' (Some ''https://sp/paos'') (Some ''m1'')"

definition sample_ecp_io :: ecp_io where
  "sample_ecp_io =
     \<lparr>eio_envelope = (\<lambda>m. if m = ''request''
        then Some \<lparr>eev_Header = Some [PaosRequest sample_paos, EcpRequest (lasso_ecp_request_new (Some ''sp'') False None None),
                     EcpRelayState (lasso_ecp_relay_state_new (Some ''state''))],
                   eev_Body = Some [(RequestNode (lasso_samlp2_request_abstract_new (AuthnRequest lasso_samlp2_authn_request_new)), None)]\<rparr>
        else if m = ''response''
        then Some \<lparr>eev_Header = Some [EcpResponse (lasso_ecp_response_new (Some ''https://sp/paos''))],
                   eev_Body = Some [(ResponseNode (sample_response (Samlp2Response [] [])), None)]\<rparr>
        else None),
      eio_export_soap = (\<lambda>_ h. Some (case h of None \<Rightarrow> ''forwarded'' | Some _ \<Rightarrow> ''returned'')), eio_fault = (\<lambda>_. Some ''fault'')\<rparr>"

lemma sample_ecp_request:
  obtains e where "lasso_ecp_process_authn_request_msg sample_ecp_io (lasso_ecp_new (server_instance_init sample_env)) ''request'' = Some (0, e)"
    "ecp_response_consumer_url e = Some ''https://sp/paos''"
proof -
  have "\<exists>e. lasso_ecp_process_authn_request_msg sample_ecp_io (lasso_ecp_new (server_instance_init sample_env)) ''request'' = Some (0, e) \<and>
      ecp_response_consumer_url e = Some ''https://sp/paos''"
    by (simp add: lasso_ecp_process_authn_request_msg_def open_envelope_def sample_ecp_io_def is_authn_request_def
        lasso_samlp2_request_abstract_new_def first_block_def List.map_filter_simps paos_request_of_def ecp_request_of_def
        sample_paos_def lasso_paos_request_new_def lasso_ecp_new_def profile_new_def lasso_server_get_filtered_provider_list_def
        server_instance_init_def ght_values_def lasso_ecp_process_sp_idp_list_def lasso_ecp_set_known_sp_provided_idp_entries_supporting_ecp_def
        lasso_ecp_request_new_def default_idp_def lasso_ecp_has_sp_idplist_def Let_def)
  then show ?thesis using that by blast
qed

lemma sample_ecp_response:
  assumes "ecp_response_consumer_url e = Some ''https://sp/paos''"
  obtains e' where "lasso_ecp_process_response_msg sample_ecp_io e ''response'' = (0, e')"
proof -
  have "fst (lasso_ecp_process_response_msg sample_ecp_io e ''response'') = 0"
    using assms
    by (simp add: lasso_ecp_process_response_msg_def open_envelope_def sample_ecp_io_def is_samlp2_response_def first_block_def
        List.map_filter_simps ecp_response_of_def lasso_ecp_response_new_def Let_def)
  then show ?thesis using that by (metis prod.collapse)
qed

theorem ecp_response_only_to_requester_witness:
  "\<exists>e e'. lasso_ecp_process_response_msg sample_ecp_io e ''response'' = (0, e') \<and> prf_msg_url (ecp_parent e') = Some ''https://sp/paos''"
proof -
  obtain e :: lasso_ecp where e: "ecp_response_consumer_url e = Some ''https://sp/paos''" by (rule sample_ecp_request) blast
  obtain e' where e': "lasso_ecp_process_response_msg sample_ecp_io e ''response'' = (0, e')" by (rule sample_ecp_response[OF e])
  from ecp_response_only_to_requester[OF e'] e' e show ?thesis by auto
qed

theorem ecp_conversation_witness:
  "\<exists>e1 e2. lasso_ecp_process_authn_request_msg sample_ecp_io (lasso_ecp_new (server_instance_init sample_env)) ''request'' = Some (0, e1) \<and>
     lasso_ecp_process_response_msg sample_ecp_io e1 ''response'' = (0, e2) \<and> prf_msg_url (ecp_parent e2) = Some ''https://sp/paos''"
proof -
  obtain e1 where e1: "lasso_ecp_process_authn_request_msg sample_ecp_io (lasso_ecp_new (server_instance_init sample_env)) ''request'' = Some (0, e1)"
    "ecp_response_consumer_url e1 = Some ''https://sp/paos''" by (rule sample_ecp_request) blast
  obtain e2 where e2: "lasso_ecp_process_response_msg sample_ecp_io e1 ''response'' = (0, e2)" by (rule sample_ecp_response[OF e1(2)])
  from ecp_conversation[OF e1(1) e2] e1 e2 show ?thesis
    by (auto simp: sample_ecp_io_def sample_paos_def lasso_paos_request_new_def)
qed

end
