(* ===== verification/Lasso_AssertionQuery.thy ===== *)
theory Lasso_AssertionQuery
  imports Lasso_Bindings
begin

text \<open>
  Queries for assertions about a subject, \<^verbatim>\<open>lasso/saml-2.0/assertion_query.c\<close>: authentication, attribute and authorisation
  queries, sent and answered through SOAP.
\<close>

section \<open>Queries\<close>

abbreviation (input) LASSO_ASSERTION_QUERY_REQUEST_TYPE_UNSET :: int where "LASSO_ASSERTION_QUERY_REQUEST_TYPE_UNSET \<equiv> 0"
abbreviation (input) LASSO_ASSERTION_QUERY_REQUEST_TYPE_ASSERTION_ID :: int where "LASSO_ASSERTION_QUERY_REQUEST_TYPE_ASSERTION_ID \<equiv> 1"
abbreviation (input) LASSO_ASSERTION_QUERY_REQUEST_TYPE_AUTHN :: int where "LASSO_ASSERTION_QUERY_REQUEST_TYPE_AUTHN \<equiv> 2"
abbreviation (input) LASSO_ASSERTION_QUERY_REQUEST_TYPE_ATTRIBUTE :: int where "LASSO_ASSERTION_QUERY_REQUEST_TYPE_ATTRIBUTE \<equiv> 3"
abbreviation (input) LASSO_ASSERTION_QUERY_REQUEST_TYPE_AUTHZ_DECISION :: int where "LASSO_ASSERTION_QUERY_REQUEST_TYPE_AUTHZ_DECISION \<equiv> 4"

record lasso_assertion_query =
  asq_parent :: lasso_profile
  asq_query_request_type :: int

definition lasso_assertion_query_new :: "lasso_server \<Rightarrow> lasso_assertion_query" where
  "lasso_assertion_query_new server =
     \<lparr>asq_parent = profile_new (Some server), asq_query_request_type = LASSO_ASSERTION_QUERY_REQUEST_TYPE_UNSET\<rparr>"

text \<open>The protocol of a type of query; \<open>None\<close> is the result -1.\<close>

definition lasso_assertion_query_type_to_protocol_type :: "int \<Rightarrow> md_protocol_type option" where
  "lasso_assertion_query_type_to_protocol_type t =
     (if t = LASSO_ASSERTION_QUERY_REQUEST_TYPE_ASSERTION_ID then Some ASSERTION_ID_REQUEST
      else if t = LASSO_ASSERTION_QUERY_REQUEST_TYPE_AUTHN then Some AUTHN_QUERY
      else if t = LASSO_ASSERTION_QUERY_REQUEST_TYPE_ATTRIBUTE then Some ATTRIBUTE_SERVICE
      else if t = LASSO_ASSERTION_QUERY_REQUEST_TYPE_AUTHZ_DECISION then Some AUTHZ_SERVICE
      else None)"

text \<open>The role of a provider that answers a type of query, and the request, whose subject is a new one.\<close>

definition query_role :: "int \<Rightarrow> int option" where
  "query_role t =
     (if t = LASSO_ASSERTION_QUERY_REQUEST_TYPE_AUTHN then Some LASSO_PROVIDER_ROLE_AUTHN_AUTHORITY
      else if t = LASSO_ASSERTION_QUERY_REQUEST_TYPE_ATTRIBUTE then Some LASSO_PROVIDER_ROLE_ATTRIBUTE_AUTHORITY
      else if t = LASSO_ASSERTION_QUERY_REQUEST_TYPE_AUTHZ_DECISION then Some LASSO_PROVIDER_ROLE_AUTHZ_AUTHORITY
      else None)"

definition query_request :: "int \<Rightarrow> request_body option" where
  "query_request t =
     (let query = (\<lambda>b. Some (SubjectQuery \<lparr>sqa_Subject = Some lasso_saml2_subject_new, sqa_body = b\<rparr>))
      in if t = LASSO_ASSERTION_QUERY_REQUEST_TYPE_ASSERTION_ID then Some AssertionIDRequest
         else if t = LASSO_ASSERTION_QUERY_REQUEST_TYPE_AUTHN then query AuthnQuery
         else if t = LASSO_ASSERTION_QUERY_REQUEST_TYPE_ATTRIBUTE then query (AttributeQuery [])
         else if t = LASSO_ASSERTION_QUERY_REQUEST_TYPE_AUTHZ_DECISION then query AuthzDecisionQuery
         else None)"

definition lasso_assertion_query_init_request ::
  "environment \<Rightarrow> message_io \<Rightarrow> string \<Rightarrow> lasso_assertion_query \<Rightarrow> cstr \<Rightarrow> int \<Rightarrow> int \<Rightarrow> int \<times> lasso_assertion_query" where
  "lasso_assertion_query_init_request env io uid q remote_provider_id http_method query_request_type =
     (if http_method \<noteq> LASSO_HTTP_METHOD_ANY \<and> http_method \<noteq> LASSO_HTTP_METHOD_SOAP then (LASSO_PARAM_ERROR_INVALID_VALUE, q)
      else
        let p = asq_parent q;
            remote = (case (remote_provider_id, query_role query_request_type) of
                        (Some i, _) \<Rightarrow> Some i
                      | (None, Some role) \<Rightarrow> Option.bind (prf_server p) (\<lambda>s. lasso_server_get_first_providerID_by_role s role)
                      | (None, None) \<Rightarrow> None);
            p = p\<lparr>prf_remote_providerID := remote\<rparr>
        in case remote of
             None \<Rightarrow> (LASSO_PARAM_ERROR_INVALID_VALUE, q\<lparr>asq_parent := p\<rparr>)
           | Some i \<Rightarrow>
               (let q = q\<lparr>asq_parent := p, asq_query_request_type := query_request_type\<rparr> in
                case (query_request query_request_type, lasso_assertion_query_type_to_protocol_type query_request_type) of
                  (Some body, Some protocol_type) \<Rightarrow>
                    (case lasso_saml20_profile_init_request env io uid p (Some i) True (lasso_samlp2_request_abstract_new body)
                            http_method protocol_type of
                       (rc, p) \<Rightarrow> (rc, q\<lparr>asq_parent := p\<rparr>))
                | _ \<Rightarrow> (LASSO_PARAM_ERROR_INVALID_VALUE, q)))"

text \<open>The query of a profile, with the request around it.\<close>

definition query_body :: "lasso_profile \<Rightarrow> (request_abstract \<times> subject_query) option" where
  "query_body p =
     (case prf_request p of
        Some (RequestNode r) \<Rightarrow> (case req_body r of SubjectQuery s \<Rightarrow> Some (r, s) | _ \<Rightarrow> None)
      | _ \<Rightarrow> None)"

definition set_query_body :: "subject_query \<Rightarrow> lasso_profile \<Rightarrow> lasso_profile" where
  "set_query_body s p =
     (case prf_request p of
        Some (RequestNode r) \<Rightarrow> p\<lparr>prf_request := Some (RequestNode (r\<lparr>req_body := SubjectQuery s\<rparr>))\<rparr>
      | _ \<Rightarrow> p)"

text \<open>The name identifier of the subject, when the caller gave none: that of the profile, or the one that session or
  identity have for the provider.\<close>

definition query_name_id :: "lasso_profile \<Rightarrow> name_id option" where
  "query_name_id p =
     (case prf_nameIdentifier p of
        Some (Saml2NameID n) \<Rightarrow> Some n
      | _ \<Rightarrow> (case lasso_profile_get_nameIdentifier p of Some (Saml2NameID n) \<Rightarrow> Some n | _ \<Rightarrow> None))"

definition fill_subject :: "lasso_profile \<Rightarrow> subject_query \<Rightarrow> subject_query option" where
  "fill_subject p s =
     (let subject = (case sqa_Subject s of None \<Rightarrow> lasso_saml2_subject_new | Some x \<Rightarrow> x)
      in if sb_NameID subject = None \<and> sb_EncryptedID subject = None
         then map_option (\<lambda>n. s\<lparr>sqa_Subject := Some (subject\<lparr>sb_NameID := Some n\<rparr>)\<rparr>) (query_name_id p)
         else Some (s\<lparr>sqa_Subject := Some subject\<rparr>))"

text \<open>With a provider whose name identifiers are to be encrypted the code uses the identifier itself where the
  address of the identifier is meant, and the result is undefined.\<close>

definition lasso_saml20_profile_setup_subject :: "lasso_profile \<Rightarrow> int option" where
  "lasso_saml20_profile_setup_subject p =
     (case lasso_server_get_provider (prf_server p) (prf_remote_providerID p) of
        None \<Rightarrow> Some LASSO_ERROR_CAST_FAILED
      | Some r \<Rightarrow> if prv_encryption_mode r AND 1 \<noteq> 0 then None else Some 0)"

text \<open>The service of the provider that a type of query goes to.\<close>

definition query_service :: "int \<Rightarrow> string" where
  "query_service t =
     (if t = LASSO_ASSERTION_QUERY_REQUEST_TYPE_AUTHN then ''AuthnQueryService SOAP''
      else if t = LASSO_ASSERTION_QUERY_REQUEST_TYPE_ATTRIBUTE then ''AttributeService SOAP''
      else ''AuthzService SOAP'')"

definition send_query ::
  "environment \<Rightarrow> message_io \<Rightarrow> 8 word list \<Rightarrow> lasso_provider \<Rightarrow> lasso_assertion_query \<Rightarrow> int \<times> lasso_assertion_query" where
  "send_query env io rnd remote q =
     (let t = asq_query_request_type q in
      if prf_http_request_method (asq_parent q) \<noteq> LASSO_HTTP_METHOD_SOAP then (0, q)
      else if t = LASSO_ASSERTION_QUERY_REQUEST_TYPE_ASSERTION_ID then (LASSO_ERROR_UNDEFINED, q)
      else case query_role t of
             None \<Rightarrow> (LASSO_PARAM_ERROR_INVALID_VALUE, q)
           | Some role \<Rightarrow>
               (case lasso_saml20_profile_build_request_msg env io rnd (asq_parent q) (printf_string None) LASSO_HTTP_METHOD_SOAP
                       (lasso_provider_get_metadata_one_for_role remote role (query_service t)) of
                  (rc, p) \<Rightarrow> (rc, q\<lparr>asq_parent := p\<rparr>)))"

definition lasso_assertion_query_build_request_msg ::
  "environment \<Rightarrow> message_io \<Rightarrow> 8 word list \<Rightarrow> lasso_assertion_query \<Rightarrow> (int \<times> lasso_assertion_query) option" where
  "lasso_assertion_query_build_request_msg env io rnd q =
     (let p = lasso_profile_clean_msg_info (asq_parent q);
          q = q\<lparr>asq_parent := p\<rparr>
      in case lasso_server_get_provider (prf_server p) (prf_remote_providerID p) of
           None \<Rightarrow> Some (LASSO_SERVER_ERROR_PROVIDER_NOT_FOUND, q)
         | Some remote \<Rightarrow>
             (case query_body p of
                None \<Rightarrow> Some (send_query env io rnd remote q)
              | Some (request, s) \<Rightarrow>
                  (case fill_subject p s of
                     None \<Rightarrow> Some (LASSO_PROFILE_ERROR_MISSING_NAME_IDENTIFIER,
                               q\<lparr>asq_parent := set_query_body (s\<lparr>sqa_Subject :=
                                  Some (case sqa_Subject s of None \<Rightarrow> lasso_saml2_subject_new | Some x \<Rightarrow> x)\<rparr>) p\<rparr>)
                   | Some s \<Rightarrow>
                       map_option (\<lambda>rc. let q = q\<lparr>asq_parent := set_query_body s p\<rparr>
                                        in if rc \<noteq> 0 then (rc, q) else send_query env io rnd remote q)
                         (lasso_saml20_profile_setup_subject (set_query_body s p)))))"

section \<open>Answers\<close>

definition lasso_assertion_query_process_request_msg ::
  "environment \<Rightarrow> message_io \<Rightarrow> lasso_assertion_query \<Rightarrow> string \<Rightarrow> int \<times> lasso_assertion_query" where
  "lasso_assertion_query_process_request_msg env io q request_msg =
     (case lasso_saml20_profile_process_soap_request env io (asq_parent q) request_msg of
        (rc, p) \<Rightarrow>
          (let q = q\<lparr>asq_parent := p\<rparr> in
           if rc \<noteq> 0 then (rc, q)
           else case query_body p of
                  None \<Rightarrow> (LASSO_PROFILE_ERROR_INVALID_MSG, q)
                | Some (request, s) \<Rightarrow>
                    (case sqa_Subject s of
                       None \<Rightarrow> (LASSO_PROFILE_ERROR_MISSING_SUBJECT, q)
                     | Some subject \<Rightarrow>
                         (case lasso_saml20_profile_process_name_identifier_decryption io p (sb_NameID subject) (sb_EncryptedID subject) of
                            (rc, p, n, e) \<Rightarrow>
                              (rc, q\<lparr>asq_parent := set_query_body
                                 (s\<lparr>sqa_Subject := Some (subject\<lparr>sb_NameID := n, sb_EncryptedID := e\<rparr>)\<rparr>) p\<rparr>)))))"

definition lasso_assertion_query_validate_request ::
  "environment \<Rightarrow> message_io \<Rightarrow> string \<Rightarrow> lasso_assertion_query \<Rightarrow> int \<times> lasso_assertion_query" where
  "lasso_assertion_query_validate_request env io uid q =
     (case lasso_saml20_profile_validate_request env io uid (asq_parent q) False
             (lasso_samlp2_status_response_new (Samlp2Response [] [])) of
        (rc, p, remote) \<Rightarrow> (rc, q\<lparr>asq_parent := p\<rparr>))"

text \<open>Without a response, one that denies the request is prepared but not written.\<close>

definition lasso_assertion_query_build_response_msg ::
  "environment \<Rightarrow> message_io \<Rightarrow> 8 word list \<Rightarrow> string \<Rightarrow> lasso_assertion_query \<Rightarrow> int \<times> lasso_assertion_query" where
  "lasso_assertion_query_build_response_msg env io rnd uid q =
     (let p = lasso_profile_clean_msg_info (asq_parent q) in
      case (if prf_response p = None
            then lasso_saml20_profile_init_response env io uid p (lasso_samlp2_status_response_new (Samlp2Response [] []))
                   (Some LASSO_SAML2_STATUS_CODE_RESPONDER) (Some LASSO_SAML2_STATUS_CODE_REQUEST_DENIED)
            else lasso_saml20_profile_build_response_msg env io rnd p None (prf_http_request_method p) None) of
        (rc, p) \<Rightarrow> (rc, q\<lparr>asq_parent := p\<rparr>))"

definition lasso_assertion_query_process_response_msg ::
  "environment \<Rightarrow> message_io \<Rightarrow> lasso_assertion_query \<Rightarrow> string \<Rightarrow> int \<times> lasso_assertion_query" where
  "lasso_assertion_query_process_response_msg env io q response_msg =
     (case lasso_saml20_profile_process_soap_response env io (asq_parent q) response_msg of
        (rc, p) \<Rightarrow> (rc, q\<lparr>asq_parent := p\<rparr>))"

section \<open>Attributes\<close>

definition lasso_assertion_query_lookup_attribute :: "attribute list \<Rightarrow> cstr \<Rightarrow> cstr \<Rightarrow> attribute option" where
  "lasso_assertion_query_lookup_attribute attributes format name =
     List.find (\<lambda>a. lasso_strisequal (at_NameFormat a) format \<and> lasso_strisequal (at_Name a) name) attributes"

definition lasso_assertion_query_add_attribute_request ::
  "lasso_assertion_query \<Rightarrow> cstr \<Rightarrow> cstr \<Rightarrow> int \<times> lasso_assertion_query" where
  "lasso_assertion_query_add_attribute_request q format name =
     (if format = None \<or> name = None then (LASSO_PARAM_ERROR_BAD_TYPE_OR_NULL_OBJ, q)
      else case query_body (asq_parent q) of
             Some (request, s) \<Rightarrow>
               (case sqa_body s of
                  AttributeQuery attributes \<Rightarrow>
                    if lasso_assertion_query_lookup_attribute attributes format name \<noteq> None
                    then (LASSO_ASSERTION_QUERY_ERROR_ATTRIBUTE_REQUEST_ALREADY_EXIST, q)
                    else (0, q\<lparr>asq_parent := set_query_body (s\<lparr>sqa_body := AttributeQuery (attributes @
                           [\<lparr>at_Name = name, at_NameFormat = format, at_FriendlyName = None, at_AttributeValue = []\<rparr>])\<rparr>) (asq_parent q)\<rparr>)
                | _ \<Rightarrow> (LASSO_ASSERTION_QUERY_ERROR_NOT_AN_ATTRIBUTE_QUERY, q))
           | None \<Rightarrow> (LASSO_ASSERTION_QUERY_ERROR_NOT_AN_ATTRIBUTE_QUERY, q))"

definition lasso_assertion_query_get_request_type :: "lasso_assertion_query \<Rightarrow> int" where
  "lasso_assertion_query_get_request_type q =
     (case prf_request (asq_parent q) of
        Some (RequestNode r) \<Rightarrow>
          (case req_body r of
             AssertionIDRequest \<Rightarrow> LASSO_ASSERTION_QUERY_REQUEST_TYPE_ASSERTION_ID
           | SubjectQuery s \<Rightarrow>
               (case sqa_body s of
                  AuthnQuery \<Rightarrow> LASSO_ASSERTION_QUERY_REQUEST_TYPE_AUTHN
                | AttributeQuery _ \<Rightarrow> LASSO_ASSERTION_QUERY_REQUEST_TYPE_ATTRIBUTE
                | AuthzDecisionQuery \<Rightarrow> LASSO_ASSERTION_QUERY_REQUEST_TYPE_AUTHZ_DECISION)
           | _ \<Rightarrow> LASSO_ASSERTION_QUERY_REQUEST_TYPE_UNSET)
      | _ \<Rightarrow> LASSO_ASSERTION_QUERY_REQUEST_TYPE_UNSET)"

section \<open>Laws\<close>

lemma query_body_request:
  "query_body p = Some (r, s) \<longleftrightarrow> prf_request p = Some (RequestNode r) \<and> req_body r = SubjectQuery s"
  by (auto simp: query_body_def split: option.splits message_node.splits request_body.splits)

lemma query_body_set:
  "query_body p = Some (r, s) \<Longrightarrow> query_body (set_query_body s' p) = Some (r\<lparr>req_body := SubjectQuery s'\<rparr>, s')"
  by (simp add: query_body_request set_query_body_def)

text \<open>The attributes that a query asks for, by format and name.\<close>

definition requested_attributes :: "lasso_assertion_query \<Rightarrow> (cstr \<times> cstr) list" where
  "requested_attributes q =
     (case query_body (asq_parent q) of
        Some (r, s) \<Rightarrow> (case sqa_body s of AttributeQuery l \<Rightarrow> map (\<lambda>a. (at_NameFormat a, at_Name a)) l | _ \<Rightarrow> [])
      | None \<Rightarrow> [])"

definition is_attribute_query :: "lasso_assertion_query \<Rightarrow> bool" where
  "is_attribute_query q \<longleftrightarrow> lasso_assertion_query_get_request_type q = LASSO_ASSERTION_QUERY_REQUEST_TYPE_ATTRIBUTE"

lemma is_attribute_queryE:
  assumes "is_attribute_query q"
  obtains r s l where "query_body (asq_parent q) = Some (r, s)" "sqa_body s = AttributeQuery l"
    "requested_attributes q = map (\<lambda>a. (at_NameFormat a, at_Name a)) l"
  using assms
  by (auto simp: is_attribute_query_def lasso_assertion_query_get_request_type_def requested_attributes_def query_body_def
      split: option.splits message_node.splits request_body.splits subject_query_body.splits)

lemma lookup_attribute_None:
  "lasso_assertion_query_lookup_attribute l f n = None \<longleftrightarrow> (f, n) \<notin> set (map (\<lambda>a. (at_NameFormat a, at_Name a)) l)"
  by (auto simp: lasso_assertion_query_lookup_attribute_def find_None_iff)

text \<open>One request for an attribute.\<close>

lemma add_attribute_request_step:
  assumes "is_attribute_query q"
  shows "is_attribute_query (snd (lasso_assertion_query_add_attribute_request q (Some f) (Some n))) \<and>
    requested_attributes (snd (lasso_assertion_query_add_attribute_request q (Some f) (Some n))) =
      (if (Some f, Some n) \<in> set (requested_attributes q) then requested_attributes q else requested_attributes q @ [(Some f, Some n)]) \<and>
    fst (lasso_assertion_query_add_attribute_request q (Some f) (Some n)) =
      (if (Some f, Some n) \<in> set (requested_attributes q) then LASSO_ASSERTION_QUERY_ERROR_ATTRIBUTE_REQUEST_ALREADY_EXIST else 0)"
proof -
  obtain r s l where q: "query_body (asq_parent q) = Some (r, s)" "sqa_body s = AttributeQuery l"
    and a: "requested_attributes q = map (\<lambda>a. (at_NameFormat a, at_Name a)) l"
    by (rule is_attribute_queryE[OF assms])
  show ?thesis
  proof (cases "(Some f, Some n) \<in> set (requested_attributes q)")
    case True
    then have "lasso_assertion_query_lookup_attribute l (Some f) (Some n) \<noteq> None" by (simp only: lookup_attribute_None a) simp
    then show ?thesis
      using True assms by (simp add: lasso_assertion_query_add_attribute_request_def q)
  next
    case False
    then have l: "lasso_assertion_query_lookup_attribute l (Some f) (Some n) = None" by (simp only: lookup_attribute_None a) simp
    let ?s = "s\<lparr>sqa_body := AttributeQuery (l @ [\<lparr>at_Name = Some n, at_NameFormat = Some f, at_FriendlyName = None, at_AttributeValue = []\<rparr>])\<rparr>"
    have r: "query_body (set_query_body ?s (asq_parent q)) = Some (r\<lparr>req_body := SubjectQuery ?s\<rparr>, ?s)"
      by (rule query_body_set[OF q(1)])
    have g: "prf_request (set_query_body ?s (asq_parent q)) = Some (RequestNode (r\<lparr>req_body := SubjectQuery ?s\<rparr>))"
      using r by (simp add: query_body_request)
    show ?thesis
      using False a
      by (simp add: lasso_assertion_query_add_attribute_request_def q l requested_attributes_def r is_attribute_query_def
          lasso_assertion_query_get_request_type_def g)
  qed
qed

definition add_attribute_requests :: "(string \<times> string) list \<Rightarrow> lasso_assertion_query \<Rightarrow> lasso_assertion_query" where
  "add_attribute_requests = fold (\<lambda>(f, n) q. snd (lasso_assertion_query_add_attribute_request q (Some f) (Some n)))"

text \<open>Whatever attributes a caller adds to an attribute query, the query asks for every one of them once, besides what it
  asked for before, and for nothing else.\<close>

theorem attribute_requests_unique:
  assumes "is_attribute_query q" and "distinct (requested_attributes q)"
  shows "is_attribute_query (add_attribute_requests l q) \<and> distinct (requested_attributes (add_attribute_requests l q)) \<and>
    set (requested_attributes (add_attribute_requests l q)) = set (requested_attributes q) \<union> (\<lambda>(f, n). (Some f, Some n)) ` set l"
  using assms
proof (induction l arbitrary: q)
  case (Cons a l)
  obtain f n where a: "a = (f, n)" by (cases a)
  let ?q = "snd (lasso_assertion_query_add_attribute_request q (Some f) (Some n))"
  have s: "is_attribute_query ?q" "requested_attributes ?q =
      (if (Some f, Some n) \<in> set (requested_attributes q) then requested_attributes q else requested_attributes q @ [(Some f, Some n)])"
    using add_attribute_request_step[OF Cons.prems(1)] by blast+
  have "distinct (requested_attributes ?q)" using Cons.prems(2) s(2) by simp
  from Cons.IH[OF s(1) this] show ?case
    using s(2) by (auto simp: a add_attribute_requests_def)
qed (simp add: add_attribute_requests_def)

lemma process_soap_request_ok:
  assumes "lasso_saml20_profile_process_soap_request env io p msg = (0, p')"
  obtains request issuer remote where "from_soap env io msg = Some (RequestNode request)" "req_Issuer request = Some issuer"
    "prf_request p' = Some (RequestNode request)" "prf_remote_providerID p' = nid_content issuer" "prf_server p' = prf_server p"
    "lasso_server_get_provider (prf_server p) (nid_content issuer) = Some remote"
    "prf_signature_verify_hint p' = prf_signature_verify_hint p"
    "prf_signature_verify_hint p \<noteq> VERIFY_HINT_IGNORE \<longrightarrow>
       lasso_provider_verify_signature (env_crypto env) (env_verify_signature env) (env_min_signature_method env) (env_xml_parse env) remote (Some msg) ''ID''
         LASSO_MESSAGE_FORMAT_SOAP = 0"
  using assms that
  by (auto simp: lasso_saml20_profile_process_soap_request_def get_provider_def Let_def split: option.splits message_node.splits if_splits)

lemma name_identifier_decryption_fields:
  assumes "lasso_saml20_profile_process_name_identifier_decryption io p n e = (rc, p', n', e')"
  shows "prf_request p' = prf_request p" "prf_remote_providerID p' = prf_remote_providerID p" "prf_server p' = prf_server p"
  using assms
  by (auto simp: lasso_saml20_profile_process_name_identifier_decryption_def Let_def split: option.splits prod.splits if_splits name_identifier.splits)

lemma name_identifier_decryption_clear:
  assumes "lasso_saml20_profile_process_name_identifier_decryption io p n e = (0, p', n', e')"
  shows "n' \<noteq> None \<or> e' = None"
  using assms
  by (auto simp: lasso_saml20_profile_process_name_identifier_decryption_def Let_def split: option.splits prod.splits if_splits name_identifier.splits)

lemma set_query_body_fields [simp]:
  "prf_server (set_query_body s p) = prf_server p" "prf_remote_providerID (set_query_body s p) = prf_remote_providerID p"
  by (simp_all add: set_query_body_def split: option.split message_node.split)

lemma validate_request_names_request:
  assumes "lasso_assertion_query_validate_request env io uid q = (0, q')" and "query_body (asq_parent q) = Some (request, s)"
  shows "\<exists>r. prf_response (asq_parent q') = Some (ResponseNode r) \<and> rsp_InResponseTo r = req_ID request"
proof -
  have b: "prf_request (asq_parent q) = Some (RequestNode request)" using assms(2) by (simp add: query_body_request)
  obtain issuer server where i: "req_Issuer request = Some issuer" "prf_server (asq_parent q) = Some server"
    and q': "asq_parent q' = snd (lasso_saml20_profile_init_response env io uid ((asq_parent q)\<lparr>prf_remote_providerID := nid_content issuer\<rparr>)
       (lasso_samlp2_status_response_new (Samlp2Response [] [])) (Some LASSO_SAML2_STATUS_CODE_SUCCESS) None)"
    using assms(1)
    by (auto simp: lasso_assertion_query_validate_request_def lasso_saml20_profile_validate_request_def b get_provider_def Let_def
        split: option.splits prod.splits if_splits)
  show ?thesis
    using init_response_names_request[of "(asq_parent q)\<lparr>prf_remote_providerID := nid_content issuer\<rparr>" request server] b i
    unfolding q' by fastforce
qed

text \<open>C32: a query is taken only when a known provider signed it, unless signatures are ignored, and it has a subject; the
  subject that the caller sees is in clear, and when the query is then accepted, the answer that is prepared names the
  query it answers.\<close>

theorem assertion_query_authenticated:
  assumes "lasso_assertion_query_process_request_msg env io q msg = (0, q')"
    and "prf_signature_verify_hint (asq_parent q) \<noteq> VERIFY_HINT_IGNORE"
  shows "\<exists>request issuer remote s subject. from_soap env io msg = Some (RequestNode request) \<and> req_Issuer request = Some issuer \<and>
    lasso_server_get_provider (prf_server (asq_parent q)) (nid_content issuer) = Some remote \<and>
    lasso_provider_verify_signature (env_crypto env) (env_verify_signature env) (env_min_signature_method env) (env_xml_parse env) remote (Some msg) ''ID''
      LASSO_MESSAGE_FORMAT_SOAP = 0 \<and>
    prf_remote_providerID (asq_parent q') = nid_content issuer \<and>
    query_body (asq_parent q') = Some (request\<lparr>req_body := SubjectQuery s\<rparr>, s) \<and> sqa_Subject s = Some subject \<and>
    (sb_NameID subject \<noteq> None \<or> sb_EncryptedID subject = None) \<and>
    (\<forall>uid q''. lasso_assertion_query_validate_request env io uid q' = (0, q'') \<longrightarrow>
       (\<exists>r. prf_response (asq_parent q'') = Some (ResponseNode r) \<and> rsp_InResponseTo r = req_ID request))"
proof -
  let ?p = "asq_parent q"
  obtain p s x n e rc where p: "lasso_saml20_profile_process_soap_request env io ?p msg = (0, p)"
    and b: "\<exists>r. query_body p = Some (r, s)" and x: "sqa_Subject s = Some x"
    and d: "lasso_saml20_profile_process_name_identifier_decryption io p (sb_NameID x) (sb_EncryptedID x) = (0, rc, n, e)"
    and q': "asq_parent q' = set_query_body (s\<lparr>sqa_Subject := Some (x\<lparr>sb_NameID := n, sb_EncryptedID := e\<rparr>)\<rparr>) rc"
    using assms(1)
    by (auto simp: lasso_assertion_query_process_request_msg_def Let_def split: prod.splits option.splits if_splits)
  obtain request issuer remote where r: "from_soap env io msg = Some (RequestNode request)" "req_Issuer request = Some issuer"
    "prf_request p = Some (RequestNode request)" "prf_remote_providerID p = nid_content issuer" "prf_server p = prf_server ?p"
    "lasso_server_get_provider (prf_server ?p) (nid_content issuer) = Some remote"
    "prf_signature_verify_hint p = prf_signature_verify_hint ?p"
    "prf_signature_verify_hint ?p \<noteq> VERIFY_HINT_IGNORE \<longrightarrow>
       lasso_provider_verify_signature (env_crypto env) (env_verify_signature env) (env_min_signature_method env) (env_xml_parse env) remote (Some msg) ''ID''
         LASSO_MESSAGE_FORMAT_SOAP = 0"
    by (rule process_soap_request_ok[OF p])
  note f = name_identifier_decryption_fields[OF d]
  let ?s = "s\<lparr>sqa_Subject := Some (x\<lparr>sb_NameID := n, sb_EncryptedID := e\<rparr>)\<rparr>"
  have "query_body rc = Some (request, s)" using b r(3) f(1) by (auto simp: query_body_request)
  then have b': "query_body (asq_parent q') = Some (request\<lparr>req_body := SubjectQuery ?s\<rparr>, ?s)"
    unfolding q' by (rule query_body_set)
  have clear: "n \<noteq> None \<or> e = None" by (rule name_identifier_decryption_clear[OF d])
  have srv: "prf_server (asq_parent q') = prf_server ?p" "prf_remote_providerID (asq_parent q') = nid_content issuer"
    using f r by (simp_all add: q')
  have "\<exists>r. prf_response (asq_parent q'') = Some (ResponseNode r) \<and> rsp_InResponseTo r = req_ID request"
    if v: "lasso_assertion_query_validate_request env io uid q' = (0, q'')" for uid q''
    by (rule validate_request_names_request[OF v b', THEN exE]) auto
  then show ?thesis
    using r assms(2) b' clear srv
    by (intro exI[of _ request] exI[of _ issuer] exI[of _ remote] exI[of _ ?s] exI[of _ "x\<lparr>sb_NameID := n, sb_EncryptedID := e\<rparr>"]) simp
qed

text \<open>A caller that denies a query by not preparing a response gets success and no message.\<close>

theorem denied_query_has_no_message:
  assumes "lasso_assertion_query_build_response_msg env io rnd uid q = (0, q')" and "prf_response (asq_parent q) = None"
  shows "prf_msg_body (asq_parent q') = None"
proof -
  have only: "only_response (lasso_profile_clean_msg_info (asq_parent q)) (asq_parent q')"
    using assms init_response_only
    by (auto simp: lasso_assertion_query_build_response_msg_def lasso_profile_clean_msg_info_def Let_def split: prod.splits)
      (metis init_response_only snd_conv)
  then show ?thesis by (auto simp: only_response_def lasso_profile_clean_msg_info_def)
qed

section \<open>A query\<close>

definition sample_query :: subject_query where
  "sample_query = \<lparr>sqa_Subject = Some sample_subject, sqa_body = AttributeQuery []\<rparr>"

definition sample_query_io :: message_io where
  "sample_query_io = sample_io\<lparr>mio_new_from_xml := \<lambda>_. Some (RequestNode (sample_request (SubjectQuery sample_query)))\<rparr>"

definition sample_asq :: lasso_assertion_query where
  "sample_asq = lasso_assertion_query_new sample_server"

lemma sample_soap_root: "message_root lib (env_xml_parse sample_env) LASSO_MESSAGE_FORMAT_SOAP ''<s/>'' = Some (Some sample_signed_node)"
  by (simp add: message_root_def sample_envelope_def sample_signed_node_def first_of_def)

lemma sample_soap_signature:
  "lasso_provider_verify_signature (env_crypto sample_env) True 1 (env_xml_parse sample_env)
     sample_provider (Some ''<s/>'') ''ID'' LASSO_MESSAGE_FORMAT_SOAP = 0"
  by (simp add: lasso_provider_verify_signature_def sample_soap_root sample_provider_def provider_instance_init_def
      lasso_provider_try_loading_public_keys_def lasso_provider_get_public_keys_def lasso_provider_try_loading_ca_cert_chain_def
      List.map_filter_simps)
    (simp add: sample_env_def sample_crypto_def sample_signed_node_def lasso_verify_signature_def find_signature_def
      is_element_def xmlGetProp_def printf_string_def)

lemma sample_from_soap:
  "from_soap sample_env sample_query_io ''<s/>'' = Some (RequestNode (sample_request (SubjectQuery sample_query)))"
  by (simp add: from_soap_def lasso_node_new_from_soap_def sample_query_io_def sample_envelope_def lasso_xml_get_soap_content_def
      lasso_xml_is_soap_def lasso_xml_is_element_node_def lasso_xml_soap11_get_body_def lasso_xml_soap11_get_header_def
      lasso_xml_next_element_node_def children_of_def is_element_def xmlFirstElement_def sample_signed_node_def)

lemma sample_query_soap:
  "lasso_saml20_profile_process_soap_request sample_env sample_query_io (asq_parent sample_asq) ''<s/>'' =
     (0, (asq_parent sample_asq)\<lparr>prf_signature_status := 0, prf_request := Some (RequestNode (sample_request (SubjectQuery sample_query))),
        prf_http_request_method := LASSO_HTTP_METHOD_SOAP, prf_remote_providerID := Some ''idp''\<rparr>)"
  by (simp add: lasso_saml20_profile_process_soap_request_def get_provider_def sample_soap_signature sample_from_soap Let_def sample_asq_def
      lasso_assertion_query_new_def profile_new_def lasso_saml2_name_id_new_with_string_def)

lemma sample_query_processed:
  obtains q where "lasso_assertion_query_process_request_msg sample_env sample_query_io sample_asq ''<s/>'' = (0, q)"
proof -
  have "fst (lasso_assertion_query_process_request_msg sample_env sample_query_io sample_asq ''<s/>'') = 0"
    by (simp add: lasso_assertion_query_process_request_msg_def sample_query_soap query_body_def sample_query_def Let_def
        lasso_saml20_profile_process_name_identifier_decryption_def sample_subject_def split: option.split)
  then show ?thesis using that by (metis prod.collapse)
qed

theorem assertion_query_authenticated_witness:
  "\<exists>q. lasso_assertion_query_process_request_msg sample_env sample_query_io sample_asq ''<s/>'' = (0, q) \<and>
     prf_remote_providerID (asq_parent q) = Some ''idp''"
proof -
  obtain q where q: "lasso_assertion_query_process_request_msg sample_env sample_query_io sample_asq ''<s/>'' = (0, q)"
    by (rule sample_query_processed)
  have "prf_signature_verify_hint (asq_parent sample_asq) \<noteq> VERIFY_HINT_IGNORE"
    by (simp add: sample_asq_def lasso_assertion_query_new_def profile_new_def)
  from assertion_query_authenticated[OF q this] q show ?thesis
    by (auto simp: sample_from_soap)
qed

theorem attribute_requests_unique_witness:
  "set (requested_attributes (add_attribute_requests [(''f'', ''n''), (''f'', ''n'')]
      (sample_asq\<lparr>asq_parent := (asq_parent sample_asq)\<lparr>prf_request := Some (RequestNode (sample_request (SubjectQuery sample_query)))\<rparr>\<rparr>))) =
   {(Some ''f'', Some ''n'')}"
proof -
  let ?q = "sample_asq\<lparr>asq_parent := (asq_parent sample_asq)\<lparr>prf_request := Some (RequestNode (sample_request (SubjectQuery sample_query)))\<rparr>\<rparr>"
  have q: "is_attribute_query ?q" "requested_attributes ?q = []"
    by (simp_all add: is_attribute_query_def lasso_assertion_query_get_request_type_def requested_attributes_def query_body_def
        sample_request_def sample_query_def lasso_samlp2_request_abstract_new_def)
  then show ?thesis using attribute_requests_unique[of ?q "[(''f'', ''n''), (''f'', ''n'')]"] by simp
qed

end
