(* ===== verification/Lasso_IdffProfile.thy ===== *)
theory Lasso_IdffProfile
  imports Lasso_Bindings
begin

text \<open>
  What the ID-FF 1.2 profiles of \<^verbatim>\<open>lasso/id-ff\<close> share: reading and sending of their messages, the choice of the HTTP
  method, the status of a response.

  The functions of these profiles return \<open>None\<close> where the code has undefined behaviour or ends the process on inputs that
  a caller can give: a null pointer that is dereferenced, an object of another class that is cast, an assertion that fails.
\<close>

section \<open>Messages\<close>

text \<open>Filling an object of a class from a tree, as in \<open>message_io\<close>.\<close>

record idff_io =
  iio_notification :: "xml option \<Rightarrow> int \<times> lib_federation_termination_notification"
  iio_register_request :: "xml option \<Rightarrow> int \<times> lib_register_name_identifier_request"
  iio_register_response :: "xml option \<Rightarrow> int \<times> lib_status_response"
  iio_logout_request :: "xml option \<Rightarrow> int \<times> lib_logout_request"
  iio_logout_response :: "xml option \<Rightarrow> int \<times> lib_status_response"
  iio_mapping_request :: "xml option \<Rightarrow> int \<times> lib_name_identifier_mapping_request"
  iio_mapping_response :: "xml option \<Rightarrow> int \<times> lib_name_identifier_mapping_response"
  iio_authn_request :: "xml option \<Rightarrow> int \<times> lib_authn_request"
  iio_authn_response :: "xml option \<Rightarrow> int \<times> lib_authn_response"

definition lasso_node_init_from_message ::
  "environment \<Rightarrow> (xml option \<Rightarrow> int \<times> 'n) \<Rightarrow> (string list \<Rightarrow> bool \<times> 'n) \<Rightarrow> string \<Rightarrow> message_format \<times> 'n" where
  "lasso_node_init_from_message env init init_from_query msg =
     (case lasso_node_init_from_message_with_format (env_lib env) (env_xml_parse env) init init_from_query msg
             LASSO_MESSAGE_FORMAT_UNKNOWN of
        (format, _, n) \<Rightarrow> (format, n))"

text \<open>The test of the format in these profiles, which lets \<^verbatim>\<open>LASSO_MESSAGE_FORMAT_XSCHEMA_ERROR\<close> pass.\<close>

definition bad_format :: "message_format \<Rightarrow> bool" where
  "bad_format f \<longleftrightarrow> f = LASSO_MESSAGE_FORMAT_UNKNOWN \<or> f = LASSO_MESSAGE_FORMAT_ERROR"

abbreviation verify_message :: "environment \<Rightarrow> lasso_provider \<Rightarrow> string \<Rightarrow> string \<Rightarrow> message_format \<Rightarrow> int" where
  "verify_message env remote msg attr format \<equiv>
     lasso_provider_verify_signature (env_crypto env) (env_verify_signature env) (env_min_signature_method env) (env_xml_parse env)
       remote (Some msg) attr format"

text \<open>The method of a request, where the format tells it.\<close>

definition set_http_method :: "message_format \<Rightarrow> lasso_profile \<Rightarrow> lasso_profile" where
  "set_http_method format p =
     (if format = LASSO_MESSAGE_FORMAT_SOAP then p\<lparr>prf_http_request_method := LASSO_HTTP_METHOD_SOAP\<rparr>
      else if format = LASSO_MESSAGE_FORMAT_QUERY then p\<lparr>prf_http_request_method := LASSO_HTTP_METHOD_REDIRECT\<rparr>
      else p)"

text \<open>When the query cannot be signed it is returned without a signature.\<close>

definition lasso_node_export_to_query_with_password ::
  "environment \<Rightarrow> message_io \<Rightarrow> message_node \<Rightarrow> int \<Rightarrow> cstr \<Rightarrow> cstr \<Rightarrow> cstr" where
  "lasso_node_export_to_query_with_password env io node sign_method private_key_file password =
     (case Option.bind private_key_file (\<lambda>f. env_load_private_key env f password sign_method None) of
        None \<Rightarrow> None
      | Some (key, _) \<Rightarrow>
          (case lasso_node_build_query env io node of
             None \<Rightarrow> None
           | Some unsigned_query \<Rightarrow>
               (case sign_query env unsigned_query \<lparr>sctx_method = sign_method, sctx_key = Some key\<rparr> of
                  None \<Rightarrow> Some unsigned_query
                | Some query \<Rightarrow> Some query)))"

text \<open>The key files of the server are noted in a request or a response before it is written; an object that is not
  of these classes is not cast.\<close>

definition set_key_files :: "lasso_server \<Rightarrow> message_node option \<Rightarrow> message_node option" where
  "set_key_files s node =
     (let k = srv_private_key s; c = srv_certificate s in
      case node of
        Some (IdffNode (FederationTerminationNotification r)) \<Rightarrow>
          Some (IdffNode (FederationTerminationNotification (r\<lparr>sra_private_key_file := k, sra_certificate_file := c\<rparr>)))
      | Some (IdffNode (RegisterNameIdentifierRequest r)) \<Rightarrow>
          Some (IdffNode (RegisterNameIdentifierRequest (r\<lparr>sra_private_key_file := k, sra_certificate_file := c\<rparr>)))
      | Some (IdffNode (RegisterNameIdentifierResponse r)) \<Rightarrow>
          Some (IdffNode (RegisterNameIdentifierResponse (r\<lparr>spa_private_key_file := k, spa_certificate_file := c\<rparr>)))
      | Some (IdffNode (NameIdentifierMappingRequest r)) \<Rightarrow>
          Some (IdffNode (NameIdentifierMappingRequest (r\<lparr>sra_private_key_file := k, sra_certificate_file := c\<rparr>)))
      | Some (IdffNode (NameIdentifierMappingResponse r)) \<Rightarrow>
          Some (IdffNode (NameIdentifierMappingResponse (r\<lparr>spa_private_key_file := k, spa_certificate_file := c\<rparr>)))
      | _ \<Rightarrow> None)"

definition signature_type_of :: "lasso_server \<Rightarrow> signature_type" where
  "signature_type_of s = (if srv_certificate s \<noteq> None then LASSO_SIGNATURE_TYPE_WITHX509 else LASSO_SIGNATURE_TYPE_SIMPLE)"

definition lasso_server_set_signature_for_provider_by_name ::
  "environment \<Rightarrow> lasso_server option \<Rightarrow> cstr \<Rightarrow> message_node \<Rightarrow> int \<times> message_node" where
  "lasso_server_set_signature_for_provider_by_name env server provider_id node =
     (let (rc, context) = lasso_server_get_signature_context_for_provider_by_name env server provider_id
      in if rc \<noteq> 0 then (rc, node) else (0, lasso_node_set_signature (Some context) node))"

section \<open>Methods and statuses\<close>

text \<open>The choice of the HTTP method of a request: the first one that both ends support, or the one that is asked for when it
  is supported.  Outside, \<open>None\<close> is the failed assertion of \<^verbatim>\<open>lasso_provider_get_first_http_method\<close>; inside, the refusal.
  Both functions may adapt the role of the server.\<close>

definition choose_http_method ::
  "lasso_server \<Rightarrow> lasso_provider \<Rightarrow> md_protocol_type \<Rightarrow> int \<Rightarrow> (int option \<times> lasso_server) option" where
  "choose_http_method s remote protocol_type http_method =
     (if http_method = LASSO_HTTP_METHOD_ANY
      then case lasso_provider_get_first_http_method (srv_parent s) (Some remote) protocol_type of
             (None, _) \<Rightarrow> None
           | (Some m, me) \<Rightarrow> Some (Some m, s\<lparr>srv_parent := me\<rparr>)
      else case lasso_provider_accept_http_method (srv_parent s) remote protocol_type http_method True of
             (ok, me) \<Rightarrow> Some (if ok then Some http_method else None, s\<lparr>srv_parent := me\<rparr>))"

definition old_version :: "lasso_provider \<Rightarrow> 'a samlp_request_abstract_scheme \<Rightarrow> 'a samlp_request_abstract_scheme" where
  "old_version remote r =
     (if prv_conformance remote < LASSO_PROTOCOL_LIBERTY_1_2 then r\<lparr>sra_MajorVersion := 1, sra_MinorVersion := 1\<rparr> else r)"

definition status_for :: "string \<Rightarrow> samlp_status" where
  "status_for statusCodeValue =
     (if prefix ''samlp:'' statusCodeValue then new_status statusCodeValue
      else \<lparr>sst_StatusCode = Some (SamlpStatusCode (Some LASSO_SAML_STATUS_CODE_RESPONDER)
             (Some (SamlpStatusCode (Some statusCodeValue) None)))\<rparr>)"

definition lasso_profile_set_response_status :: "lasso_profile \<Rightarrow> string \<Rightarrow> lasso_profile option" where
  "lasso_profile_set_response_status p statusCodeValue =
     (case prf_response p of
        Some (IdffNode (SamlpResponse r)) \<Rightarrow>
          Some (p\<lparr>prf_response := Some (IdffNode (SamlpResponse (r\<lparr>srs_Status := Some (status_for statusCodeValue)\<rparr>)))\<rparr>)
      | Some (IdffNode (LibAuthnResponse r)) \<Rightarrow>
          Some (p\<lparr>prf_response := Some (IdffNode (LibAuthnResponse (r\<lparr>srs_Status := Some (status_for statusCodeValue)\<rparr>)))\<rparr>)
      | Some (IdffNode (RegisterNameIdentifierResponse r)) \<Rightarrow>
          Some (p\<lparr>prf_response := Some (IdffNode (RegisterNameIdentifierResponse (r\<lparr>lsr_Status := Some (status_for statusCodeValue)\<rparr>)))\<rparr>)
      | Some (IdffNode (LibLogoutResponse r)) \<Rightarrow>
          Some (p\<lparr>prf_response := Some (IdffNode (LibLogoutResponse (r\<lparr>lsr_Status := Some (status_for statusCodeValue)\<rparr>)))\<rparr>)
      | _ \<Rightarrow> None)"

definition first_status_code :: "lib_status_response \<Rightarrow> samlp_status_code option" where
  "first_status_code r = Option.bind (lsr_Status r) sst_StatusCode"

text \<open>\<^verbatim>\<open>g_hash_table_lookup\<close> on the federations of the principal.\<close>

definition federation_with :: "lasso_profile \<Rightarrow> string \<Rightarrow> lasso_federation option" where
  "federation_with p i = Option.bind (prf_identity p) (\<lambda>d. ght_lookup (idn_federations d) i)"

text \<open>The message of a request or response \<open>node\<close>, by SOAP to \<open>soap_url\<close> or by redirection to the address that the
  metadata of the remote provider has under \<open>url_name\<close>.  \<open>store\<close> stores the object.\<close>

definition idff_send ::
  "environment \<Rightarrow> message_io \<Rightarrow> lasso_profile \<Rightarrow> lasso_server \<Rightarrow> lasso_provider \<Rightarrow> message_node option \<Rightarrow>
     (message_node \<Rightarrow> lasso_profile \<Rightarrow> lasso_profile) \<Rightarrow> cstr \<Rightarrow> string \<Rightarrow> (int \<times> lasso_profile) option" where
  "idff_send env io p s remote node store soap_url url_name =
     (if prf_http_request_method p = LASSO_HTTP_METHOD_SOAP
      then case set_key_files s node of
             None \<Rightarrow> None
           | Some n \<Rightarrow> Some (0, store n (p\<lparr>prf_msg_url := soap_url, prf_msg_body := mio_export_soap io n\<rparr>))
      else if prf_http_request_method p = LASSO_HTTP_METHOD_REDIRECT
      then case lasso_provider_get_metadata_one remote url_name of
             None \<Rightarrow> Some (LASSO_PROFILE_ERROR_UNKNOWN_PROFILE_URL, p)
           | Some url \<Rightarrow>
               (case Option.bind node (\<lambda>n. lasso_node_export_to_query_with_password env io n (srv_signature_method s)
                       (srv_private_key s) (srv_private_key_password s)) of
                  None \<Rightarrow> Some (LASSO_PROFILE_ERROR_BUILDING_QUERY_FAILED, p)
                | Some query \<Rightarrow> Some (0, p\<lparr>prf_msg_url := Some (lasso_concat_url_query url query), prf_msg_body := None\<rparr>))
      else Some (LASSO_PROFILE_ERROR_INVALID_HTTP_METHOD, p))"

text \<open>A message by SOAP: the signature that is to be put into the object, and the body.\<close>

definition soap_body ::
  "environment \<Rightarrow> message_io \<Rightarrow> lasso_profile \<Rightarrow> message_node option \<Rightarrow> int \<times> message_node option \<times> cstr" where
  "soap_body env io p node =
     (case lasso_server_get_signature_context_for_provider_by_name env (prf_server p) (prf_remote_providerID p) of
        (rc, context) \<Rightarrow>
          if rc \<noteq> 0 then (rc, node, None)
          else let node = map_option (lasso_node_set_signature (Some context)) node in (0, node, Option.bind node (mio_export_soap io)))"

section \<open>Laws\<close>

text \<open>Removing an assertion or a federation; the session refuses an empty provider identifier.\<close>

lemma get_assertion_removed:
  "lasso_session_get_assertion (snd (lasso_session_remove_assertion s (Some i))) j =
     (if j = i \<and> i \<noteq> [] then None else lasso_session_get_assertion s j)"
  by (cases s) (auto simp: lasso_session_remove_assertion_def lasso_session_get_assertion_def ght.lookup_remove lasso_strisempty_def Let_def)

lemma get_federation_removed:
  "lasso_identity_get_federation (snd (lasso_identity_remove_federation d (Some i))) (Some j) =
     (if j = i then None else lasso_identity_get_federation d (Some j))"
  by (cases d) (auto simp: lasso_identity_remove_federation_def lasso_identity_get_federation_def ght.lookup_remove)

lemma federation_with_get: "federation_with p i = lasso_identity_get_federation (prf_identity p) (Some i)"
  by (cases "prf_identity p") (simp_all add: federation_with_def lasso_identity_get_federation_def)

lemma choose_http_method_id:
  "choose_http_method s remote t m = Some (k, s') \<Longrightarrow> prv_ProviderID (srv_parent s') = prv_ProviderID (srv_parent s)"
  by (auto simp: choose_http_method_def lasso_provider_get_first_http_method_def lasso_provider_accept_http_method_def
      complement_role_def Let_def split: if_splits prod.splits option.splits)

lemma choose_http_method_providers:
  "choose_http_method s remote t m = Some (k, s') \<Longrightarrow> srv_providers s' = srv_providers s"
  by (auto simp: choose_http_method_def split: if_splits prod.splits option.splits)

section \<open>An example\<close>

definition sample_idff_provider :: "string \<Rightarrow> int \<Rightarrow> lasso_provider" where
  "sample_idff_provider i role = provider_instance_init\<lparr>prv_role := role, prv_ProviderID := Some i,
     prv_conformance := LASSO_PROTOCOL_LIBERTY_1_2, prv_Descriptors :=
       [(i @ '' FederationTerminationNotificationProtocolProfile'', [''http://projectliberty.org/profiles/fedterm-sp-soap'']),
        (i @ '' RegisterNameIdentifierProtocolProfile'', [''http://projectliberty.org/profiles/rni-sp-soap''])]\<rparr>"

definition sample_idff_profile :: "lasso_provider \<Rightarrow> string \<Rightarrow> lasso_provider \<Rightarrow> name_identifier option \<Rightarrow> name_identifier option \<Rightarrow> lasso_profile" where
  "sample_idff_profile me i there own other =
     (profile_new (Some ((server_instance_init sample_env)\<lparr>srv_parent := me, srv_providers := [(i, there)]\<rparr>)))
     \<lparr>prf_identity := Some \<lparr>idn_federations = [(i, \<lparr>fed_remote_providerID = i, fed_local_nameIdentifier = own,
        fed_remote_nameIdentifier = other\<rparr>)], idn_is_dirty = False\<rparr>\<rparr>"

text \<open>The two ends of a federation, the service provider and the identity provider.\<close>

definition sample_sp_end :: lasso_profile where
  "sample_sp_end = sample_idff_profile (sample_idff_provider ''sp'' LASSO_PROVIDER_ROLE_SP) ''idp''
     (sample_idff_provider ''idp'' LASSO_PROVIDER_ROLE_IDP) None (Some (SamlNameIdentifier (sample_name ''n'')))"

definition sample_idp_end :: lasso_profile where
  "sample_idp_end = sample_idff_profile (sample_idff_provider ''idp'' LASSO_PROVIDER_ROLE_IDP) ''sp''
     (sample_idff_provider ''sp'' LASSO_PROVIDER_ROLE_SP) (Some (SamlNameIdentifier (sample_name ''n''))) None"

definition sample_idff_sp_server :: lasso_server where
  "sample_idff_sp_server = (server_instance_init sample_env)\<lparr>srv_parent := sample_idff_provider ''sp'' LASSO_PROVIDER_ROLE_SP,
     srv_providers := [(''idp'', sample_idff_provider ''idp'' LASSO_PROVIDER_ROLE_IDP)]\<rparr>"

lemma sample_ends_simps [simp]:
  "prf_server sample_sp_end = Some sample_idff_sp_server"
  "prv_ProviderID (srv_parent sample_idff_sp_server) = Some ''sp''"
  "lasso_server_get_provider (Some sample_idff_sp_server) (Some ''idp'') = Some (sample_idff_provider ''idp'' LASSO_PROVIDER_ROLE_IDP)"
  "lasso_server_get_provider (prf_server sample_idp_end) (Some ''sp'') = Some (sample_idff_provider ''sp'' LASSO_PROVIDER_ROLE_SP)"
  "federation_with sample_idp_end ''sp'' = Some \<lparr>fed_remote_providerID = ''sp'',
     fed_local_nameIdentifier = Some (SamlNameIdentifier (sample_name ''n'')), fed_remote_nameIdentifier = None\<rparr>"
  "federation_with sample_sp_end ''idp'' = Some \<lparr>fed_remote_providerID = ''idp'',
     fed_local_nameIdentifier = None, fed_remote_nameIdentifier = Some (SamlNameIdentifier (sample_name ''n''))\<rparr>"
  "prf_identity sample_sp_end \<noteq> None"
  "prf_session sample_sp_end = None" "prv_role (sample_idff_provider i r) = r" "prf_remote_providerID sample_sp_end = None"
  "lasso_provider_get_sp_name_qualifier (sample_idff_provider i r) = Some i"
  by (simp_all add: sample_sp_end_def sample_idp_end_def sample_idff_profile_def sample_idff_provider_def sample_idff_sp_server_def
      profile_new_def provider_instance_init_def lasso_server_get_provider_def federation_with_def ght_lookup_def
      lasso_provider_get_sp_name_qualifier_def)

lemma sample_choice [simp]:
  assumes "t = FEDERATION_TERMINATION \<or> t = REGISTER_NAME_IDENTIFIER"
  shows "choose_http_method sample_idff_sp_server (sample_idff_provider ''idp'' LASSO_PROVIDER_ROLE_IDP) t LASSO_HTTP_METHOD_SOAP =
    Some (Some LASSO_HTTP_METHOD_SOAP, sample_idff_sp_server)"
proof -
  have "role_to_prefix LASSO_PROVIDER_ROLE_SP = Some ''sp''" "role_to_prefix LASSO_PROVIDER_ROLE_IDP = Some ''idp''"
    by (simp_all add: role_to_prefix_def lasso_provider_get_role_index_def)
  note r = this
  have c: "complement_role (sample_idff_provider ''sp'' LASSO_PROVIDER_ROLE_SP) (sample_idff_provider ''idp'' LASSO_PROVIDER_ROLE_IDP) =
      sample_idff_provider ''sp'' LASSO_PROVIDER_ROLE_SP" by (simp add: complement_role_def sample_idff_provider_def)
  have f: "prv_conformance (sample_idff_provider i role) = LASSO_PROTOCOL_LIBERTY_1_2" for i role by (simp add: sample_idff_provider_def)
  have s: "supported_profiles (sample_idff_provider ''sp'' LASSO_PROVIDER_ROLE_SP) t = [printf_string (protocol_uris t) @ ''-sp-soap'']"
    "supported_profiles (sample_idff_provider ''idp'' LASSO_PROVIDER_ROLE_IDP) t = [printf_string (protocol_uris t) @ ''-sp-soap'']"
    using assms by (auto simp: supported_profiles_def protocol_md_nodename_def lasso_provider_get_metadata_list_def r
        lasso_provider_get_metadata_list_for_role_def sample_idff_provider_def ght_lookup_def protocol_uris_def printf_string_def)
  have p: "srv_parent sample_idff_sp_server = sample_idff_provider ''sp'' LASSO_PROVIDER_ROLE_SP" by (simp add: sample_idff_sp_server_def)
  then have "sample_idff_sp_server\<lparr>srv_parent := sample_idff_provider ''sp'' LASSO_PROVIDER_ROLE_SP\<rparr> = sample_idff_sp_server" by simp
  then show ?thesis
    by (simp add: choose_http_method_def lasso_provider_accept_http_method_def p c f r s lasso_provider_has_protocol_profile_def
        protocol_methods_def printf_string_def Let_def)
qed

lemma sample_identifier_known [simp]:
  "lasso_federation_verify_name_identifier \<lparr>fed_remote_providerID = i, fed_local_nameIdentifier = Some (SamlNameIdentifier (sample_name n)),
     fed_remote_nameIdentifier = r\<rparr> (Some (SamlNameIdentifier (sample_name n))) = Some True"
  by (simp add: lasso_federation_verify_name_identifier_def federation_content_matches_def sample_name_def)

text \<open>A SOAP message whose signature is not asked for.\<close>

abbreviation unverified_env :: environment where
  "unverified_env \<equiv> sample_env\<lparr>env_verify_signature := False\<rparr>"

lemma sample_soap_message:
  "lasso_node_init_from_message unverified_env (\<lambda>_. (0, n)) iq ''<s/>'' = (LASSO_MESSAGE_FORMAT_SOAP, n)"
proof -
  have "env_xml_parse unverified_env ''<s/>'' = Some sample_envelope" by (simp add: sample_env_def)
  moreover have "lasso_xml_is_soap sample_envelope" by (simp add: lasso_xml_is_soap_def lasso_xml_is_element_node_def is_element_def sample_envelope_def)
  moreover have "\<not> is_base64 ''<s/>''" by (simp add: is_base64_def is_alnum_def)
  ultimately show ?thesis
    by (simp add: lasso_node_init_from_message_def lasso_node_init_from_message_with_format_def Let_def split: prod.split)
qed

lemma unverified_message [simp]: "lasso_provider_verify_signature cr False min_method xml_parse remote msg attr format = 0"
  by (simp add: lasso_provider_verify_signature_def)

end
