(* ===== verification/Lasso_Defederation.thy ===== *)
theory Lasso_Defederation
  imports Lasso_IdffProfile
begin

text \<open>
  The federation termination notification of ID-FF 1.2, \<^verbatim>\<open>lasso/id-ff/defederation.c\<close>: one end removes its federation
  and notifies the other, which removes its own.  A \<^verbatim>\<open>LassoDefederation\<close> adds no state to a profile.
\<close>

section \<open>The notifier\<close>

definition notification_target :: "lasso_profile \<Rightarrow> cstr \<Rightarrow> int \<times> lasso_profile" where
  "notification_target p remote_providerID =
     (case remote_providerID of
        Some i \<Rightarrow> (0, p\<lparr>prf_remote_providerID := Some i\<rparr>)
      | None \<Rightarrow>
          (case prf_server p of
             None \<Rightarrow> (LASSO_PROFILE_ERROR_MISSING_SERVER, p)
           | Some s \<Rightarrow>
               (let role = (if prv_role (srv_parent s) = LASSO_PROVIDER_ROLE_IDP then LASSO_PROVIDER_ROLE_SP else LASSO_PROVIDER_ROLE_IDP)
                in (0, p\<lparr>prf_remote_providerID := lasso_server_get_first_providerID_by_role s role\<rparr>))))"

definition new_notification ::
  "environment \<Rightarrow> string \<Rightarrow> lasso_server \<Rightarrow> lasso_provider \<Rightarrow> name_identifier \<Rightarrow> int \<Rightarrow> cstr \<Rightarrow> lib_federation_termination_notification" where
  "new_notification env uid s remote nameIdentifier http_method relayState =
     old_version remote
       (if http_method = LASSO_HTTP_METHOD_SOAP
        then lasso_lib_federation_termination_notification_new_full env uid (prv_ProviderID (srv_parent s)) nameIdentifier
               (signature_type_of s) (env_default_signature_method env)
        else (lasso_lib_federation_termination_notification_new_full env uid (prv_ProviderID (srv_parent s)) nameIdentifier
               LASSO_SIGNATURE_TYPE_NONE 0)\<lparr>ftn_RelayState := relayState\<rparr>)"

definition remove_federation :: "lasso_profile \<Rightarrow> lasso_profile" where
  "remove_federation p =
     (let p = p\<lparr>prf_identity := snd (lasso_identity_remove_federation (prf_identity p) (prf_remote_providerID p))\<rparr>
      in if prf_session p \<noteq> None
         then p\<lparr>prf_session := snd (lasso_session_remove_assertion (prf_session p) (prf_remote_providerID p))\<rparr> else p)"

definition lasso_defederation_init_notification ::
  "environment \<Rightarrow> string \<Rightarrow> lasso_profile \<Rightarrow> cstr \<Rightarrow> int \<Rightarrow> (int \<times> lasso_profile) option" where
  "lasso_defederation_init_notification env uid p remote_providerID http_method =
     (let p = p\<lparr>prf_remote_providerID := None, prf_request := None\<rparr>;
          (rc, p) = notification_target p remote_providerID
      in if rc \<noteq> 0 then Some (rc, p)
         else case (prf_server p, prf_remote_providerID p, lasso_server_get_provider (prf_server p) (prf_remote_providerID p)) of
           (Some s, Some i, Some remote) \<Rightarrow>
             if prf_identity p = None then Some (LASSO_PROFILE_ERROR_IDENTITY_NOT_FOUND, p)
             else (case federation_with p i of
                     None \<Rightarrow> Some (LASSO_PROFILE_ERROR_FEDERATION_NOT_FOUND, p)
                   | Some federation \<Rightarrow>
                       (case lasso_profile_get_nameIdentifier p of
                          None \<Rightarrow> Some (LASSO_PROFILE_ERROR_NAME_IDENTIFIER_NOT_FOUND, p)
                        | Some nameIdentifier \<Rightarrow>
                            (let p = p\<lparr>prf_nameIdentifier := (case fed_local_nameIdentifier federation of
                                         None \<Rightarrow> Some nameIdentifier | Some n \<Rightarrow> Some n)\<rparr> in
                             case choose_http_method s remote FEDERATION_TERMINATION http_method of
                               None \<Rightarrow> None
                             | Some (None, s) \<Rightarrow> Some (LASSO_PROFILE_ERROR_UNSUPPORTED_PROFILE, p\<lparr>prf_server := Some s\<rparr>)
                             | Some (Some m, s) \<Rightarrow>
                                 (let n = new_notification env uid s remote nameIdentifier m (prf_msg_relayState p);
                                      p = p\<lparr>prf_server := Some s, prf_request := Some (IdffNode (FederationTerminationNotification n))\<rparr>
                                  in Some (0, (remove_federation p)\<lparr>prf_http_request_method := m\<rparr>)))))
         | _ \<Rightarrow> Some (LASSO_SERVER_ERROR_PROVIDER_NOT_FOUND, p))"

definition lasso_defederation_build_notification_msg ::
  "environment \<Rightarrow> message_io \<Rightarrow> lasso_profile \<Rightarrow> (int \<times> lasso_profile) option" where
  "lasso_defederation_build_notification_msg env io p =
     (let p = lasso_profile_clean_msg_info p in
      if prf_remote_providerID p = None then Some (LASSO_PROFILE_ERROR_MISSING_REMOTE_PROVIDERID, p)
      else case (prf_server p, lasso_server_get_provider (prf_server p) (prf_remote_providerID p)) of
             (Some s, Some remote) \<Rightarrow>
               idff_send env io p s remote (prf_request p) (\<lambda>n. prf_request_update (\<lambda>_. Some n))
                 (lasso_provider_get_metadata_one remote ''SoapEndpoint'') ''FederationTerminationServiceURL''
           | _ \<Rightarrow> Some (LASSO_SERVER_ERROR_PROVIDER_NOT_FOUND, p))"

section \<open>The notified provider\<close>

definition lasso_defederation_process_notification_msg ::
  "environment \<Rightarrow> idff_io \<Rightarrow> lasso_profile \<Rightarrow> string \<Rightarrow> int \<times> lasso_profile" where
  "lasso_defederation_process_notification_msg env iio p request_msg =
     (let (format, request) = lasso_node_init_from_message env (iio_notification iio)
             (notification_init_from_query lasso_lib_federation_termination_notification_new) request_msg;
          p = p\<lparr>prf_request := Some (IdffNode (FederationTerminationNotification request))\<rparr>
      in if bad_format format then (LASSO_PROFILE_ERROR_INVALID_MSG, p)
         else let p = (if format = LASSO_MESSAGE_FORMAT_QUERY
                       then p\<lparr>prf_msg_relayState := lasso_get_relaystate_from_query (env_lib env) (Some request_msg)\<rparr> else p);
                  p = p\<lparr>prf_remote_providerID := ftn_ProviderID request\<rparr>
              in case lasso_server_get_provider (prf_server p) (prf_remote_providerID p) of
                   None \<Rightarrow> (LASSO_SERVER_ERROR_PROVIDER_NOT_FOUND, p)
                 | Some remote \<Rightarrow>
                     (let p = p\<lparr>prf_signature_status := verify_message env remote request_msg ''RequestID'' format\<rparr>;
                          p = set_http_method format p;
                          p = p\<lparr>prf_nameIdentifier := ftn_NameIdentifier request\<rparr>;
                          p = (if ftn_RelayState request \<noteq> None then p\<lparr>prf_msg_relayState := ftn_RelayState request\<rparr> else p)
                      in (prf_signature_status p, p)))"

text \<open>The address to which the principal returns after a redirection; the relay state goes into it as it is.\<close>

definition return_url :: "lasso_profile \<Rightarrow> int \<times> lasso_profile" where
  "return_url p =
     (if prf_http_request_method p = LASSO_HTTP_METHOD_REDIRECT
      then case lasso_server_get_provider (prf_server p) (prf_remote_providerID p) of
             None \<Rightarrow> (LASSO_SERVER_ERROR_PROVIDER_NOT_FOUND, p)
           | Some remote \<Rightarrow>
               (case lasso_provider_get_metadata_one remote ''FederationTerminationServiceReturnURL'' of
                  None \<Rightarrow> (LASSO_PROFILE_ERROR_UNKNOWN_PROFILE_URL, p)
                | Some url \<Rightarrow>
                    (0, p\<lparr>prf_msg_url := Some (case prf_msg_relayState p of
                             None \<Rightarrow> url | Some r \<Rightarrow> lasso_concat_url_query url (''RelayState='' @ r))\<rparr>))
      else (0, p))"

definition lasso_defederation_validate_notification :: "lasso_profile \<Rightarrow> (int \<times> lasso_profile) option" where
  "lasso_defederation_validate_notification p =
     (case prf_request p of
        Some (IdffNode (FederationTerminationNotification request)) \<Rightarrow>
          (let (rc, p) = return_url (p\<lparr>prf_msg_url := None, prf_msg_body := None\<rparr>) in
           if rc \<noteq> 0 then Some (rc, p)
           else if ftn_NameIdentifier request = None then Some (LASSO_DEFEDERATION_ERROR_MISSING_NAME_IDENTIFIER, p)
           else if prf_identity p = None then Some (LASSO_PROFILE_ERROR_IDENTITY_NOT_FOUND, p)
           else case map_option (federation_with p) (prf_remote_providerID p) of
                  None \<Rightarrow> None
                | Some None \<Rightarrow> Some (LASSO_PROFILE_ERROR_FEDERATION_NOT_FOUND, p)
                | Some (Some federation) \<Rightarrow>
                    (case lasso_federation_verify_name_identifier federation (ftn_NameIdentifier request) of
                       None \<Rightarrow> None
                     | Some False \<Rightarrow> Some (LASSO_PROFILE_ERROR_NAME_IDENTIFIER_NOT_FOUND, p)
                     | Some True \<Rightarrow> Some (0, remove_federation p)))
      | _ \<Rightarrow> Some (LASSO_PROFILE_ERROR_MISSING_REQUEST, p))"

section \<open>Laws\<close>

lemma remove_federation_federation:
  "prf_remote_providerID p = Some i \<Longrightarrow> federation_with (remove_federation p) j = (if j = i then None else federation_with p j)"
  by (simp add: remove_federation_def federation_with_get get_federation_removed Let_def)

lemma remove_federation_assertion:
  "prf_remote_providerID p = Some i \<Longrightarrow> lasso_session_get_assertion (prf_session (remove_federation p)) j =
     (if j = i \<and> i \<noteq> [] then None else lasso_session_get_assertion (prf_session p) j)"
  by (auto simp: remove_federation_def get_assertion_removed Let_def) (simp_all add: lasso_session_get_assertion_def)

lemma remove_federation_request [simp]: "prf_request (remove_federation p) = prf_request p"
  by (simp add: remove_federation_def Let_def)

lemma return_url_keeps:
  "return_url p = (rc, p') \<Longrightarrow> prf_identity p' = prf_identity p \<and> prf_session p' = prf_session p \<and>
     prf_remote_providerID p' = prf_remote_providerID p"
  by (auto simp: return_url_def split: if_splits option.splits)

text \<open>A notification that is accepted names an identifier that the federation with the notifier knows.  The federation and the
  assertion of that provider are removed, and no others.\<close>

theorem defederation_validated:
  assumes "lasso_defederation_validate_notification p = Some (0, p')"
  shows "\<exists>request i f. prf_request p = Some (IdffNode (FederationTerminationNotification request)) \<and> prf_remote_providerID p = Some i \<and>
    federation_with p i = Some f \<and> lasso_federation_verify_name_identifier f (ftn_NameIdentifier request) = Some True \<and>
    (\<forall>j. federation_with p' j = (if j = i then None else federation_with p j)) \<and>
    (\<forall>j. lasso_session_get_assertion (prf_session p') j =
       (if j = i \<and> i \<noteq> [] then None else lasso_session_get_assertion (prf_session p) j))"
proof -
  obtain request where r: "prf_request p = Some (IdffNode (FederationTerminationNotification request))"
    using assms by (auto simp: lasso_defederation_validate_notification_def split: option.splits message_node.splits idff_node.splits)
  obtain rc q where q: "return_url (p\<lparr>prf_msg_url := None, prf_msg_body := None\<rparr>) = (rc, q)" by fastforce
  obtain i f where v: "prf_remote_providerID q = Some i" "federation_with q i = Some f"
    "lasso_federation_verify_name_identifier f (ftn_NameIdentifier request) = Some True" "p' = remove_federation q"
    using assms by (auto simp: lasso_defederation_validate_notification_def r q split: if_splits option.splits bool.splits)
  have k: "federation_with q = federation_with p" using return_url_keeps[OF q] by (auto simp: federation_with_def)
  show ?thesis
    using r v return_url_keeps[OF q]
    by (auto simp: k remove_federation_federation[OF v(1)] remove_federation_assertion[OF v(1)])
qed

text \<open>The validation does not look at the signature: an unsigned notification, or one whose signature is wrong, has the same
  effect when the application goes on after the error of \<^verbatim>\<open>lasso_defederation_process_notification_msg\<close>.\<close>

lemma return_url_signature:
  "return_url (p\<lparr>prf_signature_status := v\<rparr>) = apsnd (prf_signature_status_update (\<lambda>_. v)) (return_url p)"
  by (simp add: return_url_def split: option.split)

lemma federation_with_signature [simp]: "federation_with (p\<lparr>prf_signature_status := v\<rparr>) = federation_with p"
  by (auto simp: federation_with_def)

lemma remove_federation_signature: "remove_federation (p\<lparr>prf_signature_status := v\<rparr>) = (remove_federation p)\<lparr>prf_signature_status := v\<rparr>"
  by (simp add: remove_federation_def Let_def)

theorem defederation_ignores_signature:
  "lasso_defederation_validate_notification (p\<lparr>prf_signature_status := v\<rparr>) =
     map_option (apsnd (prf_signature_status_update (\<lambda>_. v))) (lasso_defederation_validate_notification p)"
proof (cases "\<exists>request. prf_request p = Some (IdffNode (FederationTerminationNotification request))")
  case True
  then obtain request where r: "prf_request p = Some (IdffNode (FederationTerminationNotification request))" by blast
  obtain rc q where q: "return_url (p\<lparr>prf_msg_url := None, prf_msg_body := None\<rparr>) = (rc, q)" by fastforce
  have q': "return_url (p\<lparr>prf_signature_status := v, prf_msg_url := None, prf_msg_body := None\<rparr>) = (rc, q\<lparr>prf_signature_status := v\<rparr>)"
  proof -
    have "p\<lparr>prf_signature_status := v, prf_msg_url := None, prf_msg_body := None\<rparr> =
        p\<lparr>prf_msg_url := None, prf_msg_body := None, prf_signature_status := v\<rparr>" by simp
    then show ?thesis by (simp only: return_url_signature q apsnd_conv)
  qed
  show ?thesis
  proof (cases "prf_remote_providerID q")
    case None
    then show ?thesis by (simp add: lasso_defederation_validate_notification_def r q q')
  next
    case (Some i)
    then show ?thesis
      by (simp add: lasso_defederation_validate_notification_def r q q' remove_federation_signature split: option.split bool.split)
  qed
next
  case False
  then show ?thesis
    by (auto simp: lasso_defederation_validate_notification_def split: option.split message_node.split idff_node.split)
qed

text \<open>The notifier has removed its own federation before the notification is sent.\<close>

lemma notifier_sends:
  assumes "lasso_defederation_init_notification env uid p (Some i) m = Some (0, p')"
  obtains s n request where "prf_request p' = Some (IdffNode (FederationTerminationNotification request))"
    "ftn_NameIdentifier request = Some n" "lasso_profile_get_nameIdentifier (p\<lparr>prf_request := None, prf_remote_providerID := Some i\<rparr>) = Some n"
    "prf_server p = Some s" "ftn_ProviderID request = prv_ProviderID (srv_parent s)"
    "\<And>j. federation_with p' j = (if j = i then None else federation_with p j)"
proof -
  let ?p = "p\<lparr>prf_request := None, prf_remote_providerID := Some i\<rparr>"
  obtain s where s: "prf_server p = Some s"
    using assms by (auto simp: lasso_defederation_init_notification_def notification_target_def Let_def split: option.splits)
  obtain remote where r: "lasso_server_get_provider (Some s) (Some i) = Some remote"
    using assms by (auto simp: lasso_defederation_init_notification_def notification_target_def s Let_def split: option.splits)
  note d = assms[unfolded lasso_defederation_init_notification_def, simplified notification_target_def, simplified Let_def, simplified s, simplified r, simplified]
  obtain f where f: "federation_with ?p i = Some f" using d by (auto split: option.splits if_splits)
  obtain n where n: "lasso_profile_get_nameIdentifier ?p = Some n" using d by (auto simp: f split: option.splits if_splits)
  obtain k s' where c: "choose_http_method s remote FEDERATION_TERMINATION m = Some (Some k, s')"
    using d by (auto simp: s r f n split: option.splits if_splits)
  define name where "name = (case fed_local_nameIdentifier f of None \<Rightarrow> Some n | Some n \<Rightarrow> Some n)"
  define request where "request = new_notification env uid s' remote n k (prf_msg_relayState p)"
  have p': "p' = (remove_federation (?p\<lparr>prf_nameIdentifier := name, prf_server := Some s',
      prf_request := Some (IdffNode (FederationTerminationNotification request))\<rparr>))\<lparr>prf_http_request_method := k\<rparr>"
    using d by (simp add: s r f n c name_def request_def split: if_splits)
  have "prv_ProviderID (srv_parent s') = prv_ProviderID (srv_parent s)" by (rule choose_http_method_id[OF c])
  then have q: "ftn_NameIdentifier request = Some n" "ftn_ProviderID request = prv_ProviderID (srv_parent s)"
    by (simp_all add: request_def new_notification_def old_version_def lasso_lib_federation_termination_notification_new_full_def)
  have "federation_with p' j = (if j = i then None else federation_with p j)" for j
    using remove_federation_federation[of "?p\<lparr>prf_nameIdentifier := name, prf_server := Some s',
      prf_request := Some (IdffNode (FederationTerminationNotification request))\<rparr>" i j] by (simp add: p' federation_with_def)
  then show ?thesis using that q s n p' by simp
qed

text \<open>C22: After a notification by one end that the other end accepts, neither has the federation: the notifier removes it when the
  notification is made, the other end when it is validated, provided that it knows the identifier of the notification under the
  name of the notifier.\<close>

theorem defederation_both_ends:
  assumes "lasso_defederation_init_notification env uid p (Some i) m = Some (0, p')"
    and "prf_server p = Some s" and "prv_ProviderID (srv_parent s) = Some me"
    and "prf_request q = prf_request p'" and "prf_remote_providerID q = Some me" and "prf_http_request_method q = LASSO_HTTP_METHOD_SOAP"
    and "federation_with q me = Some f"
    and "lasso_federation_verify_name_identifier f
          (lasso_profile_get_nameIdentifier (p\<lparr>prf_request := None, prf_remote_providerID := Some i\<rparr>)) = Some True"
  shows "\<exists>q' request. lasso_defederation_validate_notification q = Some (0, q') \<and>
    prf_request p' = Some (IdffNode (FederationTerminationNotification request)) \<and> ftn_ProviderID request = Some me \<and>
    federation_with p' i = None \<and> federation_with q' me = None"
proof -
  obtain n request where r: "prf_request p' = Some (IdffNode (FederationTerminationNotification request))"
    "ftn_NameIdentifier request = Some n" "lasso_profile_get_nameIdentifier (p\<lparr>prf_request := None, prf_remote_providerID := Some i\<rparr>) = Some n"
    "ftn_ProviderID request = Some me" "federation_with p' i = None"
    by (rule notifier_sends[OF assms(1)]) (use assms(2,3) in auto)
  let ?q = "q\<lparr>prf_msg_url := None, prf_msg_body := None\<rparr>"
  have "lasso_defederation_validate_notification q = Some (0, remove_federation ?q)"
    using assms(4-) r by (auto simp: lasso_defederation_validate_notification_def return_url_def federation_with_def
      split: bind_splits)
  moreover have "federation_with (remove_federation ?q) me = None" using assms(5) by (simp add: remove_federation_federation)
  ultimately show ?thesis using r by blast
qed

text \<open>A service provider ends its federation, and the identity provider follows.\<close>

theorem defederation_both_ends_witness:
  "\<exists>p' q'. lasso_defederation_init_notification sample_env ''i'' sample_sp_end (Some ''idp'') LASSO_HTTP_METHOD_SOAP = Some (0, p') \<and>
    lasso_defederation_validate_notification (sample_idp_end\<lparr>prf_request := prf_request p', prf_remote_providerID := Some ''sp'',
      prf_http_request_method := LASSO_HTTP_METHOD_SOAP\<rparr>) = Some (0, q') \<and>
    federation_with p' ''idp'' = None \<and> federation_with q' ''sp'' = None"
proof -
  let ?p = "sample_sp_end\<lparr>prf_request := None, prf_remote_providerID := Some ''idp''\<rparr>"
  have f: "federation_with ?p ''idp'' = federation_with sample_sp_end ''idp''" by (simp add: federation_with_def)
  have g: "federation_with (sample_idp_end\<lparr>prf_request := r, prf_remote_providerID := i, prf_http_request_method := m\<rparr>) =
      federation_with sample_idp_end" for r i m by (auto simp: federation_with_def)
  have n: "lasso_profile_get_nameIdentifier ?p = Some (SamlNameIdentifier (sample_name ''n''))"
    using sample_ends_simps(6)
    by (simp add: lasso_profile_get_nameIdentifier_def lasso_saml_assertion_get_name_id_def lasso_saml2_assertion_get_name_id_def
        federation_with_def)
  obtain p' where "lasso_defederation_init_notification sample_env ''i'' sample_sp_end (Some ''idp'') LASSO_HTTP_METHOD_SOAP = Some (0, p')"
    by (simp add: lasso_defederation_init_notification_def notification_target_def f n Let_def)
  from defederation_both_ends[OF this, of sample_idff_sp_server "''sp''" "sample_idp_end\<lparr>prf_request := prf_request p',
      prf_remote_providerID := Some ''sp'', prf_http_request_method := LASSO_HTTP_METHOD_SOAP\<rparr>"] this
  show ?thesis by (auto simp: g n)
qed

end
