(* ===== verification/Lasso_NameRegistration.thy ===== *)
theory Lasso_NameRegistration
  imports Lasso_IdffProfile
begin

text \<open>
  The registration of name identifiers of ID-FF 1.2, \<^verbatim>\<open>lasso/id-ff/name_registration.c\<close>: one end gives the other a new
  identifier for the principal.
\<close>

record lasso_name_registration =
  nrg_parent :: lasso_profile
  nrg_oldNameIdentifier :: "name_identifier option"

definition lasso_name_registration_new :: "lasso_server \<Rightarrow> lasso_name_registration" where
  "lasso_name_registration_new server = \<lparr>nrg_parent = profile_new (Some server), nrg_oldNameIdentifier = None\<rparr>"

section \<open>The requester\<close>

definition fresh_identifier :: "string \<Rightarrow> cstr \<Rightarrow> name_identifier" where
  "fresh_identifier nid qualifier =
     SamlNameIdentifier \<lparr>sni_content = Some nid, sni_NameQualifier = qualifier, sni_Format = Some LASSO_LIB_NAME_IDENTIFIER_FORMAT_FEDERATED\<rparr>"

text \<open>The identifiers of the request: of the identity provider, of the service provider, and the old one.  A service provider whose
  federation has no remote identifier dereferences it; an identity provider without a local one fails.\<close>

datatype registered = Registered "name_identifier option" "name_identifier option" "name_identifier option" | NoLocalIdentifier | Undefined

definition identifiers_for :: "lasso_provider \<Rightarrow> lasso_federation \<Rightarrow> name_identifier \<Rightarrow> registered" where
  "identifiers_for remote federation fresh =
     (if prv_role remote = LASSO_PROVIDER_ROLE_IDP
      then case fed_remote_nameIdentifier federation of
             None \<Rightarrow> Undefined
           | Some idp \<Rightarrow> Registered (Some idp) (Some fresh)
                           (case fed_local_nameIdentifier federation of None \<Rightarrow> Some idp | Some n \<Rightarrow> Some n)
      else case fed_local_nameIdentifier federation of
             None \<Rightarrow> NoLocalIdentifier
           | Some old \<Rightarrow> Registered (Some fresh) (fed_remote_nameIdentifier federation) (Some old))"

definition lasso_name_registration_init_request ::
  "environment \<Rightarrow> string \<Rightarrow> string \<Rightarrow> lasso_name_registration \<Rightarrow> string \<Rightarrow> int \<Rightarrow> (int \<times> lasso_name_registration) option" where
  "lasso_name_registration_init_request env uid nid nr remote_providerID http_method =
     (let p = nrg_parent nr; result = (\<lambda>rc p. Some (rc, nr\<lparr>nrg_parent := p\<rparr>)) in
      if prf_identity p = None then result LASSO_PROFILE_ERROR_IDENTITY_NOT_FOUND p
      else let p = p\<lparr>prf_remote_providerID := Some remote_providerID\<rparr> in
        case (prf_server p, lasso_server_get_provider (prf_server p) (prf_remote_providerID p)) of
          (Some s, Some remote) \<Rightarrow>
            (case federation_with p remote_providerID of
               None \<Rightarrow> result LASSO_PROFILE_ERROR_FEDERATION_NOT_FOUND p
             | Some federation \<Rightarrow>
                 (let fresh = fresh_identifier nid (prf_remote_providerID p) in
                  case identifiers_for remote federation fresh of
                    Undefined \<Rightarrow> None
                  | NoLocalIdentifier \<Rightarrow> result LASSO_PROFILE_ERROR_NAME_IDENTIFIER_NOT_FOUND p
                  | Registered idp sp old \<Rightarrow>
                      (let p = p\<lparr>prf_nameIdentifier := Some fresh\<rparr>;
                           finish = (\<lambda>rc p. Some (rc, nr\<lparr>nrg_parent := p, nrg_oldNameIdentifier := old\<rparr>))
                       in case choose_http_method s remote REGISTER_NAME_IDENTIFIER http_method of
                            None \<Rightarrow> None
                          | Some (None, s) \<Rightarrow> finish LASSO_PROFILE_ERROR_UNSUPPORTED_PROFILE (p\<lparr>prf_server := Some s\<rparr>)
                          | Some (Some m, s) \<Rightarrow>
                              (let r = old_version remote ((lasso_lib_register_name_identifier_request_new_full env uid
                                         (prv_ProviderID (srv_parent s)) idp sp old (signature_type_of s) (env_default_signature_method env))
                                         \<lparr>rni_RelayState := prf_msg_relayState p\<rparr>)
                               in finish 0 (p\<lparr>prf_server := Some s, prf_request := Some (IdffNode (RegisterNameIdentifierRequest r)),
                                            prf_http_request_method := m\<rparr>)))))
        | _ \<Rightarrow> result LASSO_SERVER_ERROR_PROVIDER_NOT_FOUND p)"

definition lasso_name_registration_build_request_msg ::
  "environment \<Rightarrow> message_io \<Rightarrow> lasso_profile \<Rightarrow> (int \<times> lasso_profile) option" where
  "lasso_name_registration_build_request_msg env io p =
     (let p = lasso_profile_clean_msg_info p in
      if prf_remote_providerID p = None then Some (LASSO_PROFILE_ERROR_MISSING_REMOTE_PROVIDERID, p)
      else case (prf_server p, lasso_server_get_provider (prf_server p) (prf_remote_providerID p)) of
             (Some s, Some remote) \<Rightarrow>
               idff_send env io p s remote (prf_request p) (\<lambda>n. prf_request_update (\<lambda>_. Some n))
                 (lasso_provider_get_metadata_one remote ''SoapEndpoint'') ''RegisterNameIdentifierServiceURL''
           | _ \<Rightarrow> Some (LASSO_SERVER_ERROR_PROVIDER_NOT_FOUND, p))"

text \<open>The new identifier becomes the local one of the federation, whatever the verification of the signature said.\<close>

definition set_federation :: "string \<Rightarrow> lasso_federation \<Rightarrow> lasso_profile \<Rightarrow> lasso_profile" where
  "set_federation i f p =
     p\<lparr>prf_identity := map_option (\<lambda>d. d\<lparr>idn_federations := ght_insert i f (idn_federations d), idn_is_dirty := True\<rparr>) (prf_identity p)\<rparr>"

definition registered_identifier :: "lasso_provider \<Rightarrow> lib_register_name_identifier_request \<Rightarrow> name_identifier option" where
  "registered_identifier remote request =
     (if prv_role remote = LASSO_PROVIDER_ROLE_SP then rni_IDPProvidedNameIdentifier request
      else if prv_role remote = LASSO_PROVIDER_ROLE_IDP then rni_SPProvidedNameIdentifier request
      else None)"

definition lasso_name_registration_process_response_msg ::
  "environment \<Rightarrow> idff_io \<Rightarrow> lasso_profile \<Rightarrow> string \<Rightarrow> (int \<times> lasso_profile) option" where
  "lasso_name_registration_process_response_msg env iio p response_msg =
     (let (format, response) = lasso_node_init_from_message env (iio_register_response iio)
             (status_response_init_from_query lasso_lib_status_response_new) response_msg;
          p = p\<lparr>prf_response := Some (IdffNode (RegisterNameIdentifierResponse response))\<rparr>
      in if bad_format format then Some (LASSO_PROFILE_ERROR_INVALID_MSG, p)
         else case lasso_server_get_provider (prf_server p) (lsr_ProviderID response) of
           None \<Rightarrow> Some (LASSO_SERVER_ERROR_PROVIDER_NOT_FOUND, p)
         | Some signer \<Rightarrow>
             (let rc = verify_message env signer response_msg ''ResponseID'' format in
              case Option.bind (first_status_code response) ssc_Value of
                None \<Rightarrow> Some (LASSO_PROFILE_ERROR_MISSING_STATUS_CODE, p)
              | Some v \<Rightarrow>
                  if v \<noteq> LASSO_SAML_STATUS_CODE_SUCCESS then Some (LASSO_PROFILE_ERROR_STATUS_NOT_SUCCESS, p)
                  else if prf_identity p = None then Some (LASSO_PROFILE_ERROR_IDENTITY_NOT_FOUND, p)
                  else case map_option (\<lambda>i. (i, federation_with p i)) (prf_remote_providerID p) of
                    None \<Rightarrow> None
                  | Some (i, None) \<Rightarrow> Some (LASSO_PROFILE_ERROR_FEDERATION_NOT_FOUND, p)
                  | Some (i, Some federation) \<Rightarrow>
                      (case lasso_server_get_provider (prf_server p) (prf_remote_providerID p) of
                         None \<Rightarrow> Some (LASSO_SERVER_ERROR_PROVIDER_NOT_FOUND, p)
                       | Some remote \<Rightarrow>
                           (case prf_request p of
                              Some (IdffNode (RegisterNameIdentifierRequest request)) \<Rightarrow>
                                (case registered_identifier remote request of
                                   None \<Rightarrow> Some (LASSO_PROFILE_ERROR_MISSING_NAME_IDENTIFIER, p)
                                 | Some n \<Rightarrow> Some (rc, (set_federation i (federation\<lparr>fed_local_nameIdentifier := Some n\<rparr>) p)
                                                       \<lparr>prf_msg_relayState := lsr_RelayState response\<rparr>))
                            | _ \<Rightarrow> if prv_role remote = LASSO_PROVIDER_ROLE_SP \<or> prv_role remote = LASSO_PROVIDER_ROLE_IDP then None
                                   else Some (LASSO_PROFILE_ERROR_MISSING_NAME_IDENTIFIER, p)))))"

section \<open>The other end\<close>

text \<open>The remote provider of the profile is not set here.\<close>

definition lasso_name_registration_process_request_msg ::
  "environment \<Rightarrow> idff_io \<Rightarrow> lasso_name_registration \<Rightarrow> string \<Rightarrow> (int \<times> lasso_name_registration) option" where
  "lasso_name_registration_process_request_msg env iio nr request_msg =
     (let (format, request) = lasso_node_init_from_message env (iio_register_request iio)
             (register_init_from_query lasso_lib_register_name_identifier_request_new) request_msg;
          p = (nrg_parent nr)\<lparr>prf_request := Some (IdffNode (RegisterNameIdentifierRequest request))\<rparr>
      in if bad_format format then Some (LASSO_PROFILE_ERROR_INVALID_MSG, nr\<lparr>nrg_parent := p\<rparr>)
         else case lasso_server_get_provider (prf_server p) (rni_ProviderID request) of
           None \<Rightarrow> Some (LASSO_SERVER_ERROR_PROVIDER_NOT_FOUND, nr\<lparr>nrg_parent := p\<rparr>)
         | Some remote \<Rightarrow>
             (let status = verify_message env remote request_msg ''RequestID'' format;
                  p = set_http_method format (p\<lparr>prf_signature_status := status\<rparr>);
                  finish = (\<lambda>n old. Some (status, nr\<lparr>nrg_parent := p\<lparr>prf_nameIdentifier := n\<rparr>, nrg_oldNameIdentifier := old\<rparr>))
              in if prv_role remote = LASSO_PROVIDER_ROLE_IDP
                 then (case rni_SPProvidedNameIdentifier request of
                         Some n \<Rightarrow> finish (Some n) None
                       | None \<Rightarrow>
                           if rni_IDPProvidedNameIdentifier request = None \<or> rni_OldProvidedNameIdentifier request = None then None
                           else finish (rni_IDPProvidedNameIdentifier request) (rni_OldProvidedNameIdentifier request))
                 else if prv_role remote = LASSO_PROVIDER_ROLE_SP
                 then (if rni_IDPProvidedNameIdentifier request = None then None else finish (rni_IDPProvidedNameIdentifier request) None)
                 else Some (status, nr\<lparr>nrg_parent := p, nrg_oldNameIdentifier := None\<rparr>)))"

definition provided_identifier :: "lasso_provider \<Rightarrow> lib_register_name_identifier_request \<Rightarrow> name_identifier option" where
  "provided_identifier remote request =
     (if prv_role remote = LASSO_PROVIDER_ROLE_SP then rni_SPProvidedNameIdentifier request
      else if prv_role remote = LASSO_PROVIDER_ROLE_IDP then rni_IDPProvidedNameIdentifier request
      else None)"

definition lasso_name_registration_validate_request ::
  "environment \<Rightarrow> string \<Rightarrow> lasso_profile \<Rightarrow> (int \<times> lasso_profile) option" where
  "lasso_name_registration_validate_request env uid p =
     (case prf_request p of
        Some (IdffNode (RegisterNameIdentifierRequest request)) \<Rightarrow>
          (let p = p\<lparr>prf_remote_providerID := rni_ProviderID request\<rparr> in
           case (prf_remote_providerID p, prf_server p) of
             (None, _) \<Rightarrow> Some (LASSO_PROFILE_ERROR_MISSING_REMOTE_PROVIDERID, p)
           | (_, None) \<Rightarrow> None
           | (Some i, Some s) \<Rightarrow>
               (let response = lasso_lib_register_name_identifier_response_new_full env uid (prv_ProviderID (srv_parent s))
                       LASSO_SAML_STATUS_CODE_SUCCESS request (signature_type_of s) (env_default_signature_method env);
                    p = p\<lparr>prf_response := Some (IdffNode (RegisterNameIdentifierResponse response))\<rparr>
                in if prf_identity p = None then Some (LASSO_PROFILE_ERROR_IDENTITY_NOT_FOUND, p)
                   else case federation_with p i of
                     None \<Rightarrow> Some (LASSO_PROFILE_ERROR_FEDERATION_NOT_FOUND, p)
                   | Some federation \<Rightarrow>
                       if rni_OldProvidedNameIdentifier request = None then Some (LASSO_PROFILE_ERROR_MISSING_NAME_IDENTIFIER, p)
                       else case lasso_federation_verify_name_identifier federation (rni_OldProvidedNameIdentifier request) of
                         None \<Rightarrow> None
                       | Some False \<Rightarrow> Some (LASSO_PROFILE_ERROR_MISSING_NAME_IDENTIFIER, p)
                       | Some True \<Rightarrow>
                           (case lasso_server_get_provider (Some s) (Some i) of
                              None \<Rightarrow> Some (LASSO_SERVER_ERROR_PROVIDER_NOT_FOUND, p)
                            | Some remote \<Rightarrow>
                                (case provided_identifier remote request of
                                   None \<Rightarrow> Some (LASSO_PROFILE_ERROR_MISSING_NAME_IDENTIFIER, p)
                                 | Some n \<Rightarrow> Some (0, set_federation i (federation\<lparr>fed_remote_nameIdentifier := Some n\<rparr>) p)))))
      | _ \<Rightarrow> Some (LASSO_PROFILE_ERROR_MISSING_REQUEST, p))"

definition lasso_name_registration_build_response_msg ::
  "environment \<Rightarrow> message_io \<Rightarrow> lasso_profile \<Rightarrow> (int \<times> lasso_profile) option" where
  "lasso_name_registration_build_response_msg env io p =
     (let p = lasso_profile_clean_msg_info p in
      if prf_remote_providerID p = None then Some (LASSO_PROFILE_ERROR_MISSING_REMOTE_PROVIDERID, p)
      else case (prf_server p, lasso_server_get_provider (prf_server p) (prf_remote_providerID p)) of
             (Some s, Some remote) \<Rightarrow>
               idff_send env io p s remote (prf_response p) (\<lambda>n. prf_response_update (\<lambda>_. Some n)) None
                 ''RegisterNameIdentifierServiceReturnURL''
           | _ \<Rightarrow> Some (LASSO_SERVER_ERROR_PROVIDER_NOT_FOUND, p))"

section \<open>Laws\<close>

lemma set_federation_lookup:
  assumes "prf_identity p \<noteq> None"
  shows "federation_with (set_federation i f p) j = (if j = i then Some f else federation_with p j)"
  using assms by (auto simp: federation_with_def set_federation_def ght.lookup_insert)

lemma registration_requested:
  assumes "lasso_name_registration_init_request env uid nid nr i m = Some (0, nr')"
  obtains s remote f idp sp old request where "prf_server (nrg_parent nr) = Some s"
    "lasso_server_get_provider (Some s) (Some i) = Some remote" "federation_with (nrg_parent nr) i = Some f"
    "identifiers_for remote f (fresh_identifier nid (Some i)) = Registered idp sp old"
    "prf_request (nrg_parent nr') = Some (IdffNode (RegisterNameIdentifierRequest request))"
    "rni_IDPProvidedNameIdentifier request = idp" "rni_SPProvidedNameIdentifier request = sp"
    "rni_OldProvidedNameIdentifier request = old" "rni_ProviderID request = prv_ProviderID (srv_parent s)"
    "prf_remote_providerID (nrg_parent nr') = Some i" "prf_identity (nrg_parent nr') = prf_identity (nrg_parent nr)"
    "\<And>j. lasso_server_get_provider (prf_server (nrg_parent nr')) (Some j) = lasso_server_get_provider (Some s) (Some j)"
proof -
  let ?p = "nrg_parent nr"
  obtain s where s: "prf_server ?p = Some s"
    using assms by (auto simp: lasso_name_registration_init_request_def Let_def split: if_splits option.splits)
  obtain remote where r: "lasso_server_get_provider (Some s) (Some i) = Some remote"
    using assms by (auto simp: lasso_name_registration_init_request_def s Let_def split: if_splits option.splits)
  obtain f where f: "federation_with ?p i = Some f"
    using assms by (auto simp: lasso_name_registration_init_request_def s r federation_with_def Let_def split: if_splits option.splits)
  have g: "federation_with (?p\<lparr>prf_remote_providerID := Some i\<rparr>) i = Some f" using f by (simp add: federation_with_def)
  obtain idp sp old where k: "identifiers_for remote f (fresh_identifier nid (Some i)) = Registered idp sp old"
    using assms by (cases "identifiers_for remote f (fresh_identifier nid (Some i))")
      (auto simp: lasso_name_registration_init_request_def s r g Let_def split: if_splits)
  obtain h s' where c: "choose_http_method s remote REGISTER_NAME_IDENTIFIER m = Some (Some h, s')"
    using assms by (auto simp: lasso_name_registration_init_request_def s r g k Let_def split: if_splits option.splits)
  define request where "request = old_version remote ((lasso_lib_register_name_identifier_request_new_full env uid
      (prv_ProviderID (srv_parent s')) idp sp old (signature_type_of s') (env_default_signature_method env))
      \<lparr>rni_RelayState := prf_msg_relayState ?p\<rparr>)"
  have n: "nr' = nr\<lparr>nrg_parent := ?p\<lparr>prf_remote_providerID := Some i, prf_nameIdentifier := Some (fresh_identifier nid (Some i)),
      prf_server := Some s', prf_request := Some (IdffNode (RegisterNameIdentifierRequest request)), prf_http_request_method := h\<rparr>,
      nrg_oldNameIdentifier := old\<rparr>"
    using assms by (simp add: lasso_name_registration_init_request_def s r g k c request_def Let_def split: if_splits)
  have q: "rni_IDPProvidedNameIdentifier request = idp" "rni_SPProvidedNameIdentifier request = sp"
    "rni_OldProvidedNameIdentifier request = old" "rni_ProviderID request = prv_ProviderID (srv_parent s)"
    by (simp_all add: request_def old_version_def lasso_lib_register_name_identifier_request_new_full_def choose_http_method_id[OF c])
  show ?thesis
    by (rule that[OF s r f k _ q]) (simp_all add: n lasso_server_get_provider_def choose_http_method_providers[OF c])
qed

lemma registration_carried_out:
  assumes "lasso_name_registration_validate_request env uid p = Some (0, p')"
  shows "\<exists>request i f remote n response. prf_request p = Some (IdffNode (RegisterNameIdentifierRequest request)) \<and>
    rni_ProviderID request = Some i \<and> lasso_server_get_provider (prf_server p) (Some i) = Some remote \<and> federation_with p i = Some f \<and>
    lasso_federation_verify_name_identifier f (rni_OldProvidedNameIdentifier request) = Some True \<and>
    provided_identifier remote request = Some n \<and>
    (\<forall>j. federation_with p' j = (if j = i then Some (f\<lparr>fed_remote_nameIdentifier := Some n\<rparr>) else federation_with p j)) \<and>
    prf_response p' = Some (IdffNode (RegisterNameIdentifierResponse response)) \<and> spa_InResponseTo response = sra_RequestID request"
proof -
  obtain request where r: "prf_request p = Some (IdffNode (RegisterNameIdentifierRequest request))"
    using assms by (auto simp: lasso_name_registration_validate_request_def split: option.splits message_node.splits idff_node.splits)
  obtain i s where i: "rni_ProviderID request = Some i" "prf_server p = Some s"
    using assms by (auto simp: lasso_name_registration_validate_request_def r Let_def split: option.splits)
  have d: "prf_identity p \<noteq> None" using assms by (auto simp: lasso_name_registration_validate_request_def r i Let_def split: if_splits)
  obtain f where f: "federation_with p i = Some f"
    using assms by (auto simp: lasso_name_registration_validate_request_def r i d federation_with_def Let_def split: option.splits)
  define response where "response = lasso_lib_register_name_identifier_response_new_full env uid (prv_ProviderID (srv_parent s))
      LASSO_SAML_STATUS_CODE_SUCCESS request (signature_type_of s) (env_default_signature_method env)"
  define q where "q = p\<lparr>prf_remote_providerID := Some i, prf_response := Some (IdffNode (RegisterNameIdentifierResponse response))\<rparr>"
  have g: "federation_with q i = Some f" "prf_identity q = prf_identity p" "federation_with q j = federation_with p j" for j
    using f by (simp_all add: federation_with_def q_def)
  have v: "lasso_federation_verify_name_identifier f (rni_OldProvidedNameIdentifier request) = Some True"
    using assms d g by (auto simp: lasso_name_registration_validate_request_def r i Let_def simp flip: response_def q_def
        split: option.splits bool.splits if_splits)
  obtain remote n where n: "lasso_server_get_provider (Some s) (Some i) = Some remote" "provided_identifier remote request = Some n"
    "p' = set_federation i (f\<lparr>fed_remote_nameIdentifier := Some n\<rparr>) q"
    using assms d g by (auto simp: lasso_name_registration_validate_request_def r i v Let_def simp flip: response_def q_def
        split: option.splits bool.splits if_splits)
  have "spa_InResponseTo response = sra_RequestID request"
    by (simp add: response_def lasso_lib_register_name_identifier_response_new_full_def lasso_samlp_response_abstract_fill_def)
  moreover have "prf_response p' = Some (IdffNode (RegisterNameIdentifierResponse response))" by (simp add: n q_def set_federation_def)
  ultimately show ?thesis using r i f v n d g by (auto simp: set_federation_lookup)
qed

text \<open>A registration is carried out only for the federation with the sender of the request, and only when that federation knows the
  old identifier of the request.  It replaces the remote identifier of this federation by the new one and changes neither its
  local identifier nor another federation; the response names the request.\<close>

theorem registration_validated:
  assumes "lasso_name_registration_validate_request env uid p = Some (0, p')"
  shows "\<exists>request i f remote n response. prf_request p = Some (IdffNode (RegisterNameIdentifierRequest request)) \<and>
    rni_ProviderID request = Some i \<and> lasso_server_get_provider (prf_server p) (Some i) = Some remote \<and> federation_with p i = Some f \<and>
    lasso_federation_verify_name_identifier f (rni_OldProvidedNameIdentifier request) = Some True \<and>
    provided_identifier remote request = Some n \<and>
    (\<forall>j. federation_with p' j = (if j = i then Some (f\<lparr>fed_remote_nameIdentifier := Some n\<rparr>) else federation_with p j)) \<and>
    prf_response p' = Some (IdffNode (RegisterNameIdentifierResponse response)) \<and> spa_InResponseTo response = sra_RequestID request"
  by (rule registration_carried_out[OF assms])

lemma registration_response_ok:
  assumes "lasso_name_registration_process_response_msg env iio p msg = Some (0, p')"
  obtains i f remote request n where "prf_remote_providerID p = Some i" "federation_with p i = Some f"
    "lasso_server_get_provider (prf_server p) (Some i) = Some remote"
    "prf_request p = Some (IdffNode (RegisterNameIdentifierRequest request))" "registered_identifier remote request = Some n"
    "federation_with p' i = Some (f\<lparr>fed_local_nameIdentifier := Some n\<rparr>)"
proof -
  obtain format response where m: "lasso_node_init_from_message env (iio_register_response iio)
      (status_response_init_from_query lasso_lib_status_response_new) msg = (format, response)" by fastforce
  define q where "q = p\<lparr>prf_response := Some (IdffNode (RegisterNameIdentifierResponse response))\<rparr>"
  have q: "prf_remote_providerID q = prf_remote_providerID p" "prf_server q = prf_server p" "prf_request q = prf_request p"
    "prf_identity q = prf_identity p" "federation_with q = federation_with p" by (auto simp: q_def federation_with_def)
  obtain i f remote where r: "prf_remote_providerID p = Some i" "federation_with p i = Some f" "prf_identity p \<noteq> None"
    "lasso_server_get_provider (prf_server p) (Some i) = Some remote"
    using assms by (auto simp: lasso_name_registration_process_response_msg_def m Let_def q simp flip: q_def split: if_splits option.splits)
  obtain request where u: "prf_request p = Some (IdffNode (RegisterNameIdentifierRequest request))"
    using assms by (auto simp: lasso_name_registration_process_response_msg_def m r Let_def q simp flip: q_def
        split: if_splits option.splits message_node.splits idff_node.splits)
  obtain n where n: "registered_identifier remote request = Some n"
    "p' = (set_federation i (f\<lparr>fed_local_nameIdentifier := Some n\<rparr>) q)\<lparr>prf_msg_relayState := lsr_RelayState response\<rparr>"
    using assms by (auto simp: lasso_name_registration_process_response_msg_def m r u Let_def q simp flip: q_def
        split: if_splits option.splits)
  have "federation_with p' i = Some (f\<lparr>fed_local_nameIdentifier := Some n\<rparr>)"
    using set_federation_lookup[of q i _ i] r by (simp add: n q federation_with_def)
  then show ?thesis by (rule that[OF r(1,2,4) u n(1)])
qed

text \<open>C21: After a registration that both ends carry out they agree on the new identifier: it is the local one in the federation of the
  requester and the remote one in that of the other end.\<close>

theorem registration_both_ends:
  assumes "lasso_name_registration_init_request env uid nid nr i m = Some (0, nr')"
    and "lasso_name_registration_process_response_msg env iio (nrg_parent nr') msg = Some (0, p)"
    and "prf_request q = prf_request (nrg_parent nr')" and "lasso_name_registration_validate_request env' uid' q = Some (0, q')"
    and "lasso_server_get_provider (prf_server (nrg_parent nr)) (Some i) = Some there"
    and "prv_ProviderID (srv_parent s) = Some me" and "prf_server (nrg_parent nr) = Some s"
    and "lasso_server_get_provider (prf_server q) (Some me) = Some here"
    and "prv_role there = LASSO_PROVIDER_ROLE_IDP \<and> prv_role here = LASSO_PROVIDER_ROLE_SP \<or>
         prv_role there = LASSO_PROVIDER_ROLE_SP \<and> prv_role here = LASSO_PROVIDER_ROLE_IDP"
  shows "\<exists>f g. federation_with p i = Some f \<and> federation_with q' me = Some g \<and>
    fed_local_nameIdentifier f = Some (fresh_identifier nid (Some i)) \<and> fed_remote_nameIdentifier g = Some (fresh_identifier nid (Some i))"
proof (rule registration_requested[OF assms(1)])
  fix s' remote f idp sp old request
  assume r: "prf_server (nrg_parent nr) = Some s'" "lasso_server_get_provider (Some s') (Some i) = Some remote"
    "identifiers_for remote f (fresh_identifier nid (Some i)) = Registered idp sp old"
    "prf_request (nrg_parent nr') = Some (IdffNode (RegisterNameIdentifierRequest request))"
    "rni_IDPProvidedNameIdentifier request = idp" "rni_SPProvidedNameIdentifier request = sp" "rni_ProviderID request = prv_ProviderID (srv_parent s')"
    "prf_remote_providerID (nrg_parent nr') = Some i"
    "\<And>j. lasso_server_get_provider (prf_server (nrg_parent nr')) (Some j) = lasso_server_get_provider (Some s') (Some j)"
  have there: "remote = there" "s' = s" using assms(5,7) r by simp_all
  have fresh: "registered_identifier there request = Some (fresh_identifier nid (Some i))"
    "provided_identifier here request = Some (fresh_identifier nid (Some i))"
    using r(3,5,6) assms(9) there(1)
    by (auto simp: identifiers_for_def registered_identifier_def provided_identifier_def split: if_splits option.splits)
  obtain f' where "federation_with p i = Some (f'\<lparr>fed_local_nameIdentifier := Some (fresh_identifier nid (Some i))\<rparr>)"
    using r there fresh(1) by (auto intro: registration_response_ok[OF assms(2)])
  moreover obtain g' where "federation_with q' me = Some (g'\<lparr>fed_remote_nameIdentifier := Some (fresh_identifier nid (Some i))\<rparr>)"
    using registration_carried_out[OF assms(4)] r there assms(3,6,8) fresh(2) by auto
  ultimately show ?thesis by simp
qed

lemma registration_despite_response:
  assumes "lasso_node_init_from_message env (iio_register_response iio) (status_response_init_from_query lasso_lib_status_response_new) msg =
      (format, response)" and "\<not> bad_format format"
    and "lasso_server_get_provider (prf_server p) (lsr_ProviderID response) = Some signer"
    and "Option.bind (first_status_code response) ssc_Value = Some LASSO_SAML_STATUS_CODE_SUCCESS"
    and "prf_remote_providerID p = Some i" and "federation_with p i = Some f"
    and "lasso_server_get_provider (prf_server p) (Some i) = Some remote"
    and "prf_request p = Some (IdffNode (RegisterNameIdentifierRequest request))" and "registered_identifier remote request = Some n"
  shows "\<exists>p'. lasso_name_registration_process_response_msg env iio p msg = Some (verify_message env signer msg ''ResponseID'' format, p') \<and>
    federation_with p' i = Some (f\<lparr>fed_local_nameIdentifier := Some n\<rparr>)"
proof -
  define q where "q = p\<lparr>prf_response := Some (IdffNode (RegisterNameIdentifierResponse response))\<rparr>"
  have q: "prf_remote_providerID q = prf_remote_providerID p" "prf_server q = prf_server p" "prf_request q = prf_request p"
    "prf_identity q = prf_identity p" "federation_with q = federation_with p" by (auto simp: q_def federation_with_def)
  obtain d where d: "prf_identity p = Some d" using assms(6) by (cases "prf_identity p") (simp_all add: federation_with_def)
  then show ?thesis using assms set_federation_lookup[of q i _ i]
    by (simp add: lasso_name_registration_process_response_msg_def Let_def q flip: q_def) (simp add: federation_with_def q)
qed

text \<open>A response that claims success takes effect even when the verification of its signature fails: the federation of the
  requester is changed, and only the return code tells of the failure.\<close>

theorem registration_despite_signature:
  assumes "lasso_node_init_from_message env (iio_register_response iio) (status_response_init_from_query lasso_lib_status_response_new) msg =
      (format, response)" and "\<not> bad_format format"
    and "lasso_server_get_provider (prf_server p) (lsr_ProviderID response) = Some signer"
    and "Option.bind (first_status_code response) ssc_Value = Some LASSO_SAML_STATUS_CODE_SUCCESS"
    and "prf_remote_providerID p = Some i" and "federation_with p i = Some f"
    and "lasso_server_get_provider (prf_server p) (Some i) = Some remote"
    and "prf_request p = Some (IdffNode (RegisterNameIdentifierRequest request))" and "registered_identifier remote request = Some n"
  shows "\<exists>p'. lasso_name_registration_process_response_msg env iio p msg = Some (verify_message env signer msg ''ResponseID'' format, p') \<and>
    federation_with p' i = Some (f\<lparr>fed_local_nameIdentifier := Some n\<rparr>)"
  using assms by (rule registration_despite_response)

text \<open>A service provider registers an identifier of its own at the identity provider.\<close>

definition sample_registered :: lib_status_response where
  "sample_registered = lasso_lib_status_response_new\<lparr>lsr_ProviderID := Some ''idp'', lsr_Status := Some (new_status LASSO_SAML_STATUS_CODE_SUCCESS)\<rparr>"

theorem registration_both_ends_witness:
  "\<exists>nr p q' f g. lasso_name_registration_init_request unverified_env ''i'' ''new'' \<lparr>nrg_parent = sample_sp_end, nrg_oldNameIdentifier = None\<rparr>
        ''idp'' LASSO_HTTP_METHOD_SOAP = Some (0, nr) \<and>
    lasso_name_registration_process_response_msg unverified_env (undefined\<lparr>iio_register_response := \<lambda>_. (0, sample_registered)\<rparr>)
      (nrg_parent nr) ''<s/>'' = Some (0, p) \<and>
    lasso_name_registration_validate_request sample_env ''j'' (sample_idp_end\<lparr>prf_request := prf_request (nrg_parent nr)\<rparr>) = Some (0, q') \<and>
    federation_with p ''idp'' = Some f \<and> federation_with q' ''sp'' = Some g \<and>
    fed_local_nameIdentifier f = Some (fresh_identifier ''new'' (Some ''idp'')) \<and>
    fed_remote_nameIdentifier g = Some (fresh_identifier ''new'' (Some ''idp''))"
proof -
  let ?iio = "undefined\<lparr>iio_register_response := \<lambda>_. (0, sample_registered)\<rparr>"
  let ?nr = "\<lparr>nrg_parent = sample_sp_end, nrg_oldNameIdentifier = None\<rparr>"
  have f: "federation_with (sample_sp_end\<lparr>prf_remote_providerID := i\<rparr>) = federation_with sample_sp_end" for i
    by (auto simp: federation_with_def)
  obtain nr where nr: "lasso_name_registration_init_request unverified_env ''i'' ''new'' ?nr ''idp'' LASSO_HTTP_METHOD_SOAP = Some (0, nr)"
    by (simp add: lasso_name_registration_init_request_def f identifiers_for_def Let_def)
  obtain request where r: "prf_request (nrg_parent nr) = Some (IdffNode (RegisterNameIdentifierRequest request))"
    "rni_SPProvidedNameIdentifier request = Some (fresh_identifier ''new'' (Some ''idp''))" "rni_ProviderID request = Some ''sp''"
    "rni_OldProvidedNameIdentifier request = Some (SamlNameIdentifier (sample_name ''n''))"
    "prf_remote_providerID (nrg_parent nr) = Some ''idp''" "prf_identity (nrg_parent nr) = prf_identity sample_sp_end"
    "\<And>j. lasso_server_get_provider (prf_server (nrg_parent nr)) (Some j) = lasso_server_get_provider (Some sample_idff_sp_server) (Some j)"
    by (rule registration_requested[OF nr]) (auto simp: identifiers_for_def)
  have s: "lsr_ProviderID sample_registered = Some ''idp''"
    "Option.bind (first_status_code sample_registered) ssc_Value = Some LASSO_SAML_STATUS_CODE_SUCCESS"
    by (simp_all add: sample_registered_def first_status_code_def new_status_def)
  obtain p where p: "lasso_name_registration_process_response_msg unverified_env ?iio (nrg_parent nr) ''<s/>'' = Some (0, p)"
    using registration_despite_response[of unverified_env ?iio "''<s/>''" LASSO_MESSAGE_FORMAT_SOAP sample_registered "nrg_parent nr"
        "sample_idff_provider ''idp'' LASSO_PROVIDER_ROLE_IDP" "''idp''" _ "sample_idff_provider ''idp'' LASSO_PROVIDER_ROLE_IDP" request
        "fresh_identifier ''new'' (Some ''idp'')"] r s sample_ends_simps(6)
    by (auto simp: sample_soap_message bad_format_def registered_identifier_def federation_with_def)
  let ?q = "sample_idp_end\<lparr>prf_request := prf_request (nrg_parent nr)\<rparr>"
  obtain s where s: "prf_server sample_idp_end = Some s" "prf_identity sample_idp_end \<noteq> None"
    by (simp add: sample_idp_end_def sample_idff_profile_def profile_new_def)
  then have l: "lasso_server_get_provider (Some s) (Some ''sp'') = Some (sample_idff_provider ''sp'' LASSO_PROVIDER_ROLE_SP)"
    using sample_ends_simps(4) by simp
  obtain q' where q: "lasso_name_registration_validate_request sample_env ''j'' ?q = Some (0, q')"
    using r s l sample_ends_simps(5)
    by (auto simp: lasso_name_registration_validate_request_def provided_identifier_def federation_with_def Let_def)
  show ?thesis
    using registration_both_ends[OF nr p _ q, of "sample_idff_provider ''idp'' LASSO_PROVIDER_ROLE_IDP" sample_idff_sp_server "''sp''"
        "sample_idff_provider ''sp'' LASSO_PROVIDER_ROLE_SP"] nr p q by auto
qed

section \<open>Type safety\<close>

text \<open>The states of a registration object under any sequence of calls, on any messages, with any identity put into the profile.\<close>

inductive registration_reachable :: "lasso_server \<Rightarrow> lasso_name_registration \<Rightarrow> bool" for server where
  created: "registration_reachable server (lasso_name_registration_new server)"
| identity_set: "registration_reachable server nr \<Longrightarrow> registration_reachable server (nr\<lparr>nrg_parent := (nrg_parent nr)\<lparr>prf_identity := d\<rparr>\<rparr>)"
| request_made: "registration_reachable server nr \<Longrightarrow>
    lasso_name_registration_init_request env uid nid nr i m = Some (rc, nr') \<Longrightarrow> registration_reachable server nr'"
| request_built: "registration_reachable server nr \<Longrightarrow>
    lasso_name_registration_build_request_msg env io (nrg_parent nr) = Some (rc, p) \<Longrightarrow> registration_reachable server (nr\<lparr>nrg_parent := p\<rparr>)"
| request_read: "registration_reachable server nr \<Longrightarrow>
    lasso_name_registration_process_request_msg env iio nr msg = Some (rc, nr') \<Longrightarrow> registration_reachable server nr'"
| request_validated: "registration_reachable server nr \<Longrightarrow>
    lasso_name_registration_validate_request env uid (nrg_parent nr) = Some (rc, p) \<Longrightarrow> registration_reachable server (nr\<lparr>nrg_parent := p\<rparr>)"
| response_built: "registration_reachable server nr \<Longrightarrow>
    lasso_name_registration_build_response_msg env io (nrg_parent nr) = Some (rc, p) \<Longrightarrow> registration_reachable server (nr\<lparr>nrg_parent := p\<rparr>)"
| response_read: "registration_reachable server nr \<Longrightarrow>
    lasso_name_registration_process_response_msg env iio (nrg_parent nr) msg = Some (rc, p) \<Longrightarrow>
      registration_reachable server (nr\<lparr>nrg_parent := p\<rparr>)"

definition registration_typed :: "lasso_profile \<Rightarrow> bool" where
  "registration_typed p \<longleftrightarrow>
     (case prf_request p of None \<Rightarrow> True | Some (IdffNode (RegisterNameIdentifierRequest _)) \<Rightarrow> True | _ \<Rightarrow> False) \<and>
     (case prf_response p of None \<Rightarrow> True | Some (IdffNode (RegisterNameIdentifierResponse _)) \<Rightarrow> True | _ \<Rightarrow> False)"

lemma registration_typed_cong:
  "prf_request p' = prf_request p \<Longrightarrow> prf_response p' = prf_response p \<Longrightarrow> registration_typed p' = registration_typed p"
  by (simp add: registration_typed_def)

lemma registration_typed_request [intro]:
  "registration_typed p \<Longrightarrow> prf_request p' = Some (IdffNode (RegisterNameIdentifierRequest r)) \<Longrightarrow> prf_response p' = prf_response p \<Longrightarrow>
     registration_typed p'"
  by (simp add: registration_typed_def)

lemma registration_typed_response [intro]:
  "registration_typed p \<Longrightarrow> prf_response p' = Some (IdffNode (RegisterNameIdentifierResponse r)) \<Longrightarrow> prf_request p' = prf_request p \<Longrightarrow>
     registration_typed p'"
  by (simp add: registration_typed_def)

lemma set_key_files_typed:
  "registration_typed p \<Longrightarrow> set_key_files s (prf_request p) = Some n \<Longrightarrow> \<exists>r. n = IdffNode (RegisterNameIdentifierRequest r)"
  "registration_typed p \<Longrightarrow> set_key_files s (prf_response p) = Some n \<Longrightarrow> \<exists>r. n = IdffNode (RegisterNameIdentifierResponse r)"
  by (auto simp: registration_typed_def set_key_files_def Let_def split: option.splits message_node.splits idff_node.splits)

lemma set_key_files_defined:
  "registration_typed p \<Longrightarrow> prf_request p \<noteq> None \<Longrightarrow> set_key_files s (prf_request p) \<noteq> None"
  "registration_typed p \<Longrightarrow> prf_response p \<noteq> None \<Longrightarrow> set_key_files s (prf_response p) \<noteq> None"
  by (auto simp: registration_typed_def set_key_files_def Let_def split: option.splits message_node.splits idff_node.splits)

lemma set_federation_nodes [simp]:
  "prf_request (set_federation i f p) = prf_request p" "prf_response (set_federation i f p) = prf_response p"
  by (simp_all add: set_federation_def)

lemma clean_msg_info_nodes [simp]:
  "prf_request (lasso_profile_clean_msg_info p) = prf_request p" "prf_response (lasso_profile_clean_msg_info p) = prf_response p"
  by (simp_all add: lasso_profile_clean_msg_info_def)

lemma set_http_method_nodes [simp]:
  "prf_request (set_http_method f p) = prf_request p" "prf_response (set_http_method f p) = prf_response p"
  by (simp_all add: set_http_method_def)

lemma init_request_typed:
  assumes "lasso_name_registration_init_request env uid nid nr i m = Some (rc, nr')" and "registration_typed (nrg_parent nr)"
  shows "registration_typed (nrg_parent nr')"
proof -
  have "prf_response (nrg_parent nr') = prf_response (nrg_parent nr) \<and>
      (prf_request (nrg_parent nr') = prf_request (nrg_parent nr) \<or>
       (\<exists>r. prf_request (nrg_parent nr') = Some (IdffNode (RegisterNameIdentifierRequest r))))"
    using assms(1) by (auto simp: lasso_name_registration_init_request_def Let_def split: if_splits option.splits registered.splits)
  then show ?thesis using assms(2) by (auto simp: registration_typed_def)
qed

lemma idff_send_nodes:
  assumes "idff_send env io p s remote node store soap_url url_name = Some (rc, p')"
  obtains (kept) "prf_request p' = prf_request p" "prf_response p' = prf_response p"
  | (stored) n q where "set_key_files s node = Some n" "p' = store n q" "prf_request q = prf_request p" "prf_response q = prf_response p"
  using assms by (fastforce simp: idff_send_def split: if_splits option.splits)

lemma build_request_typed:
  assumes "lasso_name_registration_build_request_msg env io p = Some (rc, p')" and "registration_typed p"
  shows "registration_typed p'"
proof -
  let ?p = "lasso_profile_clean_msg_info p"
  have t: "registration_typed ?p" using assms(2) by (simp add: registration_typed_def)
  consider "p' = ?p" | s remote where "idff_send env io ?p s remote (prf_request ?p) (\<lambda>n. prf_request_update (\<lambda>_. Some n))
      (lasso_provider_get_metadata_one remote ''SoapEndpoint'') ''RegisterNameIdentifierServiceURL'' = Some (rc, p')"
    using assms(1) by (auto simp: lasso_name_registration_build_request_msg_def Let_def split: if_splits option.splits)
  then show ?thesis
  proof cases
    case 2
    then show ?thesis
    proof (cases rule: idff_send_nodes)
      case kept then show ?thesis using t by (simp add: registration_typed_def)
    next
      case (stored n q)
      then obtain r where "n = IdffNode (RegisterNameIdentifierRequest r)" using set_key_files_typed(1)[OF t stored(1)] by blast
      then show ?thesis using stored t by (simp add: registration_typed_def)
    qed
  qed (simp add: t)
qed

lemma build_response_typed:
  assumes "lasso_name_registration_build_response_msg env io p = Some (rc, p')" and "registration_typed p"
  shows "registration_typed p'"
proof -
  let ?p = "lasso_profile_clean_msg_info p"
  have t: "registration_typed ?p" using assms(2) by (simp add: registration_typed_def)
  consider "p' = ?p" | s remote where "idff_send env io ?p s remote (prf_response ?p) (\<lambda>n. prf_response_update (\<lambda>_. Some n))
      None ''RegisterNameIdentifierServiceReturnURL'' = Some (rc, p')"
    using assms(1) by (auto simp: lasso_name_registration_build_response_msg_def Let_def split: if_splits option.splits)
  then show ?thesis
  proof cases
    case 2
    then show ?thesis
    proof (cases rule: idff_send_nodes)
      case kept then show ?thesis using t by (simp add: registration_typed_def)
    next
      case (stored n q)
      then obtain r where "n = IdffNode (RegisterNameIdentifierResponse r)" using set_key_files_typed(2)[OF t stored(1)] by blast
      then show ?thesis using stored t by (simp add: registration_typed_def)
    qed
  qed (simp add: t)
qed

lemma process_request_typed:
  assumes "lasso_name_registration_process_request_msg env iio nr msg = Some (rc, nr')" and "registration_typed (nrg_parent nr)"
  shows "registration_typed (nrg_parent nr')"
proof -
  have "prf_response (nrg_parent nr') = prf_response (nrg_parent nr) \<and>
      (prf_request (nrg_parent nr') = prf_request (nrg_parent nr) \<or>
       (\<exists>r. prf_request (nrg_parent nr') = Some (IdffNode (RegisterNameIdentifierRequest r))))"
    using assms(1) by (auto simp: lasso_name_registration_process_request_msg_def Let_def split: if_splits option.splits prod.splits)
  then show ?thesis using assms(2) by (auto simp: registration_typed_def)
qed

lemma validate_request_typed:
  assumes "lasso_name_registration_validate_request env uid p = Some (rc, p')" and "registration_typed p"
  shows "registration_typed p'"
proof (cases "\<exists>request. prf_request p = Some (IdffNode (RegisterNameIdentifierRequest request))")
  case True
  then have "prf_request p' = prf_request p \<and> (prf_response p' = prf_response p \<or>
      (\<exists>r. prf_response p' = Some (IdffNode (RegisterNameIdentifierResponse r))))"
    using assms(1) by (auto simp: lasso_name_registration_validate_request_def Let_def split: if_splits option.splits bool.splits)
  then show ?thesis using assms(2) by (auto simp: registration_typed_def)
next
  case False
  then have "p' = p" using assms(1)
    by (auto simp: lasso_name_registration_validate_request_def split: option.splits message_node.splits idff_node.splits)
  then show ?thesis using assms(2) by simp
qed

lemma process_response_typed:
  assumes "lasso_name_registration_process_response_msg env iio p msg = Some (rc, p')" and "registration_typed p"
  shows "registration_typed p'"
proof -
  obtain format response where m: "lasso_node_init_from_message env (iio_register_response iio)
      (status_response_init_from_query lasso_lib_status_response_new) msg = (format, response)" by fastforce
  define q where "q = p\<lparr>prf_response := Some (IdffNode (RegisterNameIdentifierResponse response))\<rparr>"
  have "prf_request p' = prf_request q \<and> prf_response p' = prf_response q"
    using assms(1) by (auto simp: lasso_name_registration_process_response_msg_def m Let_def simp flip: q_def
        split: if_splits option.splits message_node.splits idff_node.splits)
  then show ?thesis using assms(2) by (auto simp: q_def)
qed

lemma registration_reachable_typed: "registration_reachable server nr \<Longrightarrow> registration_typed (nrg_parent nr)"
proof (induction rule: registration_reachable.induct)
  case created
  show ?case by (simp add: registration_typed_def lasso_name_registration_new_def profile_new_def)
next
  case identity_set
  then show ?case by (simp add: registration_typed_def)
qed (auto dest: init_request_typed build_request_typed process_request_typed validate_request_typed build_response_typed process_response_typed)

text \<open>C24: Whatever is called on a registration object and in whatever order, once it has a request the sending of the request has a
  defined result, and once it has a response so has the sending of the response: no call puts an object of another class there.\<close>

theorem registration_type_safe:
  assumes "registration_reachable server nr"
  shows "(prf_request (nrg_parent nr) \<noteq> None \<longrightarrow> (\<exists>rc p. lasso_name_registration_build_request_msg env io (nrg_parent nr) = Some (rc, p))) \<and>
    (prf_response (nrg_parent nr) \<noteq> None \<longrightarrow> (\<exists>rc p. lasso_name_registration_build_response_msg env io (nrg_parent nr) = Some (rc, p)))"
proof -
  note t = registration_reachable_typed[OF assms]
  have d: "\<exists>rc q. idff_send env io p s remote node store u n = Some (rc, q)" if "set_key_files s node \<noteq> None" for p s remote node store u n
    using that by (auto simp: idff_send_def split: option.splits)
  have "lasso_name_registration_build_request_msg env io (nrg_parent nr) \<noteq> None" if "prf_request (nrg_parent nr) \<noteq> None"
    using d[OF set_key_files_defined(1)[OF t that]]
    by (auto simp: lasso_name_registration_build_request_msg_def Let_def split: option.splits)
  moreover have "lasso_name_registration_build_response_msg env io (nrg_parent nr) \<noteq> None" if "prf_response (nrg_parent nr) \<noteq> None"
    using d[OF set_key_files_defined(2)[OF t that]]
    by (auto simp: lasso_name_registration_build_response_msg_def Let_def split: option.splits)
  ultimately show ?thesis by fast
qed

text \<open>After a registration was started the request can be sent.\<close>

theorem registration_type_safe_witness:
  "\<exists>nr rc p. registration_reachable sample_idff_sp_server nr \<and>
     lasso_name_registration_build_request_msg sample_env sample_io (nrg_parent nr) = Some (rc, p) \<and> prf_request (nrg_parent nr) \<noteq> None"
proof -
  let ?nr = "(lasso_name_registration_new sample_idff_sp_server)\<lparr>nrg_parent := (nrg_parent (lasso_name_registration_new sample_idff_sp_server))
      \<lparr>prf_identity := prf_identity sample_sp_end\<rparr>\<rparr>"
  have r: "registration_reachable sample_idff_sp_server ?nr" by (intro registration_reachable.intros)
  have f: "federation_with (nrg_parent ?nr) i = federation_with sample_sp_end i" for i by (simp add: federation_with_def)
  have g: "federation_with ((nrg_parent ?nr)\<lparr>prf_remote_providerID := j\<rparr>) i = federation_with sample_sp_end i" for i j by (simp add: federation_with_def)
  have s: "prf_server (nrg_parent ?nr) = Some sample_idff_sp_server" by (simp add: lasso_name_registration_new_def profile_new_def)
  obtain nr where nr: "lasso_name_registration_init_request sample_env ''i'' ''new'' ?nr ''idp'' LASSO_HTTP_METHOD_SOAP = Some (0, nr)"
    using g s by (simp add: lasso_name_registration_init_request_def identifiers_for_def Let_def)
  note rs = registration_reachable.request_made[OF r nr]
  have q: "prf_request (nrg_parent nr) \<noteq> None" by (rule registration_requested[OF nr]) simp
  then obtain rc p where p: "lasso_name_registration_build_request_msg sample_env sample_io (nrg_parent nr) = Some (rc, p)"
    using registration_type_safe[OF rs] by blast
  show ?thesis using rs p q by blast
qed

end
