(* ===== verification/Lasso_NameIdMapping.thy ===== *)
theory Lasso_NameIdMapping
  imports Lasso_IdffProfile
begin

text \<open>
  The mapping of name identifiers of ID-FF 1.2, \<^verbatim>\<open>lasso/id-ff/name_identifier_mapping.c\<close>: a service provider asks
  the identity provider under which identifier another service provider knows the principal.
\<close>

record lasso_name_identifier_mapping =
  nim_parent :: lasso_profile
  nim_targetNameIdentifier :: cstr

definition lasso_name_identifier_mapping_new :: "lasso_server \<Rightarrow> lasso_name_identifier_mapping" where
  "lasso_name_identifier_mapping_new server = \<lparr>nim_parent = profile_new (Some server), nim_targetNameIdentifier = None\<rparr>"

section \<open>The service provider\<close>

definition lasso_name_identifier_mapping_init_request ::
  "environment \<Rightarrow> string \<Rightarrow> lasso_profile \<Rightarrow> string \<Rightarrow> string \<Rightarrow> int \<times> lasso_profile" where
  "lasso_name_identifier_mapping_init_request env uid p targetNamespace remote_providerID =
     (if prf_identity p = None then (LASSO_PROFILE_ERROR_IDENTITY_NOT_FOUND, p)
      else let p = p\<lparr>prf_remote_providerID := Some remote_providerID\<rparr> in
        case (prf_server p, lasso_server_get_provider (prf_server p) (prf_remote_providerID p)) of
          (Some s, Some remote) \<Rightarrow>
            if prv_role remote \<noteq> LASSO_PROVIDER_ROLE_IDP
            then (LASSO_NAME_IDENTIFIER_MAPPING_ERROR_FORBIDDEN_CALL_ON_THIS_SIDE, p)
            else (case federation_with p remote_providerID of
                    None \<Rightarrow> (LASSO_PROFILE_ERROR_FEDERATION_NOT_FOUND, p)
                  | Some federation \<Rightarrow>
                      (case (case fed_local_nameIdentifier federation of
                               None \<Rightarrow> fed_remote_nameIdentifier federation | Some n \<Rightarrow> Some n) of
                         None \<Rightarrow> (LASSO_PROFILE_ERROR_NAME_IDENTIFIER_NOT_FOUND, p)
                       | Some nameIdentifier \<Rightarrow>
                           (let p = p\<lparr>prf_http_request_method := LASSO_HTTP_METHOD_NONE\<rparr>;
                                (ok, me) = lasso_provider_accept_http_method (srv_parent s) remote NAME_IDENTIFIER_MAPPING
                                             LASSO_HTTP_METHOD_REDIRECT True;
                                s = s\<lparr>srv_parent := me\<rparr>;
                                p = p\<lparr>prf_server := Some s\<rparr>
                            in if \<not> ok then (LASSO_PROFILE_ERROR_UNSUPPORTED_PROFILE, p)
                               else let r = old_version remote (lasso_lib_name_identifier_mapping_request_new_full env uid
                                              (prv_ProviderID me) nameIdentifier targetNamespace (signature_type_of s)
                                              (env_default_signature_method env))
                                    in (0, p\<lparr>prf_request := Some (IdffNode (NameIdentifierMappingRequest r)),
                                             prf_http_request_method := LASSO_HTTP_METHOD_SOAP\<rparr>))))
        | _ \<Rightarrow> (LASSO_SERVER_ERROR_PROVIDER_NOT_FOUND, p))"

definition lasso_name_identifier_mapping_build_request_msg ::
  "message_io \<Rightarrow> lasso_profile \<Rightarrow> (int \<times> lasso_profile) option" where
  "lasso_name_identifier_mapping_build_request_msg io p =
     (let p = lasso_profile_clean_msg_info p in
      if prf_remote_providerID p = None then Some (LASSO_PROFILE_ERROR_MISSING_REMOTE_PROVIDERID, p)
      else case (prf_server p, lasso_server_get_provider (prf_server p) (prf_remote_providerID p)) of
             (Some s, Some remote) \<Rightarrow>
               if prv_role remote \<noteq> LASSO_PROVIDER_ROLE_IDP
               then Some (LASSO_NAME_IDENTIFIER_MAPPING_ERROR_FORBIDDEN_CALL_ON_THIS_SIDE, p)
               else let p = p\<lparr>prf_msg_url := lasso_provider_get_metadata_one remote ''SoapEndpoint''\<rparr>
                    in if prf_msg_url p = None then Some (LASSO_PROFILE_ERROR_UNKNOWN_PROFILE_URL, p)
                       else (case set_key_files s (prf_request p) of
                               None \<Rightarrow> None
                             | Some n \<Rightarrow>
                                 (let p = p\<lparr>prf_request := Some n, prf_msg_body := mio_export_soap io n\<rparr>
                                  in Some (if prf_msg_body p = None then LASSO_PROFILE_ERROR_BUILDING_MESSAGE_FAILED else 0, p)))
           | _ \<Rightarrow> Some (LASSO_SERVER_ERROR_PROVIDER_NOT_FOUND, p))"

text \<open>The content of an object that is cast to \<^verbatim>\<open>LassoSamlNameIdentifier\<close>; for another class it is undefined.\<close>

definition cast_content :: "name_identifier \<Rightarrow> cstr option" where
  "cast_content n = (case n of SamlNameIdentifier i \<Rightarrow> Some (sni_content i) | _ \<Rightarrow> None)"

text \<open>The identifier is taken from the request that was sent and not from the response.\<close>

definition lasso_name_identifier_mapping_process_response_msg ::
  "environment \<Rightarrow> idff_io \<Rightarrow> lasso_name_identifier_mapping \<Rightarrow> string \<Rightarrow> (int \<times> lasso_name_identifier_mapping) option" where
  "lasso_name_identifier_mapping_process_response_msg env iio nm response_msg =
     (let (format, response) = lasso_node_init_from_message env (iio_mapping_response iio)
             (\<lambda>_. (False, lasso_lib_name_identifier_mapping_response_new)) response_msg;
          p = (nim_parent nm)\<lparr>prf_response := Some (IdffNode (NameIdentifierMappingResponse response))\<rparr>;
          nm = nm\<lparr>nim_parent := p\<rparr>
      in if bad_format format then Some (LASSO_PROFILE_ERROR_INVALID_MSG, nm)
         else case lasso_server_get_provider (prf_server p) (prf_remote_providerID p) of
           None \<Rightarrow> Some (LASSO_SERVER_ERROR_PROVIDER_NOT_FOUND, nm)
         | Some remote \<Rightarrow>
             (let rc = verify_message env remote response_msg ''ResponseID'' format in
              case Option.bind (nms_Status response) sst_StatusCode of
                None \<Rightarrow> Some (LASSO_PROFILE_ERROR_MISSING_STATUS_CODE, nm)
              | Some code \<Rightarrow>
                  if ssc_Value code \<noteq> Some LASSO_SAML_STATUS_CODE_SUCCESS then Some (LASSO_PROFILE_ERROR_STATUS_NOT_SUCCESS, nm)
                  else case prf_request p of
                    Some (IdffNode (NameIdentifierMappingRequest request)) \<Rightarrow>
                      (case nmr_NameIdentifier request of
                         None \<Rightarrow> Some (LASSO_NAME_IDENTIFIER_MAPPING_ERROR_MISSING_TARGET_IDENTIFIER, nm\<lparr>nim_targetNameIdentifier := None\<rparr>)
                       | Some n \<Rightarrow>
                           (case cast_content n of
                              None \<Rightarrow> None
                            | Some c \<Rightarrow> Some (rc, nm\<lparr>nim_targetNameIdentifier := c\<rparr>)))
                  | _ \<Rightarrow> None))"

section \<open>The identity provider\<close>

text \<open>The provider is looked up under the identifier that the profile already has, not under that of the request.\<close>

definition lasso_name_identifier_mapping_process_request_msg ::
  "environment \<Rightarrow> idff_io \<Rightarrow> lasso_profile \<Rightarrow> string \<Rightarrow> (int \<times> lasso_profile) option" where
  "lasso_name_identifier_mapping_process_request_msg env iio p request_msg =
     (let (format, request) = lasso_node_init_from_message env (iio_mapping_request iio)
             (\<lambda>_. (False, lasso_lib_name_identifier_mapping_request_new)) request_msg;
          p = p\<lparr>prf_request := Some (IdffNode (NameIdentifierMappingRequest request))\<rparr>
      in if bad_format format then Some (LASSO_PROFILE_ERROR_INVALID_MSG, p)
         else case (prf_server p, lasso_server_get_provider (prf_server p) (prf_remote_providerID p)) of
           (Some s, Some remote) \<Rightarrow>
             (let p = p\<lparr>prf_remote_providerID := prv_ProviderID remote\<rparr>;
                  (ok, me) = lasso_provider_accept_http_method (srv_parent s) remote NAME_IDENTIFIER_MAPPING LASSO_HTTP_METHOD_REDIRECT False;
                  p = p\<lparr>prf_server := Some (s\<lparr>srv_parent := me\<rparr>)\<rparr>
              in if \<not> ok then Some (LASSO_PROFILE_ERROR_UNSUPPORTED_PROFILE, p)
                 else let p = p\<lparr>prf_signature_status := verify_message env remote request_msg ''RequestID'' format,
                                prf_http_request_method := LASSO_HTTP_METHOD_SOAP\<rparr>
                      in case nmr_NameIdentifier request of
                           None \<Rightarrow> None
                         | Some n \<Rightarrow> Some (prf_signature_status p, p\<lparr>prf_nameIdentifier := Some n\<rparr>))
         | _ \<Rightarrow> Some (LASSO_SERVER_ERROR_PROVIDER_NOT_FOUND, p))"

definition known_identifier :: "lasso_federation \<Rightarrow> name_identifier option" where
  "known_identifier f = (case fed_remote_nameIdentifier f of None \<Rightarrow> fed_local_nameIdentifier f | Some n \<Rightarrow> Some n)"

text \<open>Setting a status ends the process, since the response is not of a class that \<^verbatim>\<open>lasso_profile_set_response_status\<close>
  knows.\<close>

definition refuse_mapping :: "lasso_profile \<Rightarrow> string \<Rightarrow> int \<Rightarrow> (int \<times> lasso_profile) option" where
  "refuse_mapping p status rc = map_option (Pair rc) (lasso_profile_set_response_status p status)"

definition lasso_name_identifier_mapping_validate_request ::
  "environment \<Rightarrow> string \<Rightarrow> lasso_profile \<Rightarrow> (int \<times> lasso_profile) option" where
  "lasso_name_identifier_mapping_validate_request env uid p =
     (case prf_remote_providerID p of
        None \<Rightarrow> Some (LASSO_PROFILE_ERROR_MISSING_REMOTE_PROVIDERID, p)
      | Some i \<Rightarrow>
          (case (prf_server p, lasso_server_get_provider (prf_server p) (Some i)) of
             (Some s, Some remote) \<Rightarrow>
               if prv_role remote \<noteq> LASSO_PROVIDER_ROLE_SP then Some (LASSO_NAME_IDENTIFIER_MAPPING_ERROR_FORBIDDEN_CALL_ON_THIS_SIDE, p)
               else (case prf_request p of
                  Some (IdffNode (NameIdentifierMappingRequest request)) \<Rightarrow>
                    if prf_http_request_method p \<noteq> LASSO_HTTP_METHOD_SOAP then Some (LASSO_PROFILE_ERROR_INVALID_HTTP_METHOD, p)
                    else let response = lasso_lib_name_identifier_mapping_response_new_full env uid (prv_ProviderID (srv_parent s))
                               LASSO_SAML_STATUS_CODE_SUCCESS request (signature_type_of s) (env_default_signature_method env);
                             p = p\<lparr>prf_response := Some (IdffNode (NameIdentifierMappingResponse response))\<rparr>
                         in case (if prf_signature_status p \<noteq> 0
                                  then lasso_profile_set_response_status p LASSO_LIB_STATUS_CODE_INVALID_SIGNATURE else Some p) of
                              None \<Rightarrow> None
                            | Some p \<Rightarrow>
                                if prf_identity p = None then Some (LASSO_PROFILE_ERROR_IDENTITY_NOT_FOUND, p)
                                else (case federation_with p i of
                                   None \<Rightarrow> refuse_mapping p LASSO_LIB_STATUS_CODE_UNKNOWN_PRINCIPAL LASSO_PROFILE_ERROR_FEDERATION_NOT_FOUND
                                 | Some federation \<Rightarrow>
                                     if known_identifier federation = None
                                     then refuse_mapping p LASSO_LIB_STATUS_CODE_UNKNOWN_PRINCIPAL LASSO_PROFILE_ERROR_NAME_IDENTIFIER_NOT_FOUND
                                     else (case nmr_TargetNamespace request of
                                        None \<Rightarrow> Some (LASSO_NAME_IDENTIFIER_MAPPING_ERROR_MISSING_TARGET_NAMESPACE, p)
                                      | Some target \<Rightarrow>
                                          (case federation_with p target of
                                             None \<Rightarrow> refuse_mapping p LASSO_LIB_STATUS_CODE_FEDERATION_DOES_NOT_EXIST
                                                        LASSO_PROFILE_ERROR_FEDERATION_NOT_FOUND
                                           | Some target_federation \<Rightarrow>
                                               (case known_identifier target_federation of
                                                  None \<Rightarrow> refuse_mapping p LASSO_LIB_STATUS_CODE_FEDERATION_DOES_NOT_EXIST
                                                             LASSO_PROFILE_ERROR_NAME_IDENTIFIER_NOT_FOUND
                                                | Some n \<Rightarrow> Some (0, p\<lparr>prf_response := Some (IdffNode (NameIdentifierMappingResponse
                                                                       (response\<lparr>nms_NameIdentifier := Some n\<rparr>)))\<rparr>)))))
                | _ \<Rightarrow> Some (LASSO_PROFILE_ERROR_MISSING_REQUEST, p))
           | _ \<Rightarrow> Some (LASSO_SERVER_ERROR_PROVIDER_NOT_FOUND, p)))"

definition lasso_name_identifier_mapping_build_response_msg ::
  "message_io \<Rightarrow> lasso_profile \<Rightarrow> (int \<times> lasso_profile) option" where
  "lasso_name_identifier_mapping_build_response_msg io p =
     (let p = lasso_profile_clean_msg_info p in
      if prf_remote_providerID p = None then Some (LASSO_PROFILE_ERROR_MISSING_REMOTE_PROVIDERID, p)
      else case (prf_server p, lasso_server_get_provider (prf_server p) (prf_remote_providerID p)) of
             (Some s, Some remote) \<Rightarrow>
               if prv_role remote \<noteq> LASSO_PROVIDER_ROLE_SP then Some (LASSO_NAME_IDENTIFIER_MAPPING_ERROR_FORBIDDEN_CALL_ON_THIS_SIDE, p)
               else if prf_http_request_method p \<noteq> LASSO_HTTP_METHOD_SOAP then Some (LASSO_PROFILE_ERROR_INVALID_HTTP_METHOD, p)
               else (case set_key_files s (prf_response p) of
                       None \<Rightarrow> None
                     | Some n \<Rightarrow> Some (0, p\<lparr>prf_response := Some n, prf_msg_body := mio_export_soap io n\<rparr>))
           | _ \<Rightarrow> Some (LASSO_SERVER_ERROR_PROVIDER_NOT_FOUND, p))"

section \<open>Laws\<close>

text \<open>The identifier that a service provider is told after a successful mapping is the one it sent itself, whatever the
  identity provider answered.\<close>

theorem mapping_returns_own_identifier:
  assumes "lasso_name_identifier_mapping_process_response_msg env iio nm msg = Some (0, nm')"
  shows "\<exists>request i. prf_request (nim_parent nm) = Some (IdffNode (NameIdentifierMappingRequest request)) \<and>
    nmr_NameIdentifier request = Some (SamlNameIdentifier i) \<and> nim_targetNameIdentifier nm' = sni_content i"
  using assms
  by (auto simp: lasso_name_identifier_mapping_process_response_msg_def cast_content_def Let_def
      split: prod.splits if_splits option.splits message_node.splits idff_node.splits name_identifier.splits)

text \<open>An identity provider accepts a request only after the application has set the remote provider itself: a fresh object
  refuses every message.\<close>

theorem fresh_mapping_refuses:
  "\<exists>rc m. lasso_name_identifier_mapping_process_request_msg env iio (nim_parent (lasso_name_identifier_mapping_new server)) msg =
     Some (rc, m) \<and> rc \<noteq> 0"
proof -
  have "lasso_server_get_provider (Some server) None = None" by (simp add: lasso_server_get_provider_def)
  then show ?thesis
    by (simp add: lasso_name_identifier_mapping_process_request_msg_def lasso_name_identifier_mapping_new_def profile_new_def Let_def
        split: prod.split)
qed

text \<open>A request that reaches the validation with a bad signature, for a principal who is not known to the requester, or for an
  unknown target, ends the process.\<close>

theorem mapping_refusal_aborts:
  assumes "prf_remote_providerID p = Some i" and "prf_server p = Some s" and "lasso_server_get_provider (Some s) (Some i) = Some remote"
    and "prv_role remote = LASSO_PROVIDER_ROLE_SP" and "prf_request p = Some (IdffNode (NameIdentifierMappingRequest request))"
    and "prf_http_request_method p = LASSO_HTTP_METHOD_SOAP"
    and "prf_signature_status p \<noteq> 0 \<or> prf_identity p \<noteq> None \<and> federation_with p i = None"
  shows "lasso_name_identifier_mapping_validate_request env uid p = None"
  using assms
  by (auto simp: lasso_name_identifier_mapping_validate_request_def refuse_mapping_def lasso_profile_set_response_status_def
      federation_with_def Let_def)

text \<open>What a validated request is answered with: the identifier under which the principal is federated with the target.\<close>

theorem mapping_validated:
  assumes "lasso_name_identifier_mapping_validate_request env uid p = Some (0, p')"
  shows "prf_signature_status p = 0 \<and> (\<exists>i request target f g n response.
    prf_remote_providerID p = Some i \<and> prf_request p = Some (IdffNode (NameIdentifierMappingRequest request)) \<and>
    nmr_TargetNamespace request = Some target \<and> federation_with p i = Some f \<and> known_identifier f \<noteq> None \<and>
    federation_with p target = Some g \<and> known_identifier g = Some n \<and>
    prf_response p' = Some (IdffNode (NameIdentifierMappingResponse response)) \<and> nms_NameIdentifier response = Some n \<and>
    spa_InResponseTo response = sra_RequestID request)"
  using assms
  by (auto simp: lasso_name_identifier_mapping_validate_request_def refuse_mapping_def lasso_profile_set_response_status_def federation_with_def
      lasso_lib_name_identifier_mapping_response_new_full_def lasso_samlp_response_abstract_fill_def Let_def
      split: prod.splits if_splits option.splits message_node.splits idff_node.splits)

text \<open>The identity provider tells one service provider under which identifier another one knows the principal.\<close>

theorem mapping_validated_witness:
  "\<exists>p' response. lasso_name_identifier_mapping_validate_request sample_env ''u'' (sample_idp_end\<lparr>prf_remote_providerID := Some ''sp'',
       prf_http_request_method := LASSO_HTTP_METHOD_SOAP, prf_request := Some (IdffNode (NameIdentifierMappingRequest
         (lasso_lib_name_identifier_mapping_request_new\<lparr>nmr_TargetNamespace := Some ''sp''\<rparr>)))\<rparr>) = Some (0, p') \<and>
     prf_response p' = Some (IdffNode (NameIdentifierMappingResponse response)) \<and>
     nms_NameIdentifier response = Some (SamlNameIdentifier (sample_name ''n''))"
proof -
  let ?p = "sample_idp_end\<lparr>prf_remote_providerID := Some ''sp'',
       prf_http_request_method := LASSO_HTTP_METHOD_SOAP, prf_request := Some (IdffNode (NameIdentifierMappingRequest
         (lasso_lib_name_identifier_mapping_request_new\<lparr>nmr_TargetNamespace := Some ''sp''\<rparr>)))\<rparr>"
  have f: "federation_with ?p ''sp'' = federation_with sample_idp_end ''sp''" by (simp add: federation_with_def)
  obtain s where s: "prf_server sample_idp_end = Some s" "prf_identity sample_idp_end \<noteq> None" "prf_signature_status sample_idp_end = 0"
    by (simp add: sample_idp_end_def sample_idff_profile_def profile_new_def)
  then have "lasso_server_get_provider (Some s) (Some ''sp'') = Some (sample_idff_provider ''sp'' LASSO_PROVIDER_ROLE_SP)"
    using sample_ends_simps(4) by simp
  then have "\<exists>p'. lasso_name_identifier_mapping_validate_request sample_env ''u'' ?p = Some (0, p')"
    using s sample_ends_simps(5)
    by (auto simp: lasso_name_identifier_mapping_validate_request_def known_identifier_def federation_with_def Let_def)
  then obtain p' where p: "lasso_name_identifier_mapping_validate_request sample_env ''u'' ?p = Some (0, p')" by blast
  show ?thesis using mapping_validated[OF p] p f by (auto simp: known_identifier_def)
qed

end
