(* ===== verification/Lasso_LogoutIdff.thy ===== *)
theory Lasso_LogoutIdff
  imports Lasso_Logout Lasso_IdffProfile
begin

text \<open>
  Single logout of ID-FF 1.2: the branches of the functions of \<^verbatim>\<open>lasso/id-ff/logout.c\<close> for servers that do not speak SAML 2.0.
  The state is that of \<open>Lasso_Logout\<close>.
\<close>

section \<open>The initiator\<close>

definition forget_assertion :: "lasso_profile \<Rightarrow> lasso_profile" where
  "forget_assertion p = p\<lparr>prf_session := snd (lasso_session_remove_assertion (prf_session p) (prf_remote_providerID p))\<rparr>"

definition new_logout_request ::
  "environment \<Rightarrow> string \<Rightarrow> lasso_server \<Rightarrow> lasso_provider \<Rightarrow> name_identifier \<Rightarrow> int \<Rightarrow> string list \<Rightarrow> cstr \<Rightarrow> lib_logout_request" where
  "new_logout_request env uid s remote nameIdentifier http_method session_indexes relayState =
     (lasso_lib_logout_request_set_session_indexes
       (old_version remote
         (if http_method = LASSO_HTTP_METHOD_SOAP
          then lasso_lib_logout_request_new_full env uid (prv_ProviderID (srv_parent s)) nameIdentifier (signature_type_of s)
                 (env_default_signature_method env)
          else lasso_lib_logout_request_new_full env uid (prv_ProviderID (srv_parent s)) nameIdentifier LASSO_SIGNATURE_TYPE_NONE 0))
       session_indexes)\<lparr>llr_RelayState := relayState\<rparr>"

text \<open>When the remote provider does not support the redirection that is tried last, its assertion is given up and the first
  requester is answered.\<close>

definition logout_unsupported :: "environment \<Rightarrow> string \<Rightarrow> lasso_server \<Rightarrow> lasso_logout \<Rightarrow> (int \<times> lasso_logout) option" where
  "logout_unsupported env uid s lo =
     (let p = forget_assertion (lgo_parent lo) in
      if lgo_initial_remote_providerID lo \<noteq> None \<and> lgo_initial_request lo \<noteq> None
      then case lgo_initial_request lo of
             Some (IdffNode (LibLogoutRequest r)) \<Rightarrow>
               Some (LASSO_PROFILE_ERROR_UNSUPPORTED_PROFILE, lo\<lparr>lgo_parent := p\<lparr>prf_remote_providerID := lgo_initial_remote_providerID lo,
                 prf_response := Some (IdffNode (LibLogoutResponse (lasso_lib_logout_response_new_full env uid
                   (prv_ProviderID (srv_parent s)) LASSO_SAML_STATUS_CODE_SUCCESS r LASSO_SIGNATURE_TYPE_NONE 0)))\<rparr>\<rparr>)
           | _ \<Rightarrow> None
      else Some (LASSO_PROFILE_ERROR_UNSUPPORTED_PROFILE, lo\<lparr>lgo_parent := p\<rparr>))"

definition idff_logout_init_request ::
  "environment \<Rightarrow> string \<Rightarrow> lasso_logout \<Rightarrow> lasso_server \<Rightarrow> lasso_provider \<Rightarrow> int \<Rightarrow> (int \<times> lasso_logout) option" where
  "idff_logout_init_request env uid lo s remote http_method =
     (let p = lgo_parent lo in
      case lasso_session_get_name_ids (prf_session p) (prf_remote_providerID p) of
        [] \<Rightarrow> Some (LASSO_PROFILE_ERROR_MISSING_NAME_IDENTIFIER, lo)
      | nameIdentifier # _ \<Rightarrow>
          (let p = p\<lparr>prf_nameIdentifier := Some nameIdentifier\<rparr>;
               session_indexes = lasso_session_get_session_indexes (prf_session p) (prf_remote_providerID p) (Some nameIdentifier)
           in case choose_http_method s remote SINGLE_LOGOUT http_method of
                None \<Rightarrow> None
              | Some (None, s) \<Rightarrow>
                  (let lo = lo\<lparr>lgo_parent := p\<lparr>prf_server := Some s\<rparr>\<rparr>
                   in if http_method = LASSO_HTTP_METHOD_REDIRECT then logout_unsupported env uid s lo
                      else Some (LASSO_PROFILE_ERROR_UNSUPPORTED_PROFILE, lo))
              | Some (Some m, s) \<Rightarrow>
                  (let r = new_logout_request env uid s remote nameIdentifier m session_indexes (prf_msg_relayState p);
                       p = p\<lparr>prf_server := Some s\<rparr>;
                       p = (if prv_role remote = LASSO_PROVIDER_ROLE_IDP \<and> m \<noteq> LASSO_HTTP_METHOD_SOAP then forget_assertion p else p)
                   in Some (0, lo\<lparr>lgo_parent := p\<lparr>prf_request := Some (IdffNode (LibLogoutRequest r))\<rparr>,
                                  lgo_initial_http_request_method := m\<rparr>))))"

definition redirect_url :: "environment \<Rightarrow> message_io \<Rightarrow> lasso_profile \<Rightarrow> lasso_provider \<Rightarrow> string \<Rightarrow> message_node option \<Rightarrow> int \<times> cstr" where
  "redirect_url env io p remote url_name node =
     (case lasso_provider_get_metadata_one remote url_name of
        None \<Rightarrow> (LASSO_PROFILE_ERROR_UNKNOWN_PROFILE_URL, None)
      | Some url \<Rightarrow>
          (case lasso_server_export_to_query_for_provider_by_name env (\<lambda>n. Option.bind n (lasso_node_build_query env io)) (prf_server p)
                  (prf_remote_providerID p) node of
             (rc, query) \<Rightarrow> if rc \<noteq> 0 then (rc, None)
                            else case query of
                                   None \<Rightarrow> (LASSO_PROFILE_ERROR_BUILDING_QUERY_FAILED, None)
                                 | Some q \<Rightarrow> (0, Some (lasso_concat_url_query url q))))"

definition idff_logout_build_request_msg :: "environment \<Rightarrow> message_io \<Rightarrow> lasso_logout \<Rightarrow> int \<times> lasso_logout" where
  "idff_logout_build_request_msg env io lo =
     (let p = lasso_profile_clean_msg_info (lgo_parent lo); result = (\<lambda>rc p. (rc, lo\<lparr>lgo_parent := p\<rparr>)) in
      if prf_remote_providerID p = None then result LASSO_PROFILE_ERROR_MISSING_REMOTE_PROVIDERID p
      else case lasso_server_get_provider (prf_server p) (prf_remote_providerID p) of
             None \<Rightarrow> result LASSO_SERVER_ERROR_PROVIDER_NOT_FOUND p
           | Some remote \<Rightarrow>
               if lgo_initial_http_request_method lo = LASSO_HTTP_METHOD_SOAP
               then (let (rc, node, body) = soap_body env io p (prf_request p);
                         p = p\<lparr>prf_msg_url := lasso_provider_get_metadata_one remote ''SoapEndpoint'', prf_request := node\<rparr>
                     in if rc \<noteq> 0 then result rc p else result 0 (p\<lparr>prf_msg_body := body\<rparr>))
               else if lgo_initial_http_request_method lo = LASSO_HTTP_METHOD_REDIRECT
               then (let (rc, url) = redirect_url env io p remote ''SingleLogoutServiceURL'' (prf_request p)
                     in if rc \<noteq> 0 then result rc p else result 0 (p\<lparr>prf_msg_url := url, prf_msg_body := None\<rparr>))
               else result LASSO_PROFILE_ERROR_INVALID_HTTP_METHOD p)"

section \<open>The responder\<close>

definition idff_logout_process_request_msg ::
  "environment \<Rightarrow> idff_io \<Rightarrow> lasso_logout \<Rightarrow> string \<Rightarrow> int \<times> lasso_logout" where
  "idff_logout_process_request_msg env iio lo request_msg =
     (let (format, request) = lasso_node_init_from_message env (iio_logout_request iio)
             (logout_request_init_from_query lasso_lib_logout_request_new) request_msg;
          result = (\<lambda>rc p. (rc, lo\<lparr>lgo_parent := p\<rparr>));
          p = (lgo_parent lo)\<lparr>prf_request := Some (IdffNode (LibLogoutRequest request))\<rparr>
      in if bad_format format then result LASSO_PROFILE_ERROR_INVALID_MSG p
         else case (llr_ProviderID request, llr_NameIdentifier request) of
           (Some i, Some (SamlNameIdentifier n)) \<Rightarrow>
             (let p = p\<lparr>prf_msg_relayState := llr_RelayState request, prf_remote_providerID := Some i\<rparr> in
              case lasso_server_get_provider (prf_server p) (prf_remote_providerID p) of
                None \<Rightarrow> result LASSO_SERVER_ERROR_PROVIDER_NOT_FOUND p
              | Some remote \<Rightarrow>
                  (let p = p\<lparr>prf_signature_status := verify_message env remote request_msg ''RequestID'' format\<rparr> in
                   if format \<noteq> LASSO_MESSAGE_FORMAT_SOAP \<and> format \<noteq> LASSO_MESSAGE_FORMAT_QUERY
                   then result LASSO_PROFILE_ERROR_INVALID_MSG p
                   else result (prf_signature_status p)
                          ((set_http_method format p)\<lparr>prf_nameIdentifier := Some (SamlNameIdentifier n)\<rparr>)))
         | _ \<Rightarrow> result LASSO_PROFILE_ERROR_INVALID_MSG p)"

text \<open>\<^verbatim>\<open>check_soap_support\<close> for ID-FF: a provider with an open session has to support logout by SOAP.\<close>

definition idff_soap_support :: "lasso_profile \<Rightarrow> lasso_provider \<Rightarrow> bool" where
  "idff_soap_support p provider \<longleftrightarrow>
     prv_ProviderID provider = prf_remote_providerID p \<or>
     \<not> (case Option.bind (prv_ProviderID provider) (lasso_session_get_assertion (prf_session p)) of
           Some (SamlAssertion _) \<Rightarrow> True | _ \<Rightarrow> False) \<or>
     LASSO_LIB_PROTOCOL_PROFILE_SLO_SP_SOAP \<in> set (lasso_provider_get_metadata_list provider ''SingleLogoutProtocolProfile'')"

definition logout_response_for ::
  "environment \<Rightarrow> string \<Rightarrow> lasso_server \<Rightarrow> int \<Rightarrow> string \<Rightarrow> lib_logout_request \<Rightarrow> lib_status_response option" where
  "logout_response_for env uid s http_method status request =
     (if http_method = LASSO_HTTP_METHOD_SOAP
      then Some (lasso_lib_logout_response_new_full env uid (prv_ProviderID (srv_parent s)) status request (signature_type_of s)
                   (env_default_signature_method env))
      else if http_method = LASSO_HTTP_METHOD_REDIRECT
      then Some (lasso_lib_logout_response_new_full env uid (prv_ProviderID (srv_parent s)) status request LASSO_SIGNATURE_TYPE_NONE 0)
      else None)"

definition refuse_logout :: "lasso_logout \<Rightarrow> lasso_profile \<Rightarrow> string \<Rightarrow> int \<Rightarrow> (int \<times> lasso_logout) option" where
  "refuse_logout lo p status rc = map_option (\<lambda>p. (rc, lo\<lparr>lgo_parent := p\<rparr>)) (lasso_profile_set_response_status p status)"

text \<open>The federation of a federated identifier has to know it.\<close>

definition check_federated :: "lasso_profile \<Rightarrow> string \<Rightarrow> name_identifier \<Rightarrow> int option" where
  "check_federated p i nameIdentifier =
     (case get_part PartFormat nameIdentifier of
        None \<Rightarrow> None
      | Some format \<Rightarrow>
          if format \<noteq> LASSO_LIB_NAME_IDENTIFIER_FORMAT_FEDERATED then Some 0
          else if prf_identity p = None then Some LASSO_PROFILE_ERROR_IDENTITY_NOT_FOUND
          else case federation_with p i of
                 None \<Rightarrow> Some LASSO_PROFILE_ERROR_FEDERATION_NOT_FOUND
               | Some federation \<Rightarrow>
                   (case lasso_federation_verify_name_identifier federation (Some nameIdentifier) of
                      None \<Rightarrow> None
                    | Some b \<Rightarrow> Some (if b then 0 else LASSO_LOGOUT_ERROR_FEDERATION_NOT_FOUND)))"

text \<open>The decision once the response is prepared; \<open>i\<close> is the requester.\<close>

definition idff_logout_decide ::
  "message_io \<Rightarrow> lasso_server \<Rightarrow> lasso_provider \<Rightarrow> string \<Rightarrow> lib_logout_request \<Rightarrow> lasso_logout \<Rightarrow> lasso_profile \<Rightarrow>
     (int \<times> lasso_logout) option" where
  "idff_logout_decide io s remote i request lo p =
     (if prf_signature_status p \<noteq> 0
      then refuse_logout lo p LASSO_LIB_STATUS_CODE_INVALID_SIGNATURE (prf_signature_status p)
      else case llr_NameIdentifier request of
        None \<Rightarrow> refuse_logout lo p LASSO_LIB_STATUS_CODE_FEDERATION_DOES_NOT_EXIST LASSO_PROFILE_ERROR_NAME_IDENTIFIER_NOT_FOUND
      | Some nameIdentifier \<Rightarrow>
          if prf_session p = None then refuse_logout lo p LASSO_SAML_STATUS_CODE_REQUEST_DENIED LASSO_PROFILE_ERROR_SESSION_NOT_FOUND
          else case lasso_session_get_assertion (prf_session p) i of
            Some (SamlAssertion _) \<Rightarrow>
              (case check_federated p i nameIdentifier of
                 None \<Rightarrow> None
               | Some rc \<Rightarrow>
                   if rc \<noteq> 0 then refuse_logout lo p LASSO_LIB_STATUS_CODE_FEDERATION_DOES_NOT_EXIST rc
                   else let ask = (prv_role remote = LASSO_PROVIDER_ROLE_SP \<and> prf_http_request_method p = LASSO_HTTP_METHOD_SOAP);
                            all_soap = list_all (\<lambda>(_, provider). idff_soap_support p provider) (srv_providers s);
                            lo = (if ask then lo\<lparr>lgo_all_soap := all_soap,
                                               lgo_partial_logout := (if all_soap then lgo_partial_logout lo else False)\<rparr> else lo)
                        in if ask \<and> \<not> all_soap
                           then refuse_logout lo p LASSO_LIB_STATUS_CODE_UNSUPPORTED_PROFILE LASSO_LOGOUT_ERROR_UNSUPPORTED_PROFILE
                           else Some (0, logout_accept io remote (lo\<lparr>lgo_parent := p\<rparr>)))
          | _ \<Rightarrow> refuse_logout lo p LASSO_SAML_STATUS_CODE_REQUEST_DENIED LASSO_PROFILE_ERROR_MISSING_ASSERTION)"

definition idff_logout_validate_request ::
  "environment \<Rightarrow> message_io \<Rightarrow> string \<Rightarrow> lasso_logout \<Rightarrow> (int \<times> lasso_logout) option" where
  "idff_logout_validate_request env io uid lo =
     (case prf_request (lgo_parent lo) of
        Some (IdffNode (LibLogoutRequest request)) \<Rightarrow>
          (let p = (lgo_parent lo)\<lparr>prf_remote_providerID := llr_ProviderID request\<rparr> in
           case (prf_server p, prf_remote_providerID p, lasso_server_get_provider (prf_server p) (prf_remote_providerID p)) of
             (Some s, Some i, Some remote) \<Rightarrow>
               (case logout_response_for env uid s (prf_http_request_method p) LASSO_SAML_STATUS_CODE_SUCCESS request of
                  None \<Rightarrow> Some (LASSO_PROFILE_ERROR_BUILDING_RESPONSE_FAILED, lo\<lparr>lgo_parent := p\<lparr>prf_response := None\<rparr>\<rparr>)
                | Some response \<Rightarrow>
                    idff_logout_decide io s remote i request lo
                      (p\<lparr>prf_response := Some (IdffNode (LibLogoutResponse (response\<lparr>lsr_RelayState := prf_msg_relayState p\<rparr>)))\<rparr>))
           | _ \<Rightarrow> Some (LASSO_SERVER_ERROR_PROVIDER_NOT_FOUND, lo\<lparr>lgo_parent := p\<rparr>))
      | _ \<Rightarrow> Some (LASSO_PROFILE_ERROR_MISSING_REQUEST, lo))"

text \<open>The response that is sent when none was prepared is a refusal; the request it answers has to be there.\<close>

definition default_response :: "environment \<Rightarrow> string \<Rightarrow> lasso_profile \<Rightarrow> lasso_profile option" where
  "default_response env uid p =
     (if prf_response p \<noteq> None then Some p
      else if prf_http_request_method p \<noteq> LASSO_HTTP_METHOD_SOAP \<and> prf_http_request_method p \<noteq> LASSO_HTTP_METHOD_REDIRECT then Some p
      else case (prf_server p, prf_request p) of
             (Some s, Some (IdffNode (LibLogoutRequest request))) \<Rightarrow>
               Some (p\<lparr>prf_response := map_option (IdffNode \<circ> LibLogoutResponse)
                 (logout_response_for env uid s (prf_http_request_method p) LASSO_SAML_STATUS_CODE_REQUEST_DENIED request)\<rparr>)
           | _ \<Rightarrow> None)"

definition idff_logout_build_response_msg ::
  "environment \<Rightarrow> message_io \<Rightarrow> string \<Rightarrow> lasso_logout \<Rightarrow> (int \<times> lasso_logout) option" where
  "idff_logout_build_response_msg env io uid lo =
     (let result = (\<lambda>rc p. Some (rc, lo\<lparr>lgo_parent := p\<rparr>)) in
      case default_response env uid (lasso_profile_clean_msg_info (lgo_parent lo)) of
        None \<Rightarrow> None
      | Some p \<Rightarrow>
          if prf_remote_providerID p = None \<or> prf_response p = None then result LASSO_SERVER_ERROR_PROVIDER_NOT_FOUND p
          else case prf_response p of
            Some (IdffNode (LibLogoutResponse response)) \<Rightarrow>
              (let p = p\<lparr>prf_response := Some (IdffNode (LibLogoutResponse (response\<lparr>lsr_RelayState := prf_msg_relayState p\<rparr>)))\<rparr> in
               if prf_http_request_method p = LASSO_HTTP_METHOD_SOAP
               then (let (rc, node, body) = soap_body env io p (prf_response p)
                     in if rc \<noteq> 0 then result rc (p\<lparr>prf_response := node\<rparr>) else result 0 (p\<lparr>prf_response := node, prf_msg_body := body\<rparr>))
               else if prf_http_request_method p = LASSO_HTTP_METHOD_REDIRECT
               then (case lasso_server_get_provider (prf_server p) (prf_remote_providerID p) of
                       None \<Rightarrow> result LASSO_SERVER_ERROR_PROVIDER_NOT_FOUND p
                     | Some remote \<Rightarrow>
                         (let (rc, url) = redirect_url env io p remote ''SingleLogoutServiceReturnURL'' (prf_response p)
                          in if rc \<noteq> 0 then result rc p else result 0 (p\<lparr>prf_msg_url := url\<rparr>)))
               else result LASSO_PROFILE_ERROR_INVALID_HTTP_METHOD p)
          | _ \<Rightarrow> None)"

section \<open>The response\<close>

text \<open>A status that is not a success.  The finer code is read when there is one.\<close>

definition logout_failed ::
  "environment \<Rightarrow> message_io \<Rightarrow> lasso_logout \<Rightarrow> lasso_provider \<Rightarrow> samlp_status_code \<Rightarrow> int \<times> lasso_logout" where
  "logout_failed env io lo remote code =
     (let p = lgo_parent lo;
          v = (case ssc_StatusCode code of None \<Rightarrow> ssc_Value code | Some c \<Rightarrow> ssc_Value c)
      in if lasso_strisequal v (Some LASSO_LIB_STATUS_CODE_UNSUPPORTED_PROFILE) \<and> prv_role remote = LASSO_PROVIDER_ROLE_IDP \<and>
            lgo_initial_http_request_method lo = LASSO_HTTP_METHOD_SOAP
         then (let p = p\<lparr>prf_msg_body := None\<rparr>; (rc, url) = redirect_url env io p remote ''SingleLogoutServiceURL'' (prf_request p)
               in if rc \<noteq> 0 then (rc, lo\<lparr>lgo_parent := p\<rparr>)
                  else (LASSO_LOGOUT_ERROR_UNSUPPORTED_PROFILE, lo\<lparr>lgo_parent := forget_assertion (p\<lparr>prf_msg_url := url\<rparr>)\<rparr>))
         else if lasso_strisequal v (Some LASSO_SAML_STATUS_CODE_REQUEST_DENIED)
         then (LASSO_LOGOUT_ERROR_REQUEST_DENIED, lo\<lparr>lgo_parent := forget_assertion p\<rparr>)
         else if lasso_strisequal v (Some LASSO_LIB_STATUS_CODE_FEDERATION_DOES_NOT_EXIST)
         then (LASSO_LOGOUT_ERROR_FEDERATION_NOT_FOUND, lo\<lparr>lgo_parent := forget_assertion p\<rparr>)
         else (LASSO_PROFILE_ERROR_STATUS_NOT_SUCCESS, lo))"

text \<open>After a success, the conversation with the first requester is resumed when no other session is open.\<close>

definition logout_resume :: "message_io \<Rightarrow> lasso_provider \<Rightarrow> lasso_logout \<Rightarrow> lasso_logout" where
  "logout_resume io remote lo =
     (let p = lgo_parent lo in
      if lgo_initial_remote_providerID lo \<noteq> None \<and> lasso_session_count_assertions (mio_thin_sessions io) (prf_session p) \<le> 0 \<and>
         prv_role remote = LASSO_PROVIDER_ROLE_SP
      then lo\<lparr>lgo_parent := p\<lparr>prf_remote_providerID := lgo_initial_remote_providerID lo, prf_request := lgo_initial_request lo,
                              prf_response := lgo_initial_response lo\<rparr>,
              lgo_initial_remote_providerID := None, lgo_initial_request := None, lgo_initial_response := None\<rparr>
      else lo)"

text \<open>Only when the message has no signature at all is it looked at; any other result of the verification, success
  included, is returned at once.\<close>

definition idff_logout_process_response_msg ::
  "environment \<Rightarrow> message_io \<Rightarrow> idff_io \<Rightarrow> lasso_logout \<Rightarrow> string \<Rightarrow> int \<times> lasso_logout" where
  "idff_logout_process_response_msg env io iio lo response_msg =
     (let (format, response) = lasso_node_init_from_message env (iio_logout_response iio)
             (status_response_init_from_query lasso_lib_status_response_new) response_msg;
          p = (lgo_parent lo)\<lparr>prf_response := Some (IdffNode (LibLogoutResponse response))\<rparr>
      in if format \<noteq> LASSO_MESSAGE_FORMAT_SOAP \<and> format \<noteq> LASSO_MESSAGE_FORMAT_QUERY
         then (LASSO_PROFILE_ERROR_INVALID_MSG, lo\<lparr>lgo_parent := p\<rparr>)
         else let p = p\<lparr>prf_msg_relayState := lsr_RelayState response, prf_remote_providerID := lsr_ProviderID response\<rparr>;
                  lo = lo\<lparr>lgo_parent := p\<rparr>
              in if prf_remote_providerID p = None then (LASSO_PROFILE_ERROR_MISSING_REMOTE_PROVIDERID, lo)
                 else case lasso_server_get_provider (prf_server p) (prf_remote_providerID p) of
                   None \<Rightarrow> (LASSO_SERVER_ERROR_PROVIDER_NOT_FOUND, lo)
                 | Some remote \<Rightarrow>
                     (let rc = verify_message env remote response_msg ''ResponseID'' format in
                      if rc \<noteq> LASSO_DS_ERROR_SIGNATURE_NOT_FOUND then (rc, lo)
                      else case first_status_code response of
                        None \<Rightarrow> (LASSO_PROFILE_ERROR_MISSING_STATUS_CODE, lo)
                      | Some code \<Rightarrow>
                          if ssc_Value code = None then (LASSO_PROFILE_ERROR_MISSING_STATUS_CODE, lo)
                          else if ssc_Value code \<noteq> Some LASSO_SAML_STATUS_CODE_SUCCESS then logout_failed env io lo remote code
                          else let lo = (if format = LASSO_MESSAGE_FORMAT_SOAP \<or> prv_role remote = LASSO_PROVIDER_ROLE_SP
                                         then lo\<lparr>lgo_parent := forget_assertion p\<rparr> else lo)
                               in (0, logout_resume io remote lo)))"

section \<open>Laws\<close>

lemma set_response_status_session:
  "lasso_profile_set_response_status p v = Some p' \<Longrightarrow> prf_session p' = prf_session p \<and> prf_identity p' = prf_identity p"
  by (auto simp: lasso_profile_set_response_status_def split: option.splits message_node.splits idff_node.splits)

text \<open>C26: A response with a valid signature is not looked at: whatever status it has, it is taken for a success and the assertion
  of the provider stays in the session.  Only a response without any signature has an effect.\<close>

theorem signed_logout_response_ignored:
  assumes "lasso_node_init_from_message env (iio_logout_response iio) (status_response_init_from_query lasso_lib_status_response_new) msg =
      (format, response)"
    and "format = LASSO_MESSAGE_FORMAT_SOAP \<or> format = LASSO_MESSAGE_FORMAT_QUERY"
    and "lasso_server_get_provider (prf_server (lgo_parent lo)) (lsr_ProviderID response) = Some remote"
    and "verify_message env remote msg ''ResponseID'' format = 0"
  shows "\<exists>lo'. idff_logout_process_response_msg env io iio lo msg = (0, lo') \<and>
    prf_session (lgo_parent lo') = prf_session (lgo_parent lo) \<and> lgo_initial_request lo' = lgo_initial_request lo"
proof -
  have "lsr_ProviderID response \<noteq> None" using assms(3) by (auto simp: lasso_server_get_provider_def split: option.splits)
  then show ?thesis using assms by (auto simp: idff_logout_process_response_msg_def Let_def)
qed

lemma logout_accept_identity [simp]: "prf_identity (lgo_parent (logout_accept io r lo)) = prf_identity (lgo_parent lo)"
  by (simp add: logout_accept_def Let_def)

lemma refuse_logout_error: "refuse_logout lo p v rc = Some (rc', lo') \<Longrightarrow>
    rc' = rc \<and> prf_session (lgo_parent lo') = prf_session p \<and> prf_identity (lgo_parent lo') = prf_identity p"
  by (auto simp: refuse_logout_def dest: set_response_status_session)

lemma refuse_logout_ok: "rc \<noteq> 0 \<Longrightarrow> refuse_logout lo p v rc \<noteq> Some (0, lo')"
  by (auto dest: refuse_logout_error)

lemma check_federated_zero:
  "check_federated p i n = Some 0 \<Longrightarrow> get_part PartFormat n = Some LASSO_LIB_NAME_IDENTIFIER_FORMAT_FEDERATED \<Longrightarrow>
     \<exists>f. federation_with p i = Some f \<and> lasso_federation_verify_name_identifier f (Some n) = Some True"
  by (auto simp: check_federated_def split: if_splits option.splits)

lemma idff_logout_decide_ok:
  assumes "idff_logout_decide io s remote i request lo p = Some (0, lo')"
  obtains n a all_soap partial where "prf_signature_status p = 0" "llr_NameIdentifier request = Some n"
    "lasso_session_get_assertion (prf_session p) i = Some (SamlAssertion a)" "check_federated p i n = Some 0"
    "lo' = logout_accept io remote (lo\<lparr>lgo_all_soap := all_soap, lgo_partial_logout := partial, lgo_parent := p\<rparr>)"
proof -
  let ?ask = "prv_role remote = LASSO_PROVIDER_ROLE_SP \<and> prf_http_request_method p = LASSO_HTTP_METHOD_SOAP"
  let ?all = "list_all (\<lambda>(_, provider). idff_soap_support p provider) (srv_providers s)"
  have s: "prf_signature_status p = 0" using assms by (auto simp: idff_logout_decide_def refuse_logout_ok split: if_splits)
  note d = assms[unfolded idff_logout_decide_def, simplified s, simplified]
  obtain n where n: "llr_NameIdentifier request = Some n"
    using d by (cases "llr_NameIdentifier request") (simp_all add: refuse_logout_ok)
  have e: "prf_session p \<noteq> None" using d by (cases "prf_session p = None") (simp_all add: n refuse_logout_ok)
  obtain a where a: "lasso_session_get_assertion (prf_session p) i = Some (SamlAssertion a)"
    using d by (simp add: n e refuse_logout_ok split: option.splits assertion_node.splits)
  have c: "check_federated p i n = Some 0"
    using d e by (cases "check_federated p i n") (auto simp: n a refuse_logout_ok split: if_splits)
  have u: "\<not> (?ask \<and> \<not> ?all)" using d by (auto simp: n e a c Let_def refuse_logout_ok split: if_splits)
  then have "lo' = logout_accept io remote ((if ?ask then lo\<lparr>lgo_all_soap := ?all,
      lgo_partial_logout := (if ?all then lgo_partial_logout lo else False)\<rparr> else lo)\<lparr>lgo_parent := p\<rparr>)"
    using d by (auto simp: n e a c Let_def split: if_splits)
  then show ?thesis
    using that[OF s n a c, of "lgo_partial_logout lo" "if ?ask then ?all else lgo_all_soap lo"] u by (cases ?ask) simp_all
qed

text \<open>What the second call accepts: the status the first call left, an open session, a federated identifier that is known.\<close>

lemma idff_logout_validated:
  assumes "idff_logout_validate_request env io uid lo = Some (0, lo')"
  shows "prf_signature_status (lgo_parent lo) = 0 \<and> (\<exists>request i n a.
    prf_request (lgo_parent lo) = Some (IdffNode (LibLogoutRequest request)) \<and> llr_ProviderID request = Some i \<and>
    llr_NameIdentifier request = Some n \<and> lasso_session_get_assertion (prf_session (lgo_parent lo)) i = Some (SamlAssertion a) \<and>
    (get_part PartFormat n = Some LASSO_LIB_NAME_IDENTIFIER_FORMAT_FEDERATED \<longrightarrow>
      (\<exists>f. federation_with (lgo_parent lo) i = Some f \<and> lasso_federation_verify_name_identifier f (Some n) = Some True)) \<and>
    (\<forall>j. lasso_session_get_assertion (prf_session (lgo_parent lo')) j =
       (if j = i \<and> i \<noteq> [] then None else lasso_session_get_assertion (prf_session (lgo_parent lo)) j)))"
proof -
  obtain request where r: "prf_request (lgo_parent lo) = Some (IdffNode (LibLogoutRequest request))"
    using assms by (auto simp: idff_logout_validate_request_def split: option.splits message_node.splits idff_node.splits)
  obtain s i remote response where v: "llr_ProviderID request = Some i"
    "idff_logout_decide io s remote i request lo ((lgo_parent lo)\<lparr>prf_remote_providerID := Some i,
       prf_response := Some (IdffNode (LibLogoutResponse response))\<rparr>) = Some (0, lo')"
    using assms r by (auto simp: idff_logout_validate_request_def Let_def split: option.splits prod.splits)
  show ?thesis
  proof (rule idff_logout_decide_ok[OF v(2)])
    fix n a all_soap partial
    assume h: "prf_signature_status ((lgo_parent lo)\<lparr>prf_remote_providerID := Some i,
        prf_response := Some (IdffNode (LibLogoutResponse response))\<rparr>) = 0"
      "llr_NameIdentifier request = Some n"
      "lasso_session_get_assertion (prf_session ((lgo_parent lo)\<lparr>prf_remote_providerID := Some i,
        prf_response := Some (IdffNode (LibLogoutResponse response))\<rparr>)) i = Some (SamlAssertion a)"
      "check_federated ((lgo_parent lo)\<lparr>prf_remote_providerID := Some i,
        prf_response := Some (IdffNode (LibLogoutResponse response))\<rparr>) i n = Some 0"
      "lo' = logout_accept io remote (lo\<lparr>lgo_all_soap := all_soap, lgo_partial_logout := partial,
        lgo_parent := (lgo_parent lo)\<lparr>prf_remote_providerID := Some i,
          prf_response := Some (IdffNode (LibLogoutResponse response))\<rparr>\<rparr>)"
    show ?thesis
      using r v(1) h check_federated_zero[OF h(4)]
      by (simp add: logout_accept_session get_assertion_removed) (simp add: federation_with_def)
  qed
qed

lemma idff_logout_processed:
  assumes "idff_logout_process_request_msg env iio lo0 msg = (0, lo)"
  obtains format request i remote where "lasso_node_init_from_message env (iio_logout_request iio)
      (logout_request_init_from_query lasso_lib_logout_request_new) msg = (format, request)"
    "prf_request (lgo_parent lo) = Some (IdffNode (LibLogoutRequest request))" "llr_ProviderID request = Some i"
    "lasso_server_get_provider (prf_server (lgo_parent lo0)) (Some i) = Some remote"
    "verify_message env remote msg ''RequestID'' format = 0"
  using assms
  by (auto simp: idff_logout_process_request_msg_def set_http_method_def Let_def
      split: prod.splits if_splits option.splits name_identifier.splits)

text \<open>C23: A logout request that is processed and validated with success comes from a known provider whose key verifies the very message,
  the session that the application restored between the two calls is open with that provider, and an identifier of the federated
  format is one that the federation with it knows; other formats are not looked up.  Then exactly the assertion of the requester
  is removed from the session.\<close>

theorem idff_logout_accepted:
  assumes "idff_logout_process_request_msg env iio lo0 msg = (0, lo)"
    and "idff_logout_validate_request env io uid
           (lo\<lparr>lgo_parent := (lgo_parent lo)\<lparr>prf_session := session, prf_identity := identity\<rparr>\<rparr>) = Some (0, lo')"
  shows "\<exists>format request i remote n a.
    lasso_node_init_from_message env (iio_logout_request iio) (logout_request_init_from_query lasso_lib_logout_request_new) msg =
      (format, request) \<and> llr_ProviderID request = Some i \<and>
    lasso_server_get_provider (prf_server (lgo_parent lo0)) (Some i) = Some remote \<and>
    verify_message env remote msg ''RequestID'' format = 0 \<and>
    llr_NameIdentifier request = Some n \<and> lasso_session_get_assertion session i = Some (SamlAssertion a) \<and>
    (get_part PartFormat n = Some LASSO_LIB_NAME_IDENTIFIER_FORMAT_FEDERATED \<longrightarrow>
      (\<exists>d f. identity = Some d \<and> ght_lookup (idn_federations d) i = Some f \<and>
         lasso_federation_verify_name_identifier f (Some n) = Some True)) \<and>
    (\<forall>j. lasso_session_get_assertion (prf_session (lgo_parent lo')) j =
       (if j = i \<and> i \<noteq> [] then None else lasso_session_get_assertion session j))"
proof (rule idff_logout_processed[OF assms(1)])
  fix format request i remote
  assume "lasso_node_init_from_message env (iio_logout_request iio) (logout_request_init_from_query lasso_lib_logout_request_new) msg =
      (format, request)"
    "prf_request (lgo_parent lo) = Some (IdffNode (LibLogoutRequest request))" "llr_ProviderID request = Some i"
    "lasso_server_get_provider (prf_server (lgo_parent lo0)) (Some i) = Some remote"
    "verify_message env remote msg ''RequestID'' format = 0"
  then show ?thesis
    using idff_logout_validated[OF assms(2)] by (auto simp: federation_with_def bind_eq_Some_conv)
qed

text \<open>A request that is refused leaves session and identity as they were.\<close>

theorem idff_logout_refused:
  assumes "idff_logout_validate_request env io uid lo = Some (rc, lo')" and "rc \<noteq> 0"
  shows "prf_session (lgo_parent lo') = prf_session (lgo_parent lo) \<and> prf_identity (lgo_parent lo') = prf_identity (lgo_parent lo)"
  using assms
  by (auto simp: idff_logout_validate_request_def idff_logout_decide_def Let_def dest!: refuse_logout_error
      split: option.splits prod.splits message_node.splits idff_node.splits if_splits assertion_node.splits)

section \<open>Examples\<close>

definition sample_idff_request :: lib_logout_request where
  "sample_idff_request = lasso_lib_logout_request_new\<lparr>llr_ProviderID := Some ''idp'',
     llr_NameIdentifier := Some (SamlNameIdentifier (sample_name ''n''))\<rparr>"

definition sample_idff_logout :: lasso_logout where
  "sample_idff_logout = (lasso_logout_new sample_idff_sp_server)\<lparr>lgo_parent := (profile_new (Some sample_idff_sp_server))
     \<lparr>prf_request := Some (IdffNode (LibLogoutRequest sample_idff_request)), prf_http_request_method := LASSO_HTTP_METHOD_SOAP,
      prf_session := Some (lasso_session_new\<lparr>ses_assertions := [(''idp'', SamlAssertion (lasso_saml_assertion_new
        \<lparr>sma_AssertionID := Some ''a''\<rparr>))]\<rparr>)\<rparr>\<rparr>"

text \<open>The identity provider logs the principal out of a service provider: the request is signed, the key of the provider verifies
  it, and the identifier is a federated one.\<close>

definition sample_slo_name :: saml_name_identifier where
  "sample_slo_name = (sample_name ''n'')\<lparr>sni_Format := Some LASSO_LIB_NAME_IDENTIFIER_FORMAT_FEDERATED\<rparr>"

definition sample_slo_request :: lib_logout_request where
  "sample_slo_request = sample_idff_request\<lparr>llr_NameIdentifier := Some (SamlNameIdentifier sample_slo_name)\<rparr>"

definition sample_slo_node :: xml where
  "sample_slo_node = Element ''LogoutRequest'' None [(''RequestID'', ''i'')] [Element ''Signature'' (Some xmlSecDSigNs) [] []]"

definition sample_slo_envelope :: xml where
  "sample_slo_envelope =
     Element ''Envelope'' (Some LASSO_SOAP_ENV_HREF) [] [Element ''Body'' (Some LASSO_SOAP_ENV_HREF) [] [sample_slo_node]]"

definition sample_slo_env :: environment where
  "sample_slo_env = sample_env\<lparr>env_crypto := sample_crypto, env_xml_parse := \<lambda>_. Some sample_slo_envelope\<rparr>"

definition sample_slo_idp :: lasso_provider where
  "sample_slo_idp = (sample_idff_provider ''idp'' LASSO_PROVIDER_ROLE_IDP)
     \<lparr>prv_public_key := Some ''file'', prv_signing_public_keys := [''key'']\<rparr>"

definition sample_slo_logout :: lasso_logout where
  "sample_slo_logout = lasso_logout_new (sample_idff_sp_server\<lparr>srv_providers := [(''idp'', sample_slo_idp)]\<rparr>)"

definition sample_slo_identity :: lasso_identity where
  "sample_slo_identity = \<lparr>idn_federations = [(''idp'', \<lparr>fed_remote_providerID = ''idp'', fed_local_nameIdentifier = None,
     fed_remote_nameIdentifier = Some (SamlNameIdentifier sample_slo_name)\<rparr>)], idn_is_dirty = False\<rparr>"

lemma sample_slo_verified:
  "verify_message sample_slo_env sample_slo_idp ''<s/>'' ''RequestID'' LASSO_MESSAGE_FORMAT_SOAP = 0"
  by (simp add: lasso_provider_verify_signature_def lasso_verify_signature_def sample_slo_env_def sample_env_def sample_crypto_def
      sample_slo_idp_def sample_idff_provider_def provider_instance_init_def lasso_provider_try_loading_ca_cert_chain_def
      lasso_provider_try_loading_public_keys_def lasso_provider_get_public_keys_def message_root_def first_of_def
      sample_slo_envelope_def sample_slo_node_def find_signature_def is_element_def printf_string_def lasso_strisequal_def xmlGetProp_def)

lemma sample_slo_read:
  "lasso_node_init_from_message sample_slo_env (\<lambda>_. (0, n)) iq ''<s/>'' = (LASSO_MESSAGE_FORMAT_SOAP, n)"
proof -
  have "lasso_xml_is_soap sample_slo_envelope"
    by (simp add: lasso_xml_is_soap_def lasso_xml_is_element_node_def is_element_def sample_slo_envelope_def)
  moreover have "\<not> is_base64 ''<s/>''" by (simp add: is_base64_def is_alnum_def)
  ultimately show ?thesis
    by (simp add: lasso_node_init_from_message_def lasso_node_init_from_message_with_format_def sample_slo_env_def Let_def
        split: prod.split)
qed

lemma sample_slo_processed:
  "\<exists>lo. idff_logout_process_request_msg sample_slo_env (iio\<lparr>iio_logout_request := \<lambda>_. (0, sample_slo_request)\<rparr>) sample_slo_logout ''<s/>'' =
     (0, lo) \<and> prf_request (lgo_parent lo) = Some (IdffNode (LibLogoutRequest sample_slo_request)) \<and> prf_signature_status (lgo_parent lo) = 0 \<and>
     prf_server (lgo_parent lo) = prf_server (lgo_parent sample_slo_logout) \<and> prf_http_request_method (lgo_parent lo) = LASSO_HTTP_METHOD_SOAP"
proof -
  have "lasso_server_get_provider (prf_server (lgo_parent sample_slo_logout)) (Some ''idp'') = Some sample_slo_idp"
    by (simp add: sample_slo_logout_def lasso_logout_new_def profile_new_def lasso_server_get_provider_def ght_lookup_def)
  then show ?thesis
    using sample_slo_verified
    by (simp add: idff_logout_process_request_msg_def sample_slo_read sample_slo_request_def sample_idff_request_def bad_format_def
        set_http_method_def Let_def)
qed

lemma sample_slo_validated:
  assumes "prf_request (lgo_parent lo) = Some (IdffNode (LibLogoutRequest sample_slo_request))" "prf_signature_status (lgo_parent lo) = 0"
    "prf_server (lgo_parent lo) = prf_server (lgo_parent sample_slo_logout)" "prf_http_request_method (lgo_parent lo) = LASSO_HTTP_METHOD_SOAP"
    "prf_session (lgo_parent lo) = prf_session (lgo_parent sample_idff_logout)" "prf_identity (lgo_parent lo) = Some sample_slo_identity"
  shows "\<exists>lo'. idff_logout_validate_request sample_slo_env sample_io ''u'' lo = Some (0, lo')"
proof -
  have "check_federated p ''idp'' (SamlNameIdentifier sample_slo_name) = Some 0" if "prf_identity p = Some sample_slo_identity" for p
    using that by (simp add: check_federated_def federation_with_def sample_slo_identity_def ght_lookup_def sample_slo_name_def sample_name_def
        lasso_federation_verify_name_identifier_def federation_content_matches_def)
  moreover have "lasso_session_get_assertion (prf_session (lgo_parent sample_idff_logout)) ''idp'' \<noteq> None"
    "\<exists>a. lasso_session_get_assertion (prf_session (lgo_parent sample_idff_logout)) ''idp'' = Some (SamlAssertion a)"
    "prf_session (lgo_parent sample_idff_logout) \<noteq> None"
    by (simp_all add: sample_idff_logout_def lasso_session_get_assertion_def ght_lookup_def)
  moreover have "prv_role sample_slo_idp = LASSO_PROVIDER_ROLE_IDP" by (simp add: sample_slo_idp_def sample_idff_provider_def)
  ultimately show ?thesis
    using assms
    by (auto simp: idff_logout_validate_request_def sample_slo_request_def sample_idff_request_def sample_slo_logout_def
        lasso_logout_new_def profile_new_def lasso_server_get_provider_def ght_lookup_def logout_response_for_def idff_logout_decide_def Let_def)
qed

theorem idff_logout_accepted_witness:
  "\<exists>lo lo'. idff_logout_process_request_msg sample_slo_env (undefined\<lparr>iio_logout_request := \<lambda>_. (0, sample_slo_request)\<rparr>)
       sample_slo_logout ''<s/>'' = (0, lo) \<and> env_verify_signature sample_slo_env \<and>
     idff_logout_validate_request sample_slo_env sample_io ''u'' (lo\<lparr>lgo_parent := (lgo_parent lo)
       \<lparr>prf_session := prf_session (lgo_parent sample_idff_logout), prf_identity := Some sample_slo_identity\<rparr>\<rparr>) = Some (0, lo') \<and>
     lasso_session_get_assertion (prf_session (lgo_parent sample_idff_logout)) ''idp'' \<noteq> None \<and>
     lasso_session_get_assertion (prf_session (lgo_parent lo')) ''idp'' = None"
proof -
  let ?iio = "undefined\<lparr>iio_logout_request := \<lambda>_. (0, sample_slo_request)\<rparr>"
  obtain lo where lo: "idff_logout_process_request_msg sample_slo_env ?iio sample_slo_logout ''<s/>'' = (0, lo)"
    "prf_request (lgo_parent lo) = Some (IdffNode (LibLogoutRequest sample_slo_request))" "prf_signature_status (lgo_parent lo) = 0"
    "prf_server (lgo_parent lo) = prf_server (lgo_parent sample_slo_logout)" "prf_http_request_method (lgo_parent lo) = LASSO_HTTP_METHOD_SOAP"
    using sample_slo_processed by blast
  let ?lo = "lo\<lparr>lgo_parent := (lgo_parent lo)\<lparr>prf_session := prf_session (lgo_parent sample_idff_logout),
    prf_identity := Some sample_slo_identity\<rparr>\<rparr>"
  obtain lo' where v: "idff_logout_validate_request sample_slo_env sample_io ''u'' ?lo = Some (0, lo')"
    using sample_slo_validated[of ?lo] lo by auto
  have "llr_ProviderID sample_slo_request = Some ''idp''" by (simp add: sample_slo_request_def sample_idff_request_def)
  moreover have "env_verify_signature sample_slo_env" by (simp add: sample_slo_env_def sample_env_def)
  ultimately show ?thesis
    using idff_logout_accepted[OF lo(1) v] lo(1) v by (auto simp: sample_slo_read)
qed

text \<open>A response that refuses the logout, under a signature that is good.\<close>

theorem signed_logout_response_ignored_witness:
  "\<exists>lo'. idff_logout_process_response_msg unverified_env sample_io (undefined\<lparr>iio_logout_response := \<lambda>_. (0, lasso_lib_status_response_new
       \<lparr>lsr_ProviderID := Some ''idp'', lsr_Status := Some (new_status LASSO_SAML_STATUS_CODE_REQUEST_DENIED)\<rparr>)\<rparr>) sample_idff_logout ''<s/>'' = (0, lo') \<and>
     prf_session (lgo_parent lo') = prf_session (lgo_parent sample_idff_logout)"
proof -
  let ?r = "lasso_lib_status_response_new\<lparr>lsr_ProviderID := Some ''idp'', lsr_Status := Some (new_status LASSO_SAML_STATUS_CODE_REQUEST_DENIED)\<rparr>"
  have "lasso_server_get_provider (prf_server (lgo_parent sample_idff_logout)) (Some ''idp'') =
      Some (sample_idff_provider ''idp'' LASSO_PROVIDER_ROLE_IDP)" by (simp add: sample_idff_logout_def profile_new_def)
  then show ?thesis
    using signed_logout_response_ignored[where env = unverified_env and iio = "undefined\<lparr>iio_logout_response := \<lambda>_. (0, ?r)\<rparr>" and
        msg = "''<s/>''" and format = LASSO_MESSAGE_FORMAT_SOAP and response = ?r and lo = sample_idff_logout and io = sample_io]
    by (auto simp: sample_soap_message)
qed

end
