(* ===== verification/Lasso_LoginIdff.thy ===== *)
theory Lasso_LoginIdff
  imports Lasso_LoginIdP Lasso_IdffProfile
begin

text \<open>
  Single sign-on of ID-FF 1.2: the branches of the functions of \<^verbatim>\<open>lasso/id-ff/login.c\<close> for servers that do not speak SAML 2.0.
  The state is that of \<open>Lasso_Login\<close>; the messages are an authentication request, the response to it, and for an artifact
  the request for the assertion that it stands for and the answer.

  As in \<open>Lasso_IdffProfile\<close>, \<open>None\<close> is undefined behaviour or the end of the process.  An assertion, once built, is in the
  login object, in the response and in the session: a change of the object is a change of all places that hold its value, of
  which the fresh identifier is part.  The library is built without the web services of ID-WSF.
\<close>

section \<open>Requests and responses\<close>

abbreviation LASSO_LIB_NAMEID_POLICY_TYPE_NONE :: string where "LASSO_LIB_NAMEID_POLICY_TYPE_NONE \<equiv> ''none''"
abbreviation LASSO_LIB_NAMEID_POLICY_TYPE_ONE_TIME :: string where "LASSO_LIB_NAMEID_POLICY_TYPE_ONE_TIME \<equiv> ''onetime''"
abbreviation LASSO_LIB_NAMEID_POLICY_TYPE_FEDERATED :: string where "LASSO_LIB_NAMEID_POLICY_TYPE_FEDERATED \<equiv> ''federated''"
abbreviation LASSO_LIB_NAMEID_POLICY_TYPE_ANY :: string where "LASSO_LIB_NAMEID_POLICY_TYPE_ANY \<equiv> ''any''"
abbreviation LASSO_LIB_PROTOCOL_PROFILE_BRWS_ART :: string where
  "LASSO_LIB_PROTOCOL_PROFILE_BRWS_ART \<equiv> ''http://projectliberty.org/profiles/brws-art''"
abbreviation LASSO_LIB_PROTOCOL_PROFILE_BRWS_POST :: string where
  "LASSO_LIB_PROTOCOL_PROFILE_BRWS_POST \<equiv> ''http://projectliberty.org/profiles/brws-post''"
abbreviation LASSO_LIB_PROTOCOL_PROFILE_BRWS_LECP :: string where
  "LASSO_LIB_PROTOCOL_PROFILE_BRWS_LECP \<equiv> ''http://projectliberty.org/profiles/lecp''"
abbreviation LASSO_LIB_NAME_IDENTIFIER_FORMAT_ONE_TIME :: string where
  "LASSO_LIB_NAME_IDENTIFIER_FORMAT_ONE_TIME \<equiv> ''urn:liberty:iff:nameid:one-time''"
abbreviation LASSO_LIB_STATUS_CODE_INVALID_ASSERTION_CONSUMER_SERVICE_INDEX :: string where
  "LASSO_LIB_STATUS_CODE_INVALID_ASSERTION_CONSUMER_SERVICE_INDEX \<equiv> ''lib:InvalidAssertionConsumerServiceIndex''"
abbreviation LASSO_LIB_STATUS_CODE_NO_PASSIVE :: string where "LASSO_LIB_STATUS_CODE_NO_PASSIVE \<equiv> ''lib:NoPassive''"
abbreviation LASSO_LIB_STATUS_CODE_UNSIGNED_AUTHN_REQUEST :: string where
  "LASSO_LIB_STATUS_CODE_UNSIGNED_AUTHN_REQUEST \<equiv> ''lib:UnsignedAuthnRequest''"
abbreviation LASSO_SAML_CONFIRMATION_METHOD_ARTIFACT :: string where
  "LASSO_SAML_CONFIRMATION_METHOD_ARTIFACT \<equiv> ''urn:oasis:names:tc:SAML:1.0:cm:artifact''"
abbreviation LASSO_SAML_CONFIRMATION_METHOD_ARTIFACT01 :: string where
  "LASSO_SAML_CONFIRMATION_METHOD_ARTIFACT01 \<equiv> ''urn:oasis:names:tc:SAML:1.0:cm:artifact-01''"
abbreviation LASSO_SAML_CONFIRMATION_METHOD_BEARER :: string where
  "LASSO_SAML_CONFIRMATION_METHOD_BEARER \<equiv> ''urn:oasis:names:tc:SAML:1.0:cm:bearer''"
abbreviation LASSO_SAML_AUTHENTICATION_METHOD_PASSWORD :: string where
  "LASSO_SAML_AUTHENTICATION_METHOD_PASSWORD \<equiv> ''urn:oasis:names:tc:SAML:1.0:am:password''"
abbreviation LASSO_LIB_AUTHN_CONTEXT_CLASS_REF_PASSWORD :: string where
  "LASSO_LIB_AUTHN_CONTEXT_CLASS_REF_PASSWORD \<equiv> ''http://www.projectliberty.org/schemas/authctx/classes/Password''"

text \<open>The casts of the request and the response of the profile, which are absent for objects of other classes.\<close>

definition lib_authn_request_of :: "lasso_profile \<Rightarrow> lib_authn_request option" where
  "lib_authn_request_of p = (case prf_request p of Some (IdffNode (LibAuthnRequest r)) \<Rightarrow> Some r | _ \<Rightarrow> None)"

definition set_lib_authn_request :: "lib_authn_request \<Rightarrow> lasso_profile \<Rightarrow> lasso_profile" where
  "set_lib_authn_request r p = p\<lparr>prf_request := Some (IdffNode (LibAuthnRequest r))\<rparr>"

text \<open>The identifier and the version of a request.\<close>

definition request_head :: "lasso_profile \<Rightarrow> (cstr \<times> int \<times> int) option" where
  "request_head p =
     (let head = (\<lambda>i major minor. Some (i, major, minor)) in
      case prf_request p of
        Some (IdffNode (LibAuthnRequest r)) \<Rightarrow> head (sra_RequestID r) (sra_MajorVersion r) (sra_MinorVersion r)
      | Some (IdffNode (SamlpRequest r)) \<Rightarrow> head (sra_RequestID r) (sra_MajorVersion r) (sra_MinorVersion r)
      | Some (IdffNode (LibLogoutRequest r)) \<Rightarrow> head (sra_RequestID r) (sra_MajorVersion r) (sra_MinorVersion r)
      | Some (IdffNode (FederationTerminationNotification r)) \<Rightarrow> head (sra_RequestID r) (sra_MajorVersion r) (sra_MinorVersion r)
      | Some (IdffNode (RegisterNameIdentifierRequest r)) \<Rightarrow> head (sra_RequestID r) (sra_MajorVersion r) (sra_MinorVersion r)
      | Some (IdffNode (NameIdentifierMappingRequest r)) \<Rightarrow> head (sra_RequestID r) (sra_MajorVersion r) (sra_MinorVersion r)
      | _ \<Rightarrow> None)"

definition before_1_2 :: "int \<Rightarrow> int \<Rightarrow> bool" where
  "before_1_2 major minor \<longleftrightarrow> major = 1 \<and> minor < 2"

text \<open>What an authentication response has of a \<^verbatim>\<open>samlp:Response\<close>.\<close>

definition samlp_response_of :: "lasso_profile \<Rightarrow> samlp_response option" where
  "samlp_response_of p =
     (case prf_response p of
        Some (IdffNode (SamlpResponse r)) \<Rightarrow> Some r
      | Some (IdffNode (LibAuthnResponse r)) \<Rightarrow> Some (samlp_response.truncate r)
      | _ \<Rightarrow> None)"

definition map_response_assertions :: "(assertion_node list \<Rightarrow> assertion_node list) \<Rightarrow> lasso_profile \<Rightarrow> lasso_profile" where
  "map_response_assertions f p =
     (case prf_response p of
        Some (IdffNode (SamlpResponse r)) \<Rightarrow>
          p\<lparr>prf_response := Some (IdffNode (SamlpResponse (r\<lparr>srs_Assertion := f (srs_Assertion r)\<rparr>)))\<rparr>
      | Some (IdffNode (LibAuthnResponse r)) \<Rightarrow>
          p\<lparr>prf_response := Some (IdffNode (LibAuthnResponse (r\<lparr>srs_Assertion := f (srs_Assertion r)\<rparr>)))\<rparr>
      | _ \<Rightarrow> p)"

section \<open>The authentication request\<close>

definition lasso_login_init_authn_request ::
  "environment \<Rightarrow> message_io \<Rightarrow> string \<Rightarrow> lasso_login \<Rightarrow> cstr \<Rightarrow> int \<Rightarrow> int \<times> lasso_login" where
  "lasso_login_init_authn_request env io uid lg remote_providerID http_method =
     (let p = lgn_parent lg in
      case prf_server p of
        None \<Rightarrow> (LASSO_PROFILE_ERROR_MISSING_SERVER, lg)
      | Some server \<Rightarrow>
          (let server = server\<lparr>srv_parent := (srv_parent server)\<lparr>prv_role := LASSO_PROVIDER_ROLE_SP\<rparr>\<rparr>;
               p = p\<lparr>prf_server := Some server, prf_request := None, prf_remote_providerID := None\<rparr>
           in if http_method = LASSO_HTTP_METHOD_PAOS
              then lasso_saml20_login_init_authn_request env io uid (lg\<lparr>lgn_parent := p\<rparr>) http_method
              else
                let p = p\<lparr>prf_remote_providerID := (case remote_providerID of
                             Some i \<Rightarrow> Some i
                           | None \<Rightarrow> lasso_server_get_first_providerID_by_role server LASSO_PROVIDER_ROLE_IDP)\<rparr>
                in case prf_remote_providerID p of
                     None \<Rightarrow> (LASSO_PROFILE_ERROR_MISSING_REMOTE_PROVIDERID, lg\<lparr>lgn_parent := p\<rparr>)
                   | Some i \<Rightarrow>
                       (case lasso_server_get_provider (Some server) (Some i) of
                          None \<Rightarrow> (LASSO_SERVER_ERROR_PROVIDER_NOT_FOUND, lg\<lparr>lgn_parent := p\<rparr>)
                        | Some remote \<Rightarrow>
                            (let server = server\<lparr>srv_providers :=
                                     ght_insert i (remote\<lparr>prv_role := LASSO_PROVIDER_ROLE_IDP\<rparr>) (srv_providers server)\<rparr>;
                                 lg = lg\<lparr>lgn_parent := p\<lparr>prf_server := Some server\<rparr>\<rparr>
                             in if prv_conformance (srv_parent server) = LASSO_PROTOCOL_SAML_2_0
                                then lasso_saml20_login_init_authn_request env io uid lg http_method
                                else if http_method \<noteq> LASSO_HTTP_METHOD_REDIRECT \<and> http_method \<noteq> LASSO_HTTP_METHOD_POST
                                then (LASSO_PROFILE_ERROR_INVALID_HTTP_METHOD, lg)
                                else
                                  let old = prv_conformance remote < LASSO_PROTOCOL_LIBERTY_1_2;
                                      r = lasso_lib_authn_request_new\<lparr>sra_RequestID := Some uid,
                                            sra_MajorVersion := (if old then 1 else LASSO_LIB_MAJOR_VERSION_N),
                                            sra_MinorVersion := (if old then 0 else LASSO_LIB_MINOR_VERSION_N),
                                            sra_IssueInstant := lasso_time_to_iso_8601_gmt (env_now env),
                                            lar_ProviderID := prv_ProviderID (srv_parent server),
                                            lar_RelayState := prf_msg_relayState p\<rparr>
                                  in (0, lg\<lparr>lgn_parent := set_lib_authn_request r (lgn_parent lg), lgn_http_method := http_method,
                                            lgn_request_id := Some uid\<rparr>)))))"

text \<open>A response without a request: the request that is built has no identifier that an assertion could refer to.\<close>

definition idff_login_init_idp_initiated_authn_request ::
  "environment \<Rightarrow> message_io \<Rightarrow> string \<Rightarrow> lasso_login \<Rightarrow> cstr \<Rightarrow> (int \<times> lasso_login) option" where
  "idff_login_init_idp_initiated_authn_request env io uid lg remote_providerID =
     (let (rc, lg) = lasso_login_init_authn_request env io uid lg remote_providerID LASSO_HTTP_METHOD_POST in
      if rc \<noteq> 0 then Some (rc, lg)
      else case lib_authn_request_of (lgn_parent lg) of
             None \<Rightarrow> None
           | Some r \<Rightarrow> Some (0, lg\<lparr>lgn_parent := set_lib_authn_request
                 (r\<lparr>sra_RequestID := None, lar_NameIDPolicy := Some LASSO_LIB_NAMEID_POLICY_TYPE_ANY\<rparr>) (lgn_parent lg)\<rparr>))"

text \<open>The message, for the two methods of this request; for others nothing is done.  The roles are changed for the tests only.\<close>

definition idff_login_build_authn_request_msg ::
  "environment \<Rightarrow> message_io \<Rightarrow> lasso_login \<Rightarrow> (int \<times> lasso_login) option" where
  "idff_login_build_authn_request_msg env io lg =
     (let p = lasso_profile_clean_msg_info (lgn_parent lg); result = (\<lambda>rc p. Some (rc, lg\<lparr>lgn_parent := p\<rparr>)) in
      if prf_remote_providerID p = None then result LASSO_PROFILE_ERROR_MISSING_REMOTE_PROVIDERID p
      else case (prf_server p, lasso_server_get_provider (prf_server p) (prf_remote_providerID p)) of
        (Some s, Some remote) \<Rightarrow>
          (case lib_authn_request_of p of
             None \<Rightarrow> None
           | Some r \<Rightarrow>
               (let protocolProfile = (case lar_ProtocolProfile r of None \<Rightarrow> LASSO_LIB_PROTOCOL_PROFILE_BRWS_ART | Some v \<Rightarrow> v);
                    must_sign = (lasso_provider_get_metadata_one ((srv_parent s)\<lparr>prv_role := LASSO_PROVIDER_ROLE_SP\<rparr>)
                                   ''AuthnRequestsSigned'' = Some ''true'')
                in if \<not> lasso_provider_has_protocol_profile (remote\<lparr>prv_role := LASSO_PROVIDER_ROLE_IDP\<rparr>) SINGLE_SIGN_ON protocolProfile
                   then result LASSO_PROFILE_ERROR_UNSUPPORTED_PROFILE p
                   else if lgn_http_method lg = LASSO_HTTP_METHOD_REDIRECT
                   then (let node = IdffNode (LibAuthnRequest r);
                             (rc, query) = (if must_sign
                               then lasso_server_export_to_query_for_provider_by_name env (lasso_node_build_query env io) (prf_server p)
                                      (prf_remote_providerID p) node
                               else (0, lasso_node_build_query env io node))
                         in if rc \<noteq> 0 then result rc p
                            else case (query, lasso_provider_get_metadata_one remote ''SingleSignOnServiceURL'') of
                                   (None, _) \<Rightarrow> result LASSO_PROFILE_ERROR_BUILDING_QUERY_FAILED p
                                 | (Some _, None) \<Rightarrow> result LASSO_PROFILE_ERROR_UNKNOWN_PROFILE_URL p
                                 | (Some q, Some url) \<Rightarrow> result 0 (p\<lparr>prf_msg_url := Some (lasso_concat_url_query url q), prf_msg_body := None\<rparr>))
                   else if lgn_http_method lg = LASSO_HTTP_METHOD_POST
                   then (let node = (if must_sign
                               then snd (lasso_server_set_signature_for_provider_by_name env (prf_server p) (prf_remote_providerID p)
                                      (IdffNode (LibAuthnRequest r)))
                               else IdffNode (LibAuthnRequest r));
                             p = p\<lparr>prf_request := Some node\<rparr>
                         in case mio_export_base64 io node of
                              None \<Rightarrow> result LASSO_PROFILE_ERROR_BUILDING_QUERY_FAILED p
                            | Some lareq \<Rightarrow> result 0 (p\<lparr>prf_msg_url := lasso_provider_get_metadata_one remote ''SingleSignOnServiceURL'',
                                                     prf_msg_body := Some lareq\<rparr>))
                   else result 0 p))
      | _ \<Rightarrow> result LASSO_SERVER_ERROR_PROVIDER_NOT_FOUND p)"

section \<open>Receiving the authentication request\<close>

definition protocol_profile_of :: "cstr \<Rightarrow> (string \<times> int) option" where
  "protocol_profile_of protocolProfile =
     (case protocolProfile of
        None \<Rightarrow> Some (LASSO_LIB_PROTOCOL_PROFILE_BRWS_ART, LASSO_LOGIN_PROTOCOL_PROFILE_BRWS_ART)
      | Some v \<Rightarrow>
          if v = LASSO_LIB_PROTOCOL_PROFILE_BRWS_ART then Some (v, LASSO_LOGIN_PROTOCOL_PROFILE_BRWS_ART)
          else if v = LASSO_LIB_PROTOCOL_PROFILE_BRWS_POST then Some (v, LASSO_LOGIN_PROTOCOL_PROFILE_BRWS_POST)
          else if v = LASSO_LIB_PROTOCOL_PROFILE_BRWS_LECP then Some (v, LASSO_LOGIN_PROTOCOL_PROFILE_BRWS_LECP)
          else None)"

definition idff_must_verify_signature :: "lasso_profile \<Rightarrow> lasso_provider \<Rightarrow> bool" where
  "idff_must_verify_signature p remote =
     (case prf_signature_verify_hint p of
        VERIFY_HINT_IGNORE \<Rightarrow> False
      | VERIFY_HINT_FORCE \<Rightarrow> True
      | VERIFY_HINT_MAYBE \<Rightarrow>
          (case lasso_provider_get_metadata_one remote ''AuthnRequestsSigned'' of None \<Rightarrow> True | Some v \<Rightarrow> v = ''true''))"

text \<open>The verification of the signature gives the code that is returned.  The status of the signature stays 0: where the code
  means to compare the hint, it compares the pointer to the profile with \<^verbatim>\<open>LASSO_PROFILE_SIGNATURE_VERIFY_HINT_MAYBE\<close>, which is 0.\<close>

definition check_request_signature :: "environment \<Rightarrow> lasso_profile \<Rightarrow> cstr \<Rightarrow> message_format \<Rightarrow> (int \<times> int \<times> lasso_profile)" where
  "check_request_signature env p authn_request_msg format =
     (case authn_request_msg of
        None \<Rightarrow> (0, 0, p)
      | Some msg \<Rightarrow>
          (case lasso_server_get_provider (prf_server p) (prf_remote_providerID p) of
             None \<Rightarrow> (LASSO_SERVER_ERROR_PROVIDER_NOT_FOUND, 0, p)
           | Some remote \<Rightarrow>
               (0, if idff_must_verify_signature p remote then verify_message env remote msg ''RequestID'' format else 0,
                p\<lparr>prf_signature_status := 0\<rparr>)))"

definition new_authn_response :: "environment \<Rightarrow> string \<Rightarrow> lasso_server \<Rightarrow> lib_authn_request \<Rightarrow> lib_authn_response" where
  "new_authn_response env uid s request =
     (let response = lasso_lib_authn_response_new env uid (prv_ProviderID (srv_parent s)) request
      in if before_1_2 (sra_MajorVersion request) (sra_MinorVersion request)
         then response\<lparr>spa_MajorVersion := 1, spa_MinorVersion := 0\<rparr> else response)"

definition process_lib_authn_request ::
  "environment \<Rightarrow> string \<Rightarrow> lasso_login \<Rightarrow> lib_authn_request \<Rightarrow> cstr \<Rightarrow> message_format \<Rightarrow> (int \<times> lasso_login) option" where
  "process_lib_authn_request env uid lg request authn_request_msg format =
     (case protocol_profile_of (lar_ProtocolProfile request) of
        None \<Rightarrow> Some (LASSO_PROFILE_ERROR_INVALID_PROTOCOLPROFILE, lg)
      | Some (protocolProfile, k) \<Rightarrow>
          (let lg = lg\<lparr>lgn_protocolProfile := k\<rparr>; p = lgn_parent lg in
           case prf_server p of
             None \<Rightarrow> None
           | Some s \<Rightarrow>
               (let s = s\<lparr>srv_parent := (srv_parent s)\<lparr>prv_role := LASSO_PROVIDER_ROLE_IDP\<rparr>\<rparr>;
                    p = p\<lparr>prf_server := Some s\<rparr>
                in if \<not> lasso_provider_has_protocol_profile (srv_parent s) SINGLE_SIGN_ON protocolProfile
                   then Some (LASSO_PROFILE_ERROR_UNSUPPORTED_PROFILE, lg\<lparr>lgn_parent := p\<rparr>)
                   else case check_request_signature env p authn_request_msg format of
                          (rc, ret, p) \<Rightarrow>
                            if rc \<noteq> 0 then Some (rc, lg\<lparr>lgn_parent := p\<rparr>)
                            else Some (ret, lg\<lparr>lgn_parent := p\<lparr>prf_response :=
                                   Some (IdffNode (LibAuthnResponse (new_authn_response env uid s request)))\<rparr>\<rparr>))))"

text \<open>Without a message the request of the profile is taken, which the identity provider has built itself.\<close>

definition idff_login_process_authn_request_msg ::
  "environment \<Rightarrow> idff_io \<Rightarrow> string \<Rightarrow> lasso_login \<Rightarrow> cstr \<Rightarrow> (int \<times> lasso_login) option" where
  "idff_login_process_authn_request_msg env iio uid lg authn_request_msg =
     (case authn_request_msg of
        None \<Rightarrow>
          (if prf_request (lgn_parent lg) = None then Some (LASSO_PROFILE_ERROR_MISSING_REQUEST, lg)
           else case lib_authn_request_of (lgn_parent lg) of
                  None \<Rightarrow> None
                | Some request \<Rightarrow> process_lib_authn_request env uid lg request None LASSO_MESSAGE_FORMAT_UNKNOWN)
      | Some msg \<Rightarrow>
          (let (format, request) = lasso_node_init_from_message env (iio_authn_request iio)
                 (authn_request_init_from_query lasso_lib_authn_request_new) msg
           in if bad_format format then Some (LASSO_PROFILE_ERROR_INVALID_MSG, lg)
              else process_lib_authn_request env uid (lg\<lparr>lgn_parent := (set_lib_authn_request request (lgn_parent lg))
                     \<lparr>prf_remote_providerID := lar_ProviderID request, prf_msg_relayState := lar_RelayState request\<rparr>\<rparr>)
                     request (Some msg) format))"

section \<open>Authentication and consent\<close>

text \<open>Does an assertion of the session meet one of the classes that are asked for?  Of the comparisons only equality is
  implemented; an unknown one never matches.  An assertion without an authentication method is read through a null pointer.\<close>

definition lib_comparison :: "cstr \<Rightarrow> bool" where
  "lib_comparison c \<longleftrightarrow> c \<in> {None, Some ''exact'', Some ''minimum'', Some ''better''}"

definition liberty_method :: "string \<Rightarrow> string" where
  "liberty_method m = (if m = LASSO_SAML_AUTHENTICATION_METHOD_PASSWORD then LASSO_LIB_AUTHN_CONTEXT_CLASS_REF_PASSWORD else m)"

fun class_in_assertions :: "bool \<Rightarrow> string \<Rightarrow> assertion_node list \<Rightarrow> bool option" where
  "class_in_assertions known class_ref [] = Some False"
| "class_in_assertions known class_ref (SamlAssertion a # l) =
     (case Option.bind (sma_AuthenticationStatement a) sst_AuthenticationMethod of
        None \<Rightarrow> None
      | Some m \<Rightarrow> if known \<and> liberty_method m = class_ref then Some True else class_in_assertions known class_ref l)"
| "class_in_assertions known class_ref (_ # l) = class_in_assertions known class_ref l"

fun any_class_in_assertions :: "bool \<Rightarrow> string list \<Rightarrow> assertion_node list \<Rightarrow> bool option" where
  "any_class_in_assertions known [] l = Some False"
| "any_class_in_assertions known (c # cs) l =
     (case class_in_assertions known c l of
        None \<Rightarrow> None
      | Some True \<Rightarrow> Some True
      | Some False \<Rightarrow> any_class_in_assertions known cs l)"

definition lib_context_matches :: "lib_request_authn_context \<Rightarrow> assertion_node list \<Rightarrow> bool option" where
  "lib_context_matches context assertions =
     (if lrc_AuthnContextClassRef context = [] then Some True
      else any_class_in_assertions (lib_comparison (lrc_AuthnContextComparison context)) (lrc_AuthnContextClassRef context) assertions)"

text \<open>The refusal for a missing request is a negative number, which is true as a \<^verbatim>\<open>gboolean\<close>.\<close>

definition idff_login_must_authenticate :: "message_io \<Rightarrow> lasso_login \<Rightarrow> (bool \<times> lasso_login) option" where
  "idff_login_must_authenticate io lg =
     (let p = lgn_parent lg in
      if prf_request p = None then Some (True, lg)
      else case lib_authn_request_of p of
        None \<Rightarrow> None
      | Some r \<Rightarrow>
          if lar_ForceAuthn r \<and> \<not> lar_IsPassive r then Some (True, lg)
          else case (case lar_RequestAuthnContext r of
                       Some context \<Rightarrow> lib_context_matches context (lasso_session_get_assertions (prf_session p) None)
                     | None \<Rightarrow> Some (prf_session p \<noteq> None \<and> lasso_session_count_assertions (mio_thin_sessions io) (prf_session p) > 0)) of
                 None \<Rightarrow> None
               | Some matched \<Rightarrow>
                   if \<not> matched \<and> \<not> lar_IsPassive r then Some (True, lg)
                   else if prf_identity p = None \<and> lar_IsPassive r \<and> lgn_protocolProfile lg = LASSO_LOGIN_PROTOCOL_PROFILE_BRWS_POST
                   then map_option (\<lambda>p. (False, lg\<lparr>lgn_parent := p\<rparr>)) (lasso_profile_set_response_status p LASSO_LIB_STATUS_CODE_NO_PASSIVE)
                   else Some (False, lg))"

text \<open>The values of the consent that need no question.\<close>

definition lib_consent_given :: "cstr \<Rightarrow> bool" where
  "lib_consent_given consent \<longleftrightarrow>
     consent \<in> {Some ''urn:liberty:consent:obtained'', Some ''urn:liberty:consent:obtained:prior'',
                Some ''urn:liberty:consent:obtained:current:implicit'', Some ''urn:liberty:consent:obtained:current:explicit''}"

definition idff_login_must_ask_for_consent_private :: "lasso_profile \<Rightarrow> bool option" where
  "idff_login_must_ask_for_consent_private p =
     (case lib_authn_request_of p of
        None \<Rightarrow> None
      | Some r \<Rightarrow>
          (case lar_NameIDPolicy r of
             None \<Rightarrow> Some False
           | Some policy \<Rightarrow>
               if policy = LASSO_LIB_NAMEID_POLICY_TYPE_NONE \<or> policy = LASSO_LIB_NAMEID_POLICY_TYPE_ONE_TIME then Some False
               else if policy \<noteq> LASSO_LIB_NAMEID_POLICY_TYPE_FEDERATED \<and> policy \<noteq> LASSO_LIB_NAMEID_POLICY_TYPE_ANY then Some True
               else case (prf_identity p, prf_remote_providerID p) of
                      (Some _, None) \<Rightarrow> None
                    | (Some _, Some i) \<Rightarrow> Some (federation_with p i = None \<and> \<not> lib_consent_given (lar_consent r))
                    | (None, _) \<Rightarrow> Some (\<not> lib_consent_given (lar_consent r))))"

definition idff_login_must_ask_for_consent :: "lasso_profile \<Rightarrow> bool option" where
  "idff_login_must_ask_for_consent p =
     (case lib_authn_request_of p of
        None \<Rightarrow> None
      | Some r \<Rightarrow> if lar_IsPassive r then Some False else idff_login_must_ask_for_consent_private p)"

text \<open>The federation of the principal with the requester.  \<open>uid\<close> is the content of the name identifier of a new one.\<close>

definition new_local_federation :: "string \<Rightarrow> lasso_server \<Rightarrow> string \<Rightarrow> lasso_federation" where
  "new_local_federation uid s i =
     lasso_federation_build_local_name_identifier uid
       \<lparr>fed_remote_providerID = i, fed_local_nameIdentifier = None, fed_remote_nameIdentifier = None\<rparr>
       (prv_ProviderID (srv_parent s)) (Some LASSO_LIB_NAME_IDENTIFIER_FORMAT_FEDERATED) None"

definition use_federation :: "lasso_federation \<Rightarrow> lasso_login \<Rightarrow> int \<times> lasso_login" where
  "use_federation f lg = (0, lg\<lparr>lgn_parent := (lgn_parent lg)\<lparr>prf_nameIdentifier := fed_local_nameIdentifier f\<rparr>\<rparr>)"

definition answer_request :: "string \<Rightarrow> int \<Rightarrow> lasso_login \<Rightarrow> (int \<times> lasso_login) option" where
  "answer_request status rc lg =
     map_option (\<lambda>p. (rc, lg\<lparr>lgn_parent := p\<rparr>)) (lasso_profile_set_response_status (lgn_parent lg) status)"

definition idff_login_process_federation :: "string \<Rightarrow> lasso_login \<Rightarrow> bool \<Rightarrow> (int \<times> lasso_login) option" where
  "idff_login_process_federation uid lg is_consent_obtained =
     (let p = lgn_parent lg;
          p = (if prf_identity p = None then p\<lparr>prf_identity := Some lasso_identity_new\<rparr> else p)
      in case lib_authn_request_of p of
           None \<Rightarrow> None
         | Some r \<Rightarrow>
             (let policy = (case lar_NameIDPolicy r of None \<Rightarrow> LASSO_LIB_NAMEID_POLICY_TYPE_NONE | Some v \<Rightarrow> v);
                  lg = lg\<lparr>lgn_parent := p, lgn_nameIDPolicy := Some policy\<rparr>
              in if policy = LASSO_LIB_NAMEID_POLICY_TYPE_ONE_TIME then Some (0, lg)
                 else case prf_remote_providerID p of
                   None \<Rightarrow> None
                 | Some i \<Rightarrow>
                     if policy = LASSO_LIB_NAMEID_POLICY_TYPE_NONE
                     then (case federation_with p i of
                             None \<Rightarrow> answer_request LASSO_LIB_STATUS_CODE_FEDERATION_DOES_NOT_EXIST LASSO_LOGIN_ERROR_FEDERATION_NOT_FOUND lg
                           | Some f \<Rightarrow> Some (use_federation f lg))
                     else if policy \<noteq> LASSO_LIB_NAMEID_POLICY_TYPE_FEDERATED \<and> policy \<noteq> LASSO_LIB_NAMEID_POLICY_TYPE_ANY
                     then Some (LASSO_LOGIN_ERROR_INVALID_NAMEIDPOLICY, lg)
                     else case idff_login_must_ask_for_consent_private p of
                       None \<Rightarrow> None
                     | Some ask \<Rightarrow>
                         if ask \<and> \<not> is_consent_obtained
                         then (if policy = LASSO_LIB_NAMEID_POLICY_TYPE_ANY
                               then Some (0, lg\<lparr>lgn_nameIDPolicy := Some LASSO_LIB_NAMEID_POLICY_TYPE_ONE_TIME\<rparr>)
                               else answer_request LASSO_LIB_STATUS_CODE_FEDERATION_DOES_NOT_EXIST LASSO_LOGIN_ERROR_CONSENT_NOT_OBTAINED lg)
                         else case (federation_with p i, prf_server p) of
                                (Some f, _) \<Rightarrow> Some (use_federation f lg)
                              | (None, None) \<Rightarrow> None
                              | (None, Some s) \<Rightarrow>
                                  (let f = new_local_federation uid s i
                                   in Some (use_federation f (lg\<lparr>lgn_parent := p\<lparr>prf_identity :=
                                        snd (lasso_identity_add_federation (prf_identity p) (Some f))\<rparr>\<rparr>)))))"

definition idff_login_validate_request_msg :: "string \<Rightarrow> lasso_login \<Rightarrow> bool \<Rightarrow> bool \<Rightarrow> (int \<times> lasso_login) option" where
  "idff_login_validate_request_msg uid lg authentication_result is_consent_obtained =
     (let p = lgn_parent lg in
      if \<not> authentication_result then answer_request LASSO_LIB_STATUS_CODE_UNKNOWN_PRINCIPAL LASSO_LOGIN_ERROR_REQUEST_DENIED lg
      else if prf_signature_status p = LASSO_DS_ERROR_INVALID_SIGNATURE
      then answer_request LASSO_LIB_STATUS_CODE_INVALID_SIGNATURE LASSO_LOGIN_ERROR_INVALID_SIGNATURE lg
      else if prf_signature_status p = LASSO_DS_ERROR_SIGNATURE_NOT_FOUND
      then answer_request LASSO_LIB_STATUS_CODE_UNSIGNED_AUTHN_REQUEST LASSO_LOGIN_ERROR_UNSIGNED_AUTHN_REQUEST lg
      else case (if prf_signature_status p = 0 then idff_login_process_federation uid lg is_consent_obtained else Some (0, lg)) of
             None \<Rightarrow> None
           | Some (ret, lg) \<Rightarrow>
               if ret \<noteq> 0 then Some (ret, lg) else answer_request LASSO_SAML_STATUS_CODE_SUCCESS 0 lg)"

section \<open>Building the assertion\<close>

definition lasso_lib_assertion_new_full ::
  "environment \<Rightarrow> string \<Rightarrow> cstr \<Rightarrow> cstr \<Rightarrow> cstr \<Rightarrow> cstr \<Rightarrow> cstr \<Rightarrow> saml_assertion option" where
  "lasso_lib_assertion_new_full env uid issuer requestID audience notBefore notOnOrAfter =
     (if issuer = None then None
      else Some (lasso_saml_assertion_new
        \<lparr>sma_AssertionID := Some uid, sma_MajorVersion := LASSO_LIB_MAJOR_VERSION_N, sma_MinorVersion := LASSO_LIB_MINOR_VERSION_N,
         sma_IssueInstant := lasso_time_to_iso_8601_gmt (env_now env), sma_Issuer := issuer, sma_InResponseTo := Some requestID,
         sma_NotBefore := notBefore, sma_NotOnOrAfter := notOnOrAfter,
         sma_Audience := (case audience of None \<Rightarrow> [] | Some a \<Rightarrow> [a])\<rparr>))"

text \<open>The statement about a principal that the service provider calls \<open>sp\<close>, or as the identity provider does.  The inner
  result is absent where the constructor refuses; an identifier \<open>sp\<close> of another class is cast without a test.\<close>

definition new_lib_statement ::
  "environment \<Rightarrow> string \<Rightarrow> cstr \<Rightarrow> cstr \<Rightarrow> saml_name_identifier \<Rightarrow> saml_name_identifier option \<Rightarrow> saml_statement" where
  "new_lib_statement env authenticationMethod authenticationInstant reauthenticateOnOrAfter n idp =
     \<lparr>sst_Subject = Some (Some n), sst_is_lib_authentication = True, sst_SessionIndex = None,
      sst_IDPProvidedNameIdentifier = idp, sst_EncryptedNameIdentifier = None, sst_ConfirmationMethod = Some [],
      sst_SubjectConfirmationData = None, sst_AuthenticationMethod = Some authenticationMethod,
      sst_AuthenticationInstant =
        (case authenticationInstant of None \<Rightarrow> lasso_time_to_iso_8601_gmt (env_now env) | Some t \<Rightarrow> Some t),
      sst_ReauthenticateOnOrAfter = reauthenticateOnOrAfter\<rparr>"

definition lasso_lib_authentication_statement_new_full ::
  "environment \<Rightarrow> cstr \<Rightarrow> cstr \<Rightarrow> cstr \<Rightarrow> name_identifier option \<Rightarrow> name_identifier option \<Rightarrow> saml_statement option option" where
  "lasso_lib_authentication_statement_new_full env authenticationMethod authenticationInstant reauthenticateOnOrAfter
       sp_identifier idp_identifier =
     (case (idp_identifier, authenticationMethod) of
        (Some (SamlNameIdentifier idp), Some m) \<Rightarrow>
          (case sp_identifier of
             None \<Rightarrow> Some (Some (new_lib_statement env m authenticationInstant reauthenticateOnOrAfter idp None))
           | Some (SamlNameIdentifier sp) \<Rightarrow>
               Some (Some (new_lib_statement env m authenticationInstant reauthenticateOnOrAfter sp (Some idp)))
           | Some _ \<Rightarrow> None)
      | _ \<Rightarrow> Some None)"

text \<open>The one-time identifier, \<open>tid\<close> being its content.\<close>

definition one_time_name :: "string \<Rightarrow> lasso_server \<Rightarrow> saml_name_identifier" where
  "one_time_name tid s = \<lparr>sni_content = Some tid, sni_NameQualifier = prv_ProviderID (srv_parent s),
     sni_Format = Some LASSO_LIB_NAME_IDENTIFIER_FORMAT_ONE_TIME\<rparr>"

text \<open>Encrypting the identifier for the provider takes the plain one out.  Without a statement there is no subject to read.\<close>

definition encrypt_statement :: "message_io \<Rightarrow> lasso_provider option \<Rightarrow> saml_statement option \<Rightarrow> saml_statement option option" where
  "encrypt_statement io provider st =
     (case provider of
        Some r \<Rightarrow>
          if \<not> encrypts_name_id provider then Some st
          else (case st of
                  None \<Rightarrow> None
                | Some st \<Rightarrow>
                    (case Option.bind (sst_Subject st) id of
                       None \<Rightarrow> Some (Some st)
                     | Some n \<Rightarrow>
                         (case mio_encrypt_name io (SamlNameIdentifier n) (lasso_provider_get_encryption_public_key r)
                                 (prv_encryption_sym_key_type r) (prv_ProviderID r) of
                            None \<Rightarrow> Some (Some st)
                          | Some e \<Rightarrow> Some (Some (st\<lparr>sst_EncryptedNameIdentifier := Some e, sst_Subject := Some None\<rparr>)))))
      | None \<Rightarrow> Some st)"

definition set_session_index :: "cstr \<Rightarrow> saml_statement option \<Rightarrow> saml_statement option option" where
  "set_session_index i st = (case st of None \<Rightarrow> None | Some st \<Rightarrow> Some (Some (st\<lparr>sst_SessionIndex := i\<rparr>)))"

text \<open>A change of the assertion object, and of a name identifier that the assertion, the profile and the session share.\<close>

definition replace_saml_assertion :: "saml_assertion \<Rightarrow> saml_assertion \<Rightarrow> lasso_login \<Rightarrow> lasso_login" where
  "replace_saml_assertion a b lg =
     (let f = (\<lambda>v. if v = SamlAssertion a then SamlAssertion b else v); p = map_response_assertions (map f) (lgn_parent lg) in
      lg\<lparr>lgn_assertion := (if lgn_assertion lg = Some a then Some b else lgn_assertion lg),
         lgn_parent := p\<lparr>prf_session := map_option (\<lambda>s. s\<lparr>ses_assertions := map (\<lambda>(k, v). (k, f v)) (ses_assertions s)\<rparr>) (prf_session p)\<rparr>\<rparr>)"

definition replace_shared_name :: "saml_name_identifier \<Rightarrow> saml_name_identifier \<Rightarrow> lasso_profile \<Rightarrow> lasso_profile" where
  "replace_shared_name n m p =
     (let f = (\<lambda>x. if x = SamlNameIdentifier n then SamlNameIdentifier m else x) in
      p\<lparr>prf_nameIdentifier := map_option f (prf_nameIdentifier p),
        prf_session := map_option (\<lambda>s. s\<lparr>ses_nid_and_session_indexes :=
            map (\<lambda>(k, l). (k, map (\<lambda>x. x\<lparr>nsi_name_id := f (nsi_name_id x)\<rparr>) l)) (ses_nid_and_session_indexes s)\<rparr>) (prf_session p)\<rparr>)"

text \<open>The artifact: the type code 3, the hash of the name of the provider and twenty random bytes.  The name is hashed without a
  test.\<close>

definition lasso_login_build_assertion_artifact :: "message_io \<Rightarrow> 8 word list \<Rightarrow> lasso_login \<Rightarrow> lasso_login option" where
  "lasso_login_build_assertion_artifact io rnd lg =
     (case Option.bind (prf_server (lgn_parent lg)) (\<lambda>s. prv_ProviderID (srv_parent s)) of
        None \<Rightarrow> None
      | Some i \<Rightarrow>
          (let art = Some (mio_base64_encode io ([0, 3] @ take 20 (mio_sha1 io i) @ take 20 rnd))
           in Some (lg\<lparr>lgn_assertionArtifact := art, lgn_parent := (lgn_parent lg)\<lparr>prf_artifact := art\<rparr>\<rparr>)))"

text \<open>For a request before ID-FF 1.2 the subject is replaced by one with the identifier of the profile, if it has one, and the
  artifact; a one-time identifier loses its qualifier and its format.  An identifier of another class is cast without a test.\<close>

definition old_subject :: "lasso_login \<Rightarrow> saml_assertion \<Rightarrow> saml_name_identifier option \<Rightarrow> saml_assertion" where
  "old_subject lg a n =
     a\<lparr>sma_MinorVersion := 0, sma_AuthenticationStatement := map_option (\<lambda>st. st\<lparr>sst_Subject := Some n,
         sst_IDPProvidedNameIdentifier := None, sst_EncryptedNameIdentifier := None,
         sst_ConfirmationMethod := Some [LASSO_SAML_CONFIRMATION_METHOD_ARTIFACT01],
         sst_SubjectConfirmationData := lgn_assertionArtifact lg\<rparr>) (sma_AuthenticationStatement a)\<rparr>"

definition profile_saml_name :: "lasso_profile \<Rightarrow> saml_name_identifier option option" where
  "profile_saml_name p =
     (case prf_nameIdentifier p of
        None \<Rightarrow> Some None | Some (SamlNameIdentifier n) \<Rightarrow> Some (Some n) | Some _ \<Rightarrow> None)"

definition assertion_for_old_request ::
  "message_io \<Rightarrow> 8 word list \<Rightarrow> saml_assertion \<Rightarrow> saml_name_identifier option \<Rightarrow> lasso_login \<Rightarrow> (int \<times> lasso_login) option" where
  "assertion_for_old_request io rnd a one_time lg =
     (case lasso_login_build_assertion_artifact io rnd lg of
        None \<Rightarrow> None
      | Some lg \<Rightarrow>
          (case profile_saml_name (lgn_parent lg) of
             None \<Rightarrow> None
           | Some n \<Rightarrow>
               (case one_time of
                  None \<Rightarrow> Some (0, replace_saml_assertion a (old_subject lg a n) lg)
                | Some t \<Rightarrow>
                    (let bare = t\<lparr>sni_NameQualifier := None, sni_Format := None\<rparr>;
                         lg = replace_saml_assertion a (old_subject lg a (if n = Some t then Some bare else n)) lg
                     in Some (0, lg\<lparr>lgn_parent := replace_shared_name t bare (lgn_parent lg)\<rparr>)))))"

text \<open>The assertion with its statement goes into the response, the login object and the session.\<close>

definition store_assertion ::
  "environment \<Rightarrow> message_io \<Rightarrow> 8 word list \<Rightarrow> int \<Rightarrow> int \<Rightarrow> saml_assertion \<Rightarrow> saml_name_identifier option \<Rightarrow> lasso_login \<Rightarrow>
     (int \<times> lasso_login) option" where
  "store_assertion env io rnd major minor a one_time lg =
     (let p = lgn_parent lg;
          (rc, context) = lasso_server_get_signature_context_for_provider_by_name env (prf_server p) (prf_remote_providerID p)
      in if rc \<noteq> 0 then Some (rc, lg)
         else case samlp_response_of p of
           None \<Rightarrow> None
         | Some _ \<Rightarrow>
             (let a = a\<lparr>sma_signature := Some context\<rparr>;
                  p = map_response_assertions (\<lambda>l. l @ [SamlAssertion a]) p;
                  (rc, session) = lasso_session_add_assertion (mio_thin_sessions io)
                    (case prf_session p of None \<Rightarrow> Some lasso_session_new | s \<Rightarrow> s) (prf_remote_providerID p) (Some (SamlAssertion a));
                  lg = lg\<lparr>lgn_parent := p\<lparr>prf_session := session\<rparr>, lgn_assertion := Some a\<rparr>
              in if rc \<noteq> 0 then Some (rc, lg)
                 else if before_1_2 major minor then assertion_for_old_request io rnd a one_time lg
                 else Some (0, lg)))"

text \<open>With the policy for one-time identifiers, or without a federation, the principal gets a one-time identifier.\<close>

definition principal_statement ::
  "environment \<Rightarrow> string \<Rightarrow> lasso_server \<Rightarrow> string \<Rightarrow> lasso_federation option \<Rightarrow> cstr \<Rightarrow> cstr \<Rightarrow> cstr \<Rightarrow>
     saml_statement option option \<times> saml_name_identifier option" where
  "principal_statement env tid s policy federation authenticationMethod authenticationInstant reauthenticateOnOrAfter =
     (let statement = lasso_lib_authentication_statement_new_full env authenticationMethod authenticationInstant reauthenticateOnOrAfter;
          one_time = (statement None (Some (SamlNameIdentifier (one_time_name tid s))), Some (one_time_name tid s))
      in case federation of
           None \<Rightarrow> one_time
         | Some f \<Rightarrow> if policy = LASSO_LIB_NAMEID_POLICY_TYPE_ONE_TIME then one_time
                     else (statement (fed_remote_nameIdentifier f) (fed_local_nameIdentifier f), None))"

definition idff_login_build_assertion ::
  "environment \<Rightarrow> message_io \<Rightarrow> string \<Rightarrow> string \<Rightarrow> 8 word list \<Rightarrow> lasso_login \<Rightarrow> cstr \<Rightarrow> cstr \<Rightarrow> cstr \<Rightarrow> cstr \<Rightarrow> cstr \<Rightarrow>
     (int \<times> lasso_login) option" where
  "idff_login_build_assertion env io uid tid rnd lg authenticationMethod authenticationInstant reauthenticateOnOrAfter notBefore
       notOnOrAfter =
     (let p = lgn_parent lg in
      if prf_identity p = None then Some (LASSO_PROFILE_ERROR_IDENTITY_NOT_FOUND, lg)
      else case (prf_remote_providerID p, prf_server p, request_head p, lgn_nameIDPolicy lg) of
        (Some i, Some s, Some (requestID, major, minor), Some policy) \<Rightarrow>
          (let (st, one_time) = principal_statement env tid s policy (federation_with p i) authenticationMethod authenticationInstant
                 reauthenticateOnOrAfter;
               p = (case one_time of None \<Rightarrow> p | Some n \<Rightarrow> p\<lparr>prf_nameIdentifier := Some (SamlNameIdentifier n)\<rparr>);
               provider = lasso_server_get_provider (Some s) (Some i);
               (m, me) = lasso_provider_get_first_http_method (srv_parent s) provider SINGLE_LOGOUT
           in case (lasso_lib_assertion_new_full env uid (prv_ProviderID (srv_parent s)) requestID (Some i) notBefore notOnOrAfter,
                    Option.bind st (encrypt_statement io provider), m) of
                (Some a, Some st, Some m) \<Rightarrow>
                  (case (if m \<noteq> LASSO_HTTP_METHOD_NONE then set_session_index (sma_AssertionID a) st else Some st) of
                     None \<Rightarrow> None
                   | Some st \<Rightarrow> store_assertion env io rnd major minor (a\<lparr>sma_AuthenticationStatement := st\<rparr>) one_time
                                 (lg\<lparr>lgn_parent := p\<lparr>prf_server := Some (s\<lparr>srv_parent := me\<rparr>)\<rparr>\<rparr>))
              | _ \<Rightarrow> None)
      | _ \<Rightarrow> None)"

section \<open>Sending the response\<close>

text \<open>The way in which the principal is confirmed is noted in the assertion that was built.  An assertion without an
  authentication statement is read through a null pointer.\<close>

definition add_confirmation_method :: "string \<Rightarrow> lasso_login \<Rightarrow> lasso_login option" where
  "add_confirmation_method m lg =
     (case lgn_assertion lg of
        None \<Rightarrow> Some lg
      | Some a \<Rightarrow>
          (case sma_AuthenticationStatement a of
             None \<Rightarrow> None
           | Some st \<Rightarrow>
               (if sst_Subject st = None then Some lg
                else Some (replace_saml_assertion a (a\<lparr>sma_AuthenticationStatement :=
                  Some (st\<lparr>sst_ConfirmationMethod := map_option (\<lambda>l. l @ [m]) (sst_ConfirmationMethod st)\<rparr>)\<rparr>) lg))))"

definition artifact_confirmation :: "lasso_login \<Rightarrow> string" where
  "artifact_confirmation lg =
     (case lgn_assertion lg of
        Some a \<Rightarrow> if sma_MajorVersion a = 1 \<and> sma_MinorVersion a = 0 then LASSO_SAML_CONFIRMATION_METHOD_ARTIFACT01
                  else LASSO_SAML_CONFIRMATION_METHOD_ARTIFACT
      | None \<Rightarrow> LASSO_SAML_CONFIRMATION_METHOD_ARTIFACT)"

text \<open>A status of the session is its element; \<open>status_xml\<close> and \<open>status_of\<close> are the writing and the reading of
  \<^verbatim>\<open>samlp:Status\<close>, and \<open>assertion_text\<close> is the text of an assertion.\<close>

record login_io =
  lio_status_xml :: "samlp_status \<Rightarrow> xml"
  lio_status_of :: "xml \<Rightarrow> samlp_status option"
  lio_assertion_text :: "saml_assertion \<Rightarrow> cstr"

text \<open>A status other than success waits in the session for the artifact to be resolved.  A response without a status code is read
  through a null pointer.\<close>

definition keep_status :: "login_io \<Rightarrow> lasso_profile \<Rightarrow> lasso_profile option" where
  "keep_status lio p =
     (case Option.bind (samlp_response_of p) srs_Status of
        None \<Rightarrow> None
      | Some status \<Rightarrow>
          (case Option.bind (sst_StatusCode status) ssc_Value of
             None \<Rightarrow> None
           | Some v \<Rightarrow>
               Some (if v \<noteq> LASSO_SAML_STATUS_CODE_SUCCESS
                     then (let session = (case prf_session p of None \<Rightarrow> lasso_session_new | Some s \<Rightarrow> s)
                           in p\<lparr>prf_session := Some (snd (lasso_session_add_status session (prf_remote_providerID p)
                                (Some (lio_status_xml lio status))))\<rparr>)
                     else p\<lparr>prf_session := snd (lasso_session_remove_status (prf_session p) (prf_remote_providerID p))\<rparr>)))"

text \<open>The address for the artifact: the service that the request names, or the default one with an error as the status.\<close>

definition artifact_url :: "lasso_profile \<Rightarrow> lasso_provider \<Rightarrow> lib_authn_request \<Rightarrow> (cstr \<times> lasso_profile) option" where
  "artifact_url p remote r =
     (case lasso_provider_get_assertion_consumer_service_url remote (lar_AssertionConsumerServiceID r) of
        Some u \<Rightarrow> Some (Some u, p)
      | None \<Rightarrow> map_option (Pair (lasso_provider_get_assertion_consumer_service_url remote None))
                  (lasso_profile_set_response_status p LASSO_LIB_STATUS_CODE_INVALID_ASSERTION_CONSUMER_SERVICE_INDEX))"

text \<open>A redirection without an address searches a null pointer for a question mark.\<close>

definition artifact_message :: "lasso_login \<Rightarrow> cstr \<Rightarrow> cstr \<Rightarrow> int \<Rightarrow> lasso_profile option" where
  "artifact_message lg url relayState http_method =
     (let p = lgn_parent lg; art = printf_string (lgn_assertionArtifact lg); escape = (\<lambda>v. lasso_xmlURIEscapeStr v []) in
      if http_method = LASSO_HTTP_METHOD_REDIRECT
      then (let query = ''SAMLart='' @ escape art @ (case relayState of None \<Rightarrow> [] | Some r \<Rightarrow> ''&RelayState='' @ escape r)
            in map_option (\<lambda>u. p\<lparr>prf_msg_url := Some (lasso_concat_url_query u query)\<rparr>) url)
      else Some (p\<lparr>prf_msg_url := url, prf_msg_body := lgn_assertionArtifact lg,
             prf_msg_relayState := (case relayState of None \<Rightarrow> prf_msg_relayState p | Some r \<Rightarrow> Some (escape r))\<rparr>))"

definition send_artifact ::
  "environment \<Rightarrow> message_io \<Rightarrow> login_io \<Rightarrow> 8 word list \<Rightarrow> lasso_login \<Rightarrow> cstr \<Rightarrow> cstr \<Rightarrow> int \<Rightarrow> (int \<times> lasso_login) option" where
  "send_artifact env io lio rnd lg url relayState http_method =
     (let lg = (if lgn_assertionArtifact lg = None then lasso_login_build_assertion_artifact io rnd lg else Some lg) in
      case Option.bind lg (\<lambda>lg. add_confirmation_method (artifact_confirmation lg) lg) of
        None \<Rightarrow> None
      | Some lg \<Rightarrow>
          (case Option.bind (artifact_message lg url relayState http_method) (keep_status lio) of
             None \<Rightarrow> None
           | Some p \<Rightarrow>
               (case lasso_server_get_signature_context_for_provider_by_name env (prf_server p) (prf_remote_providerID p) of
                  (rc, context) \<Rightarrow>
                    if rc \<noteq> 0 then Some (rc, lg\<lparr>lgn_parent := p\<rparr>)
                    else Some (0, lg\<lparr>lgn_parent := p\<lparr>prf_response := map_option (lasso_node_set_signature (Some context)) (prf_response p),
                           prf_artifact := lgn_assertionArtifact lg,
                           prf_artifact_message := Option.bind (lgn_assertion lg) (lio_assertion_text lio)\<rparr>\<rparr>))))"

definition idff_login_build_artifact_msg ::
  "environment \<Rightarrow> message_io \<Rightarrow> login_io \<Rightarrow> 8 word list \<Rightarrow> lasso_login \<Rightarrow> int \<Rightarrow> (int \<times> lasso_login) option" where
  "idff_login_build_artifact_msg env io lio rnd lg http_method =
     (let p = lasso_profile_clean_msg_info (lgn_parent lg); lg = lg\<lparr>lgn_parent := p\<rparr> in
      if prf_remote_providerID p = None then Some (LASSO_PROFILE_ERROR_MISSING_REMOTE_PROVIDERID, lg)
      else if http_method \<noteq> LASSO_HTTP_METHOD_REDIRECT \<and> http_method \<noteq> LASSO_HTTP_METHOD_POST
      then Some (LASSO_PROFILE_ERROR_INVALID_HTTP_METHOD, lg)
      else if lgn_protocolProfile lg \<noteq> LASSO_LOGIN_PROTOCOL_PROFILE_BRWS_ART
      then Some (LASSO_PROFILE_ERROR_INVALID_PROTOCOLPROFILE, lg)
      else case lasso_server_get_provider (prf_server p) (prf_remote_providerID p) of
        None \<Rightarrow> Some (LASSO_SERVER_ERROR_PROVIDER_NOT_FOUND, lg)
      | Some remote \<Rightarrow>
          (case lib_authn_request_of p of
             None \<Rightarrow> None
           | Some r \<Rightarrow>
               (case artifact_url p remote r of
                  None \<Rightarrow> None
                | Some (url, p) \<Rightarrow> send_artifact env io lio rnd (lg\<lparr>lgn_parent := p\<rparr>) url (lar_RelayState r) http_method)))"

text \<open>The response itself, by a form of the browser.\<close>

definition idff_login_build_authn_response_msg ::
  "environment \<Rightarrow> message_io \<Rightarrow> lasso_login \<Rightarrow> (int \<times> lasso_login) option" where
  "idff_login_build_authn_response_msg env io lg =
     (let lg = lg\<lparr>lgn_parent := lasso_profile_clean_msg_info (lgn_parent lg)\<rparr> in
      if lgn_protocolProfile lg \<noteq> LASSO_LOGIN_PROTOCOL_PROFILE_BRWS_POST \<and> lgn_protocolProfile lg \<noteq> LASSO_LOGIN_PROTOCOL_PROFILE_BRWS_LECP
      then Some (LASSO_PROFILE_ERROR_INVALID_PROTOCOLPROFILE, lg)
      else case add_confirmation_method LASSO_SAML_CONFIRMATION_METHOD_BEARER lg of
        None \<Rightarrow> None
      | Some lg \<Rightarrow>
          (let p = lgn_parent lg;
               (rc, context) = lasso_server_get_signature_context_for_provider_by_name env (prf_server p) (prf_remote_providerID p)
           in if rc \<noteq> 0 then Some (rc, lg)
              else
                let node = map_option (lasso_node_set_signature (Some context)) (prf_response p);
                    p = p\<lparr>prf_response := node, prf_msg_body := Option.bind node (mio_export_base64 io)\<rparr>
                in case lasso_server_get_provider (prf_server p) (prf_remote_providerID p) of
                     None \<Rightarrow> Some (LASSO_SERVER_ERROR_PROVIDER_NOT_FOUND, lg\<lparr>lgn_parent := p\<rparr>)
                   | Some remote \<Rightarrow>
                       (case lib_authn_request_of p of
                          None \<Rightarrow> None
                        | Some r \<Rightarrow>
                            (let url = lasso_provider_get_assertion_consumer_service_url remote (lar_AssertionConsumerServiceID r);
                                 lg = lg\<lparr>lgn_parent := p\<lparr>prf_msg_url := url\<rparr>\<rparr>
                             in Some (if url = None then LASSO_PROFILE_ERROR_UNKNOWN_PROFILE_URL else 0, lg)))))"

section \<open>Resolving an artifact\<close>

text \<open>The last artifact of a query is taken, and the last relay state is kept.  The buffer of 43 bytes is not cleared, as
  in \<open>Lasso_Artifact\<close>; the hash of the provider is in the bytes 2 to 21.\<close>

definition query_relay_state :: "query_lib \<Rightarrow> string \<Rightarrow> cstr \<Rightarrow> cstr" where
  "query_relay_state lib msg state =
     fold (\<lambda>f acc. if take 11 f = ''RelayState='' then Some (drop 11 f) else acc) (lasso_urlencoded_to_strings lib msg) state"

definition idff_succinct_id :: "(nat \<Rightarrow> 8 word) \<Rightarrow> 8 word list" where
  "idff_succinct_id a = map (\<lambda>i. a (2 + i)) [0..<20]"

definition idff_login_init_request ::
  "environment \<Rightarrow> message_io \<Rightarrow> string \<Rightarrow> 8 word list \<Rightarrow> lasso_login \<Rightarrow> string \<Rightarrow> int \<Rightarrow> (int \<times> lasso_login) option" where
  "idff_login_init_request env io uid stack lg response_msg response_http_method =
     (let p = lgn_parent lg; result = (\<lambda>rc p. Some (rc, lg\<lparr>lgn_parent := p\<rparr>)) in
      if response_http_method \<noteq> LASSO_HTTP_METHOD_REDIRECT \<and> response_http_method \<noteq> LASSO_HTTP_METHOD_POST
      then result LASSO_PROFILE_ERROR_INVALID_HTTP_METHOD p
      else
        let redirect = response_http_method = LASSO_HTTP_METHOD_REDIRECT;
            p = (if redirect then p\<lparr>prf_msg_relayState := query_relay_state (env_lib env) response_msg (prf_msg_relayState p)\<rparr> else p)
        in case (if redirect then query_artifact (env_lib env) response_msg else Some response_msg) of
             None \<Rightarrow> result LASSO_PROFILE_ERROR_MISSING_ARTIFACT p
           | Some artifact_b64 \<Rightarrow>
               (case mio_base64_decode io artifact_b64 of
                  None \<Rightarrow> result LASSO_PROFILE_ERROR_INVALID_ARTIFACT p
                | Some decoded \<Rightarrow>
                    (let a = artifact_byte stack decoded in
                     if length decoded > 42 \<or> a 0 \<noteq> 0 \<or> a 1 \<noteq> 3 then result LASSO_PROFILE_ERROR_INVALID_ARTIFACT p
                     else case prf_server p of
                            None \<Rightarrow> None
                          | Some s \<Rightarrow>
                              (let p = p\<lparr>prf_remote_providerID :=
                                      lasso_server_get_providerID_from_hash env s (mio_base64_encode io (idff_succinct_id a))\<rparr>
                               in if prf_remote_providerID p = None then result LASSO_PROFILE_ERROR_MISSING_REMOTE_PROVIDERID p
                                  else result 0 (p\<lparr>prf_request := Some (IdffNode (SamlpRequest (lasso_samlp_request_new
                                         \<lparr>sra_RequestID := Some uid, sra_MajorVersion := LASSO_SAML_MAJOR_VERSION_N,
                                          sra_MinorVersion := LASSO_SAML_MINOR_VERSION_N,
                                          sra_IssueInstant := lasso_time_to_iso_8601_gmt (env_now env),
                                          spr_AssertionArtifact := Some artifact_b64\<rparr>)))\<rparr>)))))"

definition idff_login_build_request_msg :: "environment \<Rightarrow> message_io \<Rightarrow> lasso_login \<Rightarrow> int \<times> lasso_login" where
  "idff_login_build_request_msg env io lg =
     (let p = lasso_profile_clean_msg_info (lgn_parent lg); result = (\<lambda>rc p. (rc, lg\<lparr>lgn_parent := p\<rparr>)) in
      if prf_remote_providerID p = None then result LASSO_PROFILE_ERROR_MISSING_REMOTE_PROVIDERID p
      else let (rc, node, body) = soap_body env io p (prf_request p); p = p\<lparr>prf_request := node\<rparr> in
           if rc \<noteq> 0 then result rc p
           else let p = p\<lparr>prf_msg_body := body\<rparr> in
                case lasso_server_get_provider (prf_server p) (prf_remote_providerID p) of
                  None \<Rightarrow> result LASSO_SERVER_ERROR_PROVIDER_NOT_FOUND p
                | Some remote \<Rightarrow> result 0 (p\<lparr>prf_msg_url := lasso_provider_get_metadata_one remote ''SoapEndpoint''\<rparr>))"

definition idff_login_process_request_msg :: "environment \<Rightarrow> message_io \<Rightarrow> lasso_login \<Rightarrow> string \<Rightarrow> (int \<times> lasso_login) option" where
  "idff_login_process_request_msg env io lg request_msg =
     (let p = (lgn_parent lg)\<lparr>prf_request := from_soap env io request_msg\<rparr> in
      case prf_request p of
        None \<Rightarrow> Some (LASSO_PROFILE_ERROR_INVALID_MSG, lg\<lparr>lgn_parent := p\<rparr>)
      | Some (IdffNode (SamlpRequest r)) \<Rightarrow>
          Some (0, lg\<lparr>lgn_parent := p\<lparr>prf_artifact := spr_AssertionArtifact r\<rparr>, lgn_assertionArtifact := spr_AssertionArtifact r,
                      lgn_soap_request_msg := Some request_msg\<rparr>)
      | Some _ \<Rightarrow> None)"

text \<open>The answer: a status that waits in the session, or else the assertion, or the text that was kept with the artifact.  The
  text is put in whether or not it can be parsed.\<close>

definition answer_artifact :: "environment \<Rightarrow> login_io \<Rightarrow> lasso_profile \<Rightarrow> string \<Rightarrow> lasso_profile option" where
  "answer_artifact env lio p i =
     (let waiting = Option.bind (lasso_session_get_status (prf_session p) i) (lio_status_of lio);
          forget = (\<lambda>p. p\<lparr>prf_session := snd (lasso_session_remove_status (prf_session p) (Some i))\<rparr>);
          succeed = (\<lambda>n p. lasso_profile_set_response_status (map_response_assertions (\<lambda>l. l @ [n]) p) LASSO_SAML_STATUS_CODE_SUCCESS)
      in case (waiting, lasso_session_get_assertion (prf_session p) i, prf_artifact_message p) of
           (Some status, _, _) \<Rightarrow>
             (case prf_response p of
                Some (IdffNode (SamlpResponse r)) \<Rightarrow>
                  Some (forget (p\<lparr>prf_response := Some (IdffNode (SamlpResponse (r\<lparr>srs_Status := Some status\<rparr>)))\<rparr>))
              | _ \<Rightarrow> None)
         | (None, Some a, _) \<Rightarrow> map_option forget (succeed a p)
         | (None, None, Some m) \<Rightarrow> succeed (OtherAssertion m) p
         | (None, None, None) \<Rightarrow> Some p)"

definition verify_soap_request :: "environment \<Rightarrow> lasso_login \<Rightarrow> string \<Rightarrow> int" where
  "verify_soap_request env lg i =
     (let p = lgn_parent lg in
      if prf_session p = None then LASSO_PROFILE_ERROR_SESSION_NOT_FOUND
      else case lasso_server_get_provider (prf_server p) (Some i) of
             None \<Rightarrow> LASSO_PARAM_ERROR_BAD_TYPE_OR_NULL_OBJ
           | Some remote \<Rightarrow> lasso_provider_verify_signature (env_crypto env) (env_verify_signature env) (env_min_signature_method env)
               (env_xml_parse env) remote (lgn_soap_request_msg lg) ''RequestID'' LASSO_MESSAGE_FORMAT_SOAP)"

definition idff_login_build_response_msg ::
  "environment \<Rightarrow> message_io \<Rightarrow> login_io \<Rightarrow> string \<Rightarrow> lasso_login \<Rightarrow> cstr \<Rightarrow> (int \<times> lasso_login) option" where
  "idff_login_build_response_msg env io lio uid lg remote_providerID =
     (let p = lasso_profile_clean_msg_info (lgn_parent lg) in
      case request_head p of
        None \<Rightarrow> None
      | Some (requestID, major, minor) \<Rightarrow>
          (let response = (lasso_samlp_response_new env uid)\<lparr>spa_InResponseTo := requestID\<rparr>;
               response = (if major = 1 \<and> minor = 0 then response\<lparr>spa_MinorVersion := 0\<rparr> else response);
               p = p\<lparr>prf_response := Some (IdffNode (SamlpResponse response))\<rparr>;
               lg = lg\<lparr>lgn_parent := p\<rparr>;
               answered = (case remote_providerID of
                   None \<Rightarrow> map_option (\<lambda>p. (0, lg\<lparr>lgn_parent := p\<rparr>)) (lasso_profile_set_response_status p LASSO_SAML_STATUS_CODE_REQUEST_DENIED)
                 | Some i \<Rightarrow>
                     (let rc = verify_soap_request env lg i; p = p\<lparr>prf_remote_providerID := Some i\<rparr>;
                          lg = lg\<lparr>lgn_soap_request_msg := None\<rparr>
                      in map_option (\<lambda>p. (rc, lg\<lparr>lgn_parent := p\<rparr>))
                           (if rc \<noteq> 0 then lasso_profile_set_response_status p LASSO_SAML_STATUS_CODE_REQUEST_DENIED
                            else answer_artifact env lio p i)))
           in case answered of
                None \<Rightarrow> None
              | Some (_, lg) \<Rightarrow>
                  (let p = lgn_parent lg; (rc, node, body) = soap_body env io p (prf_response p); p = p\<lparr>prf_response := node\<rparr>
                   in if rc \<noteq> 0 then Some (rc, lg\<lparr>lgn_parent := p\<rparr>)
                      else Some (0, lg\<lparr>lgn_parent := p\<lparr>prf_msg_body := body\<rparr>\<rparr>))))"

section \<open>Receiving the response\<close>

definition samlp_status_rc :: "samlp_status option \<Rightarrow> int" where
  "samlp_status_rc status =
     (case Option.bind status sst_StatusCode of
        Some (SamlpStatusCode (Some v) sub) \<Rightarrow>
          if v = LASSO_SAML_STATUS_CODE_SUCCESS then 0
          else if v = LASSO_SAML_STATUS_CODE_REQUEST_DENIED then LASSO_LOGIN_ERROR_REQUEST_DENIED
          else if v = LASSO_SAML_STATUS_CODE_RESPONDER
          then (case Option.bind sub ssc_Value of
                  Some w \<Rightarrow> if w = LASSO_LIB_STATUS_CODE_FEDERATION_DOES_NOT_EXIST then LASSO_LOGIN_ERROR_FEDERATION_NOT_FOUND
                            else if w = LASSO_LIB_STATUS_CODE_UNKNOWN_PRINCIPAL then LASSO_LOGIN_ERROR_UNKNOWN_PRINCIPAL
                            else LASSO_LOGIN_ERROR_STATUS_NOT_SUCCESS
                | None \<Rightarrow> LASSO_LOGIN_ERROR_STATUS_NOT_SUCCESS)
          else LASSO_LOGIN_ERROR_STATUS_NOT_SUCCESS
      | _ \<Rightarrow> LASSO_PROFILE_ERROR_MISSING_STATUS_CODE)"

text \<open>The name identifier of the authentication statement or of the attribute statement.\<close>

definition assertion_name :: "saml_assertion \<Rightarrow> saml_name_identifier option" where
  "assertion_name a =
     (case Option.bind (Option.bind (sma_AuthenticationStatement a) sst_Subject) id of
        Some n \<Rightarrow> Some n
      | None \<Rightarrow> Option.bind (Option.bind (sma_AttributeStatement a) sst_Subject) id)"

text \<open>When the signature of the message did not verify, that of the assertion is tried.\<close>

definition check_saml_assertion :: "environment \<Rightarrow> lasso_profile \<Rightarrow> lasso_provider \<Rightarrow> saml_assertion \<Rightarrow> int \<times> lasso_profile" where
  "check_saml_assertion env p idp a =
     (if prf_signature_status p = 0 then (0, p)
      else case sma_original_xmlnode a of
             None \<Rightarrow> (LASSO_PROFILE_ERROR_MISSING_ISSUER, p)
           | Some node \<Rightarrow>
               (case xmlGetProp node ''Issuer'' of
                  None \<Rightarrow> (LASSO_PROFILE_ERROR_MISSING_ISSUER, p)
                | Some issuer \<Rightarrow>
                    if Some issuer \<noteq> prf_remote_providerID p then (LASSO_PROFILE_ERROR_INVALID_ISSUER, p)
                    else let p = p\<lparr>prf_signature_status :=
                               lasso_provider_verify_saml_signature (env_crypto env) (env_verify_signature env) idp (Some node)\<rparr>
                         in (prf_signature_status p, p)))"

definition idff_login_process_response_status_and_assertion :: "environment \<Rightarrow> lasso_login \<Rightarrow> (int \<times> lasso_login) option" where
  "idff_login_process_response_status_and_assertion env lg =
     (let p = lgn_parent lg; result = (\<lambda>rc p. Some (rc, lg\<lparr>lgn_parent := p\<rparr>)) in
      case samlp_response_of p of
        None \<Rightarrow> None
      | Some response \<Rightarrow>
          if samlp_status_rc (srs_Status response) \<noteq> 0 then result (samlp_status_rc (srs_Status response)) p
          else case srs_Assertion response of
                 [] \<Rightarrow> result 0 p
               | SamlAssertion a # _ \<Rightarrow>
                   (case lasso_server_get_provider (prf_server p) (prf_remote_providerID p) of
                      None \<Rightarrow> result LASSO_SERVER_ERROR_PROVIDER_NOT_FOUND p
                    | Some idp \<Rightarrow>
                        if lgn_request_id lg \<noteq> None \<and> sma_InResponseTo a \<noteq> Some (lgn_request_id lg)
                        then result LASSO_LOGIN_ERROR_ASSERTION_DOES_NOT_MATCH_REQUEST_ID p
                        else case check_saml_assertion env p idp a of
                               (rc, p) \<Rightarrow>
                                 if rc \<noteq> 0 then result rc p
                                 else case assertion_name a of
                                        None \<Rightarrow> result LASSO_PROFILE_ERROR_NAME_IDENTIFIER_NOT_FOUND (p\<lparr>prf_nameIdentifier := None\<rparr>)
                                      | Some n \<Rightarrow> result 0 (p\<lparr>prf_nameIdentifier := Some (SamlNameIdentifier n)\<rparr>))
               | _ \<Rightarrow> None)"

definition idff_login_process_authn_response_msg ::
  "environment \<Rightarrow> idff_io \<Rightarrow> lasso_login \<Rightarrow> string \<Rightarrow> (int \<times> lasso_login) option" where
  "idff_login_process_authn_response_msg env iio lg authn_response_msg =
     (let (format, response) = lasso_node_init_from_message env (iio_authn_response iio)
            (\<lambda>_. (False, lasso_lib_authn_response_new env [] None lasso_lib_authn_request_new)) authn_response_msg;
          p = (lgn_parent lg)\<lparr>prf_remote_providerID := None, prf_response := Some (IdffNode (LibAuthnResponse response))\<rparr>;
          result = (\<lambda>rc p. Some (rc, lg\<lparr>lgn_parent := p\<rparr>))
      in if bad_format format then result LASSO_PROFILE_ERROR_INVALID_MSG p
         else
           let p = p\<lparr>prf_remote_providerID := lap_ProviderID response\<rparr> in
           case lasso_server_get_provider (prf_server p) (prf_remote_providerID p) of
             None \<Rightarrow> result LASSO_SERVER_ERROR_PROVIDER_NOT_FOUND p
           | Some remote \<Rightarrow>
               (let p = p\<lparr>prf_msg_relayState := lap_RelayState response,
                          prf_signature_status := verify_message env remote authn_response_msg ''ResponseID'' format\<rparr>
                in if prf_signature_status p \<noteq> 0 then result (prf_signature_status p) p
                   else idff_login_process_response_status_and_assertion env (lg\<lparr>lgn_parent := p\<rparr>)))"

text \<open>The answer to an artifact; \<open>strict\<close> is \<^verbatim>\<open>lasso_flag_strict_checking\<close>.\<close>

definition answers_request :: "bool \<Rightarrow> lasso_profile \<Rightarrow> cstr \<Rightarrow> bool" where
  "answers_request strict p response_to =
     (if prf_request p = None \<and> \<not> strict then True
      else
        let request_id = (case prf_request p of Some (IdffNode (SamlpRequest r)) \<Rightarrow> sra_RequestID r | _ \<Rightarrow> None)
        in \<not> (request_id = None \<and> response_to \<noteq> None \<or> prf_request p \<noteq> None \<and> response_to = None \<or>
              request_id \<noteq> None \<and> response_to \<noteq> None \<and> request_id \<noteq> response_to))"

definition idff_login_process_response_msg ::
  "environment \<Rightarrow> message_io \<Rightarrow> bool \<Rightarrow> lasso_login \<Rightarrow> string \<Rightarrow> (int \<times> lasso_login) option" where
  "idff_login_process_response_msg env io strict lg response_msg =
     (let p = (lgn_parent lg)\<lparr>prf_response := from_soap env io response_msg\<rparr> in
      case samlp_response_of p of
        None \<Rightarrow> Some (LASSO_PROFILE_ERROR_INVALID_MSG, lg\<lparr>lgn_parent := p\<lparr>prf_response := None\<rparr>\<rparr>)
      | Some response \<Rightarrow>
          if \<not> answers_request strict p (spa_InResponseTo response)
          then Some (LASSO_PROFILE_ERROR_RESPONSE_DOES_NOT_MATCH_REQUEST, lg\<lparr>lgn_parent := p\<rparr>)
          else
            let status = (case (srs_original_xmlnode response, prf_remote_providerID p) of
                  (Some node, Some i) \<Rightarrow>
                    (case lasso_server_get_provider (prf_server p) (Some i) of
                       None \<Rightarrow> LASSO_PARAM_ERROR_BAD_TYPE_OR_NULL_OBJ
                     | Some idp \<Rightarrow> lasso_provider_verify_saml_signature (env_crypto env) (env_verify_signature env) idp (Some node))
                | _ \<Rightarrow> LASSO_DS_ERROR_SIGNATURE_VERIFICATION_FAILED)
            in idff_login_process_response_status_and_assertion env (lg\<lparr>lgn_parent := p\<lparr>prf_signature_status := status\<rparr>\<rparr>))"

text \<open>The acceptance, after the session and the identity were created where they are missing.  An assertion of another class, or
  without an authentication statement, is read without a test.\<close>

definition accepted_federation :: "string \<Rightarrow> saml_statement \<Rightarrow> saml_name_identifier \<Rightarrow> lasso_federation" where
  "accepted_federation i st ni =
     (case sst_IDPProvidedNameIdentifier st of
        Some idp_ni \<Rightarrow> \<lparr>fed_remote_providerID = i, fed_local_nameIdentifier = Some (SamlNameIdentifier ni),
                         fed_remote_nameIdentifier = Some (SamlNameIdentifier idp_ni)\<rparr>
      | None \<Rightarrow> \<lparr>fed_remote_providerID = i, fed_local_nameIdentifier = None,
                  fed_remote_nameIdentifier = Some (SamlNameIdentifier ni)\<rparr>)"

definition idff_login_accept_sso :: "message_io \<Rightarrow> lasso_login \<Rightarrow> (int \<times> lasso_login) option" where
  "idff_login_accept_sso io lg =
     (let p = lgn_parent lg;
          p = p\<lparr>prf_identity := (case prf_identity p of None \<Rightarrow> Some lasso_identity_new | i \<Rightarrow> i),
                prf_session := (case prf_session p of None \<Rightarrow> Some lasso_session_new | s \<Rightarrow> s)\<rparr>;
          result = (\<lambda>rc p. Some (rc, lg\<lparr>lgn_parent := p\<rparr>))
      in if prf_response p = None then result LASSO_PROFILE_ERROR_MISSING_RESPONSE p
         else case samlp_response_of p of
           None \<Rightarrow> None
         | Some response \<Rightarrow>
             (case srs_Assertion response of
                [] \<Rightarrow> result LASSO_PROFILE_ERROR_MISSING_ASSERTION p
              | SamlAssertion a # _ \<Rightarrow>
                  (let p = p\<lparr>prf_session := snd (lasso_session_add_assertion (mio_thin_sessions io) (prf_session p)
                              (prf_remote_providerID p) (Some (SamlAssertion a)))\<rparr>
                   in case sma_AuthenticationStatement a of
                        None \<Rightarrow> None
                      | Some st \<Rightarrow>
                          (case Option.bind (sst_Subject st) id of
                             None \<Rightarrow> result LASSO_PROFILE_ERROR_NAME_IDENTIFIER_NOT_FOUND p
                           | Some ni \<Rightarrow>
                               if sni_Format ni = Some LASSO_LIB_NAME_IDENTIFIER_FORMAT_FEDERATED
                               then (case prf_remote_providerID p of
                                       None \<Rightarrow> None
                                     | Some i \<Rightarrow> result 0 (p\<lparr>prf_identity :=
                                         snd (lasso_identity_add_federation (prf_identity p) (Some (accepted_federation i st ni)))\<rparr>))
                               else result 0 p))
              | _ \<Rightarrow> None))"

section \<open>The functions that serve both protocols\<close>

text \<open>The test \<^verbatim>\<open>IF_SAML2\<close>: the protocol of the server itself decides.\<close>

definition server_is_saml2 :: "lasso_profile \<Rightarrow> bool" where
  "server_is_saml2 p = (case prf_server p of None \<Rightarrow> False | Some s \<Rightarrow> prv_conformance (srv_parent s) = LASSO_PROTOCOL_SAML_2_0)"

definition lasso_login_process_authn_request_msg ::
  "environment \<Rightarrow> message_io \<Rightarrow> idff_io \<Rightarrow> string \<Rightarrow> lasso_login \<Rightarrow> cstr \<Rightarrow> (int \<times> lasso_login) option" where
  "lasso_login_process_authn_request_msg env io iio uid lg msg =
     (if server_is_saml2 (lgn_parent lg) then Some (lasso_saml20_login_process_authn_request_msg env io uid lg msg)
      else idff_login_process_authn_request_msg env iio uid lg msg)"

definition lasso_login_build_authn_response_msg ::
  "environment \<Rightarrow> message_io \<Rightarrow> 8 word list \<Rightarrow> lasso_login \<Rightarrow> (int \<times> lasso_login) option" where
  "lasso_login_build_authn_response_msg env io rnd lg =
     (if server_is_saml2 (lgn_parent lg)
      then lasso_saml20_login_build_authn_response_msg env io rnd (lg\<lparr>lgn_parent := lasso_profile_clean_msg_info (lgn_parent lg)\<rparr>)
      else idff_login_build_authn_response_msg env io lg)"

end
