(* ===== verification/Lasso_LoginIdffLaws.thy ===== *)
theory Lasso_LoginIdffLaws
  imports Lasso_LoginIdff
begin

text \<open>
  What is proved of the single sign-on of ID-FF 1.2: what a service provider may conclude from a response that it accepts, when an
  identity provider creates a federation and gives out an assertion, that both ends agree on the principal afterwards, and
  that artifacts lead back to their sender.
\<close>

section \<open>Laws\<close>

text \<open>What the checks of a response establish.\<close>

lemma check_saml_assertion_ok:
  assumes "check_saml_assertion env p idp a = (0, p')"
  shows "prf_signature_status p' = 0" "prf_remote_providerID p' = prf_remote_providerID p" "prf_server p' = prf_server p"
    "prf_response p' = prf_response p" "prf_request p' = prf_request p"
    and "prf_signature_status p = 0 \<or> (\<exists>node. sma_original_xmlnode a = Some node \<and> xmlGetProp node ''Issuer'' = prf_remote_providerID p \<and>
      lasso_provider_verify_saml_signature (env_crypto env) (env_verify_signature env) idp (Some node) = 0)"
  using assms by (auto simp: check_saml_assertion_def Let_def split: if_splits option.splits)

definition response_accepted :: "environment \<Rightarrow> lasso_login \<Rightarrow> lasso_login \<Rightarrow> samlp_response \<Rightarrow> saml_assertion \<Rightarrow> bool" where
  "response_accepted env lg lg' response a \<longleftrightarrow>
     (\<exists>i idp n. prf_remote_providerID (lgn_parent lg) = Some i \<and> prf_remote_providerID (lgn_parent lg') = Some i \<and>
        lasso_server_get_provider (prf_server (lgn_parent lg)) (Some i) = Some idp \<and>
        samlp_status_rc (srs_Status response) = 0 \<and>
        (lgn_request_id lg \<noteq> None \<longrightarrow> sma_InResponseTo a = Some (lgn_request_id lg)) \<and>
        assertion_name a = Some n \<and> prf_nameIdentifier (lgn_parent lg') = Some (SamlNameIdentifier n) \<and>
        prf_signature_status (lgn_parent lg') = 0 \<and>
        (prf_signature_status (lgn_parent lg) = 0 \<or> (\<exists>node. sma_original_xmlnode a = Some node \<and> xmlGetProp node ''Issuer'' = Some i \<and>
           lasso_provider_verify_saml_signature (env_crypto env) (env_verify_signature env) idp (Some node) = 0)))"

lemma response_checked:
  assumes r: "idff_login_process_response_status_and_assertion env lg = Some (0, lg')"
    and s: "samlp_response_of (lgn_parent lg) = Some response" and a: "srs_Assertion response = SamlAssertion a # rest"
  shows "response_accepted env lg lg' response a \<and> prf_response (lgn_parent lg') = prf_response (lgn_parent lg)"
proof -
  have st: "samlp_status_rc (srs_Status response) = 0"
    using r s by (auto simp: idff_login_process_response_status_and_assertion_def Let_def split: if_splits)
  obtain idp where idp: "lasso_server_get_provider (prf_server (lgn_parent lg)) (prf_remote_providerID (lgn_parent lg)) = Some idp"
    using r s a st by (auto simp: idff_login_process_response_status_and_assertion_def Let_def split: option.splits)
  then obtain i where i: "prf_remote_providerID (lgn_parent lg) = Some i"
    by (auto simp: lasso_server_get_provider_def split: option.splits)
  obtain p where c: "check_saml_assertion env (lgn_parent lg) idp a = (0, p)"
    and q: "\<not> (lgn_request_id lg \<noteq> None \<and> sma_InResponseTo a \<noteq> Some (lgn_request_id lg))"
    and n: "(case assertion_name a of
       None \<Rightarrow> Some (LASSO_PROFILE_ERROR_NAME_IDENTIFIER_NOT_FOUND, lg\<lparr>lgn_parent := p\<lparr>prf_nameIdentifier := None\<rparr>\<rparr>)
     | Some n \<Rightarrow> Some (0, lg\<lparr>lgn_parent := p\<lparr>prf_nameIdentifier := Some (SamlNameIdentifier n)\<rparr>\<rparr>)) = Some (0, lg')"
    using r s a st idp
    by (auto simp: idff_login_process_response_status_and_assertion_def Let_def simp del: not_None_eq split: if_splits prod.splits)
  from n obtain m where m: "assertion_name a = Some m" "lg' = lg\<lparr>lgn_parent := p\<lparr>prf_nameIdentifier := Some (SamlNameIdentifier m)\<rparr>\<rparr>"
    by (auto split: option.splits)
  show ?thesis using check_saml_assertion_ok[OF c] q m i idp st by (auto simp: response_accepted_def)
qed

lemma check_saml_assertion_frame:
  "check_saml_assertion env p idp a = (rc, p') \<Longrightarrow> prf_response p' = prf_response p"
  by (auto simp: check_saml_assertion_def Let_def split: if_splits option.splits)

lemma status_and_assertion_response:
  "idff_login_process_response_status_and_assertion env lg = Some (rc, lg') \<Longrightarrow> prf_response (lgn_parent lg') = prf_response (lgn_parent lg)"
  by (auto simp: idff_login_process_response_status_and_assertion_def Let_def check_saml_assertion_frame
      split: option.splits if_splits list.splits assertion_node.splits prod.splits)

text \<open>C15: an answer to an artifact is accepted with an assertion only if it answers the request that was sent, its status is success, the
  assertion answers the authentication request that was sent, and the signature of the identity provider that the artifact
  named verifies on the answer or on the assertion, which then has that provider as its issuer; the principal
  is the one that the assertion names.\<close>

theorem idff_artifact_response_verified:
  assumes "idff_login_process_response_msg env io strict lg msg = Some (0, lg')"
    and "samlp_response_of (lgn_parent lg') = Some response" and "srs_Assertion response = SamlAssertion a # rest"
    and "prf_request (lgn_parent lg) = Some (IdffNode (SamlpRequest request))"
  shows "\<exists>i idp n. prf_remote_providerID (lgn_parent lg) = Some i \<and>
    lasso_server_get_provider (prf_server (lgn_parent lg)) (Some i) = Some idp \<and>
    spa_InResponseTo response = sra_RequestID request \<and> sra_RequestID request \<noteq> None \<and>
    samlp_status_rc (srs_Status response) = 0 \<and> (lgn_request_id lg \<noteq> None \<longrightarrow> sma_InResponseTo a = Some (lgn_request_id lg)) \<and>
    (lasso_provider_verify_saml_signature (env_crypto env) (env_verify_signature env) idp (srs_original_xmlnode response) = 0 \<or>
     (\<exists>node. sma_original_xmlnode a = Some node \<and> xmlGetProp node ''Issuer'' = Some i \<and>
        lasso_provider_verify_saml_signature (env_crypto env) (env_verify_signature env) idp (Some node) = 0)) \<and>
    prf_signature_status (lgn_parent lg') = 0 \<and>
    assertion_name a = Some n \<and> prf_nameIdentifier (lgn_parent lg') = Some (SamlNameIdentifier n)"
proof -
  define p where "p = (lgn_parent lg)\<lparr>prf_response := from_soap env io msg\<rparr>"
  obtain response' where r': "samlp_response_of p = Some response'" and ok: "answers_request strict p (spa_InResponseTo response')"
    using assms(1) unfolding idff_login_process_response_msg_def Let_def p_def[symmetric] by (auto split: option.splits if_splits)
  define status where "status = (case (srs_original_xmlnode response', prf_remote_providerID p) of
      (Some node, Some i) \<Rightarrow>
        (case lasso_server_get_provider (prf_server p) (Some i) of
           None \<Rightarrow> LASSO_PARAM_ERROR_BAD_TYPE_OR_NULL_OBJ
         | Some idp \<Rightarrow> lasso_provider_verify_saml_signature (env_crypto env) (env_verify_signature env) idp (Some node))
    | _ \<Rightarrow> LASSO_DS_ERROR_SIGNATURE_VERIFICATION_FAILED)"
  define lg1 where "lg1 = lg\<lparr>lgn_parent := p\<lparr>prf_signature_status := status\<rparr>\<rparr>"
  have f: "idff_login_process_response_status_and_assertion env lg1 = Some (0, lg')"
    using assms(1) r' ok unfolding idff_login_process_response_msg_def Let_def p_def[symmetric] lg1_def status_def by simp
  have s1: "samlp_response_of (lgn_parent lg1) = Some response'" using r' by (simp add: lg1_def samlp_response_of_def)
  have same: "prf_response (lgn_parent lg') = prf_response (lgn_parent lg1)" by (rule status_and_assertion_response[OF f])
  then have "response' = response" using assms(2) s1 by (simp add: samlp_response_of_def)
  note acc = response_checked[OF f s1[unfolded this] assms(3), THEN conjunct1, unfolded response_accepted_def]
  have q: "spa_InResponseTo response = sra_RequestID request \<and> sra_RequestID request \<noteq> None"
    using ok assms(4) \<open>response' = response\<close> by (cases "spa_InResponseTo response"; cases "sra_RequestID request") (auto simp: answers_request_def p_def)
  from acc obtain i idp n where i: "prf_remote_providerID (lgn_parent lg) = Some i"
      "lasso_server_get_provider (prf_server (lgn_parent lg)) (Some i) = Some idp" by (auto simp: lg1_def p_def)
  have "status = 0 \<Longrightarrow> lasso_provider_verify_saml_signature (env_crypto env) (env_verify_signature env) idp (srs_original_xmlnode response) = 0"
    using i \<open>response' = response\<close> by (simp add: status_def p_def split: option.splits)
  with acc q i show ?thesis by (auto simp: lg1_def p_def)
qed

text \<open>An authentication response from the browser is accepted with an assertion only if the signature of the provider that it
  names verifies on the message, its status is success and the assertion answers the request that was sent.\<close>

theorem idff_post_response_verified:
  assumes "idff_login_process_authn_response_msg env iio lg msg = Some (0, lg')"
    and "samlp_response_of (lgn_parent lg') = Some response" and "srs_Assertion response = SamlAssertion a # rest"
  shows "\<exists>i idp format n. prf_remote_providerID (lgn_parent lg') = Some i \<and>
    lasso_server_get_provider (prf_server (lgn_parent lg)) (Some i) = Some idp \<and>
    verify_message env idp msg ''ResponseID'' format = 0 \<and> \<not> bad_format format \<and>
    samlp_status_rc (srs_Status response) = 0 \<and> (lgn_request_id lg \<noteq> None \<longrightarrow> sma_InResponseTo a = Some (lgn_request_id lg)) \<and>
    assertion_name a = Some n \<and> prf_nameIdentifier (lgn_parent lg') = Some (SamlNameIdentifier n)"
proof -
  obtain format resp where parsed: "lasso_node_init_from_message env (iio_authn_response iio)
      (\<lambda>_. (False, lasso_lib_authn_response_new env [] None lasso_lib_authn_request_new)) msg = (format, resp)" by (cases "lasso_node_init_from_message env (iio_authn_response iio)
      (\<lambda>_. (False, lasso_lib_authn_response_new env [] None lasso_lib_authn_request_new)) msg")
  define p where "p = (lgn_parent lg)\<lparr>prf_response := Some (IdffNode (LibAuthnResponse resp)), prf_remote_providerID := lap_ProviderID resp\<rparr>"
  have g: "\<not> bad_format format" using assms(1) parsed by (auto simp: idff_login_process_authn_response_msg_def split: if_splits)
  have e: "(lgn_parent lg)\<lparr>prf_remote_providerID := None, prf_response := Some (IdffNode (LibAuthnResponse resp))\<rparr>
      \<lparr>prf_remote_providerID := lap_ProviderID resp\<rparr> = p" by (simp add: p_def)
  obtain idp where idp: "lasso_server_get_provider (prf_server p) (prf_remote_providerID p) = Some idp"
    using assms(1) g unfolding idff_login_process_authn_response_msg_def parsed Let_def prod.case e by (auto split: option.splits)
  define q where "q = p\<lparr>prf_msg_relayState := lap_RelayState resp, prf_signature_status := verify_message env idp msg ''ResponseID'' format\<rparr>"
  have v: "verify_message env idp msg ''ResponseID'' format = 0"
    and f: "idff_login_process_response_status_and_assertion env (lg\<lparr>lgn_parent := q\<rparr>) = Some (0, lg')"
    using assms(1) g idp unfolding idff_login_process_authn_response_msg_def parsed Let_def prod.case e q_def by (auto split: if_splits)
  have s: "samlp_response_of (lgn_parent (lg\<lparr>lgn_parent := q\<rparr>)) = Some response"
    using assms(2) status_and_assertion_response[OF f] by (simp add: samlp_response_of_def)
  show ?thesis using response_checked[OF f s assms(3), THEN conjunct1] v g idp
    unfolding response_accepted_def by (auto simp: q_def p_def)
qed

text \<open>A federation that the validation of a request creates.\<close>

lemma set_response_status_frame:
  "lasso_profile_set_response_status p v = Some p' \<Longrightarrow> prf_identity p' = prf_identity p \<and> prf_session p' = prf_session p \<and>
     prf_signature_status p' = prf_signature_status p \<and> prf_request p' = prf_request p \<and>
     prf_server p' = prf_server p \<and> prf_remote_providerID p' = prf_remote_providerID p \<and> prf_nameIdentifier p' = prf_nameIdentifier p"
  by (auto simp: lasso_profile_set_response_status_def split: option.splits message_node.splits idff_node.splits)

lemma answer_request_frame:
  "answer_request v rc lg = Some (rc', lg') \<Longrightarrow> rc' = rc \<and> prf_identity (lgn_parent lg') = prf_identity (lgn_parent lg)"
  by (auto simp: answer_request_def dest!: set_response_status_frame)

lemma federation_with_new_identity:
  "federation_with (p\<lparr>prf_identity := Some lasso_identity_new\<rparr>) i = None"
  by (simp add: federation_with_def lasso_identity_new_def ght_lookup_def)

lemma federation_with_identity: "prf_identity p = prf_identity q \<Longrightarrow> federation_with p i = federation_with q i"
  by (simp add: federation_with_def)

lemma federation_with_added:
  "prf_identity p \<noteq> None \<Longrightarrow> federation_with (p\<lparr>prf_identity := snd (lasso_identity_add_federation (prf_identity p) (Some f))\<rparr>) j =
     (if j = fed_remote_providerID f then Some f else federation_with p j)"
  by (auto simp: federation_with_def lasso_identity_add_federation_def ght.lookup_insert)

lemma process_federation_new:
  assumes "idff_login_process_federation uid lg consent = Some (rc, lg')"
    and "federation_with (lgn_parent lg) i = None" and "federation_with (lgn_parent lg') i = Some f"
  shows "\<exists>r s. lib_authn_request_of (lgn_parent lg) = Some r \<and> prf_server (lgn_parent lg) = Some s \<and> rc = 0 \<and>
    prf_remote_providerID (lgn_parent lg) = Some i \<and> f = new_local_federation uid s i \<and>
    (consent \<or> lib_consent_given (lar_consent r)) \<and>
    lar_NameIDPolicy r \<in> {Some LASSO_LIB_NAMEID_POLICY_TYPE_FEDERATED, Some LASSO_LIB_NAMEID_POLICY_TYPE_ANY} \<and>
    prf_nameIdentifier (lgn_parent lg') = fed_local_nameIdentifier f"
proof -
  define p where "p = (if prf_identity (lgn_parent lg) = None then (lgn_parent lg)\<lparr>prf_identity := Some lasso_identity_new\<rparr> else lgn_parent lg)"
  have id: "prf_identity p \<noteq> None" by (simp add: p_def)
  have none: "federation_with p i = None" using assms(2) by (simp add: p_def federation_with_new_identity)
  have fr: "lib_authn_request_of p = lib_authn_request_of (lgn_parent lg)" "prf_server p = prf_server (lgn_parent lg)"
    "prf_remote_providerID p = prf_remote_providerID (lgn_parent lg)"
    by (simp_all add: p_def lib_authn_request_of_def)
  obtain r where r: "lib_authn_request_of (lgn_parent lg) = Some r"
    using assms(1) unfolding idff_login_process_federation_def Let_def p_def[symmetric] fr by (cases "lib_authn_request_of (lgn_parent lg)") auto
  define policy where "policy = (case lar_NameIDPolicy r of None \<Rightarrow> LASSO_LIB_NAMEID_POLICY_TYPE_NONE | Some v \<Rightarrow> v)"
  have unchanged: False if "prf_identity (lgn_parent lg') = prf_identity p" using federation_with_identity[OF that, of i] none assms(3) by simp
  note u = assms(1)[unfolded idff_login_process_federation_def Let_def p_def[symmetric] fr r option.case policy_def[symmetric]]
  have p1: "policy \<noteq> LASSO_LIB_NAMEID_POLICY_TYPE_ONE_TIME"
  proof
    assume "policy = LASSO_LIB_NAMEID_POLICY_TYPE_ONE_TIME"
    then have "lg' = lg\<lparr>lgn_parent := p, lgn_nameIDPolicy := Some policy\<rparr>" using u by simp
    then show False by (intro unchanged) simp
  qed
  note u1 = u[unfolded if_not_P[OF p1]]
  obtain j where j: "prf_remote_providerID (lgn_parent lg) = Some j" using u1 by (cases "prf_remote_providerID (lgn_parent lg)") simp_all
  note u2 = u1[unfolded j option.case]
  have p2: "policy \<noteq> LASSO_LIB_NAMEID_POLICY_TYPE_NONE"
  proof
    assume "policy = LASSO_LIB_NAMEID_POLICY_TYPE_NONE"
    then show False using u2 unchanged
      by (cases "federation_with p j") (auto simp: use_federation_def dest!: answer_request_frame)
  qed
  note u3 = u2[unfolded if_not_P[OF p2]]
  have p4: "\<not> (policy \<noteq> LASSO_LIB_NAMEID_POLICY_TYPE_FEDERATED \<and> policy \<noteq> LASSO_LIB_NAMEID_POLICY_TYPE_ANY)"
  proof
    assume "policy \<noteq> LASSO_LIB_NAMEID_POLICY_TYPE_FEDERATED \<and> policy \<noteq> LASSO_LIB_NAMEID_POLICY_TYPE_ANY"
    then have "lg' = lg\<lparr>lgn_parent := p, lgn_nameIDPolicy := Some policy\<rparr>" using u3 by simp
    then show False by (intro unchanged) simp
  qed
  then have p3: "policy = LASSO_LIB_NAMEID_POLICY_TYPE_FEDERATED \<or> policy = LASSO_LIB_NAMEID_POLICY_TYPE_ANY" by blast
  note u4 = u3[unfolded if_not_P[OF p4]]
  have pol: "lar_NameIDPolicy r = Some policy" using p2 by (auto simp: policy_def split: option.splits)
  obtain ask where ask: "idff_login_must_ask_for_consent_private p = Some ask"
    using u4 by (cases "idff_login_must_ask_for_consent_private p") simp_all
  note u5 = u4[unfolded ask option.case]
  have c: "\<not> (ask \<and> \<not> consent)"
  proof
    assume "ask \<and> \<not> consent"
    then show False using u5 unchanged
      by (cases "policy = LASSO_LIB_NAMEID_POLICY_TYPE_ANY") (auto dest!: answer_request_frame)
  qed
  note v = u5[unfolded if_not_P[OF c]]
  have fj: "federation_with p j = None"
  proof (rule ccontr)
    assume "federation_with p j \<noteq> None"
    then obtain g where "federation_with p j = Some g" by blast
    then have "lg' = lg\<lparr>lgn_nameIDPolicy := Some policy, lgn_parent := p\<lparr>prf_nameIdentifier := fed_local_nameIdentifier g\<rparr>\<rparr>"
      using v by (simp add: use_federation_def)
    then show False by (intro unchanged) simp
  qed
  obtain s where s: "prf_server (lgn_parent lg) = Some s" using v fj by (cases "prf_server (lgn_parent lg)") simp_all
  define g where "g = new_local_federation uid s j"
  have lg': "rc = 0" "lg' = (lg\<lparr>lgn_nameIDPolicy := Some policy, lgn_parent := p\<lparr>prf_identity :=
      snd (lasso_identity_add_federation (prf_identity p) (Some g)), prf_nameIdentifier := fed_local_nameIdentifier g\<rparr>\<rparr>)"
    using v by (auto simp: fj s use_federation_def g_def)
  have "federation_with (lgn_parent lg') i = (if i = fed_remote_providerID g then Some g else federation_with p i)"
    using federation_with_added[OF id, of g i] by (simp add: lg'(2) federation_with_def)
  then have ij: "i = j" "f = g" using none assms(3)
    by (auto simp: g_def new_local_federation_def lasso_federation_build_local_name_identifier_def split: if_splits)
  have cons: "consent \<or> lib_consent_given (lar_consent r)"
  proof -
    have n: "\<not> (policy = LASSO_LIB_NAMEID_POLICY_TYPE_NONE \<or> policy = LASSO_LIB_NAMEID_POLICY_TYPE_ONE_TIME)" using p1 p2 by blast
    obtain d where d: "prf_identity p = Some d" using id by blast
    have "ask = (\<not> lib_consent_given (lar_consent r))"
      using ask[unfolded idff_login_must_ask_for_consent_private_def fr r option.case pol if_not_P[OF n] if_not_P[OF p4] d j prod.case] fj
      by simp
    with c show ?thesis by blast
  qed
  have "lar_NameIDPolicy r \<in> {Some LASSO_LIB_NAMEID_POLICY_TYPE_FEDERATED, Some LASSO_LIB_NAMEID_POLICY_TYPE_ANY}"
    unfolding pol using p3 by blast
  moreover have "prf_nameIdentifier (lgn_parent lg') = fed_local_nameIdentifier f" by (simp add: lg'(2) ij)
  ultimately show ?thesis using r s lg'(1) j ij cons unfolding g_def by blast
qed

text \<open>C17: the validation of a request creates a federation only for a principal who was authenticated, with the provider that asked, when
  it asked for one, and with a consent that the identity provider obtained or that the request carries.\<close>

theorem idff_federation_needs_consent:
  assumes "idff_login_validate_request_msg uid lg authentication_result is_consent_obtained = Some (rc, lg')"
    and "federation_with (lgn_parent lg) i = None" and "federation_with (lgn_parent lg') i = Some f"
  shows "authentication_result \<and> rc = 0 \<and> prf_remote_providerID (lgn_parent lg) = Some i \<and>
    (\<exists>r s. lib_authn_request_of (lgn_parent lg) = Some r \<and> prf_server (lgn_parent lg) = Some s \<and>
       f = new_local_federation uid s i \<and> (is_consent_obtained \<or> lib_consent_given (lar_consent r)) \<and>
       lar_NameIDPolicy r \<in> {Some LASSO_LIB_NAMEID_POLICY_TYPE_FEDERATED, Some LASSO_LIB_NAMEID_POLICY_TYPE_ANY})"
proof -
  have unchanged: False if "prf_identity (lgn_parent lg') = prf_identity (lgn_parent lg)"
    using federation_with_identity[OF that, of i] assms(2,3) by simp
  have a: authentication_result
    using assms(1) unchanged by (auto simp: idff_login_validate_request_msg_def Let_def dest!: answer_request_frame split: if_splits)
  have z: "prf_signature_status (lgn_parent lg) = 0"
    using assms(1) unchanged by (auto simp: idff_login_validate_request_msg_def Let_def dest!: answer_request_frame split: if_splits)
  obtain ret lg1 where f: "idff_login_process_federation uid lg is_consent_obtained = Some (ret, lg1)"
    using assms(1) a z by (auto simp: idff_login_validate_request_msg_def Let_def split: option.splits)
  have rest: "(if ret \<noteq> 0 then Some (ret, lg1) else answer_request LASSO_SAML_STATUS_CODE_SUCCESS 0 lg1) = Some (rc, lg')"
    using assms(1) a z f by (simp add: idff_login_validate_request_msg_def)
  then have id: "prf_identity (lgn_parent lg') = prf_identity (lgn_parent lg1)"
    by (auto dest: answer_request_frame split: if_splits)
  note new = process_federation_new[OF f assms(2), of f, unfolded federation_with_identity[OF id[symmetric], of i], OF assms(3)]
  then have "ret = 0" by blast
  then have "rc = 0" using rest by (auto dest: answer_request_frame)
  with a new show ?thesis by blast
qed

text \<open>The verification of a request leaves no trace in the profile: whatever it says, the status of the signature is 0 when the
  response is prepared, so that the validation does not refuse the request for its signature.\<close>

theorem idff_request_signature_forgotten:
  assumes "idff_login_process_authn_request_msg env iio uid lg (Some msg) = Some (ret, lg')"
    and "prf_response (lgn_parent lg') \<noteq> prf_response (lgn_parent lg)"
  shows "prf_signature_status (lgn_parent lg') = 0 \<and>
    idff_login_validate_request_msg tid lg' True consent =
      (case idff_login_process_federation tid lg' consent of
         None \<Rightarrow> None
       | Some (rc, lg'') \<Rightarrow> if rc \<noteq> 0 then Some (rc, lg'') else answer_request LASSO_SAML_STATUS_CODE_SUCCESS 0 lg'')"
proof -
  have "prf_signature_status (lgn_parent lg') = 0"
    using assms by (auto simp: idff_login_process_authn_request_msg_def process_lib_authn_request_def check_request_signature_def Let_def
        set_lib_authn_request_def split: if_splits option.splits prod.splits)
  then show ?thesis by (simp add: idff_login_validate_request_msg_def)
qed

text \<open>With the encryption of name identifiers the assertion is refused by the session, which looks for the plain identifier.\<close>

lemma session_refuses_encrypted:
  assumes "sma_SubjectStatement a = None" and "sma_AuthenticationStatement a = Some st" and "sst_Subject st = Some None"
  shows "fst (lasso_session_add_assertion thin (Some s) (Some i) (Some (SamlAssertion a))) = LASSO_PARAM_ERROR_INVALID_VALUE"
  using assms by (simp add: lasso_session_add_assertion_def lasso_session_add_assertion_simple_def
      lasso_session_add_assertion_nid_and_session_index_def Let_def)

lemma map_response_assertions_simps [simp]:
  "prf_remote_providerID (map_response_assertions h p) = prf_remote_providerID p"
  "prf_session (map_response_assertions h p) = prf_session p" "prf_server (map_response_assertions h p) = prf_server p"
  "prf_identity (map_response_assertions h p) = prf_identity p" "prf_nameIdentifier (map_response_assertions h p) = prf_nameIdentifier p"
  by (auto simp: map_response_assertions_def split: option.splits message_node.splits idff_node.splits)

lemma store_assertion_ok:
  assumes "store_assertion env io rnd major minor a one_time lg = Some (0, lg')"
  obtains ctx session b where
    "b = a\<lparr>sma_signature := Some ctx\<rparr>" "samlp_response_of (lgn_parent lg) \<noteq> None"
    "lasso_session_add_assertion (mio_thin_sessions io) (Some (case prf_session (lgn_parent lg) of None \<Rightarrow> lasso_session_new | Some s \<Rightarrow> s))
       (prf_remote_providerID (lgn_parent lg)) (Some (SamlAssertion b)) = (0, session)"
    "(if before_1_2 major minor then assertion_for_old_request io rnd b one_time
        (lg\<lparr>lgn_parent := (map_response_assertions (\<lambda>l. l @ [SamlAssertion b]) (lgn_parent lg))\<lparr>prf_session := session\<rparr>, lgn_assertion := Some b\<rparr>)
      else Some (0, lg\<lparr>lgn_parent := (map_response_assertions (\<lambda>l. l @ [SamlAssertion b]) (lgn_parent lg))\<lparr>prf_session := session\<rparr>,
        lgn_assertion := Some b\<rparr>)) = Some (0, lg')"
proof -
  let ?p = "lgn_parent lg"
  obtain ctx where c: "lasso_server_get_signature_context_for_provider_by_name env (prf_server ?p) (prf_remote_providerID ?p) = (0, ctx)"
    using assms by (auto simp: store_assertion_def Let_def split: prod.splits if_splits)
  define b where "b = a\<lparr>sma_signature := Some ctx\<rparr>"
  have r: "samlp_response_of ?p \<noteq> None" using assms c by (auto simp: store_assertion_def Let_def split: option.splits)
  have s0: "(case prf_session ?p of None \<Rightarrow> Some lasso_session_new | Some s \<Rightarrow> Some s) =
      Some (case prf_session ?p of None \<Rightarrow> lasso_session_new | Some s \<Rightarrow> s)" by (simp split: option.split)
  obtain rc session where s: "lasso_session_add_assertion (mio_thin_sessions io)
      (Some (case prf_session ?p of None \<Rightarrow> lasso_session_new | Some s \<Rightarrow> s)) (prf_remote_providerID ?p) (Some (SamlAssertion b)) = (rc, session)"
    by (cases "lasso_session_add_assertion (mio_thin_sessions io)
      (Some (case prf_session ?p of None \<Rightarrow> lasso_session_new | Some s \<Rightarrow> s)) (prf_remote_providerID ?p) (Some (SamlAssertion b))")
  from r obtain response where response: "samlp_response_of ?p = Some response" by blast
  note u = assms[unfolded store_assertion_def Let_def c prod.case if_not_P[of "0 \<noteq> (0::int)", simplified] response option.case b_def[symmetric]
      map_response_assertions_simps s0 s]
  have "rc = 0" using u by (auto split: if_splits)
  with that[OF b_def r, of session] s u show thesis by simp
qed

lemma build_assertion_stored:
  assumes "idff_login_build_assertion env io uid tid rnd lg m t reauth nb nooa = Some (0, lg')"
    and "prf_remote_providerID (lgn_parent lg) = Some i"
  obtains s requestID major minor policy st0 one_time st1 st2 k me a where
    "prf_server (lgn_parent lg) = Some s" "request_head (lgn_parent lg) = Some (requestID, major, minor)" "lgn_nameIDPolicy lg = Some policy"
    "principal_statement env tid s policy (federation_with (lgn_parent lg) i) m t reauth = (Some st0, one_time)"
    "encrypt_statement io (lasso_server_get_provider (Some s) (Some i)) st0 = Some st1"
    "lasso_provider_get_first_http_method (srv_parent s) (lasso_server_get_provider (Some s) (Some i)) SINGLE_LOGOUT = (Some k, me)"
    "lasso_lib_assertion_new_full env uid (prv_ProviderID (srv_parent s)) requestID (Some i) nb nooa = Some a"
    "(if k \<noteq> LASSO_HTTP_METHOD_NONE then set_session_index (sma_AssertionID a) st1 else Some st1) = Some st2"
    "store_assertion env io rnd major minor (a\<lparr>sma_AuthenticationStatement := st2\<rparr>) one_time
       (lg\<lparr>lgn_parent := (case one_time of None \<Rightarrow> lgn_parent lg
          | Some n \<Rightarrow> (lgn_parent lg)\<lparr>prf_nameIdentifier := Some (SamlNameIdentifier n)\<rparr>)\<lparr>prf_server := Some (s\<lparr>srv_parent := me\<rparr>)\<rparr>\<rparr>) = Some (0, lg')"
proof -
  have id: "prf_identity (lgn_parent lg) \<noteq> None"
    by (rule notI) (use assms(1) in \<open>simp add: idff_login_build_assertion_def Let_def\<close>)
  obtain s h policy where h: "prf_server (lgn_parent lg) = Some s" "request_head (lgn_parent lg) = Some h" "lgn_nameIDPolicy lg = Some policy"
    using assms id by (auto simp: idff_login_build_assertion_def Let_def simp del: not_None_eq split: option.splits)
  obtain requestID major minor where rm: "h = (requestID, major, minor)" by (cases h)
  obtain st one_time where st: "principal_statement env tid s policy (federation_with (lgn_parent lg) i) m t reauth = (st, one_time)"
    by (cases "principal_statement env tid s policy (federation_with (lgn_parent lg) i) m t reauth")
  obtain mm me where me: "lasso_provider_get_first_http_method (srv_parent s) (lasso_server_get_provider (Some s) (Some i)) SINGLE_LOGOUT = (mm, me)"
    by (cases "lasso_provider_get_first_http_method (srv_parent s) (lasso_server_get_provider (Some s) (Some i)) SINGLE_LOGOUT")
  note b = assms(1)[unfolded idff_login_build_assertion_def Let_def if_not_P[OF id] assms(2) h rm prod.case option.case st me]
  obtain a st1 k where a: "lasso_lib_assertion_new_full env uid (prv_ProviderID (srv_parent s)) requestID (Some i) nb nooa = Some a"
      "Option.bind st (encrypt_statement io (lasso_server_get_provider (Some s) (Some i))) = Some st1" "mm = Some k"
    using b by (auto split: option.splits)
  then obtain st0 where st0: "st = Some st0" by (cases st) auto
  obtain st2 where st2: "(if k \<noteq> LASSO_HTTP_METHOD_NONE then set_session_index (sma_AssertionID a) st1 else Some st1) = Some st2"
    using b[unfolded a prod.case option.case] by (auto split: option.splits)
  show thesis
    by (rule that[OF h(1) h(2)[unfolded rm] h(3) st[unfolded st0] _ me[unfolded a(3)] a(1) st2])
      (use a(2) st0 b[unfolded a prod.case option.case st2] in simp_all)
qed

text \<open>No assertion is built for a provider whose metadata have the name identifiers encrypted, when the encryption works: the
  assertion is refused when it is put into the session.\<close>

theorem idff_encrypted_name_refused:
  assumes "prf_remote_providerID (lgn_parent lg) = Some i"
    and "lasso_server_get_provider (prf_server (lgn_parent lg)) (Some i) = Some remote" and "encrypts_name_id (Some remote)"
    and "\<And>n. mio_encrypt_name io (SamlNameIdentifier n) (lasso_provider_get_encryption_public_key remote)
          (prv_encryption_sym_key_type remote) (prv_ProviderID remote) \<noteq> None"
  shows "idff_login_build_assertion env io uid tid rnd lg m t reauth nb nooa \<noteq> Some (0, lg')"
proof
  assume r: "idff_login_build_assertion env io uid tid rnd lg m t reauth nb nooa = Some (0, lg')"
  obtain s requestID major minor policy st0 one_time st1 st2 k me a where
    b: "prf_server (lgn_parent lg) = Some s"
    "principal_statement env tid s policy (federation_with (lgn_parent lg) i) m t reauth = (Some st0, one_time)"
    "encrypt_statement io (lasso_server_get_provider (Some s) (Some i)) st0 = Some st1"
    "lasso_lib_assertion_new_full env uid (prv_ProviderID (srv_parent s)) requestID (Some i) nb nooa = Some a"
    "(if k \<noteq> LASSO_HTTP_METHOD_NONE then set_session_index (sma_AssertionID a) st1 else Some st1) = Some st2"
    "store_assertion env io rnd major minor (a\<lparr>sma_AuthenticationStatement := st2\<rparr>) one_time
       (lg\<lparr>lgn_parent := (case one_time of None \<Rightarrow> lgn_parent lg
          | Some n \<Rightarrow> (lgn_parent lg)\<lparr>prf_nameIdentifier := Some (SamlNameIdentifier n)\<rparr>)\<lparr>prf_server := Some (s\<lparr>srv_parent := me\<rparr>)\<rparr>\<rparr>) = Some (0, lg')"
    by (rule build_assertion_stored[OF r assms(1)])
  have sub: "sma_SubjectStatement a = None" using b(4) by (auto simp: lasso_lib_assertion_new_full_def lasso_saml_assertion_new_def split: if_splits)
  obtain x where x: "st0 = Some x" using b(1,3) assms(2,3) by (cases st0) (auto simp: encrypt_statement_def)
  obtain n where n: "sst_Subject x = Some (Some n)"
    using b(2) x by (auto simp: principal_statement_def lasso_lib_authentication_statement_new_full_def new_lib_statement_def Let_def
        split: option.splits if_splits name_identifier.splits)
  obtain e where "mio_encrypt_name io (SamlNameIdentifier n) (lasso_provider_get_encryption_public_key remote)
      (prv_encryption_sym_key_type remote) (prv_ProviderID remote) = Some e" using assms(4) by blast
  then obtain y where y: "st1 = Some y" "sst_Subject y = Some None" using b(1,3) x n assms(2,3) by (auto simp: encrypt_statement_def)
  obtain z where z: "st2 = Some z" "sst_Subject z = Some None" using b(5) y by (auto simp: set_session_index_def split: if_splits)
  obtain ctx session v where w: "v = a\<lparr>sma_AuthenticationStatement := st2\<rparr>\<lparr>sma_signature := Some ctx\<rparr>"
    "lasso_session_add_assertion (mio_thin_sessions io) (Some (case prf_session (lgn_parent lg) of None \<Rightarrow> lasso_session_new | Some s \<Rightarrow> s))
       (Some i) (Some (SamlAssertion v)) = (0, session)"
    by (rule store_assertion_ok[OF b(6)]) (use assms(1) in \<open>auto split: option.splits\<close>)
  have "sma_SubjectStatement v = None" "sma_AuthenticationStatement v = Some z" using sub z(1) w(1) by simp_all
  then show False using session_refuses_encrypted[of v z "mio_thin_sessions io" _ i] z(2) w(2) by (metis fst_conv neg_equal_0_iff_equal zero_neq_numeral)
qed

text \<open>An artifact of an identity provider leads the service provider back to it, and the request that it prepares carries the
  artifact; when base64 decodes what it encoded, a hash has twenty bytes, and no two known providers have the same hash.\<close>

theorem idff_artifact_roundtrip:
  assumes b64: "\<And>bs. mio_base64_decode io (mio_base64_encode io bs) = Some bs"
    and hash: "\<And>k. length (mio_sha1 io k) = 20" "\<And>k. env_base64_sha1 env k = mio_base64_encode io (mio_sha1 io k)"
    and distinct: "\<And>k. k \<in> set (ght_keys (srv_providers server)) \<Longrightarrow> mio_sha1 io k = mio_sha1 io i \<Longrightarrow> k = i"
    and sender: "prf_server (lgn_parent idp) = Some s" "prv_ProviderID (srv_parent s) = Some i" "length rnd = 20"
    and build: "lasso_login_build_assertion_artifact io rnd idp = Some idp'" "lgn_assertionArtifact idp' = Some art"
    and known: "prf_server (lgn_parent sp) = Some server" "lasso_server_get_provider (Some server) (Some i) = Some remote"
  shows "\<exists>sp' r. idff_login_init_request env io uid stack sp art LASSO_HTTP_METHOD_POST = Some (0, sp') \<and>
    prf_remote_providerID (lgn_parent sp') = Some i \<and> prf_request (lgn_parent sp') = Some (IdffNode (SamlpRequest r)) \<and>
    spr_AssertionArtifact r = Some art \<and> sra_RequestID r = Some uid"
proof -
  define bs where "bs = [0, 3] @ mio_sha1 io i @ rnd"
  have art: "art = mio_base64_encode io bs"
    using build sender hash(1)[of i] by (auto simp: lasso_login_build_assertion_artifact_def Let_def bs_def)
  have dec: "mio_base64_decode io art = Some bs" "length bs = 42"
    using b64[of bs] art hash(1)[of i] sender(3) by (simp_all add: bs_def)
  have bytes: "artifact_byte stack bs 0 = 0" "artifact_byte stack bs 1 = 3" by (simp_all add: artifact_byte_def bs_def)
  have f: "idff_succinct_id (artifact_byte stack bs) = mio_sha1 io i"
    using bytes_after[OF hash(1)[of i], where pre = "[0, 3]" and stack = stack and r = rnd]
    by (simp add: idff_succinct_id_def bs_def del: upt_rec_numeral append.simps)
  note hit = provider_of_hash[OF b64 hash(2) distinct known(2)]
  show ?thesis
    by (simp add: idff_login_init_request_def dec bytes[unfolded One_nat_def] f known(1) hit)
qed

text \<open>Answering an artifact.\<close>

lemma soap_body_ok:
  "soap_body env io p node = (0, node', body) \<Longrightarrow> \<exists>ctx. node' = map_option (lasso_node_set_signature (Some ctx)) node"
  by (auto simp: soap_body_def Let_def split: prod.splits if_splits)

lemma samlp_response_of_signed:
  "samlp_response_of (p\<lparr>prf_response := map_option (lasso_node_set_signature c) (prf_response p)\<rparr>) =
     map_option (\<lambda>r. r\<lparr>spa_signature := c\<rparr>) (samlp_response_of p)"
  by (auto simp: samlp_response_of_def lasso_node_set_signature_def idff_set_signature_def samlp_response.truncate_def
      split: option.splits message_node.splits idff_node.splits)

lemma set_response_status_response:
  "lasso_profile_set_response_status p v = Some p' \<Longrightarrow> samlp_response_of p = Some r \<Longrightarrow>
     samlp_response_of p' = Some (r\<lparr>srs_Status := Some (status_for v)\<rparr>)"
  by (auto simp: lasso_profile_set_response_status_def samlp_response_of_def samlp_response.truncate_def
      split: option.splits message_node.splits idff_node.splits)

lemma answer_artifact_success:
  assumes "answer_artifact env lio p i = Some p'" and "prf_response p = Some (IdffNode (SamlpResponse r))" and "srs_Assertion r = []"
    and "samlp_response_of p' = Some r'" and "srs_Assertion r' \<noteq> []"
  shows "srs_Status r' = Some (status_for LASSO_SAML_STATUS_CODE_SUCCESS) \<and> spa_InResponseTo r' = spa_InResponseTo r"
proof -
  define q where "q n = p\<lparr>prf_response := Some (IdffNode (SamlpResponse (r\<lparr>srs_Assertion := [n],
      srs_Status := Some (status_for LASSO_SAML_STATUS_CODE_SUCCESS)\<rparr>)))\<rparr>" for n
  have s: "lasso_profile_set_response_status (map_response_assertions (\<lambda>l. l @ [n]) p) LASSO_SAML_STATUS_CODE_SUCCESS = Some (q n)" for n
    using assms(2,3) by (simp add: map_response_assertions_def lasso_profile_set_response_status_def q_def)
  have "\<exists>n. prf_response p' = prf_response (q n)"
    using assms(1,2,3,4,5) unfolding answer_artifact_def Let_def s
    by (auto simp: samlp_response_of_def q_def split: option.splits)
  then show ?thesis using assms(4) by (auto simp: samlp_response_of_def q_def)
qed

text \<open>C18: an assertion is given for an artifact only to a provider that signed its request, and when there is a session; the answer
  refers to that request and its status is success.\<close>

theorem idff_artifact_answer_signed:
  assumes "idff_login_build_response_msg env io lio uid lg remote_providerID = Some (0, lg')"
    and "samlp_response_of (lgn_parent lg') = Some response" and "srs_Assertion response \<noteq> []"
  shows "\<exists>i remote. remote_providerID = Some i \<and> prf_session (lgn_parent lg) \<noteq> None \<and>
    lasso_server_get_provider (prf_server (lgn_parent lg)) (Some i) = Some remote \<and>
    lasso_provider_verify_signature (env_crypto env) (env_verify_signature env) (env_min_signature_method env) (env_xml_parse env)
      remote (lgn_soap_request_msg lg) ''RequestID'' LASSO_MESSAGE_FORMAT_SOAP = 0 \<and>
    request_head (lgn_parent lg) = Some (spa_InResponseTo response, snd (the (request_head (lgn_parent lg)))) \<and>
    srs_Status response = Some (status_for LASSO_SAML_STATUS_CODE_SUCCESS)"
proof -
  define p where "p = lasso_profile_clean_msg_info (lgn_parent lg)"
  have h: "request_head p = request_head (lgn_parent lg)" by (simp add: p_def lasso_profile_clean_msg_info_def request_head_def)
  obtain requestID major minor where rm: "request_head (lgn_parent lg) = Some (requestID, major, minor)"
    using assms(1) by (auto simp: idff_login_build_response_msg_def Let_def p_def[symmetric] h split: option.splits)
  define r0 where "r0 = (let response = (lasso_samlp_response_new env uid)\<lparr>spa_InResponseTo := requestID\<rparr>
      in if major = 1 \<and> minor = 0 then response\<lparr>spa_MinorVersion := 0\<rparr> else response)"
  define q where "q = p\<lparr>prf_response := Some (IdffNode (SamlpResponse r0))\<rparr>"
  have r0: "srs_Assertion r0 = []" "spa_InResponseTo r0 = requestID"
    by (simp_all add: r0_def lasso_samlp_response_new_def Let_def)
  have sq: "samlp_response_of q = Some r0" by (simp add: q_def samlp_response_of_def)
  define answered where "answered = (case remote_providerID of
      None \<Rightarrow> map_option (\<lambda>p. (0, lg\<lparr>lgn_parent := p\<rparr>)) (lasso_profile_set_response_status q LASSO_SAML_STATUS_CODE_REQUEST_DENIED)
    | Some i \<Rightarrow>
        (let rc = verify_soap_request env (lg\<lparr>lgn_parent := q\<rparr>) i; p = q\<lparr>prf_remote_providerID := Some i\<rparr>
         in map_option (\<lambda>p. (rc, lg\<lparr>lgn_parent := p, lgn_soap_request_msg := None\<rparr>))
              (if rc \<noteq> 0 then lasso_profile_set_response_status p LASSO_SAML_STATUS_CODE_REQUEST_DENIED
               else answer_artifact env lio p i)))"
  obtain rc lg1 node body where a: "answered = Some (rc, lg1)"
    and b: "soap_body env io (lgn_parent lg1) (prf_response (lgn_parent lg1)) = (0, node, body)"
    and lg': "lg' = lg1\<lparr>lgn_parent := (lgn_parent lg1)\<lparr>prf_response := node, prf_msg_body := body\<rparr>\<rparr>"
    using assms(1) unfolding idff_login_build_response_msg_def Let_def p_def[symmetric] h rm option.case prod.case
    by (auto simp: answered_def q_def r0_def Let_def split: option.splits prod.splits if_splits)
  obtain ctx r1 where r1: "samlp_response_of (lgn_parent lg1) = Some r1" "response = r1\<lparr>spa_signature := Some ctx\<rparr>"
    using assms(2) soap_body_ok[OF b] samlp_response_of_signed[where p = "lgn_parent lg1"] by (auto simp: lg' samlp_response_of_def)
  have ne: "srs_Assertion r1 \<noteq> []" using assms(3) r1 by simp
  have denied: False if "lasso_profile_set_response_status (q\<lparr>prf_remote_providerID := j\<rparr>) v = Some (lgn_parent lg1)" for j v
  proof -
    have "samlp_response_of (q\<lparr>prf_remote_providerID := j\<rparr>) = Some r0" using sq by (simp add: samlp_response_of_def)
    then have "r1 = r0\<lparr>srs_Status := Some (status_for v)\<rparr>" using set_response_status_response[OF that] r1(1) by simp
    then show False using ne r0(1) by simp
  qed
  obtain i where i: "remote_providerID = Some i"
    using a denied[of "prf_remote_providerID q" LASSO_SAML_STATUS_CODE_REQUEST_DENIED] by (cases remote_providerID) (auto simp: answered_def)
  have ok: "verify_soap_request env (lg\<lparr>lgn_parent := q\<rparr>) i = 0"
    using a denied[of "Some i" LASSO_SAML_STATUS_CODE_REQUEST_DENIED] by (auto simp: answered_def i Let_def split: if_splits)
  then have ans: "answer_artifact env lio (q\<lparr>prf_remote_providerID := Some i\<rparr>) i = Some (lgn_parent lg1)"
    using a by (auto simp: answered_def i Let_def)
  have st: "srs_Status r1 = Some (status_for LASSO_SAML_STATUS_CODE_SUCCESS) \<and> spa_InResponseTo r1 = requestID"
    using answer_artifact_success[OF ans _ r0(1) r1(1) ne] r0(2) by (simp add: q_def)
  have fr: "prf_session q = prf_session (lgn_parent lg)" "prf_server q = prf_server (lgn_parent lg)"
    by (simp_all add: q_def p_def lasso_profile_clean_msg_info_def)
  show ?thesis using ok st i r1(2) rm fr by (auto simp: verify_soap_request_def split: option.splits if_splits)
qed

text \<open>The assertion for a federated principal.\<close>

lemma federated_assertion:
  assumes build: "idff_login_build_assertion env io uid tid rnd idp (Some m) t reauth nb nooa = Some (0, idp')"
    and remote: "prf_remote_providerID (lgn_parent idp) = Some j" "prf_server (lgn_parent idp) = Some s"
    and fed: "federation_with (lgn_parent idp) j = Some f" "fed_local_nameIdentifier f = Some (SamlNameIdentifier n)"
      "fed_remote_nameIdentifier f = map_option SamlNameIdentifier k"
    and policy: "lgn_nameIDPolicy idp \<noteq> Some LASSO_LIB_NAMEID_POLICY_TYPE_ONE_TIME"
    and head: "request_head (lgn_parent idp) = Some (requestID, major, minor)" "\<not> before_1_2 major minor"
    and plain: "\<not> encrypts_name_id (lasso_server_get_provider (Some s) (Some j))"
  obtains a st where "lgn_assertion idp' = Some a" "sma_AuthenticationStatement a = Some st"
    "sst_Subject st = Some (Some (case k of None \<Rightarrow> n | Some x \<Rightarrow> x))"
    "sst_IDPProvidedNameIdentifier st = (case k of None \<Rightarrow> None | Some _ \<Rightarrow> Some n)"
    "sma_AssertionID a = Some uid" "sma_InResponseTo a = Some requestID" "sma_Issuer a = prv_ProviderID (srv_parent s)"
    "sma_Audience a = [j]"
proof -
  obtain pol st0 one_time st1 st2 q me a where
    b: "lgn_nameIDPolicy idp = Some pol"
    "principal_statement env tid s pol (Some f) (Some m) t reauth = (Some st0, one_time)"
    "encrypt_statement io (lasso_server_get_provider (Some s) (Some j)) st0 = Some st1"
    "lasso_lib_assertion_new_full env uid (prv_ProviderID (srv_parent s)) requestID (Some j) nb nooa = Some a"
    "(if q \<noteq> LASSO_HTTP_METHOD_NONE then set_session_index (sma_AssertionID a) st1 else Some st1) = Some st2"
    "store_assertion env io rnd major minor (a\<lparr>sma_AuthenticationStatement := st2\<rparr>) one_time
       (idp\<lparr>lgn_parent := (case one_time of None \<Rightarrow> lgn_parent idp
          | Some n \<Rightarrow> (lgn_parent idp)\<lparr>prf_nameIdentifier := Some (SamlNameIdentifier n)\<rparr>)\<lparr>prf_server := Some (s\<lparr>srv_parent := me\<rparr>)\<rparr>\<rparr>) = Some (0, idp')"
    by (rule build_assertion_stored[OF build remote(1)]) (use remote(2) head(1) fed(1) in auto)
  define st where "st = new_lib_statement env m t reauth (case k of None \<Rightarrow> n | Some x \<Rightarrow> x) (case k of None \<Rightarrow> None | Some _ \<Rightarrow> Some n)"
  have "st0 = Some st"
    using b(1,2) policy fed by (auto simp: principal_statement_def lasso_lib_authentication_statement_new_full_def st_def Let_def split: option.splits)
  moreover have "st1 = st0" using b(3) plain by (auto simp: encrypt_statement_def split: option.splits)
  ultimately obtain st' where st': "st2 = Some st'" "sst_Subject st' = sst_Subject st"
      "sst_IDPProvidedNameIdentifier st' = sst_IDPProvidedNameIdentifier st"
    using b(5) by (auto simp: set_session_index_def split: if_splits)
  obtain ctx where v: "lgn_assertion idp' = Some (a\<lparr>sma_AuthenticationStatement := st2, sma_signature := Some ctx\<rparr>)"
    by (rule store_assertion_ok[OF b(6)]) (use head(2) in auto)
  have st: "sst_Subject st = Some (Some (case k of None \<Rightarrow> n | Some x \<Rightarrow> x))"
    "sst_IDPProvidedNameIdentifier st = (case k of None \<Rightarrow> None | Some _ \<Rightarrow> Some n)" by (simp_all add: st_def new_lib_statement_def)
  have a: "a = lasso_saml_assertion_new
      \<lparr>sma_AssertionID := Some uid, sma_MajorVersion := LASSO_LIB_MAJOR_VERSION_N, sma_MinorVersion := LASSO_LIB_MINOR_VERSION_N,
       sma_IssueInstant := lasso_time_to_iso_8601_gmt (env_now env), sma_Issuer := prv_ProviderID (srv_parent s),
       sma_InResponseTo := Some requestID, sma_NotBefore := nb, sma_NotOnOrAfter := nooa, sma_Audience := [j]\<rparr>"
    using b(4) by (simp add: lasso_lib_assertion_new_full_def split: if_splits)
  show thesis by (rule that[OF v, of st']) (simp_all add: st' st a)
qed

text \<open>C16: when the identity provider asserts a federated principal and the service provider accepts the assertion, both ends name the
  principal alike: the identifier that one end has as its own the other has as that of its peer.  The assertion answers
  the request, is issued by the identity provider for the service provider, and the other federations of the principal stay.\<close>

theorem idff_sso_both_ends:
  assumes "idff_login_build_assertion env io uid tid rnd idp (Some m) t reauth nb nooa = Some (0, idp')"
    and "prf_remote_providerID (lgn_parent idp) = Some j" and "prf_server (lgn_parent idp) = Some s"
    and "federation_with (lgn_parent idp) j = Some f" and "fed_local_nameIdentifier f = Some (SamlNameIdentifier n)"
    and "fed_remote_nameIdentifier f = map_option SamlNameIdentifier k"
    and "lgn_nameIDPolicy idp \<noteq> Some LASSO_LIB_NAMEID_POLICY_TYPE_ONE_TIME"
    and "request_head (lgn_parent idp) = Some (requestID, major, minor)" and "\<not> before_1_2 major minor"
    and "\<not> encrypts_name_id (lasso_server_get_provider (Some s) (Some j))"
    and "sni_Format (case k of None \<Rightarrow> n | Some x \<Rightarrow> x) = Some LASSO_LIB_NAME_IDENTIFIER_FORMAT_FEDERATED"
    and "samlp_response_of (lgn_parent sp) = Some response"
    and "srs_Assertion response = map SamlAssertion (case lgn_assertion idp' of None \<Rightarrow> [] | Some a \<Rightarrow> [a])"
    and "prf_remote_providerID (lgn_parent sp) = Some i"
  shows "\<exists>sp' a. idff_login_accept_sso io' sp = Some (0, sp') \<and> lgn_assertion idp' = Some a \<and>
    federation_with (lgn_parent sp') i = Some \<lparr>fed_remote_providerID = i, fed_local_nameIdentifier = fed_remote_nameIdentifier f,
      fed_remote_nameIdentifier = fed_local_nameIdentifier f\<rparr> \<and>
    (\<forall>h. h \<noteq> i \<longrightarrow> federation_with (lgn_parent sp') h = federation_with (lgn_parent sp) h) \<and>
    sma_InResponseTo a = Some requestID \<and> sma_Issuer a = prv_ProviderID (srv_parent s) \<and> sma_Audience a = [j]"
proof -
  obtain a st where a: "lgn_assertion idp' = Some a" "sma_AuthenticationStatement a = Some st"
    "sst_Subject st = Some (Some (case k of None \<Rightarrow> n | Some x \<Rightarrow> x))"
    "sst_IDPProvidedNameIdentifier st = (case k of None \<Rightarrow> None | Some _ \<Rightarrow> Some n)"
    "sma_InResponseTo a = Some requestID" "sma_Issuer a = prv_ProviderID (srv_parent s)" "sma_Audience a = [j]"
    by (rule federated_assertion[OF assms(1-10)])
  define g where "g = accepted_federation i st (case k of None \<Rightarrow> n | Some x \<Rightarrow> x)"
  have g: "g = \<lparr>fed_remote_providerID = i, fed_local_nameIdentifier = fed_remote_nameIdentifier f, fed_remote_nameIdentifier = fed_local_nameIdentifier f\<rparr>"
    by (simp add: g_def accepted_federation_def a(4) assms(5,6) split: option.split)
  define p where "p = (lgn_parent sp)\<lparr>prf_identity := (case prf_identity (lgn_parent sp) of None \<Rightarrow> Some lasso_identity_new | d \<Rightarrow> d),
      prf_session := (case prf_session (lgn_parent sp) of None \<Rightarrow> Some lasso_session_new | s \<Rightarrow> s)\<rparr>"
  define q where "q = p\<lparr>prf_session := snd (lasso_session_add_assertion (mio_thin_sessions io') (prf_session p) (Some i) (Some (SamlAssertion a)))\<rparr>"
  have r: "samlp_response_of p = Some response" "prf_response p \<noteq> None" "prf_remote_providerID p = Some i" "prf_identity p \<noteq> None"
    using assms(12,14) by (auto simp: p_def samlp_response_of_def split: option.splits)
  have acc: "idff_login_accept_sso io' sp = Some (0, sp\<lparr>lgn_parent := q\<lparr>prf_identity :=
      snd (lasso_identity_add_federation (prf_identity q) (Some g))\<rparr>\<rparr>)"
    unfolding idff_login_accept_sso_def Let_def p_def[symmetric]
    using r assms(13) by (simp add: a(1,2,3) assms(11) q_def g_def)
  have id: "prf_identity q \<noteq> None" "federation_with q h = federation_with (lgn_parent sp) h" for h
    using r(4) by (auto simp: q_def p_def federation_with_def lasso_identity_new_def ght_lookup_def split: option.split)
  show ?thesis
    by (rule exI, rule exI[of _ a], rule conjI[OF acc]) (simp add: a federation_with_added[OF id(1)] id(2) g)
qed

text \<open>A response that says success and has no assertion is accepted, whatever became of its signature.\<close>

theorem idff_empty_response_accepted:
  assumes "samlp_response_of (lgn_parent lg) = Some response" and "samlp_status_rc (srs_Status response) = 0"
    and "srs_Assertion response = []"
  shows "idff_login_process_response_status_and_assertion env lg = Some (0, lg)"
  using assms by (simp add: idff_login_process_response_status_and_assertion_def)

section \<open>A sign-on from end to end\<close>

definition sample_lib_name :: saml_name_identifier where
  "sample_lib_name = \<lparr>sni_content = Some ''n'', sni_NameQualifier = Some ''idp'', sni_Format = Some LASSO_LIB_NAME_IDENTIFIER_FORMAT_FEDERATED\<rparr>"

definition sample_lib_assertion :: saml_assertion where
  "sample_lib_assertion = lasso_saml_assertion_new\<lparr>sma_AssertionID := Some ''a'', sma_InResponseTo := Some (Some ''q''),
     sma_AuthenticationStatement := Some (new_lib_statement sample_env ''m'' None None sample_lib_name None)\<rparr>"

definition sample_samlp_response :: samlp_response where
  "sample_samlp_response = (lasso_samlp_response_new sample_env ''r'')\<lparr>spa_InResponseTo := Some ''x'',
     srs_Status := Some (new_status LASSO_SAML_STATUS_CODE_SUCCESS), srs_Assertion := [SamlAssertion sample_lib_assertion],
     srs_original_xmlnode := Some sample_signed_node\<rparr>"

definition sample_answer_io :: message_io where
  "sample_answer_io = sample_io\<lparr>mio_new_from_xml := \<lambda>_. Some (IdffNode (SamlpResponse sample_samlp_response))\<rparr>"

definition sample_sp_login :: lasso_login where
  "sample_sp_login = (lasso_login_new sample_server)\<lparr>lgn_parent := (profile_new (Some sample_server))
     \<lparr>prf_request := Some (IdffNode (SamlpRequest (lasso_samlp_request_new\<lparr>sra_RequestID := Some ''x''\<rparr>))),
      prf_remote_providerID := Some ''idp''\<rparr>, lgn_request_id := Some ''q''\<rparr>"

lemma sample_samlp_response_simps [simp]:
  "srs_Status sample_samlp_response = Some (new_status LASSO_SAML_STATUS_CODE_SUCCESS)"
  "srs_Assertion sample_samlp_response = [SamlAssertion sample_lib_assertion]"
  "srs_original_xmlnode sample_samlp_response = Some sample_signed_node" "spa_InResponseTo sample_samlp_response = Some ''x''"
  "sma_InResponseTo sample_lib_assertion = Some (Some ''q'')" "assertion_name sample_lib_assertion = Some sample_lib_name"
  by (simp_all add: sample_samlp_response_def sample_lib_assertion_def assertion_name_def new_lib_statement_def)

lemma sample_answer_from_soap:
  "from_soap sample_env sample_answer_io ''<s/>'' = Some (IdffNode (SamlpResponse sample_samlp_response))"
  by (simp add: from_soap_def lasso_node_new_from_soap_def sample_answer_io_def sample_envelope_def lasso_xml_get_soap_content_def
      lasso_xml_is_soap_def lasso_xml_is_element_node_def lasso_xml_soap11_get_body_def lasso_xml_soap11_get_header_def
      lasso_xml_next_element_node_def children_of_def is_element_def xmlFirstElement_def sample_signed_node_def)

theorem idff_artifact_response_verified_witness:
  "\<exists>lg'. idff_login_process_response_msg sample_env sample_answer_io True sample_sp_login ''<s/>'' = Some (0, lg') \<and>
     prf_nameIdentifier (lgn_parent lg') = Some (SamlNameIdentifier sample_lib_name)"
proof -
  let ?r = "sample_samlp_response"
  have p: "prf_request (lgn_parent sample_sp_login) = Some (IdffNode (SamlpRequest (lasso_samlp_request_new\<lparr>sra_RequestID := Some ''x''\<rparr>)))"
    "prf_remote_providerID (lgn_parent sample_sp_login) = Some ''idp''" "prf_server (lgn_parent sample_sp_login) = Some sample_server"
    "lgn_request_id sample_sp_login = Some ''q''" by (simp_all add: sample_sp_login_def profile_new_def)
  have g: "lasso_server_get_provider (Some sample_server) (Some ''idp'') = Some sample_provider"
    by (simp add: sample_server_def lasso_server_get_provider_def ght_lookup_def)
  have v: "env_verify_signature sample_env" by (simp add: sample_env_def)
  have st: "samlp_status_rc (Some (new_status LASSO_SAML_STATUS_CODE_SUCCESS)) = 0" by (simp add: samlp_status_rc_def new_status_def)
  obtain lg' where r: "idff_login_process_response_msg sample_env sample_answer_io True sample_sp_login ''<s/>'' = Some (0, lg')"
    and s: "samlp_response_of (lgn_parent lg') = Some ?r"
    by (simp add: idff_login_process_response_msg_def sample_answer_from_soap samlp_response_of_def answers_request_def p g v st
        idff_login_process_response_status_and_assertion_def check_saml_assertion_def)
  show ?thesis
    using idff_artifact_response_verified[OF r s, of sample_lib_assertion "[]" "lasso_samlp_request_new\<lparr>sra_RequestID := Some ''x''\<rparr>"] r p(1)
    by auto
qed

text \<open>The identity provider: a federated principal with a request of ID-FF 1.2, and the service provider that gets the assertion.\<close>

definition sample_lib_idp_server :: lasso_server where
  "sample_lib_idp_server = (server_instance_init sample_env)\<lparr>srv_parent := sample_idff_provider ''idp'' LASSO_PROVIDER_ROLE_IDP,
     srv_providers := [(''sp'', sample_idff_provider ''sp'' LASSO_PROVIDER_ROLE_SP)], srv_private_key := Some ''k''\<rparr>"

definition sample_lib_request :: lib_authn_request where
  "sample_lib_request = lasso_lib_authn_request_new\<lparr>sra_RequestID := Some ''q'', sra_MajorVersion := 1, sra_MinorVersion := 2,
     lar_NameIDPolicy := Some LASSO_LIB_NAMEID_POLICY_TYPE_FEDERATED, lar_consent := Some ''urn:liberty:consent:obtained''\<rparr>"

definition sample_lib_idp_login :: "lasso_identity option \<Rightarrow> lasso_login" where
  "sample_lib_idp_login d = (lasso_login_new sample_lib_idp_server)\<lparr>lgn_parent := (profile_new (Some sample_lib_idp_server))
     \<lparr>prf_request := Some (IdffNode (LibAuthnRequest sample_lib_request)), prf_remote_providerID := Some ''sp'', prf_identity := d,
      prf_response := Some (IdffNode (LibAuthnResponse (lasso_lib_authn_response_new sample_env ''r'' (Some ''idp'') sample_lib_request)))\<rparr>,
     lgn_nameIDPolicy := Some LASSO_LIB_NAMEID_POLICY_TYPE_FEDERATED\<rparr>"

definition sample_lib_federation :: lasso_federation where
  "sample_lib_federation = \<lparr>fed_remote_providerID = ''sp'', fed_local_nameIdentifier = Some (SamlNameIdentifier sample_lib_name),
     fed_remote_nameIdentifier = None\<rparr>"

lemma sample_lib_idp_simps:
  "prf_remote_providerID (lgn_parent (sample_lib_idp_login d)) = Some ''sp''" "prf_server (lgn_parent (sample_lib_idp_login d)) = Some sample_lib_idp_server"
  "lgn_nameIDPolicy (sample_lib_idp_login d) = Some LASSO_LIB_NAMEID_POLICY_TYPE_FEDERATED" "prf_identity (lgn_parent (sample_lib_idp_login d)) = d"
  "request_head (lgn_parent (sample_lib_idp_login d)) = Some (Some ''q'', 1, 2)" "prf_signature_status (lgn_parent (sample_lib_idp_login d)) = 0"
  "lib_authn_request_of (lgn_parent (sample_lib_idp_login d)) = Some sample_lib_request" "prf_session (lgn_parent (sample_lib_idp_login d)) = None"
  "prf_response (lgn_parent (sample_lib_idp_login d)) =
     Some (IdffNode (LibAuthnResponse (lasso_lib_authn_response_new sample_env ''r'' (Some ''idp'') sample_lib_request)))"
  by (simp_all add: sample_lib_idp_login_def profile_new_def request_head_def sample_lib_request_def lib_authn_request_of_def)

lemma sample_lib_idp_provider:
  "lasso_server_get_provider (Some sample_lib_idp_server) (Some ''sp'') = Some (sample_idff_provider ''sp'' LASSO_PROVIDER_ROLE_SP)"
  "\<not> encrypts_name_id (Some (sample_idff_provider ''sp'' LASSO_PROVIDER_ROLE_SP))"
  "prv_ProviderID (srv_parent sample_lib_idp_server) = Some ''idp''"
  by (simp_all add: sample_lib_idp_server_def lasso_server_get_provider_def ght_lookup_def sample_idff_provider_def encrypts_name_id_def
      provider_instance_init_def)

theorem idff_federation_needs_consent_witness:
  "\<exists>lg'. idff_login_validate_request_msg ''u'' (sample_lib_idp_login None) True False = Some (0, lg') \<and>
     federation_with (lgn_parent lg') ''sp'' = Some (new_local_federation ''u'' sample_lib_idp_server ''sp'')"
proof -
  let ?lg = "sample_lib_idp_login None"
  have none: "federation_with (lgn_parent ?lg) ''sp'' = None" by (simp add: federation_with_def sample_lib_idp_simps)
  have req: "lar_NameIDPolicy sample_lib_request = Some LASSO_LIB_NAMEID_POLICY_TYPE_FEDERATED"
    "lib_consent_given (lar_consent sample_lib_request)" by (simp_all add: sample_lib_request_def lib_consent_given_def)
  have fr: "lib_authn_request_of (p\<lparr>prf_identity := d\<rparr>) = lib_authn_request_of p" for p d by (simp add: lib_authn_request_of_def)
  let ?f = "new_local_federation ''u'' sample_lib_idp_server ''sp''"
  define lg1 where "lg1 = ?lg\<lparr>lgn_parent := (lgn_parent ?lg)\<lparr>prf_identity :=
      snd (lasso_identity_add_federation (Some lasso_identity_new) (Some ?f)), prf_nameIdentifier := fed_local_nameIdentifier ?f\<rparr>\<rparr>"
  have e: "?lg\<lparr>lgn_nameIDPolicy := Some LASSO_LIB_NAMEID_POLICY_TYPE_FEDERATED\<rparr> = ?lg" by (simp add: sample_lib_idp_login_def)
  have "idff_login_process_federation ''u'' ?lg False = Some (0, lg1)"
    by (simp add: idff_login_process_federation_def sample_lib_idp_simps fr req idff_login_must_ask_for_consent_private_def
        federation_with_new_identity use_federation_def lg1_def) (metis e)
  moreover obtain p where p: "lasso_profile_set_response_status (lgn_parent lg1) LASSO_SAML_STATUS_CODE_SUCCESS = Some p"
    by (simp add: lg1_def lasso_profile_set_response_status_def sample_lib_idp_simps)
  ultimately have r: "idff_login_validate_request_msg ''u'' ?lg True False = Some (0, lg1\<lparr>lgn_parent := p\<rparr>)"
    by (simp add: idff_login_validate_request_msg_def sample_lib_idp_simps answer_request_def)
  have f: "federation_with (lgn_parent (lg1\<lparr>lgn_parent := p\<rparr>)) ''sp'' = Some ?f"
    using set_response_status_frame[OF p] by (simp add: lg1_def federation_with_def lasso_identity_add_federation_def lasso_identity_new_def
        ght.lookup_insert new_local_federation_def lasso_federation_build_local_name_identifier_def)
  show ?thesis using idff_federation_needs_consent[OF r none f] r f by blast
qed

theorem idff_artifact_roundtrip_witness:
  "\<exists>idp' art sp'. lasso_login_build_assertion_artifact sample_io (replicate 20 1) (lasso_login_new sample_lib_idp_server) = Some idp' \<and>
     lgn_assertionArtifact idp' = Some art \<and>
     idff_login_init_request (sample_env\<lparr>env_base64_sha1 := \<lambda>_. mio_base64_encode sample_io (replicate 20 0)\<rparr>) sample_io ''u'' []
       (lasso_login_new sample_server) art LASSO_HTTP_METHOD_POST = Some (0, sp') \<and> prf_remote_providerID (lgn_parent sp') = Some ''idp''"
proof -
  let ?env = "sample_env\<lparr>env_base64_sha1 := \<lambda>_. mio_base64_encode sample_io (replicate 20 0)\<rparr>"
  have h: "length (mio_sha1 sample_io k) = 20" "env_base64_sha1 ?env k = mio_base64_encode sample_io (mio_sha1 sample_io k)" for k
    by (simp_all add: sample_io_def)
  have d: "k \<in> set (ght_keys (srv_providers sample_server)) \<Longrightarrow> mio_sha1 sample_io k = mio_sha1 sample_io ''idp'' \<Longrightarrow> k = ''idp''" for k
    by (simp add: ght_keys_def sample_server_def)
  have s: "prf_server (lgn_parent (lasso_login_new s)) = Some s" for s by (simp add: lasso_login_new_def profile_new_def)
  have g: "lasso_server_get_provider (Some sample_server) (Some ''idp'') = Some sample_provider"
    by (simp add: sample_server_def lasso_server_get_provider_def ght_lookup_def)
  obtain idp' art where b: "lasso_login_build_assertion_artifact sample_io (replicate 20 1) (lasso_login_new sample_lib_idp_server) = Some idp'"
      "lgn_assertionArtifact idp' = Some art"
    by (simp add: lasso_login_build_assertion_artifact_def s sample_lib_idp_provider(3) Let_def)
  show ?thesis
    using idff_artifact_roundtrip[OF sample_io_base64 h d s sample_lib_idp_provider(3) _ b s g, of "''u''" "[]"] b by auto
qed

definition sample_login_io :: login_io where
  "sample_login_io = \<lparr>lio_status_xml = \<lambda>_. sample_signed_node, lio_status_of = \<lambda>_. None, lio_assertion_text = \<lambda>_. Some ''<a/>''\<rparr>"

definition sample_resolving_login :: lasso_login where
  "sample_resolving_login = (lasso_login_new sample_lib_idp_server)\<lparr>lgn_parent := (profile_new (Some sample_lib_idp_server))
     \<lparr>prf_request := Some (IdffNode (SamlpRequest (lasso_samlp_request_new\<lparr>sra_RequestID := Some ''x''\<rparr>))),
      prf_session := Some (lasso_session_new\<lparr>ses_assertions := [(''sp'', SamlAssertion sample_lib_assertion)]\<rparr>)\<rparr>,
     lgn_soap_request_msg := Some ''<s/>''\<rparr>"

lemma sample_context:
  "\<exists>c. lasso_server_get_signature_context_for_provider_by_name (sample_env\<lparr>env_verify_signature := v\<rparr>)
     (Some sample_lib_idp_server) (Some ''sp'') = (0, c)"
  by (simp add: lasso_server_get_signature_context_for_provider_by_name_def lasso_server_get_signature_context_for_provider_def
      lasso_server_get_provider_def sample_lib_idp_server_def sample_idff_provider_def provider_instance_init_def ght_lookup_def
      lasso_server_get_signature_context_def lasso_make_signature_context_from_path_or_string_def sample_env_def
      lasso_validate_signature_context_def lasso_validate_signature_method_def server_instance_init_def Let_def)

theorem idff_artifact_answer_signed_witness:
  "\<exists>lg' response. idff_login_build_response_msg unverified_env sample_io sample_login_io ''u'' sample_resolving_login (Some ''sp'') = Some (0, lg') \<and>
     samlp_response_of (lgn_parent lg') = Some response \<and> srs_Assertion response = [SamlAssertion sample_lib_assertion] \<and>
     spa_InResponseTo response = Some ''x'' \<and> srs_Status response = Some (status_for LASSO_SAML_STATUS_CODE_SUCCESS)"
proof -
  let ?lg = sample_resolving_login
  let ?p = "lasso_profile_clean_msg_info (lgn_parent ?lg)"
  have p: "request_head ?p = Some (Some ''x'', 0, 0)" "request_head (lgn_parent ?lg) = Some (Some ''x'', 0, 0)"
    "prf_session ?p = Some (lasso_session_new\<lparr>ses_assertions := [(''sp'', SamlAssertion sample_lib_assertion)]\<rparr>)"
    "prf_server ?p = Some sample_lib_idp_server" "lgn_soap_request_msg ?lg = Some ''<s/>''"
    by (simp_all add: sample_resolving_login_def lasso_profile_clean_msg_info_def request_head_def lasso_samlp_request_new_def profile_new_def)
  obtain c where c: "lasso_server_get_signature_context_for_provider_by_name unverified_env (Some sample_lib_idp_server) (Some ''sp'') = (0, c)"
    using sample_context by blast
  have st: "lasso_session_get_status (Some (lasso_session_new\<lparr>ses_assertions := a\<rparr>)) i = None"
    "lasso_session_get_assertion (Some (lasso_session_new\<lparr>ses_assertions := [(''sp'', n)]\<rparr>)) ''sp'' = Some n" for a i n
    by (simp_all add: lasso_session_get_status_def lasso_session_get_assertion_def lasso_session_new_def ght_lookup_def)
  obtain lg' response where r: "idff_login_build_response_msg unverified_env sample_io sample_login_io ''u'' ?lg (Some ''sp'') = Some (0, lg')"
    "samlp_response_of (lgn_parent lg') = Some response" "srs_Assertion response = [SamlAssertion sample_lib_assertion]"
    by (simp add: idff_login_build_response_msg_def p verify_soap_request_def sample_lib_idp_provider answer_artifact_def st
        map_response_assertions_def lasso_profile_set_response_status_def soap_body_def c lasso_samlp_response_new_def
        samlp_response_of_def lasso_node_set_signature_def idff_set_signature_def)
  have "srs_Assertion response \<noteq> []" using r(3) by simp
  from idff_artifact_answer_signed[OF r(1,2) this] r p(2) show ?thesis by auto
qed

definition sample_federated_idp :: lasso_login where
  "sample_federated_idp = sample_lib_idp_login (Some \<lparr>idn_federations = [(''sp'', sample_lib_federation)], idn_is_dirty = False\<rparr>)"

lemma sample_logout_method:
  "lasso_provider_get_first_http_method (srv_parent sample_lib_idp_server) (Some (sample_idff_provider ''sp'' LASSO_PROVIDER_ROLE_SP)) SINGLE_LOGOUT =
     (Some LASSO_HTTP_METHOD_NONE, srv_parent sample_lib_idp_server)"
proof -
  have e: "srv_parent sample_lib_idp_server = sample_idff_provider ''idp'' LASSO_PROVIDER_ROLE_IDP" by (simp add: sample_lib_idp_server_def)
  have c: "complement_role (sample_idff_provider ''idp'' LASSO_PROVIDER_ROLE_IDP) (sample_idff_provider ''sp'' LASSO_PROVIDER_ROLE_SP) =
      sample_idff_provider ''idp'' LASSO_PROVIDER_ROLE_IDP" by (simp add: complement_role_def sample_idff_provider_def)
  have f: "prv_conformance (sample_idff_provider i role) = LASSO_PROTOCOL_LIBERTY_1_2" for i role by (simp add: sample_idff_provider_def)
  have r: "role_to_prefix LASSO_PROVIDER_ROLE_IDP = Some ''idp''"
    by (simp_all add: role_to_prefix_def lasso_provider_get_role_index_def)
  have s: "supported_profiles (sample_idff_provider ''idp'' LASSO_PROVIDER_ROLE_IDP) SINGLE_LOGOUT = []"
    by (simp add: supported_profiles_def protocol_md_nodename_def lasso_provider_get_metadata_list_def
        lasso_provider_get_metadata_list_for_role_def sample_idff_provider_def ght_lookup_def r)
  show ?thesis by (simp add: lasso_provider_get_first_http_method_def e c f r s)
qed

lemma sample_federated_built:
  "\<exists>idp'. idff_login_build_assertion sample_env sample_io ''u'' ''t'' [] sample_federated_idp (Some ''m'') None None None None = Some (0, idp')"
proof -
  have f: "federation_with (lgn_parent sample_federated_idp) ''sp'' = Some sample_lib_federation"
    by (simp add: federation_with_def sample_federated_idp_def sample_lib_idp_simps ght_lookup_def)
  have e: "sample_env\<lparr>env_verify_signature := True\<rparr> = sample_env" by (simp add: sample_env_def)
  obtain c where c: "lasso_server_get_signature_context_for_provider_by_name sample_env (Some sample_lib_idp_server) (Some ''sp'') = (0, c)"
    using sample_context[of True, unfolded e] by blast
  have st: "principal_statement sample_env ''t'' sample_lib_idp_server LASSO_LIB_NAMEID_POLICY_TYPE_FEDERATED (Some sample_lib_federation)
      (Some ''m'') None None = (Some (Some (new_lib_statement sample_env ''m'' None None sample_lib_name None)), None)"
    by (simp add: principal_statement_def lasso_lib_authentication_statement_new_full_def sample_lib_federation_def)
  note p = sample_lib_idp_simps[of "Some \<lparr>idn_federations = [(''sp'', sample_lib_federation)], idn_is_dirty = False\<rparr>", folded sample_federated_idp_def]
  have add: "rc = 0"
    if "lasso_session_add_assertion thin (Some s) (Some ''sp'') (Some (SamlAssertion a)) = (rc, s')" "sma_SubjectStatement a = None"
      "sma_Advice_Assertion a = None"
      "sma_AuthenticationStatement a = Some (new_lib_statement sample_env ''m'' None None sample_lib_name None)" for thin s a rc s'
    using that by (simp add: lasso_session_add_assertion_def lasso_session_add_assertion_simple_def lasso_session_add_advice_def
        lasso_session_add_assertion_nid_and_session_index_def new_lib_statement_def split: if_splits)
  show ?thesis
    unfolding idff_login_build_assertion_def store_assertion_def lasso_lib_assertion_new_full_def encrypt_statement_def
    by (simp add: p f st sample_lib_idp_provider sample_logout_method c samlp_response_of_def before_1_2_def Let_def split: prod.split)
      (auto simp: lasso_saml_assertion_new_def dest!: add)
qed

theorem idff_sso_both_ends_witness:
  "\<exists>idp' sp sp' a. idff_login_build_assertion sample_env sample_io ''u'' ''t'' [] sample_federated_idp (Some ''m'') None None None None = Some (0, idp') \<and>
     idff_login_accept_sso sample_io sp = Some (0, sp') \<and> lgn_assertion idp' = Some a \<and> sma_Audience a = [''sp''] \<and>
     federation_with (lgn_parent sp') ''idp'' = Some \<lparr>fed_remote_providerID = ''idp'', fed_local_nameIdentifier = None,
       fed_remote_nameIdentifier = Some (SamlNameIdentifier sample_lib_name)\<rparr>"
proof -
  obtain idp' where b: "idff_login_build_assertion sample_env sample_io ''u'' ''t'' [] sample_federated_idp (Some ''m'') None None None None = Some (0, idp')"
    using sample_federated_built by blast
  define response where "response = sample_samlp_response\<lparr>srs_Assertion := map SamlAssertion (case lgn_assertion idp' of None \<Rightarrow> [] | Some a \<Rightarrow> [a])\<rparr>"
  define sp where "sp = sample_sp_login\<lparr>lgn_parent := (lgn_parent sample_sp_login)\<lparr>prf_response := Some (IdffNode (SamlpResponse response))\<rparr>\<rparr>"
  note p = sample_lib_idp_simps[of "Some \<lparr>idn_federations = [(''sp'', sample_lib_federation)], idn_is_dirty = False\<rparr>", folded sample_federated_idp_def]
  have f: "federation_with (lgn_parent sample_federated_idp) ''sp'' = Some sample_lib_federation"
    by (simp add: federation_with_def p ght_lookup_def)
  have n: "fed_local_nameIdentifier sample_lib_federation = Some (SamlNameIdentifier sample_lib_name)"
    "fed_remote_nameIdentifier sample_lib_federation = map_option SamlNameIdentifier None" by (simp_all add: sample_lib_federation_def)
  have sp: "samlp_response_of (lgn_parent sp) = Some response"
    "srs_Assertion response = map SamlAssertion (case lgn_assertion idp' of None \<Rightarrow> [] | Some a \<Rightarrow> [a])" "prf_remote_providerID (lgn_parent sp) = Some ''idp''"
    by (simp_all add: sp_def response_def samlp_response_of_def sample_sp_login_def)
  have policy: "lgn_nameIDPolicy sample_federated_idp \<noteq> Some LASSO_LIB_NAMEID_POLICY_TYPE_ONE_TIME" by (simp add: p)
  have plain: "\<not> before_1_2 1 2" "\<not> encrypts_name_id (lasso_server_get_provider (Some sample_lib_idp_server) (Some ''sp''))"
    "sni_Format (case None of None \<Rightarrow> sample_lib_name | Some x \<Rightarrow> x) = Some LASSO_LIB_NAME_IDENTIFIER_FORMAT_FEDERATED"
    by (simp_all add: before_1_2_def sample_lib_idp_provider sample_lib_name_def)
  from idff_sso_both_ends[OF b p(1,2) f n policy p(5) plain sp, of sample_io] b n show ?thesis by auto
qed

end
