(* ===== verification/Lasso_Lecp.thy ===== *)
theory Lasso_Lecp
  imports Lasso_LoginIdffLaws
begin

text \<open>
  The Liberty-enabled client of ID-FF 1.2, \<^verbatim>\<open>id-ff/lecp.c\<close>, with the envelopes of \<^verbatim>\<open>xml/lib_authn_request_envelope.c\<close> and
  \<^verbatim>\<open>xml/lib_authn_response_envelope.c\<close>.  The class is used at three places: the service provider puts its request
  into an envelope, the client takes the request out and sends it to the identity provider, which puts its response into
  an envelope; the client takes it out again and posts it to the service provider.

  The theorems follow a message over these places: the identity provider reads, and verifies the signature of, the element
  that the service provider has put into the envelope, and the response goes to the address that the identity provider
  knows from the metadata of the service provider.
\<close>

section \<open>Envelopes\<close>

record lib_authn_request_envelope =
  are_Extension :: "xml list"
  are_AuthnRequest :: "lib_authn_request option"
  are_ProviderID :: cstr
  are_ProviderName :: cstr
  are_AssertionConsumerServiceURL :: cstr
  are_IDPList :: "xml option"
  are_IsPassive :: bool

record lib_authn_response_envelope =
  ape_Extension :: "xml list"
  ape_AuthnResponse :: "lib_authn_response option"
  ape_AssertionConsumerServiceURL :: cstr

definition lasso_lib_authn_request_envelope_new_full ::
  "lib_authn_request \<Rightarrow> cstr \<Rightarrow> cstr \<Rightarrow> lib_authn_request_envelope" where
  "lasso_lib_authn_request_envelope_new_full authnRequest providerID url =
     \<lparr>are_Extension = [], are_AuthnRequest = Some authnRequest, are_ProviderID = providerID, are_ProviderName = None,
      are_AssertionConsumerServiceURL = url, are_IDPList = None, are_IsPassive = False\<rparr>"

definition lasso_lib_authn_response_envelope_new :: "lib_authn_response option \<Rightarrow> cstr \<Rightarrow> lib_authn_response_envelope" where
  "lasso_lib_authn_response_envelope_new response url =
     \<lparr>ape_Extension = [], ape_AuthnResponse = response,
      ape_AssertionConsumerServiceURL = (if response = None then None else url)\<rparr>"

text \<open>What the file uses of libxml2 and of the serialisation of these classes: the parser without the options of the library,
  the text of a tree, the text of a request envelope, a response envelope in a SOAP message, and the filling of a response
  envelope from a tree.\<close>

record lecp_io =
  lci_xmlParseMemory :: "string \<Rightarrow> xml option"
  lci_xmlnode_to_string :: "xml \<Rightarrow> cstr"
  lci_request_envelope_text :: "lib_authn_request_envelope \<Rightarrow> cstr"
  lci_response_envelope_soap :: "lib_authn_response_envelope \<Rightarrow> cstr"
  lci_response_envelope :: "xml option \<Rightarrow> int \<times> lib_authn_response_envelope"

record lasso_lecp =
  lcp_parent :: lasso_login
  lcp_authnRequestEnvelope :: "lib_authn_request_envelope option"
  lcp_authnResponseEnvelope :: "lib_authn_response_envelope option"
  lcp_assertionConsumerServiceURL :: cstr

definition lasso_lecp_new :: "lasso_server \<Rightarrow> lasso_lecp" where
  "lasso_lecp_new server = \<lparr>lcp_parent = lasso_login_new server, lcp_authnRequestEnvelope = None, lcp_authnResponseEnvelope = None,
     lcp_assertionConsumerServiceURL = None\<rparr>"

definition map_lecp_profile :: "(lasso_profile \<Rightarrow> lasso_profile) \<Rightarrow> lasso_lecp \<Rightarrow> lasso_lecp" where
  "map_lecp_profile f lecp = lecp\<lparr>lcp_parent := (lcp_parent lecp)\<lparr>lgn_parent := f (lgn_parent (lcp_parent lecp))\<rparr>\<rparr>"

section \<open>The service provider\<close>

definition lasso_lecp_init_authn_request ::
  "environment \<Rightarrow> message_io \<Rightarrow> string \<Rightarrow> lasso_lecp \<Rightarrow> cstr \<Rightarrow> int \<times> lasso_lecp" where
  "lasso_lecp_init_authn_request env io uid lecp remote_providerID =
     (let (rc, lg) = lasso_login_init_authn_request env io uid (lcp_parent lecp) remote_providerID LASSO_HTTP_METHOD_POST
      in (rc, lecp\<lparr>lcp_parent := lg\<rparr>))"

text \<open>The request is one object of the profile and of the envelope: the key files are noted at both places.  A request of another
  class is cast without a test.\<close>

definition lasso_lecp_build_authn_request_envelope_msg :: "lecp_io \<Rightarrow> lasso_lecp \<Rightarrow> (int \<times> lasso_lecp) option" where
  "lasso_lecp_build_authn_request_envelope_msg lio lecp =
     (let p = lgn_parent (lcp_parent lecp) in
      case prf_server p of
        None \<Rightarrow> Some (LASSO_PROFILE_ERROR_UNKNOWN_PROFILE_URL, lecp)
      | Some server \<Rightarrow>
          (case lasso_provider_get_assertion_consumer_service_url (srv_parent server) None of
             None \<Rightarrow> Some (LASSO_PROFILE_ERROR_UNKNOWN_PROFILE_URL, lecp)
           | Some url \<Rightarrow>
               if prf_request p = None then Some (LASSO_PROFILE_ERROR_MISSING_REQUEST, lecp)
               else case lib_authn_request_of p of
                      None \<Rightarrow> None
                    | Some request \<Rightarrow>
                        (let request = request\<lparr>sra_private_key_file := srv_private_key server,
                                               sra_certificate_file := srv_certificate server\<rparr>;
                             envelope = lasso_lib_authn_request_envelope_new_full request (prv_ProviderID (srv_parent server)) (Some url);
                             body = lci_request_envelope_text lio envelope
                         in Some (if body = None then LASSO_PROFILE_ERROR_BUILDING_REQUEST_FAILED else 0,
                                  map_lecp_profile (\<lambda>p. (set_lib_authn_request request p)\<lparr>prf_msg_body := body\<rparr>)
                                    (lecp\<lparr>lcp_authnRequestEnvelope := Some envelope\<rparr>)))))"

section \<open>The client\<close>

text \<open>The XPath expression \<^verbatim>\<open>//lib:AuthnRequest\<close> in document order.\<close>

abbreviation LASSO_LIB_HREF :: string where "LASSO_LIB_HREF \<equiv> ''urn:liberty:iff:2003-08''"

fun authn_request_nodes :: "xml \<Rightarrow> xml list" where
  "authn_request_nodes (Text t) = []"
| "authn_request_nodes (Element name ns props cs) =
     (if name = ''AuthnRequest'' \<and> ns = Some LASSO_LIB_HREF then [Element name ns props cs] else []) @
     concat (map authn_request_nodes cs)"

text \<open>A new SOAP envelope around a node; the body inherits the namespace of the envelope.\<close>

definition soap_around :: "xml \<Rightarrow> xml" where
  "soap_around node = Element ''Envelope'' (Some LASSO_SOAP_ENV_HREF) [] [Element ''Body'' (Some LASSO_SOAP_ENV_HREF) [] [node]]"

text \<open>A text that cannot be parsed has no nodes.\<close>

definition lasso_lecp_process_authn_request_envelope_msg :: "lecp_io \<Rightarrow> lasso_lecp \<Rightarrow> cstr \<Rightarrow> int \<times> lasso_lecp" where
  "lasso_lecp_process_authn_request_envelope_msg lio lecp request_msg =
     (case request_msg of
        None \<Rightarrow> (LASSO_PARAM_ERROR_INVALID_VALUE, lecp)
      | Some msg \<Rightarrow>
          (case (case lci_xmlParseMemory lio msg of None \<Rightarrow> [] | Some doc \<Rightarrow> authn_request_nodes doc) of
             [] \<Rightarrow> (LASSO_PROFILE_ERROR_INVALID_MSG, lecp)
           | authn_request # _ \<Rightarrow>
               (0, map_lecp_profile (\<lambda>p. p\<lparr>prf_msg_body := lci_xmlnode_to_string lio (soap_around authn_request)\<rparr>) lecp)))"

definition lasso_lecp_build_authn_request_msg :: "lasso_lecp \<Rightarrow> int \<times> lasso_lecp" where
  "lasso_lecp_build_authn_request_msg lecp =
     (let p = lgn_parent (lcp_parent lecp) in
      if prf_remote_providerID p = None then (LASSO_PROFILE_ERROR_MISSING_REMOTE_PROVIDERID, lecp)
      else case lasso_server_get_provider (prf_server p) (prf_remote_providerID p) of
             None \<Rightarrow> (LASSO_SERVER_ERROR_PROVIDER_NOT_FOUND, lecp)
           | Some remote \<Rightarrow>
               (if prf_msg_body p = None then LASSO_PROFILE_ERROR_BUILDING_MESSAGE_FAILED else 0,
                map_lecp_profile (\<lambda>p. p\<lparr>prf_msg_url := lasso_provider_get_metadata_one remote ''SingleSignOnServiceURL''\<rparr>) lecp))"

text \<open>The class of the envelope has no fields for queries, so that nothing is read from one.\<close>

definition lasso_lecp_process_authn_response_envelope_msg ::
  "environment \<Rightarrow> lecp_io \<Rightarrow> lasso_lecp \<Rightarrow> cstr \<Rightarrow> int \<times> lasso_lecp" where
  "lasso_lecp_process_authn_response_envelope_msg env lio lecp response_msg =
     (case response_msg of
        None \<Rightarrow> (LASSO_PARAM_ERROR_INVALID_VALUE, lecp)
      | Some msg \<Rightarrow>
          (let (format, envelope) = lasso_node_init_from_message env (lci_response_envelope lio)
                 (\<lambda>_. (False, lasso_lib_authn_response_envelope_new None None)) msg;
               lecp = lecp\<lparr>lcp_authnResponseEnvelope := Some envelope\<rparr>
           in if bad_format format then (LASSO_PROFILE_ERROR_INVALID_MSG, lecp)
              else
                let lecp = map_lecp_profile (\<lambda>p. p\<lparr>prf_response :=
                      map_option (\<lambda>r. IdffNode (LibAuthnResponse r)) (ape_AuthnResponse envelope)\<rparr>) lecp
                in if ape_AuthnResponse envelope = None then (LASSO_PROFILE_ERROR_MISSING_RESPONSE, lecp)
                   else (if ape_AssertionConsumerServiceURL envelope = None then LASSO_PROFILE_ERROR_UNKNOWN_PROFILE_URL else 0,
                         lecp\<lparr>lcp_assertionConsumerServiceURL := ape_AssertionConsumerServiceURL envelope\<rparr>)))"

definition lasso_lecp_build_authn_response_msg :: "message_io \<Rightarrow> lasso_lecp \<Rightarrow> int \<times> lasso_lecp" where
  "lasso_lecp_build_authn_response_msg io lecp =
     (let lecp = map_lecp_profile (\<lambda>p. (lasso_profile_clean_msg_info p)\<lparr>prf_msg_url := lcp_assertionConsumerServiceURL lecp\<rparr>) lecp
      in if lcp_assertionConsumerServiceURL lecp = None then (LASSO_PROFILE_ERROR_UNKNOWN_PROFILE_URL, lecp)
         else
           let body = Option.bind (prf_response (lgn_parent (lcp_parent lecp))) (mio_export_base64 io)
           in (if body = None then LASSO_PROFILE_ERROR_BUILDING_MESSAGE_FAILED else 0,
               map_lecp_profile (\<lambda>p. p\<lparr>prf_msg_body := body\<rparr>) lecp))"

section \<open>The identity provider\<close>

definition lasso_lecp_process_authn_request_msg ::
  "environment \<Rightarrow> message_io \<Rightarrow> idff_io \<Rightarrow> string \<Rightarrow> lasso_lecp \<Rightarrow> cstr \<Rightarrow> (int \<times> lasso_lecp) option" where
  "lasso_lecp_process_authn_request_msg env io iio uid lecp authn_request_msg =
     (if authn_request_msg = None then Some (LASSO_PARAM_ERROR_INVALID_VALUE, lecp)
      else map_option (\<lambda>(rc, lg). (rc, lecp\<lparr>lcp_parent := lg\<rparr>))
             (lasso_login_process_authn_request_msg env io iio uid (lcp_parent lecp) authn_request_msg))"

text \<open>The response of the profile; one of another class counts as missing.\<close>

definition lib_authn_response_of :: "lasso_profile \<Rightarrow> lib_authn_response option" where
  "lib_authn_response_of p = (case prf_response p of Some (IdffNode (LibAuthnResponse r)) \<Rightarrow> Some r | _ \<Rightarrow> None)"

text \<open>The envelope around the response, once that is built.  The response is one object of the profile and of the envelope.\<close>

definition wrap_response :: "lecp_io \<Rightarrow> lasso_provider \<Rightarrow> lasso_server \<Rightarrow> lasso_lecp \<Rightarrow> (int \<times> lasso_lecp) option" where
  "wrap_response lio provider server lecp =
     (case lasso_provider_get_assertion_consumer_service_url provider None of
        None \<Rightarrow> Some (LASSO_PROFILE_ERROR_UNKNOWN_PROFILE_URL, lecp)
      | Some url \<Rightarrow>
          (case lib_authn_response_of (lgn_parent (lcp_parent lecp)) of
             None \<Rightarrow> None
           | Some r \<Rightarrow>
               (let r = r\<lparr>spa_private_key_file := srv_private_key server, spa_certificate_file := srv_certificate server\<rparr>;
                    envelope = lasso_lib_authn_response_envelope_new (Some r) (Some url);
                    body = lci_response_envelope_soap lio envelope
                in Some (if body = None then LASSO_PROFILE_ERROR_BUILDING_MESSAGE_FAILED else 0,
                         map_lecp_profile (\<lambda>p. p\<lparr>prf_response := Some (IdffNode (LibAuthnResponse r)), prf_msg_url := None,
                                                 prf_msg_body := body\<rparr>) (lecp\<lparr>lcp_authnResponseEnvelope := Some envelope\<rparr>)))))"

text \<open>The result of building the response itself is not looked at.\<close>

definition lasso_lecp_build_authn_response_envelope_msg ::
  "environment \<Rightarrow> message_io \<Rightarrow> lecp_io \<Rightarrow> 8 word list \<Rightarrow> lasso_lecp \<Rightarrow> (int \<times> lasso_lecp) option" where
  "lasso_lecp_build_authn_response_envelope_msg env io lio rnd lecp =
     (let p = lgn_parent (lcp_parent lecp) in
      if lib_authn_response_of p = None then Some (LASSO_PROFILE_ERROR_MISSING_RESPONSE, lecp)
      else case (lasso_server_get_provider (prf_server p) (prf_remote_providerID p), prf_server p) of
             (Some provider, Some server) \<Rightarrow>
               (case lasso_login_build_authn_response_msg env io rnd (lcp_parent lecp) of
                  None \<Rightarrow> None
                | Some (_, lg) \<Rightarrow> wrap_response lio provider server (lecp\<lparr>lcp_parent := lg\<rparr>))
           | _ \<Rightarrow> Some (LASSO_SERVER_ERROR_PROVIDER_NOT_FOUND, lecp))"

section \<open>Laws\<close>

lemma lecp_profile_simps [simp]:
  "lgn_parent (lcp_parent (map_lecp_profile f lecp)) = f (lgn_parent (lcp_parent lecp))"
  "lcp_authnResponseEnvelope (map_lecp_profile f lecp) = lcp_authnResponseEnvelope lecp"
  "lcp_authnRequestEnvelope (map_lecp_profile f lecp) = lcp_authnRequestEnvelope lecp"
  "lcp_assertionConsumerServiceURL (map_lecp_profile f lecp) = lcp_assertionConsumerServiceURL lecp"
  by (simp_all add: map_lecp_profile_def)

lemma authn_request_nodes_element:
  "n \<in> set (authn_request_nodes doc) \<Longrightarrow> is_element n \<and> xml_name n = ''AuthnRequest'' \<and> xml_ns n = Some LASSO_LIB_HREF"
  by (induction doc rule: authn_request_nodes.induct) (auto simp: is_element_def split: if_splits)

text \<open>What the client sends has one body and no header: it is read as the node that was put there, and that node is the
  one whose signature is verified.\<close>

lemma soap_around_content: "is_element n \<Longrightarrow> lasso_xml_get_soap_content (soap_around n) = Some n \<and> lasso_xml_is_soap (soap_around n)"
  by (simp add: soap_around_def lasso_xml_get_soap_content_def lasso_xml_is_soap_def lasso_xml_is_element_node_def
      lasso_xml_soap11_get_body_def lasso_xml_soap11_get_header_def lasso_xml_next_element_node_def children_of_def
      xmlFirstElement_def is_element_def Let_def)

lemma soap_around_verified:
  assumes "is_element n" and "xml_parse s = Some (soap_around n)"
  shows "message_root lib xml_parse LASSO_MESSAGE_FORMAT_SOAP s = Some (Some n)"
  by (rule soap_verified_is_read[where body = "Element ''Body'' (Some LASSO_SOAP_ENV_HREF) [] [n]" and rest = "[]"
        and name = "''Envelope''" and ns = "Some LASSO_SOAP_ENV_HREF" and props = "[]"])
    (use assms soap_around_content[OF assms(1)] in \<open>simp_all add: soap_around_def is_element_def lasso_xml_soap11_get_header_def
       lasso_xml_next_element_node_def children_of_def lasso_xml_is_element_node_def\<close>)

lemma soap_around_read:
  assumes "is_element n" and "env_xml_parse env s = Some (soap_around n)" and "CHR ''<'' \<in> set s" and "\<not> is_base64 s"
    and "init (Some n) = (0, request)"
  shows "lasso_node_init_from_message env init q s = (LASSO_MESSAGE_FORMAT_SOAP, request)"
  using assms soap_around_content[OF assms(1)]
  by (simp add: lasso_node_init_from_message_def lasso_node_init_from_message_with_format_def Let_def split_beta)

text \<open>C19: The client takes the first authentication request out of the envelope that the service provider sent, whatever surrounds
  it there, and sends it to the single sign-on address of the identity provider.  The identity provider then processes the
  request that this very element describes, and the signature it verifies for the message is that of this element.  The text of
  a tree is taken to be parsed as that tree.\<close>

theorem lecp_request_relayed:
  assumes "lci_xmlParseMemory lio msg = Some doc" and "authn_request_nodes doc = n # rest"
    and "lci_xmlnode_to_string lio (soap_around n) = Some s" and "env_xml_parse env s = Some (soap_around n)"
    and "CHR ''<'' \<in> set s" and "\<not> is_base64 s" and "iio_authn_request iio (Some n) = (0, request)"
    and "prf_remote_providerID (lgn_parent (lcp_parent lecp)) = Some i"
    and "lasso_server_get_provider (prf_server (lgn_parent (lcp_parent lecp))) (Some i) = Some remote"
    and "\<not> server_is_saml2 (lgn_parent (lcp_parent idp))"
  shows "\<exists>lecp1 lecp2. lasso_lecp_process_authn_request_envelope_msg lio lecp (Some msg) = (0, lecp1) \<and>
    lasso_lecp_build_authn_request_msg lecp1 = (0, lecp2) \<and>
    prf_msg_url (lgn_parent (lcp_parent lecp2)) = lasso_provider_get_metadata_one remote ''SingleSignOnServiceURL'' \<and>
    lasso_lecp_process_authn_request_msg env io iio uid idp (prf_msg_body (lgn_parent (lcp_parent lecp2))) =
      map_option (\<lambda>(rc, lg). (rc, idp\<lparr>lcp_parent := lg\<rparr>))
        (process_lib_authn_request env uid ((lcp_parent idp)\<lparr>lgn_parent := (set_lib_authn_request request (lgn_parent (lcp_parent idp)))
             \<lparr>prf_remote_providerID := lar_ProviderID request, prf_msg_relayState := lar_RelayState request\<rparr>\<rparr>)
           request (prf_msg_body (lgn_parent (lcp_parent lecp2))) LASSO_MESSAGE_FORMAT_SOAP) \<and>
    (\<exists>sent. prf_msg_body (lgn_parent (lcp_parent lecp2)) = Some sent \<and>
       message_root (env_lib env) (env_xml_parse env) LASSO_MESSAGE_FORMAT_SOAP sent = Some (Some n))"
proof -
  have n: "is_element n" using authn_request_nodes_element[of n doc] assms(2) by simp
  have read: "lasso_node_init_from_message env (iio_authn_request iio) q s = (LASSO_MESSAGE_FORMAT_SOAP, request)" for q
    using soap_around_read[OF n assms(4-6), of "iio_authn_request iio"] assms(7) by blast
  have relayed: "lasso_lecp_process_authn_request_envelope_msg lio lecp (Some msg) =
      (0, map_lecp_profile (\<lambda>p. p\<lparr>prf_msg_body := Some s\<rparr>) lecp)"
    using assms(1-3) by (simp add: lasso_lecp_process_authn_request_envelope_msg_def)
  show ?thesis
    using soap_around_verified[where s = s and xml_parse = "env_xml_parse env", OF n assms(4), of "env_lib env"] assms(8-10)
    by (simp add: relayed lasso_lecp_build_authn_request_msg_def lasso_lecp_process_authn_request_msg_def
        lasso_login_process_authn_request_msg_def idff_login_process_authn_request_msg_def read bad_format_def)
qed

text \<open>The envelope that is built, and what it holds.\<close>

lemma wrap_response_ok:
  assumes "wrap_response lio provider server lecp = Some (0, lecp')"
  obtains r url s where "lasso_provider_get_assertion_consumer_service_url provider None = Some url"
    and "lib_authn_response_of (lgn_parent (lcp_parent lecp')) = Some r"
    and "lcp_authnResponseEnvelope lecp' = Some (lasso_lib_authn_response_envelope_new (Some r) (Some url))"
    and "prf_msg_body (lgn_parent (lcp_parent lecp')) = Some s"
    and "lci_response_envelope_soap lio (lasso_lib_authn_response_envelope_new (Some r) (Some url)) = Some s"
  using assms by (auto simp: wrap_response_def Let_def lib_authn_response_of_def split: option.splits if_splits)

lemma build_envelope_ok:
  assumes "lasso_lecp_build_authn_response_envelope_msg env io lio rnd idp = Some (0, idp')"
  obtains provider server lg where
    "lasso_server_get_provider (prf_server (lgn_parent (lcp_parent idp))) (prf_remote_providerID (lgn_parent (lcp_parent idp))) = Some provider"
    and "wrap_response lio provider server (idp\<lparr>lcp_parent := lg\<rparr>) = Some (0, idp')"
  using assms by (auto simp: lasso_lecp_build_authn_response_envelope_msg_def Let_def split: option.splits if_splits prod.splits)

text \<open>C20: The response of the identity provider reaches the service provider: when the envelope is built and the client reads
  back its address and the response, as far as it arrives, then the client posts that response, and it posts it to the
  default address that the metadata of the service provider has at the identity provider.\<close>

theorem lecp_response_returned:
  assumes "lasso_lecp_build_authn_response_envelope_msg env io lio rnd idp = Some (0, idp')"
    and "lasso_server_get_provider (prf_server (lgn_parent (lcp_parent idp))) (prf_remote_providerID (lgn_parent (lcp_parent idp))) = Some sp"
    and "\<And>e s q. lci_response_envelope_soap lio e = Some s \<Longrightarrow>
      \<exists>e'. lasso_node_init_from_message env' (lci_response_envelope lio) q s = (LASSO_MESSAGE_FORMAT_SOAP, e') \<and>
        ape_AssertionConsumerServiceURL e' = ape_AssertionConsumerServiceURL e \<and>
        ape_AuthnResponse e' = map_option received (ape_AuthnResponse e)"
    and "\<And>r. mio_export_base64 io (IdffNode (LibAuthnResponse (received r))) = Some (text r)"
  shows "\<exists>r lecp1 lecp2. lib_authn_response_of (lgn_parent (lcp_parent idp')) = Some r \<and>
    lasso_lecp_process_authn_response_envelope_msg env' lio lecp (prf_msg_body (lgn_parent (lcp_parent idp'))) = (0, lecp1) \<and>
    lasso_lecp_build_authn_response_msg io lecp1 = (0, lecp2) \<and>
    prf_msg_url (lgn_parent (lcp_parent lecp2)) = lasso_provider_get_assertion_consumer_service_url sp None \<and>
    prf_msg_body (lgn_parent (lcp_parent lecp2)) = Some (text r)"
proof -
  obtain server lg where w: "wrap_response lio sp server (idp\<lparr>lcp_parent := lg\<rparr>) = Some (0, idp')"
    using build_envelope_ok[OF assms(1)] assms(2) by (metis option.inject)
  obtain r url s where r: "lasso_provider_get_assertion_consumer_service_url sp None = Some url"
    "lib_authn_response_of (lgn_parent (lcp_parent idp')) = Some r" "prf_msg_body (lgn_parent (lcp_parent idp')) = Some s"
    "lci_response_envelope_soap lio (lasso_lib_authn_response_envelope_new (Some r) (Some url)) = Some s"
    by (rule wrap_response_ok[OF w])
  obtain e where e: "lasso_node_init_from_message env' (lci_response_envelope lio)
      (\<lambda>_. (False, lasso_lib_authn_response_envelope_new None None)) s = (LASSO_MESSAGE_FORMAT_SOAP, e)"
    "ape_AssertionConsumerServiceURL e = Some url" "ape_AuthnResponse e = Some (received r)"
    using assms(3)[OF r(4), of "\<lambda>_. (False, lasso_lib_authn_response_envelope_new None None)"]
    by (auto simp: lasso_lib_authn_response_envelope_new_def)
  show ?thesis
    using r e assms(4)
    by (simp add: lasso_lecp_process_authn_response_envelope_msg_def lasso_lecp_build_authn_response_msg_def
        lasso_profile_clean_msg_info_def bad_format_def Let_def)
qed

text \<open>A response that could not be built and signed is put into an envelope all the same: for a request that asked for an artifact
  the response is refused, and the envelope holds the response as it was, with the result 0.\<close>

theorem lecp_envelope_despite_failure:
  assumes "\<not> server_is_saml2 (lgn_parent (lcp_parent idp))"
    and "lgn_protocolProfile (lcp_parent idp) = LASSO_LOGIN_PROTOCOL_PROFILE_BRWS_ART"
    and "lib_authn_response_of (lgn_parent (lcp_parent idp)) = Some r" and "prf_server (lgn_parent (lcp_parent idp)) = Some server"
    and "lasso_server_get_provider (Some server) (prf_remote_providerID (lgn_parent (lcp_parent idp))) = Some sp"
    and "lasso_provider_get_assertion_consumer_service_url sp None = Some url"
    and "\<And>e. lci_response_envelope_soap lio e = Some (text e)"
  shows "\<exists>idp' lg. lasso_lecp_build_authn_response_envelope_msg env io lio rnd idp = Some (0, idp') \<and>
    lasso_login_build_authn_response_msg env io rnd (lcp_parent idp) = Some (LASSO_PROFILE_ERROR_INVALID_PROTOCOLPROFILE, lg) \<and>
    Option.bind (lcp_authnResponseEnvelope idp') ape_AuthnResponse =
      Some (r\<lparr>spa_private_key_file := srv_private_key server, spa_certificate_file := srv_certificate server\<rparr>)"
  using assms
  by (auto simp: lasso_lecp_build_authn_response_envelope_msg_def lasso_login_build_authn_response_msg_def
      idff_login_build_authn_response_msg_def wrap_response_def lib_authn_response_of_def lasso_profile_clean_msg_info_def
      lasso_lib_authn_response_envelope_new_def Let_def)

section \<open>A conversation\<close>

definition sample_lecp_sp :: lasso_provider where
  "sample_lecp_sp = (sample_idff_provider ''sp'' LASSO_PROVIDER_ROLE_SP)\<lparr>prv_default_assertion_consumer := Some ''a'',
     prv_Descriptors := [(''sp AssertionConsumerServiceURL a'', [''https://sp/acs''])]\<rparr>"

definition sample_lecp_idp :: lasso_lecp where
  "sample_lecp_idp = (lasso_lecp_new sample_lib_idp_server)\<lparr>lcp_parent := (sample_lib_idp_login None)
     \<lparr>lgn_parent := (lgn_parent (sample_lib_idp_login None))\<lparr>prf_server := Some (sample_lib_idp_server\<lparr>srv_providers := [(''sp'', sample_lecp_sp)]\<rparr>)\<rparr>,
      lgn_protocolProfile := LASSO_LOGIN_PROTOCOL_PROFILE_BRWS_LECP\<rparr>\<rparr>"

definition sample_authn_node :: xml where
  "sample_authn_node = Element ''AuthnRequest'' (Some LASSO_LIB_HREF) [] []"

definition sample_lecp_env :: environment where
  "sample_lecp_env = sample_env\<lparr>env_xml_parse := \<lambda>_. Some (soap_around sample_authn_node)\<rparr>"

definition sample_lib_response :: lib_authn_response where
  "sample_lib_response = lasso_lib_authn_response_new sample_env ''r'' (Some ''idp'') sample_lib_request"

definition sample_lecp_io :: lecp_io where
  "sample_lecp_io = \<lparr>lci_xmlParseMemory = \<lambda>_. Some (Element ''AuthnRequestEnvelope'' (Some LASSO_LIB_HREF) [] [sample_authn_node]),
     lci_xmlnode_to_string = \<lambda>_. Some ''<e/>'', lci_request_envelope_text = \<lambda>_. Some ''<q/>'',
     lci_response_envelope_soap = \<lambda>e. if ape_AssertionConsumerServiceURL e = Some ''https://sp/acs'' \<and> ape_AuthnResponse e \<noteq> None
                                       then Some ''<s/>'' else None,
     lci_response_envelope = \<lambda>_. (0, lasso_lib_authn_response_envelope_new (Some sample_lib_response) (Some ''https://sp/acs''))\<rparr>"

lemma sample_lecp_simps:
  "prf_server (lgn_parent (lcp_parent sample_lecp_idp)) = Some (sample_lib_idp_server\<lparr>srv_providers := [(''sp'', sample_lecp_sp)]\<rparr>)"
  "prf_remote_providerID (lgn_parent (lcp_parent sample_lecp_idp)) = Some ''sp''"
  "lasso_server_get_provider (Some (sample_lib_idp_server\<lparr>srv_providers := [(''sp'', sample_lecp_sp)]\<rparr>)) (Some ''sp'') = Some sample_lecp_sp"
  "\<not> server_is_saml2 (lgn_parent (lcp_parent sample_lecp_idp))"
  "lgn_protocolProfile (lcp_parent sample_lecp_idp) = LASSO_LOGIN_PROTOCOL_PROFILE_BRWS_LECP" "lgn_assertion (lcp_parent sample_lecp_idp) = None"
  "prf_request (lgn_parent (lcp_parent sample_lecp_idp)) = Some (IdffNode (LibAuthnRequest sample_lib_request))"
  "prf_response (lgn_parent (lcp_parent sample_lecp_idp)) = Some (IdffNode (LibAuthnResponse sample_lib_response))"
  "lasso_provider_get_assertion_consumer_service_url sample_lecp_sp None = Some ''https://sp/acs''"
  by (simp_all add: sample_lecp_idp_def sample_lib_idp_simps server_is_saml2_def lasso_server_get_provider_def ght_lookup_def
      sample_lib_idp_login_def lib_authn_request_of_def sample_lib_response_def sample_lib_idp_server_def sample_lecp_sp_def
      sample_idff_provider_def provider_instance_init_def lasso_provider_get_assertion_consumer_service_url_def
      lasso_provider_get_metadata_one_for_role_def lasso_provider_get_metadata_list_for_role_def role_to_prefix_def printf_string_def
      lasso_provider_get_role_index_def
      lasso_login_new_def)


lemma sample_lecp_context:
  "\<exists>c. lasso_server_get_signature_context_for_provider_by_name sample_lecp_env
     (Some (sample_lib_idp_server\<lparr>srv_providers := [(''sp'', sample_lecp_sp)]\<rparr>)) (Some ''sp'') = (0, c)"
  by (simp add: lasso_server_get_signature_context_for_provider_by_name_def lasso_server_get_signature_context_for_provider_def
      lasso_server_get_provider_def ght_lookup_def sample_lecp_sp_def sample_lib_idp_server_def sample_idff_provider_def provider_instance_init_def
      lasso_server_get_signature_context_def lasso_make_signature_context_from_path_or_string_def sample_env_def sample_lecp_env_def
      lasso_validate_signature_context_def lasso_validate_signature_method_def server_instance_init_def Let_def)

lemma sample_envelope_built:
  "\<exists>idp'. lasso_lecp_build_authn_response_envelope_msg sample_lecp_env sample_io sample_lecp_io [] sample_lecp_idp = Some (0, idp')"
proof -
  obtain c where c: "lasso_server_get_signature_context_for_provider_by_name sample_lecp_env
      (Some (sample_lib_idp_server\<lparr>srv_providers := [(''sp'', sample_lecp_sp)]\<rparr>)) (Some ''sp'') = (0, c)"
    using sample_lecp_context by blast
  show ?thesis
    by (simp add: lasso_lecp_build_authn_response_envelope_msg_def lasso_login_build_authn_response_msg_def sample_lecp_simps
        idff_login_build_authn_response_msg_def add_confirmation_method_def lasso_profile_clean_msg_info_def Let_def c lib_authn_request_of_def
        lasso_node_set_signature_def idff_set_signature_def wrap_response_def lib_authn_response_of_def sample_lecp_io_def
        lasso_lib_authn_response_envelope_new_def)
qed

theorem lecp_response_returned_witness:
  "\<exists>idp' lecp1 lecp2. lasso_lecp_build_authn_response_envelope_msg sample_lecp_env sample_io sample_lecp_io [] sample_lecp_idp = Some (0, idp') \<and>
    lasso_lecp_process_authn_response_envelope_msg sample_lecp_env sample_lecp_io (lasso_lecp_new sample_lib_idp_server)
      (prf_msg_body (lgn_parent (lcp_parent idp'))) = (0, lecp1) \<and> lasso_lecp_build_authn_response_msg sample_io lecp1 = (0, lecp2) \<and>
    prf_msg_url (lgn_parent (lcp_parent lecp2)) = Some ''https://sp/acs'' \<and> prf_msg_body (lgn_parent (lcp_parent lecp2)) = Some ''b64''"
proof -
  let ?e = "lasso_lib_authn_response_envelope_new (Some sample_lib_response) (Some ''https://sp/acs'')"
  obtain idp' where b: "lasso_lecp_build_authn_response_envelope_msg sample_lecp_env sample_io sample_lecp_io [] sample_lecp_idp = Some (0, idp')"
    using sample_envelope_built by blast
  have read: "lasso_node_init_from_message sample_lecp_env (lci_response_envelope sample_lecp_io) q ''<s/>'' = (LASSO_MESSAGE_FORMAT_SOAP, ?e)" for q
    by (rule soap_around_read[where n = sample_authn_node])
      (simp_all add: sample_authn_node_def is_element_def sample_lecp_env_def sample_lecp_io_def is_base64_def is_alnum_def)
  have "\<exists>e'. lasso_node_init_from_message sample_lecp_env (lci_response_envelope sample_lecp_io) q s = (LASSO_MESSAGE_FORMAT_SOAP, e') \<and>
      ape_AssertionConsumerServiceURL e' = ape_AssertionConsumerServiceURL e \<and>
      ape_AuthnResponse e' = map_option (\<lambda>_. sample_lib_response) (ape_AuthnResponse e)"
    if "lci_response_envelope_soap sample_lecp_io e = Some s" for e s q
  proof -
    have "s = ''<s/>''" "ape_AssertionConsumerServiceURL e = Some ''https://sp/acs''" "ape_AuthnResponse e \<noteq> None"
      using that by (simp_all add: sample_lecp_io_def split: if_splits)
    then show ?thesis by (auto simp: read lasso_lib_authn_response_envelope_new_def)
  qed
  from lecp_response_returned[OF b _ this, of sample_lecp_sp "\<lambda>_. ''b64''"] b
  show ?thesis by (simp add: sample_lecp_simps) (simp add: sample_io_def)
qed

theorem lecp_request_relayed_witness:
  "\<forall>iio. \<exists>lecp1 lecp2. lasso_lecp_process_authn_request_envelope_msg sample_lecp_io sample_lecp_idp (Some ''<q/>'') = (0, lecp1) \<and>
    lasso_lecp_build_authn_request_msg lecp1 = (0, lecp2) \<and>
    lasso_lecp_process_authn_request_msg sample_lecp_env sample_io (iio\<lparr>iio_authn_request := \<lambda>_. (0, sample_lib_request)\<rparr>) ''u'' sample_lecp_idp
        (prf_msg_body (lgn_parent (lcp_parent lecp2))) =
      map_option (\<lambda>(rc, lg). (rc, sample_lecp_idp\<lparr>lcp_parent := lg\<rparr>)) (process_lib_authn_request sample_lecp_env ''u''
        ((lcp_parent sample_lecp_idp)\<lparr>lgn_parent := (set_lib_authn_request sample_lib_request (lgn_parent (lcp_parent sample_lecp_idp)))
           \<lparr>prf_remote_providerID := lar_ProviderID sample_lib_request, prf_msg_relayState := lar_RelayState sample_lib_request\<rparr>\<rparr>)
        sample_lib_request (prf_msg_body (lgn_parent (lcp_parent lecp2))) LASSO_MESSAGE_FORMAT_SOAP) \<and>
    (\<exists>sent. prf_msg_body (lgn_parent (lcp_parent lecp2)) = Some sent \<and>
       message_root (env_lib sample_lecp_env) (env_xml_parse sample_lecp_env) LASSO_MESSAGE_FORMAT_SOAP sent = Some (Some sample_authn_node))"
(is "\<forall>iio. \<exists>lecp1 lecp2. ?P iio lecp1 lecp2")
proof -
  let ?doc = "Element ''AuthnRequestEnvelope'' (Some LASSO_LIB_HREF) [] [sample_authn_node]"
  have h: "lci_xmlParseMemory sample_lecp_io ''<q/>'' = Some ?doc" "authn_request_nodes ?doc = sample_authn_node # []"
    "lci_xmlnode_to_string sample_lecp_io (soap_around sample_authn_node) = Some ''<e/>''"
    "env_xml_parse sample_lecp_env ''<e/>'' = Some (soap_around sample_authn_node)" "CHR ''<'' \<in> set ''<e/>''" "\<not> is_base64 ''<e/>''"
    by (simp_all add: sample_lecp_io_def sample_lecp_env_def sample_authn_node_def is_base64_def is_alnum_def)
  have "\<exists>lecp1 lecp2. ?P iio lecp1 lecp2" for iio
    using lecp_request_relayed[OF h, of "iio\<lparr>iio_authn_request := \<lambda>_. (0, sample_lib_request)\<rparr>" sample_lib_request sample_lecp_idp
        "''sp''" sample_lecp_sp sample_lecp_idp sample_io "''u''"]
    by (auto simp: sample_lecp_simps)
  then show ?thesis by blast
qed

end
