(* ===== verification/Spec2Isabelle.thy ===== *)
theory Spec2Isabelle
  imports Lasso_Registry Lasso_LoginIdP Lasso_Ecp Lasso_AssertionQuery Lasso_Defederation Lasso_NameRegistration
    Lasso_NameIdMapping Lasso_LogoutIdff Lasso_Lecp
begin

text \<open>
  A verification library for lasso, a C implementation of SAML 2.0 and of the older Liberty ID-FF protocols.

  \<^bold>\<open>The program.\<close>  A \<^emph>\<open>server\<close> object stands for one SAML entity: its own keys and metadata and the
  providers it knows.  A \<^emph>\<open>profile\<close> object carries one conversation: the server, the identity and the
  session of the principal, the request and response in progress, the address and body of the message to send.  The
  protocols are refinements of the profile: single sign-on (\<^emph>\<open>login\<close>), single logout, name identifier
  management.  The \<^emph>\<open>identity\<close> holds the federations of the principal, that is the name identifiers agreed with
  each provider; the \<^emph>\<open>session\<close> holds the assertions received or sent and the session indexes that a logout
  refers to.  The application dumps and restores both between two requests.

  \<^bold>\<open>The theories\<close>, each of which names its C files in its opening text (all under \<^verbatim>\<open>src/lasso\<close>):
  \<^item> \<open>Lasso_Errors\<close>, \<open>Lasso_Strings\<close>: the return codes of \<^verbatim>\<open>errors.h\<close> and the URIs of
    \<^verbatim>\<open>xml/strings.h\<close> and \<^verbatim>\<open>xml/saml-2.0/saml2_strings.h\<close>.
  \<^item> \<open>Lasso_Prelude\<close>: the GLib hash table and its contract (locale \<open>hash_table\<close>), the helpers of
    \<^verbatim>\<open>utils.h\<close>, components as state machines with an invariant (locale \<open>component\<close>) and as implementations of an
    abstract one (locale \<open>refined_component\<close>).
  \<^item> \<open>Lasso_Registry\<close>: \<^verbatim>\<open>registry.c\<close>, the translation of qualified names.
  \<^item> \<open>Lasso_Nodes\<close>, \<open>Lasso_Messages\<close>: the classes of \<^verbatim>\<open>xml/saml-2.0\<close> as records: assertions and
    their parts, requests, responses, statuses.
  \<^item> \<open>Lasso_Session\<close>: \<^verbatim>\<open>id-ff/session.c\<close>.  \<open>Lasso_Identity\<close>: \<^verbatim>\<open>id-ff/identity.c\<close> and the two
    \<^verbatim>\<open>federation.c\<close>.
  \<^item> \<open>Lasso_Tools\<close>: identifiers and dates of \<^verbatim>\<open>xml/tools.c\<close>.  \<open>Lasso_Assertion\<close>:
    \<^verbatim>\<open>saml-2.0/saml2_helper.c\<close>, the conditions and the subject of an assertion.
  \<^item> \<open>Lasso_Query\<close>, \<open>Lasso_QueryLaws\<close>: the query strings of \<^verbatim>\<open>xml/tools.c\<close>: escaping, splitting, signing and
    verification, compressed messages, relay states; the second theory has what is proved of them.
  \<^item> \<open>Lasso_Soap\<close>: SOAP envelopes and the recognition of the format of a message, of \<^verbatim>\<open>xml/xml.c\<close> and \<^verbatim>\<open>xml/tools.c\<close>.
  \<^item> \<open>Lasso_Provider\<close>, \<open>Lasso_Metadata\<close>: \<^verbatim>\<open>id-ff/provider.c\<close> and \<^verbatim>\<open>saml-2.0/provider.c\<close>, the
    metadata of a provider, its endpoints and keys, the verification of signatures.
  \<^item> \<open>Lasso_Server\<close>: \<^verbatim>\<open>id-ff/server.c\<close> and \<^verbatim>\<open>saml-2.0/server.c\<close>.
  \<^item> \<open>Lasso_Profile\<close>, \<open>Lasso_Artifact\<close>, \<open>Lasso_Bindings\<close>: \<^verbatim>\<open>id-ff/profile.c\<close> and
    \<^verbatim>\<open>saml-2.0/profile.c\<close>, receiving messages, artifacts, sending messages.
  \<^item> \<open>Lasso_Logout\<close>, \<open>Lasso_NameIdManagement\<close>: \<^verbatim>\<open>saml-2.0/logout.c\<close> with the SAML 2.0 branches of
    \<^verbatim>\<open>id-ff/logout.c\<close>, and \<^verbatim>\<open>saml-2.0/name_id_management.c\<close>.
  \<^item> \<open>Lasso_Login\<close>, \<open>Lasso_LoginIdP\<close>: \<^verbatim>\<open>saml-2.0/login.c\<close> with the SAML 2.0 branches of
    \<^verbatim>\<open>id-ff/login.c\<close>, at the service provider and at the identity provider.
  \<^item> \<open>Lasso_Ecp\<close>, \<open>Lasso_AssertionQuery\<close>: \<^verbatim>\<open>saml-2.0/ecp.c\<close> with the SOAP header blocks of \<^verbatim>\<open>xml/ecp\<close>, and
    \<^verbatim>\<open>saml-2.0/assertion_query.c\<close>.
  \<^item> \<open>Lasso_QuerySnippets\<close>, \<open>Lasso_IdffMessages\<close>: how \<^verbatim>\<open>xml/xml.c\<close> writes an ID-FF message into a query and reads
    it back (locale \<open>query_class\<close>), and the messages of \<^verbatim>\<open>xml/lib_*.c\<close> and \<^verbatim>\<open>xml/samlp_*.c\<close> with their query fields.
  \<^item> \<open>Lasso_IdffProfile\<close>, \<open>Lasso_Defederation\<close>, \<open>Lasso_NameRegistration\<close>, \<open>Lasso_NameIdMapping\<close>, \<open>Lasso_LogoutIdff\<close>: the
    protocols of ID-FF 1.2 for principals who are signed on, \<^verbatim>\<open>id-ff/defederation.c\<close>, \<^verbatim>\<open>id-ff/name_registration.c\<close>,
    \<^verbatim>\<open>id-ff/name_identifier_mapping.c\<close> and the other branches of \<^verbatim>\<open>id-ff/logout.c\<close>.
  \<^item> \<open>Lasso_LoginIdff\<close>, \<open>Lasso_LoginIdffLaws\<close>: the single sign-on of ID-FF 1.2, the other branches of \<^verbatim>\<open>id-ff/login.c\<close>, at
    both ends; the second theory has what is proved of it.  \<open>Lasso_Lecp\<close>: its enhanced client, \<^verbatim>\<open>id-ff/lecp.c\<close>.

  \<^bold>\<open>How the code is read.\<close>  A structure is a record whose fields have a prefix for their record; a pointer that may be
  \<^verbatim>\<open>NULL\<close> is an option; a function that returns \<^verbatim>\<open>int\<close> and changes its object returns the code, 0 for
  success, with the changed object.  \<^verbatim>\<open>goto cleanup\<close> is the branch that leaves with the code.  Where the code would
  dereference a null pointer on inputs that a caller can give, the result is \<open>None\<close> or the text of the definition says what
  stands for it.  Objects are values; where two places of the C code share one object and the change through one is
  seen through the other, the definition writes both places (\<open>replace_assertion\<close>, \<open>replace_saml_assertion\<close>, \<open>replace_shared_name\<close>,
  \<open>act_as_idp\<close>).  References are not counted, but where the code frees an object that it goes on to use the result
  is \<open>None\<close> (\<open>rename_federation\<close>).  An \<^verbatim>\<open>int\<close> that counts or indexes characters is kept at 32 bits by \<open>c_int\<close>, a
  \<^verbatim>\<open>size_t\<close> is a word of 64 bits; codes, times and enumeration values, which stay small, are integers.  A hash table is an
  association list whose order stands for the unspecified order in which GLib enumerates it.  The loops of the code
  are over a list or a tree and are structural recursion or a library function, but for
  \<^verbatim>\<open>lasso_get_query_string_param_value\<close>, which may not end and is a partial function; no fuel is used.

  \<^bold>\<open>What is outside.\<close>  libxml2, xmlsec, OpenSSL, the clock and the random generator are parameters: \<open>query_lib\<close> has
  digests, signatures, base64, compression and the unescaping of URIs, \<open>crypto\<close> the verification of one XML signature
  and the loading of keys, \<open>environment\<close> the clock, the policy of the library, the XML parser and the reading of files,
  \<open>message_io\<close>, \<open>idff_io\<close>, \<open>login_io\<close> and \<open>lecp_io\<close> the constructors of the message classes from XML, serialisation and encryption; fresh identifiers are
  arguments (\<open>uid\<close>, \<open>tid\<close>).  Theorems quantify over all of them; the sample values \<open>sample_env\<close>, \<open>sample_io\<close>
  and \<open>sample_crypto\<close> show that the hypotheses can be met.

  \<^bold>\<open>What is shown.\<close>
  \<^item> Sign-on: what a service provider may conclude from a response it accepts, that an assertion is not accepted twice,
    what an accepted assertion leaves in session and identity; that the identity provider answers known
    providers only, sends assertions to addresses of the metadata only, and that the assertion it builds passes the
    checks at the other end once its signature is verified there; where the name identifier comes from; when the principal must authenticate.
  \<^item> Messages: a response or request is taken only from the provider that its issuer names, under the signature
    that provider's keys verify; a signature covers the node it is taken for; artifacts lead back to their sender.
  \<^item> Queries: a message that is sent by the redirect binding arrives and verifies; what the signature of a query covers
    of what is read from it, and what it does not; which loops end, and up to which lengths the buffers fit.
  \<^item> Logout and name identifier management: which requests are accepted, what they change, that a refused one changes
    nothing, that both ends agree on the end of a federation; a change of the identifier frees the federation it changes.
  \<^item> Enhanced client and queries: the client returns a response only to the address that the service provider asked
    for; a query is taken only from a known provider under its signature, and asks for an attribute once.
  \<^item> ID-FF: the query of a message is read back as the message; defederation and registration leave both ends in
    agreement; which logout requests and mapping requests are accepted and what they change; that the registration object
    never reaches an undefined result when it sends a message.  Single sign-on: what a service provider may conclude from
    an artifact response or a posted response, that a federation needs consent, that an artifact leads back to its sender and
    is answered only under a signature, and that both ends hold the same name afterwards.  The enhanced client
    relays the request that the identity provider verifies, and returns the response to an address of the metadata.
  \<^item> State: invariants of session, identity and server over every sequence of operations; the identity implements a map;
    dump and restore are inverse; metadata is loaded only from entities that are vouched for,
    where the flags ask for it.
  \<^item> Helpers: time window and audience of an assertion, choice of endpoints and methods, dates, identifiers.

  Several theorems state what the code does where that is not what its documentation or its purpose says; the text in
  front of each says so.

  \<^bold>\<open>What is not modelled.\<close>  The class descriptions and the generic marshalling of \<^verbatim>\<open>xml/\<close>, which need the GObject type
  system and libxml2 trees; the XML dumps of server, provider, profile and the protocol objects; the
  resource offerings that a build with \<^verbatim>\<open>id-wsf\<close> adds to an assertion; the optional web service frameworks \<^verbatim>\<open>id-wsf\<close> and
  \<^verbatim>\<open>id-wsf-2.0\<close>; bindings and tests.
\<close>

end
